(* ===== verification/JsNumber.thy ===== *)
theory JsNumber
  imports Complex_Main
begin

text \<open>
  Numbers of the runtime, where the code meets texts and \<open>decimal\<close> columns: an exact rational in
  place of a double (no rounding to 53 bits), the two infinities and \<open>NaN\<close>, with the arithmetic
  and the comparisons the code uses; the sign of zero is not kept. \<open>decimal(5,2)\<close> is
  \<open>numeric52\<close>: rounded to two decimals, refused from 1000 on.
\<close>

datatype js_number = NaN | Infinite bool | Finite rat

text \<open>\<open>Infinite True\<close> is \<open>-Infinity\<close>.\<close>

fun jsAdd :: "js_number \<Rightarrow> js_number \<Rightarrow> js_number" where
  "jsAdd (Finite a) (Finite b) = Finite (a + b)"
| "jsAdd (Finite a) (Infinite n) = Infinite n"
| "jsAdd (Infinite n) (Finite b) = Infinite n"
| "jsAdd (Infinite m) (Infinite n) = (if m = n then Infinite m else NaN)"
| "jsAdd NaN b = NaN"
| "jsAdd a NaN = NaN"

fun jsMul :: "js_number \<Rightarrow> js_number \<Rightarrow> js_number" where
  "jsMul (Finite a) (Finite b) = Finite (a * b)"
| "jsMul (Finite a) (Infinite n) = (if a = 0 then NaN else Infinite ((a < 0) \<noteq> n))"
| "jsMul (Infinite n) (Finite b) = (if b = 0 then NaN else Infinite ((b < 0) \<noteq> n))"
| "jsMul (Infinite m) (Infinite n) = Infinite (m \<noteq> n)"
| "jsMul NaN b = NaN"
| "jsMul a NaN = NaN"

text \<open>Division by a positive number, the only one the code makes.\<close>

fun jsDiv :: "js_number \<Rightarrow> js_number \<Rightarrow> js_number" where
  "jsDiv (Finite a) (Finite b) = (if b = 0 then NaN else Finite (a / b))"
| "jsDiv (Finite a) (Infinite n) = Finite 0"
| "jsDiv (Infinite n) (Finite b) = Infinite ((b < 0) \<noteq> n)"
| "jsDiv (Infinite m) (Infinite n) = NaN"
| "jsDiv NaN b = NaN"
| "jsDiv a NaN = NaN"

text \<open>\<open>a <= b\<close>, \<open>a < b\<close>: false as soon as one side is \<open>NaN\<close>.\<close>

fun jsLe :: "js_number \<Rightarrow> js_number \<Rightarrow> bool" where
  "jsLe (Finite a) (Finite b) = (a \<le> b)"
| "jsLe (Finite a) (Infinite n) = (\<not> n)"
| "jsLe (Infinite n) (Finite b) = n"
| "jsLe (Infinite m) (Infinite n) = (m \<or> \<not> n)"
| "jsLe NaN b = False"
| "jsLe a NaN = False"

definition jsLt :: "js_number \<Rightarrow> js_number \<Rightarrow> bool" where
  "jsLt a b \<longleftrightarrow> jsLe a b \<and> \<not> jsLe b a"

text \<open>\<open>===\<close> and \<open>!==\<close> on numbers.\<close>

definition jsEq :: "js_number \<Rightarrow> js_number \<Rightarrow> bool" where
  "jsEq a b \<longleftrightarrow> a = b \<and> a \<noteq> NaN"

text \<open>\<open>Math.round\<close>: half up.\<close>

definition roundRat :: "rat \<Rightarrow> int" where
  "roundRat q = \<lfloor>q + 1 / 2\<rfloor>"

fun jsRound :: "js_number \<Rightarrow> js_number" where
  "jsRound (Finite q) = Finite (of_int (roundRat q))"
| "jsRound n = n"

text \<open>\<open>Math.round(n * 100) / 100\<close>\<close>

definition round2 :: "rat \<Rightarrow> rat" where
  "round2 q = of_int (roundRat (q * 100)) / 100"

fun jsRound2 :: "js_number \<Rightarrow> js_number" where
  "jsRound2 (Finite q) = Finite (round2 q)"
| "jsRound2 n = n"

text \<open>What a \<open>decimal(5,2)\<close> column stores: half away from zero; \<open>None\<close> is a numeric overflow.\<close>

definition sql_round2 :: "rat \<Rightarrow> rat" where
  "sql_round2 q = (if 0 \<le> q then round2 q else - round2 (- q))"

fun numeric52 :: "js_number \<Rightarrow> js_number option" where
  "numeric52 (Finite q) =
     (if \<bar>sql_round2 q\<bar> < 1000 then Some (Finite (sql_round2 q)) else None)"
| "numeric52 (Infinite n) = None"
| "numeric52 NaN = Some NaN"

section \<open>Facts\<close>

lemma jsLt_Finite [simp]: "jsLt (Finite a) (Finite b) \<longleftrightarrow> a < b"
  by (auto simp: jsLt_def)

lemma jsLt_NaN [simp]: "\<not> jsLt NaN b" "\<not> jsLt a NaN"
  by (cases a; simp add: jsLt_def) (cases a; simp add: jsLt_def)

lemma jsLe_trans: "jsLe a b \<Longrightarrow> jsLe b c \<Longrightarrow> jsLe a c"
  by (cases a; cases b; cases c) auto

lemma jsLt_trans: "jsLt a b \<Longrightarrow> jsLt b c \<Longrightarrow> jsLt a c"
  unfolding jsLt_def using jsLe_trans by blast

lemma jsLt_irrefl [simp]: "\<not> jsLt a a"
  by (simp add: jsLt_def)

lemma roundRat_of_int [simp]: "roundRat (of_int n) = n"
  unfolding roundRat_def by linarith

lemma roundRat_mono: "a \<le> b \<Longrightarrow> roundRat a \<le> roundRat b"
  unfolding roundRat_def by (rule floor_mono) simp

lemma roundRat_bounds: "q - 1 / 2 < of_int (roundRat q)" "of_int (roundRat q) \<le> q + 1 / 2"
  unfolding roundRat_def by linarith+

lemma round2_mono: "a \<le> b \<Longrightarrow> round2 a \<le> round2 b"
  unfolding round2_def using roundRat_mono [of "a * 100" "b * 100"] by simp

lemma round2_of_int [simp]: "round2 (of_int n) = of_int n"
  unfolding round2_def using roundRat_of_int [of "n * 100"] by simp

lemma round2_numeral [simp]: "round2 (numeral n) = numeral n"
  using round2_of_int [of "numeral n"] by simp

lemma round2_0 [simp]: "round2 0 = 0" and round2_1 [simp]: "round2 1 = 1"
  using round2_of_int [of 0] round2_of_int [of 1] by simp_all

lemma round2_idem [simp]: "round2 (round2 q) = round2 q"
  by (simp add: round2_def)

lemma round2_between: "of_int a \<le> q \<Longrightarrow> q \<le> of_int b \<Longrightarrow> of_int a \<le> round2 q \<and> round2 q \<le> of_int b"
  using round2_mono [of "of_int a" q] round2_mono [of q "of_int b"] by simp

lemma sql_round2_nonneg: "0 \<le> q \<Longrightarrow> sql_round2 q = round2 q"
  by (simp add: sql_round2_def)

end
