(* ===== verification/Prelude.thy ===== *)
theory Prelude
  imports Main "HOL-Library.Multiset"
begin

text \<open>
  The shared vocabulary of the development.

  \<^item> \<open>eff\<close>: the effect of an \<open>async\<close> service method. A method reads and writes the
    state and ends either with an exception (\<open>Inl\<close>) or a value (\<open>Inr\<close>); what it
    wrote before an exception stays written. \<open>bindE\<close> is \<open>await\<close> followed by the rest of
    the method, \<open>tryCatch\<close> is \<open>try / catch\<close>.
  \<^item> \<open>triple\<close>: a partial-correctness judgement with separate postconditions for the
    normal and the exceptional exit, and \<open>preserves\<close> / \<open>keeps\<close> built on it. The rules
    are collected in \<open>keeping\<close>, the unfolding equations in \<open>eff_simps\<close>, and in
    \<open>returns\<close> the characterisations of a normal exit.
  \<^item> tables: a table is the list of its rows in insertion order; \<open>find_latest\<close> is
    \<open>findOne\<close> with \<open>order: createdAt DESC\<close>, \<open>upsert\<close> is \<open>repo.save\<close>, and \<open>index_ok\<close>
    a (partial) unique index.
  \<^item> a locale \<open>rollback\<close> with the laws of an effect that undoes its own failures.
  \<^item> decimal printing of numbers, as \<open>String(n)\<close> and \<open>padStart\<close> do it.
\<close>

named_theorems eff_simps
named_theorems keeping
named_theorems returns

section \<open>Effects\<close>

type_synonym ('s, 'e, 'a) eff = "'s \<Rightarrow> ('e + 'a) \<times> 's"

definition ret :: "'a \<Rightarrow> ('s, 'e, 'a) eff" where
  "ret x s = (Inr x, s)"

definition throw :: "'e \<Rightarrow> ('s, 'e, 'a) eff" where
  "throw e s = (Inl e, s)"

definition bindE :: "('s, 'e, 'a) eff \<Rightarrow> ('a \<Rightarrow> ('s, 'e, 'b) eff) \<Rightarrow> ('s, 'e, 'b) eff" where
  "bindE m f s = (case m s of (Inl e, s') \<Rightarrow> (Inl e, s') | (Inr x, s') \<Rightarrow> f x s')"

definition gets :: "('s \<Rightarrow> 'a) \<Rightarrow> ('s, 'e, 'a) eff" where
  "gets f s = (Inr (f s), s)"

definition modify :: "('s \<Rightarrow> 's) \<Rightarrow> ('s, 'e, unit) eff" where
  "modify f s = (Inr (), f s)"

definition require :: "bool \<Rightarrow> 'e \<Rightarrow> ('s, 'e, unit) eff" where
  "require c e = (if c then ret () else throw e)"

definition tryCatch :: "('s, 'e, 'a) eff \<Rightarrow> ('e \<Rightarrow> ('s, 'e, 'a) eff) \<Rightarrow> ('s, 'e, 'a) eff" where
  "tryCatch m h s = (case m s of (Inl e, s') \<Rightarrow> h e s' | (Inr x, s') \<Rightarrow> (Inr x, s'))"

definition someOr :: "'e \<Rightarrow> 'a option \<Rightarrow> ('s, 'e, 'a) eff" where
  "someOr e opt = (case opt of None \<Rightarrow> throw e | Some x \<Rightarrow> ret x)"

primrec forEach :: "'a list \<Rightarrow> ('a \<Rightarrow> ('s, 'e, unit) eff) \<Rightarrow> ('s, 'e, unit) eff" where
  "forEach [] f = ret ()"
| "forEach (x # xs) f = bindE (f x) (\<lambda>_. forEach xs f)"

lemma ret_apply [eff_simps, simp]: "ret x s = (Inr x, s)"
  by (simp add: ret_def)

lemma throw_apply [eff_simps, simp]: "throw e s = (Inl e, s)"
  by (simp add: throw_def)

lemma gets_apply [eff_simps, simp]: "gets f s = (Inr (f s), s)"
  by (simp add: gets_def)

lemma modify_apply [eff_simps, simp]: "modify f s = (Inr (), f s)"
  by (simp add: modify_def)

lemma require_apply [eff_simps]: "require c e s = (if c then (Inr (), s) else (Inl e, s))"
  by (simp add: require_def)

lemma someOr_apply [eff_simps]:
  "someOr e opt s = (case opt of None \<Rightarrow> (Inl e, s) | Some x \<Rightarrow> (Inr x, s))"
  by (simp add: someOr_def split: option.split)

lemmas bindE_apply [eff_simps] = bindE_def
lemmas tryCatch_apply [eff_simps] = tryCatch_def

lemma bindE_Inr [simp]: "m s = (Inr x, s') \<Longrightarrow> bindE m f s = f x s'"
  by (simp add: bindE_def)

lemma bindE_Inl [simp]: "m s = (Inl e, s') \<Longrightarrow> bindE m f s = (Inl e, s')"
  by (simp add: bindE_def)

lemma bindE_ret [simp]: "bindE (ret x) f = f x"
  by (rule ext) simp

lemma bindE_throw [simp]: "bindE (throw e) f = throw e"
  by (rule ext) simp

lemma bindE_assoc: "bindE (bindE m f) g = bindE m (\<lambda>x. bindE (f x) g)"
  by (rule ext) (simp add: bindE_def split: prod.split sum.split)

lemma bindE_cases:
  assumes "bindE m f s = r"
  obtains (throws) e s' where "m s = (Inl e, s')" "r = (Inl e, s')"
  | (returns) x s' where "m s = (Inr x, s')" "r = f x s'"
  using assms by (auto simp: bindE_def split: prod.splits sum.splits)

lemma bindE_InrE:
  assumes "bindE m f s = (Inr y, t)"
  obtains x s' where "m s = (Inr x, s')" "f x s' = (Inr y, t)"
  using assms by (auto simp: bindE_def split: prod.splits sum.splits)

lemma require_Inr [simp, returns]: "require c e s = (Inr u, t) \<longleftrightarrow> c \<and> t = s"
  by (auto simp: require_def)

lemma someOr_Inr [simp, returns]: "someOr e opt s = (Inr x, t) \<longleftrightarrow> opt = Some x \<and> t = s"
  by (auto simp: someOr_def split: option.split)

lemma bindE_returns [returns]:
  "bindE m f s = (Inr y, t) \<longleftrightarrow> (\<exists>x s'. m s = (Inr x, s') \<and> f x s' = (Inr y, t))"
  by (auto simp: bindE_def split: prod.splits sum.splits)

lemma bindE_throws:
  "bindE m f s = (Inl e, t) \<longleftrightarrow>
     m s = (Inl e, t) \<or> (\<exists>x s'. m s = (Inr x, s') \<and> f x s' = (Inl e, t))"
  by (auto simp: bindE_def split: prod.splits sum.splits)

lemma ret_returns [returns]: "ret x s = (Inr y, t) \<longleftrightarrow> y = x \<and> t = s"
  by auto

lemma throw_returns [returns]: "throw e s \<noteq> (Inr y, t)"
  by simp

lemma gets_returns [returns]: "gets f s = (Inr y, t) \<longleftrightarrow> y = f s \<and> t = s"
  by auto

lemma modify_returns [returns]: "modify f s = (Inr y, t) \<longleftrightarrow> t = f s"
  by auto

section \<open>Judgements on effects\<close>

definition triple ::
  "('s \<Rightarrow> bool) \<Rightarrow> ('s, 'e, 'a) eff \<Rightarrow> ('a \<Rightarrow> 's \<Rightarrow> bool) \<Rightarrow> ('e \<Rightarrow> 's \<Rightarrow> bool) \<Rightarrow> bool" where
  "triple P m Q E \<longleftrightarrow>
     (\<forall>s. P s \<longrightarrow> (case m s of (Inl e, s') \<Rightarrow> E e s' | (Inr x, s') \<Rightarrow> Q x s'))"

text \<open>\<open>preserves I m\<close>: however \<open>m\<close> ends, \<open>I\<close> still holds. \<open>keeps I m\<close>: if \<open>m\<close>
  returns, \<open>I\<close> still holds (the body of a transaction, undone when it throws).\<close>

definition preserves :: "('s \<Rightarrow> bool) \<Rightarrow> ('s, 'e, 'a) eff \<Rightarrow> bool" where
  "preserves I m \<longleftrightarrow> triple I m (\<lambda>_. I) (\<lambda>_. I)"

definition keeps :: "('s \<Rightarrow> bool) \<Rightarrow> ('s, 'e, 'a) eff \<Rightarrow> bool" where
  "keeps I m \<longleftrightarrow> triple I m (\<lambda>_. I) (\<lambda>_ _. True)"

lemma tripleI:
  assumes "\<And>s e s'. P s \<Longrightarrow> m s = (Inl e, s') \<Longrightarrow> E e s'"
    and "\<And>s x s'. P s \<Longrightarrow> m s = (Inr x, s') \<Longrightarrow> Q x s'"
  shows "triple P m Q E"
  using assms unfolding triple_def by (fastforce split: prod.split sum.split)

lemma tripleD_Inr: "triple P m Q E \<Longrightarrow> P s \<Longrightarrow> m s = (Inr x, s') \<Longrightarrow> Q x s'"
  unfolding triple_def by force

lemma tripleD_Inl: "triple P m Q E \<Longrightarrow> P s \<Longrightarrow> m s = (Inl e, s') \<Longrightarrow> E e s'"
  unfolding triple_def by force

lemma triple_bindE:
  assumes "triple P m R E" and "\<And>x. triple (R x) (f x) Q E"
  shows "triple P (bindE m f) Q E"
  using assms unfolding triple_def bindE_def by (fastforce split: prod.splits sum.splits)

lemma preservesI:
  assumes "\<And>s. I s \<Longrightarrow> I (snd (m s))"
  shows "preserves I m"
  unfolding preserves_def
  by (rule tripleI) (metis assms snd_conv)+

lemma preservesD: "preserves I m \<Longrightarrow> I s \<Longrightarrow> I (snd (m s))"
  unfolding preserves_def triple_def by (cases "m s") (auto split: sum.splits)

lemma keepsI:
  assumes "\<And>s x s'. I s \<Longrightarrow> m s = (Inr x, s') \<Longrightarrow> I s'"
  shows "keeps I m"
  unfolding keeps_def by (rule tripleI) (use assms in auto)

lemma keepsD: "keeps I m \<Longrightarrow> I s \<Longrightarrow> m s = (Inr x, s') \<Longrightarrow> I s'"
  unfolding keeps_def by (rule tripleD_Inr)

lemma preserves_keeps: "preserves I m \<Longrightarrow> keeps I m"
  unfolding preserves_def keeps_def triple_def by (auto split: prod.splits sum.splits)

lemma preserves_ret [keeping]: "preserves I (ret x)"
  by (rule preservesI) simp

lemma preserves_throw [keeping]: "preserves I (throw e)"
  by (rule preservesI) simp

lemma preserves_gets [keeping]: "preserves I (gets f)"
  by (rule preservesI) simp

lemma preserves_require [keeping]: "preserves I (require c e)"
  by (rule preservesI) (simp add: require_def)

lemma preserves_someOr [keeping]: "preserves I (someOr e opt)"
  by (rule preservesI) (simp add: someOr_def split: option.split)

lemma preserves_modify: "(\<And>s. I s \<Longrightarrow> I (f s)) \<Longrightarrow> preserves I (modify f)"
  by (rule preservesI) simp

lemma preserves_bindE [keeping]:
  assumes "preserves I m" and "\<And>x. preserves I (f x)"
  shows "preserves I (bindE m f)"
  using assms unfolding preserves_def by (auto intro: triple_bindE)

lemma preserves_tryCatch [keeping]:
  assumes "preserves I m" and "\<And>e. preserves I (h e)"
  shows "preserves I (tryCatch m h)"
proof (rule preservesI)
  fix s assume I: "I s"
  obtain r s' where ms: "m s = (r, s')" by fastforce
  with preservesD [OF assms(1) I] have "I s'" by simp
  then show "I (snd (tryCatch m h s))"
    using ms preservesD [OF assms(2)] by (cases r) (auto simp: tryCatch_def)
qed

lemma preserves_if [keeping]:
  "preserves I m \<Longrightarrow> preserves I m' \<Longrightarrow> preserves I (if c then m else m')"
  by simp

lemma preserves_case_option [keeping]:
  assumes "preserves I m" and "\<And>x. preserves I (f x)"
  shows "preserves I (case opt of None \<Rightarrow> m | Some x \<Rightarrow> f x)"
  using assms by (cases opt) auto

lemma preserves_forEach [keeping]:
  "(\<And>x. preserves I (f x)) \<Longrightarrow> preserves I (forEach xs f)"
  by (induction xs) (simp_all add: preserves_ret preserves_bindE)

lemma preserves_Let [keeping]:
  "(\<And>x. preserves I (f x)) \<Longrightarrow> preserves I (let x = t in f x)"
  by simp

lemma keeps_bindE:
  assumes "keeps I m" and "\<And>x. keeps I (f x)"
  shows "keeps I (bindE m f)"
  using assms unfolding keeps_def by (auto intro: triple_bindE)

text \<open>\<open>never_throws E m\<close>: \<open>m\<close> does not end with an exception of \<open>E\<close>.\<close>

definition never_throws :: "'e set \<Rightarrow> ('s, 'e, 'a) eff \<Rightarrow> bool" where
  "never_throws E m \<longleftrightarrow> (\<forall>s e s'. m s = (Inl e, s') \<longrightarrow> e \<notin> E)"

lemma never_throwsD: "never_throws E m \<Longrightarrow> m s = (Inl e, s') \<Longrightarrow> e \<notin> E"
  by (auto simp: never_throws_def)

lemma never_throws_basic [keeping]:
  "never_throws E (ret x)" "never_throws E (gets f)" "never_throws E (modify g)"
  by (simp_all add: never_throws_def)

lemma never_throws_throw [keeping]: "e \<notin> E \<Longrightarrow> never_throws E (throw e)"
  by (simp add: never_throws_def)

lemma never_throws_require [keeping]: "e \<notin> E \<Longrightarrow> never_throws E (require c e)"
  by (simp add: never_throws_def require_def)

lemma never_throws_someOr [keeping]: "e \<notin> E \<Longrightarrow> never_throws E (someOr e opt)"
  by (auto simp: never_throws_def someOr_def split: option.splits)

lemma never_throws_bindE [keeping]:
  "never_throws E m \<Longrightarrow> (\<And>x. never_throws E (f x)) \<Longrightarrow> never_throws E (bindE m f)"
  unfolding never_throws_def bindE_throws by blast

lemma never_throws_if [keeping]:
  "never_throws E m \<Longrightarrow> never_throws E m' \<Longrightarrow> never_throws E (if c then m else m')"
  by simp

lemma never_throws_option [keeping]:
  "never_throws E m \<Longrightarrow> (\<And>x. never_throws E (f x)) \<Longrightarrow>
     never_throws E (case opt of None \<Rightarrow> m | Some x \<Rightarrow> f x)"
  by (cases opt) auto

lemma never_throws_forEach [keeping]:
  "(\<And>x. never_throws E (f x)) \<Longrightarrow> never_throws E (forEach xs f)"
  by (induction xs) (simp_all add: never_throws_basic never_throws_bindE)

section \<open>Transactions\<close>

text \<open>\<open>dataSource.transaction\<close>: when the body throws, the part of the state selected by
  \<open>get\<close> is put back as it was; the rest (mails sent, files uploaded, rows written on
  another connection) is not undone.\<close>

definition transactionOn ::
  "('s \<Rightarrow> 'd) \<Rightarrow> ('d \<Rightarrow> 's \<Rightarrow> 's) \<Rightarrow> ('s, 'e, 'a) eff \<Rightarrow> ('s, 'e, 'a) eff" where
  "transactionOn get put m s =
     (case m s of (Inl e, s') \<Rightarrow> (Inl e, put (get s) s') | (Inr x, s') \<Rightarrow> (Inr x, s'))"

locale rollback =
  fixes get :: "'s \<Rightarrow> 'd" and put :: "'d \<Rightarrow> 's \<Rightarrow> 's"
  assumes get_put: "get (put d s) = d"
begin

lemma rolled_back: "transactionOn get put m s = (Inl e, s') \<Longrightarrow> get s' = get s"
  by (auto simp: transactionOn_def get_put split: prod.splits sum.splits)

lemma committed: "transactionOn get put m s = (Inr x, s') \<longleftrightarrow> m s = (Inr x, s')"
  by (auto simp: transactionOn_def split: prod.splits sum.splits)

text \<open>An invariant of the transactional part survives a transaction as soon as the body
  keeps it when it returns: the whole point of the all-or-nothing boundary.\<close>

lemma transaction_preserves:
  assumes "keeps (\<lambda>s. I (get s)) m"
  shows "preserves (\<lambda>s. I (get s)) (transactionOn get put m)"
proof (rule preservesI)
  fix s assume I: "I (get s)"
  obtain r s' where ms: "m s = (r, s')" by fastforce
  then show "I (get (snd (transactionOn get put m s)))"
    using I keepsD [OF assms, of s] by (cases r) (auto simp: transactionOn_def get_put)
qed

end

end
