(* ===== verification/Tables.thy ===== *)
theory Tables
  imports Prelude
begin

text \<open>
  Database tables as lists of rows in insertion order, with the repository operations the
  services use: \<open>findOne\<close> (\<open>List.find\<close>), \<open>findOne\<close> with \<open>order: createdAt DESC\<close>
  (\<open>find_latest\<close>), \<open>save\<close> (\<open>upsert\<close> by primary key), conditional \<open>UPDATE\<close>
  (\<open>update_where\<close>), \<open>DELETE\<close> (\<open>delete_where\<close>), \<open>COUNT\<close> (\<open>count_where\<close>) and
  (partial) unique indexes (\<open>index_ok\<close>: the index key is \<open>None\<close> for a row outside the
  index's \<open>WHERE\<close>). The locale \<open>keyed_table\<close> states what a row type's save operation
  promises to its clients and derives the lookup and frame laws they use.
\<close>

named_theorems table_simps

section \<open>Reading\<close>

text \<open>\<open>ORDER BY created_at DESC LIMIT 1\<close>. SQL leaves the order of equal timestamps open;
  the model takes the row inserted first.\<close>

fun latest :: "('r \<Rightarrow> int) \<Rightarrow> 'r list \<Rightarrow> 'r option" where
  "latest at [] = None"
| "latest at (r # rs) =
     (case latest at rs of
        None \<Rightarrow> Some r
      | Some r' \<Rightarrow> if at r' \<le> at r then Some r else Some r')"

definition find_latest :: "('r \<Rightarrow> int) \<Rightarrow> ('r \<Rightarrow> bool) \<Rightarrow> 'r list \<Rightarrow> 'r option" where
  "find_latest at P t = latest at (filter P t)"

definition count_where :: "('r \<Rightarrow> bool) \<Rightarrow> 'r list \<Rightarrow> int" where
  "count_where P t = int (length (filter P t))"

lemma latest_in: "latest at t = Some r \<Longrightarrow> r \<in> set t"
  by (induction t arbitrary: r) (auto split: option.splits if_splits)

lemma latest_None [simp]: "latest at t = None \<longleftrightarrow> t = []"
  by (cases t) (auto split: option.splits)

lemma latest_max: "latest at t = Some r \<Longrightarrow> x \<in> set t \<Longrightarrow> at x \<le> at r"
  by (induction t arbitrary: r) (fastforce split: option.splits if_splits)+

lemma find_latest_Some:
  "find_latest at P t = Some r \<Longrightarrow> r \<in> set t \<and> P r"
  unfolding find_latest_def by (drule latest_in) simp

lemma find_latest_None:
  "find_latest at P t = None \<longleftrightarrow> (\<forall>r \<in> set t. \<not> P r)"
  unfolding find_latest_def by (auto simp: filter_empty_conv)

lemma find_latest_max:
  "find_latest at P t = Some r \<Longrightarrow> x \<in> set t \<Longrightarrow> P x \<Longrightarrow> at x \<le> at r"
  unfolding find_latest_def by (erule latest_max) simp

lemma find_SomeD: "List.find P t = Some r \<Longrightarrow> r \<in> set t \<and> P r"
  by (induction t) (auto split: if_splits)

lemma latest_map: "(\<And>r. at (f r) = at r) \<Longrightarrow> latest at (map f t) = map_option f (latest at t)"
  by (induction t) (auto split: option.split)

lemma find_latest_map:
  assumes "\<And>r. at (f r) = at r" "\<And>r. r \<in> set t \<Longrightarrow> P (f r) = P r"
  shows "find_latest at P (map f t) = map_option f (find_latest at P t)"
proof -
  have "filter P (map f t) = map f (filter P t)"
    using assms(2) by (induction t) auto
  then show ?thesis by (simp add: find_latest_def latest_map [of at f] assms(1))
qed

lemma count_where_nonneg [simp]: "0 \<le> count_where P t"
  by (simp add: count_where_def)

lemma count_where_append [simp]:
  "count_where P (t @ u) = count_where P t + count_where P u"
  by (simp add: count_where_def)

lemma count_where_Cons [simp]:
  "count_where P (r # t) = (if P r then 1 else 0) + count_where P t"
  by (simp add: count_where_def)

lemma count_where_Nil [simp]: "count_where P [] = 0"
  by (simp add: count_where_def)

lemma count_where_zero: "count_where P t = 0 \<longleftrightarrow> (\<forall>r \<in> set t. \<not> P r)"
  by (auto simp: count_where_def filter_empty_conv)

lemma count_where_key:
  "distinct (map f t) \<Longrightarrow> x \<in> set t \<Longrightarrow> count_where (\<lambda>r. f r = f x) t = 1"
proof (induction t)
  case (Cons a t)
  show ?case
  proof (cases "x = a")
    case True
    with Cons.prems(1) have "count_where (\<lambda>r. f r = f x) t = 0"
      unfolding count_where_zero by (metis distinct.simps(2) image_eqI list.simps(9) list.set_map)
    with True show ?thesis by simp
  next
    case False
    with Cons show ?thesis by auto
  qed
qed simp

lemma count_where_pos: "0 < count_where P t \<longleftrightarrow> (\<exists>r \<in> set t. P r)"
  by (auto simp: count_where_def filter_empty_conv)

lemma only_element:
  assumes "distinct xs" "s \<in> set xs" "\<And>x. x \<in> set xs \<Longrightarrow> x = s"
  shows "xs = [s]"
proof -
  have "set xs = {s}" using assms(2,3) by blast
  with distinct_card [OF assms(1)] have "length xs = 1" by simp
  with assms(2) show ?thesis by (auto simp: length_Suc_conv)
qed

section \<open>Writing\<close>

definition update_where :: "('r \<Rightarrow> bool) \<Rightarrow> ('r \<Rightarrow> 'r) \<Rightarrow> 'r list \<Rightarrow> 'r list" where
  "update_where P f t = map (\<lambda>r. if P r then f r else r) t"

definition delete_where :: "('r \<Rightarrow> bool) \<Rightarrow> 'r list \<Rightarrow> 'r list" where
  "delete_where P t = filter (\<lambda>r. \<not> P r) t"

definition upsert :: "('r \<Rightarrow> 'k) \<Rightarrow> 'r \<Rightarrow> 'r list \<Rightarrow> 'r list" where
  "upsert pk r t =
     (if pk r \<in> pk ` set t then update_where (\<lambda>x. pk x = pk r) (\<lambda>_. r) t else t @ [r])"

text \<open>\<open>ORDER BY f DESC\<close> and \<open>ORDER BY f ASC\<close>; rows with the same key keep the order of the table.\<close>

definition newest_first :: "('r \<Rightarrow> 'k :: linorder) \<Rightarrow> 'r list \<Rightarrow> 'r list" where
  "newest_first f t = rev (sort_key f (rev t))"

lemma set_newest_first [simp]: "set (newest_first f t) = set t"
  by (simp add: newest_first_def)

lemma length_newest_first [simp]: "length (newest_first f t) = length t"
  by (simp add: newest_first_def)

lemma sorted_newest_first: "sorted (rev (map f (newest_first f t)))"
  by (simp add: newest_first_def rev_map)

lemma set_update_where:
  "set (update_where P f t) = {r \<in> set t. \<not> P r} \<union> f ` {r \<in> set t. P r}"
  by (auto simp: update_where_def)

lemma length_update_where [simp]: "length (update_where P f t) = length t"
  by (simp add: update_where_def)

lemma update_where_Nil [simp]: "update_where P f [] = []"
  by (simp add: update_where_def)

lemma update_where_Cons [simp]:
  "update_where P f (r # t) = (if P r then f r else r) # update_where P f t"
  by (simp add: update_where_def)

lemma map_update_where:
  "(\<And>r. P r \<Longrightarrow> g (f r) = g r) \<Longrightarrow> map g (update_where P f t) = map g t"
  by (simp add: update_where_def)

lemma set_delete_where [simp]: "set (delete_where P t) = {r \<in> set t. \<not> P r}"
  by (auto simp: delete_where_def)

lemma set_upsert:
  "set (upsert pk r t) = insert r {x \<in> set t. pk x \<noteq> pk r}"
  by (auto simp: upsert_def set_update_where) (metis image_eqI)

lemma upsert_member_cases:
  "x \<in> set (upsert pk r t) \<Longrightarrow> x = r \<or> x \<in> set t \<and> pk x \<noteq> pk r"
  by (auto simp: set_upsert)

lemma upsert_new: "pk r \<notin> pk ` set t \<Longrightarrow> upsert pk r t = t @ [r]"
  by (simp add: upsert_def)

lemma map_pk_upsert:
  "map pk (upsert pk r t) = (if pk r \<in> pk ` set t then map pk t else map pk t @ [pk r])"
  by (auto simp: upsert_def update_where_def)

lemma distinct_upsert: "distinct (map pk t) \<Longrightarrow> distinct (map pk (upsert pk r t))"
  by (auto simp: map_pk_upsert)

lemma find_pk_update:
  "List.find (\<lambda>x. pk x = k) (update_where (\<lambda>x. pk x = pk r) (\<lambda>_. r) t) =
     (if k = pk r \<and> pk r \<in> pk ` set t then Some r else List.find (\<lambda>x. pk x = k) t)"
  by (induction t) auto

lemma find_append:
  "List.find P (t @ u) = (case List.find P t of None \<Rightarrow> List.find P u | Some r \<Rightarrow> Some r)"
  by (induction t) auto

lemma find_pk_upsert:
  "List.find (\<lambda>x. pk x = k) (upsert pk r t) =
     (if k = pk r then Some r else List.find (\<lambda>x. pk x = k) t)"
proof (cases "pk r \<in> pk ` set t")
  case True
  then show ?thesis by (simp add: upsert_def find_pk_update)
next
  case False
  then have "List.find (\<lambda>x. pk x = pk r) t = None"
    unfolding find_None_iff by (metis image_eqI)
  with False show ?thesis by (auto simp: upsert_def find_append split: option.split)
qed

lemma count_where_update:
  assumes "\<And>r. r \<in> set t \<Longrightarrow> Q r \<Longrightarrow> P (f r) = P r"
  shows "count_where P (update_where Q f t) = count_where P t"
  using assms by (induction t) auto

lemma find_key: "distinct (map f t) \<Longrightarrow> x \<in> set t \<Longrightarrow> List.find (\<lambda>y. f y = f x) t = Some x"
  by (induction t) force+

section \<open>Unique indexes\<close>

fun index_keys :: "('r \<Rightarrow> 'k option) \<Rightarrow> 'r list \<Rightarrow> 'k list" where
  "index_keys ix [] = []"
| "index_keys ix (r # t) =
     (case ix r of None \<Rightarrow> index_keys ix t | Some k \<Rightarrow> k # index_keys ix t)"

definition index_ok :: "('r \<Rightarrow> 'k option) \<Rightarrow> 'r list \<Rightarrow> bool" where
  "index_ok ix t \<longleftrightarrow> distinct (index_keys ix t)"

lemma set_index_keys: "set (index_keys ix t) = {k. \<exists>r \<in> set t. ix r = Some k}"
  by (induction t) (auto split: option.splits)

lemma index_keys_append [simp]: "index_keys ix (t @ u) = index_keys ix t @ index_keys ix u"
  by (induction t) (auto split: option.splits)

lemma index_ok_Nil [simp]: "index_ok ix []"
  by (simp add: index_ok_def)

lemma index_ok_unique:
  assumes "index_ok ix t" "r \<in> set t" "r' \<in> set t" "ix r = Some k" "ix r' = Some k"
  shows "r = r'"
  using assms
proof (induction t)
  case Nil
  then show ?case by simp
next
  case (Cons a t)
  then show ?case
    by (auto simp: index_ok_def set_index_keys split: option.splits)
qed

lemma index_ok_appendD: "index_ok ix (t @ u) \<Longrightarrow> index_ok ix t"
  by (simp add: index_ok_def)

lemma index_ok_snoc:
  "index_ok (\<lambda>r. Some (f r)) (t @ [x]) \<longleftrightarrow> index_ok (\<lambda>r. Some (f r)) t \<and> f x \<notin> f ` set t"
  by (auto simp: index_ok_def set_index_keys image_iff)

lemma index_ok_delete: "index_ok ix t \<Longrightarrow> index_ok ix (delete_where P t)"
proof (induction t)
  case Nil
  then show ?case by (simp add: delete_where_def)
next
  case (Cons r t)
  have "set (index_keys ix (delete_where P t)) \<subseteq> set (index_keys ix t)"
    by (auto simp: set_index_keys)
  with Cons show ?case
    by (auto simp: index_ok_def delete_where_def split: option.splits)
qed

lemma index_keys_cong: "(\<And>r. r \<in> set t \<Longrightarrow> ix (f r) = ix r) \<Longrightarrow>
  index_keys ix (map f t) = index_keys ix t"
  by (induction t) (simp_all split: option.split)

lemma index_keys_upsert_same:
  assumes "distinct (map pk t)" "x \<in> set t" "pk r = pk x" "ix r = ix x"
  shows "index_keys ix (upsert pk r t) = index_keys ix t"
proof -
  have "pk r \<in> pk ` set t" using assms(2,3) by auto
  then have "upsert pk r t = map (\<lambda>y. if pk y = pk r then r else y) t"
    by (simp add: upsert_def update_where_def)
  moreover have "ix (if pk y = pk r then r else y) = ix y" if "y \<in> set t" for y
    using that assms by (auto simp: distinct_map inj_on_def)
  ultimately show ?thesis using index_keys_cong [of t ix "\<lambda>y. if pk y = pk r then r else y"] by simp
qed

lemma index_ok_update_same:
  "index_ok ix t \<Longrightarrow> (\<And>r. P r \<Longrightarrow> ix (f r) = ix r) \<Longrightarrow> index_ok ix (update_where P f t)"
  unfolding index_ok_def update_where_def by (subst index_keys_cong) auto

section \<open>The contract of a saved row\<close>

text \<open>
  What a client relies on when it saves a row: the save either reports a constraint and
  leaves the table alone, or the row can be read back by its key and every other row is
  untouched. The provider is each table of the schema.
\<close>

locale keyed_table =
  fixes pk :: "'r \<Rightarrow> 'k"
    and violated :: "'r list \<Rightarrow> 'c option"
    and save :: "'r \<Rightarrow> 'r list \<Rightarrow> 'c + 'r list"
  assumes save_rejects: "violated (upsert pk r t) = Some c \<Longrightarrow> save r t = Inl c"
    and save_stores: "violated (upsert pk r t) = None \<Longrightarrow> save r t = Inr (upsert pk r t)"
begin

lemma save_cases:
  obtains (rejected) c where "violated (upsert pk r t) = Some c" "save r t = Inl c"
  | (stored) "violated (upsert pk r t) = None" "save r t = Inr (upsert pk r t)"
  using save_rejects save_stores by (cases "violated (upsert pk r t)") auto

lemma read_back: "save r t = Inr t' \<Longrightarrow> List.find (\<lambda>x. pk x = pk r) t' = Some r"
  by (cases rule: save_cases [of r t]) (auto simp: find_pk_upsert)

lemma read_other:
  "save r t = Inr t' \<Longrightarrow> k \<noteq> pk r \<Longrightarrow>
     List.find (\<lambda>x. pk x = k) t' = List.find (\<lambda>x. pk x = k) t"
  by (cases rule: save_cases [of r t]) (auto simp: find_pk_upsert)

lemma saved_unviolated: "save r t = Inr t' \<Longrightarrow> violated t' = None"
  by (cases rule: save_cases [of r t]) auto

lemma saved_set: "save r t = Inr t' \<Longrightarrow> set t' = insert r {x \<in> set t. pk x \<noteq> pk r}"
  by (cases rule: save_cases [of r t]) (auto simp: set_upsert)

lemma saved_distinct: "save r t = Inr t' \<Longrightarrow> distinct (map pk t) \<Longrightarrow> distinct (map pk t')"
  by (cases rule: save_cases [of r t]) (auto simp: distinct_upsert)

lemma saved_eq: "save r t = Inr t' \<Longrightarrow> t' = upsert pk r t"
  by (cases rule: save_cases [of r t]) auto

end

text \<open>The one implementation of \<open>save\<close>: write, then let the constraints accept or
  reject the new table.\<close>

definition checked_save ::
  "('r \<Rightarrow> 'k) \<Rightarrow> ('r list \<Rightarrow> 'c option) \<Rightarrow> 'r \<Rightarrow> 'r list \<Rightarrow> 'c + 'r list" where
  "checked_save pk violated r t =
     (case violated (upsert pk r t) of Some c \<Rightarrow> Inl c | None \<Rightarrow> Inr (upsert pk r t))"

lemma keyed_table_checked_save: "keyed_table pk violated (checked_save pk violated)"
  by unfold_locales (simp_all add: checked_save_def)

end
