(* ===== verification/Decimal.thy ===== *)
theory Decimal
  imports Prelude
begin

text \<open>
  Printing of numbers as the runtime does it: \<open>String(n)\<close> in base ten, \<open>padStart\<close>, and
  the exact integer reading of \<open>Math.round(a / b)\<close>. \<open>undec\<close> reads a digit string back;
  the round trip makes the printed invoice numbers injective.
\<close>

section \<open>String(n)\<close>

definition digit :: "nat \<Rightarrow> char" where
  "digit d = char_of (48 + d)"

definition undigit :: "char \<Rightarrow> nat" where
  "undigit c = of_char c - 48"

fun dec :: "nat \<Rightarrow> string" where
  "dec n = (if n < 10 then [digit n] else dec (n div 10) @ [digit (n mod 10)])"

declare dec.simps [simp del]

definition undec :: "string \<Rightarrow> nat" where
  "undec s = foldl (\<lambda>acc c. 10 * acc + undigit c) 0 s"

definition dec_int :: "int \<Rightarrow> string" where
  "dec_int n = (if n < 0 then CHR ''-'' # dec (nat (- n)) else dec (nat n))"

definition padStart :: "nat \<Rightarrow> char \<Rightarrow> string \<Rightarrow> string" where
  "padStart w c s = replicate (w - length s) c @ s"

definition is_digit :: "char \<Rightarrow> bool" where
  "is_digit c \<longleftrightarrow> (of_char c :: nat) \<in> {48..57}"

lemma undigit_digit [simp]: "d < 10 \<Longrightarrow> undigit (digit d) = d"
  by (simp add: undigit_def digit_def of_char_of)

lemma is_digit_digit [simp]: "d < 10 \<Longrightarrow> is_digit (digit d)"
  by (simp add: is_digit_def digit_def of_char_of)

lemma undec_snoc [simp]: "undec (s @ [c]) = 10 * undec s + undigit c"
  by (simp add: undec_def)

lemma undec_Nil [simp]: "undec [] = 0"
  by (simp add: undec_def)

lemma undec_dec [simp]: "undec (dec n) = n"
proof (induction n rule: dec.induct)
  case (1 n)
  show ?case
  proof (cases "n < 10")
    case True
    then show ?thesis using undec_snoc [of "[]"] by (subst dec.simps) simp
  next
    case False
    with 1 have "undec (dec (n div 10)) = n div 10" by simp
    with False show ?thesis by (subst dec.simps) simp
  qed
qed

lemma dec_inject [simp]: "dec m = dec n \<longleftrightarrow> m = n"
  by (metis undec_dec)

lemma dec_nonempty [simp]: "dec n \<noteq> []"
  by (subst dec.simps) simp

lemma dec_digits: "c \<in> set (dec n) \<Longrightarrow> is_digit c"
proof (induction n rule: dec.induct)
  case (1 n)
  show ?case
  proof (cases "n < 10")
    case True
    with 1(2) show ?thesis by (subst (asm) dec.simps) simp
  next
    case False
    with 1 show ?thesis by (subst (asm) dec.simps) auto
  qed
qed

lemma dash_not_digit [simp]: "\<not> is_digit (CHR ''-'')"
  by (simp add: is_digit_def)

lemma dec_no_dash [simp]: "CHR ''-'' \<notin> set (dec n)"
  using dec_digits dash_not_digit by blast

lemma dec_int_inject [simp]: "dec_int m = dec_int n \<longleftrightarrow> m = n"
proof
  assume eq: "dec_int m = dec_int n"
  have dash: "CHR ''-'' # s \<noteq> dec k" for s k
    using dec_no_dash [of k] by (metis list.set_intros(1))
  show "m = n"
    using eq dash [of _ "nat m"] dash [of _ "nat n"] dash [of _ "nat m", symmetric]
      dash [of _ "nat n", symmetric]
    by (auto simp: dec_int_def split: if_splits)
qed simp

lemma undec_zeros [simp]: "undec (replicate k (CHR ''0'') @ s) = undec s"
proof -
  have "foldl (\<lambda>acc c. 10 * acc + undigit c) 0 (replicate k (CHR ''0'')) = 0"
    by (induction k) (simp_all add: undigit_def)
  then show ?thesis by (simp add: undec_def)
qed

lemma undec_padStart [simp]: "undec (padStart w (CHR ''0'') s) = undec s"
  by (simp add: padStart_def)

lemma padStart_no_dash [simp]: "CHR ''-'' \<notin> set (padStart w (CHR ''0'') (dec n))"
  by (simp add: padStart_def)

section \<open>Math.round of a quotient\<close>

text \<open>
  \<open>Math.round(x)\<close> is \<open>floor(x + 1/2)\<close>. For integers \<open>a\<close>, \<open>b\<close> with \<open>0 < b\<close> and
  \<open>|a|\<close> far below \<open>2^53\<close> the double \<open>a / b\<close> rounds to the same integer as the exact
  quotient, because the exact quotient is either a half (representable) or at least
  \<open>1 / (2 b)\<close> away from one.
\<close>

definition round_div :: "int \<Rightarrow> int \<Rightarrow> int" where
  "round_div a b = (2 * a + b) div (2 * b)"

lemma round_div_bounds:
  assumes "0 < b"
  shows "2 * a - b < 2 * b * round_div a b" and "2 * b * round_div a b \<le> 2 * a + b"
proof -
  let ?x = "2 * a + b" and ?y = "2 * b"
  have "?y * (?x div ?y) + ?x mod ?y = ?x" by (rule mult_div_mod_eq)
  moreover have "0 \<le> ?x mod ?y" "?x mod ?y < ?y" using assms by auto
  ultimately show "2 * a - b < 2 * b * round_div a b" "2 * b * round_div a b \<le> 2 * a + b"
    unfolding round_div_def by linarith+
qed

lemma round_div_nonneg: "0 < b \<Longrightarrow> 0 \<le> a \<Longrightarrow> 0 \<le> round_div a b"
  unfolding round_div_def by (rule pos_imp_zdiv_nonneg_iff [THEN iffD2]) auto

section \<open>Lower case\<close>

text \<open>\<open>toLowerCase()\<close> on ASCII text.\<close>

definition lower_char :: "char \<Rightarrow> char" where
  "lower_char c =
     (if 65 \<le> (of_char c :: nat) \<and> (of_char c :: nat) \<le> 90 then char_of ((of_char c :: nat) + 32)
      else c)"

definition toLowerCase :: "string \<Rightarrow> string" where
  "toLowerCase s = map lower_char s"

lemma lower_char_idem [simp]: "lower_char (lower_char c) = lower_char c"
  by (cases "65 \<le> (of_char c :: nat) \<and> (of_char c :: nat) \<le> 90")
    (auto simp: lower_char_def of_char_of take_bit_eq_mod)

lemma toLowerCase_idem [simp]: "toLowerCase (toLowerCase s) = toLowerCase s"
  by (simp add: toLowerCase_def)

section \<open>Trimming\<close>

text \<open>\<open>trim()\<close> on ASCII text: tab, line feed, vertical tab, form feed, carriage return, space.\<close>

definition is_space :: "char \<Rightarrow> bool" where
  "is_space c \<longleftrightarrow> (let n = (of_char c :: nat) in 9 \<le> n \<and> n \<le> 13 \<or> n = 32)"

definition trim :: "string \<Rightarrow> string" where
  "trim s = rev (dropWhile is_space (rev (dropWhile is_space s)))"

text \<open>\<open>x?.trim() || null\<close>\<close>

definition trimOrNone :: "string option \<Rightarrow> string option" where
  "trimOrNone x = (case x of None \<Rightarrow> None | Some s \<Rightarrow> if trim s = [] then None else Some (trim s))"

end
