(* ===== verification/Schema.thy ===== *)
theory Schema
  imports JsNumber Tables Decimal
begin

text \<open>
  The data model: one \<open>record\<close> per entity, one \<open>datatype\<close> per enum, the database as a
  record of tables, the world around it, the deployment (\<open>env\<close>) and the exceptions.

  Conventions. A UUID is a \<open>nat\<close> drawn from the counter \<open>nextId\<close>, which no rollback
  resets (the generator never repeats a value). A \<open>Date\<close> is an \<open>int\<close>, milliseconds since
  the epoch. A nullable column is an \<open>option\<close>. A relation column (\<open>@ManyToOne\<close>) is its
  foreign key only. \<open>updatedAt\<close> columns are kept where the code reads them. Text with
  accented letters is written without them.
\<close>

type_synonym uuid = nat
type_synonym date = int

section \<open>Users\<close>

datatype role = CANDIDATE | RECRUITER | COMPANY_ADMIN | MODERATOR | ADMIN

datatype user_status = U_PENDING_VERIFICATION | U_ACTIVE | U_SUSPENDED | U_DELETED

record user =
  userId :: uuid
  email :: string
  passwordHash :: string
  roles :: "role list"
  userStatus :: user_status
  emailVerified :: bool
  emailVerificationToken :: "string option"
  emailVerificationExpires :: "date option"
  passwordResetToken :: "string option"
  passwordResetExpires :: "date option"
  mfaEnabled :: bool
  mfaSecret :: "string option"
  mfaBackupCodes :: "string list option"
  consentAt :: "date option"

record refresh_token =
  rtId :: uuid
  rtTokenHash :: string
  rtUserId :: uuid
  rtExpiresAt :: date
  rtRevoked :: bool
  rtMfaAuthenticated :: bool
  rtReplacedBy :: "string option"
  rtCreatedAt :: date

section \<open>Companies and subscriptions\<close>

datatype company_size = SIZE_MICRO | SIZE_SMALL | SIZE_MEDIUM | SIZE_LARGE | SIZE_ENTERPRISE

datatype company_status = C_PENDING_VERIFICATION | C_ACTIVE | C_SUSPENDED

record company =
  coId :: uuid
  coName :: string
  registrationNumber :: "string option"
  ice :: "string option"
  coVerified :: bool
  antiCheatEnabled :: bool
  coLogo :: "string option"
  coSector :: "string option"
  coSize :: "company_size option"
  coDescription :: "string option"
  coStatus :: company_status

record recruiter =
  recId :: uuid
  recUserId :: uuid
  recCompanyId :: uuid
  recPosition :: "string option"
  recCreatedAt :: date

datatype invitation_status = INV_PENDING | INV_ACCEPTED | INV_REVOKED

record invitation =
  invId :: uuid
  invCompanyId :: uuid
  invEmail :: string
  invTokenHash :: string
  invPosition :: "string option"
  invStatus :: invitation_status
  invitedById :: uuid
  invExpiresAt :: date
  invAcceptedAt :: "date option"
  invCreatedAt :: date

datatype plan = STARTER | GROWTH | SCALE | ENTERPRISE

datatype sub_status = TRIAL | ACTIVE | PAST_DUE | SUSPENDED | CANCELLED | EXPIRED

record subscription =
  subId :: uuid
  subCompanyId :: uuid
  subPlan :: plan
  subStatus :: sub_status
  externalSubscriptionId :: "string option"
  startsAt :: date
  endsAt :: "date option"
  contactQuota :: int
  contactsUsed :: int
  quotaResetAt :: "date option"
  pastDueSince :: "date option"
  cancelAtPeriodEnd :: bool
  subCreatedAt :: date

record shortlist_entry =
  slId :: uuid
  slCompanyId :: uuid
  slCandidateProfileId :: uuid
  slAddedBy :: uuid
  slNote :: "string option"
  slCreatedAt :: date

section \<open>Billing\<close>

record webhook_event_row =
  evRowId :: uuid
  providerEventId :: string
  provider :: string
  eventType :: string
  processedAt :: date

record invoice_sequence =
  seqYear :: int
  lastNumber :: int

record invoice =
  invoiceId :: uuid
  invSubscriptionId :: uuid
  invoiceCompanyId :: uuid
  invoiceNumber :: string
  amountHT :: int
  vatRate :: int
  vatAmount :: int
  amountTTC :: int
  currency :: string
  companyIce :: string
  issuedAt :: date
  pdfStorageKey :: string
  stripeInvoiceId :: string

datatype trial_code_status = TC_ACTIVE | TC_REVOKED

record trial_code =
  tcId :: uuid
  tcCode :: string
  tcPlan :: plan
  trialDurationDays :: int
  maxUses :: int
  usedCount :: int
  tcStatus :: trial_code_status
  tcExpiresAt :: "date option"

record trial_redemption =
  trId :: uuid
  trTrialCodeId :: uuid
  trCompanyId :: uuid
  redeemedAt :: date
  convertedAt :: "date option"

section \<open>Candidates, messaging, notifications\<close>

datatype visibility = V_PUBLIC | V_RECRUITERS_ONLY | V_HIDDEN

datatype moderation_status = M_ACTIVE | M_SUSPENDED

datatype contract_type = CDI | CDD | PFE | FREELANCE

record candidate_profile =
  cpId :: uuid
  cpUserId :: uuid
  firstName :: "string option"
  lastName :: "string option"
  headline :: "string option"
  bio :: "string option"
  cpLocation :: "string option"
  school :: "string option"
  schoolVerified :: bool
  cpVisibility :: visibility
  moderationStatus :: moderation_status
  completeness :: js_number
  indexedInCvtheque :: bool
  availability :: "string option"
  contractType :: "contract_type option"
  mobility :: "string option"
  salaryMin :: "int option"
  salaryMax :: "int option"
  salaryCurrency :: string
  salaryVisible :: bool
  featured :: bool
  cpCreatedAt :: date
  cpUpdatedAt :: date

datatype conversation_status = CONV_OPEN | CONV_CLOSED

record conversation =
  convId :: uuid
  convCandidateId :: uuid
  convRecruiterId :: uuid
  convCompanyId :: uuid
  convStatus :: conversation_status
  convUpdatedAt :: date

datatype sender_role = FROM_CANDIDATE | FROM_RECRUITER

record message =
  msgId :: uuid
  msgConversationId :: uuid
  msgSenderId :: uuid
  msgSenderRole :: sender_role
  msgBody :: string
  attachmentStorageKey :: "string option"
  attachmentOriginalName :: "string option"
  attachmentMimeType :: "string option"
  attachmentSize :: "int option"
  readAt :: "date option"
  msgCreatedAt :: date

datatype report_status = REP_OPEN | REP_REVIEWED | REP_DISMISSED

record message_report =
  repId :: uuid
  repConversationId :: uuid
  reporterUserId :: uuid
  repReason :: string
  repStatus :: report_status
  repCreatedAt :: date

datatype interview_status = PROPOSED | ACCEPTED | DECLINED | IV_CANCELLED

datatype interview_mode = ONSITE | VIDEO | PHONE

record interview =
  ivId :: uuid
  ivConversationId :: uuid
  proposedById :: uuid
  proposedByRole :: sender_role
  ivStatus :: interview_status
  ivMode :: interview_mode
  scheduledAt :: date
  durationMinutes :: int
  ivLocation :: "string option"
  ivNote :: "string option"
  respondedAt :: "date option"
  ivCreatedAt :: date

datatype notification_type =
  COOLDOWN_EXPIRED | PROFILE_VIEWED | NEW_MESSAGE | SAVED_SEARCH_ALERT
| INTERVIEW_PROPOSED | INTERVIEW_UPDATED

record notification =
  ntId :: uuid
  recipientUserId :: uuid
  ntType :: notification_type
  ntTitle :: string
  ntBody :: string
  ntReadAt :: "date option"
  ntCreatedAt :: date

section \<open>Feature overrides, settings, referrals\<close>

datatype feature =
  CV_DATABASE | CANDIDATE_SEARCH | PROFILE_FILTER | SCHOOL_FILTER | SCORE_SORT | EVALUATIONS
| ADVANCED_EVALUATIONS | JOBS | APPLICATIONS | SHORTLIST | ANTI_CHEAT | BASIC_ANALYTICS
| ADVANCED_ANALYTICS | EXPORT_CANDIDATES | API_ACCESS | MULTI_USER | PRIORITY_SUPPORT

record feature_override =
  foId :: uuid
  foCompanyId :: uuid
  foFeature :: feature
  foEnabled :: bool
  foActorId :: "uuid option"
  foNote :: "string option"

record setting =
  setId :: uuid
  setKey :: string
  setValue :: string
  setDescription :: "string option"
  setValueType :: string

record setting_history =
  shId :: uuid
  shKey :: string
  shValue :: string
  shDescription :: "string option"
  shValueType :: string
  shChangedById :: "uuid option"
  shCreatedAt :: date

record referral =
  rfId :: uuid
  referrerUserId :: uuid
  rfCode :: string

datatype referral_status = SIGNED_UP | CONVERTED

record referral_conversion =
  rcId :: uuid
  rcReferralId :: uuid
  refereeUserId :: uuid
  rcStatus :: referral_status
  rcConvertedAt :: "date option"

section \<open>Assessments\<close>

text \<open>A \<open>decimal(5,2)\<close> column that receives computed numbers is a \<open>js_number\<close>, see \<open>numeric52\<close>;
  one that receives a number of a parsed document is a rational.\<close>

record specialty =
  spId :: uuid
  spName :: string
  spDescription :: "string option"
  spActive :: bool

record exam_test =
  tsId :: uuid
  tsSpecialtyId :: uuid
  tsVersion :: string
  tsProvider :: "string option"
  tsExternalTestId :: "string option"
  tsDurationMinutes :: int
  tsActive :: bool
  tsCreatedAt :: date

datatype assessment_status = AS_PENDING | AS_IN_PROGRESS | AS_COMPLETED | AS_CANCELLED | AS_INCIDENT

record assessment =
  asId :: uuid
  asCandidateId :: uuid
  asTestId :: uuid
  externalAssessmentId :: "string option"
  asStatus :: assessment_status
  resumeToken :: "string option"
  asExpiresAt :: "date option"
  startedAt :: "date option"
  completedAt :: "date option"
  cooldownNotifiedAt :: "date option"
  asIpAddress :: "string option"
  deviceFingerprint :: "string option"
  multiAccountFlagged :: bool
  tabSwitchCount :: int
  windowBlurCount :: int
  proctoringFlagged :: bool
  assignedTestVersion :: "string option"
  asCreatedAt :: date

datatype plagiarism_verdict = CLEAN | SUSPECTED | CONFIRMED

datatype feedback_level = WEAK | MEDIUM | STRONG

record domain_feedback =
  fbDomain :: string
  fbLevel :: feedback_level

record score =
  scId :: uuid
  scAssessmentId :: uuid
  scValue :: js_number
  scPercentile :: "rat option"
  scTechnical :: "rat option"
  scPsychotechnical :: "rat option"
  baremeVersion :: string
  scTestVersion :: string
  plagiarismVerdict :: plagiarism_verdict
  answerFingerprint :: "string option"
  scDomainFeedback :: "domain_feedback list option"
  scExpiresAt :: date
  scCreatedAt :: date

record remediation_progress =
  rpId :: uuid
  rpCandidateId :: uuid
  rpResourceUrl :: string
  rpCompletedAt :: date

section \<open>The candidate's file\<close>

text \<open>A \<open>date\<close> column is its ISO text.\<close>

record skill =
  skId :: uuid
  skName :: string
  skCategory :: "string option"
  skActive :: bool

record profile_skill =
  psId :: uuid
  psProfileId :: uuid
  psSkillId :: uuid
  psLevel :: "string option"
  psCreatedAt :: date

datatype experience_type = WORK | EDUCATION

record experience =
  exId :: uuid
  exProfileId :: uuid
  exType :: experience_type
  exTitle :: string
  exOrganization :: string
  exStartDate :: string
  exEndDate :: "string option"
  exDescription :: "string option"

record project =
  pjId :: uuid
  pjProfileId :: uuid
  pjTitle :: string
  pjDescription :: string
  pjUrl :: "string option"
  pjRole :: "string option"
  pjStartDate :: "string option"
  pjEndDate :: "string option"
  pjCreatedAt :: date

record certification =
  ctId :: uuid
  ctProfileId :: uuid
  ctName :: string
  ctIssuer :: string
  ctIssueDate :: string
  ctExpiryDate :: "string option"
  ctCredentialUrl :: "string option"

datatype link_type = GITHUB | PORTFOLIO | LINKEDIN | OTHER_LINK

datatype link_status = LINK_PENDING | REACHABLE | UNREACHABLE

record profile_link =
  lkId :: uuid
  lkProfileId :: uuid
  lkType :: link_type
  lkUrl :: string
  lkLabel :: "string option"
  accessibilityStatus :: link_status
  checkedAt :: "date option"
  lkCreatedAt :: date

datatype document_type = DOC_CV | DOC_CERTIFICATION | DOC_OTHER | DOC_DIPLOMA

datatype scan_status = SCAN_PENDING | SCAN_CLEAN | SCAN_INFECTED

record document =
  dcId :: uuid
  dcOwnerId :: uuid
  dcType :: document_type
  storageKey :: string
  originalName :: string
  mimeType :: string
  dcSize :: int
  scanStatus :: scan_status
  dcCreatedAt :: date

datatype data_request_type = ACCESS | PORTABILITY | ERASURE | RECTIFICATION | OBJECTION

datatype data_request_status = DR_PENDING | DR_IN_PROGRESS | DR_COMPLETED | DR_REJECTED

record data_request =
  drId :: uuid
  drUserId :: uuid
  drType :: data_request_type
  drStatus :: data_request_status
  drMessage :: "string option"
  resolutionNote :: "string option"
  handledByUserId :: "uuid option"
  dueAt :: date
  resolvedAt :: "date option"
  drCreatedAt :: date

datatype school_status = SV_PENDING | VERIFIED | SV_REJECTED

record school_verification =
  svId :: uuid
  svProfileId :: uuid
  svDocumentId :: uuid
  svStatus :: school_status
  ocrExtractedText :: "string option"
  matchedSchool :: "string option"
  svConfidence :: "js_number option"
  reviewedBy :: "uuid option"
  reviewedAt :: "date option"
  reviewNote :: "string option"
  svCreatedAt :: date

section \<open>Job offers\<close>

datatype job_status = DRAFT | PUBLISHED | CLOSED

datatype job_contract_type = JOB_CDI | JOB_CDD | JOB_PFE | JOB_FREELANCE | INTERNSHIP

datatype experience_level = JUNIOR | MID | SENIOR | LEAD

record job_offer =
  joId :: uuid
  joCompanyId :: uuid
  joCreatedBy :: uuid
  joTitle :: string
  joDescription :: "string option"
  joLocation :: "string option"
  joContractType :: "job_contract_type option"
  joExperienceLevel :: "experience_level option"
  joSkills :: "string list option"
  joStatus :: job_status
  publishedAt :: "date option"
  joDeadline :: "date option"
  joCreatedAt :: date

datatype application_status = APPLIED | UNDER_REVIEW | SHORTLISTED | INTERVIEW | APP_REJECTED | APP_ACCEPTED

record job_application =
  jaId :: uuid
  jaOfferId :: uuid
  jaCandidateId :: uuid
  jaProfileId :: uuid
  jaStatus :: application_status
  coverLetter :: "string option"
  jaCreatedAt :: date

section \<open>Search\<close>

text \<open>The stored criteria of a saved search: the filters of a search without its page.\<close>

record search_criteria =
  scrQ :: "string option"
  scrSkills :: "string list option"
  scrScoreMin :: "rat option"
  scrLocation :: "string option"
  scrAvailability :: "string option"
  scrSalaryMax :: "int option"

record saved_search =
  ssId :: uuid
  ssOwnerId :: uuid
  ssName :: string
  ssCriteria :: search_criteria
  alertEnabled :: bool
  lastNotifiedAt :: "date option"
  ssCreatedAt :: date

record profile_view =
  pvId :: uuid
  pvRecruiterId :: uuid
  pvProfileId :: uuid
  pvCompanyId :: uuid
  viewedAt :: date

record view_cooldown =
  vcId :: uuid
  vcRecruiterId :: uuid
  vcProfileId :: uuid
  vcLastNotifiedAt :: date

record score_badge =
  bgId :: uuid
  bgUserId :: uuid
  bgScoreId :: uuid
  bgToken :: string
  bgEnabled :: bool
  bgDisplayName :: "string option"

section \<open>The database and the world around it\<close>

record db =
  users :: "user list"
  refreshTokens :: "refresh_token list"
  companies :: "company list"
  recruiters :: "recruiter list"
  invitations :: "invitation list"
  subscriptions :: "subscription list"
  shortlist :: "shortlist_entry list"
  webhookEvents :: "webhook_event_row list"
  invoiceSequences :: "invoice_sequence list"
  invoices :: "invoice list"
  trialCodes :: "trial_code list"
  trialRedemptions :: "trial_redemption list"
  candidateProfiles :: "candidate_profile list"
  conversations :: "conversation list"
  messages :: "message list"
  messageReports :: "message_report list"
  interviews :: "interview list"
  notifications :: "notification list"
  featureOverrides :: "feature_override list"
  settings :: "setting list"
  settingHistory :: "setting_history list"
  referrals :: "referral list"
  referralConversions :: "referral_conversion list"
  specialties :: "specialty list"
  tests :: "exam_test list"
  assessments :: "assessment list"
  scores :: "score list"
  remediationProgress :: "remediation_progress list"
  skills :: "skill list"
  profileSkills :: "profile_skill list"
  experiences :: "experience list"
  projects :: "project list"
  certifications :: "certification list"
  profileLinks :: "profile_link list"
  documents :: "document list"
  dataRequests :: "data_request list"
  schoolVerifications :: "school_verification list"
  jobOffers :: "job_offer list"
  jobApplications :: "job_application list"
  savedSearches :: "saved_search list"
  profileViews :: "profile_view list"
  viewCooldowns :: "view_cooldown list"
  scoreBadges :: "score_badge list"

datatype audit_action =
  USER_REGISTERED | USER_LOGIN | USER_LOGOUT | USER_EMAIL_VERIFIED | USER_PASSWORD_CHANGED
| USER_ROLES_CHANGED | USER_DELETED | USER_DATA_EXPORTED | PROFILE_UPDATED | DOCUMENT_UPLOADED
| DOCUMENT_DELETED | ASSESSMENT_STARTED | ASSESSMENT_COMPLETED | ASSESSMENT_INCIDENT
| ASSESSMENT_RESUMED | SCORE_CALCULATED | COMPANY_CREATED | RECRUITER_ADDED | RECRUITER_INVITED
| RECRUITER_REMOVED | JOB_OFFER_CREATED | JOB_OFFER_MODERATED | JOB_OFFER_CLOSED
| SHORTLIST_ENTRY_ADDED | SHORTLIST_ENTRY_REMOVED | SUBSCRIPTION_CREATED
| SUBSCRIPTION_PAST_DUE | SUBSCRIPTION_PLAN_CHANGED | SUBSCRIPTION_CANCELLED | PAYMENT_RECEIVED
| PAYMENT_FAILED | SETTINGS_CHANGED | MODERATION_ACTION | DATA_REQUEST_CREATED
| DATA_REQUEST_RESOLVED | ASSESSMENT_MULTI_ACCOUNT_FLAGGED | ASSESSMENT_PROCTORING_FLAGGED
| FEATURE_OVERRIDE_CHANGED

text \<open>An audit row without its free-form \<open>metadata\<close>.\<close>

record audit_entry =
  actorId :: "uuid option"
  auAction :: audit_action
  entityType :: string
  entityId :: uuid

record mail =
  mailTo :: string
  templateId :: string
  mailToken :: "string option"

text \<open>The requests the payment adapter sends to the provider.\<close>

datatype stripe_call =
  CreateSession uuid plan int string
| CancelAtPeriodEnd string
| ChangePlan string plan int string

text \<open>
  \<open>db\<close> is what a transaction rolls back. The audit log is written through the audit
  service's own repository, on its own connection, so its rows are outside the callers'
  transactions; mails, uploaded objects and provider calls are outside the database.
\<close>

datatype analytics_type =
  A_SIGNUP | A_EMAIL_VERIFIED | A_SUBSCRIPTION_CREATED | A_RECRUITER_CONTACT
| A_TEST_STARTED | A_SCORE_OBTAINED

record world =
  db :: db
  audit :: "audit_entry list"
  mails :: "mail list"
  objects :: "string list"
  stripeCalls :: "stripe_call list"
  analytics :: "(analytics_type \<times> uuid option) list"
  nextId :: uuid

section \<open>Exceptions\<close>

datatype constraint_name =
  UQ_users_email | UQ_refresh_tokens_hash | UQ_companies_ice | UQ_recruiters_user
| UQ_subscriptions_company_active | UQ_shortlist_company_profile
| UQ_processed_webhook_events_provider_event_id
| UQ_invoices_invoice_number | UQ_invoices_stripe_invoice_id
| UQ_trial_codes_code | UQ_trial_code_redemptions_company_id
| UQ_conversations_candidate_company | UQ_feature_overrides_company_feature | UQ_settings_key
| UQ_scores_assessment | UQ_remediation_progress_candidate_resource
| UQ_candidate_profiles_user | UQ_profile_skills_profile_skill | UQ_school_verifications_profile
| UQ_job_applications_offer_candidate | UQ_score_badges_user | UQ_score_badges_token
| UQ_profile_view_cooldowns_recruiter_candidate
| UQ_referrals_referrer | UQ_referrals_code | UQ_referral_conversions_referee

datatype err =
  UniqueViolation constraint_name
| BadRequestException string
| UnauthorizedException string
| ForbiddenException string
| NotFoundException string
| ConflictException string
| InternalServerErrorException string
| ServiceUnavailable string
| InvalidWebhookSignatureException
| EnterpriseQuotaNotAutomatedException
| InvalidSubscriptionTransitionException sub_status sub_status
| CompanyAlreadySubscribedException uuid
| NoActiveSubscriptionToCancelException uuid
| NoActiveSubscriptionToChangePlanException uuid
| SamePlanException plan
| InvalidTrialCodeException
| TrialCodeNotEligibleException
| TrialCodeAlreadyRedeemedException
| SubscriptionInactiveException uuid
| ContactQuotaExceededException uuid
| MultipleActiveSubscriptionsException uuid int
| FeatureNotAvailableException feature
| CandidateProfileNotFoundException uuid
| ConversationNotFoundException uuid

type_synonym 'a service = "(world, err, 'a) eff"

end
