(* ===== verification/Repo.thy ===== *)
theory Repo
  imports Schema
begin

text \<open>
  The deployment (\<open>env\<close>: clock, time zone, configuration, and which outside calls fail),
  the repositories (\<open>save\<close> with the constraints of the schema, fresh identifiers), the
  transaction boundary, and the side effects every component shares: audit log, mail,
  object storage. Each failing outside call is an arbitrary predicate of \<open>env\<close>, so a
  theorem about every \<open>env\<close> covers every failure.
\<close>

section \<open>The deployment\<close>

record env =
  now :: date
  toLocal :: "date \<Rightarrow> int"
  fromLocal :: "int \<Rightarrow> date"
  planContacts :: "plan \<Rightarrow> int option"
  planPrice :: "plan \<Rightarrow> int option"
  planUsers :: "plan \<Rightarrow> int option"
  gracePeriodDays :: int
  cfgCurrency :: string
  cfgString :: "string \<Rightarrow> string option"
  skipEmailVerification :: bool
  emailEnabled :: bool
  analyticsFails :: bool
  auditFails :: "audit_entry \<Rightarrow> bool"
  mailFails :: "mail \<Rightarrow> bool"
  stripeFails :: "stripe_call \<Rightarrow> bool"
  sessionUrl :: "stripe_call \<Rightarrow> string option"
  pdfFails :: "string \<Rightarrow> bool"
  uploadFails :: "string \<Rightarrow> bool"
  scanFile :: "string \<Rightarrow> string \<Rightarrow> bool option"
  signedUrl :: "string \<Rightarrow> string option"
  deleteFails :: "string \<Rightarrow> bool"
  ocr :: "string \<Rightarrow> string \<Rightarrow> (string \<times> rat) option"
  probe :: "string \<Rightarrow> bool"

section \<open>Constraints\<close>

definition subscription_active_key :: "subscription \<Rightarrow> uuid option" where
  "subscription_active_key s =
     (if subStatus s = TRIAL \<or> subStatus s = ACTIVE then Some (subCompanyId s) else None)"

definition sub_violated :: "subscription list \<Rightarrow> constraint_name option" where
  "sub_violated t =
     (if index_ok subscription_active_key t then None else Some UQ_subscriptions_company_active)"

definition event_violated :: "webhook_event_row list \<Rightarrow> constraint_name option" where
  "event_violated t =
     (if index_ok (\<lambda>r. Some (providerEventId r)) t then None
      else Some UQ_processed_webhook_events_provider_event_id)"

definition invoice_violated :: "invoice list \<Rightarrow> constraint_name option" where
  "invoice_violated t =
     (if \<not> index_ok (\<lambda>r. Some (invoiceNumber r)) t then Some UQ_invoices_invoice_number
      else if \<not> index_ok (\<lambda>r. Some (stripeInvoiceId r)) t then Some UQ_invoices_stripe_invoice_id
      else None)"

definition trial_code_violated :: "trial_code list \<Rightarrow> constraint_name option" where
  "trial_code_violated t =
     (if index_ok (\<lambda>r. Some (tcCode r)) t then None else Some UQ_trial_codes_code)"

definition redemption_violated :: "trial_redemption list \<Rightarrow> constraint_name option" where
  "redemption_violated t =
     (if index_ok (\<lambda>r. Some (trCompanyId r)) t then None
      else Some UQ_trial_code_redemptions_company_id)"

definition user_violated :: "user list \<Rightarrow> constraint_name option" where
  "user_violated t = (if index_ok (\<lambda>r. Some (email r)) t then None else Some UQ_users_email)"

definition refresh_violated :: "refresh_token list \<Rightarrow> constraint_name option" where
  "refresh_violated t =
     (if index_ok (\<lambda>r. Some (rtTokenHash r)) t then None else Some UQ_refresh_tokens_hash)"

definition company_violated :: "company list \<Rightarrow> constraint_name option" where
  "company_violated t = (if index_ok ice t then None else Some UQ_companies_ice)"

definition recruiter_violated :: "recruiter list \<Rightarrow> constraint_name option" where
  "recruiter_violated t =
     (if index_ok (\<lambda>r. Some (recUserId r)) t then None else Some UQ_recruiters_user)"

definition shortlist_violated :: "shortlist_entry list \<Rightarrow> constraint_name option" where
  "shortlist_violated t =
     (if index_ok (\<lambda>r. Some (slCompanyId r, slCandidateProfileId r)) t then None
      else Some UQ_shortlist_company_profile)"

definition conversation_violated :: "conversation list \<Rightarrow> constraint_name option" where
  "conversation_violated t =
     (if index_ok (\<lambda>r. Some (convCandidateId r, convCompanyId r)) t then None
      else Some UQ_conversations_candidate_company)"

definition override_violated :: "feature_override list \<Rightarrow> constraint_name option" where
  "override_violated t =
     (if index_ok (\<lambda>r. Some (foCompanyId r, foFeature r)) t then None
      else Some UQ_feature_overrides_company_feature)"

definition score_violated :: "score list \<Rightarrow> constraint_name option" where
  "score_violated t =
     (if index_ok (\<lambda>r. Some (scAssessmentId r)) t then None else Some UQ_scores_assessment)"

definition profile_violated :: "candidate_profile list \<Rightarrow> constraint_name option" where
  "profile_violated t =
     (if index_ok (\<lambda>r. Some (cpUserId r)) t then None else Some UQ_candidate_profiles_user)"

definition profile_skill_violated :: "profile_skill list \<Rightarrow> constraint_name option" where
  "profile_skill_violated t =
     (if index_ok (\<lambda>r. Some (psProfileId r, psSkillId r)) t then None
      else Some UQ_profile_skills_profile_skill)"

definition school_violated :: "school_verification list \<Rightarrow> constraint_name option" where
  "school_violated t =
     (if index_ok (\<lambda>r. Some (svProfileId r)) t then None else Some UQ_school_verifications_profile)"

definition application_violated :: "job_application list \<Rightarrow> constraint_name option" where
  "application_violated t =
     (if index_ok (\<lambda>r. Some (jaOfferId r, jaCandidateId r)) t then None
      else Some UQ_job_applications_offer_candidate)"

definition badge_violated :: "score_badge list \<Rightarrow> constraint_name option" where
  "badge_violated t =
     (if \<not> index_ok (\<lambda>r. Some (bgUserId r)) t then Some UQ_score_badges_user
      else if \<not> index_ok (\<lambda>r. Some (bgToken r)) t then Some UQ_score_badges_token
      else None)"

definition unconstrained :: "'r list \<Rightarrow> constraint_name option" where
  "unconstrained t = None"

lemmas violated_defs = sub_violated_def event_violated_def invoice_violated_def
  trial_code_violated_def redemption_violated_def user_violated_def refresh_violated_def
  company_violated_def recruiter_violated_def shortlist_violated_def
  conversation_violated_def override_violated_def score_violated_def profile_violated_def
  profile_skill_violated_def school_violated_def application_violated_def badge_violated_def
  unconstrained_def

section \<open>Repositories\<close>

definition freshId :: "uuid service" where
  "freshId w = (Inr (nextId w), w\<lparr>nextId := Suc (nextId w)\<rparr>)"

definition setDb :: "db \<Rightarrow> world \<Rightarrow> world" where
  "setDb d w = w\<lparr>db := d\<rparr>"

definition save_into ::
  "(db \<Rightarrow> 'r list) \<Rightarrow> (('r list \<Rightarrow> 'r list) \<Rightarrow> db \<Rightarrow> db) \<Rightarrow> ('r \<Rightarrow> uuid) \<Rightarrow>
   ('r list \<Rightarrow> constraint_name option) \<Rightarrow> 'r \<Rightarrow> 'r service" where
  "save_into tbl upd pk violated r w =
     (case checked_save pk violated r (tbl (db w)) of
        Inl c \<Rightarrow> (Inl (UniqueViolation c), w)
      | Inr t \<Rightarrow> (Inr r, w\<lparr>db := upd (\<lambda>_. t) (db w)\<rparr>))"

definition saveSubscription :: "subscription \<Rightarrow> subscription service" where
  "saveSubscription = save_into subscriptions subscriptions_update subId sub_violated"

definition insertWebhookEvent :: "webhook_event_row \<Rightarrow> webhook_event_row service" where
  "insertWebhookEvent = save_into webhookEvents webhookEvents_update evRowId event_violated"

definition insertInvoice :: "invoice \<Rightarrow> invoice service" where
  "insertInvoice = save_into invoices invoices_update invoiceId invoice_violated"

definition saveTrialCode :: "trial_code \<Rightarrow> trial_code service" where
  "saveTrialCode = save_into trialCodes trialCodes_update tcId trial_code_violated"

definition insertRedemption :: "trial_redemption \<Rightarrow> trial_redemption service" where
  "insertRedemption = save_into trialRedemptions trialRedemptions_update trId redemption_violated"

definition saveUser :: "user \<Rightarrow> user service" where
  "saveUser = save_into users users_update userId user_violated"

definition saveRefreshToken :: "refresh_token \<Rightarrow> refresh_token service" where
  "saveRefreshToken = save_into refreshTokens refreshTokens_update rtId refresh_violated"

definition saveCompany :: "company \<Rightarrow> company service" where
  "saveCompany = save_into companies companies_update coId company_violated"

definition saveRecruiter :: "recruiter \<Rightarrow> recruiter service" where
  "saveRecruiter = save_into recruiters recruiters_update recId recruiter_violated"

definition saveInvitation :: "invitation \<Rightarrow> invitation service" where
  "saveInvitation = save_into invitations invitations_update invId unconstrained"

definition saveShortlistEntry :: "shortlist_entry \<Rightarrow> shortlist_entry service" where
  "saveShortlistEntry = save_into shortlist shortlist_update slId shortlist_violated"

definition saveConversation :: "conversation \<Rightarrow> conversation service" where
  "saveConversation = save_into conversations conversations_update convId conversation_violated"

definition saveMessage :: "message \<Rightarrow> message service" where
  "saveMessage = save_into messages messages_update msgId unconstrained"

definition saveReport :: "message_report \<Rightarrow> message_report service" where
  "saveReport = save_into messageReports messageReports_update repId unconstrained"

definition saveInterview :: "interview \<Rightarrow> interview service" where
  "saveInterview = save_into interviews interviews_update ivId unconstrained"

definition saveNotification :: "notification \<Rightarrow> notification service" where
  "saveNotification = save_into notifications notifications_update ntId unconstrained"

definition saveOverride :: "feature_override \<Rightarrow> feature_override service" where
  "saveOverride = save_into featureOverrides featureOverrides_update foId override_violated"

definition saveAssessment :: "assessment \<Rightarrow> assessment service" where
  "saveAssessment = save_into assessments assessments_update asId unconstrained"

definition saveScore :: "score \<Rightarrow> score service" where
  "saveScore = save_into scores scores_update scId score_violated"

definition saveProfile :: "candidate_profile \<Rightarrow> candidate_profile service" where
  "saveProfile = save_into candidateProfiles candidateProfiles_update cpId profile_violated"

definition saveProfileSkill :: "profile_skill \<Rightarrow> profile_skill service" where
  "saveProfileSkill = save_into profileSkills profileSkills_update psId profile_skill_violated"

definition saveExperience :: "experience \<Rightarrow> experience service" where
  "saveExperience = save_into experiences experiences_update exId unconstrained"

definition saveProject :: "project \<Rightarrow> project service" where
  "saveProject = save_into projects projects_update pjId unconstrained"

definition saveCertification :: "certification \<Rightarrow> certification service" where
  "saveCertification = save_into certifications certifications_update ctId unconstrained"

definition saveLink :: "profile_link \<Rightarrow> profile_link service" where
  "saveLink = save_into profileLinks profileLinks_update lkId unconstrained"

definition saveDocument :: "document \<Rightarrow> document service" where
  "saveDocument = save_into documents documents_update dcId unconstrained"

definition saveDataRequest :: "data_request \<Rightarrow> data_request service" where
  "saveDataRequest = save_into dataRequests dataRequests_update drId unconstrained"

definition saveVerification :: "school_verification \<Rightarrow> school_verification service" where
  "saveVerification = save_into schoolVerifications schoolVerifications_update svId school_violated"

definition saveOffer :: "job_offer \<Rightarrow> job_offer service" where
  "saveOffer = save_into jobOffers jobOffers_update joId unconstrained"

definition saveApplication :: "job_application \<Rightarrow> job_application service" where
  "saveApplication = save_into jobApplications jobApplications_update jaId application_violated"

definition saveSavedSearch :: "saved_search \<Rightarrow> saved_search service" where
  "saveSavedSearch = save_into savedSearches savedSearches_update ssId unconstrained"

definition saveProfileView :: "profile_view \<Rightarrow> profile_view service" where
  "saveProfileView = save_into profileViews profileViews_update pvId unconstrained"

definition saveBadge :: "score_badge \<Rightarrow> score_badge service" where
  "saveBadge = save_into scoreBadges scoreBadges_update bgId badge_violated"

lemmas save_defs = saveSubscription_def insertWebhookEvent_def insertInvoice_def
  saveTrialCode_def insertRedemption_def saveUser_def saveRefreshToken_def saveCompany_def
  saveRecruiter_def saveInvitation_def saveShortlistEntry_def saveConversation_def
  saveMessage_def saveReport_def saveInterview_def saveNotification_def saveOverride_def
  saveAssessment_def saveScore_def saveProfile_def saveProfileSkill_def saveExperience_def
  saveProject_def saveCertification_def saveLink_def saveDocument_def saveDataRequest_def
  saveVerification_def saveOffer_def saveApplication_def saveSavedSearch_def saveProfileView_def
  saveBadge_def

text \<open>Every repository is an instance of the contract of \<open>Tables\<close>.\<close>

interpretation sub_table: keyed_table subId sub_violated "checked_save subId sub_violated"
  by (rule keyed_table_checked_save)

interpretation event_table: keyed_table evRowId event_violated "checked_save evRowId event_violated"
  by (rule keyed_table_checked_save)

interpretation invoice_table:
  keyed_table invoiceId invoice_violated "checked_save invoiceId invoice_violated"
  by (rule keyed_table_checked_save)

interpretation recruiter_table:
  keyed_table recId recruiter_violated "checked_save recId recruiter_violated"
  by (rule keyed_table_checked_save)

interpretation conversation_table:
  keyed_table convId conversation_violated "checked_save convId conversation_violated"
  by (rule keyed_table_checked_save)

lemma save_into_Inr [returns]:
  "save_into tbl upd pk violated r w = (Inr x, w') \<longleftrightarrow>
     x = r \<and> violated (upsert pk r (tbl (db w))) = None \<and>
     w' = w\<lparr>db := upd (\<lambda>_. upsert pk r (tbl (db w))) (db w)\<rparr>"
  by (auto simp: save_into_def checked_save_def split: option.splits)

lemma save_into_Inl:
  "save_into tbl upd pk violated r w = (Inl e, w') \<longleftrightarrow>
     w' = w \<and> (\<exists>c. violated (upsert pk r (tbl (db w))) = Some c \<and> e = UniqueViolation c)"
  by (auto simp: save_into_def checked_save_def split: option.splits)

lemmas save_Inr = save_into_Inr [of subscriptions subscriptions_update subId sub_violated,
    folded saveSubscription_def]
  save_into_Inr [of webhookEvents webhookEvents_update evRowId event_violated,
    folded insertWebhookEvent_def]
  save_into_Inr [of invoices invoices_update invoiceId invoice_violated,
    folded insertInvoice_def]

lemma freshId_Inr [simp, returns]:
  "freshId w = (Inr i, w') \<longleftrightarrow> i = nextId w \<and> w' = w\<lparr>nextId := Suc (nextId w)\<rparr>"
  by (auto simp: freshId_def)

lemma freshId_Inl [simp]: "freshId w \<noteq> (Inl e, w')"
  by (simp add: freshId_def)

section \<open>Transactions\<close>

definition transaction :: "'a service \<Rightarrow> 'a service" where
  "transaction = transactionOn db setDb"

interpretation tx: rollback db setDb
  by unfold_locales (simp add: setDb_def)

section \<open>Side effects\<close>

definition auditLog :: "env \<Rightarrow> audit_entry \<Rightarrow> unit service" where
  "auditLog env e w =
     (if auditFails env e then (Inl (ServiceUnavailable ''audit''), w)
      else (Inr (), w\<lparr>audit := audit w @ [e]\<rparr>))"

definition sendMail :: "env \<Rightarrow> mail \<Rightarrow> unit service" where
  "sendMail env m w =
     (if mailFails env m then (Inl (ServiceUnavailable ''mail''), w)
      else (Inr (), w\<lparr>mails := mails w @ [m]\<rparr>))"

text \<open>\<open>try { await send } catch { log }\<close>\<close>

definition bestEffort :: "unit service \<Rightarrow> unit service" where
  "bestEffort m = tryCatch m (\<lambda>_. ret ())"

definition upload :: "env \<Rightarrow> string \<Rightarrow> unit service" where
  "upload env key w =
     (if uploadFails env key then (Inl (ServiceUnavailable ''storage''), w)
      else (Inr (), w\<lparr>objects := objects w @ [key]\<rparr>))"

definition deleteObject :: "env \<Rightarrow> string \<Rightarrow> unit service" where
  "deleteObject env key w =
     (if deleteFails env key then (Inl (ServiceUnavailable ''storage''), w)
      else (Inr (), w\<lparr>objects := filter (\<lambda>k. k \<noteq> key) (objects w)\<rparr>))"

text \<open>\<open>void analytics.track(...)\<close>: recorded on its own connection, failures swallowed.\<close>

definition track :: "env \<Rightarrow> analytics_type \<Rightarrow> uuid option \<Rightarrow> unit service" where
  "track env t u w =
     (if analyticsFails env then (Inr (), w)
      else (Inr (), w\<lparr>analytics := analytics w @ [(t, u)]\<rparr>))"

definition callStripe :: "env \<Rightarrow> stripe_call \<Rightarrow> unit service" where
  "callStripe env c w =
     (if stripeFails env c then (Inl (ServiceUnavailable ''stripe''), w)
      else (Inr (), w\<lparr>stripeCalls := stripeCalls w @ [c]\<rparr>))"

lemma auditLog_db: "auditLog env e w = (r, w') \<Longrightarrow> db w' = db w"
  by (auto simp: auditLog_def split: if_splits)

lemma sendMail_db: "sendMail env m w = (r, w') \<Longrightarrow> db w' = db w"
  by (auto simp: sendMail_def split: if_splits)

lemma auditLog_Inr [returns]: "auditLog env e w = (Inr u, w') \<longleftrightarrow>
    \<not> auditFails env e \<and> w' = w\<lparr>audit := audit w @ [e]\<rparr>"
  by (auto simp: auditLog_def)

lemma upload_Inr [returns]: "upload env k w = (Inr u, w') \<longleftrightarrow>
    \<not> uploadFails env k \<and> w' = w\<lparr>objects := objects w @ [k]\<rparr>"
  by (auto simp: upload_def)

lemma callStripe_Inr [returns]: "callStripe env c w = (Inr u, w') \<longleftrightarrow>
    \<not> stripeFails env c \<and> w' = w\<lparr>stripeCalls := stripeCalls w @ [c]\<rparr>"
  by (auto simp: callStripe_def)

text \<open>Effects outside the database: whatever they do, the tables stay as they are and no
  identifier is reused.\<close>

definition outside_db :: "'a service \<Rightarrow> bool" where
  "outside_db m \<longleftrightarrow> (\<forall>w. db (snd (m w)) = db w \<and> nextId w \<le> nextId (snd (m w)))"

lemma outside_dbD: "outside_db m \<Longrightarrow> m w = (r, w') \<Longrightarrow> db w' = db w \<and> nextId w \<le> nextId w'"
  unfolding outside_db_def by (metis snd_conv)

lemma outside_dbI:
  "(\<And>w. db (snd (m w)) = db w \<and> nextId w \<le> nextId (snd (m w))) \<Longrightarrow> outside_db m"
  by (simp add: outside_db_def)

lemma outside_auditLog [keeping]: "outside_db (auditLog env e)"
  by (rule outside_dbI) (simp add: auditLog_def)

lemma outside_sendMail [keeping]: "outside_db (sendMail env e)"
  by (rule outside_dbI) (simp add: sendMail_def)

lemma outside_track [keeping]: "outside_db (track env t u)"
  by (rule outside_dbI) (simp add: track_def)

lemma outside_upload [keeping]: "outside_db (upload env k)"
  by (rule outside_dbI) (simp add: upload_def)

lemma outside_deleteObject [keeping]: "outside_db (deleteObject env k)"
  by (rule outside_dbI) (simp add: deleteObject_def)

lemma outside_callStripe [keeping]: "outside_db (callStripe env c)"
  by (rule outside_dbI) (simp add: callStripe_def)

lemma outside_freshId [keeping]: "outside_db freshId"
  by (rule outside_dbI) (simp add: freshId_def)

lemma outside_ret [keeping]: "outside_db (ret x)"
  by (rule outside_dbI) simp

lemma outside_throw [keeping]: "outside_db (throw x)"
  by (rule outside_dbI) simp

lemma outside_gets [keeping]: "outside_db (gets f)"
  by (rule outside_dbI) simp

lemma outside_require [keeping]: "outside_db (require c e)"
  by (rule outside_dbI) (simp add: require_def)

lemma outside_someOr [keeping]: "outside_db (someOr e opt)"
  by (rule outside_dbI) (simp add: someOr_def split: option.split)

lemma outside_bindE [keeping]:
  assumes "outside_db m" "\<And>x. outside_db (f x)"
  shows "outside_db (bindE m f)"
proof (rule outside_dbI)
  fix w
  obtain r w1 where m: "m w = (r, w1)" by fastforce
  then have m1: "db w1 = db w \<and> nextId w \<le> nextId w1" by (rule outside_dbD [OF assms(1)])
  show "db (snd (bindE m f w)) = db w \<and> nextId w \<le> nextId (snd (bindE m f w))"
  proof (cases r)
    case (Inr x)
    obtain r2 w2 where "f x w1 = (r2, w2)" by fastforce
    with outside_dbD [OF assms(2) this] m m1 Inr show ?thesis by simp
  qed (use m m1 in simp)
qed

lemma outside_bestEffort [keeping]:
  assumes "outside_db m"
  shows "outside_db (bestEffort m)"
proof (rule outside_dbI)
  fix w
  obtain r w1 where m: "m w = (r, w1)" by fastforce
  then have "db w1 = db w \<and> nextId w \<le> nextId w1" by (rule outside_dbD [OF assms])
  with m show "db (snd (bestEffort m w)) = db w \<and> nextId w \<le> nextId (snd (bestEffort m w))"
    by (cases r) (simp_all add: bestEffort_def tryCatch_def)
qed

lemma outside_option [keeping]:
  "outside_db m \<Longrightarrow> (\<And>x. outside_db (f x)) \<Longrightarrow>
     outside_db (case opt of None \<Rightarrow> m | Some x \<Rightarrow> f x)"
  by (cases opt) auto

lemma outside_if [keeping]:
  "outside_db m \<Longrightarrow> outside_db m' \<Longrightarrow> outside_db (if c then m else m')"
  by simp

lemma outside_forEach [keeping]: "(\<And>x. outside_db (f x)) \<Longrightarrow> outside_db (forEach xs f)"
  by (induction xs) (simp_all add: outside_ret outside_bindE)

lemma bestEffort_never_throws: "bestEffort m w \<noteq> (Inl e, w')"
  by (auto simp: bestEffort_def tryCatch_def split: prod.splits sum.splits)

lemma preserves_outside: "outside_db m \<Longrightarrow> preserves (\<lambda>w. I (db w)) m"
  by (rule preservesI) (simp add: outside_db_def)

lemmas preserves_outside_effects [keeping] =
  preserves_outside [OF outside_auditLog] preserves_outside [OF outside_sendMail]
  preserves_outside [OF outside_track] preserves_outside [OF outside_upload]
  preserves_outside [OF outside_callStripe] preserves_outside [OF outside_freshId]

lemma preserves_bestEffort [keeping]: "preserves I m \<Longrightarrow> preserves I (bestEffort m)"
  unfolding bestEffort_def by (intro keeping)

lemma preserves_transaction [keeping]:
  "keeps (\<lambda>w. I (db w)) m \<Longrightarrow> preserves (\<lambda>w. I (db w)) (transaction m)"
  unfolding transaction_def by (rule tx.transaction_preserves)

lemma transaction_Inr [returns]: "transaction m w = (Inr x, w') \<longleftrightarrow> m w = (Inr x, w')"
  unfolding transaction_def by (rule tx.committed)

lemma transaction_Inl_db: "transaction m w = (Inl e, w') \<Longrightarrow> db w' = db w"
  unfolding transaction_def by (rule tx.rolled_back)

lemma transaction_Inl:
  "transaction m w = (Inl e, w') \<Longrightarrow> \<exists>w''. m w = (Inl e, w'') \<and> w' = w''\<lparr>db := db w\<rparr>"
  by (auto simp: transaction_def transactionOn_def setDb_def split: prod.splits sum.splits)

section \<open>Which constraints a call can report\<close>

lemma never_throws_effects [keeping]:
  "ServiceUnavailable ''audit'' \<notin> E \<Longrightarrow> never_throws E (auditLog env a)"
  "ServiceUnavailable ''mail'' \<notin> E \<Longrightarrow> never_throws E (sendMail env m)"
  "ServiceUnavailable ''storage'' \<notin> E \<Longrightarrow> never_throws E (upload env k)"
  "ServiceUnavailable ''stripe'' \<notin> E \<Longrightarrow> never_throws E (callStripe env c)"
  "never_throws E (track env t u)" "never_throws E freshId" "never_throws E (bestEffort b)"
  by (auto simp: never_throws_def auditLog_def sendMail_def upload_def callStripe_def track_def
      freshId_def bestEffort_never_throws split: if_splits)

lemma never_throws_save:
  "(\<And>t c. violated t = Some c \<Longrightarrow> UniqueViolation c \<notin> E) \<Longrightarrow>
     never_throws E (save_into tbl upd pk violated r)"
  by (auto simp: never_throws_def save_into_Inl)

lemma never_throws_saves [keeping]:
  "UniqueViolation UQ_subscriptions_company_active \<notin> E \<Longrightarrow> never_throws E (saveSubscription s)"
  "UniqueViolation UQ_invoices_invoice_number \<notin> E \<Longrightarrow>
   UniqueViolation UQ_invoices_stripe_invoice_id \<notin> E \<Longrightarrow> never_throws E (insertInvoice i)"
  unfolding saveSubscription_def insertInvoice_def
  by (rule never_throws_save; auto simp: sub_violated_def invoice_violated_def split: if_splits)+

section \<open>Identifiers are never reused\<close>

definition ids_grow :: "'a service \<Rightarrow> bool" where
  "ids_grow m \<longleftrightarrow> (\<forall>w. nextId w \<le> nextId (snd (m w)))"

lemma ids_growI: "(\<And>w. nextId w \<le> nextId (snd (m w))) \<Longrightarrow> ids_grow m"
  by (simp add: ids_grow_def)

lemma ids_growD: "ids_grow m \<Longrightarrow> m w = (r, w') \<Longrightarrow> nextId w \<le> nextId w'"
  unfolding ids_grow_def by (metis snd_conv)

lemma ids_grow_outside: "outside_db m \<Longrightarrow> ids_grow m"
  by (simp add: outside_db_def ids_grow_def)

lemma ids_grow_basic [keeping]:
  "ids_grow (auditLog env a)" "ids_grow (sendMail env m)" "ids_grow (upload env k)"
  "ids_grow (callStripe env c)" "ids_grow (track env t u)" "ids_grow freshId"
  "ids_grow (ret x)" "ids_grow (throw e)" "ids_grow (gets f)" "ids_grow (require b e)"
  "ids_grow (someOr e opt)"
  by (rule ids_grow_outside, intro keeping)+

lemma ids_grow_modify [keeping]: "(\<And>w. nextId w \<le> nextId (f w)) \<Longrightarrow> ids_grow (modify f)"
  by (simp add: ids_grow_def)

lemma ids_grow_save [keeping]: "ids_grow (save_into tbl upd pk violated r)"
  by (rule ids_growI) (simp add: save_into_def split: sum.split)

lemma ids_grow_saves [keeping]:
  "ids_grow (saveSubscription s)" "ids_grow (insertInvoice i)" "ids_grow (insertWebhookEvent ev)"
  unfolding save_defs by (intro keeping)+

lemma ids_grow_bindE [keeping]:
  assumes "ids_grow m" "\<And>x. ids_grow (f x)"
  shows "ids_grow (bindE m f)"
proof (rule ids_growI)
  fix w
  obtain r w1 where m: "m w = (r, w1)" by fastforce
  with ids_growD [OF assms(1) m] show "nextId w \<le> nextId (snd (bindE m f w))"
    using assms(2) unfolding ids_grow_def by (cases r) (auto intro: order_trans)
qed

lemma ids_grow_tryCatch [keeping]:
  assumes "ids_grow m" "\<And>e. ids_grow (h e)"
  shows "ids_grow (tryCatch m h)"
proof (rule ids_growI)
  fix w
  obtain r w1 where m: "m w = (r, w1)" by fastforce
  with ids_growD [OF assms(1) m] show "nextId w \<le> nextId (snd (tryCatch m h w))"
    using assms(2) unfolding ids_grow_def by (cases r) (auto simp: tryCatch_def intro: order_trans)
qed

lemma ids_grow_if [keeping]: "ids_grow m \<Longrightarrow> ids_grow m' \<Longrightarrow> ids_grow (if c then m else m')"
  by simp

lemma ids_grow_option [keeping]:
  "ids_grow m \<Longrightarrow> (\<And>x. ids_grow (f x)) \<Longrightarrow> ids_grow (case opt of None \<Rightarrow> m | Some x \<Rightarrow> f x)"
  by (cases opt) auto

lemma ids_grow_forEach [keeping]: "(\<And>x. ids_grow (f x)) \<Longrightarrow> ids_grow (forEach xs f)"
  by (induction xs) (simp_all add: ids_grow_basic ids_grow_bindE)

lemma ids_grow_transaction [keeping]: "ids_grow m \<Longrightarrow> ids_grow (transaction m)"
  by (rule ids_growI) (auto simp: transaction_def transactionOn_def setDb_def ids_growD
      split: prod.split sum.split)

lemma ids_grow_bestEffort [keeping]: "ids_grow m \<Longrightarrow> ids_grow (bestEffort m)"
  unfolding bestEffort_def by (intro keeping)

end
