(* ===== verification/Billing_Rules.thy ===== *)
theory Billing_Rules
  imports Repo
begin

text \<open>
  The pure rules of billing: the subscription lifecycle
  (\<open>companies/subscription-lifecycle.ts\<close>), the access rule
  (\<open>companies/subscription-access.ts\<close>), plan quotas and prices (\<open>billing/plan-quota.ts\<close>),
  VAT (\<open>billing/tax.ts\<close>) and date arithmetic (\<open>common/date-utils.ts\<close>).
\<close>

section \<open>Dates\<close>

definition ms_per_day :: int where
  "ms_per_day = 86400000"

text \<open>\<open>setDate(getDate() + n)\<close> moves the local calendar date and keeps the local time.\<close>

definition addDays :: "env \<Rightarrow> date \<Rightarrow> int \<Rightarrow> date" where
  "addDays env d n = fromLocal env (toLocal env d + n * ms_per_day)"

text \<open>\<open>getFullYear\<close>: the year of the local date. \<open>day_from_year y\<close> is the day number of
  January 1st; the estimate from the mean year length is off by at most one.\<close>

definition day_from_year :: "int \<Rightarrow> int" where
  "day_from_year y =
     365 * (y - 1970) + (y - 1969) div 4 - (y - 1901) div 100 + (y - 1601) div 400"

definition year_of_day :: "int \<Rightarrow> int" where
  "year_of_day d =
     (let y = 1970 + (400 * d) div 146097 in
      if d < day_from_year y then y - 1
      else if day_from_year (y + 1) \<le> d then y + 1 else y)"

definition getFullYear :: "env \<Rightarrow> date \<Rightarrow> int" where
  "getFullYear env d = year_of_day (toLocal env d div ms_per_day)"

section \<open>The subscription lifecycle\<close>

fun subscription_status_transitions :: "sub_status \<Rightarrow> sub_status list" where
  "subscription_status_transitions TRIAL = [ACTIVE, EXPIRED, CANCELLED, SUSPENDED]"
| "subscription_status_transitions ACTIVE = [PAST_DUE, CANCELLED, SUSPENDED]"
| "subscription_status_transitions PAST_DUE = [ACTIVE, CANCELLED, SUSPENDED]"
| "subscription_status_transitions SUSPENDED = [ACTIVE, CANCELLED, EXPIRED]"
| "subscription_status_transitions CANCELLED = []"
| "subscription_status_transitions EXPIRED = []"

definition assertValidSubscriptionTransition :: "sub_status \<Rightarrow> sub_status \<Rightarrow> unit service" where
  "assertValidSubscriptionTransition s t =
     require (t \<in> set (subscription_status_transitions s))
       (InvalidSubscriptionTransitionException s t)"

lemma assertValid_Inr [simp]:
  "assertValidSubscriptionTransition s t w = (Inr u, w') \<longleftrightarrow>
     t \<in> set (subscription_status_transitions s) \<and> w' = w"
  by (simp add: assertValidSubscriptionTransition_def)

lemma assertValid_apply [eff_simps]:
  "assertValidSubscriptionTransition s t w =
     (if t \<in> set (subscription_status_transitions s) then (Inr (), w)
      else (Inl (InvalidSubscriptionTransitionException s t), w))"
  by (simp add: assertValidSubscriptionTransition_def require_def)

lemma preserves_assertValid [keeping]: "preserves I (assertValidSubscriptionTransition s t)"
  unfolding assertValidSubscriptionTransition_def by (intro keeping)

lemma transition_not_reflexive: "s \<notin> set (subscription_status_transitions s)"
  by (cases s) auto

section \<open>Access\<close>

definition isSubscriptionWithinAccess :: "env \<Rightarrow> subscription \<Rightarrow> int \<Rightarrow> bool" where
  "isSubscriptionWithinAccess env s graceDays =
     (case subStatus s of
        ACTIVE \<Rightarrow> True
      | TRIAL \<Rightarrow> (case endsAt s of None \<Rightarrow> True | Some e \<Rightarrow> now env < e)
      | PAST_DUE \<Rightarrow>
          (case pastDueSince s of None \<Rightarrow> True
           | Some d \<Rightarrow> now env < addDays env d graceDays)
      | _ \<Rightarrow> False)"

section \<open>Plans\<close>

definition resolveUserLimitForPlan :: "env \<Rightarrow> plan \<Rightarrow> int service" where
  "resolveUserLimitForPlan env p =
     (if p = ENTERPRISE then ret (2 ^ 53 - 1)
      else someOr (InternalServerErrorException ''no-user-limit'') (planUsers env p))"

definition resolveContactQuotaForPlan :: "env \<Rightarrow> plan \<Rightarrow> int service" where
  "resolveContactQuotaForPlan env p =
     (if p = ENTERPRISE then throw EnterpriseQuotaNotAutomatedException
      else someOr (InternalServerErrorException ''no-contact-quota'') (planContacts env p))"

definition resolveMonthlyPriceHtInCentimes :: "env \<Rightarrow> plan \<Rightarrow> int service" where
  "resolveMonthlyPriceHtInCentimes env p =
     (if p = ENTERPRISE then throw EnterpriseQuotaNotAutomatedException
      else bindE (someOr (InternalServerErrorException ''no-price'') (planPrice env p))
        (\<lambda>price. ret (price * 100)))"

lemma resolveContactQuota_Inr:
  "resolveContactQuotaForPlan env p w = (Inr q, w') \<longleftrightarrow>
     p \<noteq> ENTERPRISE \<and> planContacts env p = Some q \<and> w' = w"
  by (auto simp: resolveContactQuotaForPlan_def)

lemma resolvePrice_Inr:
  "resolveMonthlyPriceHtInCentimes env p w = (Inr q, w') \<longleftrightarrow>
     p \<noteq> ENTERPRISE \<and> (\<exists>c. planPrice env p = Some c \<and> q = c * 100) \<and> w' = w"
  by (auto simp: resolveMonthlyPriceHtInCentimes_def bindE_def someOr_apply split: option.splits)

lemma preserves_resolve [keeping]:
  "preserves I (resolveUserLimitForPlan env p)"
  "preserves I (resolveContactQuotaForPlan env p)"
  "preserves I (resolveMonthlyPriceHtInCentimes env p)"
  unfolding resolveUserLimitForPlan_def resolveContactQuotaForPlan_def
    resolveMonthlyPriceHtInCentimes_def
  by (intro keeping)+

section \<open>VAT\<close>

definition VAT_RATE_PERCENT :: int where
  "VAT_RATE_PERCENT = 20"

record vat_breakdown =
  vatHT :: int
  vatVAT :: int
  vatTTC :: int

definition computeVat :: "int \<Rightarrow> vat_breakdown" where
  "computeVat ht =
     (let vat = round_div (ht * VAT_RATE_PERCENT) 100
      in \<lparr>vatHT = ht, vatVAT = vat, vatTTC = ht + vat\<rparr>)"

definition computeVatFromTtc :: "int \<Rightarrow> vat_breakdown" where
  "computeVatFromTtc ttc =
     (let ht = round_div (ttc * 100) (100 + VAT_RATE_PERCENT)
      in \<lparr>vatHT = ht, vatVAT = ttc - ht, vatTTC = ttc\<rparr>)"

lemma computeVat_sum: "vatHT (computeVat a) + vatVAT (computeVat a) = vatTTC (computeVat a)"
  by (simp add: computeVat_def Let_def)

lemma computeVatFromTtc_sum:
  "vatHT (computeVatFromTtc a) + vatVAT (computeVatFromTtc a) = vatTTC (computeVatFromTtc a)"
  by (simp add: computeVatFromTtc_def Let_def)

lemma computeVat_near:
  "\<bar>100 * vatVAT (computeVat a) - 20 * a\<bar> \<le> 50"
  using round_div_bounds [of 100 "a * 20"]
  by (simp add: computeVat_def VAT_RATE_PERCENT_def Let_def)

lemma round_div_unique:
  assumes "0 < b" "2 * a - b < 2 * b * n" "2 * b * n \<le> 2 * a + b"
  shows "round_div a b = n"
proof -
  let ?r = "round_div a b"
  have r: "2 * a - b < 2 * b * ?r" "2 * b * ?r \<le> 2 * a + b"
    using round_div_bounds [OF assms(1)] by auto
  have "2 * b * ?r < 2 * b * (n + 1)" "2 * b * n < 2 * b * (?r + 1)"
    using r assms(2,3) by (simp_all add: distrib_left)
  with assms(1) have "?r < n + 1" "n < ?r + 1" by (simp_all add: mult_less_cancel_left)
  then show ?thesis by simp
qed

text \<open>C9: reversing the VAT of a price computed from its pre-tax amount gives that
  pre-tax amount back, for every amount.\<close>

theorem vat_roundtrip: "computeVatFromTtc (vatTTC (computeVat a)) = computeVat a"
proof -
  have "\<bar>100 * vatVAT (computeVat a) - 20 * a\<bar> \<le> 50" by (rule computeVat_near)
  \<comment> \<open>the VAT is in fact within 40/100, since twenty percent of an integer has fifths\<close>
  moreover define v where "v = vatVAT (computeVat a)"
  ultimately have "\<bar>5 * v - a\<bar> \<le> 2" by linarith
  then have "round_div ((a + v) * 100) 120 = a"
    by (intro round_div_unique) auto
  then show ?thesis
    by (simp add: computeVatFromTtc_def computeVat_def Let_def VAT_RATE_PERCENT_def v_def)
qed

end
