(* ===== verification/Stripe.thy ===== *)
theory Stripe
  imports Billing_Rules
begin

text \<open>
  The webhook half of \<open>adapters/payment/stripe-payment.adapter.ts\<close>: from a signed request
  to a domain event of \<open>ports/payment.port.ts\<close>. The signature check
  \<open>stripe.webhooks.constructEvent\<close> is the Stripe SDK's, hence the parameter
  \<open>constructEvent\<close> (raw body, signature, secret), \<open>None\<close> when it throws.

  \<open>event.data.object\<close> is untyped; the record \<open>stripe_object\<close> holds every property the
  adapter reads from it, whatever the event type. The metadata \<open>companyId\<close> and \<open>plan\<close>
  are \<open>None\<close> when absent or empty (both are written by this application's own checkout).
\<close>

datatype expandable = IdOnly string | Expanded string

record stripe_object =
  objId :: string
  metaCompanyId :: "uuid option"
  metaPlan :: "plan option"
  objSubscription :: "expandable option"
  parentSubscription :: "expandable option"
  billingReason :: "string option"
  amountPaid :: int
  objStatus :: string

record stripe_event =
  evId :: string
  evType :: string
  evObject :: stripe_object

datatype webhook_event =
  SubscriptionActivated string string string uuid plan
| SubscriptionRenewed string string
| PaymentFailed string uuid string
| SubscriptionPastDue string string
| SubscriptionPlanChanged string string int
| SubscriptionCancelled string string string
| Ignored string string

fun event_id :: "webhook_event \<Rightarrow> string" where
  "event_id (SubscriptionActivated i _ _ _ _) = i"
| "event_id (SubscriptionRenewed i _) = i"
| "event_id (PaymentFailed i _ _) = i"
| "event_id (SubscriptionPastDue i _) = i"
| "event_id (SubscriptionPlanChanged i _ _) = i"
| "event_id (SubscriptionCancelled i _ _) = i"
| "event_id (Ignored i _) = i"

fun event_type :: "webhook_event \<Rightarrow> string" where
  "event_type (SubscriptionActivated _ _ _ _ _) = ''subscription.activated''"
| "event_type (SubscriptionRenewed _ _) = ''subscription.renewed''"
| "event_type (PaymentFailed _ _ _) = ''payment.failed''"
| "event_type (SubscriptionPastDue _ _) = ''subscription.past_due''"
| "event_type (SubscriptionPlanChanged _ _ _) = ''subscription.plan_changed''"
| "event_type (SubscriptionCancelled _ _ _) = ''subscription.cancelled''"
| "event_type (Ignored _ _) = ''ignored''"

text \<open>\<open>typeof x === 'string' ? x : x?.id\<close>\<close>

fun expand_id :: "expandable option \<Rightarrow> string option" where
  "expand_id None = None"
| "expand_id (Some (IdOnly i)) = Some i"
| "expand_id (Some (Expanded i)) = Some i"

definition falsy :: "string option \<Rightarrow> bool" where
  "falsy x \<longleftrightarrow> x = None \<or> x = Some []"

definition extractSubscriptionId :: "stripe_object \<Rightarrow> string option" where
  "extractSubscriptionId iv = expand_id (parentSubscription iv)"

definition activating_event_types :: "string list" where
  "activating_event_types = [''checkout.session.completed'']"

definition failure_event_types :: "string list" where
  "failure_event_types =
     [''checkout.session.async_payment_failed'', ''checkout.session.expired'']"

definition toInvoicePaidDomainEvent :: "stripe_event \<Rightarrow> err + webhook_event" where
  "toInvoicePaidDomainEvent ev =
     (let iv = evObject ev; reason = billingReason iv; sub = extractSubscriptionId iv in
      if reason = Some ''subscription_create'' then
        Inr (Ignored (evId ev) ''invoice.paid for the initial payment'')
      else if reason = Some ''subscription_cycle'' then
        (if falsy sub then Inl (InternalServerErrorException ''cycle-invoice-without-subscription'')
         else Inr (SubscriptionRenewed (evId ev) (the sub)))
      else if reason = Some ''subscription_update'' then
        (if falsy sub then Inl (InternalServerErrorException ''update-invoice-without-subscription'')
         else Inr (SubscriptionPlanChanged (evId ev) (the sub) (amountPaid iv)))
      else Inr (Ignored (evId ev)
        (''invoice.paid with billing_reason='' @
         (case reason of None \<Rightarrow> ''unknown'' | Some r \<Rightarrow> r))))"

definition toDomainEvent :: "stripe_event \<Rightarrow> err + webhook_event" where
  "toDomainEvent ev =
     (let obj = evObject ev; ty = evType ev in
      if ty \<in> set activating_event_types then
        (case (metaCompanyId obj, metaPlan obj) of
           (Some companyId, Some pl) \<Rightarrow>
             (let sub = expand_id (objSubscription obj) in
              if falsy sub then Inl (InternalServerErrorException ''session-without-subscription'')
              else Inr (SubscriptionActivated (evId ev) (objId obj) (the sub) companyId pl))
         | _ \<Rightarrow> Inl (InternalServerErrorException ''missing-metadata''))
      else if ty = ''invoice.paid'' then toInvoicePaidDomainEvent ev
      else if ty = ''invoice.payment_failed'' then
        (let sub = extractSubscriptionId obj in
         if falsy sub then
           Inr (Ignored (evId ev) ''invoice.payment_failed with no subscription reference'')
         else Inr (SubscriptionPastDue (evId ev) (the sub)))
      else if ty = ''customer.subscription.updated'' \<or> ty = ''customer.subscription.deleted'' then
        (if ty = ''customer.subscription.deleted'' \<or> objStatus obj = ''unpaid'' then
           Inr (SubscriptionCancelled (evId ev) (objId obj)
             (if ty = ''customer.subscription.deleted'' then ''subscription_deleted''
              else ''retries_exhausted''))
         else Inr (Ignored (evId ev)
           (''customer.subscription.updated with status='' @ objStatus obj)))
      else if ty \<in> set failure_event_types then
        (case metaCompanyId obj of
           None \<Rightarrow> Inr (Ignored (evId ev) (ty @ '' without companyId metadata''))
         | Some companyId \<Rightarrow> Inr (PaymentFailed (evId ev) companyId ty))
      else Inr (Ignored (evId ev) (''unhandled event type '' @ ty)))"

definition verifyAndParseWebhook ::
  "(string \<Rightarrow> string \<Rightarrow> string \<Rightarrow> stripe_event option) \<Rightarrow> string \<Rightarrow> string \<Rightarrow> string \<Rightarrow>
   err + webhook_event" where
  "verifyAndParseWebhook constructEvent webhookSecret rawBody signature =
     (case constructEvent rawBody signature webhookSecret of
        None \<Rightarrow> Inl InvalidWebhookSignatureException
      | Some ev \<Rightarrow> toDomainEvent ev)"

lemma toInvoicePaid_id: "toInvoicePaidDomainEvent ev = Inr e \<Longrightarrow> event_id e = evId ev"
  by (auto simp: toInvoicePaidDomainEvent_def Let_def split: if_splits)

text \<open>Whatever the event, the domain event carries the provider's event id, on which the
  deduplication of the webhook rests.\<close>

lemma toDomainEvent_id: "toDomainEvent ev = Inr e \<Longrightarrow> event_id e = evId ev"
  by (auto simp: toDomainEvent_def Let_def toInvoicePaid_id
      split: if_splits option.splits prod.splits)

text \<open>No event about money is lost: a domain event that the handler would skip never comes
  from a completed checkout, a renewal invoice, a plan-change invoice or a deletion.\<close>

definition money_event :: "stripe_event \<Rightarrow> bool" where
  "money_event ev \<longleftrightarrow>
     evType ev = ''checkout.session.completed''
   \<or> evType ev = ''customer.subscription.deleted''
   \<or> evType ev = ''invoice.paid'' \<and>
     billingReason (evObject ev) \<in> {Some ''subscription_cycle'', Some ''subscription_update''}"

lemma money_event_not_ignored:
  assumes "money_event ev"
  shows "toDomainEvent ev \<noteq> Inr (Ignored i r)"
proof -
  consider "evType ev = ''checkout.session.completed''"
    | "evType ev = ''customer.subscription.deleted''"
    | "evType ev = ''invoice.paid''" "billingReason (evObject ev) = Some ''subscription_cycle''"
    | "evType ev = ''invoice.paid''" "billingReason (evObject ev) = Some ''subscription_update''"
    using assms unfolding money_event_def by blast
  then show ?thesis
    by cases (simp_all add: toDomainEvent_def toInvoicePaidDomainEvent_def Let_def
        activating_event_types_def split: option.split)
qed

end
