(* ===== verification/Invoicing.thy ===== *)
theory Invoicing
  imports Stripe
begin

text \<open>
  Legal invoices: \<open>billing/invoice-numbering.ts\<close> and \<open>billing/invoice-emission.service.ts\<close>.
  The counter row of a year and the invoices of that year move together inside the caller's
  transaction. \<open>gap_free\<close> is the legal obligation: the numbers of all invoices are, for every
  year's counter, exactly \<open>1 .. lastNumber\<close>, each once.
\<close>

definition INVOICE_NUMBER_PADDING :: nat where
  "INVOICE_NUMBER_PADDING = 4"

definition formatInvoiceNumber :: "int \<Rightarrow> int \<Rightarrow> string" where
  "formatInvoiceNumber year n =
     dec_int year @ ''-'' @ padStart INVOICE_NUMBER_PADDING (CHR ''0'') (dec_int n)"

definition allocateInvoiceNumber :: "int \<Rightarrow> string service" where
  "allocateInvoiceNumber year =
     bindE (modify (\<lambda>w. w\<lparr>db := (db w)\<lparr>invoiceSequences :=
        (if year \<in> seqYear ` set (invoiceSequences (db w)) then invoiceSequences (db w)
         else invoiceSequences (db w) @ [\<lparr>seqYear = year, lastNumber = 0\<rparr>])\<rparr>\<rparr>)) (\<lambda>_.
     bindE (gets (\<lambda>w. List.find (\<lambda>r. seqYear r = year) (invoiceSequences (db w)))) (\<lambda>found.
     bindE (someOr (InternalServerErrorException ''sequence-not-found'') found) (\<lambda>row.
     bindE (modify (\<lambda>w. w\<lparr>db := (db w)\<lparr>invoiceSequences :=
        upsert seqYear (row\<lparr>lastNumber := lastNumber row + 1\<rparr>) (invoiceSequences (db w))\<rparr>\<rparr>)) (\<lambda>_.
     ret (formatInvoiceNumber year (lastNumber row + 1))))))"

definition generateInvoicePdf :: "env \<Rightarrow> string \<Rightarrow> unit service" where
  "generateInvoicePdf env number =
     require (\<not> pdfFails env number) (InternalServerErrorException ''pdf'')"

definition emit_amounts :: "env \<Rightarrow> plan \<Rightarrow> int option \<Rightarrow> vat_breakdown service" where
  "emit_amounts env p amountTTCOverride =
     (case amountTTCOverride of
        Some ttc \<Rightarrow> ret (computeVatFromTtc ttc)
      | None \<Rightarrow> bindE (resolveMonthlyPriceHtInCentimes env p) (\<lambda>ht. ret (computeVat ht)))"

definition invoiceData ::
  "env \<Rightarrow> subscription \<Rightarrow> company \<Rightarrow> string \<Rightarrow> vat_breakdown \<Rightarrow> string \<Rightarrow> string \<Rightarrow> uuid \<Rightarrow> invoice" where
  "invoiceData env sub co stripeEventId v number key i =
     \<lparr>invoiceId = i, invSubscriptionId = subId sub, invoiceCompanyId = coId co,
      invoiceNumber = number, amountHT = vatHT v, vatRate = VAT_RATE_PERCENT,
      vatAmount = vatVAT v, amountTTC = vatTTC v, currency = ''MAD'',
      companyIce = (case ice co of None \<Rightarrow> [] | Some x \<Rightarrow> x), issuedAt = now env,
      pdfStorageKey = key, stripeInvoiceId = stripeEventId\<rparr>"

definition emit ::
  "env \<Rightarrow> subscription \<Rightarrow> company \<Rightarrow> string \<Rightarrow> int option \<Rightarrow> invoice service" where
  "emit env sub co stripeEventId amountTTCOverride =
     bindE (emit_amounts env (subPlan sub) amountTTCOverride) (\<lambda>v.
     bindE (allocateInvoiceNumber (getFullYear env (now env))) (\<lambda>number.
     bindE (generateInvoicePdf env number) (\<lambda>_.
     bindE (ret (''invoices/'' @ dec (coId co) @ ''/'' @ number @ ''.pdf'')) (\<lambda>key.
     bindE (upload env key) (\<lambda>_.
     bindE freshId (\<lambda>i.
     insertInvoice (invoiceData env sub co stripeEventId v number key i)))))))"

section \<open>Printed numbers are injective\<close>

lemma split_last_dash:
  assumes "a @ ''-'' @ b = a' @ ''-'' @ b'" "CHR ''-'' \<notin> set b" "CHR ''-'' \<notin> set b'"
  shows "a = a' \<and> b = b'"
proof -
  have *: "takeWhile (\<lambda>c. c \<noteq> CHR ''-'') (rev (x @ ''-'' @ y)) = rev y"
    if "CHR ''-'' \<notin> set y" for x y
  proof -
    have "takeWhile (\<lambda>c. c \<noteq> CHR ''-'') (rev y @ CHR ''-'' # rev x) = rev y"
      using that by (subst takeWhile_append2) auto
    then show ?thesis by simp
  qed
  have "rev b = rev b'" using * [OF assms(2), of a] * [OF assms(3), of a'] assms(1) by metis
  with assms(1) show ?thesis by simp
qed

lemma formatInvoiceNumber_inject:
  assumes "0 \<le> m" "0 \<le> n" "formatInvoiceNumber y m = formatInvoiceNumber z n"
  shows "y = z \<and> m = n"
proof -
  have d: "dec_int k = dec (nat k)" if "0 \<le> k" for k using that by (simp add: dec_int_def)
  have "dec_int y = dec_int z \<and>
      padStart 4 (CHR ''0'') (dec (nat m)) = padStart 4 (CHR ''0'') (dec (nat n))"
    using assms(3) unfolding formatInvoiceNumber_def INVOICE_NUMBER_PADDING_def
      d [OF assms(1)] d [OF assms(2)]
    by (intro split_last_dash) auto
  then have "y = z" "nat m = nat n"
    using dec_int_inject by (auto dest: arg_cong [where f = undec])
  then show ?thesis using assms by auto
qed

section \<open>Gap-freedom\<close>

definition expected_numbers :: "invoice_sequence list \<Rightarrow> string multiset" where
  "expected_numbers t =
     (\<Sum>r\<leftarrow>t. mset (map (\<lambda>n. formatInvoiceNumber (seqYear r) n) [1..lastNumber r]))"

definition gap_free :: "db \<Rightarrow> bool" where
  "gap_free d \<longleftrightarrow>
     distinct (map seqYear (invoiceSequences d)) \<and>
     (\<forall>r \<in> set (invoiceSequences d). 0 \<le> lastNumber r) \<and>
     mset (map invoiceNumber (invoices d)) = expected_numbers (invoiceSequences d)"

lemma expected_append [simp]:
  "expected_numbers (t @ u) = expected_numbers t + expected_numbers u"
  by (simp add: expected_numbers_def)

lemma expected_Cons [simp]:
  "expected_numbers (r # t) =
     mset (map (\<lambda>n. formatInvoiceNumber (seqYear r) n) [1..lastNumber r]) + expected_numbers t"
  by (simp add: expected_numbers_def)

lemma expected_Nil [simp]: "expected_numbers [] = {#}"
  by (simp add: expected_numbers_def)

text \<open>Advancing the counter of a year by one adds exactly the next number of that year.\<close>

lemma expected_advance:
  assumes "distinct (map seqYear t)" "r \<in> set t" "0 \<le> lastNumber r"
  shows "expected_numbers (upsert seqYear (r\<lparr>lastNumber := lastNumber r + 1\<rparr>) t) =
         add_mset (formatInvoiceNumber (seqYear r) (lastNumber r + 1)) (expected_numbers t)"
proof -
  obtain a b where t: "t = a @ r # b" using assms(2) by (meson split_list)
  have nin: "seqYear r \<notin> seqYear ` set a" "seqYear r \<notin> seqYear ` set b"
    using assms(1) by (auto simp: t)
  have same: "update_where (\<lambda>x. seqYear x = seqYear r) f u = u"
    if "seqYear r \<notin> seqYear ` set u" for u and f :: "invoice_sequence \<Rightarrow> invoice_sequence"
    using that by (induction u) auto
  have "upsert seqYear (r\<lparr>lastNumber := lastNumber r + 1\<rparr>) t =
        a @ r\<lparr>lastNumber := lastNumber r + 1\<rparr> # b"
    using same [OF nin(1)] same [OF nin(2)] by (simp add: upsert_def t update_where_def)
  moreover have "[1..lastNumber r + 1] = [1..lastNumber r] @ [lastNumber r + 1]"
    using assms(3) upto_rec2 [of 1 "lastNumber r + 1"] by simp
  ultimately show ?thesis by (simp add: t)
qed

lemma allocate_returns:
  assumes "allocateInvoiceNumber year w = (Inr number, w')"
  shows "\<exists>t row. invoiceSequences (db w') = upsert seqYear (row\<lparr>lastNumber := lastNumber row + 1\<rparr>) t
    \<and> row \<in> set t \<and> seqYear row = year \<and> number = formatInvoiceNumber year (lastNumber row + 1)
    \<and> t = (if year \<in> seqYear ` set (invoiceSequences (db w)) then invoiceSequences (db w)
           else invoiceSequences (db w) @ [\<lparr>seqYear = year, lastNumber = 0\<rparr>])
    \<and> w' = w\<lparr>db := (db w)\<lparr>invoiceSequences := invoiceSequences (db w')\<rparr>\<rparr>"
  using assms unfolding allocateInvoiceNumber_def
  by (auto simp: returns dest!: find_SomeD)

lemma emit_returns:
  assumes "emit env sub co evid ov w = (Inr iv, w')"
  obtains number w1 where
    "allocateInvoiceNumber (getFullYear env (now env)) w = (Inr number, w1)"
    "invoiceNumber iv = number"
    "db w' = (db w1)\<lparr>invoices := upsert invoiceId iv (invoices (db w))\<rparr>"
    "invoiceId iv = nextId w" "nextId w' = Suc (nextId w)"
    "invoice_violated (upsert invoiceId iv (invoices (db w))) = None"
    "invSubscriptionId iv = subId sub" "invoiceCompanyId iv = coId co"
    "stripeInvoiceId iv = evid" "issuedAt iv = now env"
    "amountHT iv + vatAmount iv = amountTTC iv"
    "\<And>ttc. ov = Some ttc \<Longrightarrow> amountTTC iv = ttc"
    "ov = None \<Longrightarrow> (\<exists>price. planPrice env (subPlan sub) = Some price \<and> amountHT iv = price * 100)"
    "audit w' = audit w" "mails w' = mails w"
proof -
  have amounts: "vatHT v + vatVAT v = vatTTC v
      \<and> (\<forall>ttc. ov = Some ttc \<longrightarrow> vatTTC v = ttc)
      \<and> (ov = None \<longrightarrow> (\<exists>price. planPrice env (subPlan sub) = Some price \<and> vatHT v = price * 100))
      \<and> s' = s"
    if "emit_amounts env (subPlan sub) ov s = (Inr v, s')" for v s s'
    using that unfolding emit_amounts_def
    by (auto simp: returns resolvePrice_Inr computeVat_sum computeVatFromTtc_sum
        computeVat_def computeVatFromTtc_def Let_def split: option.splits)
  from assms obtain v number w1 key where
    v: "emit_amounts env (subPlan sub) ov w = (Inr v, w)"
    and al: "allocateInvoiceNumber (getFullYear env (now env)) w = (Inr number, w1)"
    and iv: "iv = invoiceData env sub co evid v number key (nextId w1)"
    and ok: "invoice_violated (upsert invoiceId iv (invoices (db w1))) = None"
    and w': "w' = w1\<lparr>objects := objects w1 @ [key], nextId := Suc (nextId w1),
       db := (db w1)\<lparr>invoices := upsert invoiceId iv (invoices (db w1))\<rparr>\<rparr>"
    unfolding emit_def generateInvoicePdf_def
    by (elim bindE_InrE) (auto simp: returns save_Inr dest: amounts)
  from allocate_returns [OF al] obtain q where "w1 = w\<lparr>db := (db w)\<lparr>invoiceSequences := q\<rparr>\<rparr>"
    by blast
  then have same: "invoices (db w1) = invoices (db w)" "nextId w1 = nextId w"
    "audit w1 = audit w" "mails w1 = mails w"
    by simp_all
  show ?thesis
    by (rule that [OF al])
      (use iv ok w' same amounts [OF v] in \<open>simp_all add: invoiceData_def\<close>)
qed

text \<open>Emission keeps the numbering gap-free, whatever the environment does.\<close>

lemma emit_keeps_gap_free:
  assumes "emit env sub co evid ov w = (Inr iv, w')"
    and gf: "gap_free (db w)" and fresh: "nextId w \<notin> invoiceId ` set (invoices (db w))"
  shows "gap_free (db w')"
proof -
  from assms(1) obtain number w1 where
    al: "allocateInvoiceNumber (getFullYear env (now env)) w = (Inr number, w1)"
    and iv: "invoiceNumber iv = number"
      "db w' = (db w1)\<lparr>invoices := upsert invoiceId iv (invoices (db w))\<rparr>"
      "invoiceId iv = nextId w"
    by (rule emit_returns)
  let ?y = "getFullYear env (now env)" and ?seq = "invoiceSequences (db w)"
  from allocate_returns [OF al] obtain t row where
    t: "t = (if ?y \<in> seqYear ` set ?seq then ?seq else ?seq @ [\<lparr>seqYear = ?y, lastNumber = 0\<rparr>])"
    and w1: "invoiceSequences (db w1) = upsert seqYear (row\<lparr>lastNumber := lastNumber row + 1\<rparr>) t"
    and row: "row \<in> set t" "seqYear row = ?y" "number = formatInvoiceNumber ?y (lastNumber row + 1)"
    by blast
  have wf: "distinct (map seqYear t)" "\<forall>r \<in> set t. 0 \<le> lastNumber r"
    and et: "expected_numbers t = mset (map invoiceNumber (invoices (db w)))"
    using gf by (auto simp: t gap_free_def)
  have seq': "invoiceSequences (db w') = invoiceSequences (db w1)" using iv(2) by simp
  have "invoices (db w') = invoices (db w) @ [iv]"
    using iv(2,3) fresh by (simp add: upsert_new)
  moreover have "expected_numbers (invoiceSequences (db w')) =
      add_mset number (mset (map invoiceNumber (invoices (db w))))"
    using expected_advance [OF wf(1) row(1)] wf(2) row w1 et seq' by auto
  moreover have "distinct (map seqYear (invoiceSequences (db w')))"
    unfolding seq' w1 by (rule distinct_upsert) (use wf(1) in auto)
  moreover have "\<forall>r \<in> set (invoiceSequences (db w')). 0 \<le> lastNumber r"
    unfolding seq' w1 using wf(2) row(1) by (auto simp: set_upsert)
  ultimately show ?thesis using iv(1) by (simp add: gap_free_def)
qed

text \<open>A gap-free database has no duplicate invoice number.\<close>

lemma gap_free_distinct:
  assumes "gap_free d"
  shows "distinct (map invoiceNumber (invoices d))"
proof -
  have *: "distinct (concat (map (\<lambda>r. map (formatInvoiceNumber (seqYear r)) [1..lastNumber r]) t))"
    if "distinct (map seqYear t)" for t :: "invoice_sequence list"
    using that
  proof (induction t)
    case (Cons r t)
    have "inj_on (formatInvoiceNumber (seqYear r)) {1..lastNumber r}"
      by (rule inj_onI) (use formatInvoiceNumber_inject in force)
    moreover have "formatInvoiceNumber (seqYear r) m \<noteq> formatInvoiceNumber (seqYear x) n"
      if "x \<in> set t" "1 \<le> m" "1 \<le> n" for x m n
      using formatInvoiceNumber_inject [of m n "seqYear r" "seqYear x"] that Cons.prems by force
    ultimately show ?case using Cons by (auto simp: distinct_map)
  qed simp
  have "mset (map invoiceNumber (invoices d)) =
      mset (concat (map (\<lambda>r. map (formatInvoiceNumber (seqYear r)) [1..lastNumber r]) (invoiceSequences d)))"
    using assms unfolding gap_free_def expected_numbers_def
    by (simp add: mset_concat comp_def)
  then show ?thesis using * assms unfolding gap_free_def by (metis mset_eq_imp_distinct_iff)
qed

end
