(* ===== verification/Lifecycle.thy ===== *)
theory Lifecycle
  imports Invoicing
begin

text \<open>
  The abstract subscription machine and the invariants of the billing tables.

  \<open>sub_step\<close> is what any operation may do to the subscription table: nothing, open one
  trial or active row under an identifier never used before, or move one existing row along
  \<open>SUBSCRIPTION_STATUS_TRANSITIONS\<close> (or leave its status alone). The services are shown to
  refine it, so the consequences are proved once, here: no row disappears or changes owner,
  no row leaves a terminal status, and a company never has two trial or active rows.
  \<open>billing_wf\<close> is the invariant of the billing tables.
\<close>

section \<open>The machine\<close>

definition same_subscription :: "subscription \<Rightarrow> subscription \<Rightarrow> bool" where
  "same_subscription s s' \<longleftrightarrow> subId s' = subId s \<and> subCompanyId s' = subCompanyId s"

definition status_ok :: "sub_status \<Rightarrow> sub_status \<Rightarrow> bool" where
  "status_ok a b \<longleftrightarrow> b = a \<or> b \<in> set (subscription_status_transitions a)"

inductive sub_step :: "uuid \<Rightarrow> subscription list \<Rightarrow> subscription list \<Rightarrow> bool" for n where
  idle: "sub_step n t t"
| opened: "n \<le> subId s \<Longrightarrow> subStatus s \<in> {TRIAL, ACTIVE} \<Longrightarrow> sub_violated (t @ [s]) = None \<Longrightarrow>
    sub_step n t (t @ [s])"
| changed: "s \<in> set t \<Longrightarrow> same_subscription s s' \<Longrightarrow> status_ok (subStatus s) (subStatus s') \<Longrightarrow>
    sub_violated (upsert subId s' t) = None \<Longrightarrow> sub_step n t (upsert subId s' t)"

inductive_cases sub_stepE: "sub_step n t t'"

definition wf_subs :: "uuid \<Rightarrow> subscription list \<Rightarrow> bool" where
  "wf_subs n t \<longleftrightarrow> distinct (map subId t) \<and> (\<forall>s \<in> set t. subId s < n) \<and>
     index_ok subscription_active_key t"

definition lifecycle :: "subscription list \<Rightarrow> subscription list \<Rightarrow> bool" where
  "lifecycle t t' \<longleftrightarrow> (\<forall>s \<in> set t. \<exists>s' \<in> set t'. same_subscription s s' \<and>
     (\<lambda>a b. b \<in> set (subscription_status_transitions a))\<^sup>*\<^sup>* (subStatus s) (subStatus s'))"

lemma status_ok_refl [simp]: "status_ok a a"
  by (simp add: status_ok_def)

lemma same_subscription_refl [simp]: "same_subscription s s"
  by (simp add: same_subscription_def)

lemma sub_violated_None [simp]: "sub_violated t = None \<longleftrightarrow> index_ok subscription_active_key t"
  by (simp add: sub_violated_def)

text \<open>A row is found again after a step, moved at most along one edge.\<close>

lemma sub_step_row:
  assumes "sub_step n t t'" "wf_subs n t" "s \<in> set t"
  shows "\<exists>s' \<in> set t'. same_subscription s s' \<and> status_ok (subStatus s) (subStatus s')"
  using assms(1)
proof cases
  case (changed x x')
  show ?thesis
  proof (cases "subId s = subId x")
    case True
    then have "s = x" using assms(2,3) changed(2) unfolding wf_subs_def
      by (auto simp: distinct_map inj_on_def)
    with changed show ?thesis by (auto simp: set_upsert)
  next
    case False
    with changed assms(3) show ?thesis
      by (auto simp: set_upsert same_subscription_def intro: bexI [of _ s])
  qed
qed (use assms(3) in \<open>auto intro: bexI [of _ s]\<close>)

lemma sub_step_wf:
  assumes "sub_step n t t'" "wf_subs n t" "n \<le> n'" "\<And>s. s \<in> set t' \<Longrightarrow> subId s < n'"
  shows "wf_subs n' t'"
  using assms by (elim sub_stepE) (fastforce simp: wf_subs_def distinct_upsert)+

lemma sub_step_lifecycle:
  assumes "sub_step n t t'" "wf_subs n t"
  shows "lifecycle t t'"
  unfolding lifecycle_def
proof
  fix s assume "s \<in> set t"
  from sub_step_row [OF assms this] show "\<exists>s' \<in> set t'. same_subscription s s' \<and>
     (\<lambda>a b. b \<in> set (subscription_status_transitions a))\<^sup>*\<^sup>* (subStatus s) (subStatus s')"
    by (auto simp: status_ok_def intro: r_into_rtranclp)
qed

lemma lifecycle_refl [simp]: "lifecycle t t"
  unfolding lifecycle_def by (auto intro!: bexI)

lemma lifecycle_trans: "lifecycle t u \<Longrightarrow> lifecycle u v \<Longrightarrow> lifecycle t v"
  unfolding lifecycle_def same_subscription_def by (metis (no_types, lifting) rtranclp_trans)

lemma sub_changed:
  assumes "wf_subs n t" "s \<in> set t" "same_subscription s s'" "status_ok (subStatus s) (subStatus s')"
    "sub_violated (upsert subId s' t) = None" "n \<le> m"
  shows "sub_step n t (upsert subId s' t)" "\<forall>x \<in> set (upsert subId s' t). subId x < m"
    "s' \<in> set (upsert subId s' t)"
  using changed [OF assms(2-5)] assms(1-3,6)
  by (auto simp: set_upsert wf_subs_def same_subscription_def)

lemma sub_opened:
  assumes "wf_subs n t" "subId s = n" "subStatus s \<in> {TRIAL, ACTIVE}"
    "sub_violated (upsert subId s t) = None" "n < m"
  shows "sub_step n t (upsert subId s t)" "\<forall>x \<in> set (upsert subId s t). subId x < m"
    "s \<in> set (upsert subId s t)"
proof -
  have "upsert subId s t = t @ [s]"
    using assms(1,2) by (intro upsert_new) (auto simp: wf_subs_def)
  then show "sub_step n t (upsert subId s t)" "\<forall>x \<in> set (upsert subId s t). subId x < m"
    "s \<in> set (upsert subId s t)"
    using opened [of n s t] assms by (auto simp: wf_subs_def)
qed

text \<open>Cancelled and expired are final.\<close>

lemma terminal_stays:
  assumes "(\<lambda>a b. b \<in> set (subscription_status_transitions a))\<^sup>*\<^sup>* a b" "a \<in> {CANCELLED, EXPIRED}"
  shows "b = a"
  using assms by (induction rule: rtranclp_induct) auto

lemma lifecycle_terminal:
  assumes "lifecycle t t'" "s \<in> set t" "subStatus s \<in> {CANCELLED, EXPIRED}"
  shows "\<exists>s' \<in> set t'. same_subscription s s' \<and> subStatus s' = subStatus s"
  using assms terminal_stays unfolding lifecycle_def by metis

text \<open>The partial unique index as the code relies on it: at most one live row a company.\<close>

lemma wf_subs_one_live:
  assumes "wf_subs n t" "s \<in> set t" "s' \<in> set t" "subCompanyId s = subCompanyId s'"
    "subStatus s \<in> {TRIAL, ACTIVE}" "subStatus s' \<in> {TRIAL, ACTIVE}"
  shows "s = s'"
  using assms unfolding wf_subs_def
  by (intro index_ok_unique [of subscription_active_key t s s' "subCompanyId s"])
    (auto simp: subscription_active_key_def)

section \<open>The billing invariant\<close>

definition billing_wf :: "world \<Rightarrow> bool" where
  "billing_wf w \<longleftrightarrow> wf_subs (nextId w) (subscriptions (db w)) \<and>
     (\<forall>i \<in> set (invoices (db w)). invoiceId i < nextId w) \<and> gap_free (db w) \<and>
     (\<forall>r \<in> set (webhookEvents (db w)). evRowId r < nextId w) \<and>
     index_ok (\<lambda>r. Some (providerEventId r)) (webhookEvents (db w)) \<and>
     (\<forall>i \<in> set (invoices (db w)).
        stripeInvoiceId i \<in> providerEventId ` set (webhookEvents (db w))) \<and>
     distinct (map stripeInvoiceId (invoices (db w)))"

text \<open>Effects that leave the billing tables alone keep the invariant.\<close>

definition billing_same :: "db \<Rightarrow> db \<Rightarrow> bool" where
  "billing_same d d' \<longleftrightarrow> subscriptions d' = subscriptions d \<and> invoices d' = invoices d \<and>
     invoiceSequences d' = invoiceSequences d \<and> webhookEvents d' = webhookEvents d"

lemma wf_subs_mono: "wf_subs n t \<Longrightarrow> n \<le> m \<Longrightarrow> wf_subs m t"
  by (auto simp: wf_subs_def)

lemma billing_same_wf:
  assumes "billing_wf w" "billing_same (db w) (db w')" "nextId w \<le> nextId w'"
  shows "billing_wf w'"
  using assms unfolding billing_wf_def billing_same_def gap_free_def
  by (auto intro: wf_subs_mono)

lemma billing_same_refl [simp]: "billing_same d d"
  by (simp add: billing_same_def)

text \<open>One subscription row moved or opened, nothing else in the billing tables.\<close>

lemma billing_sub_step:
  assumes "billing_wf w" "sub_step (nextId w) (subscriptions (db w)) (subscriptions (db w'))"
    "\<And>s. s \<in> set (subscriptions (db w')) \<Longrightarrow> subId s < nextId w'" "nextId w \<le> nextId w'"
    "invoices (db w') = invoices (db w)" "invoiceSequences (db w') = invoiceSequences (db w)"
    "webhookEvents (db w') = webhookEvents (db w)"
  shows "billing_wf w'"
proof -
  have "wf_subs (nextId w') (subscriptions (db w'))"
    using sub_step_wf [OF assms(2) _ assms(4,3)] assms(1) by (simp add: billing_wf_def)
  with assms show ?thesis by (auto simp: billing_wf_def gap_free_def)
qed

end
