(* ===== verification/Quota.thy ===== *)
theory Quota
  imports Lifecycle
begin

text \<open>
  Contact credits and company access: \<open>companies/contact-quota.service.ts\<close> and
  \<open>companies/subscription-guard.service.ts\<close>. The locale \<open>contact_quota_port\<close> is the interface
  \<open>ports/contact-quota.port.ts\<close> through which messaging spends credits.
\<close>

section \<open>Contact quota\<close>

definition ACTIVE_SUBSCRIPTION_STATUSES :: "sub_status list" where
  "ACTIVE_SUBSCRIPTION_STATUSES = [TRIAL, ACTIVE]"

definition current_row :: "env \<Rightarrow> uuid \<Rightarrow> subscription \<Rightarrow> bool" where
  "current_row env companyId s \<longleftrightarrow> subCompanyId s = companyId \<and>
     subStatus s \<in> set ACTIVE_SUBSCRIPTION_STATUSES \<and>
     (case endsAt s of None \<Rightarrow> True | Some e \<Rightarrow> now env < e)"

record contact_quota_status =
  cqActive :: bool
  cqPlan :: "plan option"
  cqStatus :: "sub_status option"
  cqContactQuota :: "int option"
  cqContactsUsed :: "int option"
  cqContactsRemaining :: "int option"
  cqQuotaResetAt :: "date option"
  cqEndsAt :: "date option"
  cqCancelAtPeriodEnd :: bool
  cqPastDueSince :: "date option"

definition inactive_status :: contact_quota_status where
  "inactive_status = \<lparr>cqActive = False, cqPlan = None, cqStatus = None, cqContactQuota = None,
     cqContactsUsed = None, cqContactsRemaining = None, cqQuotaResetAt = None, cqEndsAt = None,
     cqCancelAtPeriodEnd = False, cqPastDueSince = None\<rparr>"

definition snapshot :: "subscription \<Rightarrow> contact_quota_status" where
  "snapshot s = \<lparr>cqActive = True, cqPlan = Some (subPlan s), cqStatus = Some (subStatus s),
     cqContactQuota = Some (contactQuota s), cqContactsUsed = Some (contactsUsed s),
     cqContactsRemaining = Some (max 0 (contactQuota s - contactsUsed s)),
     cqQuotaResetAt = quotaResetAt s, cqEndsAt = endsAt s,
     cqCancelAtPeriodEnd = cancelAtPeriodEnd s, cqPastDueSince = pastDueSince s\<rparr>"

definition getQuotaStatus :: "env \<Rightarrow> uuid \<Rightarrow> contact_quota_status service" where
  "getQuotaStatus env companyId =
     gets (\<lambda>w. case filter (current_row env companyId) (subscriptions (db w)) of
       [s] \<Rightarrow> snapshot s
     | _ \<Rightarrow> inactive_status)"

definition resolveActiveSubscriptionId :: "env \<Rightarrow> uuid \<Rightarrow> uuid service" where
  "resolveActiveSubscriptionId env companyId =
     bindE (gets (\<lambda>w. filter (current_row env companyId) (subscriptions (db w)))) (\<lambda>rows.
     case rows of
       [] \<Rightarrow> throw (SubscriptionInactiveException companyId)
     | [s] \<Rightarrow> ret (subId s)
     | _ \<Rightarrow> throw (MultipleActiveSubscriptionsException companyId (int (length rows))))"

text \<open>\<open>UPDATE ... SET contacts_used = contacts_used + 1 WHERE id = :id AND contacts_used <
  contact_quota\<close>, one atomic statement; its affected count decides.\<close>

definition consumeOneContact :: "env \<Rightarrow> uuid \<Rightarrow> unit service" where
  "consumeOneContact env companyId =
     bindE (resolveActiveSubscriptionId env companyId) (\<lambda>i.
     bindE (gets (\<lambda>w. count_where (\<lambda>s. subId s = i \<and> contactsUsed s < contactQuota s)
              (subscriptions (db w)))) (\<lambda>affected.
     bindE (modify (\<lambda>w. w\<lparr>db := (db w)\<lparr>subscriptions :=
        update_where (\<lambda>s. subId s = i \<and> contactsUsed s < contactQuota s)
          (\<lambda>s. s\<lparr>contactsUsed := contactsUsed s + 1\<rparr>) (subscriptions (db w))\<rparr>\<rparr>)) (\<lambda>_.
     require (0 < affected) (ContactQuotaExceededException companyId))))"

text \<open>The snapshot shown to a recruiter and the guarded update agree: one credit is spent
  exactly when the snapshot shows one left.\<close>

definition remaining :: "env \<Rightarrow> uuid \<Rightarrow> world \<Rightarrow> int" where
  "remaining env companyId w =
     (case cqContactsRemaining (projr (fst (getQuotaStatus env companyId w))) of
        None \<Rightarrow> 0 | Some n \<Rightarrow> n)"

definition spend_one :: "subscription \<Rightarrow> subscription \<Rightarrow> subscription" where
  "spend_one r s = (if subId s = subId r then s\<lparr>contactsUsed := contactsUsed s + 1\<rparr> else s)"

lemma remaining_eq:
  "remaining env c w = (case filter (current_row env c) (subscriptions (db w)) of
      [s] \<Rightarrow> max 0 (contactQuota s - contactsUsed s) | _ \<Rightarrow> 0)"
  by (auto simp: remaining_def getQuotaStatus_def snapshot_def inactive_status_def
      split: list.split)

lemma wf_current_rows:
  assumes "wf_subs n t" "s \<in> set t" "current_row env c s"
  shows "filter (current_row env c) t = [s]"
proof -
  show ?thesis
  proof (rule only_element)
    show "distinct (filter (current_row env c) t)"
      using assms(1) by (auto simp: wf_subs_def distinct_map)
    show "s \<in> set (filter (current_row env c) t)" using assms by simp
    fix x assume "x \<in> set (filter (current_row env c) t)"
    then show "x = s"
      using wf_subs_one_live [OF assms(1), of x s] assms(2,3)
      by (auto simp: current_row_def ACTIVE_SUBSCRIPTION_STATUSES_def)
  qed
qed

text \<open>What one consumption does: nothing on any refusal (the conditional \<open>UPDATE\<close> matches no
  row then), one more used credit on one row otherwise.\<close>

lemma consume_cases:
  assumes wf: "wf_subs n (subscriptions (db w))"
  obtains (inactive) "\<forall>s \<in> set (subscriptions (db w)). \<not> current_row env c s"
      "remaining env c w = 0"
      "consumeOneContact env c w = (Inl (SubscriptionInactiveException c), w)"
  | (exhausted) s where "s \<in> set (subscriptions (db w))" "current_row env c s"
      "contactQuota s \<le> contactsUsed s" "remaining env c w = 0"
      "consumeOneContact env c w = (Inl (ContactQuotaExceededException c), w)"
  | (consumed) s where "s \<in> set (subscriptions (db w))" "current_row env c s"
      "contactsUsed s < contactQuota s" "remaining env c w = contactQuota s - contactsUsed s"
      "consumeOneContact env c w =
        (Inr (), w\<lparr>db := (db w)\<lparr>subscriptions := map (spend_one s) (subscriptions (db w))\<rparr>\<rparr>)"
proof (cases "\<exists>s \<in> set (subscriptions (db w)). current_row env c s")
  case False
  then have "filter (current_row env c) (subscriptions (db w)) = []"
    by (auto simp: filter_empty_conv)
  with False inactive show ?thesis
    by (auto simp: consumeOneContact_def resolveActiveSubscriptionId_def remaining_eq bindE_def)
next
  case True
  then obtain s where s: "s \<in> set (subscriptions (db w))" "current_row env c s" by blast
  note one = wf_current_rows [OF wf s]
  have key: "x = s" if "x \<in> set (subscriptions (db w))" "subId x = subId s" for x
    using wf s(1) that by (auto simp: wf_subs_def distinct_map inj_on_def)
  let ?P = "\<lambda>x. subId x = subId s \<and> contactsUsed x < contactQuota x"
  let ?f = "\<lambda>x. x\<lparr>contactsUsed := contactsUsed x + 1\<rparr>"
  have run: "consumeOneContact env c w =
      bindE (modify (\<lambda>w. w\<lparr>db := (db w)\<lparr>subscriptions := update_where ?P ?f (subscriptions (db w))\<rparr>\<rparr>))
        (\<lambda>_. require (0 < count_where ?P (subscriptions (db w))) (ContactQuotaExceededException c)) w"
    by (simp add: consumeOneContact_def resolveActiveSubscriptionId_def one)
  show ?thesis
  proof (cases "contactsUsed s < contactQuota s")
    case True
    have "0 < count_where ?P (subscriptions (db w))"
      unfolding count_where_pos using s(1) True by blast
    moreover have "update_where ?P ?f (subscriptions (db w)) = map (spend_one s) (subscriptions (db w))"
      using key True by (auto simp: update_where_def spend_one_def)
    ultimately show ?thesis
      using consumed [OF s True] run True by (simp add: remaining_eq one require_def)
  next
    case False
    have none: "\<not> ?P x" if "x \<in> set (subscriptions (db w))" for x using key [OF that] False by auto
    then have "count_where ?P (subscriptions (db w)) = 0" unfolding count_where_zero by blast
    moreover have "update_where ?P ?f (subscriptions (db w)) = subscriptions (db w)"
      unfolding update_where_def using none by (intro map_idI) auto
    ultimately show ?thesis
      using exhausted [OF s] run False by (simp add: remaining_eq one require_def)
  qed
qed

lemma spend_one_upsert:
  assumes "wf_subs n t" "s \<in> set t"
  shows "map (spend_one s) t = upsert subId (s\<lparr>contactsUsed := contactsUsed s + 1\<rparr>) t"
  using assms unfolding upsert_def update_where_def
  by (auto simp: spend_one_def wf_subs_def distinct_map inj_on_def)

lemma consume_sub_step:
  assumes "wf_subs n (subscriptions (db w))" "consumeOneContact env c w = (r, w')"
  shows "sub_step n (subscriptions (db w)) (subscriptions (db w'))"
    "wf_subs n (subscriptions (db w'))"
    "w' = w\<lparr>db := (db w)\<lparr>subscriptions := subscriptions (db w')\<rparr>\<rparr>"
proof -
  have "sub_step n (subscriptions (db w)) (subscriptions (db w')) \<and>
      wf_subs n (subscriptions (db w')) \<and> w' = w\<lparr>db := (db w)\<lparr>subscriptions := subscriptions (db w')\<rparr>\<rparr>"
    using assms(1)
  proof (cases rule: consume_cases [where c = c and env = env])
    case (consumed s)
    let ?s = "s\<lparr>contactsUsed := contactsUsed s + 1\<rparr>"
    have up: "map (spend_one s) (subscriptions (db w)) = upsert subId ?s (subscriptions (db w))"
      by (rule spend_one_upsert [OF assms(1) consumed(1)])
    have "index_keys subscription_active_key (map (spend_one s) (subscriptions (db w))) =
        index_keys subscription_active_key (subscriptions (db w))"
      by (rule index_keys_cong) (simp add: spend_one_def subscription_active_key_def)
    then have "sub_violated (upsert subId ?s (subscriptions (db w))) = None"
      using assms(1) up by (simp add: wf_subs_def index_ok_def)
    from sub_changed [OF assms(1) consumed(1) _ _ this order_refl]
    have "sub_step n (subscriptions (db w)) (upsert subId ?s (subscriptions (db w)))"
      "\<forall>x \<in> set (upsert subId ?s (subscriptions (db w))). subId x < n"
      by (simp_all add: same_subscription_def)
    with sub_step_wf [OF this(1) assms(1)] consumed(5) assms(2) up show ?thesis by auto
  qed (use assms idle in auto)
  then show "sub_step n (subscriptions (db w)) (subscriptions (db w'))"
    "wf_subs n (subscriptions (db w'))"
    "w' = w\<lparr>db := (db w)\<lparr>subscriptions := subscriptions (db w')\<rparr>\<rparr>" by blast+
qed

lemma consume_remaining:
  assumes wf: "wf_subs n (subscriptions (db w))" and run: "consumeOneContact env c w = (Inr u, w')"
  shows "0 < remaining env c w \<and> remaining env c w' = remaining env c w - 1"
  using wf
proof (cases rule: consume_cases [where c = c and env = env])
  case (consumed s)
  let ?s = "spend_one s s"
  have t: "subscriptions (db w') = map (spend_one s) (subscriptions (db w))"
    using consumed(5) run by auto
  have "?s \<in> set (subscriptions (db w'))" "current_row env c ?s"
    using consumed(1,2) t by (auto simp: spend_one_def current_row_def)
  from wf_current_rows [OF consume_sub_step(2) [OF wf run] this]
  have "remaining env c w' = max 0 (contactQuota s - (contactsUsed s + 1))"
    by (simp add: remaining_eq spend_one_def)
  with consumed(3,4) show ?thesis by simp
qed (use run in auto)

section \<open>The interface\<close>

text \<open>How many of \<open>n\<close> calls succeed.\<close>

primrec successes :: "'a service \<Rightarrow> nat \<Rightarrow> world \<Rightarrow> nat" where
  "successes m 0 w = 0"
| "successes m (Suc n) w =
     (case m w of (Inl _, w') \<Rightarrow> successes m n w' | (Inr _, w') \<Rightarrow> Suc (successes m n w'))"

locale contact_quota_port =
  fixes consume :: "uuid \<Rightarrow> unit service"
    and left :: "uuid \<Rightarrow> world \<Rightarrow> int"
    and ok :: "world \<Rightarrow> bool"
  assumes left_nonneg: "0 \<le> left c w"
    and refuses: "ok w \<Longrightarrow> consume c w = (Inl e, w') \<Longrightarrow> w' = w \<and> left c w = 0"
    and spends: "ok w \<Longrightarrow> consume c w = (Inr u, w') \<Longrightarrow>
      ok w' \<and> 0 < left c w \<and> left c w' = left c w - 1 \<and>
      w' = w\<lparr>db := (db w)\<lparr>subscriptions := subscriptions (db w')\<rparr>\<rparr>"
begin

lemma consume_iff:
  assumes ok: "ok w"
  shows "(\<exists>w'. consume c w = (Inr (), w')) \<longleftrightarrow> 0 < left c w"
proof -
  obtain r w' where run: "consume c w = (r, w')" by fastforce
  show ?thesis
  proof (cases r)
    case (Inl e)
    with refuses [OF ok] run show ?thesis by auto
  next
    case (Inr u)
    with spends [OF ok] run show ?thesis by auto
  qed
qed

text \<open>Of any number of calls, exactly as many succeed as there are credits.\<close>

lemma exactly_left: "ok w \<Longrightarrow> successes (consume c) n w = min n (nat (left c w))"
proof (induction n arbitrary: w)
  case (Suc n)
  obtain r w' where run: "consume c w = (r, w')" by fastforce
  show ?case
  proof (cases r)
    case (Inl e)
    then have "w' = w" "left c w = 0" using refuses [OF Suc.prems] run by auto
    then show ?thesis using Suc.IH [OF Suc.prems] run Inl by simp
  next
    case (Inr u)
    then have "ok w'" "0 < left c w" "left c w' = left c w - 1"
      using spends [OF Suc.prems] run by auto
    then show ?thesis using Suc.IH run Inr by simp
  qed
qed simp

end

interpretation quota: contact_quota_port "consumeOneContact env" "remaining env"
  "\<lambda>w. \<exists>n. wf_subs n (subscriptions (db w))" for env
proof
  fix w w' :: world and c e and u :: unit
  show "0 \<le> remaining env c w" by (auto simp: remaining_eq split: list.split)
  assume "\<exists>n. wf_subs n (subscriptions (db w))"
  then obtain n where wf: "wf_subs n (subscriptions (db w))" ..
  show "consumeOneContact env c w = (Inl e, w') \<Longrightarrow> w' = w \<and> remaining env c w = 0"
    using consume_cases [OF wf, where c = c and env = env] by (metis Inl_Inr_False prod.inject)
  assume run: "consumeOneContact env c w = (Inr u, w')"
  show "(\<exists>n. wf_subs n (subscriptions (db w'))) \<and> 0 < remaining env c w \<and>
      remaining env c w' = remaining env c w - 1 \<and>
      w' = w\<lparr>db := (db w)\<lparr>subscriptions := subscriptions (db w')\<rparr>\<rparr>"
    using consume_remaining [OF wf run] consume_sub_step(2,3) [OF wf run] by blast
qed

section \<open>The access guard\<close>

definition recruiterOf :: "db \<Rightarrow> uuid \<Rightarrow> recruiter option" where
  "recruiterOf d i = List.find (\<lambda>r. recUserId r = i) (recruiters d)"

definition latest_subscription :: "db \<Rightarrow> uuid \<Rightarrow> subscription option" where
  "latest_subscription d companyId =
     find_latest subCreatedAt (\<lambda>s. subCompanyId s = companyId) (subscriptions d)"

definition assertActiveSubscription :: "env \<Rightarrow> uuid \<Rightarrow> uuid service" where
  "assertActiveSubscription env i =
     bindE (gets (\<lambda>w. recruiterOf (db w) i)) (\<lambda>found.
     bindE (someOr (ForbiddenException ''no-recruiter'') found) (\<lambda>r.
     bindE (gets (\<lambda>w. latest_subscription (db w) (recCompanyId r))) (\<lambda>sub.
     bindE (require (case sub of None \<Rightarrow> False
                     | Some s \<Rightarrow> isSubscriptionWithinAccess env s (gracePeriodDays env))
              (ForbiddenException ''subscription-required'')) (\<lambda>_.
     ret (recCompanyId r)))))"

definition resolveCompanyId :: "uuid \<Rightarrow> uuid service" where
  "resolveCompanyId i =
     bindE (gets (\<lambda>w. recruiterOf (db w) i)) (\<lambda>found.
     bindE (someOr (NotFoundException ''no-company'') found) (\<lambda>r. ret (recCompanyId r)))"

definition getSeatLimit :: "env \<Rightarrow> uuid \<Rightarrow> int service" where
  "getSeatLimit env companyId =
     bindE (gets (\<lambda>w. latest_subscription (db w) companyId)) (\<lambda>sub.
     resolveUserLimitForPlan env (case sub of None \<Rightarrow> STARTER | Some s \<Rightarrow> subPlan s))"

lemma resolveCompanyId_Inr [returns]:
  "resolveCompanyId i w = (Inr c, w') \<longleftrightarrow>
     (\<exists>r. recruiterOf (db w) i = Some r \<and> recCompanyId r = c) \<and> w' = w"
  by (auto simp: resolveCompanyId_def returns)

lemma resolveCompanyId_apply [eff_simps]:
  "resolveCompanyId i w =
     (case recruiterOf (db w) i of None \<Rightarrow> (Inl (NotFoundException ''no-company''), w)
      | Some r \<Rightarrow> (Inr (recCompanyId r), w))"
  by (simp add: resolveCompanyId_def eff_simps split: option.split)

lemma assertActive_apply [eff_simps]:
  "assertActiveSubscription env i w =
     (case recruiterOf (db w) i of None \<Rightarrow> (Inl (ForbiddenException ''no-recruiter''), w)
      | Some r \<Rightarrow>
         (case latest_subscription (db w) (recCompanyId r) of
            None \<Rightarrow> (Inl (ForbiddenException ''subscription-required''), w)
          | Some s \<Rightarrow>
              if isSubscriptionWithinAccess env s (gracePeriodDays env) then (Inr (recCompanyId r), w)
              else (Inl (ForbiddenException ''subscription-required''), w)))"
  by (simp add: assertActiveSubscription_def eff_simps split: option.split)

lemma getSeatLimit_world: "getSeatLimit env c w = (r, w') \<Longrightarrow> w' = w"
  by (auto simp: getSeatLimit_def resolveUserLimitForPlan_def eff_simps split: if_splits option.splits)

end
