(* ===== verification/Checkout.thy ===== *)
theory Checkout
  imports Quota
begin

text \<open>
  What a company asks of its subscription: \<open>billing/subscription-checkout.service.ts\<close> (open a
  checkout session, schedule a cancellation, change plan), with the outgoing half of
  \<open>adapters/payment/stripe-payment.adapter.ts\<close> as recorded provider calls. None of these
  methods opens a transaction, so a failure after a provider call is visible.
\<close>

section \<open>The provider\<close>

definition providerCreateCheckoutSession :: "env \<Rightarrow> uuid \<Rightarrow> plan \<Rightarrow> int \<Rightarrow> string \<Rightarrow> string service" where
  "providerCreateCheckoutSession env companyId pl amount cur =
     bindE (ret (CreateSession companyId pl amount (toLowerCase cur))) (\<lambda>call.
     bindE (callStripe env call) (\<lambda>_.
     someOr (InternalServerErrorException ''no-checkout-url'') (sessionUrl env call)))"

definition providerCancelAtPeriodEnd :: "env \<Rightarrow> string \<Rightarrow> unit service" where
  "providerCancelAtPeriodEnd env psid = callStripe env (CancelAtPeriodEnd psid)"

definition providerChangePlan :: "env \<Rightarrow> string \<Rightarrow> plan \<Rightarrow> int \<Rightarrow> string \<Rightarrow> unit service" where
  "providerChangePlan env psid pl amount cur =
     callStripe env (ChangePlan psid pl amount (toLowerCase cur))"

section \<open>The service\<close>

definition createCheckoutSession :: "env \<Rightarrow> uuid \<Rightarrow> plan \<Rightarrow> string service" where
  "createCheckoutSession env i pl =
     bindE (resolveCompanyId i) (\<lambda>companyId.
     bindE (gets (\<lambda>w. List.find (\<lambda>s. subCompanyId s = companyId \<and> subStatus s = ACTIVE)
              (subscriptions (db w)))) (\<lambda>alreadyActive.
     bindE (require (alreadyActive = None) (CompanyAlreadySubscribedException companyId)) (\<lambda>_.
     bindE (resolveMonthlyPriceHtInCentimes env pl) (\<lambda>amountHT.
     providerCreateCheckoutSession env companyId pl (vatTTC (computeVat amountHT)) (cfgCurrency env)))))"

definition paying_row :: "db \<Rightarrow> uuid \<Rightarrow> subscription option" where
  "paying_row d companyId =
     find_latest subCreatedAt (\<lambda>s. subCompanyId s = companyId \<and> subStatus s \<in> {ACTIVE, PAST_DUE})
       (subscriptions d)"

definition paying_row_or :: "err \<Rightarrow> uuid \<Rightarrow> (subscription \<times> string) service" where
  "paying_row_or e companyId =
     bindE (gets (\<lambda>w. paying_row (db w) companyId)) (\<lambda>found.
     bindE (someOr e found) (\<lambda>s.
     bindE (require (\<not> falsy (externalSubscriptionId s)) e) (\<lambda>_.
     ret (s, the (externalSubscriptionId s)))))"

definition cancelSubscription :: "env \<Rightarrow> uuid \<Rightarrow> (bool \<times> date option) service" where
  "cancelSubscription env i =
     bindE (resolveCompanyId i) (\<lambda>companyId.
     bindE (paying_row_or (NoActiveSubscriptionToCancelException companyId) companyId) (\<lambda>(s, psid).
     bindE (if cancelAtPeriodEnd s then ret ()
            else bindE (providerCancelAtPeriodEnd env psid) (\<lambda>_.
                 bindE (saveSubscription (s\<lparr>cancelAtPeriodEnd := True\<rparr>)) (\<lambda>_. ret ()))) (\<lambda>_.
     ret (True, endsAt s))))"

definition changePlan :: "env \<Rightarrow> uuid \<Rightarrow> plan \<Rightarrow> (plan \<times> int \<times> int) service" where
  "changePlan env i pl =
     bindE (resolveCompanyId i) (\<lambda>companyId.
     bindE (paying_row_or (NoActiveSubscriptionToChangePlanException companyId) companyId) (\<lambda>(s, psid).
     bindE (require (subPlan s \<noteq> pl) (SamePlanException pl)) (\<lambda>_.
     bindE (resolveContactQuotaForPlan env pl) (\<lambda>newQuota.
     bindE (resolveMonthlyPriceHtInCentimes env pl) (\<lambda>amountHT.
     bindE (providerChangePlan env psid pl (vatTTC (computeVat amountHT)) (cfgCurrency env)) (\<lambda>_.
     bindE (saveSubscription (s\<lparr>subPlan := pl, contactQuota := newQuota\<rparr>)) (\<lambda>saved.
     bindE (auditLog env \<lparr>actorId = Some i, auAction = SUBSCRIPTION_PLAN_CHANGED,
              entityType = ''subscription'', entityId = subId saved\<rparr>) (\<lambda>_.
     ret (subPlan saved, contactQuota saved, contactsUsed saved)))))))))"

section \<open>Frames and outcomes\<close>

lemma outside_resolveCompanyId [keeping]: "outside_db (resolveCompanyId i)"
  unfolding resolveCompanyId_def by (intro keeping)

lemma outside_resolve [keeping]:
  "outside_db (resolveContactQuotaForPlan env p)" "outside_db (resolveMonthlyPriceHtInCentimes env p)"
  "outside_db (assertValidSubscriptionTransition a b)"
  unfolding resolveContactQuotaForPlan_def resolveMonthlyPriceHtInCentimes_def
    assertValidSubscriptionTransition_def by (intro keeping)+

lemma outside_createCheckoutSession [keeping]: "outside_db (createCheckoutSession env i pl)"
  unfolding createCheckoutSession_def providerCreateCheckoutSession_def by (intro keeping)

lemma paying_row_or_apply [eff_simps]:
  "paying_row_or e c w =
     (case paying_row (db w) c of None \<Rightarrow> (Inl e, w)
      | Some s \<Rightarrow> if falsy (externalSubscriptionId s) then (Inl e, w)
                  else (Inr (s, the (externalSubscriptionId s)), w))"
  by (simp add: paying_row_or_def eff_simps split: option.split)

lemma paying_row_mem:
  "paying_row d c = Some s \<Longrightarrow>
     s \<in> set (subscriptions d) \<and> subCompanyId s = c \<and> subStatus s \<in> {ACTIVE, PAST_DUE}"
  unfolding paying_row_def by (drule find_latest_Some) simp

text \<open>Saving a row of the same company and status never trips the unique index.\<close>

lemma save_same_status:
  assumes "wf_subs n (subscriptions (db w))" "s \<in> set (subscriptions (db w))"
    "same_subscription s s'" "subStatus s' = subStatus s"
  shows "saveSubscription s' w = (Inr s', w\<lparr>db := (db w)\<lparr>subscriptions :=
      upsert subId s' (subscriptions (db w))\<rparr>\<rparr>)"
    "index_ok subscription_active_key (upsert subId s' (subscriptions (db w)))"
proof -
  let ?t = "subscriptions (db w)"
  have key: "x = s" if "x \<in> set ?t" "subId x = subId s'" for x
    using assms(1-3) that by (auto simp: wf_subs_def distinct_map inj_on_def same_subscription_def)
  have "upsert subId s' ?t = map (\<lambda>x. if subId x = subId s' then s' else x) ?t"
    using assms(2,3) by (auto simp: upsert_def update_where_def same_subscription_def)
  also have "index_keys subscription_active_key \<dots> = index_keys subscription_active_key ?t"
    by (rule index_keys_cong)
      (use key assms(3,4) in \<open>auto simp: subscription_active_key_def same_subscription_def\<close>)
  finally show "index_ok subscription_active_key (upsert subId s' ?t)"
    using assms(1) by (simp add: wf_subs_def index_ok_def)
  then show "saveSubscription s' w = (Inr s', w\<lparr>db := (db w)\<lparr>subscriptions := upsert subId s' ?t\<rparr>\<rparr>)"
    by (auto simp: saveSubscription_def save_into_def checked_save_def sub_violated_def)
qed

lemma cancelSubscription_eq:
  assumes "wf_subs n (subscriptions (db w))" "recruiterOf (db w) i = Some r"
    "paying_row (db w) (recCompanyId r) = Some s" "externalSubscriptionId s = Some psid" "psid \<noteq> []"
  shows "cancelSubscription env i w =
    (if cancelAtPeriodEnd s then (Inr (True, endsAt s), w)
     else if stripeFails env (CancelAtPeriodEnd psid) then (Inl (ServiceUnavailable ''stripe''), w)
     else (Inr (True, endsAt s), w\<lparr>stripeCalls := stripeCalls w @ [CancelAtPeriodEnd psid],
        db := (db w)\<lparr>subscriptions := upsert subId (s\<lparr>cancelAtPeriodEnd := True\<rparr>) (subscriptions (db w))\<rparr>\<rparr>))"
proof -
  have mem: "s \<in> set (subscriptions (db w))" using paying_row_mem [OF assms(3)] by simp
  have sv: "saveSubscription (s\<lparr>cancelAtPeriodEnd := True\<rparr>)
      (w\<lparr>stripeCalls := stripeCalls w @ [CancelAtPeriodEnd psid]\<rparr>) =
    (Inr (s\<lparr>cancelAtPeriodEnd := True\<rparr>), w\<lparr>stripeCalls := stripeCalls w @ [CancelAtPeriodEnd psid],
        db := (db w)\<lparr>subscriptions := upsert subId (s\<lparr>cancelAtPeriodEnd := True\<rparr>) (subscriptions (db w))\<rparr>\<rparr>)"
    by (subst save_same_status(1) [of n _ s]) (use assms mem in \<open>auto simp: same_subscription_def\<close>)
  show ?thesis
    using assms sv
    by (simp add: cancelSubscription_def eff_simps falsy_def providerCancelAtPeriodEnd_def callStripe_def)
qed

lemma changePlan_eq:
  assumes "wf_subs n (subscriptions (db w))" "recruiterOf (db w) i = Some r"
    "paying_row (db w) (recCompanyId r) = Some s" "externalSubscriptionId s = Some psid" "psid \<noteq> []"
    "subPlan s \<noteq> pl" "pl \<noteq> ENTERPRISE" "planContacts env pl = Some q" "planPrice env pl = Some price"
  defines "call \<equiv> ChangePlan psid pl (vatTTC (computeVat (price * 100))) (toLowerCase (cfgCurrency env))"
    and "s' \<equiv> s\<lparr>subPlan := pl, contactQuota := q\<rparr>"
    and "row \<equiv> \<lparr>actorId = Some i, auAction = SUBSCRIPTION_PLAN_CHANGED,
              entityType = ''subscription'', entityId = subId s\<rparr>"
  shows "changePlan env i pl w =
    (if stripeFails env call then (Inl (ServiceUnavailable ''stripe''), w)
     else let w' = w\<lparr>stripeCalls := stripeCalls w @ [call],
              db := (db w)\<lparr>subscriptions := upsert subId s' (subscriptions (db w))\<rparr>\<rparr>
          in if auditFails env row then (Inl (ServiceUnavailable ''audit''), w')
             else (Inr (pl, q, contactsUsed s), w'\<lparr>audit := audit w @ [row]\<rparr>))"
proof -
  have mem: "s \<in> set (subscriptions (db w))" using paying_row_mem [OF assms(3)] by simp
  have sv: "saveSubscription s' (w\<lparr>stripeCalls := stripeCalls w @ [call]\<rparr>) =
    (Inr s', w\<lparr>stripeCalls := stripeCalls w @ [call],
        db := (db w)\<lparr>subscriptions := upsert subId s' (subscriptions (db w))\<rparr>\<rparr>)"
    by (subst save_same_status(1) [of n _ s])
      (use assms(1) mem in \<open>auto simp: same_subscription_def s'_def\<close>)
  show ?thesis
    using assms(2-9) sv
    by (simp add: changePlan_def eff_simps falsy_def providerChangePlan_def callStripe_def
        resolveContactQuotaForPlan_def resolveMonthlyPriceHtInCentimes_def auditLog_def
        call_def [symmetric] s'_def [symmetric] Let_def)
      (simp add: s'_def row_def)
qed

end
