(* ===== verification/Trial.thy ===== *)
theory Trial
  imports Quota
begin

text \<open>
  Trial codes: \<open>billing/trial-code-redemption.service.ts\<close> and
  \<open>billing/trial-code-admin.service.ts\<close>. \<open>codes_ok\<close> is the accounting invariant: a code's
  counter is the number of redemptions of it and never exceeds its limit, and a company redeems
  at most once.
\<close>

section \<open>Redemption\<close>

fun isCurrentlyRedeemable :: "env \<Rightarrow> trial_code option \<Rightarrow> bool" where
  "isCurrentlyRedeemable env None = False"
| "isCurrentlyRedeemable env (Some c) =
     (tcStatus c = TC_ACTIVE \<and>
      (case tcExpiresAt c of None \<Rightarrow> True | Some e \<Rightarrow> now env < e) \<and>
      usedCount c < maxUses c)"

definition trial_row :: "db \<Rightarrow> uuid \<Rightarrow> subscription option" where
  "trial_row d companyId =
     find_latest subCreatedAt (\<lambda>s. subCompanyId s = companyId \<and> subStatus s = TRIAL) (subscriptions d)"

definition insertRedemptionOrRefuse :: "env \<Rightarrow> trial_code \<Rightarrow> uuid \<Rightarrow> unit service" where
  "insertRedemptionOrRefuse env c companyId =
     bindE freshId (\<lambda>i.
     tryCatch
       (bindE (insertRedemption \<lparr>trId = i, trTrialCodeId = tcId c, trCompanyId = companyId,
                 redeemedAt = now env, convertedAt = None\<rparr>) (\<lambda>_. ret ()))
       (\<lambda>e. if e = UniqueViolation UQ_trial_code_redemptions_company_id
            then throw TrialCodeAlreadyRedeemedException else throw e))"

text \<open>\<open>UPDATE trial_codes SET used_count = used_count + 1 WHERE id = :id AND used_count <
  max_uses AND status = 'active'\<close>.\<close>

definition claimable :: "uuid \<Rightarrow> trial_code \<Rightarrow> bool" where
  "claimable i c \<longleftrightarrow> tcId c = i \<and> usedCount c < maxUses c \<and> tcStatus c = TC_ACTIVE"

definition claimUse :: "uuid \<Rightarrow> unit service" where
  "claimUse i =
     bindE (gets (\<lambda>w. count_where (claimable i) (trialCodes (db w)))) (\<lambda>affected.
     bindE (modify (\<lambda>w. w\<lparr>db := (db w)\<lparr>trialCodes :=
        update_where (claimable i) (\<lambda>c. c\<lparr>usedCount := usedCount c + 1\<rparr>) (trialCodes (db w))\<rparr>\<rparr>)) (\<lambda>_.
     require (affected \<noteq> 0) InvalidTrialCodeException))"

definition extended_row :: "env \<Rightarrow> trial_code \<Rightarrow> int \<Rightarrow> subscription \<Rightarrow> subscription" where
  "extended_row env c quota s =
     s\<lparr>subPlan := tcPlan c, contactQuota := quota,
       endsAt := Some (addDays env (now env) (trialDurationDays c))\<rparr>"

definition redeemBody :: "env \<Rightarrow> uuid \<Rightarrow> string \<Rightarrow> (plan \<times> int \<times> date) service" where
  "redeemBody env companyId code =
     bindE (gets (\<lambda>w. trial_row (db w) companyId)) (\<lambda>found.
     bindE (someOr TrialCodeNotEligibleException found) (\<lambda>sub.
     bindE (gets (\<lambda>w. List.find (\<lambda>c. tcCode c = code) (trialCodes (db w)))) (\<lambda>trialCode.
     bindE (require (isCurrentlyRedeemable env trialCode) InvalidTrialCodeException) (\<lambda>_.
     bindE (ret (the trialCode)) (\<lambda>c.
     bindE (insertRedemptionOrRefuse env c companyId) (\<lambda>_.
     bindE (claimUse (tcId c)) (\<lambda>_.
     bindE (resolveContactQuotaForPlan env (tcPlan c)) (\<lambda>quota.
     bindE (saveSubscription (extended_row env c quota sub)) (\<lambda>saved.
     ret (subPlan saved, contactQuota saved, the (endsAt saved)))))))))))"

definition redeem :: "env \<Rightarrow> uuid \<Rightarrow> string \<Rightarrow> (plan \<times> int \<times> date) service" where
  "redeem env i code =
     bindE (resolveCompanyId i) (\<lambda>companyId. transaction (redeemBody env companyId code))"

section \<open>Administration\<close>

definition createTrialCode :: "string \<Rightarrow> plan \<Rightarrow> int \<Rightarrow> int \<Rightarrow> date option \<Rightarrow> trial_code service" where
  "createTrialCode code pl days uses ends =
     bindE freshId (\<lambda>i.
     tryCatch
       (saveTrialCode \<lparr>tcId = i, tcCode = code, tcPlan = pl, trialDurationDays = days,
          maxUses = uses, usedCount = 0, tcStatus = TC_ACTIVE, tcExpiresAt = ends\<rparr>)
       (\<lambda>e. case e of
              UniqueViolation _ \<Rightarrow> throw (ConflictException ''trial-code-exists'')
            | _ \<Rightarrow> throw e))"

definition revokeTrialCode :: "uuid \<Rightarrow> trial_code service" where
  "revokeTrialCode i =
     bindE (gets (\<lambda>w. List.find (\<lambda>c. tcId c = i) (trialCodes (db w)))) (\<lambda>found.
     bindE (someOr (NotFoundException ''trial-code'') found) (\<lambda>c.
     if tcStatus c = TC_REVOKED then ret c else saveTrialCode (c\<lparr>tcStatus := TC_REVOKED\<rparr>)))"

section \<open>The accounting invariant\<close>

definition codes_ok :: "world \<Rightarrow> bool" where
  "codes_ok w \<longleftrightarrow>
     distinct (map tcId (trialCodes (db w))) \<and>
     (\<forall>c \<in> set (trialCodes (db w)). tcId c < nextId w \<and> usedCount c \<le> maxUses c \<and>
        usedCount c = count_where (\<lambda>r. trTrialCodeId r = tcId c) (trialRedemptions (db w))) \<and>
     (\<forall>r \<in> set (trialRedemptions (db w)). trId r < nextId w \<and> trTrialCodeId r < nextId w) \<and>
     index_ok (\<lambda>r. Some (trCompanyId r)) (trialRedemptions (db w))"

text \<open>What a successful redemption commits.\<close>

definition redemption_row :: "env \<Rightarrow> trial_code \<Rightarrow> uuid \<Rightarrow> uuid \<Rightarrow> trial_redemption" where
  "redemption_row env c companyId i = \<lparr>trId = i, trTrialCodeId = tcId c, trCompanyId = companyId,
     redeemedAt = now env, convertedAt = None\<rparr>"

lemma insertRedemptionOrRefuse_returns:
  "insertRedemptionOrRefuse env c companyId w = (Inr u, w') \<longleftrightarrow>
     redemption_violated (upsert trId (redemption_row env c companyId (nextId w)) (trialRedemptions (db w))) = None \<and>
     w' = w\<lparr>nextId := Suc (nextId w), db := (db w)\<lparr>trialRedemptions :=
       upsert trId (redemption_row env c companyId (nextId w)) (trialRedemptions (db w))\<rparr>\<rparr>"
  by (auto simp: insertRedemptionOrRefuse_def redemption_row_def insertRedemption_def tryCatch_def
      bindE_def freshId_def save_into_def checked_save_def split: option.splits if_splits)

lemma claimUse_returns:
  "claimUse i w = (Inr u, w') \<longleftrightarrow>
     (\<exists>c \<in> set (trialCodes (db w)). claimable i c) \<and>
     w' = w\<lparr>db := (db w)\<lparr>trialCodes :=
        update_where (claimable i) (\<lambda>c. c\<lparr>usedCount := usedCount c + 1\<rparr>) (trialCodes (db w))\<rparr>\<rparr>"
  using count_where_zero [of "claimable i" "trialCodes (db w)"]
  by (auto simp: claimUse_def returns)

lemma redeem_returns:
  assumes "redeem env i code w = (Inr (pl, q, e), w')"
  obtains r sub c where
    "recruiterOf (db w) i = Some r"
    "trial_row (db w) (recCompanyId r) = Some sub"
    "List.find (\<lambda>c. tcCode c = code) (trialCodes (db w)) = Some c"
    "isCurrentlyRedeemable env (Some c)" "planContacts env (tcPlan c) = Some q"
    "pl = tcPlan c" "e = addDays env (now env) (trialDurationDays c)"
    "redemption_violated (upsert trId (redemption_row env c (recCompanyId r) (nextId w))
       (trialRedemptions (db w))) = None"
    "sub_violated (upsert subId (extended_row env c q sub) (subscriptions (db w))) = None"
    "w' = w\<lparr>nextId := Suc (nextId w), db := (db w)\<lparr>
       trialRedemptions := upsert trId (redemption_row env c (recCompanyId r) (nextId w)) (trialRedemptions (db w)),
       trialCodes := update_where (claimable (tcId c)) (\<lambda>c. c\<lparr>usedCount := usedCount c + 1\<rparr>) (trialCodes (db w)),
       subscriptions := upsert subId (extended_row env c q sub) (subscriptions (db w))\<rparr>\<rparr>"
proof -
  from assms obtain r where r: "recruiterOf (db w) i = Some r"
    and body: "redeemBody env (recCompanyId r) code w = (Inr (pl, q, e), w')"
    unfolding redeem_def by (auto simp: returns)
  from body obtain sub where sub: "trial_row (db w) (recCompanyId r) = Some sub"
    unfolding redeemBody_def by (auto simp: returns)
  from body sub obtain c where c: "List.find (\<lambda>c. tcCode c = code) (trialCodes (db w)) = Some c"
    and red: "isCurrentlyRedeemable env (Some c)"
    unfolding redeemBody_def by (cases "List.find (\<lambda>c. tcCode c = code) (trialCodes (db w))")
      (auto simp: returns)
  from body sub c red show ?thesis
    unfolding redeemBody_def
    by (intro that [OF r sub c red])
      (auto simp: returns insertRedemptionOrRefuse_returns claimUse_returns resolveContactQuota_Inr
        save_Inr extended_row_def)
qed

text \<open>A code with one use claimed, seen through the other columns.\<close>

lemma redeem_codes_ok:
  assumes ok: "codes_ok w" and red: "redeem env i code w = (Inr (pl, q, e), w')"
  shows "codes_ok w'"
  using red
proof (cases rule: redeem_returns)
  case (1 r sub c)
  let ?row = "redemption_row env c (recCompanyId r) (nextId w)"
  let ?t = "trialRedemptions (db w)" and ?cs = "trialCodes (db w)"
  have c: "c \<in> set ?cs" using find_SomeD [OF 1(3)] by simp
  have use: "claimable (tcId c) x \<longleftrightarrow> x = c" if "x \<in> set ?cs" for x
    using ok c 1(4) that by (auto simp: codes_ok_def claimable_def distinct_map inj_on_def)
  have app: "upsert trId ?row ?t = ?t @ [?row]"
    using ok by (intro upsert_new) (auto simp: codes_ok_def redemption_row_def)
  have row: "trTrialCodeId ?row = tcId c" "trId ?row = nextId w" by (simp_all add: redemption_row_def)
  have codes: "trialCodes (db w') = map (\<lambda>x. if x = c then x\<lparr>usedCount := usedCount x + 1\<rparr> else x) ?cs"
    using 1(10) use by (simp add: update_where_def cong: map_cong)
  have ids: "map tcId (trialCodes (db w')) = map tcId ?cs" by (simp add: codes)
  have other: "tcId c \<noteq> tcId x" if "x \<in> set ?cs" "x \<noteq> c" for x
    using ok c that by (auto simp: codes_ok_def distinct_map inj_on_def)
  have "index_ok (\<lambda>r. Some (trCompanyId r)) (upsert trId ?row ?t)"
    using 1(8) by (simp add: redemption_violated_def split: if_splits)
  moreover have "\<forall>x \<in> set (trialCodes (db w')). tcId x < Suc (nextId w) \<and> usedCount x \<le> maxUses x \<and>
      usedCount x = count_where (\<lambda>r. trTrialCodeId r = tcId x) (?t @ [?row])"
    using ok c 1(4) other by (auto simp: codes codes_ok_def row intro: less_SucI)
  moreover have "\<forall>r \<in> set (?t @ [?row]). trId r < Suc (nextId w) \<and> trTrialCodeId r < Suc (nextId w)"
    using ok c by (auto simp: codes_ok_def row intro: less_SucI)
  moreover have "trialRedemptions (db w') = ?t @ [?row]" "nextId w' = Suc (nextId w)"
    using 1(10) app by simp_all
  moreover have "distinct (map tcId (trialCodes (db w')))" using ok ids by (simp add: codes_ok_def)
  ultimately show ?thesis using app unfolding codes_ok_def by metis
qed

lemma redeem_sub_step:
  assumes wf: "wf_subs (nextId w) (subscriptions (db w))"
    and red: "redeem env i code w = (Inr (pl, q, e), w')"
  shows "sub_step (nextId w) (subscriptions (db w)) (subscriptions (db w'))"
    "\<forall>s \<in> set (subscriptions (db w')). subId s < nextId w'"
proof -
  have "sub_step (nextId w) (subscriptions (db w)) (subscriptions (db w')) \<and>
    (\<forall>s \<in> set (subscriptions (db w')). subId s < nextId w')"
    using red
  proof (cases rule: redeem_returns)
    case (1 r sub c)
    have sub: "sub \<in> set (subscriptions (db w))"
      using 1(2) unfolding trial_row_def by (auto dest: find_latest_Some)
    have "same_subscription sub (extended_row env c q sub)"
      "status_ok (subStatus sub) (subStatus (extended_row env c q sub))"
      by (simp_all add: extended_row_def same_subscription_def)
    from sub_changed [OF wf sub this 1(9), of "Suc (nextId w)"] 1(10) show ?thesis by simp
  qed
  then show "sub_step (nextId w) (subscriptions (db w)) (subscriptions (db w'))"
    "\<forall>s \<in> set (subscriptions (db w')). subId s < nextId w'" by blast+
qed

lemma redeem_throws_db:
  assumes "redeem env i code w = (Inl e, w')"
  shows "db w' = db w"
  using assms unfolding redeem_def bindE_throws
  by (auto simp: resolveCompanyId_apply split: option.splits dest: transaction_Inl_db)

lemma codes_ok_same:
  assumes "codes_ok w" "db w' = db w" "nextId w \<le> nextId w'"
  shows "codes_ok w'"
  using assms unfolding codes_ok_def by force

lemma redeem_ids: "ids_grow (redeem env i code)"
  unfolding redeem_def redeemBody_def insertRedemptionOrRefuse_def claimUse_def insertRedemption_def
    saveSubscription_def resolveCompanyId_def resolveContactQuotaForPlan_def
  by (intro keeping) simp_all

lemma createTrialCode_codes_ok:
  assumes ok: "codes_ok w" and "0 \<le> uses" and run: "createTrialCode code pl days uses ends w = (r, w')"
  shows "codes_ok w'"
proof -
  let ?c = "\<lparr>tcId = nextId w, tcCode = code, tcPlan = pl, trialDurationDays = days, maxUses = uses,
    usedCount = 0, tcStatus = TC_ACTIVE, tcExpiresAt = ends\<rparr>"
  have app: "upsert tcId ?c (trialCodes (db w)) = trialCodes (db w) @ [?c]"
    using ok by (intro upsert_new) (auto simp: codes_ok_def)
  have none: "count_where (\<lambda>r. trTrialCodeId r = nextId w) (trialRedemptions (db w)) = 0"
    using ok unfolding count_where_zero codes_ok_def by auto
  have ok1: "codes_ok (w\<lparr>nextId := Suc (nextId w)\<rparr>)"
    by (rule codes_ok_same [OF ok]) simp_all
  from run have "w' = w\<lparr>nextId := Suc (nextId w)\<rparr> \<or> w' = w\<lparr>nextId := Suc (nextId w),
      db := (db w)\<lparr>trialCodes := trialCodes (db w) @ [?c]\<rparr>\<rparr>"
    unfolding createTrialCode_def saveTrialCode_def
    by (auto simp: bindE_def freshId_def tryCatch_def save_into_def checked_save_def app
        split: option.splits)
  moreover have "nextId w \<notin> tcId ` set (trialCodes (db w))" using ok by (auto simp: codes_ok_def)
  ultimately show ?thesis using ok ok1 none assms(2)
    by (auto simp: codes_ok_def intro: less_SucI)
qed

lemma revokeTrialCode_codes_ok:
  assumes ok: "codes_ok w" and run: "revokeTrialCode i w = (r, w')"
  shows "codes_ok w'"
proof (cases "w' = w")
  case False
  with run obtain c where f: "List.find (\<lambda>c. tcId c = i) (trialCodes (db w)) = Some c"
    and sv: "saveTrialCode (c\<lparr>tcStatus := TC_REVOKED\<rparr>) w = (r, w')"
    unfolding revokeTrialCode_def
    by (cases "List.find (\<lambda>c. tcId c = i) (trialCodes (db w))")
      (auto simp: eff_simps split: if_splits)
  have c: "c \<in> set (trialCodes (db w))" using find_SomeD [OF f] by simp
  from sv False have w': "w' = w\<lparr>db := (db w)\<lparr>trialCodes :=
      upsert tcId (c\<lparr>tcStatus := TC_REVOKED\<rparr>) (trialCodes (db w))\<rparr>\<rparr>"
    unfolding saveTrialCode_def by (auto simp: save_into_def checked_save_def split: option.splits)
  have up: "\<forall>x \<in> set (upsert tcId (c\<lparr>tcStatus := TC_REVOKED\<rparr>) (trialCodes (db w))).
      \<exists>y \<in> set (trialCodes (db w)). tcId x = tcId y \<and> usedCount x = usedCount y \<and> maxUses x = maxUses y"
    using c by (auto simp: set_upsert)
  show ?thesis
    using ok up distinct_upsert [of tcId "trialCodes (db w)" "c\<lparr>tcStatus := TC_REVOKED\<rparr>"]
    unfolding codes_ok_def w' by fastforce
qed (use ok in simp)

end
