(* ===== verification/Consumer.thy ===== *)
theory Consumer
  imports Prelude
begin

text \<open>
  The contract of an idempotent message consumer: a handler that records the key of every
  message it applies and reports, for a message whose key is recorded, that it was already
  processed. The sender may deliver a message any number of times, interleaved with others.
  The result \<open>Inr True\<close> means \<open>already processed\<close>; \<open>view\<close> is the part of the state that
  must not change on a replay or a failure.
\<close>

locale idempotent_consumer =
  fixes step :: "'m \<Rightarrow> ('s, 'e, bool) eff"
    and key :: "'m \<Rightarrow> 'k"
    and seen :: "'k \<Rightarrow> 's \<Rightarrow> bool"
    and iv :: "'s \<Rightarrow> bool"
    and view :: "'s \<Rightarrow> 'd"
  assumes step_iv: "iv s \<Longrightarrow> iv (snd (step m s))"
    and seen_mono: "iv s \<Longrightarrow> seen k s \<Longrightarrow> seen k (snd (step m s))"
    and seen_skips: "iv s \<Longrightarrow> seen (key m) s \<Longrightarrow> \<exists>s'. step m s = (Inr True, s') \<and> view s' = view s"
    and done_seen: "iv s \<Longrightarrow> step m s = (Inr b, s') \<Longrightarrow> seen (key m) s'"
    and fresh_applies: "iv s \<Longrightarrow> \<not> seen (key m) s \<Longrightarrow> step m s = (Inr b, s') \<Longrightarrow> \<not> b"
    and failed_view: "iv s \<Longrightarrow> step m s = (Inl e, s') \<Longrightarrow> view s' = view s"
begin

lemma all_iv: "iv s \<Longrightarrow> iv (fold (\<lambda>m s. snd (step m s)) ms s)"
  by (induction ms arbitrary: s) (simp_all add: step_iv)

lemma all_seen: "iv s \<Longrightarrow> seen k s \<Longrightarrow> seen k (fold (\<lambda>m s. snd (step m s)) ms s)"
  by (induction ms arbitrary: s) (simp_all add: step_iv seen_mono)

text \<open>However many other messages come between, a message answered once is answered
  \<open>already processed\<close> ever after, without touching the view.\<close>

lemma replay:
  assumes "iv s" "step m s = (Inr b, s1)" "key m' = key m"
  shows "\<exists>s3. step m' (fold (\<lambda>m s. snd (step m s)) ms s1) = (Inr True, s3) \<and>
    view s3 = view (fold (\<lambda>m s. snd (step m s)) ms s1)"
proof -
  have "iv s1" using step_iv [OF assms(1), of m] assms(2) by simp
  moreover have "seen (key m') s1" using done_seen [OF assms(1,2)] assms(3) by simp
  ultimately show ?thesis by (intro seen_skips all_iv all_seen)
qed

text \<open>The view changes only when a key is seen for the first time.\<close>

lemma changes_once:
  assumes "iv s" "view (snd (step m s)) \<noteq> view s"
  shows "\<not> seen (key m) s \<and> fst (step m s) = Inr False \<and> seen (key m) (snd (step m s))"
proof -
  obtain r s' where st: "step m s = (r, s')" by fastforce
  with assms(2) failed_view [OF assms(1)] obtain b where r: "r = Inr b" by (cases r) auto
  have ns: "\<not> seen (key m) s" using seen_skips [OF assms(1), of m] assms(2) by force
  show ?thesis
    using ns st r fresh_applies [OF assms(1) ns] done_seen [OF assms(1)] by auto
qed

end

end
