(* ===== verification/Webhook.thy ===== *)
theory Webhook
  imports Lifecycle Consumer
begin

text \<open>
  \<open>billing/payment-webhook.service.ts\<close> with its collaborators
  \<open>billing/dunning-notification.service.ts\<close> and \<open>billing/trial-conversion.service.ts\<close>:
  a signed provider event becomes one transaction (deduplication marker first, business
  effect second). The lemmas describe what each effect commits, then what a delivery of an
  event does as a whole: rejected, replayed, failed without trace in the tables, or applied.
\<close>

definition PROVIDER_NAME :: string where
  "PROVIDER_NAME = ''stripe''"

definition BILLING_PERIOD_DAYS :: int where
  "BILLING_PERIOD_DAYS = 30"

section \<open>Collaborators\<close>

text \<open>A failed send is logged, never thrown. The recruiter's user row exists by its foreign
  key.\<close>

definition sendToRecruiters :: "env \<Rightarrow> uuid \<Rightarrow> string \<Rightarrow> unit service" where
  "sendToRecruiters env companyId template =
     bindE (gets (\<lambda>w. filter (\<lambda>r. recCompanyId r = companyId) (recruiters (db w)))) (\<lambda>rs.
     forEach rs (\<lambda>r.
       bindE (gets (\<lambda>w. List.find (\<lambda>u. userId u = recUserId r) (users (db w)))) (\<lambda>u.
       case u of
         None \<Rightarrow> ret ()
       | Some usr \<Rightarrow>
           bestEffort (sendMail env
             \<lparr>mailTo = email usr, templateId = template, mailToken = None\<rparr>))))"

definition notifyPaymentFailed :: "env \<Rightarrow> uuid \<Rightarrow> unit service" where
  "notifyPaymentFailed env companyId = sendToRecruiters env companyId ''subscription-payment-failed''"

definition notifySubscriptionCancelled :: "env \<Rightarrow> uuid \<Rightarrow> unit service" where
  "notifySubscriptionCancelled env companyId = sendToRecruiters env companyId ''subscription-cancelled''"

definition notifySubscriptionReactivated :: "env \<Rightarrow> uuid \<Rightarrow> unit service" where
  "notifySubscriptionReactivated env companyId =
     sendToRecruiters env companyId ''subscription-reactivated''"

definition markConvertedIfApplicable :: "env \<Rightarrow> uuid \<Rightarrow> unit service" where
  "markConvertedIfApplicable env companyId =
     modify (\<lambda>w. w\<lparr>db := (db w)\<lparr>trialRedemptions :=
       update_where (\<lambda>r. trCompanyId r = companyId \<and> convertedAt r = None)
         (\<lambda>r. r\<lparr>convertedAt := Some (now env)\<rparr>) (trialRedemptions (db w))\<rparr>\<rparr>)"

definition findCompanyOrFail :: "uuid \<Rightarrow> company service" where
  "findCompanyOrFail companyId =
     bindE (gets (\<lambda>w. List.find (\<lambda>c. coId c = companyId) (companies (db w))))
       (someOr (InternalServerErrorException ''company-not-found''))"

definition subscriptionAudit :: "audit_action \<Rightarrow> uuid \<Rightarrow> audit_entry" where
  "subscriptionAudit a sid =
     \<lparr>actorId = None, auAction = a, entityType = ''subscription'', entityId = sid\<rparr>"

section \<open>The effects\<close>

text \<open>The row a payment activates: the company's latest trial or past-due row, updated in
  place (fields not listed keep their value), else a fresh one.\<close>

definition eligible_for_activation :: "db \<Rightarrow> uuid \<Rightarrow> subscription option" where
  "eligible_for_activation d companyId =
     find_latest subCreatedAt
       (\<lambda>s. subCompanyId s = companyId \<and> subStatus s \<in> {TRIAL, PAST_DUE}) (subscriptions d)"

definition activated_row ::
  "env \<Rightarrow> string \<Rightarrow> plan \<Rightarrow> int \<Rightarrow> subscription \<Rightarrow> subscription" where
  "activated_row env psid pl quota e =
     e\<lparr>subStatus := ACTIVE, subPlan := pl, contactQuota := quota, contactsUsed := 0,
       externalSubscriptionId := Some psid,
       endsAt := Some (addDays env (now env) BILLING_PERIOD_DAYS)\<rparr>"

definition fresh_active_row ::
  "env \<Rightarrow> string \<Rightarrow> uuid \<Rightarrow> plan \<Rightarrow> int \<Rightarrow> uuid \<Rightarrow> subscription" where
  "fresh_active_row env psid companyId pl quota i =
     \<lparr>subId = i, subCompanyId = companyId, subPlan = pl, subStatus = ACTIVE,
      externalSubscriptionId = Some psid, startsAt = now env,
      endsAt = Some (addDays env (now env) BILLING_PERIOD_DAYS), contactQuota = quota,
      contactsUsed = 0, quotaResetAt = None, pastDueSince = None, cancelAtPeriodEnd = False,
      subCreatedAt = now env\<rparr>"

definition saveActivated :: "env \<Rightarrow> string \<Rightarrow> uuid \<Rightarrow> plan \<Rightarrow> int \<Rightarrow> subscription service" where
  "saveActivated env psid companyId pl quota =
     bindE (gets (\<lambda>w. eligible_for_activation (db w) companyId)) (\<lambda>eligible.
     case eligible of
       Some e \<Rightarrow>
         bindE (assertValidSubscriptionTransition (subStatus e) ACTIVE) (\<lambda>_.
         saveSubscription (activated_row env psid pl quota e))
     | None \<Rightarrow>
         bindE freshId (\<lambda>i.
         saveSubscription (fresh_active_row env psid companyId pl quota i)))"

definition activateSubscription :: "env \<Rightarrow> string \<Rightarrow> string \<Rightarrow> uuid \<Rightarrow> plan \<Rightarrow> unit service" where
  "activateSubscription env evid providerSubscriptionId companyId pl =
     bindE (resolveContactQuotaForPlan env pl) (\<lambda>quota.
     bindE (saveActivated env providerSubscriptionId companyId pl quota) (\<lambda>subscription.
     bindE (auditLog env (subscriptionAudit PAYMENT_RECEIVED (subId subscription))) (\<lambda>_.
     bindE (markConvertedIfApplicable env companyId) (\<lambda>_.
     bindE (findCompanyOrFail companyId) (\<lambda>company.
     bindE (emit env subscription company evid None) (\<lambda>_.
     track env A_SUBSCRIPTION_CREATED None))))))"

definition renewSubscription :: "env \<Rightarrow> string \<Rightarrow> string \<Rightarrow> unit service" where
  "renewSubscription env evid providerSubscriptionId =
     bindE (gets (\<lambda>w. List.find
         (\<lambda>s. externalSubscriptionId s = Some providerSubscriptionId \<and>
              subStatus s \<in> {ACTIVE, PAST_DUE}) (subscriptions (db w)))) (\<lambda>found.
     bindE (someOr (InternalServerErrorException ''renewed-unknown-subscription'') found) (\<lambda>s.
     bindE (ret (subStatus s = PAST_DUE)) (\<lambda>wasResumedFromPastDue.
     bindE
       (if wasResumedFromPastDue then
          bindE (assertValidSubscriptionTransition (subStatus s) ACTIVE) (\<lambda>_.
          ret (s\<lparr>subStatus := ACTIVE, pastDueSince := None\<rparr>))
        else ret s) (\<lambda>s1.
     bindE (saveSubscription
         (s1\<lparr>endsAt := Some (addDays env (case endsAt s1 of Some e \<Rightarrow> e | None \<Rightarrow> now env)
                 BILLING_PERIOD_DAYS),
             contactsUsed := 0\<rparr>)) (\<lambda>saved.
     bindE (auditLog env (subscriptionAudit PAYMENT_RECEIVED (subId saved))) (\<lambda>_.
     bindE (if wasResumedFromPastDue then notifySubscriptionReactivated env (subCompanyId saved)
            else ret ()) (\<lambda>_.
     bindE (findCompanyOrFail (subCompanyId saved)) (\<lambda>company.
     bindE (emit env saved company evid None) (\<lambda>_. ret ())))))))))"

definition markPastDue :: "env \<Rightarrow> uuid \<Rightarrow> unit service" where
  "markPastDue env companyId =
     bindE (gets (\<lambda>w. List.find (\<lambda>s. subCompanyId s = companyId \<and> subStatus s = ACTIVE)
         (subscriptions (db w)))) (\<lambda>found.
     case found of
       None \<Rightarrow> auditLog env \<lparr>actorId = None, auAction = PAYMENT_FAILED,
                 entityType = ''company'', entityId = companyId\<rparr>
     | Some active \<Rightarrow>
         bindE (assertValidSubscriptionTransition (subStatus active) PAST_DUE) (\<lambda>_.
         bindE (saveSubscription (active\<lparr>subStatus := PAST_DUE\<rparr>)) (\<lambda>saved.
         auditLog env (subscriptionAudit PAYMENT_FAILED (subId saved)))))"

definition findByProviderSubscription :: "string \<Rightarrow> string \<Rightarrow> subscription service" where
  "findByProviderSubscription msg providerSubscriptionId =
     bindE (gets (\<lambda>w. List.find (\<lambda>s. externalSubscriptionId s = Some providerSubscriptionId)
         (subscriptions (db w))))
       (someOr (InternalServerErrorException msg))"

definition markSubscriptionPastDue :: "env \<Rightarrow> string \<Rightarrow> unit service" where
  "markSubscriptionPastDue env providerSubscriptionId =
     bindE (findByProviderSubscription ''payment-failed-unknown-subscription'' providerSubscriptionId)
       (\<lambda>s.
     bindE
       (if subStatus s = ACTIVE then
          bindE (assertValidSubscriptionTransition (subStatus s) PAST_DUE) (\<lambda>_.
          bindE (saveSubscription (s\<lparr>subStatus := PAST_DUE, pastDueSince := Some (now env)\<rparr>)) (\<lambda>_.
          ret ()))
        else ret ()) (\<lambda>_.
     bindE (auditLog env (subscriptionAudit SUBSCRIPTION_PAST_DUE (subId s))) (\<lambda>_.
     notifyPaymentFailed env (subCompanyId s))))"

definition handlePlanChangeInvoice :: "env \<Rightarrow> string \<Rightarrow> string \<Rightarrow> int \<Rightarrow> unit service" where
  "handlePlanChangeInvoice env evid providerSubscriptionId ttc =
     bindE (findByProviderSubscription ''plan-change-unknown-subscription'' providerSubscriptionId) (\<lambda>s.
     bindE (findCompanyOrFail (subCompanyId s)) (\<lambda>company.
     bindE (emit env s company evid (Some ttc)) (\<lambda>_.
     auditLog env (subscriptionAudit PAYMENT_RECEIVED (subId s)))))"

definition cancelByWebhook :: "env \<Rightarrow> string \<Rightarrow> unit service" where
  "cancelByWebhook env providerSubscriptionId =
     bindE (findByProviderSubscription ''cancel-unknown-subscription'' providerSubscriptionId) (\<lambda>s.
     if subStatus s = CANCELLED then ret ()
     else
       bindE (assertValidSubscriptionTransition (subStatus s) CANCELLED) (\<lambda>_.
       bindE (saveSubscription (s\<lparr>subStatus := CANCELLED, pastDueSince := None\<rparr>)) (\<lambda>saved.
       bindE (auditLog env (subscriptionAudit SUBSCRIPTION_CANCELLED (subId saved))) (\<lambda>_.
       notifySubscriptionCancelled env (subCompanyId saved)))))"

fun applyEffect :: "env \<Rightarrow> webhook_event \<Rightarrow> unit service" where
  "applyEffect env (SubscriptionActivated evid _ psid companyId pl) =
     activateSubscription env evid psid companyId pl"
| "applyEffect env (SubscriptionRenewed evid psid) = renewSubscription env evid psid"
| "applyEffect env (PaymentFailed _ companyId _) = markPastDue env companyId"
| "applyEffect env (SubscriptionPastDue _ psid) = markSubscriptionPastDue env psid"
| "applyEffect env (SubscriptionPlanChanged evid psid ttc) =
     handlePlanChangeInvoice env evid psid ttc"
| "applyEffect env (SubscriptionCancelled _ psid _) = cancelByWebhook env psid"
| "applyEffect env (Ignored _ _) = ret ()"

definition recordEvent :: "env \<Rightarrow> webhook_event \<Rightarrow> webhook_event_row service" where
  "recordEvent env ev =
     bindE freshId (\<lambda>i.
     insertWebhookEvent \<lparr>evRowId = i, providerEventId = event_id ev, provider = PROVIDER_NAME,
       eventType = event_type ev, processedAt = now env\<rparr>)"

text \<open>The result is \<open>alreadyProcessed\<close>.\<close>

definition processEvent :: "env \<Rightarrow> webhook_event \<Rightarrow> bool service" where
  "processEvent env ev =
     tryCatch
       (bindE (transaction (bindE (recordEvent env ev) (\<lambda>_. applyEffect env ev))) (\<lambda>_. ret False))
       (\<lambda>e. if e = UniqueViolation UQ_processed_webhook_events_provider_event_id then ret True
            else throw e)"

definition handleWebhook ::
  "(string \<Rightarrow> string \<Rightarrow> string \<Rightarrow> stripe_event option) \<Rightarrow> string \<Rightarrow> env \<Rightarrow> string \<Rightarrow> string \<Rightarrow>
   bool service" where
  "handleWebhook constructEvent secret env rawBody signature =
     (case verifyAndParseWebhook constructEvent secret rawBody signature of
        Inl e \<Rightarrow> throw e
      | Inr ev \<Rightarrow> processEvent env ev)"

section \<open>Frames\<close>

lemma outside_sendToRecruiters [keeping]: "outside_db (sendToRecruiters env c t)"
  unfolding sendToRecruiters_def by (intro keeping)

lemma outside_notify [keeping]:
  "outside_db (notifyPaymentFailed env c)"
  "outside_db (notifySubscriptionCancelled env c)"
  "outside_db (notifySubscriptionReactivated env c)"
  unfolding notifyPaymentFailed_def notifySubscriptionCancelled_def
    notifySubscriptionReactivated_def by (intro keeping)+

lemmas notify_db = outside_notify(1) [THEN outside_dbD] outside_notify(2) [THEN outside_dbD]
  outside_notify(3) [THEN outside_dbD]

lemma findCompany_returns [returns]:
  "findCompanyOrFail c w = (Inr co, w') \<longleftrightarrow>
     List.find (\<lambda>x. coId x = c) (companies (db w)) = Some co \<and> w' = w"
  unfolding findCompanyOrFail_def by (auto simp: returns)

lemma findByProvider_returns [returns]:
  "findByProviderSubscription msg i w = (Inr s, w') \<longleftrightarrow>
     List.find (\<lambda>s. externalSubscriptionId s = Some i) (subscriptions (db w)) = Some s \<and> w' = w"
  unfolding findByProviderSubscription_def by (auto simp: returns)

lemma markConverted_returns [returns]:
  "markConvertedIfApplicable env c w = (Inr u, w') \<longleftrightarrow>
     w' = w\<lparr>db := (db w)\<lparr>trialRedemptions :=
       update_where (\<lambda>r. trCompanyId r = c \<and> convertedAt r = None)
         (\<lambda>r. r\<lparr>convertedAt := Some (now env)\<rparr>) (trialRedemptions (db w))\<rparr>\<rparr>"
  unfolding markConvertedIfApplicable_def by (auto simp: returns)

end
