(* ===== verification/Webhook_Facts.thy ===== *)
theory Webhook_Facts
  imports Webhook
begin

text \<open>
  What a delivered payment event does. First the exact database change of each effect when it
  returns (\<open>*_returns\<close>), then the delivery as a whole (\<open>processEvent_cases\<close>), and from
  these the properties: atomicity and idempotence, the lifecycle of every subscription row,
  one invoice per charge, gap-free numbering, and the two places where the code leaves a
  stale column behind.
\<close>

section \<open>What each effect commits\<close>

lemma saveActivated_returns:
  assumes "saveActivated env psid c pl quota w = (Inr sub, w')"
  shows "sub = (case eligible_for_activation (db w) c of
            Some e \<Rightarrow> activated_row env psid pl quota e
          | None \<Rightarrow> fresh_active_row env psid c pl quota (nextId w))
    \<and> sub_violated (upsert subId sub (subscriptions (db w))) = None
    \<and> db w' = (db w)\<lparr>subscriptions := upsert subId sub (subscriptions (db w))\<rparr>
    \<and> nextId w \<le> nextId w'
    \<and> (eligible_for_activation (db w) c = None \<longrightarrow> nextId w < nextId w')"
  using assms unfolding saveActivated_def
  by (cases "eligible_for_activation (db w) c") (auto simp: returns save_Inr)

lemma activate_returns:
  assumes "activateSubscription env evid psid c pl w = (Inr u, w')"
  obtains quota sub wa wb co iv wc where
    "planContacts env pl = Some quota"
    "saveActivated env psid c pl quota w = (Inr sub, wa)"
    "db wb = (db wa)\<lparr>trialRedemptions :=
       update_where (\<lambda>r. trCompanyId r = c \<and> convertedAt r = None)
         (\<lambda>r. r\<lparr>convertedAt := Some (now env)\<rparr>) (trialRedemptions (db wa))\<rparr>"
    "nextId wb = nextId wa"
    "List.find (\<lambda>x. coId x = c) (companies (db wb)) = Some co"
    "emit env sub co evid None wb = (Inr iv, wc)"
    "db w' = db wc" "nextId w' = nextId wc"
proof -
  let ?conv = "update_where (\<lambda>r. trCompanyId r = c \<and> convertedAt r = None)
         (\<lambda>r. r\<lparr>convertedAt := Some (now env)\<rparr>)"
  from assms obtain quota sub wa co iv wc where
    q: "planContacts env pl = Some quota"
    and sa: "saveActivated env psid c pl quota w = (Inr sub, wa)"
    and co: "List.find (\<lambda>x. coId x = c) (companies (db wa)) = Some co"
    and em: "emit env sub co evid None
       (wa\<lparr>audit := audit wa @ [subscriptionAudit PAYMENT_RECEIVED (subId sub)],
           db := (db wa)\<lparr>trialRedemptions := ?conv (trialRedemptions (db wa))\<rparr>\<rparr>) = (Inr iv, wc)"
    and tr: "track env A_SUBSCRIPTION_CREATED None wc = (Inr u, w')"
    unfolding activateSubscription_def by (auto simp: returns resolveContactQuota_Inr)
  from tr have "db w' = db wc" "nextId w' = nextId wc"
    by (auto simp: track_def split: if_splits)
  then show ?thesis
    by (intro that [OF q sa _ _ _ em]) (simp_all add: co)
qed

lemma renew_returns:
  assumes "renewSubscription env evid psid w = (Inr u, w')"
  obtains s s' wa co iv where
    "List.find (\<lambda>s. externalSubscriptionId s = Some psid \<and> subStatus s \<in> {ACTIVE, PAST_DUE})
       (subscriptions (db w)) = Some s"
    "s' = s\<lparr>subStatus := ACTIVE,
        pastDueSince := (if subStatus s = PAST_DUE then None else pastDueSince s),
        endsAt := Some (addDays env (case endsAt s of Some e \<Rightarrow> e | None \<Rightarrow> now env)
                    BILLING_PERIOD_DAYS),
        contactsUsed := 0\<rparr>"
    "sub_violated (upsert subId s' (subscriptions (db w))) = None"
    "db wa = (db w)\<lparr>subscriptions := upsert subId s' (subscriptions (db w))\<rparr>"
    "nextId w \<le> nextId wa"
    "List.find (\<lambda>x. coId x = subCompanyId s') (companies (db wa)) = Some co"
    "emit env s' co evid None wa = (Inr iv, w')"
proof -
  let ?until = "\<lambda>s. Some (addDays env (case endsAt s of Some e \<Rightarrow> e | None \<Rightarrow> now env) BILLING_PERIOD_DAYS)"
  from assms obtain s where
    s: "List.find (\<lambda>s. externalSubscriptionId s = Some psid \<and> subStatus s \<in> {ACTIVE, PAST_DUE})
       (subscriptions (db w)) = Some s"
    unfolding renewSubscription_def by (auto simp: returns)
  then have st: "subStatus s = ACTIVE \<or> subStatus s = PAST_DUE" by (auto dest: find_SomeD)
  define s' where "s' = s\<lparr>subStatus := ACTIVE,
        pastDueSince := (if subStatus s = PAST_DUE then None else pastDueSince s),
        endsAt := ?until s, contactsUsed := 0\<rparr>"
  have s'_past: "s\<lparr>subStatus := ACTIVE, pastDueSince := None, endsAt := ?until s, contactsUsed := 0\<rparr> = s'"
    if "subStatus s = PAST_DUE" using that by (simp add: s'_def)
  have s'_act: "s\<lparr>endsAt := ?until s, contactsUsed := 0\<rparr> = s'" if "subStatus s = ACTIVE"
    using that unfolding s'_def by (cases s) simp
  have s'_id: "subId s' = subId s" "subCompanyId s' = subCompanyId s" by (simp_all add: s'_def)
  let ?wb = "w\<lparr>db := (db w)\<lparr>subscriptions := upsert subId s' (subscriptions (db w))\<rparr>,
     audit := audit w @ [subscriptionAudit PAYMENT_RECEIVED (subId s')]\<rparr>"
  have "\<exists>wa co iv. sub_violated (upsert subId s' (subscriptions (db w))) = None
    \<and> (if subStatus s = PAST_DUE then notifySubscriptionReactivated env (subCompanyId s')
            else ret ()) ?wb = (Inr (), wa)
    \<and> List.find (\<lambda>x. coId x = subCompanyId s') (companies (db wa)) = Some co
    \<and> emit env s' co evid None wa = (Inr iv, w')"
    using st
  proof
    assume a: "subStatus s = ACTIVE"
    show ?thesis using assms s a unfolding renewSubscription_def
      by (auto simp: returns save_Inr s'_act s'_id)
  next
    assume a: "subStatus s = PAST_DUE"
    show ?thesis using assms s a unfolding renewSubscription_def
      by (auto simp: returns save_Inr s'_past s'_id)
  qed
  then obtain wa co iv where
    ok: "sub_violated (upsert subId s' (subscriptions (db w))) = None"
    and nt: "(if subStatus s = PAST_DUE then notifySubscriptionReactivated env (subCompanyId s')
            else ret ()) ?wb = (Inr (), wa)"
    and co: "List.find (\<lambda>x. coId x = subCompanyId s') (companies (db wa)) = Some co"
    and em: "emit env s' co evid None wa = (Inr iv, w')" by blast
  have "outside_db (if subStatus s = PAST_DUE then notifySubscriptionReactivated env (subCompanyId s')
            else ret ())" by (intro keeping)
  from outside_dbD [OF this nt]
  have "db wa = (db w)\<lparr>subscriptions := upsert subId s' (subscriptions (db w))\<rparr>" "nextId w \<le> nextId wa"
    by simp_all
  with s s'_def ok co em show ?thesis by (intro that)
qed

lemma markPastDue_returns:
  assumes "markPastDue env c w = (Inr u, w')"
  obtains (absent) "List.find (\<lambda>s. subCompanyId s = c \<and> subStatus s = ACTIVE) (subscriptions (db w)) = None"
      "db w' = db w" "nextId w' = nextId w"
  | (marked) s where
      "List.find (\<lambda>s. subCompanyId s = c \<and> subStatus s = ACTIVE) (subscriptions (db w)) = Some s"
      "sub_violated (upsert subId (s\<lparr>subStatus := PAST_DUE\<rparr>) (subscriptions (db w))) = None"
      "db w' = (db w)\<lparr>subscriptions := upsert subId (s\<lparr>subStatus := PAST_DUE\<rparr>) (subscriptions (db w))\<rparr>"
      "nextId w' = nextId w"
proof (cases "List.find (\<lambda>s. subCompanyId s = c \<and> subStatus s = ACTIVE) (subscriptions (db w))")
  case None
  with assms have "db w' = db w" "nextId w' = nextId w" unfolding markPastDue_def
    by (auto simp: returns)
  from absent [OF None this] show ?thesis .
next
  case (Some s)
  let ?t = "upsert subId (s\<lparr>subStatus := PAST_DUE\<rparr>) (subscriptions (db w))"
  from Some assms have "sub_violated ?t = None" "db w' = (db w)\<lparr>subscriptions := ?t\<rparr>"
    "nextId w' = nextId w"
    unfolding markPastDue_def by (auto simp: returns save_Inr)
  then show ?thesis by (rule marked [OF Some])
qed

lemma markSubscriptionPastDue_returns:
  assumes "markSubscriptionPastDue env psid w = (Inr u, w')"
  obtains s where
    "List.find (\<lambda>s. externalSubscriptionId s = Some psid) (subscriptions (db w)) = Some s"
    "subStatus s = ACTIVE \<Longrightarrow> sub_violated (upsert subId
        (s\<lparr>subStatus := PAST_DUE, pastDueSince := Some (now env)\<rparr>) (subscriptions (db w))) = None"
    "db w' = (if subStatus s = ACTIVE then (db w)\<lparr>subscriptions := upsert subId
        (s\<lparr>subStatus := PAST_DUE, pastDueSince := Some (now env)\<rparr>) (subscriptions (db w))\<rparr> else db w)"
    "nextId w \<le> nextId w'"
proof -
  from assms obtain s where
    s: "List.find (\<lambda>s. externalSubscriptionId s = Some psid) (subscriptions (db w)) = Some s"
    unfolding markSubscriptionPastDue_def by (auto simp: returns)
  let ?t = "upsert subId (s\<lparr>subStatus := PAST_DUE, pastDueSince := Some (now env)\<rparr>) (subscriptions (db w))"
  show ?thesis
  proof (cases "subStatus s = ACTIVE")
    case True
    have ok: "sub_violated ?t = None"
      and nt: "notifyPaymentFailed env (subCompanyId s) (w\<lparr>db := (db w)\<lparr>subscriptions := ?t\<rparr>,
        audit := audit w @ [subscriptionAudit SUBSCRIPTION_PAST_DUE (subId s)]\<rparr>) = (Inr u, w')"
      using assms s True unfolding markSubscriptionPastDue_def by (auto simp: returns save_Inr)
    show ?thesis using that [OF s] ok True notify_db(1) [OF nt] by simp
  next
    case False
    have nt: "notifyPaymentFailed env (subCompanyId s)
        (w\<lparr>audit := audit w @ [subscriptionAudit SUBSCRIPTION_PAST_DUE (subId s)]\<rparr>) = (Inr u, w')"
      using assms s False unfolding markSubscriptionPastDue_def by (auto simp: returns)
    show ?thesis using that [OF s] False notify_db(1) [OF nt] by simp
  qed
qed

lemma planChange_returns:
  assumes "handlePlanChangeInvoice env evid psid ttc w = (Inr u, w')"
  obtains s co iv wc where
    "List.find (\<lambda>s. externalSubscriptionId s = Some psid) (subscriptions (db w)) = Some s"
    "List.find (\<lambda>x. coId x = subCompanyId s) (companies (db w)) = Some co"
    "emit env s co evid (Some ttc) w = (Inr iv, wc)"
    "db w' = db wc" "nextId w' = nextId wc"
  using assms unfolding handlePlanChangeInvoice_def by (auto simp: returns)

lemma cancelByWebhook_returns:
  assumes "cancelByWebhook env psid w = (Inr u, w')"
  obtains (already) s where
      "List.find (\<lambda>s. externalSubscriptionId s = Some psid) (subscriptions (db w)) = Some s"
      "subStatus s = CANCELLED" "w' = w"
  | (cancelled) s where
      "List.find (\<lambda>s. externalSubscriptionId s = Some psid) (subscriptions (db w)) = Some s"
      "CANCELLED \<in> set (subscription_status_transitions (subStatus s))"
      "sub_violated (upsert subId (s\<lparr>subStatus := CANCELLED, pastDueSince := None\<rparr>) (subscriptions (db w))) = None"
      "db w' = (db w)\<lparr>subscriptions :=
         upsert subId (s\<lparr>subStatus := CANCELLED, pastDueSince := None\<rparr>) (subscriptions (db w))\<rparr>"
      "nextId w \<le> nextId w'"
proof -
  from assms obtain s where
    s: "List.find (\<lambda>s. externalSubscriptionId s = Some psid) (subscriptions (db w)) = Some s"
    unfolding cancelByWebhook_def by (auto simp: returns)
  show ?thesis
  proof (cases "subStatus s = CANCELLED")
    case True
    with assms s have "w' = w" unfolding cancelByWebhook_def by (auto simp: returns)
    with already [OF s True] show ?thesis by blast
  next
    case False
    let ?t = "upsert subId (s\<lparr>subStatus := CANCELLED, pastDueSince := None\<rparr>) (subscriptions (db w))"
    let ?wa = "w\<lparr>db := (db w)\<lparr>subscriptions := ?t\<rparr>,
           audit := audit w @ [subscriptionAudit SUBSCRIPTION_CANCELLED (subId s)]\<rparr>"
    have ok: "CANCELLED \<in> set (subscription_status_transitions (subStatus s)) \<and> sub_violated ?t = None
        \<and> notifySubscriptionCancelled env (subCompanyId s) ?wa = (Inr u, w')"
      using assms False
      unfolding cancelByWebhook_def bindE_returns findByProvider_returns s
      by (auto simp: returns save_Inr)
    then have nt: "notifySubscriptionCancelled env (subCompanyId s) ?wa = (Inr u, w')" by blast
    show ?thesis using cancelled [OF s] ok notify_db(2) [OF nt] by simp
  qed
qed

section \<open>What a delivery does to the billing tables\<close>

fun charges :: "webhook_event \<Rightarrow> bool" where
  "charges (SubscriptionActivated _ _ _ _ _) = True"
| "charges (SubscriptionRenewed _ _) = True"
| "charges (SubscriptionPlanChanged _ _ _) = True"
| "charges _ = False"

text \<open>One invoice, numbered next, for the event, of a row of the subscription table.\<close>

definition invoiced :: "env \<Rightarrow> string \<Rightarrow> db \<Rightarrow> db \<Rightarrow> bool" where
  "invoiced env evid d d' \<longleftrightarrow> (\<exists>iv. invoices d' = invoices d @ [iv] \<and>
     stripeInvoiceId iv = evid \<and> issuedAt iv = now env \<and>
     amountHT iv + vatAmount iv = amountTTC iv \<and>
     (\<exists>s \<in> set (subscriptions d'). invSubscriptionId iv = subId s \<and>
        invoiceCompanyId iv = subCompanyId s))"

definition effect_ok :: "env \<Rightarrow> webhook_event \<Rightarrow> world \<Rightarrow> world \<Rightarrow> bool" where
  "effect_ok env ev w w' \<longleftrightarrow>
     sub_step (nextId w) (subscriptions (db w)) (subscriptions (db w')) \<and>
     (\<forall>s \<in> set (subscriptions (db w')). subId s < nextId w') \<and>
     nextId w \<le> nextId w' \<and> webhookEvents (db w') = webhookEvents (db w) \<and>
     (\<forall>i \<in> set (invoices (db w')). invoiceId i < nextId w') \<and>
     gap_free (db w') \<and>
     (if charges ev then invoiced env (event_id ev) (db w) (db w')
      else invoices (db w') = invoices (db w))"

lemma emit_frame:
  assumes "emit env sub co evid ov w = (Inr iv, w')"
    and "gap_free (db w)" and below: "\<forall>i \<in> set (invoices (db w)). invoiceId i < nextId w"
    and "coId co = subCompanyId sub" "sub \<in> set (subscriptions (db w))"
  shows "subscriptions (db w') = subscriptions (db w)" "webhookEvents (db w') = webhookEvents (db w)"
    "nextId w' = Suc (nextId w)" "invoiced env evid (db w) (db w')" "gap_free (db w')"
    "\<forall>i \<in> set (invoices (db w')). invoiceId i < nextId w'"
proof -
  have fresh: "nextId w \<notin> invoiceId ` set (invoices (db w))" using below by auto
  from assms(1) obtain number w1 where
    al: "allocateInvoiceNumber (getFullYear env (now env)) w = (Inr number, w1)"
    and e: "db w' = (db w1)\<lparr>invoices := upsert invoiceId iv (invoices (db w))\<rparr>"
      "invoiceId iv = nextId w" "nextId w' = Suc (nextId w)" "invSubscriptionId iv = subId sub"
      "invoiceCompanyId iv = coId co" "stripeInvoiceId iv = evid" "issuedAt iv = now env"
      "amountHT iv + vatAmount iv = amountTTC iv"
    by (rule emit_returns)
  from allocate_returns [OF al] obtain q where w1: "w1 = w\<lparr>db := (db w)\<lparr>invoiceSequences := q\<rparr>\<rparr>"
    by blast
  have app: "invoices (db w') = invoices (db w) @ [iv]"
    using e(1,2) fresh by (simp add: upsert_new)
  show "subscriptions (db w') = subscriptions (db w)" "webhookEvents (db w') = webhookEvents (db w)"
    "nextId w' = Suc (nextId w)" using e(1,3) w1 by simp_all
  then show "invoiced env evid (db w) (db w')"
    unfolding invoiced_def using app e assms(4,5) by auto
  show "\<forall>i \<in> set (invoices (db w')). invoiceId i < nextId w'"
    using app e(2,3) below by auto
  show "gap_free (db w')" using assms(1,2) fresh by (rule emit_keeps_gap_free)
qed

lemma emit_subs:
  assumes "emit env sub co evid ov w = (Inr iv, w')"
  shows "subscriptions (db w') = subscriptions (db w)"
proof -
  from assms obtain number w1 where
    al: "allocateInvoiceNumber (getFullYear env (now env)) w = (Inr number, w1)"
    and e: "db w' = (db w1)\<lparr>invoices := upsert invoiceId iv (invoices (db w))\<rparr>"
    by (rule emit_returns)
  from allocate_returns [OF al] obtain q where "w1 = w\<lparr>db := (db w)\<lparr>invoiceSequences := q\<rparr>\<rparr>"
    by blast
  with e show ?thesis by simp
qed

text \<open>A charge: one subscription step, then the emission of the invoice.\<close>

lemma charge_ok:
  assumes em: "emit env sub co (event_id ev) ov w1 = (Inr iv, w2)" and "charges ev"
    and wf: "billing_wf w"
    and st: "sub_step (nextId w) (subscriptions (db w)) (subscriptions (db w1))"
    and ids: "\<forall>s \<in> set (subscriptions (db w1)). subId s < nextId w1" "nextId w \<le> nextId w1"
    and same: "invoices (db w1) = invoices (db w)" "invoiceSequences (db w1) = invoiceSequences (db w)"
      "webhookEvents (db w1) = webhookEvents (db w)"
    and co: "coId co = subCompanyId sub" "sub \<in> set (subscriptions (db w1))"
    and w': "db w' = db w2" "nextId w' = nextId w2"
  shows "effect_ok env ev w w'"
proof -
  have "gap_free (db w1)" "\<forall>i \<in> set (invoices (db w1)). invoiceId i < nextId w1"
    using wf same ids(2) by (auto simp: billing_wf_def gap_free_def)
  from emit_frame [OF em this co] assms show ?thesis
    by (auto simp: effect_ok_def invoiced_def intro: less_SucI)
qed

lemma billing_wf_subs: "billing_wf w \<Longrightarrow> wf_subs (nextId w) (subscriptions (db w))"
  by (simp add: billing_wf_def)

lemma unbilled_ok:
  assumes "billing_wf w" "\<not> charges ev" "nextId w \<le> nextId w'"
    "sub_step (nextId w) (subscriptions (db w)) (subscriptions (db w'))"
    "\<forall>s \<in> set (subscriptions (db w')). subId s < nextId w'"
    "invoices (db w') = invoices (db w)" "invoiceSequences (db w') = invoiceSequences (db w)"
    "webhookEvents (db w') = webhookEvents (db w)"
  shows "effect_ok env ev w w'"
  using assms unfolding effect_ok_def billing_wf_def gap_free_def by auto

lemma unchanged_ok:
  assumes "billing_wf w" "\<not> charges ev" "db w' = db w" "nextId w \<le> nextId w'"
  shows "effect_ok env ev w w'"
  using assms(1,2,4) by (rule unbilled_ok) (use assms in \<open>auto simp: idle billing_wf_def wf_subs_def\<close>)

text \<open>One row moved, nothing else.\<close>

lemma moved_ok:
  assumes wf: "billing_wf w" and "\<not> charges ev" "nextId w \<le> nextId w'"
    and s: "s \<in> set (subscriptions (db w))" "same_subscription s s'"
      "status_ok (subStatus s) (subStatus s')"
      "sub_violated (upsert subId s' (subscriptions (db w))) = None"
    and d: "db w' = (db w)\<lparr>subscriptions := upsert subId s' (subscriptions (db w))\<rparr>"
  shows "effect_ok env ev w w'"
proof -
  note ch = sub_changed [OF billing_wf_subs [OF wf] s assms(3)]
  show ?thesis
    by (rule unbilled_ok [OF assms(1-3)]) (use ch d in auto)
qed

lemma activate_ok:
  assumes "activateSubscription env evid psid c pl w = (Inr u, w')" and wf: "billing_wf w"
  shows "effect_ok env (SubscriptionActivated evid sid psid c pl) w w'"
proof -
  from assms(1) obtain quota sub wa wb co iv wc where
    sa: "saveActivated env psid c pl quota w = (Inr sub, wa)"
    and wb: "db wb = (db wa)\<lparr>trialRedemptions :=
       update_where (\<lambda>r. trCompanyId r = c \<and> convertedAt r = None)
         (\<lambda>r. r\<lparr>convertedAt := Some (now env)\<rparr>) (trialRedemptions (db wa))\<rparr>"
      "nextId wb = nextId wa"
    and co: "List.find (\<lambda>x. coId x = c) (companies (db wb)) = Some co"
    and em: "emit env sub co evid None wb = (Inr iv, wc)"
    and w': "db w' = db wc" "nextId w' = nextId wc"
    by (rule activate_returns)
  note sv = saveActivated_returns [OF sa]
  then have ok: "sub_violated (upsert subId sub (subscriptions (db w))) = None" by blast
  let ?t = "subscriptions (db w)"
  have "sub_step (nextId w) ?t (upsert subId sub ?t) \<and>
      (\<forall>x \<in> set (upsert subId sub ?t). subId x < nextId wa) \<and> sub \<in> set (upsert subId sub ?t) \<and>
      subCompanyId sub = c"
  proof (cases "eligible_for_activation (db w) c")
    case None
    then have sub: "sub = fresh_active_row env psid c pl quota (nextId w)" using sv by simp
    then have "subId sub = nextId w" "subStatus sub \<in> {TRIAL, ACTIVE}" "subCompanyId sub = c"
      by (simp_all add: fresh_active_row_def)
    from sub_opened [OF billing_wf_subs [OF wf] this(1,2) ok, of "nextId wa"] this(3) sv None show ?thesis
      by simp
  next
    case (Some e)
    then have sub: "sub = activated_row env psid pl quota e" using sv by simp
    from Some have e: "e \<in> set ?t" "subCompanyId e = c" "subStatus e \<in> {TRIAL, PAST_DUE}"
      unfolding eligible_for_activation_def by (auto dest: find_latest_Some)
    have "same_subscription e sub" "status_ok (subStatus e) (subStatus sub)" "subCompanyId sub = c"
      using e sub by (auto simp: activated_row_def same_subscription_def status_ok_def)
    from sub_changed [OF billing_wf_subs [OF wf] e(1) this(1,2) ok, of "nextId wa"] this(3) sv show ?thesis
      by simp
  qed
  then show ?thesis
    by (intro charge_ok [where ?w1.0 = wb, OF _ _ wf _ _ _ _ _ _ _ _ w'])
      (use em co wb sv find_SomeD [OF co] in auto)
qed

lemma renew_ok:
  assumes "renewSubscription env evid psid w = (Inr u, w')" and wf: "billing_wf w"
  shows "effect_ok env (SubscriptionRenewed evid psid) w w'"
proof -
  from assms(1) obtain s s' wa co iv where
    s: "List.find (\<lambda>s. externalSubscriptionId s = Some psid \<and> subStatus s \<in> {ACTIVE, PAST_DUE})
       (subscriptions (db w)) = Some s"
    and s': "s' = s\<lparr>subStatus := ACTIVE,
        pastDueSince := (if subStatus s = PAST_DUE then None else pastDueSince s),
        endsAt := Some (addDays env (case endsAt s of Some e \<Rightarrow> e | None \<Rightarrow> now env)
                    BILLING_PERIOD_DAYS),
        contactsUsed := 0\<rparr>"
    and ok: "sub_violated (upsert subId s' (subscriptions (db w))) = None"
    and wa: "db wa = (db w)\<lparr>subscriptions := upsert subId s' (subscriptions (db w))\<rparr>"
      "nextId w \<le> nextId wa"
    and co: "List.find (\<lambda>x. coId x = subCompanyId s') (companies (db wa)) = Some co"
    and em: "emit env s' co evid None wa = (Inr iv, w')"
    by (rule renew_returns)
  from find_SomeD [OF s] have mem: "s \<in> set (subscriptions (db w))"
    and st: "subStatus s \<in> {ACTIVE, PAST_DUE}" by auto
  have "same_subscription s s'" "status_ok (subStatus s) (subStatus s')"
    using st by (auto simp: s' same_subscription_def status_ok_def)
  note ch = sub_changed [OF billing_wf_subs [OF wf] mem this ok wa(2)]
  show ?thesis
    by (intro charge_ok [where ?w1.0 = wa and ?w2.0 = w', OF _ _ wf])
      (use em ch wa find_SomeD [OF co] in auto)
qed

lemma markPastDue_ok:
  assumes "markPastDue env c w = (Inr u, w')" and wf: "billing_wf w"
  shows "effect_ok env (PaymentFailed evid c r) w w'"
  using assms(1)
proof (cases rule: markPastDue_returns)
  case absent
  show ?thesis by (rule unchanged_ok [OF wf]) (simp_all add: absent)
next
  case (marked s)
  then show ?thesis
    by (intro moved_ok [OF wf _ _ _ _ _ marked(2)])
      (auto simp: same_subscription_def status_ok_def dest: find_SomeD)
qed

lemma markSubscriptionPastDue_ok:
  assumes "markSubscriptionPastDue env psid w = (Inr u, w')" and wf: "billing_wf w"
  shows "effect_ok env (SubscriptionPastDue evid psid) w w'"
  using assms(1)
proof (cases rule: markSubscriptionPastDue_returns)
  case (1 s)
  show ?thesis
  proof (cases "subStatus s = ACTIVE")
    case True
    with 1 show ?thesis
      by (intro moved_ok [OF wf _ _ _ _ _ 1(2) [OF True]])
        (auto simp: same_subscription_def status_ok_def dest: find_SomeD)
  next
    case False
    with 1 show ?thesis by (intro unchanged_ok [OF wf]) simp_all
  qed
qed

lemma planChange_ok:
  assumes "handlePlanChangeInvoice env evid psid ttc w = (Inr u, w')" and wf: "billing_wf w"
  shows "effect_ok env (SubscriptionPlanChanged evid psid ttc) w w'"
  using assms(1)
proof (cases rule: planChange_returns)
  case (1 s co iv wc)
  then show ?thesis
    by (intro charge_ok [where ?w1.0 = w, OF _ _ wf _ _ _ _ _ _ _ _ 1(4,5)])
      (use wf in \<open>auto simp: idle billing_wf_def wf_subs_def dest!: find_SomeD\<close>)
qed

lemma cancelByWebhook_ok:
  assumes "cancelByWebhook env psid w = (Inr u, w')" and wf: "billing_wf w"
  shows "effect_ok env (SubscriptionCancelled evid psid r) w w'"
  using assms(1)
proof (cases rule: cancelByWebhook_returns)
  case (already s)
  show ?thesis by (rule unchanged_ok [OF wf]) (simp_all add: already)
next
  case (cancelled s)
  then show ?thesis
    by (intro moved_ok [OF wf _ _ _ _ _ cancelled(3)])
      (auto simp: same_subscription_def status_ok_def dest: find_SomeD)
qed

lemmas effect_oks = activate_ok renew_ok markPastDue_ok markSubscriptionPastDue_ok planChange_ok
  cancelByWebhook_ok

lemma applyEffect_ok:
  assumes "applyEffect env ev w = (Inr u, w')" "billing_wf w"
  shows "effect_ok env ev w w'"
  using assms
proof (cases ev)
  case (Ignored i r)
  with assms show ?thesis by (intro unchanged_ok) auto
qed (auto intro: effect_oks)

section \<open>The delivery\<close>

definition marker :: "env \<Rightarrow> webhook_event \<Rightarrow> uuid \<Rightarrow> webhook_event_row" where
  "marker env ev i = \<lparr>evRowId = i, providerEventId = event_id ev, provider = PROVIDER_NAME,
     eventType = event_type ev, processedAt = now env\<rparr>"

definition recorded :: "string \<Rightarrow> db \<Rightarrow> bool" where
  "recorded evid d \<longleftrightarrow> evid \<in> providerEventId ` set (webhookEvents d)"

lemma recordEvent_eq:
  assumes "billing_wf w"
  shows "recordEvent env ev w =
    (if recorded (event_id ev) (db w)
     then (Inl (UniqueViolation UQ_processed_webhook_events_provider_event_id),
           w\<lparr>nextId := Suc (nextId w)\<rparr>)
     else (Inr (marker env ev (nextId w)), w\<lparr>nextId := Suc (nextId w),
           db := (db w)\<lparr>webhookEvents := webhookEvents (db w) @ [marker env ev (nextId w)]\<rparr>\<rparr>))"
proof -
  have "upsert evRowId (marker env ev (nextId w)) (webhookEvents (db w)) =
      webhookEvents (db w) @ [marker env ev (nextId w)]"
    using assms by (intro upsert_new) (auto simp: billing_wf_def marker_def)
  with assms show ?thesis
    unfolding recordEvent_def billing_wf_def recorded_def
    by (simp add: eff_simps freshId_def insertWebhookEvent_def save_into_def checked_save_def
        event_violated_def index_ok_snoc marker_def [symmetric])
      (simp add: marker_def)
qed

lemma billing_wf_recorded:
  assumes "billing_wf w" "\<not> recorded (event_id ev) (db w)"
  shows "billing_wf (w\<lparr>nextId := Suc (nextId w),
    db := (db w)\<lparr>webhookEvents := webhookEvents (db w) @ [marker env ev (nextId w)]\<rparr>\<rparr>)"
  using assms unfolding billing_wf_def recorded_def gap_free_def
  by (auto simp: marker_def index_ok_snoc wf_subs_mono)

text \<open>Only the marker can report its own constraint, so the \<open>catch\<close> that turns this
  error into \<open>alreadyProcessed\<close> never hides a failed effect.\<close>

lemma effects_never_report_marker [keeping]:
  "never_throws {UniqueViolation UQ_processed_webhook_events_provider_event_id} (applyEffect env ev)"
proof (cases ev)
qed (auto intro!: keeping
    simp: activateSubscription_def renewSubscription_def markPastDue_def markSubscriptionPastDue_def
      handlePlanChangeInvoice_def cancelByWebhook_def saveActivated_def emit_def emit_amounts_def
      allocateInvoiceNumber_def generateInvoicePdf_def findCompanyOrFail_def
      findByProviderSubscription_def markConvertedIfApplicable_def notifyPaymentFailed_def
      notifySubscriptionCancelled_def notifySubscriptionReactivated_def sendToRecruiters_def
      resolveContactQuotaForPlan_def resolveMonthlyPriceHtInCentimes_def
      assertValidSubscriptionTransition_def)

lemma processEvent_cases:
  assumes wf: "billing_wf w" and run: "processEvent env ev w = (r, w')"
  obtains (replayed) "recorded (event_id ev) (db w)" "r = Inr True" "db w' = db w"
      "nextId w \<le> nextId w'"
  | (failed) e where "\<not> recorded (event_id ev) (db w)" "r = Inl e" "db w' = db w"
  | (applied) w1 where "\<not> recorded (event_id ev) (db w)" "r = Inr False"
      "w1 = w\<lparr>nextId := Suc (nextId w),
         db := (db w)\<lparr>webhookEvents := webhookEvents (db w) @ [marker env ev (nextId w)]\<rparr>\<rparr>"
      "billing_wf w1" "effect_ok env ev w1 w'" "applyEffect env ev w1 = (Inr (), w')"
proof (cases "recorded (event_id ev) (db w)")
  case True
  with recordEvent_eq [OF wf, of env ev] run show ?thesis
    by (intro replayed) (auto simp: processEvent_def transaction_def transactionOn_def eff_simps setDb_def)
next
  case False
  let ?w1 = "w\<lparr>nextId := Suc (nextId w),
         db := (db w)\<lparr>webhookEvents := webhookEvents (db w) @ [marker env ev (nextId w)]\<rparr>\<rparr>"
  have wf1: "billing_wf ?w1" by (rule billing_wf_recorded [OF wf False])
  obtain q w2 where eff: "applyEffect env ev ?w1 = (q, w2)" by fastforce
  have body: "bindE (recordEvent env ev) (\<lambda>_. applyEffect env ev) w = (q, w2)"
    using recordEvent_eq [OF wf, of env ev] False eff by simp
  show ?thesis
  proof (cases q)
    case (Inl e)
    then have "e \<noteq> UniqueViolation UQ_processed_webhook_events_provider_event_id"
      using never_throwsD [OF effects_never_report_marker] eff by blast
    with body run Inl False show ?thesis
      by (intro failed) (auto simp: processEvent_def transaction_def transactionOn_def eff_simps setDb_def)
  next
    case (Inr u)
    with body run have "r = Inr False" "w' = w2"
      by (auto simp: processEvent_def transaction_def transactionOn_def eff_simps)
    with applyEffect_ok [OF _ wf1] eff Inr False wf1 show ?thesis by (intro applied) auto
  qed
qed

lemma processEvent_ids: "ids_grow (processEvent env ev)"
proof -
  have "ids_grow (applyEffect env ev)"
    by (cases ev)
      (auto intro!: keeping
        simp: activateSubscription_def renewSubscription_def markPastDue_def
          markSubscriptionPastDue_def handlePlanChangeInvoice_def cancelByWebhook_def
          saveActivated_def emit_def emit_amounts_def allocateInvoiceNumber_def
          generateInvoicePdf_def findCompanyOrFail_def findByProviderSubscription_def
          markConvertedIfApplicable_def notifyPaymentFailed_def notifySubscriptionCancelled_def
          notifySubscriptionReactivated_def sendToRecruiters_def resolveContactQuotaForPlan_def
          resolveMonthlyPriceHtInCentimes_def assertValidSubscriptionTransition_def)
  then show ?thesis unfolding processEvent_def recordEvent_def by (auto intro!: keeping)
qed

text \<open>What every delivery does, stated once for the properties below.\<close>

definition delivered :: "env \<Rightarrow> webhook_event \<Rightarrow> world \<Rightarrow> err + bool \<Rightarrow> world \<Rightarrow> bool" where
  "delivered env ev w r w' \<longleftrightarrow>
    (case r of
       Inl e \<Rightarrow> db w' = db w \<and> \<not> recorded (event_id ev) (db w)
     | Inr already \<Rightarrow>
         already = recorded (event_id ev) (db w) \<and>
         (if already then db w' = db w
          else webhookEvents (db w') = webhookEvents (db w) @ [marker env ev (nextId w)] \<and>
            (if charges ev then invoiced env (event_id ev) (db w) (db w')
             else invoices (db w') = invoices (db w))))"

lemma effect_wf:
  assumes "billing_wf w1" "effect_ok env ev w1 w'" "recorded (event_id ev) (db w1)"
    "event_id ev \<notin> stripeInvoiceId ` set (invoices (db w1))"
  shows "billing_wf w'"
proof -
  have "wf_subs (nextId w') (subscriptions (db w'))"
    using assms(1,2) sub_step_wf unfolding effect_ok_def billing_wf_def by blast
  then show ?thesis using assms
    by (cases "charges ev")
      (auto simp: effect_ok_def billing_wf_def invoiced_def recorded_def
        intro: less_le_trans)
qed

lemma delivery:
  assumes wf: "billing_wf w" and run: "processEvent env ev w = (r, w')"
  shows "billing_wf w'" "lifecycle (subscriptions (db w)) (subscriptions (db w'))"
    "delivered env ev w r w'"
proof -
  have ids: "nextId w \<le> nextId w'" using ids_growD [OF processEvent_ids run] .
  have "billing_wf w' \<and> lifecycle (subscriptions (db w)) (subscriptions (db w')) \<and>
    delivered env ev w r w'"
    using wf run
  proof (cases rule: processEvent_cases)
    case replayed
    then show ?thesis using ids
      by (auto simp: delivered_def intro: billing_same_wf [OF wf])
  next
    case (failed e)
    then show ?thesis using ids
      by (auto simp: delivered_def intro: billing_same_wf [OF wf])
  next
    case (applied w1)
    have "recorded (event_id ev) (db w1)" by (simp add: applied(3) recorded_def marker_def)
    moreover have "event_id ev \<notin> stripeInvoiceId ` set (invoices (db w1))"
      using wf applied(1,3) by (auto simp: billing_wf_def recorded_def)
    ultimately have "billing_wf w'" using effect_wf applied(4,5) by blast
    moreover have "lifecycle (subscriptions (db w)) (subscriptions (db w'))"
      using applied(3-5) sub_step_lifecycle [of "nextId w1" "subscriptions (db w1)"]
      unfolding effect_ok_def billing_wf_def by simp
    ultimately show ?thesis
      using applied by (auto simp: delivered_def effect_ok_def invoiced_def)
  qed
  then show "billing_wf w'" "lifecycle (subscriptions (db w)) (subscriptions (db w'))"
    "delivered env ev w r w'" by blast+
qed

text \<open>The webhook is an idempotent consumer.\<close>

definition deliver :: "env \<times> webhook_event \<Rightarrow> bool service" where
  "deliver m = processEvent (fst m) (snd m)"

definition deliverAll :: "(env \<times> webhook_event) list \<Rightarrow> world \<Rightarrow> world" where
  "deliverAll ms w = fold (\<lambda>m w. snd (deliver m w)) ms w"

lemma deliver_recorded_mono:
  assumes "billing_wf w" "recorded k (db w)"
  shows "recorded k (db (snd (deliver m w)))"
proof -
  obtain r w' where run: "processEvent (fst m) (snd m) w = (r, w')" by fastforce
  from delivery(3) [OF assms(1) this] assms(2) show ?thesis
    by (auto simp: deliver_def run delivered_def recorded_def split: sum.splits if_splits)
qed

interpretation webhook: idempotent_consumer deliver "\<lambda>m. event_id (snd m)" "\<lambda>k w. recorded k (db w)"
  billing_wf db
proof
  fix w :: world and m :: "env \<times> webhook_event" and k b e w'
  assume wf: "billing_wf w"
  obtain r w1 where run: "deliver m w = (r, w1)" by fastforce
  note d = delivery [OF wf run [unfolded deliver_def]]
  show "billing_wf (snd (deliver m w))" using d run by simp
  show "recorded (event_id (snd m)) (db w) \<Longrightarrow> \<exists>s'. deliver m w = (Inr True, s') \<and> db s' = db w"
    using d(3) run by (auto simp: delivered_def split: sum.splits if_splits)
  show "recorded k (db w) \<Longrightarrow> recorded k (db (snd (deliver m w)))"
    by (rule deliver_recorded_mono [OF wf])
  show "deliver m w = (Inr b, w') \<Longrightarrow> recorded (event_id (snd m)) (db w')"
    using d(3) run by (auto simp: delivered_def recorded_def marker_def split: if_splits)
  show "\<not> recorded (event_id (snd m)) (db w) \<Longrightarrow> deliver m w = (Inr b, w') \<Longrightarrow> \<not> b"
    using d(3) run by (auto simp: delivered_def)
  show "deliver m w = (Inl e, w') \<Longrightarrow> db w' = db w"
    using d(3) run by (auto simp: delivered_def)
qed

end
