(* ===== verification/Sample.thy ===== *)
theory Sample
  imports Repo
begin

text \<open>
  A small concrete deployment and database, on which the witnesses evaluate the operations:
  one company with its administrator and a trial subscription, one candidate, an issued
  trial code. No outside call fails.
\<close>

definition env0 :: env where
  "env0 = \<lparr>now = 1000000000, toLocal = (\<lambda>d. d), fromLocal = (\<lambda>d. d),
     planContacts = (\<lambda>_. Some 50), planPrice = (\<lambda>_. Some 990), planUsers = (\<lambda>_. Some 2),
     gracePeriodDays = 7, cfgCurrency = ''mad'', cfgString = (\<lambda>_. None),
     skipEmailVerification = False, emailEnabled = True, analyticsFails = False,
     auditFails = (\<lambda>_. False), mailFails = (\<lambda>_. False), stripeFails = (\<lambda>_. False), sessionUrl = (\<lambda>_. Some ''https://pay''),
     pdfFails = (\<lambda>_. False), uploadFails = (\<lambda>_. False),
     scanFile = (\<lambda>_ _. Some True), signedUrl = (\<lambda>k. Some k),
     deleteFails = (\<lambda>_. False), ocr = (\<lambda>_ _. Some (''ensias diplome'', 95)), probe = (\<lambda>_. True)\<rparr>"

definition user0 :: "uuid \<Rightarrow> string \<Rightarrow> role list \<Rightarrow> user" where
  "user0 i e rs = \<lparr>userId = i, email = e, passwordHash = ''h'', roles = rs, userStatus = U_ACTIVE,
     emailVerified = True, emailVerificationToken = None, emailVerificationExpires = None,
     passwordResetToken = None, passwordResetExpires = None, mfaEnabled = False,
     mfaSecret = None, mfaBackupCodes = None, consentAt = None\<rparr>"

definition company0 :: company where
  "company0 = \<lparr>coId = 10, coName = ''Atlas'', registrationNumber = None, ice = Some ''001'',
     coVerified = True, antiCheatEnabled = False, coLogo = None, coSector = None, coSize = None,
     coDescription = None, coStatus = C_ACTIVE\<rparr>"

definition recruiter0 :: recruiter where
  "recruiter0 = \<lparr>recId = 20, recUserId = 1, recCompanyId = 10, recPosition = None,
     recCreatedAt = 0\<rparr>"

definition sub0 :: subscription where
  "sub0 = \<lparr>subId = 30, subCompanyId = 10, subPlan = STARTER, subStatus = TRIAL,
     externalSubscriptionId = None, startsAt = 0, endsAt = Some 2000000000, contactQuota = 5,
     contactsUsed = 0, quotaResetAt = None, pastDueSince = None, cancelAtPeriodEnd = False,
     subCreatedAt = 0\<rparr>"

definition profile0 :: candidate_profile where
  "profile0 = \<lparr>cpId = 50, cpUserId = 2, firstName = Some ''Sara'', lastName = Some ''Idrissi'',
     headline = None, bio = None, cpLocation = None, school = None, schoolVerified = False,
     cpVisibility = V_PUBLIC, moderationStatus = M_ACTIVE, completeness = Finite 0,
     indexedInCvtheque = True, availability = None, contractType = None, mobility = None,
     salaryMin = None, salaryMax = None, salaryCurrency = ''MAD'', salaryVisible = True,
     featured = False, cpCreatedAt = 0, cpUpdatedAt = 0\<rparr>"

definition db0 :: db where
  "db0 = \<lparr>users = [user0 1 ''r@x'' [RECRUITER, COMPANY_ADMIN], user0 2 ''c@x'' [CANDIDATE]],
     refreshTokens = [], companies = [company0], recruiters = [recruiter0], invitations = [],
     subscriptions = [sub0], shortlist = [], webhookEvents = [], invoiceSequences = [],
     invoices = [],
     trialCodes = [\<lparr>tcId = 60, tcCode = ''TRY'', tcPlan = GROWTH, trialDurationDays = 14,
        maxUses = 1, usedCount = 0, tcStatus = TC_ACTIVE, tcExpiresAt = None\<rparr>],
     trialRedemptions = [], candidateProfiles = [profile0], conversations = [], messages = [],
     messageReports = [], interviews = [], notifications = [], featureOverrides = [],
     settings = [], settingHistory = [], referrals = [], referralConversions = [],
     specialties = [], tests = [], assessments = [], scores = [], remediationProgress = [],
     skills = [], profileSkills = [], experiences = [], projects = [], certifications = [],
     profileLinks = [], documents = [], dataRequests = [], schoolVerifications = [],
     jobOffers = [], jobApplications = [], savedSearches = [], profileViews = [],
     viewCooldowns = [], scoreBadges = []\<rparr>"

definition world0 :: world where
  "world0 = \<lparr>db = db0, audit = [], mails = [], objects = [], stripeCalls = [], analytics = [],
     nextId = 100\<rparr>"

lemmas sample_defs = env0_def user0_def company0_def recruiter0_def sub0_def profile0_def
  db0_def world0_def

end
