(* ===== verification/Webhook_Props.thy ===== *)
theory Webhook_Props
  imports Webhook_Facts Sample
begin

text \<open>
  The properties of the payment webhook: outcome of one delivery, replays, the lifecycle over
  any sequence of deliveries, gap-free numbering, one invoice per charged event, and the row
  a payment leaves behind.
\<close>

lemma deliverAll_wf: "billing_wf w \<Longrightarrow> billing_wf (deliverAll ms w)"
  unfolding deliverAll_def by (rule webhook.all_iv)

lemma deliverAll_lifecycle:
  "billing_wf w \<Longrightarrow> lifecycle (subscriptions (db w)) (subscriptions (db (deliverAll ms w)))"
proof (induction ms arbitrary: w)
  case (Cons m ms)
  obtain r w' where run: "processEvent (fst m) (snd m) w = (r, w')" by fastforce
  from delivery [OF Cons.prems run] Cons.IH [of w'] show ?case
    by (auto simp: deliverAll_def deliver_def run intro: lifecycle_trans)
qed (simp add: deliverAll_def)

lemma deliverAll_invoices:
  "billing_wf w \<Longrightarrow> set (invoices (db w)) \<subseteq> set (invoices (db (deliverAll ms w)))"
proof (induction ms arbitrary: w)
  case (Cons m ms)
  obtain r w' where run: "processEvent (fst m) (snd m) w = (r, w')" by fastforce
  note d = delivery [OF Cons.prems run]
  have "set (invoices (db w)) \<subseteq> set (invoices (db w'))"
    using d(3) unfolding delivered_def invoiced_def by (auto split: sum.splits if_splits)
  with Cons.IH [OF d(1)] show ?case by (auto simp: deliverAll_def deliver_def run)
qed (simp add: deliverAll_def)

lemma world0_wf: "billing_wf world0"
  by (simp add: billing_wf_def wf_subs_def gap_free_def sample_defs index_ok_def
      subscription_active_key_def)

definition event0 :: stripe_event where
  "event0 = \<lparr>evId = ''evt_1'', evType = ''checkout.session.completed'',
     evObject = \<lparr>objId = ''cs_1'', metaCompanyId = Some 10, metaPlan = Some GROWTH,
       objSubscription = Some (IdOnly ''sub_1''), parentSubscription = None,
       billingReason = None, amountPaid = 118800, objStatus = ''complete''\<rparr>\<rparr>"

definition activated0 :: webhook_event where
  "activated0 = SubscriptionActivated ''evt_1'' ''cs_1'' ''sub_1'' 10 GROWTH"

definition construct0 :: "string \<Rightarrow> string \<Rightarrow> string \<Rightarrow> stripe_event option" where
  "construct0 body sig secret = (if sig = secret then Some event0 else None)"

lemma world0_delivery: "fst (processEvent env0 activated0 world0) = Inr False"
  by code_simp

text \<open>C1: a webhook request whose signature the provider's library rejects, or whose event
  cannot be translated, changes nothing. Any other request carries the provider's event id
  and is one of: a failure with the tables as they were, a replay with the tables as they
  were, or the first delivery, which records the id and, for an event about money, adds
  exactly one invoice. Whatever happens, the invariant of the billing tables holds after.\<close>

theorem webhook_outcome:
  assumes "billing_wf w" "handleWebhook constructEvent secret env body sig w = (r, w')"
  shows "billing_wf w' \<and>
    (case constructEvent body sig secret of
       None \<Rightarrow> r = Inl InvalidWebhookSignatureException \<and> w' = w
     | Some sev \<Rightarrow>
         (case toDomainEvent sev of
            Inl e \<Rightarrow> r = Inl e \<and> w' = w
          | Inr ev \<Rightarrow> event_id ev = evId sev \<and> delivered env ev w r w'))"
  using assms delivery(1,3) toDomainEvent_id
  unfolding handleWebhook_def verifyAndParseWebhook_def
  by (auto split: option.splits sum.splits)

lemma webhook_outcome_witness:
  "\<exists>r w'. handleWebhook construct0 ''k'' env0 ''b'' ''k'' world0 = (r, w') \<and>
     delivered env0 activated0 world0 r w'"
proof -
  obtain r w' where run: "handleWebhook construct0 ''k'' env0 ''b'' ''k'' world0 = (r, w')"
    by fastforce
  have "toDomainEvent event0 = Inr activated0" by code_simp
  with webhook_outcome [OF world0_wf run] run show ?thesis by (simp add: construct0_def)
qed

text \<open>C2: once a delivery of an event has been answered, every later delivery of an event
  with the same id, in any environment and after any number of other deliveries, is answered
  \<open>alreadyProcessed\<close> and leaves every table as it was.\<close>

theorem webhook_replay:
  assumes "billing_wf w" "processEvent env ev w = (Inr b, w1)" "event_id ev' = event_id ev"
  shows "\<exists>w3. processEvent env' ev' (deliverAll ms w1) = (Inr True, w3) \<and>
    db w3 = db (deliverAll ms w1)"
  using webhook.replay [of w "(env, ev)" b w1 "(env', ev')" ms] assms
  by (simp add: deliver_def deliverAll_def)

lemma webhook_replay_witness:
  "\<exists>w1 w3. processEvent env0 activated0 world0 = (Inr False, w1) \<and>
     processEvent env0 activated0 w1 = (Inr True, w3) \<and> db w3 = db w1"
proof -
  obtain w1 where run: "processEvent env0 activated0 world0 = (Inr False, w1)"
    using world0_delivery by (metis prod.collapse)
  from webhook_replay [OF world0_wf run refl, of env0 "[]"] run show ?thesis
    by (simp add: deliverAll_def)
qed

text \<open>C5: over any sequence of deliveries, every subscription row survives under its
  identifier and company, its status only moves along the edges of
  \<open>SUBSCRIPTION_STATUS_TRANSITIONS\<close>, a cancelled or expired row keeps its status, and a
  company never has two rows in trial or active status.\<close>

theorem webhook_lifecycle:
  assumes "billing_wf w" "s \<in> set (subscriptions (db w))"
  shows "(\<exists>s' \<in> set (subscriptions (db (deliverAll ms w))). same_subscription s s' \<and>
      (\<lambda>a b. b \<in> set (subscription_status_transitions a))\<^sup>*\<^sup>* (subStatus s) (subStatus s') \<and>
      (subStatus s \<in> {CANCELLED, EXPIRED} \<longrightarrow> subStatus s' = subStatus s)) \<and>
    index_ok subscription_active_key (subscriptions (db (deliverAll ms w)))"
proof -
  from deliverAll_lifecycle [OF assms(1), of ms] assms(2) obtain s' where
    s': "s' \<in> set (subscriptions (db (deliverAll ms w)))" "same_subscription s s'"
      "(\<lambda>a b. b \<in> set (subscription_status_transitions a))\<^sup>*\<^sup>* (subStatus s) (subStatus s')"
    unfolding lifecycle_def by blast
  then show ?thesis
    using deliverAll_wf [OF assms(1), of ms] terminal_stays [OF s'(3)]
    unfolding billing_wf_def wf_subs_def by blast
qed

lemma webhook_lifecycle_witness:
  "\<exists>s' \<in> set (subscriptions (db (deliverAll [(env0, activated0)] world0))).
     same_subscription sub0 s'"
  using webhook_lifecycle [OF world0_wf, of sub0 "[(env0, activated0)]"]
  by (auto simp: world0_def db0_def)

text \<open>C4: whatever deliveries arrive, fail or are repeated, the invoice numbers stay
  gap-free: for each year they are exactly \<open>1 .. lastNumber\<close>, and no number is issued
  twice.\<close>

theorem invoices_gap_free:
  assumes "billing_wf w"
  shows "gap_free (db (deliverAll ms w)) \<and>
    distinct (map invoiceNumber (invoices (db (deliverAll ms w))))"
  using deliverAll_wf [OF assms, of ms] gap_free_distinct unfolding billing_wf_def by blast

lemma invoices_gap_free_witness:
  "map invoiceNumber (invoices (db (deliverAll [(env0, activated0), (env0, activated0)] world0)))
     = [''1970-0001''] \<and>
   gap_free (db (deliverAll [(env0, activated0), (env0, activated0)] world0))"
proof
  show "map invoiceNumber (invoices (db (deliverAll [(env0, activated0), (env0, activated0)] world0)))
     = [''1970-0001'']" by code_simp
qed (use invoices_gap_free [OF world0_wf] in blast)

text \<open>C3: a charged event is invoiced exactly once. After its first delivery and any
  number of further deliveries (repeats of the same event included), exactly one invoice
  carries its id.\<close>

theorem one_invoice_per_event:
  assumes "billing_wf w" "processEvent env ev w = (Inr False, w1)" "charges ev"
  shows "count_where (\<lambda>i. stripeInvoiceId i = event_id ev) (invoices (db (deliverAll ms w1))) = 1"
proof -
  note d = delivery [OF assms(1,2)]
  from d(3) assms(3) have "\<exists>iv \<in> set (invoices (db w1)). stripeInvoiceId iv = event_id ev"
    unfolding delivered_def invoiced_def by (auto split: if_splits)
  then obtain iv where iv: "iv \<in> set (invoices (db w1))" "stripeInvoiceId iv = event_id ev" ..
  have "iv \<in> set (invoices (db (deliverAll ms w1)))"
    using deliverAll_invoices [OF d(1)] iv(1) by blast
  moreover have "distinct (map stripeInvoiceId (invoices (db (deliverAll ms w1))))"
    using deliverAll_wf [OF d(1)] by (simp add: billing_wf_def)
  ultimately show ?thesis using count_where_key [of stripeInvoiceId _ iv] iv(2) by simp
qed

lemma one_invoice_per_event_witness:
  "\<exists>w1. processEvent env0 activated0 world0 = (Inr False, w1) \<and>
    count_where (\<lambda>i. stripeInvoiceId i = ''evt_1'')
      (invoices (db (deliverAll [(env0, activated0)] w1))) = 1"
proof -
  obtain w1 where run: "processEvent env0 activated0 world0 = (Inr False, w1)"
    using world0_delivery by (metis prod.collapse)
  with one_invoice_per_event [OF world0_wf run] show ?thesis by (simp add: activated0_def)
qed

text \<open>The subscription a first payment leaves. The company has one row in active status
  with the paid plan, the plan's full contact quota, none of it used, the provider's
  subscription id and thirty days ahead, and no other row of the company is in trial or active
  status; its invoice is priced from the plan plus VAT.\<close>

theorem activation_effect:
  assumes "billing_wf w"
    "processEvent env (SubscriptionActivated evid sid psid c pl) w = (Inr False, w')"
  shows "\<exists>s \<in> set (subscriptions (db w')). subCompanyId s = c \<and> subStatus s = ACTIVE \<and>
    subPlan s = pl \<and> planContacts env pl = Some (contactQuota s) \<and> contactsUsed s = 0 \<and>
    externalSubscriptionId s = Some psid \<and>
    endsAt s = Some (addDays env (now env) BILLING_PERIOD_DAYS) \<and>
    (\<forall>s' \<in> set (subscriptions (db w')). subCompanyId s' = c \<and> subStatus s' \<in> {TRIAL, ACTIVE} \<longrightarrow> s' = s)"
  using assms
proof (cases rule: processEvent_cases)
  case (applied w1)
  from applied(6) have act: "activateSubscription env evid psid c pl w1 = (Inr (), w')" by simp
  then obtain quota sub wa wb co iv wc where
    q: "planContacts env pl = Some quota"
    and sa: "saveActivated env psid c pl quota w1 = (Inr sub, wa)"
    and wb: "db wb = (db wa)\<lparr>trialRedemptions :=
       update_where (\<lambda>r. trCompanyId r = c \<and> convertedAt r = None)
         (\<lambda>r. r\<lparr>convertedAt := Some (now env)\<rparr>) (trialRedemptions (db wa))\<rparr>"
    and em: "emit env sub co evid None wb = (Inr iv, wc)" and w': "db w' = db wc"
    by (rule activate_returns)
  note sv = saveActivated_returns [OF sa]
  have mem: "sub \<in> set (subscriptions (db w'))"
    using sv wb w' emit_subs [OF em] by (simp add: set_upsert)
  have row: "subCompanyId sub = c" "subStatus sub = ACTIVE" "subPlan sub = pl"
    "contactQuota sub = quota" "contactsUsed sub = 0" "externalSubscriptionId sub = Some psid"
    "endsAt sub = Some (addDays env (now env) BILLING_PERIOD_DAYS)"
    using sv by (auto simp: eligible_for_activation_def activated_row_def fresh_active_row_def
        split: option.splits dest: find_latest_Some)
  have "wf_subs (nextId w') (subscriptions (db w'))"
    using delivery(1) [OF assms] by (rule billing_wf_subs)
  note one = wf_subs_one_live [OF this _ mem]
  have "s' = sub" if "s' \<in> set (subscriptions (db w'))" "subCompanyId s' = c"
    "subStatus s' \<in> {TRIAL, ACTIVE}" for s'
    using one [OF that(1)] that(2,3) row(1,2) by simp
  with mem row q show ?thesis by blast
qed auto

lemma activation_effect_witness:
  "\<exists>w' s. processEvent env0 activated0 world0 = (Inr False, w') \<and>
     s \<in> set (subscriptions (db w')) \<and> subStatus s = ACTIVE \<and> contactQuota s = 50"
proof -
  obtain w1 where run: "processEvent env0 activated0 world0 = (Inr False, w1)"
    using world0_delivery by (metis prod.collapse)
  with activation_effect [OF world0_wf run [unfolded activated0_def]] show ?thesis
    by (auto simp: env0_def)
qed

text \<open>What a renewal payment leaves. The subscription of the provider's id that was active
  or past due becomes active with its contact counter reset and thirty days added to the end
  it had (not to the payment date), its past-due date cleared when it was past due; every
  other column keeps its value.\<close>

theorem renewal_effect:
  assumes "billing_wf w" "processEvent env (SubscriptionRenewed evid psid) w = (Inr False, w')"
  shows "\<exists>s s'. s \<in> set (subscriptions (db w)) \<and> s' \<in> set (subscriptions (db w')) \<and>
    externalSubscriptionId s = Some psid \<and> subStatus s \<in> {ACTIVE, PAST_DUE} \<and>
    s' = s\<lparr>subStatus := ACTIVE,
        pastDueSince := (if subStatus s = PAST_DUE then None else pastDueSince s),
        endsAt := Some (addDays env (case endsAt s of Some e \<Rightarrow> e | None \<Rightarrow> now env)
                    BILLING_PERIOD_DAYS),
        contactsUsed := 0\<rparr>"
  using assms
proof (cases rule: processEvent_cases)
  case (applied w1)
  from applied(6) have "renewSubscription env evid psid w1 = (Inr (), w')" by simp
  then show ?thesis
  proof (cases rule: renew_returns)
    case (1 s s' wa co iv)
    then have "s' \<in> set (subscriptions (db w'))" using emit_subs [OF 1(7)] by (simp add: set_upsert)
    moreover have "s \<in> set (subscriptions (db w))" "externalSubscriptionId s = Some psid"
      "subStatus s \<in> {ACTIVE, PAST_DUE}"
      using find_SomeD [OF 1(1)] applied(3) by auto
    ultimately show ?thesis using 1(2) by blast
  qed
qed auto

definition paid_world :: world where
  "paid_world = snd (processEvent env0 activated0 world0)"

lemma paid_world_wf: "billing_wf paid_world"
  using delivery(1) [OF world0_wf] unfolding paid_world_def by (metis prod.collapse)

lemma renewal_effect_witness:
  "\<exists>w' s'. processEvent env0 (SubscriptionRenewed ''evt_2'' ''sub_1'') paid_world = (Inr False, w') \<and>
     s' \<in> set (subscriptions (db w')) \<and> subStatus s' = ACTIVE \<and> contactsUsed s' = 0"
proof -
  have "fst (processEvent env0 (SubscriptionRenewed ''evt_2'' ''sub_1'') paid_world) = Inr False"
    by code_simp
  then obtain w' where
    run: "processEvent env0 (SubscriptionRenewed ''evt_2'' ''sub_1'') paid_world = (Inr False, w')"
    by (metis prod.collapse)
  from renewal_effect [OF paid_world_wf run] run show ?thesis by force
qed

text \<open>A failed payment of a checkout session moves the active row to past due and leaves
  its past-due date empty, so the access rule, which counts the grace period from that date,
  grants access at every later time and for every grace period.\<close>

theorem payment_failed_never_expires:
  assumes "billing_wf w" "processEvent env (PaymentFailed evid c reason) w = (Inr False, w')"
    "s \<in> set (subscriptions (db w))" "subCompanyId s = c" "subStatus s = ACTIVE"
    "pastDueSince s = None"
  shows "\<exists>s' \<in> set (subscriptions (db w')). subId s' = subId s \<and> subStatus s' = PAST_DUE \<and>
    (\<forall>later grace. isSubscriptionWithinAccess later s' grace)"
  using assms(1,2)
proof (cases rule: processEvent_cases)
  case (applied w1)
  have t: "subscriptions (db w1) = subscriptions (db w)" by (simp add: applied(3))
  from applied(6) have "markPastDue env c w1 = (Inr (), w')" by simp
  then show ?thesis
  proof (cases rule: markPastDue_returns)
    case absent
    with assms(3-5) show ?thesis unfolding t find_None_iff by blast
  next
    case (marked a)
    from find_SomeD [OF marked(1)] t have "a \<in> set (subscriptions (db w))" "subCompanyId a = c"
      "subStatus a = ACTIVE" by auto
    then have "a = s"
      using wf_subs_one_live [OF billing_wf_subs [OF assms(1)]] assms(3-5) by auto
    then show ?thesis using marked(3) assms(6)
      by (auto simp: set_upsert isSubscriptionWithinAccess_def)
  qed
qed auto

lemma payment_failed_never_expires_witness:
  "\<exists>w' s'. processEvent env0 (PaymentFailed ''evt_3'' 10 ''expired'') paid_world = (Inr False, w') \<and>
     s' \<in> set (subscriptions (db w')) \<and> subStatus s' = PAST_DUE"
proof -
  have "fst (processEvent env0 (PaymentFailed ''evt_3'' 10 ''expired'') paid_world) = Inr False"
    by code_simp
  then obtain w' where
    run: "processEvent env0 (PaymentFailed ''evt_3'' 10 ''expired'') paid_world = (Inr False, w')"
    by (metis prod.collapse)
  have "subscriptions (db paid_world) =
      [activated_row env0 ''sub_1'' GROWTH 50 sub0]" by code_simp
  then have "activated_row env0 ''sub_1'' GROWTH 50 sub0 \<in> set (subscriptions (db paid_world))"
    by simp
  from payment_failed_never_expires [OF paid_world_wf run this] run show ?thesis
    by (force simp: activated_row_def sub0_def)
qed

end
