(* ===== verification/Billing_Props.thy ===== *)
theory Billing_Props
  imports Checkout Trial Webhook_Props
begin

text \<open>
  The properties of contact credits, company access, checkout and trial codes.
\<close>

section \<open>Credits\<close>

text \<open>C6: contact credits are exact. Of any number of consumption attempts of a company exactly
  as many succeed as the quota snapshot shows remaining, never more, whatever the attempts'
  interleaving with refused ones.\<close>

theorem quota_exact:
  assumes "wf_subs k (subscriptions (db w))"
  shows "successes (consumeOneContact env c) n w = min n (nat (remaining env c w))"
  by (rule quota.exactly_left) (use assms in blast)

lemma quota_exact_witness: "successes (consumeOneContact env0 10) 8 world0 = 5"
proof -
  have "remaining env0 10 world0 = 5" by code_simp
  then show ?thesis
    using quota_exact [OF billing_wf_subs [OF world0_wf], of env0 10 8] by simp
qed

text \<open>An attempt to spend a credit that is refused changes nothing and means that the
  snapshot shows none left; one that succeeds moves the used counter of one row of the company by
  one and touches nothing else in the world.\<close>

theorem quota_one_attempt:
  assumes "wf_subs k (subscriptions (db w))" "consumeOneContact env c w = (r, w')"
  shows "(case r of
      Inl e \<Rightarrow> w' = w \<and> remaining env c w = 0 \<and>
        e \<in> {SubscriptionInactiveException c, ContactQuotaExceededException c}
    | Inr _ \<Rightarrow> remaining env c w' = remaining env c w - 1 \<and>
        (\<exists>s \<in> set (subscriptions (db w)). current_row env c s \<and> contactsUsed s < contactQuota s \<and>
           w' = w\<lparr>db := (db w)\<lparr>subscriptions := map (spend_one s) (subscriptions (db w))\<rparr>\<rparr>))"
  using assms(1)
proof (cases rule: consume_cases [where c = c and env = env])
  case (consumed s)
  with assms(2) have r: "r = Inr ()" "w' = w\<lparr>db := (db w)\<lparr>subscriptions := map (spend_one s) (subscriptions (db w))\<rparr>\<rparr>"
    by simp_all
  with consumed consume_remaining [OF assms(1)] assms(2) show ?thesis by auto
qed (use assms(2) in auto)

lemma quota_one_attempt_witness:
  "\<exists>w'. consumeOneContact env0 10 world0 = (Inr (), w') \<and> remaining env0 10 w' = 4"
proof -
  have "fst (consumeOneContact env0 10 world0) = Inr ()" by code_simp
  then obtain w' where run: "consumeOneContact env0 10 world0 = (Inr (), w')" by (metis prod.collapse)
  have "remaining env0 10 world0 = 5" by code_simp
  with quota_one_attempt [OF billing_wf_subs [OF world0_wf] run] run show ?thesis by simp
qed

text \<open>A company whose only subscription is past due and still in its grace period passes the
  access guard, which grants it full access, and yet cannot spend a single contact credit,
  because the quota service only considers trial and active rows.\<close>

theorem past_due_access_without_credits:
  assumes "recruiterOf (db w) i = Some r" "subscriptions (db w) = [s]"
    "subCompanyId s = recCompanyId r" "subStatus s = PAST_DUE" "pastDueSince s = Some d"
    "now env < addDays env d (gracePeriodDays env)"
  shows "assertActiveSubscription env i w = (Inr (recCompanyId r), w) \<and>
    consumeOneContact env (recCompanyId r) w =
      (Inl (SubscriptionInactiveException (recCompanyId r)), w)"
  using assms
  by (simp add: assertActive_apply latest_subscription_def find_latest_def
      isSubscriptionWithinAccess_def consumeOneContact_def resolveActiveSubscriptionId_def
      current_row_def ACTIVE_SUBSCRIPTION_STATUSES_def bindE_def)

definition past_due_world :: world where
  "past_due_world = world0\<lparr>db := db0\<lparr>subscriptions :=
     [sub0\<lparr>subStatus := PAST_DUE, pastDueSince := Some 999999999, contactQuota := 50,
       externalSubscriptionId := Some ''sub_1'', cancelAtPeriodEnd := True\<rparr>]\<rparr>\<rparr>"

lemma past_due_access_without_credits_witness:
  "assertActiveSubscription env0 1 past_due_world = (Inr 10, past_due_world) \<and>
   consumeOneContact env0 10 past_due_world = (Inl (SubscriptionInactiveException 10), past_due_world)"
  using past_due_access_without_credits [of past_due_world 1 recruiter0 _ 999999999 env0]
  by (simp add: past_due_world_def sample_defs recruiterOf_def addDays_def ms_per_day_def)

section \<open>Checkout\<close>

text \<open>Opening a checkout session never writes the database, is refused while the company has
  an active subscription, and otherwise asks the provider for exactly the plan's monthly price
  plus VAT.\<close>

theorem checkout_session:
  assumes "createCheckoutSession env i pl w = (r, w')"
  shows "db w' = db w \<and>
    (case r of
       Inl _ \<Rightarrow> True
     | Inr url \<Rightarrow> \<exists>rc price. recruiterOf (db w) i = Some rc \<and> planPrice env pl = Some price \<and>
         (\<forall>s \<in> set (subscriptions (db w)). subCompanyId s = recCompanyId rc \<longrightarrow> subStatus s \<noteq> ACTIVE) \<and>
         stripeCalls w' = stripeCalls w @ [CreateSession (recCompanyId rc) pl
           (vatTTC (computeVat (price * 100))) (toLowerCase (cfgCurrency env))])"
proof -
  have "db w' = db w"
    using outside_dbD [OF outside_createCheckoutSession assms] by simp
  moreover have "case r of
       Inl _ \<Rightarrow> True
     | Inr url \<Rightarrow> \<exists>rc price. recruiterOf (db w) i = Some rc \<and> planPrice env pl = Some price \<and>
         (\<forall>s \<in> set (subscriptions (db w)). subCompanyId s = recCompanyId rc \<longrightarrow> subStatus s \<noteq> ACTIVE) \<and>
         stripeCalls w' = stripeCalls w @ [CreateSession (recCompanyId rc) pl
           (vatTTC (computeVat (price * 100))) (toLowerCase (cfgCurrency env))]"
  proof (cases r)
    case (Inr url)
    with assms show ?thesis
      unfolding createCheckoutSession_def providerCreateCheckoutSession_def
      by (auto simp: returns resolvePrice_Inr find_None_iff)
  qed simp
  ultimately show ?thesis ..
qed

lemma checkout_session_witness:
  "\<exists>w'. createCheckoutSession env0 1 STARTER world0 = (Inr ''https://pay'', w') \<and>
     stripeCalls w' = [CreateSession 10 STARTER 118800 ''mad'']"
proof -
  have "fst (createCheckoutSession env0 1 STARTER world0) = Inr ''https://pay''" by code_simp
  then obtain w' where run: "createCheckoutSession env0 1 STARTER world0 = (Inr ''https://pay'', w')"
    by (metis prod.collapse)
  have "vatTTC (computeVat (990 * 100)) = 118800" "toLowerCase ''mad'' = ''mad''" by code_simp+
  with checkout_session [OF run] run show ?thesis
    by (auto simp: sample_defs recruiterOf_def)
qed

text \<open>Scheduling a cancellation is idempotent. Once it has returned, calling it again, in any
  environment (the provider failing included), returns the same answer without a provider call
  and without any other change.\<close>

theorem cancel_idempotent:
  assumes "wf_subs n (subscriptions (db w))" "cancelSubscription env i w = (Inr x, w')"
  shows "cancelSubscription env' i w' = (Inr x, w')"
proof -
  from assms(2) obtain r s where r: "recruiterOf (db w) i = Some r"
    and s: "paying_row (db w) (recCompanyId r) = Some s" "\<not> falsy (externalSubscriptionId s)"
    unfolding cancelSubscription_def by (auto simp: eff_simps split: option.splits if_splits)
  then obtain psid where ps: "externalSubscriptionId s = Some psid" "psid \<noteq> []"
    unfolding falsy_def by (cases "externalSubscriptionId s") auto
  note eq = cancelSubscription_eq [OF assms(1) r s(1) ps]
  show ?thesis
  proof (cases "cancelAtPeriodEnd s")
    case True
    with eq assms(2) have "w' = w" "x = (True, endsAt s)" by simp_all
    with cancelSubscription_eq [OF assms(1) r s(1) ps, of env'] True show ?thesis by simp
  next
    case False
    let ?s = "s\<lparr>cancelAtPeriodEnd := True\<rparr>" and ?t = "subscriptions (db w)"
    let ?f = "\<lambda>y. if subId y = subId s then ?s else y"
    from False eq assms(2) have x: "x = (True, endsAt s)"
      and w': "subscriptions (db w') = upsert subId ?s ?t" "recruiters (db w') = recruiters (db w)"
      by (auto split: if_splits)
    have mem: "s \<in> set ?t" using paying_row_mem [OF s(1)] by simp
    have key: "y = s" if "y \<in> set ?t" "subId y = subId s" for y
      using assms(1) mem that by (auto simp: wf_subs_def distinct_map inj_on_def)
    have "upsert subId ?s ?t = map (\<lambda>y. y\<lparr>cancelAtPeriodEnd := cancelAtPeriodEnd y \<or> subId y = subId s\<rparr>) ?t"
      using mem key by (auto simp: upsert_def update_where_def)
    then have "paying_row (db w') (recCompanyId r) = Some ?s"
      using s(1) unfolding paying_row_def w'(1) by (simp add: find_latest_map)
    then show ?thesis
      using r x w'(2) ps by (simp add: cancelSubscription_def eff_simps falsy_def recruiterOf_def)
  qed
qed

lemma paid_company: "recruiterOf (db paid_world) 1 = Some recruiter0" by code_simp

lemma cancel_idempotent_witness:
  "\<exists>w'. cancelSubscription env0 1 paid_world = (Inr (True, Some 3592000000), w') \<and>
     cancelSubscription env0 1 w' = (Inr (True, Some 3592000000), w')"
proof -
  have "fst (cancelSubscription env0 1 paid_world) = Inr (True, Some 3592000000)" by code_simp
  then obtain w' where run: "cancelSubscription env0 1 paid_world = (Inr (True, Some 3592000000), w')"
    by (metis prod.collapse)
  with cancel_idempotent [OF billing_wf_subs [OF paid_world_wf] run] show ?thesis by blast
qed

text \<open>Changing plan. Either it is refused before or by the provider and nothing at all has
  changed, or the provider received exactly one change request priced from the new plan plus VAT,
  and the paying row now has the new plan and its quota with the contacts already used kept, even
  when the audit log fails afterwards (the only error after the provider call).\<close>

theorem plan_change:
  assumes "wf_subs n (subscriptions (db w))" "changePlan env i pl w = (r, w')"
  shows "(\<exists>e. r = Inl e) \<and> w' = w \<or>
    (\<exists>rc s q price psid. recruiterOf (db w) i = Some rc \<and> paying_row (db w) (recCompanyId rc) = Some s \<and>
       subPlan s \<noteq> pl \<and> planContacts env pl = Some q \<and> planPrice env pl = Some price \<and>
       externalSubscriptionId s = Some psid \<and>
       stripeCalls w' = stripeCalls w @ [ChangePlan psid pl (vatTTC (computeVat (price * 100)))
         (toLowerCase (cfgCurrency env))] \<and>
       db w' = (db w)\<lparr>subscriptions := upsert subId (s\<lparr>subPlan := pl, contactQuota := q\<rparr>)
         (subscriptions (db w))\<rparr> \<and>
       (r = Inr (pl, q, contactsUsed s) \<or> r = Inl (ServiceUnavailable ''audit'')))"
proof (cases "\<exists>rc s psid q price. recruiterOf (db w) i = Some rc \<and>
    paying_row (db w) (recCompanyId rc) = Some s \<and> externalSubscriptionId s = Some psid \<and> psid \<noteq> [] \<and>
    subPlan s \<noteq> pl \<and> pl \<noteq> ENTERPRISE \<and> planContacts env pl = Some q \<and> planPrice env pl = Some price")
  case True
  then obtain rc s psid q price where c: "recruiterOf (db w) i = Some rc"
    "paying_row (db w) (recCompanyId rc) = Some s" "externalSubscriptionId s = Some psid" "psid \<noteq> []"
    "subPlan s \<noteq> pl" "pl \<noteq> ENTERPRISE" "planContacts env pl = Some q" "planPrice env pl = Some price"
    by blast
  from changePlan_eq [OF assms(1) c] assms(2) c show ?thesis by (auto simp: Let_def split: if_splits)
next
  case False
  then have "\<exists>e. changePlan env i pl w = (Inl e, w)"
    by (auto simp: changePlan_def eff_simps falsy_def resolveContactQuotaForPlan_def
        resolveMonthlyPriceHtInCentimes_def split: option.splits)
  with assms(2) show ?thesis by auto
qed

lemma plan_change_witness:
  "\<exists>w'. changePlan env0 1 SCALE paid_world = (Inr (SCALE, 50, 0), w') \<and>
     length (stripeCalls w') = 1"
proof -
  have "fst (changePlan env0 1 SCALE paid_world) = Inr (SCALE, 50, 0)" by code_simp
  then obtain w' where run: "changePlan env0 1 SCALE paid_world = (Inr (SCALE, 50, 0), w')"
    by (metis prod.collapse)
  have "stripeCalls paid_world = []" by code_simp
  with plan_change [OF billing_wf_subs [OF paid_world_wf] run] run show ?thesis by auto
qed

text \<open>A stale cancellation flag. When a company that had scheduled a cancellation and fell past
  due pays again through a new checkout, the activation reuses its row with the flag still set;
  from then on its request to cancel the new subscription is answered as done and never reaches
  the provider.\<close>

theorem cancel_after_reactivation_not_sent:
  assumes "billing_wf w"
    "processEvent env (SubscriptionActivated evid sid psid c pl) w = (Inr False, w')"
    "eligible_for_activation (db w) c = Some s" "cancelAtPeriodEnd s" "psid \<noteq> []"
    "recruiterOf (db w') i = Some rc" "recCompanyId rc = c"
    "\<forall>x \<in> set (subscriptions (db w')). subCompanyId x = c \<longrightarrow> subId x = subId s"
  shows "\<exists>ends. cancelSubscription env' i w' = (Inr (True, ends), w') \<and>
    (\<exists>x \<in> set (subscriptions (db w')). subCompanyId x = c \<and> externalSubscriptionId x = Some psid \<and>
       subStatus x = ACTIVE)"
  using assms(1,2)
proof (cases rule: processEvent_cases)
  case (applied w1)
  have wf: "wf_subs (nextId w') (subscriptions (db w'))"
    using delivery(1) [OF assms(1,2)] by (rule billing_wf_subs)
  from applied(6) have act: "activateSubscription env evid psid c pl w1 = (Inr (), w')" by simp
  then obtain quota sub wa wb co iv wc where
    sa: "saveActivated env psid c pl quota w1 = (Inr sub, wa)"
    and wb: "db wb = (db wa)\<lparr>trialRedemptions :=
       update_where (\<lambda>r. trCompanyId r = c \<and> convertedAt r = None)
         (\<lambda>r. r\<lparr>convertedAt := Some (now env)\<rparr>) (trialRedemptions (db wa))\<rparr>"
    and em: "emit env sub co evid None wb = (Inr iv, wc)" and w': "db w' = db wc"
    by (rule activate_returns)
  note sv = saveActivated_returns [OF sa]
  have "eligible_for_activation (db w1) c = Some s"
    using assms(3) applied(3) by (simp add: eligible_for_activation_def)
  then have sub: "sub = activated_row env psid pl quota s" using sv by simp
  have mem: "sub \<in> set (subscriptions (db w'))"
    using sv wb w' emit_subs [OF em] by (simp add: set_upsert)
  have row: "subCompanyId sub = c" "subStatus sub = ACTIVE" "cancelAtPeriodEnd sub"
    "externalSubscriptionId sub = Some psid" "subId sub = subId s"
    using sub assms(3,4) by (auto simp: activated_row_def eligible_for_activation_def
        dest: find_latest_Some)
  have "x = sub" if "x \<in> set (subscriptions (db w'))" "subCompanyId x = c" for x
    using wf mem row(5) assms(8) that by (auto simp: wf_subs_def distinct_map inj_on_def)
  then have only: "x = sub" if "paying_row (db w') c = Some x" for x
    using paying_row_mem [OF that] by simp
  have "paying_row (db w') c = Some sub"
  proof (cases "paying_row (db w') c")
    case None
    then show ?thesis using mem row(1,2) by (auto simp: paying_row_def find_latest_None)
  qed (use only in simp)
  with cancelSubscription_eq [OF wf assms(6), of sub psid] assms(5,7) row mem show ?thesis
    by (auto intro!: exI [of _ "endsAt sub"] bexI [of _ sub])
qed auto

lemma past_due_world_wf: "billing_wf past_due_world"
  by (simp add: billing_wf_def wf_subs_def gap_free_def past_due_world_def sample_defs index_ok_def
      subscription_active_key_def)

lemma cancel_after_reactivation_not_sent_witness:
  "\<exists>w' ends. processEvent env0 (SubscriptionActivated ''e'' ''cs'' ''sub_2'' 10 GROWTH) past_due_world
      = (Inr False, w') \<and> cancelSubscription env0 1 w' = (Inr (True, ends), w')"
proof -
  let ?ev = "SubscriptionActivated ''e'' ''cs'' ''sub_2'' 10 GROWTH"
  let ?s = "sub0\<lparr>subStatus := PAST_DUE, pastDueSince := Some 999999999, contactQuota := 50,
       externalSubscriptionId := Some ''sub_1'', cancelAtPeriodEnd := True\<rparr>"
  have "fst (processEvent env0 ?ev past_due_world) = Inr False" by code_simp
  then obtain w' where run: "processEvent env0 ?ev past_due_world = (Inr False, w')"
    by (metis prod.collapse)
  have w': "w' = snd (processEvent env0 ?ev past_due_world)" using run by simp
  have el: "eligible_for_activation (db past_due_world) 10 = Some ?s" by code_simp
  have rc: "recruiterOf (db w') 1 = Some recruiter0" unfolding w' by code_simp
  have ids: "map subId (subscriptions (db w')) = [30]" unfolding w' by code_simp
  have "\<forall>x \<in> set (subscriptions (db w')). subId x = 30" using ids by (metis in_set_conv_nth length_map nth_map set_ConsD set_map image_eqI empty_iff empty_set)
  from cancel_after_reactivation_not_sent [OF past_due_world_wf run el _ _ rc] this run show ?thesis
    by (auto simp: recruiter0_def sub0_def)
qed

section \<open>Trial codes\<close>

datatype trial_op =
  Redeem env uuid string
| CreateCode string plan nat nat "date option"
| RevokeCode uuid

fun runTrial :: "trial_op \<Rightarrow> world \<Rightarrow> world" where
  "runTrial (Redeem env i code) w = snd (redeem env i code w)"
| "runTrial (CreateCode code pl days uses ends) w =
     snd (createTrialCode code pl (int days) (int uses) ends w)"
| "runTrial (RevokeCode i) w = snd (revokeTrialCode i w)"

lemma runTrial_ok: "codes_ok w \<Longrightarrow> codes_ok (runTrial op w)"
proof (cases op)
  case (Redeem env i code)
  assume ok: "codes_ok w"
  obtain r w' where run: "redeem env i code w = (r, w')" by fastforce
  show ?thesis
  proof (cases r)
    case (Inl e)
    with codes_ok_same [OF ok redeem_throws_db ids_growD [OF redeem_ids run]] run Redeem show ?thesis
      by simp
  next
    case (Inr x)
    with redeem_codes_ok [OF ok] run Redeem show ?thesis by (cases x) auto
  qed
next
  case (CreateCode code pl days uses ends)
  assume "codes_ok w"
  from createTrialCode_codes_ok [OF this] CreateCode show ?thesis
    by (metis prod.collapse of_nat_0_le_iff runTrial.simps(2))
next
  case (RevokeCode i)
  assume "codes_ok w"
  from revokeTrialCode_codes_ok [OF this] RevokeCode show ?thesis
    by (metis prod.collapse runTrial.simps(3))
qed

text \<open>C7: the uses of trial codes always add up. Over any sequence of redemptions, creations and
  revocations, successful or not, every code's counter equals the number of redemptions of it, never
  exceeds the code's limit, and no company appears in two redemptions.\<close>

theorem trial_codes_accounted:
  assumes "codes_ok w"
  shows "(\<forall>c \<in> set (trialCodes (db (fold runTrial ops w))).
      usedCount c = count_where (\<lambda>r. trTrialCodeId r = tcId c) (trialRedemptions (db (fold runTrial ops w))) \<and>
      usedCount c \<le> maxUses c) \<and>
    index_ok (\<lambda>r. Some (trCompanyId r)) (trialRedemptions (db (fold runTrial ops w)))"
proof -
  have "codes_ok (fold runTrial ops w)"
    using assms by (induction ops arbitrary: w) (simp_all add: runTrial_ok)
  then show ?thesis unfolding codes_ok_def by blast
qed

lemma world0_codes: "codes_ok world0"
  by (simp add: codes_ok_def sample_defs index_ok_def)

lemma trial_codes_accounted_witness:
  "map usedCount (trialCodes (db (fold runTrial [Redeem env0 1 ''TRY'', Redeem env0 1 ''TRY''] world0))) = [1] \<and>
   list_all (\<lambda>c. usedCount c \<le> maxUses c)
     (trialCodes (db (fold runTrial [Redeem env0 1 ''TRY'', Redeem env0 1 ''TRY''] world0)))"
proof
  show "map usedCount (trialCodes (db (fold runTrial [Redeem env0 1 ''TRY'', Redeem env0 1 ''TRY''] world0))) = [1]"
    by code_simp
qed (use trial_codes_accounted [OF world0_codes] in \<open>unfold list_all_iff, blast\<close>)

text \<open>What redeeming a code does. An error leaves every table as it was. A success means that the
  code was active, unexpired and not used up, that the company had a trial row and had never redeemed
  before; its trial row gets the code's plan, quota and duration with its status and used credits
  unchanged, and the company can never redeem again.\<close>

theorem redeem_outcome:
  assumes "codes_ok w" "redeem env i code w = (r, w')"
  shows "(case r of
      Inl _ \<Rightarrow> db w' = db w
    | Inr (pl, q, e) \<Rightarrow> \<exists>rc sub c. recruiterOf (db w) i = Some rc \<and>
        sub \<in> set (subscriptions (db w)) \<and> subCompanyId sub = recCompanyId rc \<and> subStatus sub = TRIAL \<and>
        c \<in> set (trialCodes (db w)) \<and> tcCode c = code \<and> isCurrentlyRedeemable env (Some c) \<and>
        recCompanyId rc \<notin> trCompanyId ` set (trialRedemptions (db w)) \<and>
        sub\<lparr>subPlan := pl, contactQuota := q, endsAt := Some e\<rparr> \<in> set (subscriptions (db w')) \<and>
        pl = tcPlan c \<and> planContacts env pl = Some q \<and>
        e = addDays env (now env) (trialDurationDays c) \<and>
        (\<forall>env' code'. \<exists>x w''. redeem env' i code' w' = (Inl x, w'')))"
proof (cases r)
  case (Inl e)
  with assms(2) redeem_throws_db show ?thesis by auto
next
  case (Inr x)
  obtain pl q e where x: "x = (pl, q, e)" by (cases x)
  from assms(2) have run: "redeem env i code w = (Inr (pl, q, e), w')" by (simp add: Inr x)
  then show ?thesis
  proof (cases rule: redeem_returns)
    case (1 rc sub c)
    let ?row = "redemption_row env c (recCompanyId rc) (nextId w)"
    have app: "upsert trId ?row (trialRedemptions (db w)) = trialRedemptions (db w) @ [?row]"
      using assms(1) by (intro upsert_new) (auto simp: codes_ok_def redemption_row_def)
    have fresh: "recCompanyId rc \<notin> trCompanyId ` set (trialRedemptions (db w))"
      using 1(8) unfolding app redemption_violated_def index_ok_snoc
      by (auto simp: redemption_row_def split: if_splits)
    have sub: "sub \<in> set (subscriptions (db w)) \<and> subCompanyId sub = recCompanyId rc \<and> subStatus sub = TRIAL"
      using 1(2) unfolding trial_row_def by (auto dest: find_latest_Some)
    have ext: "extended_row env c q sub = sub\<lparr>subPlan := pl, contactQuota := q, endsAt := Some e\<rparr>"
      using 1(6,7) by (simp add: extended_row_def)
    have "\<exists>x w''. redeem env' i code' w' = (Inl x, w'')" for env' code'
    proof (cases "redeem env' i code' w'")
      case (Pair r2 w2)
      show ?thesis
      proof (cases r2)
        case (Inr y)
        obtain pl' q' e' where "y = (pl', q', e')" by (cases y)
        with Pair Inr have run2: "redeem env' i code' w' = (Inr (pl', q', e'), w2)" by simp
        show ?thesis
          using run2
        proof (cases rule: redeem_returns)
          case two: (1 rc2 sub2 c2)
          let ?row2 = "redemption_row env' c2 (recCompanyId rc2) (nextId w')"
          have "rc2 = rc" using two(1) 1(1,10) by (simp add: recruiterOf_def)
          moreover have "codes_ok w'" by (rule redeem_codes_ok [OF assms(1) run])
          then have "upsert trId ?row2 (trialRedemptions (db w')) = trialRedemptions (db w') @ [?row2]"
            by (intro upsert_new) (auto simp: codes_ok_def redemption_row_def)
          ultimately have False
            using two(8) 1(10) app unfolding redemption_violated_def index_ok_snoc
            by (auto simp: redemption_row_def index_ok_snoc split: if_splits)
          then show ?thesis ..
        qed
      qed (use Pair in simp)
    qed
    with 1 sub fresh ext find_SomeD [OF 1(3)] show ?thesis
      unfolding Inr x by (auto simp: set_upsert)
  qed
qed

lemma redeem_outcome_witness:
  "\<exists>w'. redeem env0 1 ''TRY'' world0 = (Inr (GROWTH, 50, 2209600000), w') \<and>
     (\<exists>x w''. redeem env0 1 ''TRY'' w' = (Inl x, w''))"
proof -
  have "fst (redeem env0 1 ''TRY'' world0) = Inr (GROWTH, 50, 2209600000)" by code_simp
  then obtain w' where run: "redeem env0 1 ''TRY'' world0 = (Inr (GROWTH, 50, 2209600000), w')"
    by (metis prod.collapse)
  with redeem_outcome [OF world0_codes run] show ?thesis by auto
qed

end
