(* ===== verification/Guards.thy ===== *)
theory Guards
  imports Repo
begin

text \<open>
  The request guards in front of the controllers: \<open>common/guards/roles.guard.ts\<close> and
  \<open>common/guards/staff-mfa.guard.ts\<close>, with the session payload of
  \<open>common/interfaces/request-with-user.interface.ts\<close>. A guard reads the request only; it is a
  value, the exception it throws or the boolean it returns.
\<close>

record jwt_payload =
  jwtSub :: uuid
  jwtEmail :: string
  jwtRoles :: "role list"
  jwtMfa :: "bool option"

definition rolesGuard :: "role list option \<Rightarrow> jwt_payload option \<Rightarrow> err + bool" where
  "rolesGuard requiredRoles user =
     (if requiredRoles = None \<or> requiredRoles = Some [] then Inr True
      else case user of
        None \<Rightarrow> Inl (ForbiddenException ''no-roles'')
      | Some u \<Rightarrow>
          if list_ex (\<lambda>r. r \<in> set (jwtRoles u)) (the requiredRoles) then Inr True
          else Inl (ForbiddenException ''insufficient-permissions''))"

definition STAFF_ROLES :: "role list" where
  "STAFF_ROLES = [ADMIN, MODERATOR]"

definition staffMfaGuard :: "bool \<Rightarrow> jwt_payload option \<Rightarrow> err + bool" where
  "staffMfaGuard enforced user =
     (if \<not> enforced then Inr True
      else case user of
        None \<Rightarrow> Inr True
      | Some u \<Rightarrow>
          if \<not> list_ex (\<lambda>r. r \<in> set STAFF_ROLES) (jwtRoles u) then Inr True
          else if jwtMfa u \<noteq> Some True then Inl (ForbiddenException ''mfa-required'')
          else Inr True)"

text \<open>What the session strategy hands to the guards from a verified token
  (\<open>auth/strategies/jwt.strategy.ts\<close>).\<close>

definition validateJwt :: "jwt_payload \<Rightarrow> jwt_payload" where
  "validateJwt payload =
     \<lparr>jwtSub = jwtSub payload, jwtEmail = jwtEmail payload, jwtRoles = jwtRoles payload,
      jwtMfa = Some (jwtMfa payload = Some True)\<rparr>"

text \<open>The guards of a staff controller, in their order.\<close>

definition staffRoute :: "bool \<Rightarrow> jwt_payload option \<Rightarrow> err + bool" where
  "staffRoute enforced user =
     (case rolesGuard (Some [ADMIN, MODERATOR]) user of
        Inl e \<Rightarrow> Inl e
      | Inr _ \<Rightarrow> staffMfaGuard enforced user)"

text \<open>With enforcement on, a request reaches a staff controller exactly when its session has a
  staff role and was authenticated with a second factor, and the second-factor guard never stops
  anyone without a staff role.\<close>

theorem staff_route_requires_mfa:
  "(staffRoute True user = Inr True \<longleftrightarrow>
      (\<exists>u. user = Some u \<and> (ADMIN \<in> set (jwtRoles u) \<or> MODERATOR \<in> set (jwtRoles u)) \<and>
           jwtMfa u = Some True)) \<and>
   (staffRoute False user = Inr True \<longleftrightarrow>
      (\<exists>u. user = Some u \<and> (ADMIN \<in> set (jwtRoles u) \<or> MODERATOR \<in> set (jwtRoles u)))) \<and>
   (staffMfaGuard enforced user = Inl e \<longrightarrow>
      (\<exists>u. user = Some u \<and> (ADMIN \<in> set (jwtRoles u) \<or> MODERATOR \<in> set (jwtRoles u))))"
  by (cases user)
    (auto simp: staffRoute_def rolesGuard_def staffMfaGuard_def STAFF_ROLES_def list_ex_iff
      split: if_splits)

lemma staff_route_requires_mfa_witness:
  "staffRoute True (Some \<lparr>jwtSub = 1, jwtEmail = ''a'', jwtRoles = [ADMIN], jwtMfa = None\<rparr>) =
     Inl (ForbiddenException ''mfa-required'') \<and>
   staffRoute True (Some \<lparr>jwtSub = 1, jwtEmail = ''a'', jwtRoles = [ADMIN], jwtMfa = Some True\<rparr>) =
     Inr True"
  using staff_route_requires_mfa
    [of "Some \<lparr>jwtSub = 1, jwtEmail = ''a'', jwtRoles = [ADMIN], jwtMfa = Some True\<rparr>" True
      "ForbiddenException ''mfa-required''"]
  by (simp add: staffRoute_def rolesGuard_def staffMfaGuard_def STAFF_ROLES_def)

text \<open>A token from before the second factor existed is one without it: handing the payload through
  the strategy decides no request otherwise.\<close>

lemma guards_validateJwt:
  "staffRoute enforced (map_option validateJwt user) = staffRoute enforced user"
  "rolesGuard required (map_option validateJwt user) = rolesGuard required user"
  by (cases user; simp add: staffRoute_def rolesGuard_def staffMfaGuard_def validateJwt_def)+

end
