(* ===== verification/Entitlements.thy ===== *)
theory Entitlements
  imports Quota Guards
begin

text \<open>
  What a company may use: the plan matrix \<open>entitlements/entitlements.matrix.ts\<close>, the resolution
  \<open>entitlements/entitlement.service.ts\<close>, the guard \<open>entitlements/feature.guard.ts\<close> and the
  admin controller \<open>entitlements/entitlements-admin.controller.ts\<close>. Plans are ordered by
  instantiating \<open>linorder\<close>, so that "a higher plan grants more" can be said of the matrix.
\<close>

section \<open>The matrix\<close>

datatype limit_key = MAX_EVALUATIONS_MONTH | MAX_USERS | MAX_JOB_POSTS | MAX_EXPORTS_MONTH

text \<open>\<open>null\<close> is unlimited.\<close>

type_synonym limits = "limit_key \<Rightarrow> int option"

record plan_entitlements =
  peDisplayName :: string
  peFeatures :: "feature list"
  peLimits :: limits

fun PLAN_DISPLAY_NAME :: "plan \<Rightarrow> string" where
  "PLAN_DISPLAY_NAME STARTER = ''Starter''"
| "PLAN_DISPLAY_NAME GROWTH = ''Pro''"
| "PLAN_DISPLAY_NAME SCALE = ''Premium''"
| "PLAN_DISPLAY_NAME ENTERPRISE = ''Enterprise''"

definition BASE_FEATURES :: "feature list" where
  "BASE_FEATURES = [CV_DATABASE, CANDIDATE_SEARCH, PROFILE_FILTER, SCHOOL_FILTER, SCORE_SORT,
     EVALUATIONS, BASIC_ANALYTICS, MULTI_USER]"

fun PLAN_ENTITLEMENTS :: "plan \<Rightarrow> plan_entitlements" where
  "PLAN_ENTITLEMENTS STARTER =
     \<lparr>peDisplayName = ''Starter'', peFeatures = BASE_FEATURES,
      peLimits = (\<lambda>k. case k of MAX_EVALUATIONS_MONTH \<Rightarrow> Some 3 | MAX_USERS \<Rightarrow> Some 1
                      | MAX_JOB_POSTS \<Rightarrow> Some 0 | MAX_EXPORTS_MONTH \<Rightarrow> Some 10)\<rparr>"
| "PLAN_ENTITLEMENTS GROWTH =
     \<lparr>peDisplayName = ''Pro'',
      peFeatures = BASE_FEATURES @ [ADVANCED_EVALUATIONS, JOBS, APPLICATIONS, SHORTLIST,
        EXPORT_CANDIDATES, PRIORITY_SUPPORT],
      peLimits = (\<lambda>k. case k of MAX_EVALUATIONS_MONTH \<Rightarrow> Some 20 | MAX_USERS \<Rightarrow> Some 3
                      | MAX_JOB_POSTS \<Rightarrow> Some 5 | MAX_EXPORTS_MONTH \<Rightarrow> None)\<rparr>"
| "PLAN_ENTITLEMENTS SCALE =
     \<lparr>peDisplayName = ''Premium'',
      peFeatures = BASE_FEATURES @ [ADVANCED_EVALUATIONS, JOBS, APPLICATIONS, SHORTLIST,
        EXPORT_CANDIDATES, PRIORITY_SUPPORT, ADVANCED_ANALYTICS],
      peLimits = (\<lambda>k. case k of MAX_EVALUATIONS_MONTH \<Rightarrow> None | MAX_USERS \<Rightarrow> Some 10
                      | MAX_JOB_POSTS \<Rightarrow> Some 20 | MAX_EXPORTS_MONTH \<Rightarrow> None)\<rparr>"
| "PLAN_ENTITLEMENTS ENTERPRISE =
     \<lparr>peDisplayName = ''Enterprise'',
      peFeatures = BASE_FEATURES @ [ADVANCED_EVALUATIONS, JOBS, APPLICATIONS, SHORTLIST,
        EXPORT_CANDIDATES, PRIORITY_SUPPORT, ADVANCED_ANALYTICS, API_ACCESS],
      peLimits = (\<lambda>_. None)\<rparr>"

definition entitlementsForPlan :: "plan \<Rightarrow> plan_entitlements" where
  "entitlementsForPlan pl = PLAN_ENTITLEMENTS pl"

definition ZERO_LIMITS :: limits where
  "ZERO_LIMITS = (\<lambda>k. case k of MAX_EVALUATIONS_MONTH \<Rightarrow> Some 0 | MAX_USERS \<Rightarrow> Some 1
     | MAX_JOB_POSTS \<Rightarrow> Some 0 | MAX_EXPORTS_MONTH \<Rightarrow> Some 0)"

section \<open>Plans are ordered\<close>

fun plan_rank :: "plan \<Rightarrow> nat" where
  "plan_rank STARTER = 0" | "plan_rank GROWTH = 1" | "plan_rank SCALE = 2" | "plan_rank ENTERPRISE = 3"

lemma plan_rank_inject [simp]: "plan_rank p = plan_rank q \<longleftrightarrow> p = q"
  by (cases p; cases q) auto

instantiation plan :: linorder
begin

definition less_eq_plan :: "plan \<Rightarrow> plan \<Rightarrow> bool" where
  "p \<le> q \<longleftrightarrow> plan_rank p \<le> plan_rank q"

definition less_plan :: "plan \<Rightarrow> plan \<Rightarrow> bool" where
  "p < q \<longleftrightarrow> plan_rank p < plan_rank q"

instance
  by standard (auto simp: less_eq_plan_def less_plan_def simp flip: plan_rank_inject)

end

fun limit_le :: "int option \<Rightarrow> int option \<Rightarrow> bool" where
  "limit_le _ None = True"
| "limit_le None (Some _) = False"
| "limit_le (Some a) (Some b) = (a \<le> b)"

section \<open>Resolution\<close>

datatype feature_source = PACKAGE | ADMIN_OVERRIDE | SYSTEM

record feature_state =
  fsEnabled :: bool
  fsSource :: feature_source

record company_entitlements =
  ceCompanyId :: uuid
  cePlan :: "plan option"
  cePlanDisplayName :: string
  ceActive :: bool
  ceFeatures :: "feature \<Rightarrow> feature_state"
  ceLimits :: limits

text \<open>\<open>new Map(overrides.map(...))\<close>: the last override of a feature counts.\<close>

definition override_for :: "db \<Rightarrow> uuid \<Rightarrow> feature \<Rightarrow> feature_override option" where
  "override_for d c f =
     List.find (\<lambda>o'. foFeature o' = f) (rev (filter (\<lambda>o'. foCompanyId o' = c) (featureOverrides d)))"

definition company_active :: "env \<Rightarrow> db \<Rightarrow> uuid \<Rightarrow> bool" where
  "company_active env d c =
     (case latest_subscription d c of None \<Rightarrow> False
      | Some s \<Rightarrow> isSubscriptionWithinAccess env s (gracePeriodDays env))"

definition getEntitlementsForCompany :: "env \<Rightarrow> uuid \<Rightarrow> company_entitlements service" where
  "getEntitlementsForCompany env c =
     gets (\<lambda>w.
       (let sub = latest_subscription (db w) c;
            pl = map_option subPlan sub;
            active = company_active env (db w) c;
            base = map_option entitlementsForPlan pl;
            planFeatures = (case base of None \<Rightarrow> [] | Some b \<Rightarrow> peFeatures b)
        in \<lparr>ceCompanyId = c, cePlan = pl,
            cePlanDisplayName = (case pl of None \<Rightarrow> ''-'' | Some p \<Rightarrow> PLAN_DISPLAY_NAME p),
            ceActive = active,
            ceFeatures = (\<lambda>f. case override_for (db w) c f of
                Some o' \<Rightarrow> \<lparr>fsEnabled = foEnabled o', fsSource = ADMIN_OVERRIDE\<rparr>
              | None \<Rightarrow> \<lparr>fsEnabled = active \<and> f \<in> set planFeatures, fsSource = PACKAGE\<rparr>),
            ceLimits = (case base of None \<Rightarrow> ZERO_LIMITS | Some b \<Rightarrow> peLimits b)\<rparr>))"

definition entCompanyId :: "uuid \<Rightarrow> uuid service" where
  "entCompanyId i =
     bindE (gets (\<lambda>w. recruiterOf (db w) i)) (\<lambda>found.
     bindE (someOr (ForbiddenException ''no-company'') found) (\<lambda>r. ret (recCompanyId r)))"

definition getEntitlementsForUser :: "env \<Rightarrow> uuid \<Rightarrow> company_entitlements service" where
  "getEntitlementsForUser env i = bindE (entCompanyId i) (getEntitlementsForCompany env)"

definition hasFeatureForCompany :: "env \<Rightarrow> uuid \<Rightarrow> feature \<Rightarrow> bool service" where
  "hasFeatureForCompany env c f =
     bindE (getEntitlementsForCompany env c) (\<lambda>e. ret (fsEnabled (ceFeatures e f)))"

definition hasFeatureForUser :: "env \<Rightarrow> uuid \<Rightarrow> feature \<Rightarrow> bool service" where
  "hasFeatureForUser env i f =
     bindE (getEntitlementsForUser env i) (\<lambda>e. ret (fsEnabled (ceFeatures e f)))"

definition getLimit :: "plan \<Rightarrow> limit_key \<Rightarrow> int option" where
  "getLimit pl k = peLimits (entitlementsForPlan pl) k"

definition countUsers :: "uuid \<Rightarrow> int service" where
  "countUsers c = gets (\<lambda>w. count_where (\<lambda>r. recCompanyId r = c) (recruiters (db w)))"

section \<open>Overrides\<close>

definition find_override :: "uuid \<Rightarrow> feature \<Rightarrow> db \<Rightarrow> feature_override option" where
  "find_override c f d =
     List.find (\<lambda>o'. foCompanyId o' = c \<and> foFeature o' = f) (featureOverrides d)"

definition setOverride ::
  "uuid \<Rightarrow> feature \<Rightarrow> bool \<Rightarrow> uuid \<Rightarrow> string option \<Rightarrow> feature_override service" where
  "setOverride c f enabled actor note =
     bindE (gets (\<lambda>w. find_override c f (db w))) (\<lambda>existing.
     case existing of
       Some o' \<Rightarrow> saveOverride (o'\<lparr>foEnabled := enabled, foActorId := Some actor, foNote := note\<rparr>)
     | None \<Rightarrow>
         bindE freshId (\<lambda>i.
         saveOverride \<lparr>foId = i, foCompanyId = c, foFeature = f, foEnabled = enabled,
           foActorId = Some actor, foNote = note\<rparr>))"

definition clearOverride :: "uuid \<Rightarrow> feature \<Rightarrow> unit service" where
  "clearOverride c f =
     bindE (gets (\<lambda>w. find_override c f (db w))) (\<lambda>existing.
     bindE (someOr (NotFoundException ''override'') existing) (\<lambda>o'.
     modify (\<lambda>w. w\<lparr>db := (db w)\<lparr>featureOverrides :=
       delete_where (\<lambda>x. foId x = foId o') (featureOverrides (db w))\<rparr>\<rparr>)))"

section \<open>The guard\<close>

definition featureGuard :: "env \<Rightarrow> feature option \<Rightarrow> jwt_payload option \<Rightarrow> bool service" where
  "featureGuard env feature user =
     (case feature of
        None \<Rightarrow> ret True
      | Some f \<Rightarrow>
          (case user of
             None \<Rightarrow> throw (FeatureNotAvailableException f)
           | Some u \<Rightarrow>
               bindE (hasFeatureForUser env (jwtSub u) f) (\<lambda>allowed.
               bindE (require allowed (FeatureNotAvailableException f)) (\<lambda>_. ret True))))"

section \<open>Lemmas\<close>

lemma hasFeatureForCompany_eq:
  "hasFeatureForCompany env c f w =
     (Inr (case override_for (db w) c f of
         Some o' \<Rightarrow> foEnabled o'
       | None \<Rightarrow> company_active env (db w) c \<and>
           (\<exists>s. latest_subscription (db w) c = Some s \<and> f \<in> set (peFeatures (PLAN_ENTITLEMENTS (subPlan s))))), w)"
  by (cases "latest_subscription (db w) c")
    (auto simp: hasFeatureForCompany_def getEntitlementsForCompany_def Let_def
      entitlementsForPlan_def split: option.split)

lemma hasFeatureForUser_eq:
  "hasFeatureForUser env i f w =
     (case recruiterOf (db w) i of None \<Rightarrow> (Inl (ForbiddenException ''no-company''), w)
      | Some r \<Rightarrow> hasFeatureForCompany env (recCompanyId r) f w)"
  by (simp add: hasFeatureForUser_def getEntitlementsForUser_def entCompanyId_def
      hasFeatureForCompany_def eff_simps split: option.split)

definition override_key :: "feature_override \<Rightarrow> (uuid \<times> feature) option" where
  "override_key r = Some (foCompanyId r, foFeature r)"

definition overrides_ok :: "world \<Rightarrow> bool" where
  "overrides_ok w \<longleftrightarrow> index_ok override_key (featureOverrides (db w)) \<and>
     distinct (map foId (featureOverrides (db w))) \<and>
     (\<forall>o' \<in> set (featureOverrides (db w)). foId o' < nextId w)"

lemma override_for_iff:
  assumes "overrides_ok w"
  shows "override_for (db w) c f = Some o' \<longleftrightarrow>
    o' \<in> set (featureOverrides (db w)) \<and> foCompanyId o' = c \<and> foFeature o' = f"
proof
  assume "override_for (db w) c f = Some o'"
  then show "o' \<in> set (featureOverrides (db w)) \<and> foCompanyId o' = c \<and> foFeature o' = f"
    unfolding override_for_def by (auto dest: find_SomeD)
next
  assume o': "o' \<in> set (featureOverrides (db w)) \<and> foCompanyId o' = c \<and> foFeature o' = f"
  then obtain x where x: "override_for (db w) c f = Some x"
    unfolding override_for_def
    by (cases "List.find (\<lambda>o'. foFeature o' = f) (rev (filter (\<lambda>o'. foCompanyId o' = c) (featureOverrides (db w))))")
      (auto simp: find_None_iff)
  then have "x \<in> set (featureOverrides (db w)) \<and> foCompanyId x = c \<and> foFeature x = f"
    unfolding override_for_def by (auto dest: find_SomeD)
  with o' assms have "x = o'"
    unfolding overrides_ok_def
    by (intro index_ok_unique [of override_key _ x o' "(c, f)"]) (auto simp: override_key_def)
  with x show "override_for (db w) c f = Some o'" by simp
qed

lemma override_for_None:
  assumes "overrides_ok w"
  shows "override_for (db w) c f = None \<longleftrightarrow>
    (\<forall>o' \<in> set (featureOverrides (db w)). foCompanyId o' \<noteq> c \<or> foFeature o' \<noteq> f)"
  using override_for_iff [OF assms] by (metis not_Some_eq)

lemma setOverride_outcome:
  assumes ok: "overrides_ok w" and run: "setOverride c f b actor note w = (r, w')"
  shows "(\<exists>o'. r = Inr o' \<and> foCompanyId o' = c \<and> foFeature o' = f \<and> foEnabled o' = b \<and>
      set (featureOverrides (db w')) = insert o'
        {x \<in> set (featureOverrides (db w)). foCompanyId x \<noteq> c \<or> foFeature x \<noteq> f}) \<and>
    overrides_ok w' \<and>
    subscriptions (db w') = subscriptions (db w) \<and> recruiters (db w') = recruiters (db w)"
proof (cases "find_override c f (db w)")
  case (Some o')
  let ?t = "featureOverrides (db w)"
  let ?n = "o'\<lparr>foEnabled := b, foActorId := Some actor, foNote := note\<rparr>"
  from Some have o': "o' \<in> set ?t" "foCompanyId o' = c" "foFeature o' = f"
    unfolding find_override_def by (auto dest: find_SomeD)
  have key: "x = o'" if "x \<in> set ?t" "foId x = foId o'" for x
    using ok o'(1) that by (auto simp: overrides_ok_def distinct_map inj_on_def)
  have key2: "foId x = foId o' \<longleftrightarrow> foCompanyId x = c \<and> foFeature x = f" if "x \<in> set ?t" for x
    using key [OF that] o' ok that index_ok_unique [of override_key ?t x o' "(c, f)"]
    by (auto simp: overrides_ok_def override_key_def)
  have "upsert foId ?n ?t = map (\<lambda>x. if foId x = foId o' then ?n else x) ?t"
    using o'(1) by (auto simp: upsert_def update_where_def)
  also have "index_keys override_key \<dots> = index_keys override_key ?t"
    by (rule index_keys_cong) (use key in \<open>auto simp: override_key_def\<close>)
  finally have ix: "index_ok override_key (upsert foId ?n ?t)"
    using ok by (simp add: overrides_ok_def index_ok_def)
  then have "override_violated (upsert foId ?n ?t) = None"
    by (simp add: override_violated_def override_key_def [abs_def])
  with run Some have r: "r = Inr ?n" and w': "w' = w\<lparr>db := (db w)\<lparr>featureOverrides := upsert foId ?n ?t\<rparr>\<rparr>"
    by (auto simp: setOverride_def saveOverride_def save_into_def checked_save_def)
  have "set (upsert foId ?n ?t) = insert ?n {x \<in> set ?t. foCompanyId x \<noteq> c \<or> foFeature x \<noteq> f}"
    using key2 by (auto simp: set_upsert)
  moreover have "overrides_ok w'"
    using ok ix o'(1) by (auto simp: overrides_ok_def w' distinct_upsert set_upsert)
  ultimately show ?thesis using r w' o' by simp
next
  case None
  let ?t = "featureOverrides (db w)"
  let ?n = "\<lparr>foId = nextId w, foCompanyId = c, foFeature = f, foEnabled = b,
           foActorId = Some actor, foNote = note\<rparr>"
  from None have no: "\<forall>x \<in> set ?t. foCompanyId x \<noteq> c \<or> foFeature x \<noteq> f"
    unfolding find_override_def by (auto simp: find_None_iff)
  have app: "upsert foId ?n ?t = ?t @ [?n]"
    using ok by (intro upsert_new) (auto simp: overrides_ok_def)
  have ix: "index_ok override_key (?t @ [?n])"
    using ok no by (auto simp: overrides_ok_def index_ok_def set_index_keys override_key_def)
  then have "override_violated (?t @ [?n]) = None"
    by (simp add: override_violated_def override_key_def [abs_def])
  with run None app have r: "r = Inr ?n"
    and w': "w' = w\<lparr>nextId := Suc (nextId w), db := (db w)\<lparr>featureOverrides := ?t @ [?n]\<rparr>\<rparr>"
    by (auto simp: setOverride_def saveOverride_def save_into_def checked_save_def freshId_def bindE_def)
  moreover have "overrides_ok w'"
    using ok ix by (auto simp: overrides_ok_def w')
  ultimately show ?thesis using no by auto
qed

lemma clearOverride_outcome:
  assumes ok: "overrides_ok w" and run: "clearOverride c f w = (Inr u, w')"
  shows "set (featureOverrides (db w')) =
      {x \<in> set (featureOverrides (db w)). foCompanyId x \<noteq> c \<or> foFeature x \<noteq> f} \<and>
    overrides_ok w' \<and>
    subscriptions (db w') = subscriptions (db w) \<and> recruiters (db w') = recruiters (db w)"
proof -
  let ?t = "featureOverrides (db w)"
  from run obtain o' where f: "find_override c f (db w) = Some o'"
    and w': "w' = w\<lparr>db := (db w)\<lparr>featureOverrides := delete_where (\<lambda>x. foId x = foId o') ?t\<rparr>\<rparr>"
    unfolding clearOverride_def by (auto simp: returns)
  from f have o': "o' \<in> set ?t" "foCompanyId o' = c" "foFeature o' = f"
    unfolding find_override_def by (auto dest: find_SomeD)
  have key2: "foId x = foId o' \<longleftrightarrow> foCompanyId x = c \<and> foFeature x = f" if "x \<in> set ?t" for x
    using o' ok that index_ok_unique [of override_key ?t x o' "(c, f)"]
    by (auto simp: overrides_ok_def override_key_def distinct_map inj_on_def)
  have "distinct (map foId (delete_where (\<lambda>x. foId x = foId o') ?t))"
    using ok by (simp add: overrides_ok_def delete_where_def distinct_map_filter)
  then show ?thesis using ok key2 index_ok_delete [of override_key ?t]
    by (auto simp: w' overrides_ok_def)
qed

end
