(* ===== verification/Subscription_Admin.thy ===== *)
theory Subscription_Admin
  imports Quota
begin

text \<open>
  Staff tooling on subscriptions: \<open>companies/subscription-admin.service.ts\<close>. The listing of
  assignable companies (a locale-dependent sort of a report) is left out. The lemmas show which
  of the operations refine the subscription machine of \<open>Lifecycle\<close>.
\<close>

definition LIVE_STATUSES :: "sub_status list" where
  "LIVE_STATUSES = [TRIAL, ACTIVE, PAST_DUE, SUSPENDED]"

record admin_subscription_row =
  asId :: uuid
  asCompanyId :: uuid
  asCompanyName :: string
  asPlan :: plan
  asStatus :: sub_status
  asStartsAt :: date
  asEndsAt :: "date option"
  asContactQuota :: int
  asContactsUsed :: int
  asCancelAtPeriodEnd :: bool
  asPastDueSince :: "date option"

definition companyName :: "db \<Rightarrow> uuid \<Rightarrow> string" where
  "companyName d c =
     (case List.find (\<lambda>co. coId co = c) (companies d) of None \<Rightarrow> ''-'' | Some co \<Rightarrow> coName co)"

definition toRow :: "db \<Rightarrow> subscription \<Rightarrow> admin_subscription_row" where
  "toRow d s = \<lparr>asId = subId s, asCompanyId = subCompanyId s,
     asCompanyName = companyName d (subCompanyId s), asPlan = subPlan s, asStatus = subStatus s,
     asStartsAt = startsAt s, asEndsAt = endsAt s, asContactQuota = contactQuota s,
     asContactsUsed = contactsUsed s, asCancelAtPeriodEnd = cancelAtPeriodEnd s,
     asPastDueSince = pastDueSince s\<rparr>"

definition loadSubscription :: "uuid \<Rightarrow> subscription service" where
  "loadSubscription i =
     bindE (gets (\<lambda>w. List.find (\<lambda>s. subId s = i) (subscriptions (db w))))
       (someOr (NotFoundException ''subscription''))"

text \<open>The overview: rows by status, newest first, and a count per status over all rows.\<close>

definition all_statuses :: "sub_status list" where
  "all_statuses = [TRIAL, ACTIVE, PAST_DUE, SUSPENDED, CANCELLED, EXPIRED]"

definition listSubscriptions ::
  "sub_status option \<Rightarrow> (admin_subscription_row list \<times> (sub_status \<times> int) list) service" where
  "listSubscriptions st =
     gets (\<lambda>w. (map (toRow (db w)) (newest_first subCreatedAt (filter
         (\<lambda>s. case st of None \<Rightarrow> True | Some x \<Rightarrow> subStatus s = x) (subscriptions (db w)))),
       map (\<lambda>x. (x, count_where (\<lambda>s. subStatus s = x) (subscriptions (db w)))) all_statuses))"

definition saveRow :: "subscription \<Rightarrow> admin_subscription_row service" where
  "saveRow s = bindE (saveSubscription s) (\<lambda>saved. gets (\<lambda>w. toRow (db w) saved))"

definition adminCancel :: "env \<Rightarrow> uuid \<Rightarrow> admin_subscription_row service" where
  "adminCancel env i =
     bindE (loadSubscription i) (\<lambda>s.
     saveRow (s\<lparr>subStatus := CANCELLED, endsAt := Some (now env), cancelAtPeriodEnd := False\<rparr>))"

definition adminSuspend :: "uuid \<Rightarrow> admin_subscription_row service" where
  "adminSuspend i =
     bindE (loadSubscription i) (\<lambda>s.
     bindE (require (subStatus s \<notin> {CANCELLED, EXPIRED}) (BadRequestException ''terminal'')) (\<lambda>_.
     bindE (require (subStatus s \<noteq> SUSPENDED) (BadRequestException ''already-suspended'')) (\<lambda>_.
     saveRow (s\<lparr>subStatus := SUSPENDED, cancelAtPeriodEnd := False\<rparr>))))"

definition live_elsewhere :: "subscription \<Rightarrow> subscription \<Rightarrow> bool" where
  "live_elsewhere s x \<longleftrightarrow> subCompanyId x = subCompanyId s \<and> subId x \<noteq> subId s \<and>
     (subStatus x = ACTIVE \<or> subStatus x = TRIAL)"

definition adminReactivate :: "uuid \<Rightarrow> admin_subscription_row service" where
  "adminReactivate i =
     bindE (loadSubscription i) (\<lambda>s.
     bindE (require (subStatus s = SUSPENDED) (BadRequestException ''not-suspended'')) (\<lambda>_.
     bindE (gets (\<lambda>w. count_where (live_elsewhere s) (subscriptions (db w)))) (\<lambda>n.
     bindE (require (\<not> 0 < n) (ConflictException ''already-live'')) (\<lambda>_.
     saveRow (s\<lparr>subStatus := ACTIVE\<rparr>)))))"

definition resolveQuota :: "env \<Rightarrow> plan \<Rightarrow> int option \<Rightarrow> int service" where
  "resolveQuota env pl override =
     (case override of
        Some q \<Rightarrow> ret q
      | None \<Rightarrow>
          bindE (require (pl \<noteq> ENTERPRISE) (BadRequestException ''enterprise-quota-required''))
            (\<lambda>_. resolveContactQuotaForPlan env pl))"

definition live_row :: "db \<Rightarrow> uuid \<Rightarrow> subscription option" where
  "live_row d c =
     find_latest subCreatedAt (\<lambda>s. subCompanyId s = c \<and> subStatus s \<in> set LIVE_STATUSES) (subscriptions d)"

definition assigned_row :: "plan \<Rightarrow> int \<Rightarrow> subscription \<Rightarrow> subscription" where
  "assigned_row pl quota s =
     s\<lparr>subPlan := pl, contactQuota := quota, subStatus := ACTIVE, cancelAtPeriodEnd := False,
       pastDueSince := None, endsAt := None\<rparr>"

definition assignPlan :: "env \<Rightarrow> uuid \<Rightarrow> plan \<Rightarrow> int option \<Rightarrow> admin_subscription_row service" where
  "assignPlan env c pl override =
     bindE (gets (\<lambda>w. List.find (\<lambda>co. coId co = c) (companies (db w)))) (\<lambda>found.
     bindE (someOr (NotFoundException ''company'') found) (\<lambda>_.
     bindE (resolveQuota env pl override) (\<lambda>quota.
     bindE (gets (\<lambda>w. live_row (db w) c)) (\<lambda>existing.
     case existing of
       Some s \<Rightarrow> saveRow (assigned_row pl quota s)
     | None \<Rightarrow>
         bindE freshId (\<lambda>i.
         saveRow \<lparr>subId = i, subCompanyId = c, subPlan = pl, subStatus = ACTIVE,
           externalSubscriptionId = None, startsAt = now env, endsAt = None, contactQuota = quota,
           contactsUsed = 0, quotaResetAt = None, pastDueSince = None, cancelAtPeriodEnd = False,
           subCreatedAt = now env\<rparr>)))))"

section \<open>What they do\<close>

lemma loadSubscription_returns [returns]:
  "loadSubscription i w = (Inr s, w') \<longleftrightarrow>
     List.find (\<lambda>s. subId s = i) (subscriptions (db w)) = Some s \<and> w' = w"
  by (auto simp: loadSubscription_def returns)

lemma saveRow_returns [returns]:
  "saveRow s w = (Inr x, w') \<longleftrightarrow>
     sub_violated (upsert subId s (subscriptions (db w))) = None \<and>
     w' = w\<lparr>db := (db w)\<lparr>subscriptions := upsert subId s (subscriptions (db w))\<rparr>\<rparr> \<and>
     x = toRow (db w') s"
  by (auto simp: saveRow_def returns save_Inr)

lemma saveRow_throws: "saveRow s w = (Inl e, w') \<Longrightarrow> w' = w"
  by (auto simp: saveRow_def bindE_throws saveSubscription_def save_into_Inl)

text \<open>The four operations, as one type of requests.\<close>

datatype admin_op =
  CancelSub uuid | SuspendSub uuid | ReactivateSub uuid | AssignPlan uuid plan "int option"

fun runAdmin :: "env \<Rightarrow> admin_op \<Rightarrow> admin_subscription_row service" where
  "runAdmin env (CancelSub i) = adminCancel env i"
| "runAdmin env (SuspendSub i) = adminSuspend i"
| "runAdmin env (ReactivateSub i) = adminReactivate i"
| "runAdmin env (AssignPlan c pl q) = assignPlan env c pl q"

text \<open>Cancelling an expired row is the one move outside the lifecycle table.\<close>

definition cancels_expired :: "admin_op \<Rightarrow> db \<Rightarrow> bool" where
  "cancels_expired op d \<longleftrightarrow>
     (\<exists>s \<in> set (subscriptions d). op = CancelSub (subId s) \<and> subStatus s = EXPIRED)"

lemma admin_throws_db:
  assumes "runAdmin env op w = (Inl e, w')"
  shows "db w' = db w \<and> nextId w \<le> nextId w'"
proof (cases op)
  case (AssignPlan c pl q)
  with assms show ?thesis
    by (auto simp: assignPlan_def bindE_throws resolveQuota_def resolveContactQuotaForPlan_def
        require_apply someOr_apply freshId_def
        split: option.splits if_splits dest!: saveRow_throws)
qed (use assms in \<open>auto simp: adminCancel_def adminSuspend_def adminReactivate_def loadSubscription_def
    bindE_throws require_apply someOr_apply split: option.splits if_splits dest!: saveRow_throws\<close>)

lemma resolveQuota_world: "resolveQuota env pl q w = (Inr x, w') \<Longrightarrow> w' = w"
  by (auto simp: resolveQuota_def returns resolveContactQuota_Inr split: option.splits)

lemma admin_sub_step:
  assumes wf: "wf_subs (nextId w) (subscriptions (db w))" and run: "runAdmin env op w = (Inr x, w')"
    and ne: "\<not> cancels_expired op (db w)"
  shows "sub_step (nextId w) (subscriptions (db w)) (subscriptions (db w')) \<and>
    (\<forall>s \<in> set (subscriptions (db w')). subId s < nextId w') \<and> nextId w \<le> nextId w' \<and>
    db w' = (db w)\<lparr>subscriptions := subscriptions (db w')\<rparr>"
proof -
  have move: ?thesis
    if "s \<in> set (subscriptions (db w))" "same_subscription s s'" "status_ok (subStatus s) (subStatus s')"
      "saveRow s' w = (Inr x, w')" for s s'
    using sub_changed [OF wf that(1-3)] that(4) by (auto simp: returns)
  show ?thesis
  proof (cases op)
    case (CancelSub i)
    with run obtain s where f: "List.find (\<lambda>s. subId s = i) (subscriptions (db w)) = Some s"
      and sv: "saveRow (s\<lparr>subStatus := CANCELLED, endsAt := Some (now env), cancelAtPeriodEnd := False\<rparr>) w = (Inr x, w')"
      by (auto simp: adminCancel_def returns)
    have s: "s \<in> set (subscriptions (db w))" "subId s = i" using find_SomeD [OF f] by auto
    then have "subStatus s \<noteq> EXPIRED" using ne CancelSub by (auto simp: cancels_expired_def)
    then have "status_ok (subStatus s) CANCELLED" by (cases "subStatus s") (auto simp: status_ok_def)
    with move [OF s(1) _ _ sv] show ?thesis by (simp add: same_subscription_def)
  next
    case (SuspendSub i)
    with run obtain s where f: "List.find (\<lambda>s. subId s = i) (subscriptions (db w)) = Some s"
      and st: "subStatus s \<noteq> CANCELLED" "subStatus s \<noteq> EXPIRED"
      and sv: "saveRow (s\<lparr>subStatus := SUSPENDED, cancelAtPeriodEnd := False\<rparr>) w = (Inr x, w')"
      by (auto simp: adminSuspend_def bindE_returns require_Inr loadSubscription_returns)
    have "status_ok (subStatus s) SUSPENDED" using st by (cases "subStatus s") (auto simp: status_ok_def)
    moreover have "s \<in> set (subscriptions (db w))" using find_SomeD [OF f] by simp
    ultimately show ?thesis using move [OF _ _ _ sv] by (simp add: same_subscription_def)
  next
    case (ReactivateSub i)
    with run obtain s where f: "List.find (\<lambda>s. subId s = i) (subscriptions (db w)) = Some s"
      and st: "subStatus s = SUSPENDED" and sv: "saveRow (s\<lparr>subStatus := ACTIVE\<rparr>) w = (Inr x, w')"
      by (auto simp: adminReactivate_def bindE_returns require_Inr loadSubscription_returns)
    have "s \<in> set (subscriptions (db w))" using find_SomeD [OF f] by simp
    with move [OF _ _ _ sv] st show ?thesis by (simp add: same_subscription_def status_ok_def)
  next
    case (AssignPlan c pl q)
    show ?thesis
    proof (cases "live_row (db w) c")
      case (Some s)
      with run AssignPlan obtain quota where sv: "saveRow (assigned_row pl quota s) w = (Inr x, w')"
        by (auto simp: assignPlan_def bindE_returns dest!: resolveQuota_world)
      have s: "s \<in> set (subscriptions (db w))" "subStatus s \<in> set LIVE_STATUSES"
        using Some unfolding live_row_def by (auto dest: find_latest_Some)
      then have "status_ok (subStatus s) ACTIVE" by (auto simp: LIVE_STATUSES_def status_ok_def)
      with move [OF s(1) _ _ sv] show ?thesis by (simp add: same_subscription_def assigned_row_def)
    next
      case None
      with run AssignPlan obtain s where sv: "saveRow s (w\<lparr>nextId := Suc (nextId w)\<rparr>) = (Inr x, w')"
        and s: "subId s = nextId w" "subStatus s = ACTIVE"
        by (auto simp: assignPlan_def bindE_returns freshId_Inr dest!: resolveQuota_world)
      from sub_opened [OF wf s(1), of "Suc (nextId w)"] sv s(2) show ?thesis
        by (auto simp: returns)
    qed
  qed
qed

text \<open>Replacing one row under its key.\<close>

lemma upsert_split:
  assumes "distinct (map pk t)" "t = a @ s # b" "pk s' = pk s"
  shows "upsert pk s' t = a @ s' # b"
proof -
  have "update_where (\<lambda>x. pk x = pk s') (\<lambda>_. s') u = u" if "pk s' \<notin> pk ` set u" for u
    using that by (induction u) auto
  moreover have "pk s' \<notin> pk ` set a" "pk s' \<notin> pk ` set b" using assms by auto
  ultimately show ?thesis using assms(2,3) by (simp add: upsert_def) (simp add: update_where_def)
qed

lemma reactivation_unviolated:
  assumes wf: "wf_subs n t" and s: "s \<in> set t" "subStatus s = SUSPENDED"
    and free: "\<forall>x \<in> set t. \<not> live_elsewhere s x"
  shows "index_ok subscription_active_key (upsert subId (s\<lparr>subStatus := ACTIVE\<rparr>) t)"
proof -
  obtain a b where t: "t = a @ s # b" using s(1) by (meson split_list)
  have d: "distinct (map subId t)" and ok: "index_ok subscription_active_key t"
    using wf by (simp_all add: wf_subs_def)
  have ids: "subId x \<noteq> subId s" if "x \<in> set a \<union> set b" for x
    using d t that by (auto simp: image_iff)
  have nokey: "subCompanyId s \<notin> set (index_keys subscription_active_key a)"
    "subCompanyId s \<notin> set (index_keys subscription_active_key b)"
    using free ids unfolding t set_index_keys
    by (auto simp: subscription_active_key_def live_elsewhere_def split: if_splits)
  have up: "upsert subId (s\<lparr>subStatus := ACTIVE\<rparr>) t = a @ s\<lparr>subStatus := ACTIVE\<rparr> # b"
    by (rule upsert_split [OF d t]) simp
  have "distinct (index_keys subscription_active_key a @ index_keys subscription_active_key b)"
    using ok s(2) unfolding t index_ok_def by (simp add: subscription_active_key_def)
  with nokey show ?thesis
    unfolding up index_ok_def by (simp add: subscription_active_key_def)
qed

text \<open>The check before a reactivation is the unique index, read in advance: when it passes, the
  save cannot be refused.\<close>

lemma adminReactivate_eq:
  assumes wf: "wf_subs n (subscriptions (db w))"
    and f: "List.find (\<lambda>s. subId s = i) (subscriptions (db w)) = Some s"
    and st: "subStatus s = SUSPENDED"
  shows "adminReactivate i w =
    (if \<exists>x \<in> set (subscriptions (db w)). live_elsewhere s x
     then (Inl (ConflictException ''already-live''), w)
     else let s' = s\<lparr>subStatus := ACTIVE\<rparr>;
              w' = w\<lparr>db := (db w)\<lparr>subscriptions := upsert subId s' (subscriptions (db w))\<rparr>\<rparr>
          in (Inr (toRow (db w') s'), w'))"
proof -
  have "loadSubscription i w = (Inr s, w)" using f by (simp add: loadSubscription_returns)
  then have "adminReactivate i w =
    (if \<exists>x \<in> set (subscriptions (db w)). live_elsewhere s x
     then (Inl (ConflictException ''already-live''), w)
     else saveRow (s\<lparr>subStatus := ACTIVE\<rparr>) w)"
    using st unfolding count_where_pos [symmetric]
    by (simp add: adminReactivate_def require_apply bindE_def)
  moreover have "s \<in> set (subscriptions (db w))" using find_SomeD [OF f] by simp
  ultimately show ?thesis
    using reactivation_unviolated [OF wf _ st] by (auto simp: Let_def saveRow_returns)
qed

end
