(* ===== verification/Company_Props.thy ===== *)
theory Company_Props
  imports Entitlements Subscription_Admin Sample
begin

text \<open>
  The properties of entitlements and of staff operations on subscriptions.
\<close>

section \<open>Entitlements\<close>

text \<open>The plan matrix is monotone: a higher plan grants every feature of a lower one and no
  smaller limit.\<close>

theorem plan_matrix_monotone:
  "(p \<le> q \<longrightarrow> set (peFeatures (entitlementsForPlan p)) \<subseteq> set (peFeatures (entitlementsForPlan q)) \<and>
      (\<forall>k. limit_le (getLimit p k) (getLimit q k))) \<and>
   peDisplayName (entitlementsForPlan p) = PLAN_DISPLAY_NAME p"
  by (cases p; cases q)
    (auto simp: less_eq_plan_def entitlementsForPlan_def getLimit_def split: limit_key.split)

lemma plan_matrix_monotone_witness:
  "limit_le (getLimit STARTER MAX_EVALUATIONS_MONTH) (getLimit SCALE MAX_EVALUATIONS_MONTH)"
  using plan_matrix_monotone [of STARTER SCALE] by (simp add: less_eq_plan_def)

text \<open>An administrator's override decides its feature for its company, whatever the plan and the
  state of the subscription, and decides nothing else: every other feature and every other
  company is answered as before. Clearing an override that was newly set restores every answer.\<close>

theorem override_decides:
  assumes "overrides_ok w" "setOverride c f b actor note w = (r, w')"
  shows "fst (hasFeatureForCompany env c f w') = Inr b \<and>
    (\<forall>c' f'. (c', f') \<noteq> (c, f) \<longrightarrow>
       fst (hasFeatureForCompany env c' f' w') = fst (hasFeatureForCompany env c' f' w)) \<and>
    (\<forall>w''. override_for (db w) c f = None \<longrightarrow> clearOverride c f w' = (Inr (), w'') \<longrightarrow>
       (\<forall>c' f'. fst (hasFeatureForCompany env c' f' w'') = fst (hasFeatureForCompany env c' f' w)))"
proof -
  from setOverride_outcome [OF assms] obtain o' where
    o': "foCompanyId o' = c" "foFeature o' = f" "foEnabled o' = b"
    and t: "set (featureOverrides (db w')) = insert o'
        {x \<in> set (featureOverrides (db w)). foCompanyId x \<noteq> c \<or> foFeature x \<noteq> f}"
    and ok': "overrides_ok w'" and same: "subscriptions (db w') = subscriptions (db w)"
    by blast
  have mine: "override_for (db w') c f = Some o'"
    unfolding override_for_iff [OF ok'] using o' t by simp
  have other: "override_for (db w') c' f' = override_for (db w) c' f'" if "(c', f') \<noteq> (c, f)" for c' f'
  proof (cases "override_for (db w) c' f'")
    case None
    have "override_for (db w') c' f' = None"
      unfolding override_for_None [OF ok']
      using t o' that None [unfolded override_for_None [OF assms(1)]] by auto
    with None show ?thesis by simp
  next
    case (Some x)
    have "override_for (db w') c' f' = Some x"
      unfolding override_for_iff [OF ok']
      using t that Some [unfolded override_for_iff [OF assms(1)]] by auto
    with Some show ?thesis by simp
  qed
  have acc: "company_active env (db v) c' = company_active env (db w) c' \<and>
      latest_subscription (db v) c' = latest_subscription (db w) c'"
    if "subscriptions (db v) = subscriptions (db w)" for v c'
    using that by (simp add: company_active_def latest_subscription_def)
  have cleared: "fst (hasFeatureForCompany env c' f' w'') = fst (hasFeatureForCompany env c' f' w)"
    if none: "override_for (db w) c f = None" and cl: "clearOverride c f w' = (Inr (), w'')" for w'' c' f'
  proof -
    from clearOverride_outcome [OF ok' cl] t o' none have
      t'': "set (featureOverrides (db w'')) = set (featureOverrides (db w))"
      and ok'': "overrides_ok w''" and s'': "subscriptions (db w'') = subscriptions (db w)"
      using same by (auto simp: override_for_None [OF assms(1)])
    have "override_for (db w'') c' f' = override_for (db w) c' f'"
    proof (cases "override_for (db w) c' f'")
      case None
      have "override_for (db w'') c' f' = None"
        unfolding override_for_None [OF ok'']
        using t'' None [unfolded override_for_None [OF assms(1)]] by simp
      with None show ?thesis by simp
    next
      case (Some x)
      have "override_for (db w'') c' f' = Some x"
        unfolding override_for_iff [OF ok'']
        using t'' Some [unfolded override_for_iff [OF assms(1)]] by simp
      with Some show ?thesis by simp
    qed
    then show ?thesis using acc [OF s''] by (simp add: hasFeatureForCompany_eq split: option.split)
  qed
  have "fst (hasFeatureForCompany env c f w') = Inr b"
    using mine o'(3) by (simp add: hasFeatureForCompany_eq)
  moreover have "fst (hasFeatureForCompany env c' f' w') = fst (hasFeatureForCompany env c' f' w)"
    if "(c', f') \<noteq> (c, f)" for c' f'
    using other [OF that] acc [OF same] by (simp add: hasFeatureForCompany_eq split: option.split)
  ultimately show ?thesis using cleared by blast
qed

lemma override_decides_witness:
  "\<exists>w'. setOverride 10 API_ACCESS True 1 None world0 = (Inr \<lparr>foId = 100, foCompanyId = 10,
       foFeature = API_ACCESS, foEnabled = True, foActorId = Some 1, foNote = None\<rparr>, w') \<and>
     fst (hasFeatureForCompany env0 10 API_ACCESS world0) = Inr False \<and>
     fst (hasFeatureForCompany env0 10 API_ACCESS w') = Inr True"
proof -
  let ?o = "\<lparr>foId = 100, foCompanyId = 10, foFeature = API_ACCESS, foEnabled = True,
    foActorId = Some 1, foNote = None\<rparr>"
  have "fst (setOverride 10 API_ACCESS True 1 None world0) = Inr ?o" by code_simp
  then obtain w' where run: "setOverride 10 API_ACCESS True 1 None world0 = (Inr ?o, w')"
    by (metis prod.collapse)
  have ok: "overrides_ok world0" by (simp add: overrides_ok_def sample_defs)
  have "fst (hasFeatureForCompany env0 10 API_ACCESS world0) = Inr False" by code_simp
  with override_decides [OF ok run] run show ?thesis by blast
qed

text \<open>The feature guard and the subscription guard agree: when a request passes the feature
  guard for a feature without an override, its company passes the subscription guard too, and the
  plan of the company's latest subscription grants the feature; no request without a session passes
  a guarded route.\<close>

theorem feature_guard_implies_access:
  assumes "featureGuard env (Some f) user w = (Inr True, w')"
  shows "\<exists>u rc. user = Some u \<and> recruiterOf (db w) (jwtSub u) = Some rc \<and> w' = w \<and>
    (override_for (db w) (recCompanyId rc) f = None \<longrightarrow>
       assertActiveSubscription env (jwtSub u) w = (Inr (recCompanyId rc), w) \<and>
       (\<exists>s. latest_subscription (db w) (recCompanyId rc) = Some s \<and>
          f \<in> set (peFeatures (entitlementsForPlan (subPlan s)))))"
proof -
  from assms obtain u where u: "user = Some u" unfolding featureGuard_def by (cases user) auto
  with assms obtain w1 where hf: "hasFeatureForUser env (jwtSub u) f w = (Inr True, w1)" and w': "w' = w1"
    unfolding featureGuard_def by (auto simp: returns)
  from hf obtain rc where rc: "recruiterOf (db w) (jwtSub u) = Some rc"
    unfolding hasFeatureForUser_eq by (auto split: option.splits)
  with hf show ?thesis
    using u w' unfolding hasFeatureForUser_eq hasFeatureForCompany_eq
    by (auto simp: assertActive_apply company_active_def entitlementsForPlan_def split: option.splits)
qed

lemma feature_guard_implies_access_witness:
  "assertActiveSubscription env0 1 world0 = (Inr 10, world0)"
proof -
  let ?u = "\<lparr>jwtSub = 1, jwtEmail = ''r@x'', jwtRoles = [RECRUITER], jwtMfa = None\<rparr>"
  have "featureGuard env0 (Some EVALUATIONS) (Some ?u) world0 = (Inr True, world0)"
    by (simp add: featureGuard_def hasFeatureForUser_eq hasFeatureForCompany_eq require_apply
        recruiterOf_def override_for_def company_active_def latest_subscription_def find_latest_def
        isSubscriptionWithinAccess_def BASE_FEATURES_def sample_defs bindE_def)
  from feature_guard_implies_access [OF this] show ?thesis
    by (auto simp: recruiterOf_def override_for_def sample_defs)
qed

section \<open>Staff operations on subscriptions\<close>

text \<open>C8: the staff operations (suspend, reactivate, assign a plan, cancel) refine the subscription
  machine, with one exception. An operation that fails changes no table. One that succeeds moves a
  single row along \<open>SUBSCRIPTION_STATUS_TRANSITIONS\<close> or opens one active row, keeps the table
  well-formed and touches no other table, unless it is the cancellation of an expired row.\<close>

theorem admin_refines_lifecycle:
  assumes "wf_subs (nextId w) (subscriptions (db w))" "runAdmin env op w = (r, w')"
    "\<not> cancels_expired op (db w)"
  shows "sub_step (nextId w) (subscriptions (db w)) (subscriptions (db w')) \<and>
    wf_subs (nextId w') (subscriptions (db w')) \<and>
    lifecycle (subscriptions (db w)) (subscriptions (db w')) \<and>
    db w' = (db w)\<lparr>subscriptions := subscriptions (db w')\<rparr>"
proof (cases r)
  case (Inl e)
  with admin_throws_db assms(2) have "db w' = db w" "nextId w \<le> nextId w'" by blast+
  with assms(1) show ?thesis by (simp add: idle wf_subs_mono)
next
  case (Inr x)
  with admin_sub_step [OF assms(1) _ assms(3)] assms(2) have
    st: "sub_step (nextId w) (subscriptions (db w)) (subscriptions (db w'))"
    "\<forall>s \<in> set (subscriptions (db w')). subId s < nextId w'" "nextId w \<le> nextId w'"
    "db w' = (db w)\<lparr>subscriptions := subscriptions (db w')\<rparr>" by blast+
  then show ?thesis
    using sub_step_wf [OF st(1) assms(1) st(3)] sub_step_lifecycle [OF st(1) assms(1)] by blast
qed

lemma world0_subs: "wf_subs 100 (subscriptions (db world0))"
  by (simp add: wf_subs_def sample_defs index_ok_def subscription_active_key_def)

lemma admin_refines_lifecycle_witness:
  "\<exists>r w'. runAdmin env0 (SuspendSub 30) world0 = (r, w') \<and>
     lifecycle (subscriptions (db world0)) (subscriptions (db w'))"
proof -
  obtain r w' where run: "runAdmin env0 (SuspendSub 30) world0 = (r, w')" by fastforce
  have "nextId world0 = 100" "\<not> cancels_expired (SuspendSub 30) (db world0)"
    by (simp_all add: cancels_expired_def world0_def)
  with admin_refines_lifecycle [OF _ run] world0_subs run show ?thesis by auto
qed

text \<open>The exception is real: a staff cancellation takes an expired row to cancelled, a move the
  lifecycle table does not contain, since the operation never consults it.\<close>

theorem admin_cancels_expired:
  assumes "wf_subs n (subscriptions (db w))" "s \<in> set (subscriptions (db w))" "subStatus s = EXPIRED"
  shows "\<exists>x w'. runAdmin env (CancelSub (subId s)) w = (Inr x, w') \<and> asStatus x = CANCELLED \<and>
    CANCELLED \<notin> set (subscription_status_transitions (subStatus s))"
proof -
  let ?s = "s\<lparr>subStatus := CANCELLED, endsAt := Some (now env), cancelAtPeriodEnd := False\<rparr>"
  obtain a b where t: "subscriptions (db w) = a @ s # b" using assms(2) by (meson split_list)
  have d: "distinct (map subId (subscriptions (db w)))"
    and ok: "index_ok subscription_active_key (subscriptions (db w))"
    using assms(1) by (simp_all add: wf_subs_def)
  have f: "List.find (\<lambda>x. subId x = subId s) (subscriptions (db w)) = Some s"
  proof (cases "List.find (\<lambda>x. subId x = subId s) (subscriptions (db w))")
    case None
    then show ?thesis using assms(2) by (auto simp: find_None_iff)
  next
    case (Some x)
    then show ?thesis using d assms(2) find_SomeD [OF Some] by (auto simp: distinct_map inj_on_def)
  qed
  have "upsert subId ?s (subscriptions (db w)) = a @ ?s # b" by (rule upsert_split [OF d t]) simp
  then have "index_ok subscription_active_key (upsert subId ?s (subscriptions (db w)))"
    using ok assms(3) unfolding t by (simp add: index_ok_def subscription_active_key_def)
  then have "saveRow ?s w = (Inr (toRow (db w\<lparr>subscriptions := upsert subId ?s (subscriptions (db w))\<rparr>) ?s),
      w\<lparr>db := (db w)\<lparr>subscriptions := upsert subId ?s (subscriptions (db w))\<rparr>\<rparr>)"
    by (simp add: saveRow_returns)
  then show ?thesis using f assms(3)
    by (auto simp: adminCancel_def loadSubscription_def toRow_def)
qed

lemma admin_cancels_expired_witness:
  "\<exists>x w'. runAdmin env0 (CancelSub 30)
      (world0\<lparr>db := db0\<lparr>subscriptions := [sub0\<lparr>subStatus := EXPIRED\<rparr>]\<rparr>\<rparr>) = (Inr x, w')"
proof -
  let ?w = "world0\<lparr>db := db0\<lparr>subscriptions := [sub0\<lparr>subStatus := EXPIRED\<rparr>]\<rparr>\<rparr>"
  have "wf_subs 100 (subscriptions (db ?w))" "sub0\<lparr>subStatus := EXPIRED\<rparr> \<in> set (subscriptions (db ?w))"
    by (simp_all add: wf_subs_def sub0_def index_ok_def subscription_active_key_def)
  from admin_cancels_expired [OF this, of env0] show ?thesis by (auto simp: sub0_def)
qed

end
