(* ===== verification/Frames.thy ===== *)
theory Frames
  imports Repo
begin

text \<open>
  Which part of the database an operation may change, as a relation between the database
  before and after. \<open>moves R m\<close>: however \<open>m\<close> ends, \<open>R\<close> holds between the two. The locale
  \<open>db_frame\<close> holds the rules that carry such a relation through the control flow of a service,
  once for every relation that is reflexive and transitive.
\<close>

definition moves :: "(db \<Rightarrow> db \<Rightarrow> bool) \<Rightarrow> 'a service \<Rightarrow> bool" where
  "moves R m \<longleftrightarrow> (\<forall>w. R (db w) (db (snd (m w))))"

lemma movesI: "(\<And>w r w'. m w = (r, w') \<Longrightarrow> R (db w) (db w')) \<Longrightarrow> moves R m"
  unfolding moves_def by (metis prod.collapse)

lemma movesD: "moves R m \<Longrightarrow> m w = (r, w') \<Longrightarrow> R (db w) (db w')"
  unfolding moves_def by (metis snd_conv)

locale db_frame =
  fixes R :: "db \<Rightarrow> db \<Rightarrow> bool"
  assumes same: "R d d"
    and chain: "R d d' \<Longrightarrow> R d' d'' \<Longrightarrow> R d d''"
begin

lemma moves_outside: "outside_db m \<Longrightarrow> moves R m"
  by (rule movesI) (metis outside_dbD same)

lemma moves_bindE:
  assumes "moves R m" "\<And>x. moves R (f x)"
  shows "moves R (bindE m f)"
proof (rule movesI)
  fix w r w'
  assume "bindE m f w = (r, w')"
  then show "R (db w) (db w')"
  proof (cases rule: bindE_cases)
    case (throws e s')
    with movesD [OF assms(1) throws(1)] show ?thesis by simp
  next
    case (returns x s')
    from movesD [OF assms(2) returns(2) [symmetric]] movesD [OF assms(1) returns(1)]
    show ?thesis by (rule chain [rotated])
  qed
qed

lemma moves_tryCatch:
  assumes "moves R m" "\<And>e. moves R (h e)"
  shows "moves R (tryCatch m h)"
proof (rule movesI)
  fix w r w'
  assume run: "tryCatch m h w = (r, w')"
  obtain r1 w1 where m: "m w = (r1, w1)" by fastforce
  with movesD [OF assms(1)] have "R (db w) (db w1)" by blast
  then show "R (db w) (db w')"
    using run m movesD [OF assms(2)] chain by (cases r1) (auto simp: tryCatch_def)
qed

lemma moves_option:
  "moves R m \<Longrightarrow> (\<And>x. moves R (f x)) \<Longrightarrow> moves R (case opt of None \<Rightarrow> m | Some x \<Rightarrow> f x)"
  by (cases opt) auto

lemma moves_if: "moves R m \<Longrightarrow> moves R m' \<Longrightarrow> moves R (if c then m else m')"
  by simp

lemma moves_forEach: "(\<And>x. moves R (f x)) \<Longrightarrow> moves R (forEach xs f)"
  by (induction xs) (simp_all add: moves_bindE moves_outside outside_ret)

lemma moves_bestEffort: "moves R m \<Longrightarrow> moves R (bestEffort m)"
  unfolding bestEffort_def by (rule moves_tryCatch) (assumption, rule moves_outside, rule outside_ret)

lemma moves_transaction: "moves R m \<Longrightarrow> moves R (transaction m)"
proof (rule movesI)
  fix w r w'
  assume m: "moves R m" and run: "transaction m w = (r, w')"
  show "R (db w) (db w')"
  proof (cases r)
    case (Inl e)
    with transaction_Inl_db run same show ?thesis by metis
  next
    case (Inr x)
    with run movesD [OF m] show ?thesis by (simp add: transaction_Inr)
  qed
qed

lemmas moves_basic = moves_outside [OF outside_ret] moves_outside [OF outside_throw]
  moves_outside [OF outside_gets] moves_outside [OF outside_require]
  moves_outside [OF outside_someOr] moves_outside [OF outside_auditLog]
  moves_outside [OF outside_sendMail] moves_outside [OF outside_track]
  moves_outside [OF outside_upload] moves_outside [OF outside_callStripe]
  moves_outside [OF outside_freshId]

lemmas moves_rules = moves_basic moves_bindE moves_tryCatch moves_option moves_if moves_forEach
  moves_bestEffort moves_transaction

end

end
