(* ===== verification/Notifications.thy ===== *)
theory Notifications
  imports Frames
begin

text \<open>
  In-app notifications, \<open>notifications/notification.service.ts\<close>: the row, the best-effort
  e-mail, and the owner-scoped read marks. The subject of the e-mail stands for its content.
\<close>

definition dispatchEmail :: "env \<Rightarrow> uuid \<Rightarrow> string \<Rightarrow> unit service" where
  "dispatchEmail env recipient title =
     (if \<not> emailEnabled env then ret ()
      else bestEffort
        (bindE (gets (\<lambda>w. List.find (\<lambda>u. userId u = recipient) (users (db w)))) (\<lambda>found.
         case found of
           None \<Rightarrow> ret ()
         | Some u \<Rightarrow>
             if email u = [] then ret ()
             else sendMail env \<lparr>mailTo = email u, templateId = title, mailToken = None\<rparr>)))"

definition createNotification ::
  "env \<Rightarrow> uuid \<Rightarrow> notification_type \<Rightarrow> string \<Rightarrow> string \<Rightarrow> notification service" where
  "createNotification env recipient ty title body =
     bindE freshId (\<lambda>i.
     bindE (saveNotification \<lparr>ntId = i, recipientUserId = recipient, ntType = ty, ntTitle = title,
       ntBody = body, ntReadAt = None, ntCreatedAt = now env\<rparr>) (\<lambda>saved.
     bindE (dispatchEmail env recipient title) (\<lambda>_. ret saved)))"

definition listForUser :: "uuid \<Rightarrow> notification list service" where
  "listForUser recipient =
     gets (\<lambda>w. newest_first ntCreatedAt
       (filter (\<lambda>n. recipientUserId n = recipient) (notifications (db w))))"

definition mark_where :: "env \<Rightarrow> (notification \<Rightarrow> bool) \<Rightarrow> world \<Rightarrow> world" where
  "mark_where env P w = w\<lparr>db := (db w)\<lparr>notifications :=
     update_where (\<lambda>n. P n \<and> ntReadAt n = None) (\<lambda>n. n\<lparr>ntReadAt := Some (now env)\<rparr>)
       (notifications (db w))\<rparr>\<rparr>"

definition markRead :: "env \<Rightarrow> uuid \<Rightarrow> uuid \<Rightarrow> unit service" where
  "markRead env recipient i =
     modify (mark_where env (\<lambda>n. ntId n = i \<and> recipientUserId n = recipient))"

definition markAllRead :: "env \<Rightarrow> uuid \<Rightarrow> int service" where
  "markAllRead env recipient =
     bindE (gets (\<lambda>w. count_where (\<lambda>n. recipientUserId n = recipient \<and> ntReadAt n = None)
              (notifications (db w)))) (\<lambda>affected.
     bindE (modify (mark_where env (\<lambda>n. recipientUserId n = recipient))) (\<lambda>_. ret affected))"

definition unread :: "uuid \<Rightarrow> db \<Rightarrow> int" where
  "unread recipient d =
     count_where (\<lambda>n. recipientUserId n = recipient \<and> ntReadAt n = None) (notifications d)"

section \<open>Frames\<close>

text \<open>Operations that touch the notification table only.\<close>

definition only_notifications :: "db \<Rightarrow> db \<Rightarrow> bool" where
  "only_notifications d d' \<longleftrightarrow> (\<exists>t. d' = d\<lparr>notifications := t\<rparr>)"

interpretation notice: db_frame only_notifications
proof
  fix d d' d'' :: db
  show "only_notifications d d"
    unfolding only_notifications_def by (rule exI [of _ "notifications d"]) simp
  assume "only_notifications d d'" "only_notifications d' d''"
  then show "only_notifications d d''" unfolding only_notifications_def by force
qed

lemma outside_dispatchEmail [keeping]: "outside_db (dispatchEmail env r t)"
  unfolding dispatchEmail_def by (intro keeping)

lemma createNotification_eq:
  "\<exists>w'. createNotification env recipient ty title body w = (Inr \<lparr>ntId = nextId w,
      recipientUserId = recipient, ntType = ty, ntTitle = title, ntBody = body, ntReadAt = None,
      ntCreatedAt = now env\<rparr>, w') \<and>
    db w' = (db w)\<lparr>notifications := upsert ntId \<lparr>ntId = nextId w, recipientUserId = recipient,
      ntType = ty, ntTitle = title, ntBody = body, ntReadAt = None, ntCreatedAt = now env\<rparr>
      (notifications (db w))\<rparr>"
proof -
  let ?n = "\<lparr>ntId = nextId w, recipientUserId = recipient, ntType = ty, ntTitle = title,
      ntBody = body, ntReadAt = None, ntCreatedAt = now env\<rparr>"
  let ?w = "w\<lparr>nextId := Suc (nextId w), db := (db w)\<lparr>notifications := upsert ntId ?n (notifications (db w))\<rparr>\<rparr>"
  obtain r w' where e: "dispatchEmail env recipient title ?w = (r, w')" by fastforce
  then have d: "db w' = db ?w" using outside_dbD [OF outside_dispatchEmail] by blast
  have r: "r = Inr ()"
    using e bestEffort_never_throws by (cases r) (auto simp: dispatchEmail_def split: if_splits)
  have "createNotification env recipient ty title body w = (Inr ?n, w')"
    using e r by (simp add: createNotification_def freshId_def saveNotification_def save_into_def
        checked_save_def unconstrained_def bindE_def)
  with d show ?thesis by auto
qed

lemma moves_create: "moves only_notifications (createNotification env u ty t b)"
proof (rule movesI)
  fix w r w'
  assume "createNotification env u ty t b w = (r, w')"
  with createNotification_eq [of env u ty t b w] show "only_notifications (db w) (db w')"
    by (auto simp: only_notifications_def)
qed

lemmas notice_rules = moves_create notice.moves_rules

end
