(* ===== verification/Messaging.thy ===== *)
theory Messaging
  imports Quota Notifications
begin

text \<open>
  Threads between a company and a candidate: \<open>messaging/conversation.service.ts\<close>. Dates are
  kept as dates where the code prints them; identifiers of uploads are drawn from the same
  counter as row identifiers. The fire-and-forget notification runs at the point where it is
  started.
\<close>

section \<open>Attachment names\<close>

definition ATTACHMENT_MAX_SIZE :: int where
  "ATTACHMENT_MAX_SIZE = 5 * 1024 * 1024"

definition ATTACHMENT_ALLOWED_TYPES :: "string list" where
  "ATTACHMENT_ALLOWED_TYPES = [''application/pdf'',
     ''application/vnd.openxmlformats-officedocument.wordprocessingml.document'']"

definition separator :: "char \<Rightarrow> bool" where
  "separator c \<longleftrightarrow> c = CHR ''/'' \<or> of_char c = (92 :: nat)"

text \<open>\<open>split(/[/\\]/).pop()\<close>: what follows the last separator.\<close>

definition last_segment :: "string \<Rightarrow> string" where
  "last_segment s = rev (takeWhile (\<lambda>c. \<not> separator c) (rev s))"

definition safe_char :: "char \<Rightarrow> bool" where
  "safe_char c \<longleftrightarrow> (let n = (of_char c :: nat) in
     65 \<le> n \<and> n \<le> 90 \<or> 97 \<le> n \<and> n \<le> 122 \<or> 48 \<le> n \<and> n \<le> 57) \<or>
     c \<in> {CHR ''.'', CHR ''_'', CHR ''-''}"

definition safeAttachmentName :: "string \<Rightarrow> string" where
  "safeAttachmentName originalname =
     (let base = last_segment (if originalname = [] then ''document'' else originalname);
          cleaned = dropWhile (\<lambda>c. c = CHR ''.'')
                      (map (\<lambda>c. if safe_char c then c else CHR ''_'') base)
      in take 100 (if cleaned = [] then ''document'' else cleaned))"

section \<open>Who may see a thread\<close>

definition candidateOf :: "db \<Rightarrow> uuid \<Rightarrow> candidate_profile option" where
  "candidateOf d i = List.find (\<lambda>p. cpUserId p = i) (candidateProfiles d)"

definition findAuthorizedConversation :: "uuid \<Rightarrow> uuid \<Rightarrow> (conversation \<times> sender_role) service" where
  "findAuthorizedConversation cid i =
     bindE (gets (\<lambda>w. map_option recCompanyId (recruiterOf (db w) i))) (\<lambda>recruiterCompanyId.
     bindE (gets (\<lambda>w. case recruiterCompanyId of None \<Rightarrow> None
              | Some c \<Rightarrow> List.find (\<lambda>x. convId x = cid \<and> convCompanyId x = c) (conversations (db w))))
       (\<lambda>asRecruiter.
     case asRecruiter of
       Some x \<Rightarrow> ret (x, FROM_RECRUITER)
     | None \<Rightarrow>
         bindE (gets (\<lambda>w. candidateOf (db w) i)) (\<lambda>candidateProfile.
         bindE (gets (\<lambda>w. case candidateProfile of None \<Rightarrow> None
                  | Some p \<Rightarrow> List.find (\<lambda>x. convId x = cid \<and> convCandidateId x = cpId p)
                               (conversations (db w)))) (\<lambda>asCandidate.
         case asCandidate of
           Some x \<Rightarrow> ret (x, FROM_CANDIDATE)
         | None \<Rightarrow> throw (ConversationNotFoundException cid)))))"

definition resolveRecipient :: "conversation \<Rightarrow> sender_role \<Rightarrow> uuid option service" where
  "resolveRecipient conv role =
     (case role of
        FROM_CANDIDATE \<Rightarrow> ret (Some (convRecruiterId conv))
      | FROM_RECRUITER \<Rightarrow>
          gets (\<lambda>w. map_option cpUserId
            (List.find (\<lambda>p. cpId p = convCandidateId conv) (candidateProfiles (db w)))))"

definition notifyNewMessage :: "env \<Rightarrow> uuid \<Rightarrow> sender_role \<Rightarrow> unit service" where
  "notifyNewMessage env recipient role =
     bestEffort
       (bindE (createNotification env recipient NEW_MESSAGE ''Nouveau message''
          (''Vous avez recu un nouveau message de '' @
           (if role = FROM_RECRUITER then ''un recruteur'' else ''un candidat'') @ ''.''))
        (\<lambda>_. ret ()))"

definition notifyRecipient :: "env \<Rightarrow> conversation \<Rightarrow> sender_role \<Rightarrow> unit service" where
  "notifyRecipient env conv role =
     bindE (resolveRecipient conv role) (\<lambda>recipient.
     case recipient of None \<Rightarrow> ret () | Some r \<Rightarrow> notifyNewMessage env r role)"

section \<open>Opening a thread\<close>

definition new_message :: "env \<Rightarrow> uuid \<Rightarrow> uuid \<Rightarrow> sender_role \<Rightarrow> string \<Rightarrow> uuid \<Rightarrow> message" where
  "new_message env cid sender role body i =
     \<lparr>msgId = i, msgConversationId = cid, msgSenderId = sender, msgSenderRole = role, msgBody = body,
      attachmentStorageKey = None, attachmentOriginalName = None, attachmentMimeType = None,
      attachmentSize = None, readAt = None, msgCreatedAt = now env\<rparr>"

definition openThread :: "env \<Rightarrow> uuid \<Rightarrow> uuid \<Rightarrow> uuid \<Rightarrow> string \<Rightarrow> conversation service" where
  "openThread env i p companyId body =
     bindE (consumeOneContact env companyId) (\<lambda>_.
     bindE freshId (\<lambda>ci.
     bindE (saveConversation \<lparr>convId = ci, convCandidateId = p, convRecruiterId = i,
       convCompanyId = companyId, convStatus = CONV_OPEN, convUpdatedAt = now env\<rparr>) (\<lambda>conv.
     bindE freshId (\<lambda>mi.
     bindE (saveMessage (new_message env (convId conv) i FROM_RECRUITER body mi)) (\<lambda>_.
     ret conv)))))"

fun isUniqueViolation :: "err \<Rightarrow> bool" where
  "isUniqueViolation (UniqueViolation _) = True"
| "isUniqueViolation _ = False"

definition openConversation :: "env \<Rightarrow> uuid \<Rightarrow> uuid \<Rightarrow> string \<Rightarrow> conversation service" where
  "openConversation env i p body =
     bindE (assertActiveSubscription env i) (\<lambda>companyId.
     bindE (gets (\<lambda>w. List.find (\<lambda>x. cpId x = p) (candidateProfiles (db w)))) (\<lambda>found.
     bindE (someOr (CandidateProfileNotFoundException p) found) (\<lambda>profile.
     tryCatch
       (bindE (transaction (openThread env i p companyId body)) (\<lambda>created.
        bindE (track env A_RECRUITER_CONTACT (Some i)) (\<lambda>_.
        bindE (notifyNewMessage env (cpUserId profile) FROM_RECRUITER) (\<lambda>_. ret created))))
       (\<lambda>e. if \<not> isUniqueViolation e then throw e
            else bindE (gets (\<lambda>w. List.find (\<lambda>x. convCandidateId x = p \<and> convCompanyId x = companyId)
                   (conversations (db w)))) (\<lambda>existing.
                 case existing of Some c \<Rightarrow> ret c | None \<Rightarrow> throw e)))))"

section \<open>Messages\<close>

definition sendMessage :: "env \<Rightarrow> uuid \<Rightarrow> uuid \<Rightarrow> string \<Rightarrow> message service" where
  "sendMessage env cid i body =
     bindE (findAuthorizedConversation cid i) (\<lambda>(conv, role).
     bindE freshId (\<lambda>mi.
     bindE (saveMessage (new_message env (convId conv) i role body mi)) (\<lambda>m.
     bindE (notifyRecipient env conv role) (\<lambda>_. ret m))))"

record attachment_upload =
  upBuffer :: string
  upName :: string
  upMime :: string
  upSize :: int

definition sendAttachment :: "env \<Rightarrow> uuid \<Rightarrow> uuid \<Rightarrow> attachment_upload \<Rightarrow> string option \<Rightarrow> message service" where
  "sendAttachment env cid i file body =
     bindE (findAuthorizedConversation cid i) (\<lambda>(conv, role).
     bindE (require (\<not> (upSize file = 0 \<or> upBuffer file = [])) (BadRequestException ''empty-file'')) (\<lambda>_.
     bindE (require (\<not> ATTACHMENT_MAX_SIZE < upSize file) (BadRequestException ''too-large'')) (\<lambda>_.
     bindE (require (upMime file \<in> set ATTACHMENT_ALLOWED_TYPES) (BadRequestException ''file-type'')) (\<lambda>_.
     bindE (someOr (ServiceUnavailable ''scanner'') (scanFile env (upBuffer file) (upName file))) (\<lambda>clean.
     bindE (require clean (BadRequestException ''threat'')) (\<lambda>_.
     bindE freshId (\<lambda>ui.
     bindE (ret (''message-attachments/'' @ dec (convId conv) @ ''/'' @ dec ui @ ''-'' @
              safeAttachmentName (upName file))) (\<lambda>key.
     bindE (upload env key) (\<lambda>_.
     bindE freshId (\<lambda>mi.
     bindE (saveMessage ((new_message env (convId conv) i role
                (case body of None \<Rightarrow> [] | Some b \<Rightarrow> trim b) mi)\<lparr>
              attachmentStorageKey := Some key, attachmentOriginalName := Some (upName file),
              attachmentMimeType := Some (upMime file), attachmentSize := Some (upSize file)\<rparr>)) (\<lambda>m.
     bindE (notifyRecipient env conv role) (\<lambda>_. ret m))))))))))))"

definition getAttachmentSignedUrl :: "env \<Rightarrow> uuid \<Rightarrow> uuid \<Rightarrow> uuid \<Rightarrow> (string \<times> string \<times> string) service" where
  "getAttachmentSignedUrl env cid mid i =
     bindE (tryCatch (findAuthorizedConversation cid i)
              (\<lambda>_. throw (ForbiddenException ''not-a-participant''))) (\<lambda>(conv, role).
     bindE (gets (\<lambda>w. List.find (\<lambda>m. msgId m = mid \<and> msgConversationId m = convId conv)
              (messages (db w)))) (\<lambda>found.
     bindE (someOr (NotFoundException ''attachment'') found) (\<lambda>m.
     bindE (require (\<not> (attachmentStorageKey m = None \<or> attachmentStorageKey m = Some []))
              (NotFoundException ''attachment'')) (\<lambda>_.
     bindE (someOr (ServiceUnavailable ''storage'') (signedUrl env (the (attachmentStorageKey m)))) (\<lambda>url.
     ret (url, case attachmentOriginalName m of None \<Rightarrow> ''document'' | Some n \<Rightarrow> n,
          case attachmentMimeType m of None \<Rightarrow> ''application/octet-stream'' | Some t \<Rightarrow> t))))))"

section \<open>Reading\<close>

record message_view =
  mvId :: uuid
  mvBody :: string
  mvSenderRole :: sender_role
  mvMine :: bool
  mvReadAt :: "date option"
  mvCreatedAt :: date
  mvAttachment :: "(string \<times> string \<times> int) option"

definition toMessageView :: "uuid \<Rightarrow> message \<Rightarrow> message_view" where
  "toMessageView viewer m =
     \<lparr>mvId = msgId m, mvBody = msgBody m, mvSenderRole = msgSenderRole m,
      mvMine = (msgSenderId m = viewer), mvReadAt = readAt m, mvCreatedAt = msgCreatedAt m,
      mvAttachment =
        (case (attachmentStorageKey m, attachmentOriginalName m) of
           (Some k, Some n) \<Rightarrow> if k = [] \<or> n = [] then None
             else Some (n, case attachmentMimeType m of None \<Rightarrow> ''application/octet-stream'' | Some t \<Rightarrow> t,
                        case attachmentSize m of None \<Rightarrow> 0 | Some z \<Rightarrow> z)
         | _ \<Rightarrow> None)\<rparr>"

definition incoming_unread :: "uuid \<Rightarrow> uuid \<Rightarrow> message \<Rightarrow> bool" where
  "incoming_unread cid viewer m \<longleftrightarrow>
     msgConversationId m = cid \<and> msgSenderId m \<noteq> viewer \<and> readAt m = None"

definition listMessages :: "env \<Rightarrow> uuid \<Rightarrow> uuid \<Rightarrow> message_view list service" where
  "listMessages env cid i =
     bindE (findAuthorizedConversation cid i) (\<lambda>(conv, role).
     bindE (modify (\<lambda>w. w\<lparr>db := (db w)\<lparr>messages :=
        update_where (incoming_unread (convId conv) i) (\<lambda>m. m\<lparr>readAt := Some (now env)\<rparr>)
          (messages (db w))\<rparr>\<rparr>)) (\<lambda>_.
     gets (\<lambda>w. map (toMessageView i) (sort_key msgCreatedAt
       (filter (\<lambda>m. msgConversationId m = convId conv) (messages (db w)))))))"

record conversation_summary =
  csId :: uuid
  csStatus :: conversation_status
  csCompanyId :: uuid
  csCompanyName :: "string option"
  csCompanyLogo :: "string option"
  csCandidateProfileId :: uuid
  csCandidateName :: "string option"
  csCounterpartName :: "string option"
  csLastMessage :: "(string \<times> sender_role \<times> date) option"
  csUnreadCount :: int
  csUpdatedAt :: date

text \<open>\<open>[first, last].filter(Boolean).join(' ') || null\<close>\<close>

definition fullName :: "candidate_profile \<Rightarrow> string option" where
  "fullName p =
     (let given = filter (\<lambda>s. s \<noteq> []) (List.map_filter id [firstName p, lastName p]);
          s = (case given of [] \<Rightarrow> [] | [a] \<Rightarrow> a | a # b # _ \<Rightarrow> a @ '' '' @ b)
      in if s = [] then None else Some s)"

definition unreadCount :: "db \<Rightarrow> uuid \<Rightarrow> uuid \<Rightarrow> int" where
  "unreadCount d cid viewer = count_where (incoming_unread cid viewer) (messages d)"

definition lastMessage :: "db \<Rightarrow> uuid \<Rightarrow> message option" where
  "lastMessage d cid =
     (case sort_key msgCreatedAt (filter (\<lambda>m. msgConversationId m = cid) (messages d)) of
        [] \<Rightarrow> None | ms \<Rightarrow> Some (last ms))"

definition summarize :: "db \<Rightarrow> uuid \<Rightarrow> bool \<Rightarrow> conversation \<Rightarrow> conversation_summary" where
  "summarize d viewer viewerIsRecruiter c =
     (let candidate = List.find (\<lambda>p. cpId p = convCandidateId c) (candidateProfiles d);
          co = List.find (\<lambda>x. coId x = convCompanyId c) (companies d);
          candidateName = (case candidate of None \<Rightarrow> None | Some p \<Rightarrow> fullName p);
          name = map_option coName co
      in \<lparr>csId = convId c, csStatus = convStatus c, csCompanyId = convCompanyId c,
          csCompanyName = name, csCompanyLogo = (case co of None \<Rightarrow> None | Some x \<Rightarrow> coLogo x),
          csCandidateProfileId = convCandidateId c, csCandidateName = candidateName,
          csCounterpartName = (if viewerIsRecruiter then candidateName else name),
          csLastMessage = map_option (\<lambda>m. (msgBody m, msgSenderRole m, msgCreatedAt m))
            (lastMessage d (convId c)),
          csUnreadCount = unreadCount d (convId c) viewer, csUpdatedAt = convUpdatedAt c\<rparr>)"

definition sees :: "db \<Rightarrow> uuid \<Rightarrow> conversation \<Rightarrow> bool" where
  "sees d i c =
     ((case recruiterOf d i of None \<Rightarrow> False | Some r \<Rightarrow> convCompanyId c = recCompanyId r) \<or>
      (case candidateOf d i of None \<Rightarrow> False | Some p \<Rightarrow> convCandidateId c = cpId p))"

definition listConversations :: "uuid \<Rightarrow> conversation_summary list service" where
  "listConversations i =
     gets (\<lambda>w. map (summarize (db w) i (recruiterOf (db w) i \<noteq> None))
       (rev (sort_key convUpdatedAt (rev (filter (sees (db w) i) (conversations (db w)))))))"

section \<open>Abuse reports\<close>

definition reportConversation :: "env \<Rightarrow> uuid \<Rightarrow> uuid \<Rightarrow> string \<Rightarrow> (uuid \<times> report_status) service" where
  "reportConversation env cid i reason =
     bindE (findAuthorizedConversation cid i) (\<lambda>(conv, role).
     bindE freshId (\<lambda>ri.
     bindE (saveReport \<lparr>repId = ri, repConversationId = convId conv, reporterUserId = i,
       repReason = reason, repStatus = REP_OPEN, repCreatedAt = now env\<rparr>) (\<lambda>r.
     bindE (auditLog env \<lparr>actorId = Some i, auAction = MODERATION_ACTION,
       entityType = ''conversation'', entityId = convId conv\<rparr>) (\<lambda>_.
     ret (repId r, repStatus r)))))"

definition listReports :: "report_status option \<Rightarrow> message_report list service" where
  "listReports st =
     gets (\<lambda>w. rev (sort_key repCreatedAt (rev (filter
       (\<lambda>r. case st of None \<Rightarrow> True | Some x \<Rightarrow> repStatus r = x) (messageReports (db w))))))"

definition updateReportStatus :: "env \<Rightarrow> uuid \<Rightarrow> report_status \<Rightarrow> uuid \<Rightarrow> (uuid \<times> report_status) service" where
  "updateReportStatus env rid st moderator =
     bindE (gets (\<lambda>w. List.find (\<lambda>r. repId r = rid) (messageReports (db w)))) (\<lambda>found.
     bindE (someOr (NotFoundException ''report'') found) (\<lambda>r.
     bindE (saveReport (r\<lparr>repStatus := st\<rparr>)) (\<lambda>saved.
     bindE (auditLog env \<lparr>actorId = Some moderator, auAction = MODERATION_ACTION,
       entityType = ''message_report'', entityId = repId saved\<rparr>) (\<lambda>_.
     ret (repId saved, repStatus saved)))))"

section \<open>The access interface\<close>

text \<open>What messaging and interviews rely on: an authorization that lets participants through with
  the thread they asked for and gives everyone else the answer of a thread that does not exist.\<close>

locale thread_access =
  fixes authorize :: "uuid \<Rightarrow> uuid \<Rightarrow> (conversation \<times> sender_role) service"
    and party :: "db \<Rightarrow> uuid \<Rightarrow> conversation \<Rightarrow> bool"
  assumes admits: "authorize cid i w = (Inr (c, role), w') \<Longrightarrow>
      w' = w \<and> c \<in> set (conversations (db w)) \<and> convId c = cid \<and> party (db w) i c"
    and refuses: "\<forall>c \<in> set (conversations (db w)). convId c = cid \<longrightarrow> \<not> party (db w) i c \<Longrightarrow>
      authorize cid i w = (Inl (ConversationNotFoundException cid), w)"
begin

lemma outsider:
  "\<forall>c \<in> set (conversations (db w)). convId c = cid \<longrightarrow> \<not> party (db w) i c \<Longrightarrow>
     bindE (authorize cid i) f w = (Inl (ConversationNotFoundException cid), w)"
  by (simp add: refuses)

lemma insider:
  assumes "bindE (authorize cid i) f w = (Inr x, w')"
  obtains c role where "authorize cid i w = (Inr (c, role), w)" "c \<in> set (conversations (db w))"
    "convId c = cid" "party (db w) i c" "f (c, role) w = (Inr x, w')"
proof -
  from assms obtain cr w1 where au: "authorize cid i w = (Inr cr, w1)" and f: "f cr w1 = (Inr x, w')"
    by (elim bindE_InrE)
  obtain c role where "cr = (c, role)" by (cases cr)
  with au f admits [of cid i w c role w1] that show ?thesis by auto
qed

end

lemma findAuthorized_eq:
  "findAuthorizedConversation cid i w =
     (case (case recruiterOf (db w) i of None \<Rightarrow> None
            | Some r \<Rightarrow> List.find (\<lambda>x. convId x = cid \<and> convCompanyId x = recCompanyId r) (conversations (db w))) of
        Some x \<Rightarrow> (Inr (x, FROM_RECRUITER), w)
      | None \<Rightarrow>
         (case (case candidateOf (db w) i of None \<Rightarrow> None
                | Some p \<Rightarrow> List.find (\<lambda>x. convId x = cid \<and> convCandidateId x = cpId p) (conversations (db w))) of
            Some x \<Rightarrow> (Inr (x, FROM_CANDIDATE), w)
          | None \<Rightarrow> (Inl (ConversationNotFoundException cid), w)))"
  by (simp add: findAuthorizedConversation_def eff_simps split: option.split)

interpretation thread: thread_access findAuthorizedConversation sees
proof
  fix cid i w c role w'
  show "findAuthorizedConversation cid i w = (Inr (c, role), w') \<Longrightarrow>
      w' = w \<and> c \<in> set (conversations (db w)) \<and> convId c = cid \<and> sees (db w) i c"
    unfolding findAuthorized_eq by (auto simp: sees_def split: option.splits dest!: find_SomeD)
next
  fix w :: world and cid i
  assume no: "\<forall>c \<in> set (conversations (db w)). convId c = cid \<longrightarrow> \<not> sees (db w) i c"
  have "List.find (\<lambda>x. convId x = cid \<and> convCompanyId x = recCompanyId r) (conversations (db w)) = None"
    if "recruiterOf (db w) i = Some r" for r
    using no that unfolding find_None_iff by (auto simp: sees_def)
  moreover have "List.find (\<lambda>x. convId x = cid \<and> convCandidateId x = cpId p) (conversations (db w)) = None"
    if "candidateOf (db w) i = Some p" for p
    using no that unfolding find_None_iff by (auto simp: sees_def)
  ultimately show "findAuthorizedConversation cid i w = (Inl (ConversationNotFoundException cid), w)"
    unfolding findAuthorized_eq by (auto split: option.split)
qed

section \<open>What notifications leave alone\<close>

lemma moves_notifyNewMessage: "moves only_notifications (notifyNewMessage env recipient role)"
  unfolding notifyNewMessage_def by (intro notice_rules)

lemma moves_notifyRecipient: "moves only_notifications (notifyRecipient env conv role)"
  unfolding notifyRecipient_def resolveRecipient_def
  by (cases role; simp) (intro notice_rules moves_notifyNewMessage)+

end
