(* ===== verification/Interviews.thy ===== *)
theory Interviews
  imports Messaging
begin

text \<open>
  Interview proposals inside a thread, \<open>messaging/interview.service.ts\<close>. The requested slot
  arrives as a date or as nothing when it does not parse. \<open>interview_step\<close> is the state
  machine the service implements: a proposal is answered once, by the other side, or withdrawn
  by its own.
\<close>

record interview_view =
  vwId :: uuid
  vwStatus :: interview_status
  vwMode :: interview_mode
  vwScheduledAt :: date
  vwDurationMinutes :: int
  vwLocation :: "string option"
  vwNote :: "string option"
  vwProposedByRole :: sender_role
  vwMine :: bool
  vwRespondedAt :: "date option"
  vwCreatedAt :: date

definition toInterviewView :: "interview \<Rightarrow> uuid \<Rightarrow> interview_view" where
  "toInterviewView iv viewer =
     \<lparr>vwId = ivId iv, vwStatus = ivStatus iv, vwMode = ivMode iv, vwScheduledAt = scheduledAt iv,
      vwDurationMinutes = durationMinutes iv, vwLocation = ivLocation iv, vwNote = ivNote iv,
      vwProposedByRole = proposedByRole iv, vwMine = (proposedById iv = viewer),
      vwRespondedAt = respondedAt iv, vwCreatedAt = ivCreatedAt iv\<rparr>"

definition notifyCounterpart ::
  "env \<Rightarrow> conversation \<Rightarrow> sender_role \<Rightarrow> notification_type \<Rightarrow> string \<Rightarrow> string \<Rightarrow> unit service" where
  "notifyCounterpart env conv role ty title body =
     bestEffort
       (bindE (resolveRecipient conv role) (\<lambda>recipient.
        case recipient of
          None \<Rightarrow> ret ()
        | Some r \<Rightarrow> bindE (createNotification env r ty title body) (\<lambda>_. ret ())))"

definition proposed_row ::
  "env \<Rightarrow> conversation \<Rightarrow> uuid \<Rightarrow> sender_role \<Rightarrow> interview_mode \<Rightarrow> date \<Rightarrow> int option \<Rightarrow> string option \<Rightarrow>
   string option \<Rightarrow> uuid \<Rightarrow> interview" where
  "proposed_row env conv u role mode slot duration loc note i =
     \<lparr>ivId = i, ivConversationId = convId conv, proposedById = u, proposedByRole = role,
      ivStatus = PROPOSED, ivMode = mode, scheduledAt = slot,
      durationMinutes = (case duration of None \<Rightarrow> 60 | Some d \<Rightarrow> d),
      ivLocation = trimOrNone loc, ivNote = trimOrNone note, respondedAt = None,
      ivCreatedAt = now env\<rparr>"

definition proposeInterview ::
  "env \<Rightarrow> uuid \<Rightarrow> uuid \<Rightarrow> interview_mode \<Rightarrow> date option \<Rightarrow> int option \<Rightarrow> string option \<Rightarrow>
   string option \<Rightarrow> interview_view service" where
  "proposeInterview env cid u mode slot duration loc note =
     bindE (findAuthorizedConversation cid u) (\<lambda>(conv, role).
     bindE (someOr (BadRequestException ''scheduledAt'') slot) (\<lambda>sched.
     bindE (require (\<not> sched \<le> now env) (BadRequestException ''not-in-the-future'')) (\<lambda>_.
     bindE freshId (\<lambda>i.
     bindE (saveInterview (proposed_row env conv u role mode sched duration loc note i)) (\<lambda>saved.
     bindE (notifyCounterpart env conv role INTERVIEW_PROPOSED ''Proposition d'entretien''
              ''Un creneau d'entretien vous a ete propose.'') (\<lambda>_.
     ret (toInterviewView saved u)))))))"

definition listInterviews :: "uuid \<Rightarrow> uuid \<Rightarrow> interview_view list service" where
  "listInterviews cid u =
     bindE (findAuthorizedConversation cid u) (\<lambda>(conv, role).
     gets (\<lambda>w. map (\<lambda>r. toInterviewView r u) (rev (sort_key ivCreatedAt (rev
       (filter (\<lambda>r. ivConversationId r = convId conv) (interviews (db w))))))))"

datatype answer = Accept | Decline | Cancel

fun answer_status :: "answer \<Rightarrow> interview_status" where
  "answer_status Accept = ACCEPTED"
| "answer_status Decline = DECLINED"
| "answer_status Cancel = IV_CANCELLED"

fun frStatus :: "interview_status \<Rightarrow> string" where
  "frStatus ACCEPTED = ''acceptee''"
| "frStatus DECLINED = ''refusee''"
| "frStatus IV_CANCELLED = ''annulee''"
| "frStatus PROPOSED = ''mise a jour''"

definition respondInterview :: "env \<Rightarrow> uuid \<Rightarrow> uuid \<Rightarrow> uuid \<Rightarrow> answer \<Rightarrow> interview_view service" where
  "respondInterview env cid iid u a =
     bindE (findAuthorizedConversation cid u) (\<lambda>(conv, role).
     bindE (gets (\<lambda>w. List.find (\<lambda>r. ivId r = iid \<and> ivConversationId r = convId conv)
              (interviews (db w)))) (\<lambda>found.
     bindE (someOr (NotFoundException ''interview'') found) (\<lambda>iv.
     bindE (require (ivStatus iv = PROPOSED) (BadRequestException ''already-handled'')) (\<lambda>_.
     bindE (ret (proposedByRole iv = role)) (\<lambda>isProposer.
     bindE (if answer_status a = IV_CANCELLED
            then require isProposer (ForbiddenException ''only-the-proposer-cancels'')
            else require (\<not> isProposer) (ForbiddenException ''only-the-counterpart-answers'')) (\<lambda>_.
     bindE (saveInterview (iv\<lparr>ivStatus := answer_status a, respondedAt := Some (now env)\<rparr>)) (\<lambda>saved.
     bindE (notifyCounterpart env conv role INTERVIEW_UPDATED ''Entretien mis a jour''
              (''La proposition d'entretien a ete '' @ frStatus (answer_status a) @ ''.'')) (\<lambda>_.
     ret (toInterviewView saved u)))))))))"

section \<open>The state machine\<close>

text \<open>One step of an interview, by a side of the thread at a time.\<close>

inductive interview_step :: "sender_role \<Rightarrow> date \<Rightarrow> interview \<Rightarrow> interview \<Rightarrow> bool" where
  answered: "ivStatus iv = PROPOSED \<Longrightarrow> proposedByRole iv \<noteq> side \<Longrightarrow> st \<in> {ACCEPTED, DECLINED} \<Longrightarrow>
    interview_step side t iv (iv\<lparr>ivStatus := st, respondedAt := Some t\<rparr>)"
| withdrawn: "ivStatus iv = PROPOSED \<Longrightarrow> proposedByRole iv = side \<Longrightarrow>
    interview_step side t iv (iv\<lparr>ivStatus := IV_CANCELLED, respondedAt := Some t\<rparr>)"

inductive_cases interview_stepE: "interview_step side t iv iv'"

inductive_simps interview_step_final: "interview_step side t iv iv'"

lemma step_from_proposed: "interview_step side t iv iv' \<Longrightarrow> ivStatus iv = PROPOSED \<and> ivStatus iv' \<noteq> PROPOSED"
  by (elim interview_stepE) auto

lemma moves_notifyCounterpart: "moves only_notifications (notifyCounterpart env conv role ty t b)"
  unfolding notifyCounterpart_def resolveRecipient_def
  by (cases role; simp) (intro notice_rules)+

section \<open>The service runs the machine\<close>

definition interviews_ok :: "world \<Rightarrow> bool" where
  "interviews_ok w \<longleftrightarrow> distinct (map ivId (interviews (db w))) \<and>
     (\<forall>iv \<in> set (interviews (db w)). ivId iv < nextId w)"

definition only_interviews :: "db \<Rightarrow> db \<Rightarrow> bool" where
  "only_interviews d d' \<longleftrightarrow> (\<exists>t n. d' = d\<lparr>interviews := t, notifications := n\<rparr>)"

lemma findAuthorized_world: "findAuthorizedConversation cid u w = (r, w') \<Longrightarrow> w' = w"
  unfolding findAuthorized_eq by (auto split: option.splits)

lemma outside_resolveRecipient: "outside_db (resolveRecipient conv role)"
  by (cases role) (simp_all add: resolveRecipient_def outside_ret outside_gets)

lemma ids_grow_notifyCounterpart: "ids_grow (notifyCounterpart env conv role ty t b)"
  unfolding notifyCounterpart_def createNotification_def dispatchEmail_def saveNotification_def
  by (intro keeping ids_grow_outside [OF outside_resolveRecipient])

lemma notifyCounterpart_returns:
  "\<exists>w' n. notifyCounterpart env conv role ty t b w = (Inr (), w') \<and>
     db w' = (db w)\<lparr>notifications := n\<rparr> \<and> nextId w \<le> nextId w'"
proof -
  obtain r w' where run: "notifyCounterpart env conv role ty t b w = (r, w')" by fastforce
  then have "r = Inr ()"
    using bestEffort_never_throws unfolding notifyCounterpart_def by (cases r) auto
  with run movesD [OF moves_notifyCounterpart run] ids_growD [OF ids_grow_notifyCounterpart run]
  show ?thesis by (auto simp: only_notifications_def)
qed

text \<open>What the side of a participant may do to a proposal.\<close>

definition may_answer :: "sender_role \<Rightarrow> answer \<Rightarrow> interview \<Rightarrow> bool" where
  "may_answer side a iv \<longleftrightarrow>
     ivStatus iv = PROPOSED \<and> (proposedByRole iv = side \<longleftrightarrow> a = Cancel)"

definition answered_row :: "env \<Rightarrow> answer \<Rightarrow> interview \<Rightarrow> interview" where
  "answered_row env a iv = iv\<lparr>ivStatus := answer_status a, respondedAt := Some (now env)\<rparr>"

lemma may_answer_step:
  "may_answer side a iv \<Longrightarrow> interview_step side (now env) iv (answered_row env a iv)"
  by (cases a) (auto simp: may_answer_def answered_row_def intro: answered withdrawn)

lemma respond_cases:
  assumes run: "respondInterview env cid iid u a w = (r, w')"
  obtains (refused) e where "r = Inl e" "w' = w"
  | (answered) conv side iv n where "findAuthorizedConversation cid u w = (Inr (conv, side), w)"
      "iv \<in> set (interviews (db w))" "ivId iv = iid" "ivConversationId iv = convId conv"
      "may_answer side a iv" "r = Inr (toInterviewView (answered_row env a iv) u)"
      "db w' = (db w)\<lparr>interviews := upsert ivId (answered_row env a iv) (interviews (db w)),
         notifications := n\<rparr>"
      "nextId w \<le> nextId w'"
proof -
  obtain f wf where au: "findAuthorizedConversation cid u w = (f, wf)" by fastforce
  then have wf: "wf = w" by (rule findAuthorized_world)
  show ?thesis
  proof (cases f)
    case (Inl e)
    with run au wf refused show ?thesis by (auto simp: respondInterview_def)
  next
    case (Inr cs)
    obtain conv side where cs: "cs = (conv, side)" by (cases cs)
    let ?find = "List.find (\<lambda>r. ivId r = iid \<and> ivConversationId r = convId conv) (interviews (db w))"
    show ?thesis
    proof (cases ?find)
      case None
      with run au wf Inr cs refused show ?thesis
        by (auto simp: respondInterview_def bindE_def someOr_def)
    next
      case (Some iv)
      show ?thesis
      proof (cases "may_answer side a iv")
        case False
        with run au wf Inr cs Some refused show ?thesis
          by (cases a; cases "ivStatus iv = PROPOSED")
            (auto simp: respondInterview_def bindE_def someOr_def require_def may_answer_def)
      next
        case True
        let ?w = "w\<lparr>db := (db w)\<lparr>interviews := upsert ivId (answered_row env a iv) (interviews (db w))\<rparr>\<rparr>"
        have save: "saveInterview (answered_row env a iv) w = (Inr (answered_row env a iv), ?w)"
          by (simp add: saveInterview_def save_into_Inr unconstrained_def)
        obtain w2 n where w2: "notifyCounterpart env conv side INTERVIEW_UPDATED ''Entretien mis a jour''
              (''La proposition d'entretien a ete '' @ frStatus (answer_status a) @ ''.'') ?w = (Inr (), w2)"
          "db w2 = (db ?w)\<lparr>notifications := n\<rparr>" "nextId ?w \<le> nextId w2"
          using notifyCounterpart_returns by blast
        have "respondInterview env cid iid u a w = (Inr (toInterviewView (answered_row env a iv) u), w2)"
          using au wf Inr cs Some True save w2(1)
          by (cases a) (auto simp: respondInterview_def bindE_def someOr_def require_def
              may_answer_def answered_row_def)
        with run have "r = Inr (toInterviewView (answered_row env a iv) u)" "w' = w2" by auto
        moreover have "iv \<in> set (interviews (db w))" "ivId iv = iid" "ivConversationId iv = convId conv"
          using find_SomeD [OF Some] by auto
        ultimately show ?thesis
          using that(2) [of conv side iv n] au wf Inr cs True w2(2,3) by simp
      qed
    qed
  qed
qed

lemma propose_cases:
  assumes run: "proposeInterview env cid u mode slot duration loc note w = (r, w')"
  obtains (refused) e where "r = Inl e" "w' = w"
  | (proposed) conv side sched iv n where "findAuthorizedConversation cid u w = (Inr (conv, side), w)"
      "slot = Some sched" "now env < sched" "iv = proposed_row env conv u side mode sched duration loc note (nextId w)"
      "r = Inr (toInterviewView iv u)"
      "db w' = (db w)\<lparr>interviews := upsert ivId iv (interviews (db w)), notifications := n\<rparr>"
      "nextId w < nextId w'"
proof -
  obtain f wf where au: "findAuthorizedConversation cid u w = (f, wf)" by fastforce
  then have wf: "wf = w" by (rule findAuthorized_world)
  show ?thesis
  proof (cases "\<exists>conv side sched. f = Inr (conv, side) \<and> slot = Some sched \<and> now env < sched")
    case False
    with run au wf refused show ?thesis
      by (cases f; cases slot) (auto simp: proposeInterview_def bindE_def someOr_def require_def)
  next
    case True
    then obtain conv side sched where f: "f = Inr (conv, side)" "slot = Some sched" "now env < sched" by blast
    let ?iv = "proposed_row env conv u side mode sched duration loc note (nextId w)"
    let ?w = "w\<lparr>nextId := Suc (nextId w), db := (db w)\<lparr>interviews := upsert ivId ?iv (interviews (db w))\<rparr>\<rparr>"
    have save: "saveInterview ?iv (w\<lparr>nextId := Suc (nextId w)\<rparr>) = (Inr ?iv, ?w)"
      by (simp add: saveInterview_def save_into_Inr unconstrained_def)
    obtain w2 n where w2: "notifyCounterpart env conv side INTERVIEW_PROPOSED ''Proposition d'entretien''
          ''Un creneau d'entretien vous a ete propose.'' ?w = (Inr (), w2)"
      "db w2 = (db ?w)\<lparr>notifications := n\<rparr>" "nextId ?w \<le> nextId w2"
      using notifyCounterpart_returns by blast
    have "proposeInterview env cid u mode slot duration loc note w = (Inr (toInterviewView ?iv u), w2)"
      using au wf f save w2(1)
      by (auto simp: proposeInterview_def bindE_def someOr_def require_def freshId_def)
    with run have "r = Inr (toInterviewView ?iv u)" "w' = w2" by auto
    with that(2) [of conv side sched ?iv n] au wf f w2(2,3) show ?thesis by simp
  qed
qed

end
