(* ===== verification/Messaging_Facts.thy ===== *)
theory Messaging_Facts
  imports Messaging Interviews
begin

text \<open>
  What the messaging operations do, case by case: opening a thread spends a credit exactly when
  the thread is new, a message is appended, reading marks the incoming messages, an interview
  takes one step of its state machine.
\<close>

definition threads_ok :: "world \<Rightarrow> bool" where
  "threads_ok w \<longleftrightarrow>
     index_ok (\<lambda>r. Some (convCandidateId r, convCompanyId r)) (conversations (db w)) \<and>
     (\<forall>c \<in> set (conversations (db w)). convId c < nextId w) \<and>
     (\<forall>m \<in> set (messages (db w)). msgId m < nextId w)"

definition between :: "uuid \<Rightarrow> uuid \<Rightarrow> conversation \<Rightarrow> bool" where
  "between p c x \<longleftrightarrow> convCandidateId x = p \<and> convCompanyId x = c"

definition opened_thread :: "env \<Rightarrow> uuid \<Rightarrow> uuid \<Rightarrow> uuid \<Rightarrow> uuid \<Rightarrow> conversation" where
  "opened_thread env i p c ci = \<lparr>convId = ci, convCandidateId = p, convRecruiterId = i,
     convCompanyId = c, convStatus = CONV_OPEN, convUpdatedAt = now env\<rparr>"

lemma remaining_cong:
  "subscriptions (db w) = subscriptions (db w') \<Longrightarrow> remaining env c w = remaining env c w'"
  by (simp add: remaining_eq)

lemma conversation_rejected:
  "x \<in> set t \<Longrightarrow> between (convCandidateId r) (convCompanyId r) x \<Longrightarrow>
     conversation_violated (t @ [r]) = Some UQ_conversations_candidate_company"
  unfolding conversation_violated_def index_ok_snoc between_def
  by (metis (no_types, lifting) image_eqI)

lemma conversation_accepted:
  "index_ok (\<lambda>r. Some (convCandidateId r, convCompanyId r)) t \<Longrightarrow>
     \<forall>x \<in> set t. \<not> between (convCandidateId r) (convCompanyId r) x \<Longrightarrow>
     conversation_violated (t @ [r]) = None"
  by (auto simp: conversation_violated_def index_ok_snoc between_def)

lemma openThread_cases:
  assumes wf: "\<exists>n. wf_subs n (subscriptions (db w))" and ok: "threads_ok w"
  obtains (refused) e where "remaining env c w = 0" "\<not> isUniqueViolation e"
      "e \<in> {SubscriptionInactiveException c, ContactQuotaExceededException c}"
      "openThread env i p c body w = (Inl e, w)"
  | (duplicate) x w1 where "x \<in> set (conversations (db w))" "between p c x" "0 < remaining env c w"
      "openThread env i p c body w = (Inl (UniqueViolation UQ_conversations_candidate_company), w1)"
      "nextId w \<le> nextId w1"
  | (opened) t w1 where "\<forall>x \<in> set (conversations (db w)). \<not> between p c x"
      "0 < remaining env c w" "remaining env c w1 = remaining env c w - 1"
      "openThread env i p c body w = (Inr (opened_thread env i p c (nextId w)), w1)"
      "nextId w1 = nextId w + 2"
      "db w1 = (db w)\<lparr>subscriptions := t,
         conversations := conversations (db w) @ [opened_thread env i p c (nextId w)],
         messages := messages (db w) @
           [new_message env (nextId w) i FROM_RECRUITER body (Suc (nextId w))]\<rparr>"
proof -
  obtain n where n: "wf_subs n (subscriptions (db w))" using wf by blast
  let ?c = "opened_thread env i p c (nextId w)"
  have id: "convId ?c \<notin> convId ` set (conversations (db w))"
    using ok by (auto simp: threads_ok_def opened_thread_def)
  obtain r w0 where run: "consumeOneContact env c w = (r, w0)" by fastforce
  show ?thesis
  proof (cases r)
    case (Inl e)
    from n have "e \<in> {SubscriptionInactiveException c, ContactQuotaExceededException c}"
      by (cases rule: consume_cases [where c = c and env = env]) (use run Inl in auto)
    then show ?thesis
      using refused [of e] quota.refuses [OF wf] run Inl by (auto simp: openThread_def)
  next
    case (Inr u)
    with quota.spends [OF wf] run have left: "0 < remaining env c w"
      "remaining env c w0 = remaining env c w - 1"
      and w0: "w0 = w\<lparr>db := (db w)\<lparr>subscriptions := subscriptions (db w0)\<rparr>\<rparr>" by auto
    have same: "conversations (db w0) = conversations (db w)" "messages (db w0) = messages (db w)"
      "nextId w0 = nextId w" by (subst w0, simp)+
    have go: "openThread env i p c body w = (bindE (saveConversation ?c) (\<lambda>conv.
        bindE freshId (\<lambda>mi. bindE (saveMessage (new_message env (convId conv) i FROM_RECRUITER body mi))
          (\<lambda>_. ret conv)))) (w0\<lparr>nextId := Suc (nextId w)\<rparr>)"
      using run Inr same(3) by (simp add: openThread_def freshId_def opened_thread_def bindE_def)
    have up: "upsert convId ?c (conversations (db w)) = conversations (db w) @ [?c]"
      by (rule upsert_new [OF id])
    have pc: "convCandidateId ?c = p" "convCompanyId ?c = c" "convId ?c = nextId w"
      by (simp_all add: opened_thread_def)
    show ?thesis
    proof (cases "\<exists>x \<in> set (conversations (db w)). between p c x")
      case True
      then obtain x where x: "x \<in> set (conversations (db w))" "between p c x" by blast
      then have "conversation_violated (upsert convId ?c (conversations (db w))) =
          Some UQ_conversations_candidate_company"
        using conversation_rejected [of x _ ?c] pc up by simp
      then have "saveConversation ?c (w0\<lparr>nextId := Suc (nextId w)\<rparr>) =
          (Inl (UniqueViolation UQ_conversations_candidate_company), w0\<lparr>nextId := Suc (nextId w)\<rparr>)"
        unfolding saveConversation_def by (simp add: save_into_Inl same)
      with go duplicate [OF x left(1), of "w0\<lparr>nextId := Suc (nextId w)\<rparr>"] show ?thesis by simp
    next
      case False
      then have acc: "conversation_violated (upsert convId ?c (conversations (db w))) = None"
        using conversation_accepted [of "conversations (db w)" ?c] pc up ok by (auto simp: threads_ok_def)
      let ?m = "new_message env (nextId w) i FROM_RECRUITER body (Suc (nextId w))"
      have "msgId ?m \<notin> msgId ` set (messages (db w))"
        using ok by (auto simp: threads_ok_def new_message_def)
      then have mup: "upsert msgId ?m (messages (db w)) = messages (db w) @ [?m]"
        by (rule upsert_new)
      let ?w1 = "w0\<lparr>nextId := Suc (Suc (nextId w)), db := (db w0)\<lparr>
         conversations := conversations (db w) @ [?c], messages := messages (db w) @ [?m]\<rparr>\<rparr>"
      have "openThread env i p c body w = (Inr ?c, ?w1)"
        using acc mup unfolding go saveConversation_def saveMessage_def
        by (simp add: returns same up pc unconstrained_def)
      moreover have "db ?w1 = (db w)\<lparr>subscriptions := subscriptions (db w0),
         conversations := conversations (db w) @ [?c], messages := messages (db w) @ [?m]\<rparr>"
        by (subst w0) simp
      moreover have "remaining env c ?w1 = remaining env c w0" by (rule remaining_cong) simp
      ultimately show ?thesis using opened [of ?w1] False left by auto
    qed
  qed
qed

section \<open>Opening\<close>

definition thread_opened :: "env \<Rightarrow> uuid \<Rightarrow> uuid \<Rightarrow> uuid \<Rightarrow> string \<Rightarrow> conversation \<Rightarrow> world \<Rightarrow> world \<Rightarrow> bool" where
  "thread_opened env i p co body c w w' \<longleftrightarrow>
     remaining env co w' = remaining env co w - 1 \<and>
     c = opened_thread env i p co (convId c) \<and>
     conversations (db w') = conversations (db w) @ [c] \<and>
     messages (db w') = messages (db w) @
       [new_message env (convId c) i FROM_RECRUITER body (Suc (convId c))]"

lemma find_thread:
  assumes "index_ok (\<lambda>r. Some (convCandidateId r, convCompanyId r)) t" "x \<in> set t" "between p c x"
  shows "List.find (\<lambda>x. convCandidateId x = p \<and> convCompanyId x = c) t = Some x"
proof (cases "List.find (\<lambda>x. convCandidateId x = p \<and> convCompanyId x = c) t")
  case None
  with assms(2,3) show ?thesis by (auto simp: find_None_iff between_def)
next
  case (Some y)
  then have "y \<in> set t" "convCandidateId y = p \<and> convCompanyId y = c"
    by (auto dest: find_SomeD)
  with index_ok_unique [OF assms(1) this(1) assms(2), of "(p, c)"] assms(3) Some
  show ?thesis by (simp add: between_def)
qed

lemma thread_unique:
  assumes "threads_ok w" "x \<in> set (conversations (db w))" "between p c x"
  shows "{y \<in> set (conversations (db w)). between p c y} = {x}"
proof -
  have ix: "index_ok (\<lambda>r. Some (convCandidateId r, convCompanyId r)) (conversations (db w))"
    using assms(1) by (simp add: threads_ok_def)
  have "y = x" if "y \<in> set (conversations (db w))" "between p c y" for y
    using find_thread [OF ix that] find_thread [OF ix assms(2,3)] by simp
  with assms(2,3) show ?thesis by blast
qed

text \<open>What follows the transaction touches notifications and analytics only.\<close>

definition after_opening :: "env \<Rightarrow> candidate_profile \<Rightarrow> uuid \<Rightarrow> conversation \<Rightarrow> conversation service" where
  "after_opening env profile i created =
     bindE (track env A_RECRUITER_CONTACT (Some i)) (\<lambda>_.
     bindE (notifyNewMessage env (cpUserId profile) FROM_RECRUITER) (\<lambda>_. ret created))"

lemma after_opening_frame:
  obtains w' t where "after_opening env profile i c w = (Inr c, w')"
    "db w' = (db w)\<lparr>notifications := t\<rparr>" "nextId w \<le> nextId w'"
proof -
  obtain w1 where w1: "track env A_RECRUITER_CONTACT (Some i) w = (Inr (), w1)"
      "db w1 = db w" "nextId w1 = nextId w"
  proof (cases "analyticsFails env")
    case False
    with that [of "w\<lparr>analytics := analytics w @ [(A_RECRUITER_CONTACT, Some i)]\<rparr>"]
    show ?thesis by (simp add: track_def)
  qed (simp add: track_def)
  obtain r w2 where w2: "notifyNewMessage env (cpUserId profile) FROM_RECRUITER w1 = (r, w2)"
    by fastforce
  then obtain t where t: "db w2 = (db w1)\<lparr>notifications := t\<rparr>"
    using movesD [OF moves_notifyNewMessage w2] by (auto simp: only_notifications_def)
  have "r = Inr ()"
    using w2 bestEffort_never_throws unfolding notifyNewMessage_def by (cases r) auto
  moreover have "ids_grow (notifyNewMessage env (cpUserId profile) FROM_RECRUITER)"
    unfolding notifyNewMessage_def createNotification_def dispatchEmail_def save_defs
    by (intro keeping)
  then have "nextId w1 \<le> nextId w2" using ids_growD w2 by blast
  ultimately show ?thesis
    using that [of w2 t] w1 w2 t by (simp add: after_opening_def)
qed

lemma openConversation_eq:
  "openConversation env i p body w =
     (case assertActiveSubscription env i w of
        (Inl e, w1) \<Rightarrow> (Inl e, w1)
      | (Inr co, w1) \<Rightarrow>
         (case List.find (\<lambda>x. cpId x = p) (candidateProfiles (db w1)) of
            None \<Rightarrow> (Inl (CandidateProfileNotFoundException p), w1)
          | Some profile \<Rightarrow>
             tryCatch (bindE (transaction (openThread env i p co body)) (after_opening env profile i))
               (\<lambda>e. if \<not> isUniqueViolation e then throw e
                else bindE (gets (\<lambda>w. List.find (\<lambda>x. convCandidateId x = p \<and> convCompanyId x = co)
                       (conversations (db w))))
                     (\<lambda>existing. case existing of Some c \<Rightarrow> ret c | None \<Rightarrow> throw e)) w1))"
  unfolding openConversation_def after_opening_def
  by (auto simp: bindE_def someOr_def split: prod.split sum.split option.split)

lemma assertActive_Inr:
  "assertActiveSubscription env i w = (Inr co, w') \<Longrightarrow>
     w' = w \<and> (\<exists>rc. recruiterOf (db w) i = Some rc \<and> recCompanyId rc = co)"
  by (auto simp: assertActive_apply split: option.splits if_splits)

lemma assertActive_Inl: "assertActiveSubscription env i w = (Inl e, w') \<Longrightarrow> w' = w"
  by (auto simp: assertActive_apply split: option.splits if_splits)

lemma openConversation_cases:
  assumes wf: "\<exists>n. wf_subs n (subscriptions (db w))" and ok: "threads_ok w"
    and run: "openConversation env i p body w = (r, w')"
  obtains (failed) e where "r = Inl e" "db w' = db w" "nextId w \<le> nextId w'"
  | (existing) co x where "assertActiveSubscription env i w = (Inr co, w)"
      "x \<in> set (conversations (db w))" "between p co x" "0 < remaining env co w"
      "r = Inr x" "db w' = db w" "nextId w \<le> nextId w'"
  | (opened) co c where "assertActiveSubscription env i w = (Inr co, w)"
      "\<forall>x \<in> set (conversations (db w)). \<not> between p co x" "convId c = nextId w"
      "0 < remaining env co w" "r = Inr c" "thread_opened env i p co body c w w'"
      "nextId w + 2 \<le> nextId w'"
proof -
  obtain a w0 where act: "assertActiveSubscription env i w = (a, w0)" by fastforce
  show ?thesis
  proof (cases a)
    case (Inl e)
    with act assertActive_Inl have "w0 = w" by blast
    with Inl act run show ?thesis using failed by (auto simp: openConversation_eq)
  next
    case (Inr co)
    with act assertActive_Inr have act': "assertActiveSubscription env i w = (Inr co, w)" by blast
    show ?thesis
    proof (cases "List.find (\<lambda>x. cpId x = p) (candidateProfiles (db w))")
      case None
      with run act' show ?thesis using failed by (auto simp: openConversation_eq)
    next
      case (Some profile)
      let ?h = "\<lambda>e. if \<not> isUniqueViolation e then throw e
          else bindE (gets (\<lambda>w. List.find (\<lambda>x. convCandidateId x = p \<and> convCompanyId x = co)
                 (conversations (db w))))
               (\<lambda>existing. case existing of Some c \<Rightarrow> ret c | None \<Rightarrow> throw e)"
      have run': "tryCatch (bindE (transaction (openThread env i p co body)) (after_opening env profile i))
          ?h w = (r, w')"
        using run act' Some by (simp add: openConversation_eq)
      show ?thesis
        using wf ok
      proof (cases rule: openThread_cases [where env = env and c = co and p = p and i = i
            and body = body])
        case (refused e)
        then have "transaction (openThread env i p co body) w = (Inl e, w)"
          by (simp add: transaction_def transactionOn_def setDb_def)
        with run' refused(2) show ?thesis using failed by (auto simp: tryCatch_def bindE_def)
      next
        case (duplicate x w1)
        then have "transaction (openThread env i p co body) w =
            (Inl (UniqueViolation UQ_conversations_candidate_company), w1\<lparr>db := db w\<rparr>)"
          by (simp add: transaction_def transactionOn_def setDb_def)
        moreover have "List.find (\<lambda>x. convCandidateId x = p \<and> convCompanyId x = co)
            (conversations (db w)) = Some x"
          using ok duplicate(1,2) by (auto simp: threads_ok_def intro: find_thread)
        ultimately have "r = Inr x" "w' = w1\<lparr>db := db w\<rparr>"
          using run' by (auto simp: tryCatch_def bindE_def)
        with duplicate show ?thesis using existing [OF act' duplicate(1,2,3)] by simp
      next
        case (opened t w1)
        let ?c = "opened_thread env i p co (nextId w)"
        obtain w2 n where w2: "after_opening env profile i ?c w1 = (Inr ?c, w2)"
          "db w2 = (db w1)\<lparr>notifications := n\<rparr>" "nextId w1 \<le> nextId w2"
          by (rule after_opening_frame)
        have "transaction (openThread env i p co body) w = (Inr ?c, w1)"
          using opened(4) by (simp add: transaction_Inr)
        then have r: "r = Inr ?c" "w' = w2" using run' w2(1) by (auto simp: tryCatch_def)
        have "remaining env co w2 = remaining env co w1"
          by (rule remaining_cong) (simp add: w2(2))
        then have "thread_opened env i p co body ?c w w'"
          using opened w2 r by (simp add: thread_opened_def opened_thread_def)
        with that(3) [OF act' opened(1) _ opened(2) r(1)] opened(5) w2(3) r(2)
        show ?thesis by (simp add: opened_thread_def)
      qed
    qed
  qed
qed

section \<open>Sending and reading\<close>

lemma ids_grow_notifyRecipient: "ids_grow (notifyRecipient env conv role)"
  unfolding notifyRecipient_def notifyNewMessage_def createNotification_def dispatchEmail_def
    saveNotification_def
  by (intro keeping ids_grow_outside [OF outside_resolveRecipient])

lemma notifyRecipient_returns:
  "\<exists>w' n. notifyRecipient env conv role w = (Inr (), w') \<and>
     db w' = (db w)\<lparr>notifications := n\<rparr> \<and> nextId w \<le> nextId w'"
proof -
  obtain r w' where run: "notifyRecipient env conv role w = (r, w')" by fastforce
  have "r = Inr ()"
  proof (cases r)
    case (Inl e)
    with run bestEffort_never_throws show ?thesis
      unfolding notifyRecipient_def resolveRecipient_def notifyNewMessage_def
      by (cases role) (auto simp: bindE_def split: option.splits)
  qed auto
  with run movesD [OF moves_notifyRecipient run] ids_growD [OF ids_grow_notifyRecipient run]
  show ?thesis by (auto simp: only_notifications_def)
qed

lemma sendMessage_eq:
  assumes ok: "threads_ok w" and au: "findAuthorizedConversation cid u w = (Inr (conv, side), w)"
  shows "\<exists>w' n. sendMessage env cid u body w =
      (Inr (new_message env (convId conv) u side body (nextId w)), w') \<and>
    db w' = (db w)\<lparr>messages := messages (db w) @ [new_message env (convId conv) u side body (nextId w)],
      notifications := n\<rparr> \<and> nextId w < nextId w'"
proof -
  let ?m = "new_message env (convId conv) u side body (nextId w)"
  have "msgId ?m \<notin> msgId ` set (messages (db w))"
    using ok by (auto simp: threads_ok_def new_message_def)
  then have up: "upsert msgId ?m (messages (db w)) = messages (db w) @ [?m]" by (rule upsert_new)
  let ?w = "w\<lparr>nextId := Suc (nextId w), db := (db w)\<lparr>messages := messages (db w) @ [?m]\<rparr>\<rparr>"
  have save: "saveMessage ?m (w\<lparr>nextId := Suc (nextId w)\<rparr>) = (Inr ?m, ?w)"
    by (simp add: saveMessage_def save_into_Inr unconstrained_def up)
  obtain w2 n where w2: "notifyRecipient env conv side ?w = (Inr (), w2)"
    "db w2 = (db ?w)\<lparr>notifications := n\<rparr>" "nextId ?w \<le> nextId w2"
    using notifyRecipient_returns by blast
  have "sendMessage env cid u body w = (Inr ?m, w2)"
    using au save w2(1) by (simp add: sendMessage_def freshId_def bindE_def)
  with w2(2,3) show ?thesis by auto
qed

definition mark_read :: "env \<Rightarrow> uuid \<Rightarrow> uuid \<Rightarrow> message list \<Rightarrow> message list" where
  "mark_read env cid u = update_where (incoming_unread cid u) (\<lambda>m. m\<lparr>readAt := Some (now env)\<rparr>)"

lemma listMessages_eq:
  assumes au: "findAuthorizedConversation cid u w = (Inr (conv, side), w)"
  shows "listMessages env cid u w =
     (Inr (map (toMessageView u) (sort_key msgCreatedAt
        (filter (\<lambda>m. msgConversationId m = convId conv) (mark_read env (convId conv) u (messages (db w)))))),
      w\<lparr>db := (db w)\<lparr>messages := mark_read env (convId conv) u (messages (db w))\<rparr>\<rparr>)"
  using au by (simp add: listMessages_def mark_read_def)

lemma mark_read_none_left: "m \<in> set (mark_read env cid u t) \<Longrightarrow> \<not> incoming_unread cid u m"
proof
  assume "m \<in> set (mark_read env cid u t)" and unread: "incoming_unread cid u m"
  then obtain r where "m = (if incoming_unread cid u r then r\<lparr>readAt := Some (now env)\<rparr> else r)"
    by (auto simp only: mark_read_def update_where_def set_map)
  with unread show False by (cases "incoming_unread cid u r") (auto simp: incoming_unread_def [of _ _ "_\<lparr>readAt := _\<rparr>"])
qed

lemma mark_read_again: "mark_read env' cid u (mark_read env cid u t) = mark_read env cid u t"
proof -
  have "\<not> incoming_unread cid u m" if "m \<in> set (mark_read env cid u t)" for m
    using that by (rule mark_read_none_left)
  then show ?thesis
    unfolding mark_read_def [of env'] update_where_def by (intro map_idI) auto
qed

lemma mark_read_ids:
  "image_mset msgId (filter_mset (\<lambda>m. msgConversationId m = cid) (mset (mark_read env c u t))) =
     image_mset msgId (filter_mset (\<lambda>m. msgConversationId m = cid) (mset t))"
  unfolding mark_read_def by (induction t) simp_all

lemma mark_read_count:
  "count_where (incoming_unread cid v) (mark_read env cid u t) =
     count_where (\<lambda>m. incoming_unread cid v m \<and> msgSenderId m = u) t"
  unfolding mark_read_def by (induction t) (auto simp: incoming_unread_def)

section \<open>Interview histories\<close>

datatype interview_op =
  Propose uuid uuid interview_mode "date option" "int option" "string option" "string option"
| Respond uuid uuid uuid answer
| ListInterviews uuid uuid

fun perform :: "env \<times> interview_op \<Rightarrow> world \<Rightarrow> world" where
  "perform (env, Propose cid u mode slot duration loc note) w =
     snd (proposeInterview env cid u mode slot duration loc note w)"
| "perform (env, Respond cid iid u a) w = snd (respondInterview env cid iid u a w)"
| "perform (env, ListInterviews cid u) w = snd (listInterviews cid u w)"

definition interview_moves :: "interview \<Rightarrow> interview \<Rightarrow> bool" where
  "interview_moves iv iv' \<longleftrightarrow> iv' = iv \<or> (\<exists>side t. interview_step side t iv iv')"

lemma interview_moves_trans:
  "interview_moves a b \<Longrightarrow> interview_moves b c \<Longrightarrow> interview_moves a c"
  unfolding interview_moves_def using step_from_proposed by blast

lemma listInterviews_world: "snd (listInterviews cid u w) = w"
proof -
  obtain r w' where au: "findAuthorizedConversation cid u w = (r, w')" by fastforce
  then have "w' = w" by (rule findAuthorized_world)
  with au show ?thesis by (cases r) (auto simp: listInterviews_def)
qed

lemma perform_moves:
  assumes "interviews_ok w"
  shows "interviews_ok (perform op w) \<and>
    (\<forall>iv \<in> set (interviews (db w)). \<exists>iv' \<in> set (interviews (db (perform op w))). interview_moves iv iv')"
proof -
  obtain env p where op: "op = (env, p)" by (cases op)
  show ?thesis
  proof (cases p)
    case (ListInterviews cid u)
    with op assms listInterviews_world show ?thesis by (auto simp: interview_moves_def)
  next
    case (Respond cid iid u a)
    obtain r w' where run: "respondInterview env cid iid u a w = (r, w')" by fastforce
    then show ?thesis
    proof (cases rule: respond_cases)
      case (refused e)
      with run op Respond assms show ?thesis by (auto simp: interview_moves_def)
    next
      case (answered conv side iv n)
      let ?iv = "answered_row env a iv"
      have id: "ivId ?iv = ivId iv" by (simp add: answered_row_def)
      have same: "x = iv" if "x \<in> set (interviews (db w))" "ivId x = ivId iv" for x
        using assms that answered(2) by (auto simp: interviews_ok_def distinct_map inj_on_def)
      have "interview_moves iv ?iv"
        using may_answer_step [OF answered(5)] by (auto simp: interview_moves_def)
      then have "\<forall>x \<in> set (interviews (db w)). \<exists>x' \<in> set (upsert ivId ?iv (interviews (db w))).
          interview_moves x x'"
        using same id by (auto simp: set_upsert interview_moves_def)
      moreover have "interviews_ok w'"
        using assms answered(2,7,8) id distinct_upsert [of ivId "interviews (db w)" ?iv]
        by (fastforce simp: interviews_ok_def set_upsert)
      ultimately show ?thesis using run op Respond answered(7) by simp
    qed
  next
    case (Propose cid u mode slot duration loc remark)
    obtain r w' where run: "proposeInterview env cid u mode slot duration loc remark w = (r, w')"
      by fastforce
    then show ?thesis
    proof (cases rule: propose_cases)
      case (refused e)
      with run op Propose assms show ?thesis by (auto simp: interview_moves_def)
    next
      case (proposed conv side day iv n)
      have id: "ivId iv = nextId w" by (simp add: proposed(4) proposed_row_def)
      with assms have "ivId iv \<notin> ivId ` set (interviews (db w))" by (auto simp: interviews_ok_def)
      then have up: "upsert ivId iv (interviews (db w)) = interviews (db w) @ [iv]" by (rule upsert_new)
      have "interviews_ok w'"
        using assms id proposed(6,7) up by (fastforce simp: interviews_ok_def)
      with run op Propose proposed(6) up show ?thesis by (auto simp: interview_moves_def)
    qed
  qed
qed

lemma performed_moves:
  "interviews_ok w \<Longrightarrow> iv \<in> set (interviews (db w)) \<Longrightarrow>
     \<exists>iv' \<in> set (interviews (db (fold perform ops w))). interview_moves iv iv'"
proof (induction ops arbitrary: w iv)
  case Nil
  then show ?case by (auto simp: interview_moves_def)
next
  case (Cons op ops)
  from perform_moves [OF Cons.prems(1), of op] Cons.prems(2) obtain iv1 where
    "interviews_ok (perform op w)" "iv1 \<in> set (interviews (db (perform op w)))" "interview_moves iv iv1"
    by blast
  with Cons.IH [OF this(1,2)] show ?case by (auto intro: interview_moves_trans)
qed

section \<open>Safe names\<close>

lemma separator_unsafe: "safe_char c \<Longrightarrow> \<not> separator c"
  by (auto simp: safe_char_def separator_def Let_def)

lemma takeWhile_all: "(\<And>x. x \<in> set xs \<Longrightarrow> P x) \<Longrightarrow> takeWhile P xs = xs"
  by (simp add: takeWhile_eq_all_conv)

lemma last_segment_safe: "list_all safe_char s \<Longrightarrow> last_segment s = s"
  unfolding last_segment_def by (subst takeWhile_all) (auto simp: list_all_iff dest: separator_unsafe)

definition clean_name :: "string \<Rightarrow> bool" where
  "clean_name s \<longleftrightarrow> s \<noteq> [] \<and> hd s \<noteq> CHR ''.'' \<and> list_all safe_char s \<and> length s \<le> 100"

lemma clean_name_fixed: "clean_name s \<Longrightarrow> safeAttachmentName s = s"
proof -
  assume s: "clean_name s"
  then have "map (\<lambda>c. if safe_char c then c else CHR ''_'') s = s"
    by (intro map_idI) (auto simp: clean_name_def list_all_iff)
  moreover have "dropWhile (\<lambda>c. c = CHR ''.'') s = s"
    using s by (cases s) (auto simp: clean_name_def)
  ultimately show ?thesis
    using s last_segment_safe [of s]
    by (simp add: safeAttachmentName_def clean_name_def del: dropWhile_eq_Nil_conv map_eq_conv)
qed

lemma clean_name_take:
  "c \<noteq> [] \<Longrightarrow> hd c \<noteq> CHR ''.'' \<Longrightarrow> list_all safe_char c \<Longrightarrow> clean_name (take 100 c)"
  by (auto simp: clean_name_def list_all_iff dest: in_set_takeD)

lemma safe_underscore: "safe_char (CHR ''_'')"
  by (simp add: safe_char_def)

lemma safeAttachmentName_clean: "clean_name (safeAttachmentName n)"
proof -
  let ?b = "map (\<lambda>c. if safe_char c then c else CHR ''_'')
    (last_segment (if n = [] then ''document'' else n))"
  let ?c = "dropWhile (\<lambda>c. c = CHR ''.'') ?b"
  show ?thesis
  proof (cases "?c = []")
    case True
    have "clean_name ''document''" by (simp add: clean_name_def safe_char_def)
    with True show ?thesis by (simp add: safeAttachmentName_def Let_def)
  next
    case False
    then have "hd ?c \<noteq> CHR ''.''" using hd_dropWhile by blast
    moreover have "safe_char c" if "c \<in> set ?c" for c
    proof -
      have "c \<in> set ?b" using that by (rule set_dropWhileD)
      then show ?thesis using safe_underscore by auto
    qed
    ultimately have "clean_name (take 100 ?c)"
      by (intro clean_name_take False) (auto simp only: list_all_iff)
    with False show ?thesis by (simp only: safeAttachmentName_def Let_def if_False)
  qed
qed

section \<open>Authorization looks at three tables\<close>

lemma findAuthorized_cong:
  assumes "findAuthorizedConversation cid u w = (r, w)"
    "recruiters (db w') = recruiters (db w)" "candidateProfiles (db w') = candidateProfiles (db w)"
    "conversations (db w') = conversations (db w)"
  shows "findAuthorizedConversation cid u w' = (r, w')"
  using assms unfolding findAuthorized_eq recruiterOf_def candidateOf_def
  by (auto split: option.splits)

end
