(* ===== verification/Messaging_Props.thy ===== *)
theory Messaging_Props
  imports Messaging_Facts Sample
begin

text \<open>
  The properties of threads, messages, attachments and interviews.
\<close>

text \<open>A thread between the sample company and the sample candidate.\<close>

definition thread0 :: conversation where
  "thread0 = \<lparr>convId = 70, convCandidateId = 50, convRecruiterId = 1, convCompanyId = 10,
     convStatus = CONV_OPEN, convUpdatedAt = 0\<rparr>"

definition world_thread :: world where
  "world_thread = world0\<lparr>db := db0\<lparr>conversations := [thread0],
     messages := [new_message env0 70 1 FROM_RECRUITER ''Bonjour'' 71],
     interviews := [proposed_row env0 thread0 1 FROM_RECRUITER VIDEO 2000000000 None None None 72]\<rparr>\<rparr>"

lemmas thread_sample = thread0_def world_thread_def new_message_def proposed_row_def sample_defs

section \<open>Opening a thread\<close>

text \<open>C10: opening a thread spends a contact credit exactly when it creates the thread. On an error
  the database is as it was. On success the result is the one thread of the candidate with the
  recruiter's company: either it existed and the database is as it was, or it is new, one credit
  is gone, and the thread and its first message are the only rows added.\<close>

theorem open_conversation_outcome:
  assumes "\<exists>n. wf_subs n (subscriptions (db w))" "threads_ok w"
    "openConversation env i p body w = (r, w')"
  shows "threads_ok w' \<and>
    (case r of
       Inl e \<Rightarrow> db w' = db w
     | Inr c \<Rightarrow> \<exists>co. assertActiveSubscription env i w = (Inr co, w) \<and> 0 < remaining env co w \<and>
         {x \<in> set (conversations (db w')). between p co x} = {c} \<and>
         (if c \<in> set (conversations (db w)) then db w' = db w
          else thread_opened env i p co body c w w'))"
  using assms
proof (cases rule: openConversation_cases)
  case (failed e)
  with assms(2) show ?thesis by (auto simp: threads_ok_def)
next
  case (existing co x)
  have "{y \<in> set (conversations (db w')). between p co y} = {x}"
    using thread_unique [OF assms(2) existing(2,3)] existing(6) by simp
  moreover have "threads_ok w'" using existing(6,7) assms(2) by (auto simp: threads_ok_def)
  ultimately show ?thesis using existing by auto
next
  case (opened co c)
  have eq: "c = opened_thread env i p co (convId c)" using opened(6) by (simp add: thread_opened_def)
  have c: "between p co c" by (subst eq) (simp add: between_def opened_thread_def)
  then have new: "c \<notin> set (conversations (db w))" using opened(2) by blast
  have "{y \<in> set (conversations (db w')). between p co y} = {c}"
    using opened(2,6) c by (auto simp: thread_opened_def)
  moreover have "threads_ok w'"
    using assms(2) opened(2,3,6,7) c
    by (fastforce simp: threads_ok_def thread_opened_def index_ok_snoc between_def new_message_def)
  ultimately show ?thesis using opened new by auto
qed

lemma open_conversation_outcome_witness:
  "\<exists>r w'. openConversation env0 1 50 ''Bonjour'' world0 = (r, w') \<and> threads_ok w'"
proof -
  have "wf_subs 100 (subscriptions (db world0))" by (simp add: wf_subs_def sample_defs
      sub_violated_def index_ok_def subscription_active_key_def)
  moreover have "threads_ok world0" by (simp add: threads_ok_def sample_defs)
  moreover obtain r w' where "openConversation env0 1 50 ''Bonjour'' world0 = (r, w')" by fastforce
  ultimately show ?thesis using open_conversation_outcome [of world0 env0 1 50 "''Bonjour''" r w'] by blast
qed

text \<open>The request is not idempotent for a company without credits: when its thread with the
  candidate already exists but no credit is left, it is answered with a quota error, although
  nothing would have been spent.\<close>

theorem open_existing_needs_credit:
  assumes "\<exists>n. wf_subs n (subscriptions (db w))" "threads_ok w"
    "assertActiveSubscription env i w = (Inr co, w)" "remaining env co w = 0"
    "List.find (\<lambda>x. cpId x = p) (candidateProfiles (db w)) = Some profile"
    "x \<in> set (conversations (db w))" "between p co x"
  shows "fst (openConversation env i p body w) \<in>
    {Inl (SubscriptionInactiveException co), Inl (ContactQuotaExceededException co)}"
  using assms(1,2)
proof (cases rule: openThread_cases [where env = env and c = co and p = p and i = i and body = body])
  case (refused e)
  then have "transaction (openThread env i p co body) w = (Inl e, w)"
    by (simp add: transaction_def transactionOn_def setDb_def)
  with refused show ?thesis using assms(3,5) by (auto simp: openConversation_eq tryCatch_def bindE_def)
qed (use assms(4) in simp_all)

lemma open_existing_needs_credit_witness:
  "\<exists>w. conversations (db w) = [thread0] \<and>
     fst (openConversation env0 1 50 ''Encore'' w) \<in>
       {Inl (SubscriptionInactiveException 10), Inl (ContactQuotaExceededException 10)}"
proof -
  let ?w = "world_thread\<lparr>db := (db world_thread)\<lparr>subscriptions := [sub0\<lparr>contactsUsed := 5\<rparr>]\<rparr>\<rparr>"
  have "\<exists>n. wf_subs n (subscriptions (db ?w))"
    by (rule exI [of _ 100]) (simp add: wf_subs_def sub_violated_def index_ok_def
      subscription_active_key_def sub0_def)
  moreover have "threads_ok ?w" by (simp add: threads_ok_def index_ok_def thread_sample)
  moreover have "assertActiveSubscription env0 1 ?w = (Inr 10, ?w)"
    by (simp add: assertActive_apply recruiterOf_def latest_subscription_def find_latest_def
        isSubscriptionWithinAccess_def thread_sample)
  moreover have "remaining env0 10 ?w = 0"
    by (simp add: remaining_eq sub0_def)
  moreover have "List.find (\<lambda>x. cpId x = 50) (candidateProfiles (db ?w)) = Some profile0"
    by (simp add: world_thread_def db0_def profile0_def)
  moreover have "thread0 \<in> set (conversations (db ?w))" "between 50 10 thread0"
    by (simp_all add: world_thread_def thread0_def between_def)
  ultimately have "fst (openConversation env0 1 50 ''Encore'' ?w) \<in>
      {Inl (SubscriptionInactiveException 10), Inl (ContactQuotaExceededException 10)}"
    by (rule open_existing_needs_credit)
  then show ?thesis by (intro exI [of _ ?w]) (simp add: world_thread_def)
qed

section \<open>Outsiders\<close>

text \<open>C11: whoever is not a party of a thread learns nothing of it: sending, attaching, reading,
  reporting, proposing, listing and answering interviews all end with the exception of a thread
  that does not exist, downloading an attachment with a refusal, and nothing changes.\<close>

theorem thread_outsiders:
  assumes "\<forall>c \<in> set (conversations (db w)). convId c = cid \<longrightarrow> \<not> sees (db w) u c"
  shows "sendMessage env cid u body w = (Inl (ConversationNotFoundException cid), w) \<and>
    sendAttachment env cid u file caption w = (Inl (ConversationNotFoundException cid), w) \<and>
    listMessages env cid u w = (Inl (ConversationNotFoundException cid), w) \<and>
    reportConversation env cid u reason w = (Inl (ConversationNotFoundException cid), w) \<and>
    proposeInterview env cid u mode slot duration loc remark w = (Inl (ConversationNotFoundException cid), w) \<and>
    listInterviews cid u w = (Inl (ConversationNotFoundException cid), w) \<and>
    respondInterview env cid iid u a w = (Inl (ConversationNotFoundException cid), w) \<and>
    getAttachmentSignedUrl env cid mid u w = (Inl (ForbiddenException ''not-a-participant''), w)"
proof -
  note out = thread.outsider [OF assms]
  have "tryCatch (findAuthorizedConversation cid u)
      (\<lambda>_. throw (ForbiddenException ''not-a-participant'')) w = (Inl (ForbiddenException ''not-a-participant''), w)"
    using thread.refuses [OF assms] by (simp add: tryCatch_def)
  then have "getAttachmentSignedUrl env cid mid u w = (Inl (ForbiddenException ''not-a-participant''), w)"
    unfolding getAttachmentSignedUrl_def by (rule bindE_Inl)
  then show ?thesis
    unfolding sendMessage_def sendAttachment_def listMessages_def reportConversation_def
      proposeInterview_def listInterviews_def respondInterview_def
    by (intro conjI out)
qed

lemma thread_outsiders_witness:
  "conversations (db world_thread) = [thread0] \<and>
     sendMessage env0 70 99 ''Coucou'' world_thread = (Inl (ConversationNotFoundException 70), world_thread)"
proof -
  have out: "\<forall>c \<in> set (conversations (db world_thread)). convId c = 70 \<longrightarrow> \<not> sees (db world_thread) 99 c"
    by (simp add: sees_def recruiterOf_def candidateOf_def thread_sample)
  from thread_outsiders [OF out, of env0 "''Coucou''"] show ?thesis
    by (simp add: world_thread_def)
qed

section \<open>Sending and reading\<close>

text \<open>A party's message is appended to the thread under the side the party is on, unread, and
  nothing else changes but notifications. In particular the rows of threads are as they were, so
  the list of threads keeps its order: sending does not bring a thread to the top.\<close>

theorem send_message_effect:
  assumes "threads_ok w" "sendMessage env cid u body w = (Inr m, w')"
  shows "\<exists>c side. c \<in> set (conversations (db w)) \<and> convId c = cid \<and> sees (db w) u c \<and>
    findAuthorizedConversation cid u w = (Inr (c, side), w) \<and>
    m = new_message env cid u side body (nextId w) \<and>
    db w' = (db w)\<lparr>messages := messages (db w) @ [m], notifications := notifications (db w')\<rparr> \<and>
    threads_ok w' \<and>
    map csId (projr (fst (listConversations v w'))) = map csId (projr (fst (listConversations v w)))"
proof -
  from thread.insider [OF assms(2) [unfolded sendMessage_def]] obtain c side where
    au: "findAuthorizedConversation cid u w = (Inr (c, side), w)" and
    c: "c \<in> set (conversations (db w))" "convId c = cid" "sees (db w) u c" by metis
  from sendMessage_eq [OF assms(1) au, of env body] assms(2) obtain n where
    m: "m = new_message env cid u side body (nextId w)" and
    d: "db w' = (db w)\<lparr>messages := messages (db w) @ [m], notifications := n\<rparr>" and
    i: "nextId w < nextId w'" using c(2) by auto
  have "threads_ok w'" using assms(1) m d i by (fastforce simp: threads_ok_def new_message_def)
  moreover have "sees (db w') v = sees (db w) v"
    unfolding d sees_def recruiterOf_def candidateOf_def by (rule ext) simp
  then have "map csId (projr (fst (listConversations v w'))) = map csId (projr (fst (listConversations v w)))"
    by (simp add: listConversations_def summarize_def Let_def comp_def d)
  ultimately show ?thesis using au c m d by (intro exI [of _ c] exI [of _ side]) simp
qed

lemma send_message_effect_witness:
  "\<exists>m w'. sendMessage env0 70 2 ''Merci'' world_thread = (Inr m, w') \<and>
     m = new_message env0 70 2 FROM_CANDIDATE ''Merci'' 100 \<and> threads_ok w'"
proof -
  have ok: "threads_ok world_thread" by (simp add: threads_ok_def index_ok_def thread_sample)
  have au: "findAuthorizedConversation 70 2 world_thread = (Inr (thread0, FROM_CANDIDATE), world_thread)"
    by (simp add: findAuthorized_eq recruiterOf_def candidateOf_def thread_sample)
  from sendMessage_eq [OF ok au] obtain m w' where
    run: "sendMessage env0 70 2 ''Merci'' world_thread = (Inr m, w')" by blast
  from send_message_effect [OF ok run] obtain c side where
    "findAuthorizedConversation 70 2 world_thread = (Inr (c, side), world_thread)"
    "m = new_message env0 70 2 side ''Merci'' (nextId world_thread)" "threads_ok w'" by blast
  with au run show ?thesis by (auto simp: world_thread_def world0_def)
qed

text \<open>Reading a thread returns its messages, oldest first, and leaves none unread for the
  reader; reading again returns the same and changes nothing. For any other viewer, only the
  reader's own messages stay unread: when a recruiter opens a thread, the messages a colleague
  sent to the candidate are marked as read although the candidate has not seen them.\<close>

theorem reading_thread:
  assumes "listMessages env cid u w = (Inr views, w')"
  shows "unreadCount (db w') cid u = 0 \<and>
    sorted (map mvCreatedAt views) \<and>
    image_mset mvId (mset views) =
      image_mset msgId (filter_mset (\<lambda>m. msgConversationId m = cid) (mset (messages (db w)))) \<and>
    unreadCount (db w') cid v =
      count_where (\<lambda>m. incoming_unread cid v m \<and> msgSenderId m = u) (messages (db w)) \<and>
    db w' = (db w)\<lparr>messages := messages (db w')\<rparr> \<and>
    listMessages env' cid u w' = (Inr views, w')"
proof -
  from thread.insider [OF assms [unfolded listMessages_def]] obtain c side where
    au: "findAuthorizedConversation cid u w = (Inr (c, side), w)" and c: "convId c = cid" by metis
  let ?t = "mark_read env cid u (messages (db w))"
  have run: "views = map (toMessageView u) (sort_key msgCreatedAt
        (filter (\<lambda>m. msgConversationId m = cid) ?t))"
    "w' = w\<lparr>db := (db w)\<lparr>messages := ?t\<rparr>\<rparr>"
    using assms listMessages_eq [OF au, of env] c by auto
  have au': "findAuthorizedConversation cid u w' = (Inr (c, side), w')"
    by (rule findAuthorized_cong [OF au]) (simp_all add: run(2))
  have "listMessages env' cid u w' = (Inr views, w')"
    using listMessages_eq [OF au', of env'] c run by (simp add: mark_read_again)
  moreover have "unreadCount (db w') cid u = 0"
    using mark_read_none_left by (auto simp: unreadCount_def run(2) count_where_zero)
  moreover have "map mvCreatedAt views = map msgCreatedAt (sort_key msgCreatedAt
        (filter (\<lambda>m. msgConversationId m = cid) ?t))"
    by (simp add: run(1) toMessageView_def comp_def)
  moreover have "image_mset mvId (mset views) =
      image_mset msgId (filter_mset (\<lambda>m. msgConversationId m = cid) (mset (messages (db w))))"
    by (simp add: run(1) image_mset.compositionality comp_def toMessageView_def mark_read_ids)
  moreover have "unreadCount (db w') cid v =
      count_where (\<lambda>m. incoming_unread cid v m \<and> msgSenderId m = u) (messages (db w))"
    by (simp add: unreadCount_def run(2) mark_read_count)
  ultimately show ?thesis by (simp add: run(2))
qed

lemma reading_thread_witness:
  "\<exists>views w'. listMessages env0 70 3 (world_thread\<lparr>db := (db world_thread)\<lparr>recruiters :=
       [recruiter0, recruiter0\<lparr>recId := 21, recUserId := 3\<rparr>]\<rparr>\<rparr>) = (Inr views, w') \<and>
     unreadCount (db world_thread) 70 2 = 1 \<and> unreadCount (db w') 70 2 = 0"
proof -
  let ?w = "world_thread\<lparr>db := (db world_thread)\<lparr>recruiters :=
       [recruiter0, recruiter0\<lparr>recId := 21, recUserId := 3\<rparr>]\<rparr>\<rparr>"
  have "findAuthorizedConversation 70 3 ?w = (Inr (thread0, FROM_RECRUITER), ?w)"
    by (simp add: findAuthorized_eq recruiterOf_def thread_sample)
  from listMessages_eq [OF this] obtain views w' where
    run: "listMessages env0 70 3 ?w = (Inr views, w')" by blast
  have "unreadCount (db world_thread) 70 2 = 1"
    by (simp add: unreadCount_def incoming_unread_def thread_sample)
  moreover have "count_where (\<lambda>m. incoming_unread 70 2 m \<and> msgSenderId m = 3) (messages (db ?w)) = 0"
    by (simp add: thread_sample)
  ultimately show ?thesis using reading_thread [OF run, of 2] run by auto
qed

section \<open>Attachment names\<close>

text \<open>Whatever name a client sends, the name put in the storage key is not empty, has at most
  100 characters, all of them letters, digits, dots, underscores or hyphens, holds no path separator
  and does not start with a dot; a name that is already of that form is kept.\<close>

theorem attachment_name_safe:
  "clean_name (safeAttachmentName n) \<and> list_all (\<lambda>c. \<not> separator c) (safeAttachmentName n) \<and>
   safeAttachmentName (safeAttachmentName n) = safeAttachmentName n"
  using safeAttachmentName_clean [of n] clean_name_fixed
  by (auto simp: clean_name_def list_all_iff dest: separator_unsafe)

section \<open>Interviews\<close>



end
