(* ===== verification/Base32.thy ===== *)
theory Base32
  imports Decimal "HOL-Library.Word"
begin

unbundle bit_operations_syntax

text \<open>
  Base32 of \<open>common/crypto/totp.ts\<close>. The accumulator is the runtime's 32-bit integer: it is
  shifted left without ever being cut back, so its high bits are lost; only its low \<open>bits\<close> bits
  are ever read. \<open>low n v\<close> are these bits, the most significant first.
\<close>

definition BASE32_ALPHABET :: string where
  "BASE32_ALPHABET = ''ABCDEFGHIJKLMNOPQRSTUVWXYZ234567''"

section \<open>Encoding\<close>

text \<open>The inner \<open>while (bits >= 5)\<close>.\<close>

fun emit5 :: "nat \<Rightarrow> 32 word \<Rightarrow> string \<Rightarrow> nat \<times> string" where
  "emit5 bits v out =
     (if 5 \<le> bits
      then emit5 (bits - 5) v (out @ [BASE32_ALPHABET ! unat (drop_bit (bits - 5) v AND 31)])
      else (bits, out))"

declare emit5.simps [simp del]

definition encodeByte :: "nat \<times> 32 word \<times> string \<Rightarrow> 8 word \<Rightarrow> nat \<times> 32 word \<times> string" where
  "encodeByte st byte =
     (case st of (bits, v, out) \<Rightarrow>
        (let v' = push_bit 8 v OR ucast byte;
             (bits', out') = emit5 (bits + 8) v' out
         in (bits', v', out')))"

definition base32Encode :: "8 word list \<Rightarrow> string" where
  "base32Encode buffer =
     (case foldl encodeByte (0, 0, []) buffer of (bits, v, out) \<Rightarrow>
        if 0 < bits then out @ [BASE32_ALPHABET ! unat (push_bit (5 - bits) v AND 31)] else out)"

section \<open>Decoding\<close>

definition upper_char :: "char \<Rightarrow> char" where
  "upper_char c =
     (if 97 \<le> (of_char c :: nat) \<and> (of_char c :: nat) \<le> 122 then char_of ((of_char c :: nat) - 32)
      else c)"

definition clean32 :: "string \<Rightarrow> string" where
  "clean32 s = map upper_char (filter (\<lambda>c. \<not> is_space c)
     (rev (dropWhile (\<lambda>c. c = CHR ''='') (rev s))))"

fun indexOf :: "'a \<Rightarrow> 'a list \<Rightarrow> nat option" where
  "indexOf x [] = None"
| "indexOf x (y # ys) = (if x = y then Some 0 else map_option Suc (indexOf x ys))"

definition decodeChar ::
  "nat \<times> 32 word \<times> 8 word list \<Rightarrow> nat \<Rightarrow> nat \<times> 32 word \<times> 8 word list" where
  "decodeChar st idx =
     (case st of (bits, v, out) \<Rightarrow>
        (let v' = push_bit 5 v OR of_nat idx; bits' = bits + 5
         in if 8 \<le> bits' then (bits' - 8, v', out @ [ucast (drop_bit (bits' - 8) v' AND 255)])
            else (bits', v', out)))"

fun decodeChars ::
  "nat \<times> 32 word \<times> 8 word list \<Rightarrow> string \<Rightarrow> (nat \<times> 32 word \<times> 8 word list) option" where
  "decodeChars st [] = Some st"
| "decodeChars st (c # cs) =
     (case indexOf c BASE32_ALPHABET of
        None \<Rightarrow> None
      | Some idx \<Rightarrow> decodeChars (decodeChar st idx) cs)"

text \<open>\<open>None\<close> is the exception for a character outside the alphabet.\<close>

definition base32Decode :: "string \<Rightarrow> 8 word list option" where
  "base32Decode input = map_option (\<lambda>(bits, v, out). out) (decodeChars (0, 0, []) (clean32 input))"

section \<open>The bits\<close>

definition low :: "nat \<Rightarrow> 'a::len word \<Rightarrow> bool list" where
  "low n v = map (bit v) (rev [0..<n])"

lemma length_low [simp]: "length (low n v) = n"
  by (simp add: low_def)

lemma low_0 [simp]: "low 0 v = []"
  by (simp add: low_def)

lemma low_add: "low (m + n) v = low m (drop_bit n v) @ low n v"
proof -
  have "[0..<n + m] = [0..<n] @ [n..<n + m]" by (rule upt_add_eq_append) simp
  also have "[n..<n + m] = map (\<lambda>i. i + n) [0..<m]" by (simp add: map_add_upt add.commute)
  finally have "rev [0..<m + n] = map (\<lambda>i. i + n) (rev [0..<m]) @ rev [0..<n]"
    by (simp only: rev_append rev_map add.commute)
  then show ?thesis unfolding low_def by (simp only: map_append map_map) (simp add: bit_drop_bit_eq comp_def add.commute)
qed

lemma w31: "(31 :: 32 word) = mask 5"
  by (simp add: mask_eq_exp_minus_1)

lemma low_cong: "(\<And>i. i < n \<Longrightarrow> bit v i = bit v' i) \<Longrightarrow> low n v = low n v'"
  by (simp add: low_def)

lemma low_and_31: "low 5 (v AND 31 :: 32 word) = low 5 v"
  unfolding w31 by (rule low_cong) (simp add: bit_and_iff bit_mask_iff)

lemma low_push_byte:
  "n + 8 \<le> 32 \<Longrightarrow> low (n + 8) (push_bit 8 v OR ucast b :: 32 word) = low n v @ low 8 (b :: 8 word)"
  unfolding low_add
  by (intro arg_cong2 [where f = append] low_cong)
    (auto simp: low_def bit_drop_bit_eq bit_or_iff bit_push_bit_iff bit_ucast_iff
      dest: bit_imp_le_length)

lemma low_push_index:
  assumes "n + 5 \<le> 32"
  shows "low (n + 5) (push_bit 5 v OR (w AND 31) :: 32 word) = low n v @ low 5 w"
  using assms unfolding w31 low_add
  by (intro arg_cong2 [where f = append] low_cong)
    (auto simp: bit_drop_bit_eq bit_or_iff bit_push_bit_iff bit_and_iff bit_mask_iff)

lemma low_pad:
  "n < 5 \<Longrightarrow> low 5 (push_bit (5 - n) v :: 32 word) = low n v @ replicate (5 - n) False"
proof -
  assume n: "n < 5"
  have "low 5 (push_bit (5 - n) v) = low n (drop_bit (5 - n) (push_bit (5 - n) v)) @ low (5 - n) (push_bit (5 - n) v)"
    using n low_add [of n "5 - n" "push_bit (5 - n) v"] by simp
  moreover have "low n (drop_bit (5 - n) (push_bit (5 - n) v)) = low n v"
    using n by (intro low_cong) (auto simp: bit_drop_bit_eq bit_push_bit_iff)
  moreover have "low (5 - n) (push_bit (5 - n) v) = replicate (5 - n) False"
    unfolding low_def by (auto simp: list_eq_iff_nth_eq rev_nth bit_push_bit_iff)
  ultimately show ?thesis by simp
qed

lemma low_inject: "low 8 (a :: 8 word) = low 8 b \<longleftrightarrow> a = b"
proof
  assume "low 8 a = low 8 b"
  then have "bit a i = bit b i" if "i < 8" for i
    using that by (simp add: low_def)
  then show "a = b" by (intro bit_word_eqI) simp
qed simp

section \<open>Characters\<close>

definition char_bits :: "char \<Rightarrow> bool list" where
  "char_bits c = low 5 (of_nat (the (indexOf c BASE32_ALPHABET)) :: 32 word)"

definition in_alphabet :: "string \<Rightarrow> bool" where
  "in_alphabet s \<longleftrightarrow> list_all (\<lambda>c. c \<in> set BASE32_ALPHABET) s"

lemma indexOf_nth: "distinct xs \<Longrightarrow> i < length xs \<Longrightarrow> indexOf (xs ! i) xs = Some i"
proof (induction xs arbitrary: i)
  case (Cons x xs)
  then show ?case by (cases i) (auto simp: nth_mem)
qed simp

lemma indexOf_set: "c \<in> set xs \<Longrightarrow> \<exists>i < length xs. indexOf c xs = Some i \<and> xs ! i = c"
  by (induction xs) fastforce+

lemma alphabet_facts: "distinct BASE32_ALPHABET" "length BASE32_ALPHABET = 32"
  by (simp_all add: BASE32_ALPHABET_def)

lemma and_31_less: "unat (v AND 31 :: 32 word) < 32"
proof -
  have "v AND 31 \<le> 31" by (rule word_and_le1)
  then have "unat (v AND 31) \<le> unat (31 :: 32 word)" by (simp add: word_le_nat_alt)
  then show ?thesis by simp
qed

lemma indexOf_code: "indexOf (BASE32_ALPHABET ! unat (v AND 31 :: 32 word)) BASE32_ALPHABET =
    Some (unat (v AND 31 :: 32 word))"
  using indexOf_nth alphabet_facts and_31_less by metis

lemma char_bits_code: "char_bits (BASE32_ALPHABET ! unat (v AND 31 :: 32 word)) = low 5 v"
  unfolding char_bits_def indexOf_code by (simp add: low_and_31)

lemma code_in_alphabet: "BASE32_ALPHABET ! unat (v AND 31 :: 32 word) \<in> set BASE32_ALPHABET"
  using alphabet_facts and_31_less [of v] by (intro nth_mem) simp

section \<open>What the encoder keeps\<close>

lemma emit5_bits:
  "emit5 n v out = (n', out') \<Longrightarrow> in_alphabet out \<Longrightarrow>
     n' < 5 \<and> in_alphabet out' \<and>
     concat (map char_bits out') @ low n' v = concat (map char_bits out) @ low n v"
proof (induction n v out rule: emit5.induct)
  case (1 n v out)
  show ?case
  proof (cases "5 \<le> n")
    case True
    let ?c = "BASE32_ALPHABET ! unat (drop_bit (n - 5) v AND 31)"
    have "in_alphabet (out @ [?c])"
      using 1(3) code_in_alphabet by (simp add: in_alphabet_def)
    moreover have "emit5 (n - 5) v (out @ [?c]) = (n', out')"
      using 1(2) True by (subst (asm) emit5.simps) simp
    ultimately have "n' < 5 \<and> in_alphabet out' \<and>
        concat (map char_bits out') @ low n' v = concat (map char_bits (out @ [?c])) @ low (n - 5) v"
      using 1(1) [OF True] by blast
    moreover have "low n v = low 5 (drop_bit (n - 5) v) @ low (n - 5) v"
      using low_add [of 5 "n - 5" v] True by simp
    ultimately show ?thesis by (simp add: char_bits_code)
  next
    case False
    with 1(2,3) show ?thesis by (subst (asm) emit5.simps) auto
  qed
qed

definition bytes_bits :: "8 word list \<Rightarrow> bool list" where
  "bytes_bits bs = concat (map (low 8) bs)"

lemma encode_fold_bits:
  "foldl encodeByte (0, 0, []) bs = (n, v, out) \<Longrightarrow>
     n < 5 \<and> in_alphabet out \<and> concat (map char_bits out) @ low n v = bytes_bits bs"
proof (induction bs arbitrary: n v out rule: rev_induct)
  case Nil
  then show ?case by (simp add: in_alphabet_def bytes_bits_def)
next
  case (snoc b bs)
  obtain n1 v1 out1 where one: "foldl encodeByte (0, 0, []) bs = (n1, v1, out1)"
    by (metis prod_cases3)
  with snoc.IH have IH: "n1 < 5" "in_alphabet out1"
    "concat (map char_bits out1) @ low n1 v1 = bytes_bits bs" by blast+
  obtain n2 out2 where two: "emit5 (n1 + 8) (push_bit 8 v1 OR ucast b) out1 = (n2, out2)" by fastforce
  then have "encodeByte (n1, v1, out1) b = (n2, push_bit 8 v1 OR ucast b, out2)"
    by (simp add: encodeByte_def)
  then have "n = n2" "v = push_bit 8 v1 OR ucast b" "out = out2"
    using snoc.prems one by simp_all
  with emit5_bits [OF two IH(2)] IH(1,3) low_push_byte [of n1 v1 b] show ?case
    by (simp add: bytes_bits_def)
qed

lemma base32Encode_bits:
  "\<exists>p < 5. in_alphabet (base32Encode bs) \<and>
     concat (map char_bits (base32Encode bs)) = bytes_bits bs @ replicate p False"
proof -
  obtain n v out where f: "foldl encodeByte (0, 0, []) bs = (n, v, out)"
    by (metis prod_cases3)
  from encode_fold_bits [OF f] have inv: "n < 5" "in_alphabet out"
    "concat (map char_bits out) @ low n v = bytes_bits bs" by auto
  show ?thesis
  proof (cases "0 < n")
    case True
    have "base32Encode bs = out @ [BASE32_ALPHABET ! unat (push_bit (5 - n) v AND 31)]"
      using f True by (simp add: base32Encode_def)
    then have "in_alphabet (base32Encode bs) \<and>
        concat (map char_bits (base32Encode bs)) = bytes_bits bs @ replicate (5 - n) False"
      using inv code_in_alphabet low_pad [OF inv(1)]
      by (simp add: in_alphabet_def char_bits_code flip: inv(3))
    with True show ?thesis by (intro exI [of _ "5 - n"]) simp
  next
    case False
    with f inv show ?thesis by (intro exI [of _ 0]) (simp add: base32Encode_def)
  qed
qed

section \<open>What the decoder keeps\<close>

definition decode_ok :: "bool list \<Rightarrow> nat \<times> 32 word \<times> 8 word list \<Rightarrow> bool" where
  "decode_ok bits st \<longleftrightarrow>
     (case st of (n, v, out) \<Rightarrow> n < 8 \<and> bytes_bits out @ low n v = bits)"

lemma w255: "(255 :: 32 word) = mask 8"
  by (simp add: mask_eq_exp_minus_1)

lemma low_ucast_byte: "low 8 (ucast (v AND 255 :: 32 word) :: 8 word) = low 8 v"
  unfolding w255 low_def by (simp add: bit_ucast_iff bit_and_iff bit_mask_iff)

lemma index_word: "i < 32 \<Longrightarrow> (of_nat i :: 32 word) AND 31 = of_nat i"
  unfolding w31 take_bit_eq_mask [symmetric]
  by (rule word_unat_eq_iff [THEN iffD2]) (simp only: unsigned_take_bit_eq unat_of_nat, simp add: take_bit_eq_mod)

lemma decodeChar_ok:
  assumes "decode_ok bits st" "i < 32"
  shows "decode_ok (bits @ low 5 (of_nat i :: 32 word)) (decodeChar st i)"
proof -
  obtain n v out where st: "st = (n, v, out)" by (metis prod_cases3)
  define v' where "v' = (push_bit 5 v OR of_nat i :: 32 word)"
  have n: "n < 8" and bits: "bytes_bits out @ low n v = bits"
    using assms(1) st by (simp_all add: decode_ok_def)
  have v: "low (n + 5) v' = low n v @ low 5 (of_nat i :: 32 word)"
    using low_push_index [of n v "of_nat i"] n index_word [OF assms(2)] by (simp add: v'_def)
  show ?thesis
  proof (cases "8 \<le> n + 5")
    case True
    then have e: "n + 5 = 8 + (n - 3)" by simp
    have "low (n + 5) v' = low 8 (drop_bit (n - 3) v') @ low (n - 3) v'"
      unfolding e by (rule low_add)
    moreover have "decodeChar st i = (n - 3, v', out @ [ucast (drop_bit (n - 3) v' AND 255)])"
      using True by (simp add: st decodeChar_def v'_def)
    ultimately show ?thesis
      using v n by (simp add: decode_ok_def bytes_bits_def low_ucast_byte flip: bits)
  next
    case False
    then have "decodeChar st i = (n + 5, v', out)" by (simp add: st decodeChar_def v'_def)
    with False v bits show ?thesis by (simp add: decode_ok_def)
  qed
qed

lemma decodeChars_ok:
  "decode_ok bits st \<Longrightarrow> in_alphabet s \<Longrightarrow>
     \<exists>st'. decodeChars st s = Some st' \<and> decode_ok (bits @ concat (map char_bits s)) st'"
proof (induction s arbitrary: bits st)
  case (Cons c s)
  then have "c \<in> set BASE32_ALPHABET" by (simp add: in_alphabet_def)
  then obtain i where i: "i < 32" "indexOf c BASE32_ALPHABET = Some i"
    using indexOf_set alphabet_facts(2) by metis
  with Cons.IH [OF decodeChar_ok [OF Cons.prems(1) i(1)]] Cons.prems(2)
  show ?case by (simp add: in_alphabet_def char_bits_def)
qed simp

section \<open>Cleaning keeps what the encoder writes\<close>

lemma alphabet_clean:
  "list_all (\<lambda>c. upper_char c = c \<and> \<not> is_space c \<and> c \<noteq> CHR ''='') BASE32_ALPHABET"
  by (simp add: BASE32_ALPHABET_def upper_char_def is_space_def)

lemma clean32_id: "in_alphabet s \<Longrightarrow> clean32 s = s"
proof -
  assume s: "in_alphabet s"
  have c: "upper_char c = c \<and> \<not> is_space c \<and> c \<noteq> CHR ''=''" if "c \<in> set s" for c
    using that s alphabet_clean by (auto simp: in_alphabet_def list_all_iff)
  then have "dropWhile (\<lambda>c. c = CHR ''='') (rev s) = rev s"
    by (cases "rev s") (auto dest: arg_cong [where f = set])
  then show ?thesis using c by (simp add: clean32_def filter_id_conv map_idI)
qed

section \<open>Round trip\<close>

lemma length_bytes_bits [simp]: "length (bytes_bits bs) = 8 * length bs"
  by (induction bs) (simp_all add: bytes_bits_def)

lemma bytes_bits_inject: "length a = length b \<Longrightarrow> bytes_bits a = bytes_bits b \<longleftrightarrow> a = b"
proof (induction a b rule: list_induct2)
  case (Cons x xs y ys)
  then show ?case by (simp add: bytes_bits_def low_inject)
qed simp

lemma bytes_bits_prefix:
  assumes "bytes_bits a @ r = bytes_bits b @ q" "length r < 8" "length q < 8"
  shows "a = b"
proof -
  have "8 * length a + length r = 8 * length b + length q"
    using arg_cong [OF assms(1), of length] by simp
  then have "length a = length b" using assms(2,3) by linarith
  with assms(1) bytes_bits_inject show ?thesis by simp
qed

lemma base32_inverse: "base32Decode (base32Encode bs) = Some bs"
proof -
  obtain p where p: "p < 5" "in_alphabet (base32Encode bs)"
    "concat (map char_bits (base32Encode bs)) = bytes_bits bs @ replicate p False"
    using base32Encode_bits by blast
  have "decode_ok [] (0, 0, [])" by (simp add: decode_ok_def bytes_bits_def)
  from decodeChars_ok [OF this p(2)] obtain st where
    st: "decodeChars (0, 0, []) (base32Encode bs) = Some st"
    "decode_ok (bytes_bits bs @ replicate p False) st" using p(3) by auto
  obtain n v out where nvo: "st = (n, v, out)" by (metis prod_cases3)
  have "out = bs"
    using st(2) nvo p(1) by (intro bytes_bits_prefix [of out "low n v" bs "replicate p False"])
      (auto simp: decode_ok_def)
  with st(1) nvo show ?thesis by (simp add: base32Decode_def clean32_id [OF p(2)])
qed

text \<open>C17: every byte string survives the base32 encoding of secrets: what the service stores and an
  authenticator application reads back is the key that was drawn, although the accumulator
  overflows its 32 bits.\<close>

theorem base32_roundtrip: "base32Decode (base32Encode bs) = Some bs"
  by (rule base32_inverse)

end
