(* ===== verification/Totp.thy ===== *)
theory Totp
  imports Base32
begin

text \<open>
  One-time passwords of \<open>common/crypto/totp.ts\<close> (HOTP and TOTP). \<open>createHmac('sha1', key)\<close> is a
  parameter: a function of the key and the message; that its result has twenty bytes is the
  documented fact the truncation relies on. The bitwise operators of the truncation work on 32-bit
  integers. \<open>None\<close> is an exception: a character outside the alphabet, or a counter that does not
  fit the eight-byte buffer.

  \<open>Math.floor(now / 1000 / step)\<close> is read as the exact quotient: a time in milliseconds and its
  neighbours are far enough apart for the double quotient not to reach the next integer.
\<close>

type_synonym hmac = "8 word list \<Rightarrow> 8 word list \<Rightarrow> 8 word list"

definition DEFAULT_DIGITS :: nat where
  "DEFAULT_DIGITS = 6"

definition DEFAULT_STEP_SECONDS :: int where
  "DEFAULT_STEP_SECONDS = 30"

definition writeUInt32BE :: "int \<Rightarrow> 8 word list option" where
  "writeUInt32BE n =
     (if n < 0 \<or> 2 ^ 32 \<le> n then None
      else Some (map (\<lambda>k. word_of_int (n div 2 ^ k)) [24, 16, 8, 0]))"

definition truncate :: "8 word list \<Rightarrow> 32 word" where
  "truncate h =
     (let offset = unat (last h AND 15)
      in push_bit 24 (ucast (h ! offset AND 127)) OR
         push_bit 16 (ucast (h ! (offset + 1) AND 255)) OR
         push_bit 8 (ucast (h ! (offset + 2) AND 255)) OR
         ucast (h ! (offset + 3) AND 255))"

definition hotp :: "hmac \<Rightarrow> 8 word list \<Rightarrow> int \<Rightarrow> nat \<Rightarrow> string option" where
  "hotp hmac key counter digits =
     (case (writeUInt32BE (counter div 2 ^ 32), writeUInt32BE (counter mod 2 ^ 32)) of
        (Some hi, Some lo) \<Rightarrow>
          Some (padStart digits (CHR ''0'')
            (dec (nat (sint (truncate (hmac key (hi @ lo))) mod 10 ^ digits))))
      | _ \<Rightarrow> None)"

definition step_counter :: "int \<Rightarrow> int \<Rightarrow> int" where
  "step_counter t step = t div (1000 * step)"

definition generateTotp :: "hmac \<Rightarrow> string \<Rightarrow> nat \<Rightarrow> int \<Rightarrow> int \<Rightarrow> string option" where
  "generateTotp hmac secret digits step t =
     (case base32Decode secret of
        None \<Rightarrow> None
      | Some key \<Rightarrow> hotp hmac key (step_counter t step) digits)"

definition constantTimeEquals :: "string \<Rightarrow> string \<Rightarrow> bool" where
  "constantTimeEquals a b = (if length a \<noteq> length b then False else a = b)"

text \<open>The loop \<open>for (error = -window; error <= window; error++)\<close> over the counters still to try.\<close>

fun tryCounters :: "hmac \<Rightarrow> 8 word list \<Rightarrow> nat \<Rightarrow> string \<Rightarrow> int list \<Rightarrow> bool option" where
  "tryCounters hmac key digits code [] = Some False"
| "tryCounters hmac key digits code (c # cs) =
     (case hotp hmac key c digits of
        None \<Rightarrow> None
      | Some candidate \<Rightarrow>
          if constantTimeEquals candidate code then Some True
          else tryCounters hmac key digits code cs)"

definition verifyTotp :: "hmac \<Rightarrow> string \<Rightarrow> string \<Rightarrow> nat \<Rightarrow> int \<Rightarrow> int \<Rightarrow> int \<Rightarrow> bool option" where
  "verifyTotp hmac secret token digits step t window =
     (let normalized = filter (\<lambda>c. \<not> is_space c) token
      in if \<not> (normalized \<noteq> [] \<and> list_all is_digit normalized) \<or> length normalized \<noteq> digits
         then Some False
         else case base32Decode secret of
           None \<Rightarrow> None
         | Some key \<Rightarrow>
             tryCounters hmac key digits normalized
               (map (\<lambda>e. step_counter t step + e) [- window .. window]))"

definition hmac_sized :: "hmac \<Rightarrow> bool" where
  "hmac_sized hmac \<longleftrightarrow> (\<forall>k m. length (hmac k m) = 20)"

section \<open>The form of a code\<close>

lemma length_dec: "n < 10 ^ Suc k \<Longrightarrow> length (dec n) \<le> Suc k"
proof (induction k arbitrary: n)
  case 0
  then show ?case by (subst dec.simps) simp
next
  case (Suc k)
  show ?case
  proof (cases "n < 10")
    case True
    then show ?thesis by (subst dec.simps) simp
  next
    case False
    have "n div 10 < 10 ^ Suc k" using Suc.prems by (simp add: less_mult_imp_div_less)
    with Suc.IH False show ?thesis by (subst dec.simps) simp
  qed
qed

lemma length_padStart: "length s \<le> w \<Longrightarrow> length (padStart w c s) = w"
  by (simp add: padStart_def)

lemma padStart_digits: "list_all is_digit s \<Longrightarrow> list_all is_digit (padStart w (CHR ''0'') s)"
  by (auto simp: padStart_def list_all_iff is_digit_def)

lemma hotp_form:
  assumes "hotp hmac key c digits = Some s" "0 < digits"
  shows "length s = digits \<and> list_all is_digit s"
proof -
  obtain v where s: "s = padStart digits (CHR ''0'') (dec (nat (v mod 10 ^ digits)))"
    using assms(1) by (auto simp: hotp_def split: option.splits)
  obtain k where k: "digits = Suc k" using assms(2) by (cases digits) auto
  have "v mod 10 ^ digits < 10 ^ digits" by simp
  then have "nat (v mod 10 ^ digits) < 10 ^ digits" by (simp add: nat_less_iff)
  then have "length (dec (nat (v mod 10 ^ digits))) \<le> digits" unfolding k by (rule length_dec)
  moreover have "list_all is_digit (dec (nat (v mod 10 ^ digits)))"
    using dec_digits by (auto simp: list_all_iff)
  ultimately show ?thesis using length_padStart padStart_digits s by blast
qed

lemma hotp_defined: "hotp hmac key c digits \<noteq> None \<longleftrightarrow> 0 \<le> c \<and> c < 2 ^ 64"
proof -
  have "0 \<le> c mod 2 ^ 32" "c mod 2 ^ 32 < 2 ^ 32" by simp_all
  moreover have "0 \<le> c div 2 ^ 32 \<longleftrightarrow> 0 \<le> c" by (simp add: pos_imp_zdiv_nonneg_iff)
  moreover have "c div 2 ^ 32 < 2 ^ 32 \<longleftrightarrow> c < 2 ^ 64"
  proof -
    have "c = 4294967296 * (c div 4294967296) + c mod 4294967296"
      "0 \<le> c mod 4294967296" "c mod 4294967296 < 4294967296" by simp_all
    then have "c div 4294967296 < 4294967296 \<longleftrightarrow> c < 18446744073709551616" by linarith
    then show ?thesis by simp
  qed
  ultimately show ?thesis
    by (auto simp: hotp_def writeUInt32BE_def split: option.splits if_splits)
qed

section \<open>The window\<close>

lemma constantTimeEquals_iff [simp]: "constantTimeEquals a b \<longleftrightarrow> a = b"
  by (auto simp: constantTimeEquals_def)

lemma tryCounters_iff:
  assumes "\<forall>c \<in> set cs. hotp hmac key c digits \<noteq> None"
  shows "tryCounters hmac key digits code cs = Some (\<exists>c \<in> set cs. hotp hmac key c digits = Some code)"
  using assms by (induction cs) auto

lemma step_counter_near:
  assumes "0 < step" "\<bar>t - t'\<bar> \<le> 1000 * step"
  shows "\<bar>step_counter t step - step_counter t' step\<bar> \<le> 1"
proof -
  let ?m = "1000 * step"
  have m: "0 < ?m" using assms(1) by simp
  have "t div ?m \<le> (t' + ?m) div ?m" "t' div ?m \<le> (t + ?m) div ?m"
    using assms m by (auto intro!: zdiv_mono1)
  then have "t div ?m \<le> t' div ?m + 1" "t' div ?m \<le> t div ?m + 1"
    using m div_add_self2 [of ?m t] div_add_self2 [of ?m t'] by simp_all
  then show ?thesis unfolding step_counter_def by linarith
qed

lemma offset_in_range:
  fixes h :: "8 word list"
  assumes "length h = 20"
  shows "unat (last h AND 15) + 3 < length h"
proof -
  have "last h AND 15 \<le> 15" by (rule word_and_le1)
  then have "unat (last h AND 15) \<le> unat (15 :: 8 word)" by (simp add: word_le_nat_alt)
  with assms show ?thesis by simp
qed

lemma truncate_nonneg: "0 \<le> sint (truncate h)"
proof -
  have "(127 :: 8 word) = mask 7" by (simp add: mask_eq_exp_minus_1)
  then have "\<not> bit (truncate h) 31"
    by (simp add: truncate_def Let_def bit_or_iff bit_push_bit_iff bit_ucast_iff bit_and_iff bit_mask_iff)
  then show ?thesis by (simp add: sint_uint signed_take_bit_nonnegative_iff bit_uint_iff)
qed

section \<open>The property\<close>

lemma digit_not_space: "is_digit c \<Longrightarrow> \<not> is_space c"
  by (auto simp: is_digit_def is_space_def Let_def)

lemma verifyTotp_iff:
  assumes "base32Decode secret = Some key" "0 < digits"
    "0 \<le> step_counter t step - window" "step_counter t step + window < 2 ^ 64"
  shows "verifyTotp hmac secret token digits step t window =
    Some (\<exists>c \<in> {step_counter t step - window .. step_counter t step + window}.
      hotp hmac key c digits = Some (filter (\<lambda>c. \<not> is_space c) token))"
proof -
  let ?code = "filter (\<lambda>c. \<not> is_space c) token" and ?n = "step_counter t step"
  let ?cs = "map (\<lambda>e. ?n + e) [- window .. window]"
  have set: "set ?cs = {?n - window .. ?n + window}"
  proof
    show "{?n - window .. ?n + window} \<subseteq> set ?cs"
    proof
      fix c assume "c \<in> {?n - window .. ?n + window}"
      then have "c = ?n + (c - ?n)" "c - ?n \<in> set [- window .. window]" by auto
      then show "c \<in> set ?cs" by (metis image_eqI list.set_map)
    qed
  qed auto
  have "tryCounters hmac key digits ?code ?cs =
      Some (\<exists>c \<in> set ?cs. hotp hmac key c digits = Some ?code)"
    using assms(3,4) by (intro tryCounters_iff ballI hotp_defined [THEN iffD2]) auto
  moreover have "length ?code = digits \<and> list_all is_digit ?code" if "hotp hmac key c digits = Some ?code" for c
    using hotp_form [OF that assms(2)] .
  ultimately show ?thesis
    using assms(1,2) unfolding set by (auto simp: verifyTotp_def Let_def simp del: length_filter_le)
qed

lemma totp_accepts_generated:
  assumes "base32Decode secret = Some key" "0 < digits" "0 < step"
    "0 \<le> step_counter t step - window" "step_counter t step + window < 2 ^ 64"
    and gen: "generateTotp hmac secret digits step t' = Some code"
    and near: "\<bar>t' - t\<bar> \<le> 1000 * step" and w: "1 \<le> window"
  shows "length code = digits \<and> list_all is_digit code \<and>
    verifyTotp hmac secret code digits step t window = Some True"
proof -
  have h: "hotp hmac key (step_counter t' step) digits = Some code"
    using gen assms(1) by (simp add: generateTotp_def)
  with hotp_form [OF h assms(2)] have form: "length code = digits" "list_all is_digit code" by auto
  have "filter (\<lambda>c. \<not> is_space c) code = code"
    using form(2) digit_not_space by (auto simp: filter_id_conv list_all_iff)
  moreover have "step_counter t' step \<in> {step_counter t step - window .. step_counter t step + window}"
    using step_counter_near [OF assms(3) near] w by auto
  ultimately show ?thesis using verifyTotp_iff [OF assms(1,2,4,5), of hmac code] h form by auto
qed

text \<open>A submitted code is accepted exactly when, without its spaces, it is the code of one of
  the counters of the window around the current time; a generated code has the wanted number of
  digits, and is accepted by a server whose clock is at most one step away.\<close>

theorem totp_window:
  assumes "base32Decode secret = Some key" "0 < digits" "0 < step"
    "0 \<le> step_counter t step - window" "step_counter t step + window < 2 ^ 64"
  shows "verifyTotp hmac secret token digits step t window =
      Some (\<exists>c \<in> {step_counter t step - window .. step_counter t step + window}.
        hotp hmac key c digits = Some (filter (\<lambda>c. \<not> is_space c) token)) \<and>
    (\<forall>t' code. generateTotp hmac secret digits step t' = Some code \<longrightarrow>
       \<bar>t' - t\<bar> \<le> 1000 * step \<longrightarrow> 1 \<le> window \<longrightarrow>
       length code = digits \<and> list_all is_digit code \<and>
       verifyTotp hmac secret code digits step t window = Some True)"
  using verifyTotp_iff [OF assms(1,2,4,5)] totp_accepts_generated [OF assms]
  by blast

lemma totp_window_witness:
  "\<exists>code. generateTotp (\<lambda>k m. take 20 (m @ k @ replicate 20 0)) ''MFRGG'' 6 30 90000 = Some code \<and>
     verifyTotp (\<lambda>k m. take 20 (m @ k @ replicate 20 0)) ''MFRGG'' code 6 30 115000 1 = Some True"
proof -
  let ?h = "\<lambda>k m. take 20 (m @ k @ replicate 20 (0 :: 8 word))"
  have key: "base32Decode ''MFRGG'' = Some [97, 98, 99]" by code_simp
  have c: "step_counter 115000 30 = 3" "step_counter 90000 30 = 3" by (simp_all add: step_counter_def)
  have "hotp ?h [97, 98, 99] 3 6 \<noteq> None" by (rule hotp_defined [THEN iffD2]) simp
  then obtain code where "generateTotp ?h ''MFRGG'' 6 30 90000 = Some code"
    using key c by (auto simp: generateTotp_def)
  with totp_window [OF key, of 6 30 115000 1 ?h] c show ?thesis by fastforce
qed

end
