(* ===== verification/Crypto.thy ===== *)
theory Crypto
  imports Totp Repo
begin

text \<open>
  What the accounts code takes from outside: password hashing (argon2), digests (SHA-256), random
  bytes and identifiers, the signing of session tokens, authenticated encryption, base64. They are
  fields of \<open>crypto\<close>; a random value is a function of the draw it belongs to. \<open>argonVerify\<close> and
  \<open>fromBase64\<close> answer \<open>None\<close> where the library throws. \<open>crypto_ok\<close> collects the documented laws the
  code relies on: what was hashed verifies, what was sealed under a key opens under it, base64 and
  the lengths of random values and tags.

  On top of them: the sealed box of \<open>common/crypto/secret-box.ts\<close>.
\<close>

type_synonym bytes = "8 word list"

record crypto =
  argonHash :: "nat \<Rightarrow> string \<Rightarrow> string"
  argonVerify :: "string \<Rightarrow> string \<Rightarrow> bool option"
  sha256Hex :: "string \<Rightarrow> string"
  randomBytes :: "nat \<Rightarrow> nat \<Rightarrow> bytes"
  uuidv4 :: "nat \<Rightarrow> string"
  hmacSha1 :: hmac
  deriveKey :: "string \<Rightarrow> bytes"
  gcmSeal :: "bytes \<Rightarrow> bytes \<Rightarrow> bytes \<Rightarrow> bytes \<times> bytes"
  gcmOpen :: "bytes \<Rightarrow> bytes \<Rightarrow> bytes \<Rightarrow> bytes \<Rightarrow> bytes option"
  toBase64 :: "bytes \<Rightarrow> string"
  fromBase64 :: "string \<Rightarrow> bytes"
  signAccess :: "string \<Rightarrow> string \<Rightarrow> date \<Rightarrow> uuid \<times> string \<times> role list \<times> bool \<Rightarrow> string"
  signChallenge :: "string \<Rightarrow> string \<Rightarrow> date \<Rightarrow> uuid \<times> string \<Rightarrow> string"
  verifyJwt :: "string \<Rightarrow> date \<Rightarrow> string \<Rightarrow> (uuid \<times> string option) option"

section \<open>Bytes and text\<close>

definition hexDigit :: "nat \<Rightarrow> char" where
  "hexDigit d = (if d < 10 then char_of (48 + d) else char_of (87 + d))"

text \<open>\<open>toString('hex')\<close>\<close>

definition toHex :: "bytes \<Rightarrow> string" where
  "toHex bs = concat (map (\<lambda>b. [hexDigit (unat b div 16), hexDigit (unat b mod 16)]) bs)"

text \<open>UTF-8 of ASCII text.\<close>

definition utf8 :: "string \<Rightarrow> bytes" where
  "utf8 s = map (\<lambda>c. of_nat (of_char c)) s"

definition fromUtf8 :: "bytes \<Rightarrow> string" where
  "fromUtf8 bs = map (\<lambda>b. char_of (unat b)) bs"

lemma fromUtf8_utf8 [simp]: "fromUtf8 (utf8 s) = s"
proof -
  have "char_of (unat (of_nat (of_char c) :: 8 word)) = c" for c
  proof -
    have "(of_char c :: nat) < 256" by (rule nat_of_char_less_256)
    then have "unat (of_nat (of_char c) :: 8 word) = (of_char c :: nat)"
      by (simp add: unat_of_nat take_bit_eq_mod)
    then show ?thesis by simp
  qed
  then show ?thesis by (simp add: utf8_def fromUtf8_def map_idI)
qed

lemma length_toHex [simp]: "length (toHex bs) = 2 * length bs"
  by (induction bs) (simp_all add: toHex_def)

section \<open>The sealed box\<close>

definition IV_LENGTH :: nat where
  "IV_LENGTH = 12"

definition TAG_LENGTH :: nat where
  "TAG_LENGTH = 16"

definition encryptSecret :: "crypto \<Rightarrow> nat \<Rightarrow> string \<Rightarrow> bytes \<Rightarrow> string" where
  "encryptSecret cr draw plaintext key =
     (let iv = randomBytes cr IV_LENGTH draw;
          (ciphertext, tag) = gcmSeal cr key iv (utf8 plaintext)
      in toBase64 cr (iv @ tag @ ciphertext))"

text \<open>\<open>None\<close>: a payload that is too short, or that fails authentication.\<close>

definition decryptSecret :: "crypto \<Rightarrow> string \<Rightarrow> bytes \<Rightarrow> string option" where
  "decryptSecret cr payload key =
     (let raw = fromBase64 cr payload in
      if length raw < IV_LENGTH + TAG_LENGTH then None
      else map_option fromUtf8
        (gcmOpen cr key (take IV_LENGTH raw) (take TAG_LENGTH (drop IV_LENGTH raw))
          (drop (IV_LENGTH + TAG_LENGTH) raw)))"

definition crypto_ok :: "crypto \<Rightarrow> bool" where
  "crypto_ok cr \<longleftrightarrow>
     (\<forall>i p. argonVerify cr (argonHash cr i p) p = Some True) \<and>
     (\<forall>i p q. argonVerify cr (argonHash cr i p) q \<noteq> None) \<and>
     (\<forall>n i. length (randomBytes cr n i) = n) \<and>
     (\<forall>bs. fromBase64 cr (toBase64 cr bs) = bs) \<and>
     (\<forall>bs. toBase64 cr bs = [] \<longrightarrow> bs = []) \<and>
     (\<forall>key iv p. length (snd (gcmSeal cr key iv p)) = TAG_LENGTH) \<and>
     (\<forall>key iv p. gcmOpen cr key iv (snd (gcmSeal cr key iv p)) (fst (gcmSeal cr key iv p)) = Some p) \<and>
     hmac_sized (hmacSha1 cr)"

lemma decrypt_encrypt:
  assumes "crypto_ok cr"
  shows "decryptSecret cr (encryptSecret cr i p key) key = Some p"
proof -
  let ?iv = "randomBytes cr IV_LENGTH i"
  obtain c t where ct: "gcmSeal cr key ?iv (utf8 p) = (c, t)" by fastforce
  have "length ?iv = IV_LENGTH" "fromBase64 cr (toBase64 cr (?iv @ t @ c)) = ?iv @ t @ c"
    using assms by (simp_all add: crypto_ok_def)
  moreover have "length t = TAG_LENGTH" "gcmOpen cr key ?iv t c = Some (utf8 p)"
    using assms ct unfolding crypto_ok_def by (metis fst_conv snd_conv)+
  ultimately show ?thesis by (simp add: encryptSecret_def decryptSecret_def ct Let_def)
qed

section \<open>Effects\<close>

primrec mapE :: "('a \<Rightarrow> 'b service) \<Rightarrow> 'a list \<Rightarrow> 'b list service" where
  "mapE f [] = ret []"
| "mapE f (x # xs) = bindE (f x) (\<lambda>y. bindE (mapE f xs) (\<lambda>ys. ret (y # ys)))"

lemma mapE_outside: "(\<And>x. outside_db (f x)) \<Longrightarrow> outside_db (mapE f xs)"
  by (induction xs) (simp_all add: outside_ret outside_bindE)

definition getOrThrow :: "env \<Rightarrow> string \<Rightarrow> string service" where
  "getOrThrow env key = someOr (InternalServerErrorException key) (cfgString env key)"

definition verifyPassword :: "crypto \<Rightarrow> string \<Rightarrow> string \<Rightarrow> bool service" where
  "verifyPassword cr hash p = someOr (InternalServerErrorException ''argon2'') (argonVerify cr hash p)"

definition hashPassword :: "crypto \<Rightarrow> string \<Rightarrow> string service" where
  "hashPassword cr p = bindE freshId (\<lambda>i. ret (argonHash cr i p))"

text \<open>\<open>parseInt(s, 10)\<close>: leading spaces, a sign, then the longest run of digits; \<open>None\<close> is NaN.\<close>

definition parseInt :: "string \<Rightarrow> int option" where
  "parseInt s =
     (let t = dropWhile is_space s;
          neg = (t \<noteq> [] \<and> hd t = CHR ''-'');
          body = (if t \<noteq> [] \<and> hd t \<in> {CHR ''-'', CHR ''+''} then tl t else t);
          ds = takeWhile is_digit body
      in if ds = [] then None else Some (if neg then - int (undec ds) else int (undec ds)))"

text \<open>\<open>usersService.update(id, data)\<close>: an \<open>UPDATE\<close> by primary key of columns under no constraint.\<close>

definition updateUser :: "uuid \<Rightarrow> (user \<Rightarrow> user) \<Rightarrow> unit service" where
  "updateUser i f = modify (\<lambda>w. w\<lparr>db := (db w)\<lparr>users := update_where (\<lambda>u. userId u = i) f (users (db w))\<rparr>\<rparr>)"

definition findUser :: "(user \<Rightarrow> bool) \<Rightarrow> user option service" where
  "findUser P = gets (\<lambda>w. List.find P (users (db w)))"

lemma outside_accounts [keeping]:
  "outside_db (getOrThrow env k)" "outside_db (verifyPassword cr h p)" "outside_db (hashPassword cr p)"
  "outside_db (findUser P)"
  unfolding getOrThrow_def verifyPassword_def hashPassword_def findUser_def by (intro keeping)+

lemma updateUser_apply [simp]: "updateUser i f w =
    (Inr (), w\<lparr>db := (db w)\<lparr>users := update_where (\<lambda>u. userId u = i) f (users (db w))\<rparr>\<rparr>)"
  by (simp add: updateUser_def)

lemma findUser_apply [simp]: "findUser P w = (Inr (List.find P (users (db w))), w)"
  by (simp add: findUser_def)

lemma encryptSecret_nonempty:
  assumes "crypto_ok cr"
  shows "encryptSecret cr i p key \<noteq> []"
proof -
  obtain c t where ct: "gcmSeal cr key (randomBytes cr IV_LENGTH i) (utf8 p) = (c, t)" by fastforce
  have "length (randomBytes cr IV_LENGTH i) = IV_LENGTH" using assms by (simp add: crypto_ok_def)
  then have "randomBytes cr IV_LENGTH i @ t @ c \<noteq> []" by (auto simp: IV_LENGTH_def)
  then show ?thesis using assms ct by (auto simp: encryptSecret_def crypto_ok_def)
qed

lemma mapE_draws:
  assumes "\<And>x w. g x w = (Inr (f (nextId w) x), w\<lparr>nextId := Suc (nextId w)\<rparr>)"
  shows "mapE g xs w =
     (Inr (map2 f [nextId w..<nextId w + length xs] xs), w\<lparr>nextId := nextId w + length xs\<rparr>)"
  by (induction xs arbitrary: w) (simp_all add: assms upt_conv_Cons del: upt_Suc)

lemma map2_first: "length is = length xs \<Longrightarrow> map2 (\<lambda>i _. f i) is xs = map f is"
  by (induction "is" xs rule: list_induct2) simp_all

lemma mapE_fresh:
  "mapE (\<lambda>_. bindE freshId (\<lambda>i. ret (f i))) xs w =
     (Inr (map f [nextId w..<nextId w + length xs]), w\<lparr>nextId := nextId w + length xs\<rparr>)"
  by (subst mapE_draws [of _ "\<lambda>i _. f i"]) (simp_all add: map2_first bindE_def freshId_def)

lemma mapE_hash:
  "mapE (hashPassword cr) ps w =
     (Inr (map2 (argonHash cr) [nextId w..<nextId w + length ps] ps), w\<lparr>nextId := nextId w + length ps\<rparr>)"
  by (rule mapE_draws) (simp add: bindE_def hashPassword_def freshId_def)

lemma find_update_where:
  "(\<And>u. userId (f u) = userId u) \<Longrightarrow>
     List.find (\<lambda>u. userId u = i) (update_where (\<lambda>u. userId u = i) f us) =
       map_option f (List.find (\<lambda>u. userId u = i) us)"
  by (induction us) auto

end
