(* ===== verification/Mfa.thy ===== *)
theory Mfa
  imports Crypto
begin

text \<open>
  Second factor, \<open>auth/mfa.service.ts\<close>: enrolment in two steps, one-time backup codes, the check
  at login. The key comes from the configuration, as in the service's constructor. The
  provisioning URI, a rendering of the secret for a QR code, is not kept.
\<close>

definition BACKUP_CODE_COUNT :: nat where
  "BACKUP_CODE_COUNT = 10"

definition BACKUP_CODE_BYTES :: nat where
  "BACKUP_CODE_BYTES = 5"

definition encryptionKey :: "env \<Rightarrow> crypto \<Rightarrow> bytes service" where
  "encryptionKey env cr =
     (case cfgString env ''auth.mfaEncryptionKey'' of
        Some k \<Rightarrow> if k = [] then bindE (getOrThrow env ''auth.jwtRefreshSecret'') (\<lambda>s. ret (deriveKey cr s))
                  else ret (deriveKey cr k)
      | None \<Rightarrow> bindE (getOrThrow env ''auth.jwtRefreshSecret'') (\<lambda>s. ret (deriveKey cr s)))"

definition getUser :: "uuid \<Rightarrow> user service" where
  "getUser i = bindE (findUser (\<lambda>u. userId u = i)) (someOr (NotFoundException ''user''))"

definition generateBase32Secret :: "crypto \<Rightarrow> string service" where
  "generateBase32Secret cr = bindE freshId (\<lambda>i. ret (base32Encode (randomBytes cr 20 i)))"

definition beginSetup :: "env \<Rightarrow> crypto \<Rightarrow> uuid \<Rightarrow> string service" where
  "beginSetup env cr i =
     bindE (encryptionKey env cr) (\<lambda>key.
     bindE (getUser i) (\<lambda>u.
     bindE (require (\<not> mfaEnabled u) (ConflictException ''mfa-enabled'')) (\<lambda>_.
     bindE (generateBase32Secret cr) (\<lambda>secret.
     bindE freshId (\<lambda>draw.
     bindE (updateUser i (\<lambda>x. x\<lparr>mfaSecret := Some (encryptSecret cr draw secret key)\<rparr>)) (\<lambda>_.
     ret secret))))))"

definition totpCheck :: "env \<Rightarrow> crypto \<Rightarrow> bytes \<Rightarrow> string \<Rightarrow> string \<Rightarrow> bool service" where
  "totpCheck env cr key sealed code =
     bindE (someOr (InternalServerErrorException ''secret-box'') (decryptSecret cr sealed key)) (\<lambda>secret.
     someOr (InternalServerErrorException ''totp'')
       (verifyTotp (hmacSha1 cr) secret code DEFAULT_DIGITS DEFAULT_STEP_SECONDS (now env) 1))"

definition generateBackupCodes :: "crypto \<Rightarrow> (string list \<times> string list) service" where
  "generateBackupCodes cr =
     bindE (mapE (\<lambda>_. bindE freshId (\<lambda>i. ret (toHex (randomBytes cr BACKUP_CODE_BYTES i))))
              [0..<BACKUP_CODE_COUNT]) (\<lambda>plain.
     bindE (mapE (hashPassword cr) plain) (\<lambda>hashed. ret (plain, hashed)))"

definition enableMfa :: "env \<Rightarrow> crypto \<Rightarrow> uuid \<Rightarrow> string \<Rightarrow> string list service" where
  "enableMfa env cr i code =
     bindE (encryptionKey env cr) (\<lambda>key.
     bindE (getUser i) (\<lambda>u.
     bindE (require (\<not> mfaEnabled u) (ConflictException ''mfa-enabled'')) (\<lambda>_.
     bindE (require (\<not> (mfaSecret u = None \<or> mfaSecret u = Some [])) (BadRequestException ''no-setup'')) (\<lambda>_.
     bindE (totpCheck env cr key (the (mfaSecret u)) code) (\<lambda>ok.
     bindE (require ok (UnauthorizedException ''code'')) (\<lambda>_.
     bindE (generateBackupCodes cr) (\<lambda>(plain, hashed).
     bindE (updateUser i (\<lambda>x. x\<lparr>mfaEnabled := True, mfaBackupCodes := Some hashed\<rparr>)) (\<lambda>_.
     bindE (auditLog env \<lparr>actorId = Some i, auAction = USER_ROLES_CHANGED, entityType = ''user'',
              entityId = i\<rparr>) (\<lambda>_.
     ret plain)))))))))"

text \<open>The loop over the stored hashes: the index of the first one that verifies.\<close>

fun matchBackup :: "crypto \<Rightarrow> string \<Rightarrow> nat \<Rightarrow> string list \<Rightarrow> nat option service" where
  "matchBackup cr code i [] = ret None"
| "matchBackup cr code i (h # hs) =
     bindE (verifyPassword cr h code) (\<lambda>ok.
     if ok then ret (Some i) else matchBackup cr code (Suc i) hs)"

definition drop_index :: "nat \<Rightarrow> 'a list \<Rightarrow> 'a list" where
  "drop_index i xs = map snd (filter (\<lambda>(idx, _). idx \<noteq> i) (enumerate 0 xs))"

text \<open>\<open>valid\<close>, and the remaining codes when a backup code was used up.\<close>

definition verifyCode :: "env \<Rightarrow> crypto \<Rightarrow> user \<Rightarrow> string \<Rightarrow> (bool \<times> string list option) service" where
  "verifyCode env cr u code =
     (if mfaSecret u = None \<or> mfaSecret u = Some [] then ret (False, None)
      else
        let normalized = filter (\<lambda>c. \<not> is_space c) code in
        if length normalized = 6 \<and> list_all is_digit normalized
        then bindE (encryptionKey env cr) (\<lambda>key.
             bindE (totpCheck env cr key (the (mfaSecret u)) normalized) (\<lambda>ok. ret (ok, None)))
        else
          let remaining = (case mfaBackupCodes u of None \<Rightarrow> [] | Some hs \<Rightarrow> hs) in
          bindE (matchBackup cr normalized 0 remaining) (\<lambda>found.
          ret (case found of None \<Rightarrow> (False, None) | Some i \<Rightarrow> (True, Some (drop_index i remaining)))))"

definition disableMfa :: "env \<Rightarrow> crypto \<Rightarrow> uuid \<Rightarrow> string \<Rightarrow> unit service" where
  "disableMfa env cr i code =
     bindE (getUser i) (\<lambda>u.
     bindE (require (mfaEnabled u) (BadRequestException ''mfa-not-enabled'')) (\<lambda>_.
     bindE (verifyCode env cr u code) (\<lambda>(valid, _).
     bindE (require valid (UnauthorizedException ''code'')) (\<lambda>_.
     bindE (updateUser i (\<lambda>x. x\<lparr>mfaEnabled := False, mfaSecret := None, mfaBackupCodes := None\<rparr>)) (\<lambda>_.
     auditLog env \<lparr>actorId = Some i, auAction = USER_ROLES_CHANGED, entityType = ''user'',
       entityId = i\<rparr>)))))"

definition verifyForLogin :: "env \<Rightarrow> crypto \<Rightarrow> user \<Rightarrow> string \<Rightarrow> bool service" where
  "verifyForLogin env cr u code =
     (if \<not> mfaEnabled u \<or> mfaSecret u = None \<or> mfaSecret u = Some [] then ret False
      else
        bindE (verifyCode env cr u code) (\<lambda>(valid, consumed).
        case consumed of
          Some rest \<Rightarrow>
            if valid then bindE (updateUser (userId u) (\<lambda>x. x\<lparr>mfaBackupCodes := Some rest\<rparr>)) (\<lambda>_. ret valid)
            else ret valid
        | None \<Rightarrow> ret valid))"

section \<open>Backup codes\<close>

lemma drop_index_append [simp]: "drop_index (length xs) (xs @ y # zs) = xs @ zs"
proof -
  have "filter (\<lambda>(idx, _). idx \<noteq> length xs) (enumerate 0 xs) = enumerate 0 xs"
    by (auto simp: filter_id_conv in_set_enumerate_eq)
  moreover have "filter (\<lambda>(idx, _). idx \<noteq> length xs) (enumerate (Suc (length xs)) zs) =
      enumerate (Suc (length xs)) zs"
    by (auto simp: filter_id_conv in_set_enumerate_eq)
  ultimately show ?thesis by (simp add: drop_index_def enumerate_append_eq)
qed

text \<open>The first stored hash that verifies, with what precedes and follows it.\<close>

definition verifies :: "crypto \<Rightarrow> string \<Rightarrow> string \<Rightarrow> bool" where
  "verifies cr code h \<longleftrightarrow> argonVerify cr h code = Some True"

lemma matchBackup_found:
  assumes "matchBackup cr code i hs w = (Inr (Some k), w')"
  obtains xs h ys where "hs = xs @ h # ys" "k = i + length xs" "verifies cr code h"
    "\<forall>x \<in> set xs. argonVerify cr x code = Some False" "w' = w"
  using assms
proof (induction hs arbitrary: i thesis)
  case (Cons h hs)
  from Cons.prems(2) obtain b where b: "argonVerify cr h code = Some b"
    and rest: "(if b then ret (Some i) else matchBackup cr code (Suc i) hs) w = (Inr (Some k), w')"
    by (auto simp: verifyPassword_def returns)
  show ?case
  proof (cases b)
    case True
    with rest b Cons.prems(1) [of "[]" h hs] show ?thesis by (simp add: verifies_def)
  next
    case False
    with rest have "matchBackup cr code (Suc i) hs w = (Inr (Some k), w')" by simp
    from Cons.IH [OF _ this] obtain xs h' ys where
      "hs = xs @ h' # ys" "k = Suc i + length xs" "verifies cr code h'"
      "\<forall>x \<in> set xs. argonVerify cr x code = Some False" "w' = w" by blast
    with b False Cons.prems(1) [of "h # xs" h' ys] show ?thesis by simp
  qed
qed simp

lemma matchBackup_none:
  "matchBackup cr code i hs w = (Inr None, w') \<Longrightarrow>
     w' = w \<and> (\<forall>h \<in> set hs. argonVerify cr h code = Some False)"
proof (induction hs arbitrary: i)
  case (Cons h hs)
  from Cons.prems obtain b where b: "argonVerify cr h code = Some b"
    and rest: "(if b then ret (Some i) else matchBackup cr code (Suc i) hs) w = (Inr None, w')"
    by (auto simp: verifyPassword_def returns)
  with Cons.IH [of "Suc i"] show ?case by (cases b) auto
qed simp

lemma matchBackup_fails:
  "matchBackup cr code i hs w = (Inl e, w') \<Longrightarrow>
     w' = w \<and> (\<exists>h \<in> set hs. argonVerify cr h code = None)"
proof (induction hs arbitrary: i)
  case (Cons h hs)
  then show ?case
    by (cases "argonVerify cr h code")
      (auto simp: verifyPassword_def bindE_def someOr_def split: if_splits)
qed simp

lemma matchBackup_all_false:
  "\<forall>h \<in> set hs. argonVerify cr h code = Some False \<Longrightarrow> matchBackup cr code i hs w = (Inr None, w)"
  by (induction hs arbitrary: i) (simp_all add: verifyPassword_def someOr_def)

end
