(* ===== verification/Referral.thy ===== *)
theory Referral
  imports Crypto Frames
begin

text \<open>
  Invite links and their attribution, \<open>growth/referral.service.ts\<close>: a code per referrer, one
  attribution per referred user, converted once the referred user has verified the e-mail.
\<close>

definition referral_violated :: "referral list \<Rightarrow> constraint_name option" where
  "referral_violated t =
     (if \<not> index_ok (\<lambda>r. Some (referrerUserId r)) t then Some UQ_referrals_referrer
      else if \<not> index_ok (\<lambda>r. Some (rfCode r)) t then Some UQ_referrals_code
      else None)"

definition conversion_violated :: "referral_conversion list \<Rightarrow> constraint_name option" where
  "conversion_violated t =
     (if index_ok (\<lambda>r. Some (refereeUserId r)) t then None else Some UQ_referral_conversions_referee)"

definition saveReferral :: "referral \<Rightarrow> referral service" where
  "saveReferral = save_into referrals referrals_update rfId referral_violated"

definition saveConversion :: "referral_conversion \<Rightarrow> referral_conversion service" where
  "saveConversion = save_into referralConversions referralConversions_update rcId conversion_violated"

text \<open>\<open>uuidv4().replace(/-/g, '').slice(0, 10)\<close>\<close>

definition generateCode :: "crypto \<Rightarrow> string service" where
  "generateCode cr = bindE freshId (\<lambda>i. ret (take 10 (filter (\<lambda>c. c \<noteq> CHR ''-'') (uuidv4 cr i))))"

record referral_dto =
  dtoCode :: string
  dtoSignups :: int
  dtoConversions :: int

definition buildDto :: "referral \<Rightarrow> referral_dto service" where
  "buildDto r = gets (\<lambda>w.
     \<lparr>dtoCode = rfCode r,
      dtoSignups = count_where (\<lambda>c. rcReferralId c = rfId r) (referralConversions (db w)),
      dtoConversions = count_where (\<lambda>c. rcReferralId c = rfId r \<and> rcStatus c = CONVERTED)
        (referralConversions (db w))\<rparr>)"

definition referralOf :: "uuid \<Rightarrow> referral option service" where
  "referralOf i = gets (\<lambda>w. List.find (\<lambda>r. referrerUserId r = i) (referrals (db w)))"

text \<open>The loop \<open>for (attempt = 0; !referral && attempt < 3; attempt++)\<close>, by the attempts left.\<close>

primrec createReferral :: "crypto \<Rightarrow> uuid \<Rightarrow> nat \<Rightarrow> referral option \<Rightarrow> referral option service" where
  "createReferral cr i 0 found = ret found"
| "createReferral cr i (Suc n) found =
     (case found of
        Some r \<Rightarrow> ret (Some r)
      | None \<Rightarrow>
          bindE (tryCatch
             (bindE (generateCode cr) (\<lambda>code.
              bindE freshId (\<lambda>ri.
              bindE (saveReferral \<lparr>rfId = ri, referrerUserId = i, rfCode = code\<rparr>) (\<lambda>r. ret (Some r)))))
             (\<lambda>_. referralOf i)) (\<lambda>found'.
          createReferral cr i n found'))"

definition getOrCreateForUser :: "crypto \<Rightarrow> uuid \<Rightarrow> referral_dto service" where
  "getOrCreateForUser cr i =
     bindE (referralOf i) (\<lambda>found.
     bindE (createReferral cr i 3 found) (\<lambda>created.
     bindE (someOr (InternalServerErrorException ''referral'') created) buildDto))"

definition validateCode :: "string \<Rightarrow> bool service" where
  "validateCode code =
     (if code = [] then ret False
      else gets (\<lambda>w. List.find (\<lambda>r. rfCode r = code) (referrals (db w)) \<noteq> None))"

definition recordSignup :: "string option \<Rightarrow> uuid \<Rightarrow> unit service" where
  "recordSignup code referee =
     (if code = None \<or> code = Some [] then ret ()
      else
        bindE (gets (\<lambda>w. List.find (\<lambda>r. rfCode r = the code) (referrals (db w)))) (\<lambda>found.
        case found of
          None \<Rightarrow> ret ()
        | Some r \<Rightarrow>
            if referrerUserId r = referee then ret ()
            else
              bindE (gets (\<lambda>w. List.find (\<lambda>c. refereeUserId c = referee) (referralConversions (db w))))
                (\<lambda>existing.
              if existing \<noteq> None then ret ()
              else bestEffort
                (bindE freshId (\<lambda>ci.
                 bindE (saveConversion \<lparr>rcId = ci, rcReferralId = rfId r, refereeUserId = referee,
                   rcStatus = SIGNED_UP, rcConvertedAt = None\<rparr>) (\<lambda>_. ret ()))))))"

definition markConverted :: "env \<Rightarrow> uuid \<Rightarrow> unit service" where
  "markConverted env referee = modify (\<lambda>w. w\<lparr>db := (db w)\<lparr>referralConversions :=
     update_where (\<lambda>c. refereeUserId c = referee \<and> rcStatus c = SIGNED_UP)
       (\<lambda>c. c\<lparr>rcStatus := CONVERTED, rcConvertedAt := Some (now env)\<rparr>)
       (referralConversions (db w))\<rparr>\<rparr>)"

section \<open>Frame\<close>

definition only_conversions :: "db \<Rightarrow> db \<Rightarrow> bool" where
  "only_conversions d d' \<longleftrightarrow> (\<exists>t. d' = d\<lparr>referralConversions := t\<rparr>)"

interpretation conversions: db_frame only_conversions
proof
  fix d d' d'' :: db
  show "only_conversions d d"
    unfolding only_conversions_def by (rule exI [of _ "referralConversions d"]) simp
  assume "only_conversions d d'" "only_conversions d' d''"
  then show "only_conversions d d''" unfolding only_conversions_def by force
qed

lemma moves_saveConversion: "moves only_conversions (saveConversion c)"
proof (rule movesI)
  fix w r w'
  assume "saveConversion c w = (r, w')"
  then show "only_conversions (db w) (db w')"
    using conversions.same by (cases r) (auto simp: saveConversion_def save_into_Inr save_into_Inl only_conversions_def)
qed

lemma moves_recordSignup: "moves only_conversions (recordSignup code i)"
  unfolding recordSignup_def by (intro moves_saveConversion conversions.moves_rules)

lemma moves_markConverted: "moves only_conversions (markConverted env i)"
  by (rule movesI) (auto simp: markConverted_def only_conversions_def)

end
