(* ===== verification/Auth.thy ===== *)
theory Auth
  imports Mfa Referral Guards Billing_Rules
begin

text \<open>
  Accounts and sessions, \<open>auth/auth.service.ts\<close>. A refresh token is stored as its digest and
  replaced at each use; the access token is a signed text that is not stored. Dates a number of
  hours or days ahead move the local calendar, as the runtime's setters do.
\<close>

datatype login_result = Tokens string string | MfaChallenge string

definition addHours :: "env \<Rightarrow> date \<Rightarrow> int \<Rightarrow> date" where
  "addHours env d n = fromLocal env (toLocal env d + n * 3600000)"

definition findByEmail :: "string \<Rightarrow> user option service" where
  "findByEmail e = findUser (\<lambda>u. email u = e)"

section \<open>Registration and verification\<close>

definition registered_user ::
  "env \<Rightarrow> string \<Rightarrow> string \<Rightarrow> string \<Rightarrow> uuid \<Rightarrow> user" where
  "registered_user env e hash token i =
     \<lparr>userId = i, email = toLowerCase e, passwordHash = hash, roles = [CANDIDATE],
      userStatus = (if skipEmailVerification env then U_ACTIVE else U_PENDING_VERIFICATION),
      emailVerified = skipEmailVerification env,
      emailVerificationToken = (if skipEmailVerification env then None else Some token),
      emailVerificationExpires =
        (if skipEmailVerification env then None else Some (addHours env (now env) 24)),
      passwordResetToken = None, passwordResetExpires = None, mfaEnabled = False,
      mfaSecret = None, mfaBackupCodes = None, consentAt = Some (now env)\<rparr>"

definition register ::
  "env \<Rightarrow> crypto \<Rightarrow> string \<Rightarrow> string \<Rightarrow> role list \<Rightarrow> string option \<Rightarrow> (uuid \<times> string) service" where
  "register env cr e password requestedRoles referralCode =
     bindE (findByEmail (toLowerCase e)) (\<lambda>existing.
     bindE (require (existing = None) (ConflictException ''email'')) (\<lambda>_.
     bindE (hashPassword cr password) (\<lambda>hash.
     bindE freshId (\<lambda>draw.
     bindE freshId (\<lambda>i.
     bindE (saveUser (registered_user env e hash (uuidv4 cr draw) i)) (\<lambda>u.
     bindE (if skipEmailVerification env then ret ()
            else bestEffort (sendMail env \<lparr>mailTo = email u, templateId = ''email-verification'',
              mailToken = Some (uuidv4 cr draw)\<rparr>)) (\<lambda>_.
     bindE (auditLog env \<lparr>actorId = Some (userId u), auAction = USER_REGISTERED, entityType = ''user'',
              entityId = userId u\<rparr>) (\<lambda>_.
     bindE (bestEffort (recordSignup referralCode (userId u))) (\<lambda>_.
     bindE (track env A_SIGNUP (Some (userId u))) (\<lambda>_.
     ret (userId u, email u)))))))))))"

definition findUserByVerificationToken :: "env \<Rightarrow> string \<Rightarrow> user option service" where
  "findUserByVerificationToken env token =
     bindE (findUser (\<lambda>u. emailVerificationToken u = Some token)) (\<lambda>found.
     ret (case found of
            None \<Rightarrow> None
          | Some u \<Rightarrow> (case emailVerificationExpires u of
              None \<Rightarrow> None
            | Some t \<Rightarrow> if t < now env then None else Some u)))"

definition verifyEmail :: "env \<Rightarrow> string \<Rightarrow> unit service" where
  "verifyEmail env token =
     bindE (findUserByVerificationToken env token) (\<lambda>found.
     bindE (someOr (BadRequestException ''verification-token'') found) (\<lambda>u.
     bindE (updateUser (userId u) (\<lambda>x. x\<lparr>emailVerified := True, userStatus := U_ACTIVE,
              emailVerificationToken := None, emailVerificationExpires := None\<rparr>)) (\<lambda>_.
     bindE (auditLog env \<lparr>actorId = Some (userId u), auAction = USER_EMAIL_VERIFIED,
              entityType = ''user'', entityId = userId u\<rparr>) (\<lambda>_.
     bindE (bestEffort (markConverted env (userId u))) (\<lambda>_.
     track env A_EMAIL_VERIFIED (Some (userId u)))))))"

definition resendVerification :: "env \<Rightarrow> crypto \<Rightarrow> string \<Rightarrow> unit service" where
  "resendVerification env cr e =
     bindE (findByEmail (toLowerCase e)) (\<lambda>found.
     case found of
       None \<Rightarrow> ret ()
     | Some u \<Rightarrow>
         if emailVerified u \<or> userStatus u \<noteq> U_PENDING_VERIFICATION then ret ()
         else
           bindE freshId (\<lambda>draw.
           bindE (updateUser (userId u) (\<lambda>x. x\<lparr>emailVerificationToken := Some (uuidv4 cr draw),
                    emailVerificationExpires := Some (addHours env (now env) 24)\<rparr>)) (\<lambda>_.
           bestEffort (sendMail env \<lparr>mailTo = email u, templateId = ''email-verification'',
             mailToken = Some (uuidv4 cr draw)\<rparr>))))"

section \<open>Sessions\<close>

definition revokeAllUserTokens :: "uuid \<Rightarrow> unit service" where
  "revokeAllUserTokens i = modify (\<lambda>w. w\<lparr>db := (db w)\<lparr>refreshTokens :=
     update_where (\<lambda>t. rtUserId t = i \<and> \<not> rtRevoked t) (\<lambda>t. t\<lparr>rtRevoked := True\<rparr>)
       (refreshTokens (db w))\<rparr>\<rparr>)"

definition refreshDays :: "string \<Rightarrow> int" where
  "refreshDays s = (case parseInt s of None \<Rightarrow> 7 | Some n \<Rightarrow> n)"

definition issued_token :: "env \<Rightarrow> string \<Rightarrow> user \<Rightarrow> bool \<Rightarrow> string \<Rightarrow> uuid \<Rightarrow> refresh_token" where
  "issued_token env hash u mfa expiration i =
     \<lparr>rtId = i, rtTokenHash = hash, rtUserId = userId u,
      rtExpiresAt = addDays env (now env) (refreshDays expiration), rtRevoked = False,
      rtMfaAuthenticated = mfa, rtReplacedBy = None, rtCreatedAt = now env\<rparr>"

definition generateTokens :: "env \<Rightarrow> crypto \<Rightarrow> user \<Rightarrow> bool \<Rightarrow> (string \<times> string) service" where
  "generateTokens env cr u mfaAuthenticated =
     bindE (getOrThrow env ''auth.jwtAccessSecret'') (\<lambda>secret.
     bindE (getOrThrow env ''auth.jwtAccessExpiration'') (\<lambda>expiresIn.
     bindE (ret (signAccess cr secret expiresIn (now env)
              (userId u, email u, roles u, mfaAuthenticated))) (\<lambda>accessToken.
     bindE freshId (\<lambda>draw.
     bindE (ret (toHex (randomBytes cr 40 draw))) (\<lambda>value.
     bindE (getOrThrow env ''auth.jwtRefreshExpiration'') (\<lambda>expiration.
     bindE freshId (\<lambda>i.
     bindE (saveRefreshToken (issued_token env (sha256Hex cr value) u mfaAuthenticated expiration i)) (\<lambda>_.
     ret (accessToken, value)))))))))"

definition MFA_CHALLENGE_PURPOSE :: string where
  "MFA_CHALLENGE_PURPOSE = ''mfa_challenge''"

definition MFA_CHALLENGE_EXPIRATION :: string where
  "MFA_CHALLENGE_EXPIRATION = ''5m''"

definition issueMfaChallengeToken :: "env \<Rightarrow> crypto \<Rightarrow> uuid \<Rightarrow> string service" where
  "issueMfaChallengeToken env cr i =
     bindE (getOrThrow env ''auth.jwtRefreshSecret'') (\<lambda>secret.
     ret (signChallenge cr secret MFA_CHALLENGE_EXPIRATION (now env) (i, MFA_CHALLENGE_PURPOSE)))"

definition userLogin :: "uuid \<Rightarrow> audit_entry" where
  "userLogin i = \<lparr>actorId = Some i, auAction = USER_LOGIN, entityType = ''user'', entityId = i\<rparr>"

definition login :: "env \<Rightarrow> crypto \<Rightarrow> string \<Rightarrow> string \<Rightarrow> login_result service" where
  "login env cr e password =
     bindE (findByEmail (toLowerCase e)) (\<lambda>found.
     bindE (case found of None \<Rightarrow> ret False | Some u \<Rightarrow> verifyPassword cr (passwordHash u) password) (\<lambda>ok.
     bindE (someOr (UnauthorizedException ''credentials'') found) (\<lambda>u.
     bindE (require ok (UnauthorizedException ''credentials'')) (\<lambda>_.
     bindE (require (emailVerified u) (UnauthorizedException ''EMAIL_NOT_VERIFIED'')) (\<lambda>_.
     bindE (require (userStatus u = U_ACTIVE) (UnauthorizedException ''not-active'')) (\<lambda>_.
     if mfaEnabled u then
       bindE (issueMfaChallengeToken env cr (userId u)) (\<lambda>t. ret (MfaChallenge t))
     else
       bindE (generateTokens env cr u False) (\<lambda>(access, refresh).
       bindE (auditLog env (userLogin (userId u))) (\<lambda>_. ret (Tokens access refresh)))))))))"

text \<open>The account a challenge token names; every failure of the check is the same refusal.\<close>

definition challengedUser :: "env \<Rightarrow> crypto \<Rightarrow> string \<Rightarrow> uuid service" where
  "challengedUser env cr mfaToken =
     tryCatch
        (bindE (getOrThrow env ''auth.jwtRefreshSecret'') (\<lambda>secret.
         bindE (someOr (UnauthorizedException ''jwt'') (verifyJwt cr secret (now env) mfaToken)) (\<lambda>(sub, purpose).
         bindE (require (purpose = Some MFA_CHALLENGE_PURPOSE) (UnauthorizedException ''purpose'')) (\<lambda>_.
         ret sub))))
        (\<lambda>_. throw (UnauthorizedException ''mfa-challenge''))"

definition verifyMfaChallenge :: "env \<Rightarrow> crypto \<Rightarrow> string \<Rightarrow> string \<Rightarrow> (string \<times> string) service" where
  "verifyMfaChallenge env cr mfaToken code =
     bindE (challengedUser env cr mfaToken) (\<lambda>i.
     bindE (findUser (\<lambda>u. userId u = i)) (\<lambda>found.
     bindE (someOr (UnauthorizedException ''mfa-challenge'') found) (\<lambda>u.
     bindE (require (mfaEnabled u) (UnauthorizedException ''mfa-challenge'')) (\<lambda>_.
     bindE (verifyForLogin env cr u code) (\<lambda>valid.
     bindE (require valid (UnauthorizedException ''code'')) (\<lambda>_.
     bindE (generateTokens env cr u True) (\<lambda>tokens.
     bindE (auditLog env (userLogin (userId u))) (\<lambda>_. ret tokens))))))))"

definition refresh :: "env \<Rightarrow> crypto \<Rightarrow> string \<Rightarrow> (string \<times> string) service" where
  "refresh env cr value =
     bindE (gets (\<lambda>w. List.find (\<lambda>t. rtTokenHash t = sha256Hex cr value) (refreshTokens (db w)))) (\<lambda>found.
     bindE (someOr (UnauthorizedException ''refresh-token'') found) (\<lambda>stored.
     if rtRevoked stored then
       bindE (revokeAllUserTokens (rtUserId stored)) (\<lambda>_.
       throw (UnauthorizedException ''reuse-detected''))
     else
       bindE (require (\<not> rtExpiresAt stored < now env) (UnauthorizedException ''expired'')) (\<lambda>_.
       bindE (findUser (\<lambda>u. userId u = rtUserId stored)) (\<lambda>owner.
       bindE (someOr (InternalServerErrorException ''user'') owner) (\<lambda>u.
       bindE (generateTokens env cr u (rtMfaAuthenticated stored)) (\<lambda>(access, value').
       bindE (saveRefreshToken (stored\<lparr>rtRevoked := True, rtReplacedBy := Some (sha256Hex cr value')\<rparr>)) (\<lambda>_.
       ret (access, value'))))))))"

definition cleanupExpiredTokens :: "env \<Rightarrow> int service" where
  "cleanupExpiredTokens env =
     bindE (gets (\<lambda>w. count_where (\<lambda>t. rtExpiresAt t < now env) (refreshTokens (db w)))) (\<lambda>affected.
     bindE (modify (\<lambda>w. w\<lparr>db := (db w)\<lparr>refreshTokens :=
        delete_where (\<lambda>t. rtExpiresAt t < now env) (refreshTokens (db w))\<rparr>\<rparr>)) (\<lambda>_. ret affected))"

section \<open>Passwords\<close>

definition requestPasswordReset :: "env \<Rightarrow> crypto \<Rightarrow> string \<Rightarrow> unit service" where
  "requestPasswordReset env cr e =
     bindE (findByEmail (toLowerCase e)) (\<lambda>found.
     case found of
       None \<Rightarrow> ret ()
     | Some u \<Rightarrow>
         if userStatus u \<noteq> U_ACTIVE \<or> \<not> emailVerified u then ret ()
         else
           bindE freshId (\<lambda>draw.
           bindE (ret (toHex (randomBytes cr 32 draw))) (\<lambda>raw.
           bindE (updateUser (userId u) (\<lambda>x. x\<lparr>passwordResetToken := Some (sha256Hex cr raw),
                    passwordResetExpires := Some (now env + 60 * 60 * 1000)\<rparr>)) (\<lambda>_.
           bestEffort (sendMail env \<lparr>mailTo = email u, templateId = ''password-reset'',
             mailToken = Some raw\<rparr>)))))"

definition findUserByResetToken :: "env \<Rightarrow> crypto \<Rightarrow> string \<Rightarrow> user option service" where
  "findUserByResetToken env cr token =
     bindE (findUser (\<lambda>u. passwordResetToken u = Some (sha256Hex cr token))) (\<lambda>found.
     ret (case found of
            None \<Rightarrow> None
          | Some u \<Rightarrow> (case passwordResetExpires u of
              None \<Rightarrow> None
            | Some t \<Rightarrow> if t < now env then None else Some u)))"

definition passwordChanged :: "uuid \<Rightarrow> audit_entry" where
  "passwordChanged i =
     \<lparr>actorId = Some i, auAction = USER_PASSWORD_CHANGED, entityType = ''user'', entityId = i\<rparr>"

definition resetPassword :: "env \<Rightarrow> crypto \<Rightarrow> string \<Rightarrow> string \<Rightarrow> unit service" where
  "resetPassword env cr token newPassword =
     bindE (findUserByResetToken env cr token) (\<lambda>found.
     bindE (someOr (BadRequestException ''reset-token'') found) (\<lambda>u.
     bindE (hashPassword cr newPassword) (\<lambda>hash.
     bindE (updateUser (userId u) (\<lambda>x. x\<lparr>passwordHash := hash, passwordResetToken := None,
              passwordResetExpires := None\<rparr>)) (\<lambda>_.
     bindE (revokeAllUserTokens (userId u)) (\<lambda>_.
     auditLog env (passwordChanged (userId u)))))))"

definition changePassword :: "env \<Rightarrow> crypto \<Rightarrow> uuid \<Rightarrow> string \<Rightarrow> string \<Rightarrow> unit service" where
  "changePassword env cr i currentPassword newPassword =
     bindE (findUser (\<lambda>u. userId u = i)) (\<lambda>found.
     bindE (case found of None \<Rightarrow> ret False
            | Some u \<Rightarrow> verifyPassword cr (passwordHash u) currentPassword) (\<lambda>ok.
     bindE (require ok (UnauthorizedException ''current-password'')) (\<lambda>_.
     bindE (hashPassword cr newPassword) (\<lambda>hash.
     bindE (updateUser i (\<lambda>x. x\<lparr>passwordHash := hash\<rparr>)) (\<lambda>_.
     auditLog env (passwordChanged i))))))"

end
