(* ===== verification/Auth_Facts.thy ===== *)
theory Auth_Facts
  imports Auth Sample
begin

text \<open>
  What the operations on accounts and sessions do, case by case.
\<close>

section \<open>Sessions\<close>

definition tokens_ok :: "world \<Rightarrow> bool" where
  "tokens_ok w \<longleftrightarrow>
     index_ok (\<lambda>t. Some (rtTokenHash t)) (refreshTokens (db w)) \<and>
     distinct (map rtId (refreshTokens (db w))) \<and>
     (\<forall>t \<in> set (refreshTokens (db w)). rtId t < nextId w)"

definition live :: "uuid \<Rightarrow> refresh_token \<Rightarrow> bool" where
  "live i t \<longleftrightarrow> rtUserId t = i \<and> \<not> rtRevoked t"

lemma find_token:
  assumes "tokens_ok w" "t \<in> set (refreshTokens (db w))" "rtTokenHash t = h"
  shows "List.find (\<lambda>t. rtTokenHash t = h) (refreshTokens (db w)) = Some t"
proof (cases "List.find (\<lambda>t. rtTokenHash t = h) (refreshTokens (db w))")
  case None
  with assms(2,3) show ?thesis by (auto simp: find_None_iff)
next
  case (Some t')
  then have "t' \<in> set (refreshTokens (db w))" "rtTokenHash t' = h" by (auto dest: find_SomeD)
  moreover have "index_ok (\<lambda>t. Some (rtTokenHash t)) (refreshTokens (db w))"
    using assms(1) by (simp add: tokens_ok_def)
  ultimately have "t' = t" using assms(2,3) index_ok_unique by metis
  with Some show ?thesis by simp
qed

lemma getOrThrow_Inr [returns]: "getOrThrow env k w = (Inr s, w') \<longleftrightarrow> cfgString env k = Some s \<and> w' = w"
  by (simp add: getOrThrow_def)

text \<open>A new session: one row at the end of the table, under a digest not used before.\<close>

lemma generateTokens_Inr:
  assumes ok: "tokens_ok w" and run: "generateTokens env cr u mfa w = (Inr (access, value), w')"
  obtains t where "rtTokenHash t = sha256Hex cr value" "rtUserId t = userId u" "\<not> rtRevoked t"
    "rtMfaAuthenticated t = mfa" "rtReplacedBy t = None" "rtId t < nextId w'" "nextId w \<le> rtId t"
    "\<forall>x \<in> set (refreshTokens (db w)). rtTokenHash x \<noteq> sha256Hex cr value"
    "db w' = (db w)\<lparr>refreshTokens := refreshTokens (db w) @ [t]\<rparr>" "tokens_ok w'"
proof -
  from run obtain expiration where
    v: "value = toHex (randomBytes cr 40 (nextId w))" and
    save: "saveRefreshToken (issued_token env (sha256Hex cr value) u mfa expiration (Suc (nextId w)))
      (w\<lparr>nextId := Suc (Suc (nextId w))\<rparr>) = (Inr (issued_token env (sha256Hex cr value) u mfa expiration (Suc (nextId w))), w')"
    by (auto simp: generateTokens_def returns saveRefreshToken_def)
  let ?t = "issued_token env (sha256Hex cr value) u mfa expiration (Suc (nextId w))"
  have id: "rtId ?t = Suc (nextId w)" and hash: "rtTokenHash ?t = sha256Hex cr value"
    by (simp_all add: issued_token_def)
  have "rtId ?t \<notin> rtId ` set (refreshTokens (db w))"
    using ok id by (fastforce simp: tokens_ok_def)
  then have up: "upsert rtId ?t (refreshTokens (db w)) = refreshTokens (db w) @ [?t]" by (rule upsert_new)
  from save up have w': "w' = w\<lparr>nextId := Suc (Suc (nextId w)),
        db := (db w)\<lparr>refreshTokens := refreshTokens (db w) @ [?t]\<rparr>\<rparr>"
    and ix: "index_ok (\<lambda>t. Some (rtTokenHash t)) (refreshTokens (db w) @ [?t])"
    by (auto simp: saveRefreshToken_def save_into_Inr refresh_violated_def split: if_splits)
  have fresh: "\<forall>x \<in> set (refreshTokens (db w)). rtTokenHash x \<noteq> sha256Hex cr value"
    using ix hash unfolding index_ok_snoc by force
  have "tokens_ok w'"
    using ok ix id unfolding tokens_ok_def w' by fastforce
  then show ?thesis
    using that [of ?t] fresh id hash w' by (auto simp: issued_token_def)
qed

lemma generateTokens_Inl:
  assumes "generateTokens env cr u mfa w = (Inl e, w')"
  shows "db w' = db w"
proof -
  have "db v' = db v" if "saveRefreshToken t v = (Inl e, v')" for t v v'
    using that by (auto simp: saveRefreshToken_def save_into_Inl)
  then show ?thesis
    using assms
    by (auto simp: generateTokens_def getOrThrow_def someOr_def bindE_def freshId_def
        split: option.splits prod.splits sum.splits)
qed

lemma generateTokens_succeeds:
  assumes "tokens_ok w" "cfgString env ''auth.jwtAccessSecret'' = Some s"
    "cfgString env ''auth.jwtAccessExpiration'' = Some x" "cfgString env ''auth.jwtRefreshExpiration'' = Some d"
    "\<forall>t \<in> set (refreshTokens (db w)). rtTokenHash t \<noteq> sha256Hex cr (toHex (randomBytes cr 40 (nextId w)))"
  shows "\<exists>w'. generateTokens env cr u mfa w = (Inr (signAccess cr s x (now env) (userId u, email u, roles u, mfa),
      toHex (randomBytes cr 40 (nextId w))), w')"
proof -
  let ?t = "issued_token env (sha256Hex cr (toHex (randomBytes cr 40 (nextId w)))) u mfa d (Suc (nextId w))"
  have "rtId ?t \<notin> rtId ` set (refreshTokens (db w))"
    using assms(1) by (fastforce simp: tokens_ok_def issued_token_def)
  then have up: "upsert rtId ?t (refreshTokens (db w)) = refreshTokens (db w) @ [?t]" by (rule upsert_new)
  have "refresh_violated (refreshTokens (db w) @ [?t]) = None"
    using assms(1,5) unfolding refresh_violated_def index_ok_snoc tokens_ok_def
    by (auto simp: issued_token_def)
  with up have "\<exists>w'. saveRefreshToken ?t (w\<lparr>nextId := Suc (Suc (nextId w))\<rparr>) = (Inr ?t, w')"
    by (simp add: saveRefreshToken_def save_into_Inr)
  with assms(2-4) show ?thesis
    by (auto simp: generateTokens_def getOrThrow_def someOr_def freshId_def)
qed

lemma revokeAll_none_live:
  assumes "revokeAllUserTokens i w = (r, w')"
  shows "\<forall>t \<in> set (refreshTokens (db w')). \<not> live i t"
    "db w' = (db w)\<lparr>refreshTokens := refreshTokens (db w')\<rparr>"
proof -
  let ?f = "\<lambda>t. if rtUserId t = i \<and> \<not> rtRevoked t then t\<lparr>rtRevoked := True\<rparr> else t"
  have w': "w' = w\<lparr>db := (db w)\<lparr>refreshTokens := map ?f (refreshTokens (db w))\<rparr>\<rparr>"
    using assms by (simp add: revokeAllUserTokens_def update_where_def)
  have "\<not> live i (?f t)" for t by (cases "rtUserId t = i \<and> \<not> rtRevoked t") (auto simp: live_def)
  moreover have "refreshTokens (db w') = map ?f (refreshTokens (db w))" by (simp add: w')
  ultimately show "\<forall>t \<in> set (refreshTokens (db w')). \<not> live i t" by (auto simp only: set_map)
  show "db w' = (db w)\<lparr>refreshTokens := refreshTokens (db w')\<rparr>" by (simp add: w')
qed

text \<open>Rotation: the old row is revoked and points to the new one, which is added.\<close>

definition rotated :: "crypto \<Rightarrow> string \<Rightarrow> refresh_token \<Rightarrow> refresh_token" where
  "rotated cr value t = t\<lparr>rtRevoked := True, rtReplacedBy := Some (sha256Hex cr value)\<rparr>"

lemma refresh_cases:
  assumes ok: "tokens_ok w" and run: "refresh env cr value w = (r, w')"
  obtains (unknown) "\<forall>t \<in> set (refreshTokens (db w)). rtTokenHash t \<noteq> sha256Hex cr value"
      "r = Inl (UnauthorizedException ''refresh-token'')" "w' = w"
  | (reused) t where "t \<in> set (refreshTokens (db w))" "rtTokenHash t = sha256Hex cr value" "rtRevoked t"
      "r = Inl (UnauthorizedException ''reuse-detected'')"
      "\<forall>x \<in> set (refreshTokens (db w')). \<not> live (rtUserId t) x"
      "db w' = (db w)\<lparr>refreshTokens := refreshTokens (db w')\<rparr>"
  | (refused) e where "r = Inl e" "db w' = db w"
  | (rotation) t u n access value' where "t \<in> set (refreshTokens (db w))"
      "rtTokenHash t = sha256Hex cr value" "\<not> rtRevoked t" "\<not> rtExpiresAt t < now env"
      "List.find (\<lambda>u. userId u = rtUserId t) (users (db w)) = Some u"
      "r = Inr (access, value')" "rtTokenHash n = sha256Hex cr value'" "rtUserId n = rtUserId t"
      "\<not> rtRevoked n" "rtMfaAuthenticated n = rtMfaAuthenticated t"
      "\<forall>x \<in> set (refreshTokens (db w)). rtTokenHash x \<noteq> sha256Hex cr value'"
      "refreshTokens (db w') =
         update_where (\<lambda>x. rtId x = rtId t) (\<lambda>_. rotated cr value' t) (refreshTokens (db w)) @ [n]"
      "db w' = (db w)\<lparr>refreshTokens := refreshTokens (db w')\<rparr>" "tokens_ok w'"
proof (cases "List.find (\<lambda>t. rtTokenHash t = sha256Hex cr value) (refreshTokens (db w))")
  case None
  then have "refresh env cr value w = (Inl (UnauthorizedException ''refresh-token''), w)"
    by (simp add: refresh_def someOr_def)
  moreover have "\<forall>t \<in> set (refreshTokens (db w)). rtTokenHash t \<noteq> sha256Hex cr value"
    using None by (simp add: find_None_iff)
  ultimately show ?thesis using run unknown by simp
next
  case (Some t)
  then have t: "t \<in> set (refreshTokens (db w))" "rtTokenHash t = sha256Hex cr value"
    by (auto dest: find_SomeD)
  show ?thesis
  proof (cases "rtRevoked t")
    case True
    obtain w1 where rv: "revokeAllUserTokens (rtUserId t) w = (Inr (), w1)"
      by (simp add: revokeAllUserTokens_def)
    then have "r = Inl (UnauthorizedException ''reuse-detected'')" "w' = w1"
      using run Some True by (auto simp: refresh_def)
    with reused [OF t True] revokeAll_none_live [OF rv] show ?thesis by simp
  next
    case False
    show ?thesis
    proof (cases "rtExpiresAt t < now env \<or> List.find (\<lambda>u. userId u = rtUserId t) (users (db w)) = None")
      case True
      with run Some False refused show ?thesis
        by (auto simp: refresh_def require_def someOr_def bindE_def split: if_splits option.splits)
    next
      case alive: False
      then obtain u where u: "List.find (\<lambda>u. userId u = rtUserId t) (users (db w)) = Some u" by auto
      then have uid: "userId u = rtUserId t" by (auto dest: find_SomeD)
      obtain g w1 where gen: "generateTokens env cr u (rtMfaAuthenticated t) w = (g, w1)" by fastforce
      show ?thesis
      proof (cases g)
        case (Inl e)
        with gen run Some False alive u generateTokens_Inl refused show ?thesis
          by (auto simp: refresh_def)
      next
        case (Inr av)
        obtain access value' where av: "av = (access, value')" by (cases av)
        from generateTokens_Inr [OF ok gen [unfolded Inr av]] obtain n where
          n: "rtTokenHash n = sha256Hex cr value'" "rtUserId n = userId u" "\<not> rtRevoked n"
            "rtMfaAuthenticated n = rtMfaAuthenticated t" "rtId n < nextId w1" "nextId w \<le> rtId n"
            "\<forall>x \<in> set (refreshTokens (db w)). rtTokenHash x \<noteq> sha256Hex cr value'"
            "db w1 = (db w)\<lparr>refreshTokens := refreshTokens (db w) @ [n]\<rparr>" "tokens_ok w1"
          by metis
        let ?t = "rotated cr value' t"
        have tid: "rtId ?t = rtId t" "rtTokenHash ?t = rtTokenHash t" by (simp_all add: rotated_def)
        have "rtId t < nextId w" using ok t(1) by (simp add: tokens_ok_def)
        then have up: "upsert rtId ?t (refreshTokens (db w1)) =
            update_where (\<lambda>x. rtId x = rtId t) (\<lambda>_. ?t) (refreshTokens (db w)) @ [n]"
          using t(1) tid n(6,8) by (auto simp: upsert_def update_where_def)
        have "distinct (map rtId (refreshTokens (db w1)))" "t \<in> set (refreshTokens (db w1))"
          using n(8,9) t(1) by (auto simp: tokens_ok_def)
        then have keys: "index_keys (\<lambda>t. Some (rtTokenHash t)) (upsert rtId ?t (refreshTokens (db w1))) =
            index_keys (\<lambda>t. Some (rtTokenHash t)) (refreshTokens (db w1))"
          using tid by (intro index_keys_upsert_same) simp_all
        then have ix: "refresh_violated (upsert rtId ?t (refreshTokens (db w1))) = None"
          using n(9) by (simp add: refresh_violated_def tokens_ok_def index_ok_def)
        let ?w2 = "w1\<lparr>db := (db w1)\<lparr>refreshTokens := upsert rtId ?t (refreshTokens (db w1))\<rparr>\<rparr>"
        have "saveRefreshToken ?t w1 = (Inr ?t, ?w2)"
          using ix by (simp add: saveRefreshToken_def save_into_Inr)
        then have r: "r = Inr (access, value')" "w' = ?w2"
          using run Some False alive u gen Inr av by (auto simp: refresh_def rotated_def)
        have "tokens_ok w'"
          using n(9) keys distinct_upsert [of rtId "refreshTokens (db w1)" ?t] tid t(1)
          unfolding r(2) by (auto simp: tokens_ok_def index_ok_def set_upsert n(8))
        with rotation [OF t False _ u r(1) n(1) _ n(3,4,7)] alive n(2,8) uid r(2) up show ?thesis by auto
      qed
    qed
  qed
qed

section \<open>Accounts\<close>

definition users_ok :: "world \<Rightarrow> bool" where
  "users_ok w \<longleftrightarrow> index_ok (\<lambda>u. Some (email u)) (users (db w)) \<and> distinct (map userId (users (db w))) \<and>
     (\<forall>u \<in> set (users (db w)). userId u < nextId w)"

lemma users_ok_mono:
  "users_ok w \<Longrightarrow> users (db w') = users (db w) \<Longrightarrow> nextId w \<le> nextId w' \<Longrightarrow> users_ok w'"
  unfolding users_ok_def by (metis order_less_le_trans)

lemma find_new_user:
  assumes "users_ok w" "users (db w) = us @ [u]"
  shows "List.find (\<lambda>x. email x = email u) (users (db w)) = Some u"
    "List.find (\<lambda>x. userId x = userId u) (users (db w)) = Some u"
proof -
  have "index_ok (\<lambda>u. Some (email u)) (us @ [u])" "distinct (map userId (us @ [u]))"
    using assms by (simp_all add: users_ok_def)
  then have "\<forall>x \<in> set us. email x \<noteq> email u" "\<forall>x \<in> set us. userId x \<noteq> userId u"
    unfolding index_ok_snoc by (auto simp: image_iff)
  then have "List.find (\<lambda>x. email x = email u) us = None" "List.find (\<lambda>x. userId x = userId u) us = None"
    by (auto simp: find_None_iff)
  then show "List.find (\<lambda>x. email x = email u) (users (db w)) = Some u"
    "List.find (\<lambda>x. userId x = userId u) (users (db w)) = Some u"
    by (simp_all add: assms(2) find_append)
qed

lemma bestEffort_returns: "\<exists>w'. bestEffort m w = (Inr (), w')"
proof -
  obtain r w' where "bestEffort m w = (r, w')" by fastforce
  with bestEffort_never_throws show ?thesis by (cases r) auto
qed

lemma bestEffort_outside:
  assumes "outside_db m"
  obtains w' where "bestEffort m w = (Inr (), w')" "db w' = db w" "nextId w \<le> nextId w'"
  using bestEffort_returns [of m w] outside_dbD [OF outside_bestEffort [OF assms]] by metis

lemma ids_grow_recordSignup: "ids_grow (recordSignup code i)"
  unfolding recordSignup_def saveConversion_def by (intro keeping)

text \<open>Registration: a conflict, an exception after which only the account may have been written, or
  the new account at the end of the table.\<close>

lemma register_cases:
  assumes ok: "users_ok w" and run: "register env cr e password rs code w = (r, w')"
  obtains (conflict) x where "x \<in> set (users (db w))" "email x = toLowerCase e"
      "r = Inl (ConflictException ''email'')" "w' = w"
  | (written) hash token u where "\<forall>x \<in> set (users (db w)). email x \<noteq> toLowerCase e"
      "hash = argonHash cr (nextId w) password" "token = uuidv4 cr (Suc (nextId w))"
      "u = registered_user env e hash token (Suc (Suc (nextId w)))"
      "users (db w') = users (db w) @ [u]" "users_ok w'"
      "r = Inl (ServiceUnavailable ''audit'') \<or> r = Inr (userId u, email u)"
proof (cases "List.find (\<lambda>u. email u = toLowerCase e) (users (db w))")
  case (Some x)
  then have "x \<in> set (users (db w))" "email x = toLowerCase e" by (auto dest: find_SomeD)
  moreover have "register env cr e password rs code w = (Inl (ConflictException ''email''), w)"
    using Some by (simp add: register_def findByEmail_def require_def)
  ultimately show ?thesis using conflict run by simp
next
  case None
  then have new: "\<forall>x \<in> set (users (db w)). email x \<noteq> toLowerCase e" by (simp add: find_None_iff)
  let ?token = "uuidv4 cr (Suc (nextId w))" and ?hash = "argonHash cr (nextId w) password"
  define u where "u = registered_user env e ?hash ?token (Suc (Suc (nextId w)))"
  let ?w1 = "w\<lparr>nextId := Suc (Suc (Suc (nextId w))), db := (db w)\<lparr>users := users (db w) @ [u]\<rparr>\<rparr>"
  have id: "userId u = Suc (Suc (nextId w))" "email u = toLowerCase e"
    by (simp_all add: u_def registered_user_def)
  have "userId u \<notin> userId ` set (users (db w))"
    using ok id by (fastforce simp: users_ok_def)
  then have up: "upsert userId u (users (db w)) = users (db w) @ [u]" by (rule upsert_new)
  have ix: "index_ok (\<lambda>u. Some (email u)) (users (db w) @ [u])"
    using ok new id unfolding index_ok_snoc by (auto simp: users_ok_def)
  then have save: "saveUser u (w\<lparr>nextId := Suc (Suc (Suc (nextId w)))\<rparr>) = (Inr u, ?w1)"
    by (simp add: saveUser_def save_into_Inr up user_violated_def)
  have ok1: "users_ok ?w1" using ok ix id by (fastforce simp: users_ok_def)
  obtain w2 where mail: "(if skipEmailVerification env then ret ()
      else bestEffort (sendMail env \<lparr>mailTo = email u, templateId = ''email-verification'',
        mailToken = Some ?token\<rparr>)) ?w1 = (Inr (), w2)" "db w2 = db ?w1" "nextId ?w1 \<le> nextId w2"
  proof (cases "skipEmailVerification env")
    case False
    obtain w2 where "bestEffort (sendMail env \<lparr>mailTo = email u, templateId = ''email-verification'',
        mailToken = Some ?token\<rparr>) ?w1 = (Inr (), w2)" "db w2 = db ?w1" "nextId ?w1 \<le> nextId w2"
      using bestEffort_outside [OF outside_sendMail] by blast
    with that False show ?thesis by simp
  qed (use that in simp)
  let ?rest = "\<lambda>w2. bindE (auditLog env \<lparr>actorId = Some (userId u), auAction = USER_REGISTERED,
        entityType = ''user'', entityId = userId u\<rparr>) (\<lambda>_.
     bindE (bestEffort (recordSignup code (userId u))) (\<lambda>_.
     bindE (track env A_SIGNUP (Some (userId u))) (\<lambda>_. ret (userId u, email u)))) w2"
  have run': "register env cr e password rs code w = ?rest w2"
    using None save mail(1)
    by (cases "skipEmailVerification env")
      (auto simp: register_def findByEmail_def require_def hashPassword_def freshId_def bindE_def
        simp flip: u_def)
  show ?thesis
  proof (cases "auditFails env \<lparr>actorId = Some (userId u), auAction = USER_REGISTERED,
        entityType = ''user'', entityId = userId u\<rparr>")
    case True
    then have "r = Inl (ServiceUnavailable ''audit'')" "w' = w2"
      using run run' by (auto simp: auditLog_def)
    with written [OF new refl refl u_def] users_ok_mono [OF ok1, of w2] mail(2,3) show ?thesis by simp
  next
    case False
    let ?w3 = "w2\<lparr>audit := audit w2 @ [\<lparr>actorId = Some (userId u), auAction = USER_REGISTERED,
        entityType = ''user'', entityId = userId u\<rparr>]\<rparr>"
    obtain w4 where w4: "bestEffort (recordSignup code (userId u)) ?w3 = (Inr (), w4)"
      using bestEffort_returns by blast
    obtain t where t: "db w4 = (db ?w3)\<lparr>referralConversions := t\<rparr>"
      using movesD [OF conversions.moves_bestEffort [OF moves_recordSignup] w4]
      by (auto simp: only_conversions_def)
    have grow: "nextId ?w3 \<le> nextId w4"
      by (rule ids_growD [OF ids_grow_bestEffort [OF ids_grow_recordSignup] w4])
    obtain w5 where w5: "track env A_SIGNUP (Some (userId u)) w4 = (Inr (), w5)" "db w5 = db w4"
        "nextId w5 = nextId w4"
    proof (cases "analyticsFails env")
      case False
      with that [of "w4\<lparr>analytics := analytics w4 @ [(A_SIGNUP, Some (userId u))]\<rparr>"]
      show ?thesis by (simp add: track_def)
    qed (use that [of w4] in \<open>simp add: track_def\<close>)
    have "?rest w2 = (Inr (userId u, email u), w5)"
      using False w4 w5(1) by (simp add: auditLog_def bindE_def)
    then have "r = Inr (userId u, email u)" "w' = w5" using run run' by simp_all
    with written [OF new refl refl u_def] users_ok_mono [OF ok1, of w5] mail(2,3) t grow w5
    show ?thesis by simp
  qed
qed

section \<open>Logging in\<close>

text \<open>The end of a login without a second factor.\<close>

definition open_session :: "env \<Rightarrow> crypto \<Rightarrow> user \<Rightarrow> login_result service" where
  "open_session env cr u =
     bindE (generateTokens env cr u False) (\<lambda>(access, refresh).
     bindE (auditLog env (userLogin (userId u))) (\<lambda>_. ret (Tokens access refresh)))"

lemma login_eq:
  assumes "List.find (\<lambda>x. email x = toLowerCase e) (users (db w)) = Some u"
    "argonVerify cr (passwordHash u) password = Some True"
  shows "login env cr e password w =
    (if \<not> emailVerified u then (Inl (UnauthorizedException ''EMAIL_NOT_VERIFIED''), w)
     else if userStatus u \<noteq> U_ACTIVE then (Inl (UnauthorizedException ''not-active''), w)
     else if mfaEnabled u then bindE (issueMfaChallengeToken env cr (userId u)) (\<lambda>t. ret (MfaChallenge t)) w
     else open_session env cr u w)"
  using assms by (simp add: login_def findByEmail_def verifyPassword_def someOr_def require_def open_session_def)

text \<open>The verification link, for the account it was made for.\<close>

definition verified_user :: "user \<Rightarrow> user" where
  "verified_user x = x\<lparr>emailVerified := True, userStatus := U_ACTIVE, emailVerificationToken := None,
     emailVerificationExpires := None\<rparr>"

lemma update_last_user:
  assumes "users_ok w" "users (db w) = us @ [u]"
  shows "update_where (\<lambda>x. userId x = userId u) f (users (db w)) = us @ [f u]"
proof -
  have "userId u \<notin> userId ` set us" using assms by (simp add: users_ok_def)
  then have "userId x \<noteq> userId u" if "x \<in> set us" for x using that by (metis imageI)
  then have "update_where (\<lambda>x. userId x = userId u) f us = us"
    unfolding update_where_def by (intro map_idI) auto
  then show ?thesis by (simp add: assms(2) update_where_def)
qed

lemma verifyEmail_new:
  assumes ok: "users_ok w" and us: "users (db w) = us @ [u]"
    and tok: "emailVerificationToken u = Some t" "\<forall>x \<in> set us. emailVerificationToken x \<noteq> Some t"
    and time: "emailVerificationExpires u = Some d" "now env \<le> d"
    and run: "verifyEmail env t w = (Inr (), w')"
  shows "users (db w') = us @ [verified_user u]"
proof -
  have "List.find (\<lambda>u. emailVerificationToken u = Some t) (users (db w)) = Some u"
  proof -
    have "List.find (\<lambda>u. emailVerificationToken u = Some t) us = None"
      using tok(2) by (simp add: find_None_iff)
    then show ?thesis by (simp add: us find_append tok(1))
  qed
  then have find: "findUserByVerificationToken env t w = (Inr (Some u), w)"
    using time by (simp add: findUserByVerificationToken_def)
  let ?w1 = "w\<lparr>db := (db w)\<lparr>users := us @ [verified_user u]\<rparr>\<rparr>"
  have upd: "updateUser (userId u) verified_user w = (Inr (), ?w1)"
    by (simp add: update_last_user [OF ok us])
  have ver: "verifyEmail env t w = bindE (auditLog env \<lparr>actorId = Some (userId u),
        auAction = USER_EMAIL_VERIFIED, entityType = ''user'', entityId = userId u\<rparr>) (\<lambda>_.
      bindE (bestEffort (markConverted env (userId u))) (\<lambda>_. track env A_EMAIL_VERIFIED (Some (userId u)))) ?w1"
    using find upd by (simp add: verifyEmail_def someOr_def verified_user_def [abs_def])
  have "moves only_conversions (bindE (auditLog env \<lparr>actorId = Some (userId u),
        auAction = USER_EMAIL_VERIFIED, entityType = ''user'', entityId = userId u\<rparr>) (\<lambda>_.
      bindE (bestEffort (markConverted env (userId u))) (\<lambda>_. track env A_EMAIL_VERIFIED (Some (userId u)))))"
    by (intro conversions.moves_rules moves_markConverted)
  from movesD [OF this run [unfolded ver]] show ?thesis by (auto simp: only_conversions_def)
qed

section \<open>Second factor at login\<close>

lemma encryptionKey_world: "encryptionKey env cr w = (r, w') \<Longrightarrow> w' = w"
  by (auto simp: encryptionKey_def getOrThrow_def someOr_def bindE_def
      split: option.splits if_splits)

lemma totpCheck_world: "totpCheck env cr key s c w = (r, w') \<Longrightarrow> w' = w"
  by (auto simp: totpCheck_def someOr_def bindE_def split: option.splits)

text \<open>A successful check: by a time-based code, or by the first stored hash that verifies, which is
  then the only one to go.\<close>

lemma verifyForLogin_True:
  assumes run: "verifyForLogin env cr u code w = (Inr True, w')"
  obtains (totp) key where "encryptionKey env cr w = (Inr key, w)"
      "totpCheck env cr key (the (mfaSecret u)) (filter (\<lambda>c. \<not> is_space c) code) w = (Inr True, w)"
      "mfaEnabled u" "w' = w"
      "length (filter (\<lambda>c. \<not> is_space c) code) = 6"
  | (backup) xs h ys where "mfaBackupCodes u = Some (xs @ h # ys)" "mfaEnabled u"
      "verifies cr (filter (\<lambda>c. \<not> is_space c) code) h"
      "\<forall>x \<in> set xs. argonVerify cr x (filter (\<lambda>c. \<not> is_space c) code) = Some False"
      "w' = w\<lparr>db := (db w)\<lparr>users := update_where (\<lambda>x. userId x = userId u)
         (\<lambda>x. x\<lparr>mfaBackupCodes := Some (xs @ ys)\<rparr>) (users (db w))\<rparr>\<rparr>"
proof -
  let ?code = "filter (\<lambda>c. \<not> is_space c) code"
  have on: "mfaEnabled u" "\<not> (mfaSecret u = None \<or> mfaSecret u = Some [])"
    using run by (auto simp: verifyForLogin_def split: if_splits)
  then obtain s where s: "mfaSecret u = Some s" "s \<noteq> []" by auto
  show ?thesis
  proof (cases "length ?code = 6 \<and> list_all is_digit ?code")
    case True
    then have v: "verifyForLogin env cr u code = bindE (bindE (encryptionKey env cr) (\<lambda>key.
        bindE (totpCheck env cr key (the (mfaSecret u)) ?code) (\<lambda>ok. ret (ok, None)))) (\<lambda>(valid, consumed).
        case consumed of
          Some rest \<Rightarrow>
            if valid then bindE (updateUser (userId u) (\<lambda>x. x\<lparr>mfaBackupCodes := Some rest\<rparr>)) (\<lambda>_. ret valid)
            else ret valid
        | None \<Rightarrow> ret valid)"
      using on s by (simp add: verifyForLogin_def verifyCode_def)
    from run [unfolded v] obtain vc w1 where
      inner: "bindE (encryptionKey env cr) (\<lambda>key. bindE (totpCheck env cr key (the (mfaSecret u)) ?code)
         (\<lambda>ok. ret (ok, None))) w = (Inr vc, w1)" and
      outer: "(case vc of (valid, consumed) \<Rightarrow> case consumed of
          Some rest \<Rightarrow>
            if valid then bindE (updateUser (userId u) (\<lambda>x. x\<lparr>mfaBackupCodes := Some rest\<rparr>)) (\<lambda>_. ret valid)
            else ret valid
        | None \<Rightarrow> ret valid) w1 = (Inr True, w')"
      by (rule bindE_InrE)
    from inner obtain key w2 where key: "encryptionKey env cr w = (Inr key, w2)" and
      inner2: "bindE (totpCheck env cr key (the (mfaSecret u)) ?code) (\<lambda>ok. ret (ok, None :: string list option)) w2 = (Inr vc, w1)"
      by (rule bindE_InrE)
    from inner2 obtain b w3 where b: "totpCheck env cr key (the (mfaSecret u)) ?code w2 = (Inr b, w3)"
      and vc: "(ret (b, None) :: (bool \<times> string list option) service) w3 = (Inr vc, w1)"
      by (rule bindE_InrE)
    have vcs: "vc = (b, None)" "w1 = w3" using vc by simp_all
    have ws: "w2 = w" "w3 = w2" using encryptionKey_world [OF key] totpCheck_world [OF b] .
    have "b = True" "w' = w1" using outer unfolding vcs(1) by simp_all
    then show ?thesis using totp [OF key [unfolded ws] _ on(1)] b ws vcs(2) True by blast
  next
    case False
    let ?hs = "case mfaBackupCodes u of None \<Rightarrow> [] | Some hs \<Rightarrow> hs"
    obtain f w1 where m: "matchBackup cr ?code 0 ?hs w = (f, w1)" by fastforce
    with run on False obtain k where f: "f = Inr (Some k)" and
      w': "w' = w1\<lparr>db := (db w1)\<lparr>users := update_where (\<lambda>x. userId x = userId u)
         (\<lambda>x. x\<lparr>mfaBackupCodes := Some (drop_index k ?hs)\<rparr>) (users (db w1))\<rparr>\<rparr>"
      by (cases f) (auto simp: verifyForLogin_def verifyCode_def Let_def bindE_def split: option.splits)
    from matchBackup_found [OF m [unfolded f]] obtain xs h ys where
      h: "?hs = xs @ h # ys" "k = 0 + length xs" "verifies cr ?code h"
        "\<forall>x \<in> set xs. argonVerify cr x ?code = Some False" "w1 = w" by metis
    have "mfaBackupCodes u = Some (xs @ h # ys)"
      using h(1) by (cases "mfaBackupCodes u") auto
    with h w' on show ?thesis using backup by simp
  qed
qed

section \<open>Sessions marked with a second factor\<close>

definition marked :: "db \<Rightarrow> uuid \<Rightarrow> bool" where
  "marked d i \<longleftrightarrow> list_ex (\<lambda>t. rtMfaAuthenticated t \<and> rtUserId t = i) (refreshTokens d)"

definition no_new_marks :: "db \<Rightarrow> db \<Rightarrow> bool" where
  "no_new_marks d d' \<longleftrightarrow> (\<forall>i. marked d' i \<longrightarrow> marked d i)"

interpretation marks: db_frame no_new_marks
  by unfold_locales (auto simp: no_new_marks_def)

lemma no_new_marks_same: "refreshTokens d' = refreshTokens d \<Longrightarrow> no_new_marks d d'"
  by (simp add: no_new_marks_def marked_def)

lemma marks_saveUser: "moves no_new_marks (saveUser u)"
proof (rule movesI)
  fix w r w'
  assume "saveUser u w = (r, w')"
  then show "no_new_marks (db w) (db w')"
    by (cases r) (auto simp: saveUser_def save_into_Inr save_into_Inl intro: no_new_marks_same)
qed

lemma marks_updateUser: "moves no_new_marks (updateUser i f)"
  by (rule movesI) (auto intro: no_new_marks_same)

lemma marks_markConverted: "moves no_new_marks (markConverted env i)"
  by (rule movesI) (auto simp: markConverted_def intro: no_new_marks_same)

lemma marks_recordSignup: "moves no_new_marks (recordSignup code i)"
proof (rule movesI)
  fix w r w'
  assume "recordSignup code i w = (r, w')"
  from movesD [OF moves_recordSignup this] show "no_new_marks (db w) (db w')"
    by (auto simp: only_conversions_def intro: no_new_marks_same)
qed

lemma marks_saveToken: "\<not> rtMfaAuthenticated t \<Longrightarrow> moves no_new_marks (saveRefreshToken t)"
proof (rule movesI)
  fix w r w'
  assume t: "\<not> rtMfaAuthenticated t" and "saveRefreshToken t w = (r, w')"
  then show "no_new_marks (db w) (db w')"
    using t by (cases r) (auto simp: saveRefreshToken_def save_into_Inr save_into_Inl no_new_marks_def
        marked_def list_ex_iff set_upsert)
qed

lemma marks_generateTokens: "moves no_new_marks (generateTokens env cr u False)"
  unfolding generateTokens_def
  by (intro marks_saveToken marks.moves_rules marks.moves_outside [OF outside_accounts(1)])
    (simp add: issued_token_def)

lemma generateTokens_marks:
  assumes "generateTokens env cr u mfa w = (r, w')" "marked (db w') i"
  shows "marked (db w) i \<or> userId u = i"
proof -
  have "marked (db v) i \<or> rtUserId t = i" if "saveRefreshToken t v = (q, v')" "marked (db v') i" for t v v' q
    using that by (cases q) (auto simp: saveRefreshToken_def save_into_Inr save_into_Inl marked_def
        list_ex_iff set_upsert)
  then show ?thesis
    using assms
    by (fastforce simp: generateTokens_def getOrThrow_def someOr_def bindE_def freshId_def issued_token_def
        split: option.splits prod.splits sum.splits)
qed

lemma marks_revokeAll: "moves no_new_marks (revokeAllUserTokens i)"
proof (rule movesI)
  fix w r w'
  assume "revokeAllUserTokens i w = (r, w')"
  then have "refreshTokens (db w') = update_where (\<lambda>t. rtUserId t = i \<and> \<not> rtRevoked t)
      (\<lambda>t. t\<lparr>rtRevoked := True\<rparr>) (refreshTokens (db w))"
    by (auto simp: revokeAllUserTokens_def)
  then show "no_new_marks (db w) (db w')"
    by (auto simp: no_new_marks_def marked_def list_ex_iff set_update_where)
qed

lemma marks_cleanup: "moves no_new_marks (cleanupExpiredTokens env)"
  by (rule movesI) (auto simp: cleanupExpiredTokens_def no_new_marks_def marked_def list_ex_iff)

lemmas marks_accounts = marks_saveUser marks_updateUser marks_markConverted marks_recordSignup
  marks_generateTokens marks_revokeAll marks_cleanup
  marks.moves_outside [OF outside_accounts(1)] marks.moves_outside [OF outside_accounts(2)]
  marks.moves_outside [OF outside_accounts(3)] marks.moves_outside [OF outside_accounts(4)]
  marks.moves_rules

lemma outside_finders [keeping]:
  "outside_db (findByEmail e)" "outside_db (findUserByVerificationToken env t)"
  "outside_db (findUserByResetToken env cr t)" "outside_db (issueMfaChallengeToken env cr i)"
  unfolding findByEmail_def findUserByVerificationToken_def findUserByResetToken_def
    issueMfaChallengeToken_def
  by (intro keeping)+

lemma moves_case_prod: "(\<And>a b. moves R (f a b)) \<Longrightarrow> moves R (case p of (a, b) \<Rightarrow> f a b)"
  by (cases p) simp

lemmas marks_finders = marks.moves_outside [OF outside_finders(1)] marks.moves_outside [OF outside_finders(2)]
  marks.moves_outside [OF outside_finders(3)] marks.moves_outside [OF outside_finders(4)]

lemma marks_operations:
  "moves no_new_marks (register env cr e p rs c)" "moves no_new_marks (verifyEmail env t)"
  "moves no_new_marks (resendVerification env cr e)" "moves no_new_marks (login env cr e p)"
  "moves no_new_marks (requestPasswordReset env cr e)" "moves no_new_marks (resetPassword env cr t p)"
  "moves no_new_marks (changePassword env cr i p q)"
  unfolding register_def verifyEmail_def resendVerification_def login_def requestPasswordReset_def
    resetPassword_def changePassword_def
  by (intro moves_case_prod marks_finders marks_accounts)+

lemma marks_step: "moves no_new_marks m \<Longrightarrow> marked (db (snd (m w))) i \<Longrightarrow> marked (db w) i"
  by (auto simp: moves_def no_new_marks_def)

lemma marks_refresh:
  assumes "tokens_ok w" "refresh env cr v w = (r, w')"
  shows "no_new_marks (db w) (db w')"
  using assms
proof (cases rule: refresh_cases)
  case (rotation t u n access value')
  then show ?thesis
    by (auto simp: no_new_marks_def marked_def list_ex_iff set_update_where rotated_def)
next
  case (reused t)
  have "moves no_new_marks (bindE (revokeAllUserTokens (rtUserId t))
      (\<lambda>_. throw (UnauthorizedException ''reuse-detected'') :: (string \<times> string) service))"
    by (intro marks_accounts)
  moreover have "refresh env cr v w = bindE (revokeAllUserTokens (rtUserId t))
      (\<lambda>_. throw (UnauthorizedException ''reuse-detected'')) w"
    using find_token [OF assms(1) reused(1,2)] reused(3) by (simp add: refresh_def)
  ultimately show ?thesis using movesD assms(2) by metis
qed (auto intro: no_new_marks_same)

lemma challengedUser_cases:
  assumes "challengedUser env cr token w = (r, w')"
  shows "w' = w" "r = Inr i \<Longrightarrow> \<exists>secret. cfgString env ''auth.jwtRefreshSecret'' = Some secret \<and>
    verifyJwt cr secret (now env) token = Some (i, Some MFA_CHALLENGE_PURPOSE)"
  using assms
  by (auto simp: challengedUser_def tryCatch_def bindE_def getOrThrow_def someOr_def require_def
      split: option.splits if_splits prod.splits)

lemma outside_matchBackup: "outside_db (matchBackup cr code i hs)"
proof (induction hs arbitrary: i)
  case (Cons h hs)
  show ?case by (simp only: matchBackup.simps) (intro keeping Cons.IH)
qed (simp add: outside_ret)

lemma outside_checks [keeping]:
  "outside_db (encryptionKey env cr)" "outside_db (totpCheck env cr key s c)"
  unfolding encryptionKey_def totpCheck_def by (intro keeping)+

lemma outside_verifyCode: "outside_db (verifyCode env cr u code)"
  unfolding verifyCode_def Let_def by (intro keeping outside_matchBackup)

lemma marks_verifyForLogin: "moves no_new_marks (verifyForLogin env cr u code)"
  unfolding verifyForLogin_def
  by (intro marks.moves_outside [OF outside_verifyCode] moves_case_prod marks_accounts)

lemma marks_mfa_login:
  assumes ok: "tokens_ok w" and run: "verifyMfaChallenge env cr token code w = (r, w')" and m: "marked (db w') i"
  shows "marked (db w) i \<or> (\<exists>u secret. userId u = i \<and> mfaEnabled u \<and>
    List.find (\<lambda>x. userId x = userId u) (users (db w)) = Some u \<and>
    cfgString env ''auth.jwtRefreshSecret'' = Some secret \<and>
    verifyJwt cr secret (now env) token = Some (userId u, Some MFA_CHALLENGE_PURPOSE) \<and>
    fst (verifyForLogin env cr u code w) = Inr True)"
proof -
  obtain c w0 where c: "challengedUser env cr token w = (c, w0)" by fastforce
  then have w0: "w0 = w" by (rule challengedUser_cases(1))
  show ?thesis
  proof (cases "\<exists>j u. c = Inr j \<and> List.find (\<lambda>u. userId u = j) (users (db w)) = Some u \<and> mfaEnabled u")
    case False
    then have "w' = w"
      using run c w0 by (cases c) (auto simp: verifyMfaChallenge_def someOr_def require_def bindE_def
          split: option.splits if_splits)
    with m show ?thesis by simp
  next
    case True
    then obtain j u where u: "c = Inr j" "List.find (\<lambda>u. userId u = j) (users (db w)) = Some u" "mfaEnabled u"
      by blast
    have j: "userId u = j" using find_SomeD [OF u(2)] by simp
    obtain v w1 where v: "verifyForLogin env cr u code w = (v, w1)" by fastforce
    have old: "marked (db w) i" if "marked (db w1) i"
      using movesD [OF marks_verifyForLogin v] that by (simp add: no_new_marks_def)
    have rest: "verifyMfaChallenge env cr token code w =
        bindE (verifyForLogin env cr u code) (\<lambda>valid.
        bindE (require valid (UnauthorizedException ''code'')) (\<lambda>_.
        bindE (generateTokens env cr u True) (\<lambda>tokens.
        bindE (auditLog env (userLogin (userId u))) (\<lambda>_. ret tokens)))) w"
      using c w0 u by (simp add: verifyMfaChallenge_def someOr_def require_def)
    show ?thesis
    proof (cases "v = Inr True")
      case False
      then have "w' = w1" using run rest v by (cases v) (auto simp: require_def)
      with m old show ?thesis by simp
    next
      case True
      then have go: "bindE (generateTokens env cr u True) (\<lambda>tokens.
          bindE (auditLog env (userLogin (userId u))) (\<lambda>_. ret tokens)) w1 = (r, w')"
        using run rest v by (simp add: require_def)
      obtain g w2 where g: "generateTokens env cr u True w1 = (g, w2)" by fastforce
      have d: "db w' = db w2"
      proof (cases g)
        case (Inl e)
        with go g show ?thesis by simp
      next
        case (Inr tokens)
        with go g have "bindE (auditLog env (userLogin (userId u))) (\<lambda>_. ret tokens) w2 = (r, w')" by simp
        moreover have "outside_db (bindE (auditLog env (userLogin (userId u))) (\<lambda>_. ret tokens))"
          by (intro keeping)
        ultimately show ?thesis using outside_dbD by blast
      qed
      have "marked (db w2) i \<longrightarrow> marked (db w1) i \<or> userId u = i"
        using generateTokens_marks [OF g] by blast
      moreover have "marked (db w2) i" using m d by (simp add: marked_def)
      ultimately consider "marked (db w) i" | "userId u = i" using old by blast
      then show ?thesis
      proof cases
        case 2
        from challengedUser_cases(2) [OF c u(1)] obtain secret where
          "cfgString env ''auth.jwtRefreshSecret'' = Some secret"
          "verifyJwt cr secret (now env) token = Some (userId u, Some MFA_CHALLENGE_PURPOSE)"
          unfolding j by blast
        moreover have "fst (verifyForLogin env cr u code w) = Inr True" by (simp only: v True fst_conv)
        moreover have "List.find (\<lambda>x. userId x = userId u) (users (db w)) = Some u"
          unfolding j by (rule u(2))
        ultimately show ?thesis using 2 u(3) by blast
      qed blast
    qed
  qed
qed

end
