(* ===== verification/Auth_Props.thy ===== *)
theory Auth_Props
  imports Auth_Facts
begin

text \<open>
  The properties of accounts, sessions and the second factor, and a concrete \<open>crypto\<close> for their
  witnesses: digests and seals that keep what they are given.
\<close>

definition cfg0 :: "string \<Rightarrow> string option" where
  "cfg0 k = (if k = ''auth.jwtRefreshExpiration'' then Some ''7d'' else Some k)"

definition crypto0 :: crypto where
  "crypto0 = \<lparr>argonHash = (\<lambda>i p. p), argonVerify = (\<lambda>h p. Some (h = p)), sha256Hex = (\<lambda>s. s),
     randomBytes = (\<lambda>n i. replicate n (of_nat i)), uuidv4 = dec, hmacSha1 = (\<lambda>k m. replicate 20 (of_nat (length k))),
     deriveKey = utf8, gcmSeal = (\<lambda>k iv p. (p, replicate 16 0)), gcmOpen = (\<lambda>k iv t c. Some c),
     toBase64 = fromUtf8, fromBase64 = utf8, signAccess = (\<lambda>s x t p. ''access''),
     signChallenge = (\<lambda>s x t p. ''challenge''), verifyJwt = (\<lambda>s t j. None)\<rparr>"

definition env_auth :: env where
  "env_auth = env0\<lparr>cfgString := cfg0\<rparr>"

definition session0 :: refresh_token where
  "session0 = \<lparr>rtId = 80, rtTokenHash = ''old'', rtUserId = 2, rtExpiresAt = 2000000000,
     rtRevoked = False, rtMfaAuthenticated = True, rtReplacedBy = None, rtCreatedAt = 0\<rparr>"

definition world_session :: world where
  "world_session = world0\<lparr>db := db0\<lparr>refreshTokens := [session0]\<rparr>\<rparr>"

lemma tokens_ok_session: "tokens_ok world_session"
  by (simp add: tokens_ok_def index_ok_def world_session_def session0_def world0_def db0_def)

lemma utf8_fromUtf8 [simp]: "utf8 (fromUtf8 bs) = bs"
proof -
  have "(of_nat (of_char (char_of (unat b) :: char)) :: 8 word) = b" for b
  proof -
    have "unat b < 2 ^ LENGTH(8)" by (rule unsigned_less)
    then show ?thesis by (simp add: of_char_of)
  qed
  then show ?thesis by (simp add: utf8_def fromUtf8_def map_idI)
qed

lemma fromUtf8_Nil [simp]: "fromUtf8 bs = [] \<longleftrightarrow> bs = []"
  by (simp add: fromUtf8_def)

section \<open>Sessions\<close>

text \<open>C13: a refresh token is good for one use. A successful refresh revokes the row it was stored
  in, which then names its replacement, and adds one live row under a new digest, for the same user
  and with the same second-factor mark; every other row stays. Presenting the same token again, at
  any later time, is refused and leaves the user without a live session.\<close>

theorem refresh_single_use:
  assumes "tokens_ok w" "refresh env cr value w = (Inr (access, value'), w')"
  shows "\<exists>t n. t \<in> set (refreshTokens (db w)) \<and> rtTokenHash t = sha256Hex cr value \<and> \<not> rtRevoked t \<and>
    set (refreshTokens (db w')) =
      {x \<in> set (refreshTokens (db w)). x \<noteq> t} \<union> {rotated cr value' t, n} \<and>
    live (rtUserId t) n \<and> rtTokenHash n = sha256Hex cr value' \<and>
    rtMfaAuthenticated n = rtMfaAuthenticated t \<and>
    (\<exists>w''. refresh env' cr value w' = (Inl (UnauthorizedException ''reuse-detected''), w'') \<and>
       (\<forall>x \<in> set (refreshTokens (db w'')). \<not> live (rtUserId t) x))"
  using assms
proof (cases rule: refresh_cases)
  case (rotation t u n a v)
  then have v: "v = value'" by simp
  have same: "x = t" if "x \<in> set (refreshTokens (db w))" "rtId x = rtId t" for x
    using assms(1) rotation(1) that by (auto simp: tokens_ok_def distinct_map inj_on_def)
  have set': "set (refreshTokens (db w')) =
      {x \<in> set (refreshTokens (db w)). x \<noteq> t} \<union> {rotated cr value' t, n}"
    unfolding rotation(12) v using rotation(1) same by (auto simp: set_update_where)
  let ?t = "rotated cr value' t"
  have "?t \<in> set (refreshTokens (db w'))" "rtTokenHash ?t = sha256Hex cr value" "rtRevoked ?t"
    "rtUserId ?t = rtUserId t"
    using set' rotation(2) by (auto simp: rotated_def)
  note old = this
  obtain r2 w'' where again: "refresh env' cr value w' = (r2, w'')" by fastforce
  have "r2 = Inl (UnauthorizedException ''reuse-detected'') \<and>
      (\<forall>x \<in> set (refreshTokens (db w'')). \<not> live (rtUserId t) x)"
  proof -
    have found: "List.find (\<lambda>t. rtTokenHash t = sha256Hex cr value) (refreshTokens (db w')) = Some ?t"
      by (rule find_token [OF rotation(14) old(1,2)])
    obtain w1 where rv: "revokeAllUserTokens (rtUserId ?t) w' = (Inr (), w1)"
      by (simp add: revokeAllUserTokens_def)
    have "r2 = Inl (UnauthorizedException ''reuse-detected'')" "w'' = w1"
      using again found old(3) rv by (auto simp: refresh_def)
    with revokeAll_none_live(1) [OF rv] old(4) show ?thesis by simp
  qed
  with again have "\<exists>w''. refresh env' cr value w' = (Inl (UnauthorizedException ''reuse-detected''), w'') \<and>
      (\<forall>x \<in> set (refreshTokens (db w'')). \<not> live (rtUserId t) x)" by blast
  with set' rotation(1-3,7-10) v show ?thesis by (intro exI [of _ t] exI [of _ n]) (simp add: live_def)
qed simp_all

text \<open>A refresh looks at the token only: as long as it is live and not expired, its owner gets
  a new session whatever the state of the account. A suspended account, or one that was deleted and
  anonymised, keeps its sessions for as long as it refreshes them.\<close>

theorem refresh_ignores_account_status:
  assumes "tokens_ok w" "t \<in> set (refreshTokens (db w))" "rtTokenHash t = sha256Hex cr value"
    "\<not> rtRevoked t" "\<not> rtExpiresAt t < now env"
    "List.find (\<lambda>u. userId u = rtUserId t) (users (db w)) = Some u"
    "cfgString env ''auth.jwtAccessSecret'' = Some s" "cfgString env ''auth.jwtAccessExpiration'' = Some x"
    "cfgString env ''auth.jwtRefreshExpiration'' = Some d"
    "\<forall>t \<in> set (refreshTokens (db w)). rtTokenHash t \<noteq> sha256Hex cr (toHex (randomBytes cr 40 (nextId w)))"
  shows "\<exists>w'. refresh env cr value w =
    (Inr (signAccess cr s x (now env) (userId u, email u, roles u, rtMfaAuthenticated t),
      toHex (randomBytes cr 40 (nextId w))), w')"
proof -
  note found = find_token [OF assms(1-3)]
  obtain w1 where gen: "generateTokens env cr u (rtMfaAuthenticated t) w =
      (Inr (signAccess cr s x (now env) (userId u, email u, roles u, rtMfaAuthenticated t),
        toHex (randomBytes cr 40 (nextId w))), w1)"
    using generateTokens_succeeds [OF assms(1,7-10)] by blast
  from generateTokens_Inr [OF assms(1) gen] obtain n where
    n: "db w1 = (db w)\<lparr>refreshTokens := refreshTokens (db w) @ [n]\<rparr>" and ok1: "tokens_ok w1" by metis
  let ?t = "rotated cr (toHex (randomBytes cr 40 (nextId w))) t"
  have "distinct (map rtId (refreshTokens (db w1)))" "t \<in> set (refreshTokens (db w1))"
    using ok1 n assms(2) by (auto simp: tokens_ok_def)
  then have "index_keys (\<lambda>t. Some (rtTokenHash t)) (upsert rtId ?t (refreshTokens (db w1))) =
      index_keys (\<lambda>t. Some (rtTokenHash t)) (refreshTokens (db w1))"
    by (intro index_keys_upsert_same) (simp_all add: rotated_def)
  then have "refresh_violated (upsert rtId ?t (refreshTokens (db w1))) = None"
    using ok1 by (simp add: refresh_violated_def tokens_ok_def index_ok_def)
  then have "\<exists>w2. saveRefreshToken ?t w1 = (Inr ?t, w2)"
    by (simp add: saveRefreshToken_def save_into_Inr)
  with found gen assms(4-6) show ?thesis by (auto simp: refresh_def rotated_def)
qed

lemma refresh_ignores_account_status_witness:
  "\<exists>w w' r. users (db w) = [(user0 2 ''deleted_1@anonymized.local'' [CANDIDATE])\<lparr>userStatus := U_DELETED\<rparr>] \<and>
     refresh env_auth crypto0 ''old'' w = (Inr r, w')"
proof -
  let ?u = "(user0 2 ''deleted_1@anonymized.local'' [CANDIDATE])\<lparr>userStatus := U_DELETED\<rparr>"
  let ?w = "world_session\<lparr>db := (db world_session)\<lparr>users := [?u]\<rparr>\<rparr>"
  have "tokens_ok ?w" using tokens_ok_session by (simp add: tokens_ok_def world_session_def)
  moreover have "session0 \<in> set (refreshTokens (db ?w))" by (simp add: world_session_def)
  moreover have "rtTokenHash session0 = sha256Hex crypto0 ''old''"
    by (simp add: session0_def crypto0_def)
  moreover have "\<not> rtRevoked session0" "\<not> rtExpiresAt session0 < now env_auth"
    by (simp_all add: session0_def env_auth_def env0_def)
  moreover have "List.find (\<lambda>u. userId u = rtUserId session0) (users (db ?w)) = Some ?u"
    by (simp add: session0_def user0_def)
  moreover have "cfgString env_auth ''auth.jwtAccessSecret'' = Some ''auth.jwtAccessSecret''"
    "cfgString env_auth ''auth.jwtAccessExpiration'' = Some ''auth.jwtAccessExpiration''"
    "cfgString env_auth ''auth.jwtRefreshExpiration'' = Some ''7d''"
    by (simp_all add: env_auth_def cfg0_def)
  moreover have "\<forall>t \<in> set (refreshTokens (db ?w)). rtTokenHash t \<noteq>
      sha256Hex crypto0 (toHex (randomBytes crypto0 40 (nextId ?w)))"
  proof -
    have "length (toHex (randomBytes crypto0 40 (nextId ?w))) \<noteq> length ''old''"
      by (simp add: crypto0_def)
    then have "toHex (randomBytes crypto0 40 (nextId ?w)) \<noteq> ''old''" by metis
    then show ?thesis by (simp add: world_session_def session0_def crypto0_def)
  qed
  ultimately have "\<exists>w'. refresh env_auth crypto0 ''old'' ?w =
    (Inr (signAccess crypto0 ''auth.jwtAccessSecret'' ''auth.jwtAccessExpiration'' (now env_auth)
      (userId ?u, email ?u, roles ?u, rtMfaAuthenticated session0),
      toHex (randomBytes crypto0 40 (nextId ?w))), w')"
    by (rule refresh_ignores_account_status)
  then obtain w' r where "refresh env_auth crypto0 ''old'' ?w = (Inr r, w')" by blast
  moreover have "users (db ?w) = [?u]" by simp
  ultimately show ?thesis by blast
qed

lemma refresh_single_use_witness:
  "\<exists>r w' w''. refresh env_auth crypto0 ''old'' world_session = (Inr r, w') \<and>
     refresh env_auth crypto0 ''old'' w' = (Inl (UnauthorizedException ''reuse-detected''), w'')"
proof -
  have "case fst (refresh env_auth crypto0 ''old'' world_session) of Inl e \<Rightarrow> False | Inr r \<Rightarrow> True"
    by code_simp
  then obtain a v w' where run: "refresh env_auth crypto0 ''old'' world_session = (Inr (a, v), w')"
    by (cases "refresh env_auth crypto0 ''old'' world_session") (auto split: sum.splits)
  from refresh_single_use [OF tokens_ok_session run, of env_auth] run show ?thesis by blast
qed

section \<open>Registration\<close>

text \<open>Registration is refused exactly when the address (in lower case) is taken, and then
  changes nothing. Otherwise the new account is a candidate, whatever role was asked for; it cannot
  log in with its password before its address is verified, unless the deployment skips that step,
  and once the mailed link was followed in time it can.\<close>

theorem register_outcome:
  assumes "crypto_ok cr" "users_ok w" "register env cr e password requested code w = (r, w')"
  shows "(r = Inl (ConflictException ''email'') \<longleftrightarrow> (\<exists>x \<in> set (users (db w)). email x = toLowerCase e)) \<and>
    (r = Inl (ConflictException ''email'') \<longrightarrow> w' = w) \<and>
    (r \<noteq> Inl (ConflictException ''email'') \<longrightarrow>
      users_ok w' \<and> (\<exists>u. users (db w') = users (db w) @ [u] \<and> email u = toLowerCase e \<and> roles u = [CANDIDATE] \<and>
      login env' cr e password w' =
        (if skipEmailVerification env then open_session env' cr u w'
         else (Inl (UnauthorizedException ''EMAIL_NOT_VERIFIED''), w')) \<and>
      (\<forall>t w2. emailVerificationToken u = Some t \<longrightarrow>
         (\<forall>x \<in> set (users (db w)). emailVerificationToken x \<noteq> Some t) \<longrightarrow>
         now env' \<le> addHours env (now env) 24 \<longrightarrow> verifyEmail env' t w' = (Inr (), w2) \<longrightarrow>
         login env' cr e password w2 = open_session env' cr (verified_user u) w2)))"
  using assms(2,3)
proof (cases rule: register_cases)
  case (conflict x)
  then show ?thesis by auto
next
  case (written hash token u)
  have em: "email u = toLowerCase e" and pw: "argonVerify cr (passwordHash u) password = Some True"
    and ro: "roles u = [CANDIDATE]"
    using written(2,4) assms(1) by (auto simp: registered_user_def crypto_ok_def)
  have find: "List.find (\<lambda>x. email x = toLowerCase e) (users (db w')) = Some u"
    using find_new_user(1) [OF written(6,5)] em by simp
  have login: "login env' cr e password w' =
      (if skipEmailVerification env then open_session env' cr u w'
       else (Inl (UnauthorizedException ''EMAIL_NOT_VERIFIED''), w'))"
    using written(4) by (simp add: login_eq [OF find pw] registered_user_def)
  have after: "login env' cr e password w2 = open_session env' cr (verified_user u) w2"
    if t: "emailVerificationToken u = Some t" "\<forall>x \<in> set (users (db w)). emailVerificationToken x \<noteq> Some t"
      "now env' \<le> addHours env (now env) 24" "verifyEmail env' t w' = (Inr (), w2)" for t w2
  proof -
    have ex: "emailVerificationExpires u = Some (addHours env (now env) 24)"
      using t(1) written(4) by (auto simp: registered_user_def split: if_splits)
    have us: "users (db w2) = users (db w) @ [verified_user u]"
      by (rule verifyEmail_new [OF written(6,5) t(1,2) ex t(3,4)])
    have "List.find (\<lambda>x. email x = toLowerCase e) (users (db w)) = None"
      using written(1) by (simp add: find_None_iff)
    then have "List.find (\<lambda>x. email x = toLowerCase e) (users (db w2)) = Some (verified_user u)"
      using em by (simp add: us find_append verified_user_def)
    moreover have "argonVerify cr (passwordHash (verified_user u)) password = Some True"
      using pw by (simp add: verified_user_def)
    moreover have "\<not> mfaEnabled u" using written(4) by (simp add: registered_user_def)
    ultimately show ?thesis by (simp add: login_eq verified_user_def)
  qed
  have r: "r \<noteq> Inl (ConflictException ''email'')" using written(7) by auto
  have none: "\<not> (\<exists>x \<in> set (users (db w)). email x = toLowerCase e)" using written(1) by blast
  show ?thesis
    using r none written(5,6) em ro login after by (intro conjI impI exI [of _ u]) simp_all
qed

lemma crypto0_ok: "crypto_ok crypto0"
  by (simp add: crypto_ok_def crypto0_def hmac_sized_def TAG_LENGTH_def)

lemma users_ok_world0: "users_ok world0"
  by (simp add: users_ok_def index_ok_def sample_defs)

lemma register_outcome_witness:
  "\<exists>r w' u. register env_auth crypto0 ''New@x'' ''secret'' [ADMIN] None world0 = (r, w') \<and>
     users (db w') = users (db world0) @ [u] \<and> roles u = [CANDIDATE] \<and>
     login env_auth crypto0 ''new@X'' ''secret'' w' = (Inl (UnauthorizedException ''EMAIL_NOT_VERIFIED''), w')"
proof -
  obtain r w' where run: "register env_auth crypto0 ''New@x'' ''secret'' [ADMIN] None world0 = (r, w')"
    by fastforce
  have low: "toLowerCase ''New@x'' = ''new@x''" "toLowerCase ''new@X'' = toLowerCase ''New@x''"
    by code_simp+
  have free: "\<not> (\<exists>x \<in> set (users (db world0)). email x = toLowerCase ''New@x'')"
    unfolding low by (simp add: sample_defs)
  then have nc: "r \<noteq> Inl (ConflictException ''email'')"
    using register_outcome [OF crypto0_ok users_ok_world0 run, of env_auth] by blast
  then obtain u where "users (db w') = users (db world0) @ [u]" "roles u = [CANDIDATE]"
    "login env_auth crypto0 ''New@x'' ''secret'' w' =
        (if skipEmailVerification env_auth then open_session env_auth crypto0 u w'
         else (Inl (UnauthorizedException ''EMAIL_NOT_VERIFIED''), w'))"
    using register_outcome [OF crypto0_ok users_ok_world0 run, of env_auth] by blast
  moreover have "login env_auth crypto0 ''new@X'' ''secret'' w' = login env_auth crypto0 ''New@x'' ''secret'' w'"
    unfolding login_def low(2) ..
  moreover have "\<not> skipEmailVerification env_auth" by (simp add: env_auth_def env0_def)
  ultimately show ?thesis using run by auto
qed

section \<open>Password reset\<close>

text \<open>A reset goes through only with a token that was issued to an account and has not expired;
  it then stores the new password, ends every session of that account, and, the token being that
  account's alone, uses it up. A token that is refused changes nothing.\<close>

theorem reset_password_effect:
  assumes "crypto_ok cr" "resetPassword env cr token password w = (r, w')"
  shows "(r = Inl (BadRequestException ''reset-token'') \<and> w' = w) \<or>
    (\<exists>u d h. u \<in> set (users (db w)) \<and> passwordResetToken u = Some (sha256Hex cr token) \<and>
       passwordResetExpires u = Some d \<and> now env \<le> d \<and> argonVerify cr h password = Some True \<and>
       users (db w') = update_where (\<lambda>x. userId x = userId u)
         (\<lambda>x. x\<lparr>passwordHash := h, passwordResetToken := None, passwordResetExpires := None\<rparr>) (users (db w)) \<and>
       (\<forall>t \<in> set (refreshTokens (db w')). \<not> live (userId u) t) \<and>
       (count_where (\<lambda>x. passwordResetToken x = Some (sha256Hex cr token)) (users (db w)) = 1 \<longrightarrow>
          resetPassword env' cr token password' w' = (Inl (BadRequestException ''reset-token''), w')))"
proof -
  let ?P = "\<lambda>x. passwordResetToken x = Some (sha256Hex cr token)"
  show ?thesis
  proof (cases "\<exists>u d. List.find ?P (users (db w)) = Some u \<and> passwordResetExpires u = Some d \<and> now env \<le> d")
    case False
    then have "findUserByResetToken env cr token w = (Inr None, w)"
      by (auto simp: findUserByResetToken_def split: option.split)
    with assms(2) show ?thesis by (auto simp: resetPassword_def someOr_def)
  next
    case True
    then obtain u d where u: "List.find ?P (users (db w)) = Some u" "passwordResetExpires u = Some d"
      "now env \<le> d" by blast
    then have found: "findUserByResetToken env cr token w = (Inr (Some u), w)"
      by (simp add: findUserByResetToken_def)
    have mem: "u \<in> set (users (db w))" "?P u" using find_SomeD [OF u(1)] by auto
    let ?h = "argonHash cr (nextId w) password"
    let ?f = "\<lambda>x. x\<lparr>passwordHash := ?h, passwordResetToken := None, passwordResetExpires := None\<rparr>"
    let ?us = "update_where (\<lambda>x. userId x = userId u) ?f (users (db w))"
    let ?w1 = "w\<lparr>nextId := Suc (nextId w), db := (db w)\<lparr>users := ?us\<rparr>\<rparr>"
    obtain w2 where w2: "revokeAllUserTokens (userId u) ?w1 = (Inr (), w2)"
      by (simp add: revokeAllUserTokens_def)
    have "resetPassword env cr token password w = auditLog env (passwordChanged (userId u)) w2"
      using found w2 by (simp add: resetPassword_def hashPassword_def freshId_def someOr_def)
    then have d': "db w' = db w2" using assms(2) auditLog_db by metis
    have "users (db w2) = users (db ?w1)" by (subst revokeAll_none_live(2) [OF w2]) simp
    then have users: "users (db w') = ?us" by (simp add: d')
    have "resetPassword env' cr token password' w' = (Inl (BadRequestException ''reset-token''), w')"
      if one: "count_where ?P (users (db w)) = 1"
    proof -
      obtain a where a: "filter ?P (users (db w)) = [a]"
        using one by (auto simp: count_where_def length_Suc_conv)
      have only: "x = u" if "x \<in> set (users (db w))" "?P x" for x
      proof -
        have "x \<in> set (filter ?P (users (db w)))" "u \<in> set (filter ?P (users (db w)))"
          using that mem by simp_all
        then show ?thesis unfolding a by simp
      qed
      have "\<not> ?P x" if "x \<in> set ?us" for x
      proof -
        from that consider "x \<in> set (users (db w))" "userId x \<noteq> userId u" | y where "x = ?f y"
          unfolding set_update_where by blast
        then show ?thesis using only by cases auto
      qed
      then have "List.find ?P ?us = None" by (auto simp: find_None_iff)
      then show ?thesis
        by (simp add: resetPassword_def findUserByResetToken_def users someOr_def)
    qed
    with mem u users revokeAll_none_live(1) [OF w2] d' assms(1) show ?thesis
      by (intro disjI2 exI [of _ u] exI [of _ d] exI [of _ ?h]) (auto simp: crypto_ok_def)
  qed
qed

lemma reset_password_effect_witness:
  "\<exists>w w' u. resetPassword env_auth crypto0 ''tok'' ''new'' w = (Inr (), w') \<and>
     u \<in> set (users (db w)) \<and> (\<forall>t. t \<notin> set (refreshTokens (db w')) \<or> \<not> live (userId u) t)"
proof -
  let ?u = "(user0 2 ''c@x'' [CANDIDATE])\<lparr>passwordResetToken := Some ''tok'',
    passwordResetExpires := Some 2000000000\<rparr>"
  let ?w = "world_session\<lparr>db := (db world_session)\<lparr>users := [?u]\<rparr>\<rparr>"
  have "fst (resetPassword env_auth crypto0 ''tok'' ''new'' ?w) = Inr ()" by code_simp
  then obtain w' where run: "resetPassword env_auth crypto0 ''tok'' ''new'' ?w = (Inr (), w')"
    by (metis prod.collapse)
  from reset_password_effect [OF crypto0_ok run] obtain u where
    "u \<in> set (users (db ?w))" "\<forall>t \<in> set (refreshTokens (db w')). \<not> live (userId u) t" by auto
  with run show ?thesis by blast
qed

section \<open>The second factor\<close>






text \<open>C16: enrolment works for its owner: after a setup, a code that an authenticator application
  makes from the returned secret, with a clock at most 30 seconds off, turns the second factor on;
  ten backup codes of ten characters are returned, and each verifies against the hash stored for
  it.\<close>

theorem mfa_enrolment:
  assumes "crypto_ok cr" "beginSetup env cr i w = (Inr secret, w1)"
    "generateTotp (hmacSha1 cr) secret DEFAULT_DIGITS DEFAULT_STEP_SECONDS t = Some code"
    "\<bar>t - now env'\<bar> \<le> 30000" "cfgString env' = cfgString env"
    "1 \<le> step_counter (now env') 30" "step_counter (now env') 30 + 1 < 2 ^ 64"
    "\<not> auditFails env' \<lparr>actorId = Some i, auAction = USER_ROLES_CHANGED, entityType = ''user'', entityId = i\<rparr>"
  shows "\<exists>codes hashes u w2. enableMfa env' cr i code w1 = (Inr codes, w2) \<and>
    length codes = 10 \<and> list_all (\<lambda>c. length c = 10) codes \<and>
    List.find (\<lambda>u. userId u = i) (users (db w2)) = Some u \<and> mfaEnabled u \<and>
    mfaBackupCodes u = Some hashes \<and> list_all2 (verifies cr) codes hashes"
proof -
  from assms(2) obtain key u where key: "encryptionKey env cr w = (Inr key, w)"
    and u: "List.find (\<lambda>u. userId u = i) (users (db w)) = Some u" "\<not> mfaEnabled u"
    and sec: "secret = base32Encode (randomBytes cr 20 (nextId w))"
    and w1: "w1 = w\<lparr>nextId := Suc (Suc (nextId w)), db := (db w)\<lparr>users := update_where (\<lambda>u. userId u = i)
      (\<lambda>x. x\<lparr>mfaSecret := Some (encryptSecret cr (Suc (nextId w)) secret key)\<rparr>) (users (db w))\<rparr>\<rparr>"
    using encryptionKey_world
    by (fastforce simp: beginSetup_def getUser_def generateBase32Secret_def returns)
  let ?u1 = "u\<lparr>mfaSecret := Some (encryptSecret cr (Suc (nextId w)) secret key)\<rparr>"
  have u1: "List.find (\<lambda>u. userId u = i) (users (db w1)) = Some ?u1"
    using u(1) by (simp add: w1 find_update_where)
  have key1: "encryptionKey env' cr w1 = (Inr key, w1)"
    using key by (auto simp: encryptionKey_def getOrThrow_def someOr_def assms(5) split: option.splits if_splits)
  have "verifyTotp (hmacSha1 cr) secret code DEFAULT_DIGITS DEFAULT_STEP_SECONDS (now env') 1 = Some True"
    using assms(3,4,6,7) totp_accepts_generated [of secret "randomBytes cr 20 (nextId w)" 6 30 "now env'" 1
        "hmacSha1 cr" t code] sec base32_inverse
    by (simp add: DEFAULT_DIGITS_def DEFAULT_STEP_SECONDS_def)
  then have check: "totpCheck env' cr key (encryptSecret cr (Suc (nextId w)) secret key) code w1 = (Inr True, w1)"
    by (simp add: totpCheck_def decrypt_encrypt [OF assms(1)])
  define n where "n = nextId w1"
  define codes where "codes = map (\<lambda>i. toHex (randomBytes cr BACKUP_CODE_BYTES i)) [n..<n + 10]"
  define hashes where "hashes = map2 (argonHash cr) [n + 10..<20 + n] codes"
  have lc: "length codes = 10" by (simp add: codes_def)
  have mint: "generateBackupCodes cr w1 = (Inr (codes, hashes), w1\<lparr>nextId := 20 + n\<rparr>)"
    using lc by (simp add: generateBackupCodes_def mapE_fresh mapE_hash BACKUP_CODE_COUNT_def
        hashes_def codes_def [symmetric] n_def [symmetric] del: upt_Suc)
  let ?u2 = "?u1\<lparr>mfaEnabled := True, mfaBackupCodes := Some hashes\<rparr>"
  let ?w2 = "w1\<lparr>nextId := 20 + n, db := (db w1)\<lparr>users := update_where (\<lambda>u. userId u = i)
      (\<lambda>x. x\<lparr>mfaEnabled := True, mfaBackupCodes := Some hashes\<rparr>) (users (db w1))\<rparr>\<rparr>"
  have "enableMfa env' cr i code w1 = (Inr codes, ?w2\<lparr>audit := audit ?w2 @ [\<lparr>actorId = Some i,
      auAction = USER_ROLES_CHANGED, entityType = ''user'', entityId = i\<rparr>]\<rparr>)"
    using key1 u1 u(2) check mint assms(8) encryptSecret_nonempty [OF assms(1)]
    by (simp add: enableMfa_def getUser_def auditLog_def)
  moreover have "List.find (\<lambda>u. userId u = i) (users (db ?w2)) = Some ?u2"
    using u1 by (simp add: find_update_where)
  moreover have "list_all (\<lambda>c. length c = 10) codes"
    using assms(1) by (auto simp: codes_def list_all_iff crypto_ok_def BACKUP_CODE_BYTES_def)
  moreover have "list_all2 (verifies cr) codes hashes"
    using assms(1) lc by (auto simp: hashes_def list_all2_conv_all_nth verifies_def crypto_ok_def)
  ultimately show ?thesis using lc by (intro exI conjI) auto
qed

lemma beginSetup_secret:
  "beginSetup env cr i w = (Inr secret, w1) \<Longrightarrow> \<exists>bs. secret = base32Encode bs"
  by (fastforce simp: beginSetup_def generateBase32Secret_def returns)

lemma mfa_enrolment_witness:
  "\<exists>secret code codes w1 w2. beginSetup env_auth crypto0 2 world0 = (Inr secret, w1) \<and>
     enableMfa env_auth crypto0 2 code w1 = (Inr codes, w2) \<and> length codes = 10"
proof -
  have "case fst (beginSetup env_auth crypto0 2 world0) of Inl e \<Rightarrow> False | Inr s \<Rightarrow> True" by code_simp
  then obtain secret w1 where began: "beginSetup env_auth crypto0 2 world0 = (Inr secret, w1)"
    by (cases "beginSetup env_auth crypto0 2 world0") (auto split: sum.splits)
  obtain bs where "secret = base32Encode bs" using beginSetup_secret [OF began] by blast
  then have key: "base32Decode secret = Some bs" by (simp add: base32_inverse)
  have n: "now env_auth = 1000000000" by (simp add: env_auth_def env0_def)
  have "hotp (hmacSha1 crypto0) bs (step_counter 1000000000 30) 6 \<noteq> None"
    by (rule hotp_defined [THEN iffD2]) (simp add: step_counter_def)
  then obtain code where code: "generateTotp (hmacSha1 crypto0) secret DEFAULT_DIGITS DEFAULT_STEP_SECONDS
      1000000000 = Some code"
    using key by (auto simp: generateTotp_def DEFAULT_DIGITS_def DEFAULT_STEP_SECONDS_def)
  have "\<not> auditFails env_auth \<lparr>actorId = Some 2, auAction = USER_ROLES_CHANGED, entityType = ''user'', entityId = 2\<rparr>"
    by (simp add: env_auth_def env0_def)
  from mfa_enrolment [OF crypto0_ok began code _ _ _ _ this] n began show ?thesis
    by (simp add: step_counter_def) blast
qed

text \<open>C15: a backup code is good for one login. When a code that is not a six-digit one passes, one
  stored hash that it verifies is gone from the account and the others stay in their order; presented
  again it fails, unless it also verifies one of the remaining hashes.\<close>

theorem backup_code_single_use:
  assumes "verifyForLogin env cr u code w = (Inr True, w')"
    "List.find (\<lambda>x. userId x = userId u) (users (db w)) = Some u"
    "length (filter (\<lambda>c. \<not> is_space c) code) \<noteq> 6"
  shows "\<exists>xs h ys u'. mfaBackupCodes u = Some (xs @ h # ys) \<and>
    verifies cr (filter (\<lambda>c. \<not> is_space c) code) h \<and>
    List.find (\<lambda>x. userId x = userId u) (users (db w')) = Some u' \<and>
    u' = u\<lparr>mfaBackupCodes := Some (xs @ ys)\<rparr> \<and>
    (\<forall>w2. (\<forall>y \<in> set ys. argonVerify cr y (filter (\<lambda>c. \<not> is_space c) code) = Some False) \<longrightarrow>
       verifyForLogin env' cr u' code w2 = (Inr False, w2))"
  using assms(1)
proof (cases rule: verifyForLogin_True)
  case (totp key)
  with assms(3) show ?thesis by simp
next
  case (backup xs h ys)
  let ?code = "filter (\<lambda>c. \<not> is_space c) code"
  let ?u = "u\<lparr>mfaBackupCodes := Some (xs @ ys)\<rparr>"
  have "List.find (\<lambda>x. userId x = userId u) (users (db w')) = Some ?u"
    using assms(2) by (simp add: backup(5) find_update_where)
  moreover have "verifyForLogin env' cr ?u code w2 = (Inr False, w2)"
    if "\<forall>y \<in> set ys. argonVerify cr y ?code = Some False" for w2
  proof -
    have "matchBackup cr ?code 0 (xs @ ys) w2 = (Inr None, w2)"
      using backup(4) that by (intro matchBackup_all_false) auto
    then show ?thesis
      using assms(3) by (simp add: verifyForLogin_def verifyCode_def Let_def)
  qed
  ultimately show ?thesis using backup(1,3) by blast
qed

lemma verifyForLogin_spaces:
  "filter (\<lambda>c. \<not> is_space c) code = filter (\<lambda>c. \<not> is_space c) code' \<Longrightarrow>
     verifyForLogin env cr u code = verifyForLogin env cr u code'"
  by (simp only: verifyForLogin_def verifyCode_def)

lemma backup_code_single_use_witness:
  "\<exists>w u w' u'. verifyForLogin env_auth crypto0 u ''abcde 12345'' w = (Inr True, w') \<and>
     mfaBackupCodes u' = Some [''zz''] \<and> verifyForLogin env_auth crypto0 u' ''abcde12345'' w' = (Inr False, w')"
proof -
  let ?u = "(user0 2 ''c@x'' [CANDIDATE])\<lparr>mfaEnabled := True, mfaSecret := Some ''s'',
    mfaBackupCodes := Some [''zz'', ''abcde12345'']\<rparr>"
  let ?w = "world0\<lparr>db := db0\<lparr>users := [?u]\<rparr>\<rparr>"
  have "fst (verifyForLogin env_auth crypto0 ?u ''abcde 12345'' ?w) = Inr True" by code_simp
  then obtain w' where run: "verifyForLogin env_auth crypto0 ?u ''abcde 12345'' ?w = (Inr True, w')"
    by (metis prod.collapse)
  have code: "filter (\<lambda>c. \<not> is_space c) ''abcde 12345'' = ''abcde12345''"
    "filter (\<lambda>c. \<not> is_space c) ''abcde12345'' = ''abcde12345''" by (simp_all add: is_space_def)
  have len: "length (filter (\<lambda>c. \<not> is_space c) ''abcde 12345'') \<noteq> 6" unfolding code by simp
  have "List.find (\<lambda>x. userId x = userId ?u) (users (db ?w)) = Some ?u" by (simp add: user0_def)
  from backup_code_single_use [OF run this len, of env_auth, unfolded code(1)] obtain xs h ys u' where
    found: "mfaBackupCodes ?u = Some (xs @ h # ys)" and h: "verifies crypto0 ''abcde12345'' h" and
    u': "u' = ?u\<lparr>mfaBackupCodes := Some (xs @ ys)\<rparr>" and
    again: "\<forall>w2. (\<forall>y \<in> set ys. argonVerify crypto0 y ''abcde12345'' = Some False) \<longrightarrow>
      verifyForLogin env_auth crypto0 u' ''abcde 12345'' w2 = (Inr False, w2)"
    by metis
  have split: "[''zz'', ''abcde12345''] = xs @ h # ys" using found by simp
  have "h = ''abcde12345''" using h by (simp add: verifies_def crypto0_def)
  with split have xy: "xs = [''zz'']" "ys = []" by (auto simp: Cons_eq_append_conv)
  have same: "verifyForLogin env_auth crypto0 u' ''abcde12345'' w' =
      verifyForLogin env_auth crypto0 u' ''abcde 12345'' w'"
    by (rule fun_cong [OF verifyForLogin_spaces]) (simp only: code)
  have "verifyForLogin env_auth crypto0 u' ''abcde12345'' w' = (Inr False, w')"
    unfolding same using again xy(2) by simp
  moreover have "mfaBackupCodes u' = Some [''zz'']" using u' xy by simp
  ultimately show ?thesis using run by blast
qed

end
