(* ===== verification/Settings.thy ===== *)
theory Settings
  imports Repo "HOL-Library.List_Lexorder"
begin

text \<open>
  Platform settings, \<open>settings/settings.service.ts\<close>: a table of texts with a change history, read
  as text or as a number with a fallback to the configuration.

  \<open>Number(text)\<close> is read exactly: a numeral is the rational it denotes, not the nearest double.
\<close>

section \<open>Number(text)\<close>

text \<open>The sign and what follows it.\<close>

definition signed_split :: "string \<Rightarrow> bool \<times> string" where
  "signed_split s =
     (if s \<noteq> [] \<and> hd s = CHR ''-'' then (True, tl s)
      else if s \<noteq> [] \<and> hd s = CHR ''+'' then (False, tl s) else (False, s))"

definition exponent :: "string \<Rightarrow> int option" where
  "exponent s =
     (if s = [] then Some 0
      else if hd s \<in> {CHR ''e'', CHR ''E''}
      then (case signed_split (tl s) of (neg, ds) \<Rightarrow>
              if ds \<noteq> [] \<and> list_all is_digit ds
              then Some (if neg then - int (undec ds) else int (undec ds)) else None)
      else None)"

definition decimalLiteral :: "string \<Rightarrow> rat option" where
  "decimalLiteral s =
     (let ip = takeWhile is_digit s;
          r = dropWhile is_digit s;
          (fp, e) = (if r \<noteq> [] \<and> hd r = CHR ''.''
                     then (takeWhile is_digit (tl r), dropWhile is_digit (tl r)) else ([], r))
      in if ip = [] \<and> fp = [] then None
         else map_option (\<lambda>k. of_nat (undec (ip @ fp)) * 10 powi (k - int (length fp))) (exponent e))"

definition radixDigit :: "char \<Rightarrow> nat" where
  "radixDigit c =
     (let n = of_char c in
      if 48 \<le> n \<and> n \<le> 57 then n - 48
      else if 97 \<le> n \<and> n \<le> 102 then n - 87
      else if 65 \<le> n \<and> n \<le> 70 then n - 55 else 16)"

definition radixLiteral :: "nat \<Rightarrow> string \<Rightarrow> js_number" where
  "radixLiteral b s =
     (if s \<noteq> [] \<and> list_all (\<lambda>c. radixDigit c < b) s
      then Finite (of_nat (foldl (\<lambda>acc c. b * acc + radixDigit c) 0 s)) else NaN)"

definition trimSpaces :: "string \<Rightarrow> string" where
  "trimSpaces s = rev (dropWhile is_space (rev (dropWhile is_space s)))"

definition jsNumber :: "string \<Rightarrow> js_number" where
  "jsNumber text =
     (let s = trimSpaces text in
      if s = [] then Finite 0
      else if take 2 s \<in> {''0x'', ''0X''} then radixLiteral 16 (drop 2 s)
      else if take 2 s \<in> {''0o'', ''0O''} then radixLiteral 8 (drop 2 s)
      else if take 2 s \<in> {''0b'', ''0B''} then radixLiteral 2 (drop 2 s)
      else case signed_split s of (neg, t) \<Rightarrow>
        if t = ''Infinity'' then Infinite neg
        else (case decimalLiteral t of
          None \<Rightarrow> NaN
        | Some q \<Rightarrow> Finite (if neg then - q else q)))"

section \<open>The service\<close>

definition setting_violated :: "setting list \<Rightarrow> constraint_name option" where
  "setting_violated t = (if index_ok (\<lambda>r. Some (setKey r)) t then None else Some UQ_settings_key)"

definition saveSetting :: "setting \<Rightarrow> setting service" where
  "saveSetting = save_into settings settings_update setId setting_violated"

definition saveSettingHistory :: "setting_history \<Rightarrow> setting_history service" where
  "saveSettingHistory = save_into settingHistory settingHistory_update shId unconstrained"

definition settingOf :: "db \<Rightarrow> string \<Rightarrow> setting option" where
  "settingOf d key = List.find (\<lambda>s. setKey s = key) (settings d)"

definition getSetting :: "env \<Rightarrow> string \<Rightarrow> string option \<Rightarrow> string option service" where
  "getSetting env key fallbackEnvKey =
     gets (\<lambda>w. case settingOf (db w) key of
        Some s \<Rightarrow> Some (setValue s)
      | None \<Rightarrow> Option.bind fallbackEnvKey (cfgString env))"

definition getNumber :: "env \<Rightarrow> string \<Rightarrow> string option \<Rightarrow> js_number option service" where
  "getNumber env key fallbackEnvKey =
     bindE (getSetting env key fallbackEnvKey) (\<lambda>value.
     ret (case value of
            None \<Rightarrow> None
          | Some s \<Rightarrow> (case jsNumber s of NaN \<Rightarrow> None | n \<Rightarrow> Some n)))"

definition setSetting ::
  "env \<Rightarrow> string \<Rightarrow> string \<Rightarrow> string option \<Rightarrow> string \<Rightarrow> uuid option \<Rightarrow> setting service" where
  "setSetting env key value description valueType changedById =
     bindE (gets (\<lambda>w. settingOf (db w) key)) (\<lambda>found.
     bindE (case found of
              Some s \<Rightarrow> ret (s\<lparr>setValue := value, setValueType := valueType,
                setDescription := (case description of None \<Rightarrow> setDescription s | Some d \<Rightarrow> Some d)\<rparr>)
            | None \<Rightarrow> bindE freshId (\<lambda>i.
                ret \<lparr>setId = i, setKey = key, setValue = value, setDescription = description,
                  setValueType = valueType\<rparr>)) (\<lambda>s.
     bindE (saveSetting s) (\<lambda>saved.
     bindE (bestEffort (bindE freshId (\<lambda>i.
       bindE (saveSettingHistory \<lparr>shId = i, shKey = setKey saved, shValue = setValue saved,
         shDescription = setDescription saved, shValueType = setValueType saved,
         shChangedById = changedById, shCreatedAt = now env\<rparr>) (\<lambda>_. ret ())))) (\<lambda>_.
     ret saved))))"

text \<open>\<open>sort_key\<close> is stable; the keys are distinct.\<close>

definition char_codes :: "string \<Rightarrow> nat list" where
  "char_codes = map of_char"

definition getAllSettings :: "setting list service" where
  "getAllSettings = gets (\<lambda>w. sort_key (\<lambda>s. char_codes (setKey s)) (settings (db w)))"

definition settingChanges :: "string \<Rightarrow> nat \<Rightarrow> setting_history list service" where
  "settingChanges key limit = gets (\<lambda>w. take limit (rev (sort_key shCreatedAt
     (filter (\<lambda>h. shKey h = key) (settingHistory (db w))))))"

end
