(* ===== verification/Team.thy ===== *)
theory Team
  imports Settings Crypto Quota
begin

text \<open>
  A company and its recruiters: \<open>companies/company.service.ts\<close>, \<open>companies/recruiter.service.ts\<close>,
  \<open>companies/recruiter-invitation.service.ts\<close>, \<open>companies/recruiter-admin.service.ts\<close>. None of
  these services opens a transaction. A fractional setting is rounded towards zero, as the date
  setter does; a value the integer column does not take is a database error.
\<close>

definition findRecruiterOf :: "uuid \<Rightarrow> recruiter option service" where
  "findRecruiterOf i = gets (\<lambda>w. recruiterOf (db w) i)"

definition countRecruiters :: "uuid \<Rightarrow> int service" where
  "countRecruiters c = gets (\<lambda>w. count_where (\<lambda>r. recCompanyId r = c) (recruiters (db w)))"

definition new_recruiter :: "env \<Rightarrow> uuid \<Rightarrow> uuid \<Rightarrow> uuid \<Rightarrow> string option \<Rightarrow> recruiter" where
  "new_recruiter env i u c position =
     \<lparr>recId = i, recUserId = u, recCompanyId = c, recPosition = position, recCreatedAt = now env\<rparr>"

definition recruiterEvent :: "uuid \<Rightarrow> audit_action \<Rightarrow> uuid \<Rightarrow> audit_entry" where
  "recruiterEvent who action i =
     \<lparr>actorId = Some who, auAction = action, entityType = ''recruiter'', entityId = i\<rparr>"

section \<open>Companies\<close>

definition DEFAULT_TRIAL_DURATION_DAYS :: rat where
  "DEFAULT_TRIAL_DURATION_DAYS = 14"

definition DEFAULT_STARTER_CONTACT_QUOTA :: rat where
  "DEFAULT_STARTER_CONTACT_QUOTA = 15"

definition towardsZero :: "rat \<Rightarrow> int" where
  "towardsZero q = (if 0 \<le> q then \<lfloor>q\<rfloor> else \<lceil>q\<rceil>)"

definition trialEnd :: "env \<Rightarrow> js_number \<Rightarrow> date service" where
  "trialEnd env n = (case n of
     Finite q \<Rightarrow> ret (addDays env (now env) (towardsZero q))
   | _ \<Rightarrow> throw (InternalServerErrorException ''invalid-date''))"

definition integerColumn :: "js_number \<Rightarrow> int service" where
  "integerColumn n = (case n of
     Finite q \<Rightarrow> if of_int \<lfloor>q\<rfloor> = q then ret \<lfloor>q\<rfloor> else throw (InternalServerErrorException ''integer'')
   | _ \<Rightarrow> throw (InternalServerErrorException ''integer''))"

definition new_company :: "uuid \<Rightarrow> string \<Rightarrow> string option \<Rightarrow> string option \<Rightarrow> company" where
  "new_company i name ic reg =
     \<lparr>coId = i, coName = name, registrationNumber = reg, ice = ic, coVerified = False,
      antiCheatEnabled = True, coLogo = None, coSector = None, coSize = None,
      coDescription = None, coStatus = C_PENDING_VERIFICATION\<rparr>"

definition orElse :: "'a option \<Rightarrow> 'a \<Rightarrow> 'a" where
  "orElse x d = (case x of None \<Rightarrow> d | Some y \<Rightarrow> y)"

text \<open>The trial a new company starts with.\<close>

definition startTrial :: "env \<Rightarrow> uuid \<Rightarrow> company \<Rightarrow> (company \<times> subscription) service" where
  "startTrial env who c =
     bindE (getNumber env ''trial_duration_days'' (Some ''TRIAL_DURATION_DAYS'')) (\<lambda>trialDays.
     bindE (getNumber env ''plan_starter_contacts'' (Some ''PLAN_STARTER_CONTACTS'')) (\<lambda>contacts.
     bindE (trialEnd env (orElse trialDays (Finite DEFAULT_TRIAL_DURATION_DAYS))) (\<lambda>ends.
     bindE (integerColumn (orElse contacts (Finite DEFAULT_STARTER_CONTACT_QUOTA))) (\<lambda>quota.
     bindE freshId (\<lambda>si.
     bindE (saveSubscription \<lparr>subId = si, subCompanyId = coId c, subPlan = STARTER, subStatus = TRIAL,
              externalSubscriptionId = None, startsAt = now env, endsAt = Some ends,
              contactQuota = quota, contactsUsed = 0, quotaResetAt = None, pastDueSince = None,
              cancelAtPeriodEnd = False, subCreatedAt = now env\<rparr>) (\<lambda>s.
     bindE (auditLog env \<lparr>actorId = Some who, auAction = COMPANY_CREATED, entityType = ''company'',
              entityId = coId c\<rparr>) (\<lambda>_.
     ret (c, s))))))))"

text \<open>The writes of \<open>createCompany\<close>, once its checks have passed.\<close>

definition foundCompany ::
  "env \<Rightarrow> user \<Rightarrow> string \<Rightarrow> string \<Rightarrow> string option \<Rightarrow> (company \<times> subscription) service" where
  "foundCompany env u name ic reg =
     bindE freshId (\<lambda>ci.
     bindE (saveCompany (new_company ci name (Some ic) reg)) (\<lambda>c.
     bindE freshId (\<lambda>ri.
     bindE (saveRecruiter (new_recruiter env ri (userId u) (coId c) None)) (\<lambda>_.
     bindE (if COMPANY_ADMIN \<notin> set (roles u)
            then updateUser (userId u) (\<lambda>x. x\<lparr>roles := roles u @ [COMPANY_ADMIN]\<rparr>) else ret ()) (\<lambda>_.
     startTrial env (userId u) c)))))"

definition createCompany ::
  "env \<Rightarrow> uuid \<Rightarrow> string \<Rightarrow> string \<Rightarrow> string option \<Rightarrow> (company \<times> subscription) service" where
  "createCompany env who name ic reg =
     bindE (findUser (\<lambda>u. userId u = who)) (\<lambda>found.
     bindE (someOr (NotFoundException ''user'') found) (\<lambda>u.
     bindE (require (emailVerified u) (ForbiddenException ''unverified'')) (\<lambda>_.
     bindE (findRecruiterOf who) (\<lambda>existing.
     bindE (require (existing = None) (ConflictException ''attached'')) (\<lambda>_.
     bindE (gets (\<lambda>w. List.find (\<lambda>c. ice c = Some ic) (companies (db w)))) (\<lambda>same.
     bindE (require (same = None) (ConflictException ''ice'')) (\<lambda>_.
     foundCompany env u name ic reg)))))))"

definition getMyCompany :: "uuid \<Rightarrow> (company \<times> subscription option) service" where
  "getMyCompany who =
     bindE (findRecruiterOf who) (\<lambda>found.
     bindE (someOr (NotFoundException ''no-company'') found) (\<lambda>r.
     bindE (gets (\<lambda>w. List.find (\<lambda>c. coId c = recCompanyId r) (companies (db w)))) (\<lambda>joined.
     bindE (someOr (InternalServerErrorException ''company'') joined) (\<lambda>c.
     bindE (gets (\<lambda>w. latest_subscription (db w) (recCompanyId r))) (\<lambda>s.
     ret (c, s))))))"

record partner_company =
  partnerId :: uuid
  partnerName :: string
  partnerLogo :: "string option"
  partnerSector :: "string option"

definition listPartners :: "partner_company list service" where
  "listPartners = gets (\<lambda>w. map (\<lambda>c. \<lparr>partnerId = coId c, partnerName = coName c,
       partnerLogo = coLogo c, partnerSector = coSector c\<rparr>)
     (sort_key (\<lambda>c. char_codes (coName c))
       (filter (\<lambda>c. coStatus c = C_ACTIVE \<and> coVerified c \<and> coLogo c \<noteq> None) (companies (db w)))))"

section \<open>Recruiters\<close>

text \<open>The writes of \<open>addRecruiter\<close>, once its checks have passed.\<close>

definition hireUser :: "env \<Rightarrow> uuid \<Rightarrow> uuid \<Rightarrow> user \<Rightarrow> string option \<Rightarrow> recruiter service" where
  "hireUser env who c u position =
     bindE freshId (\<lambda>i.
     bindE (saveRecruiter (new_recruiter env i (userId u) c position)) (\<lambda>r.
     bindE (if RECRUITER \<notin> set (roles u)
            then updateUser (userId u) (\<lambda>x. x\<lparr>roles := roles u @ [RECRUITER]\<rparr>) else ret ()) (\<lambda>_.
     bindE (auditLog env (recruiterEvent who RECRUITER_ADDED (recId r))) (\<lambda>_.
     ret r))))"

definition addRecruiter :: "env \<Rightarrow> uuid \<Rightarrow> string \<Rightarrow> string option \<Rightarrow> recruiter service" where
  "addRecruiter env who e position =
     bindE (resolveCompanyId who) (\<lambda>c.
     bindE (getSeatLimit env c) (\<lambda>limit.
     bindE (countRecruiters c) (\<lambda>seats.
     bindE (require (\<not> limit \<le> seats) (ForbiddenException ''seat-limit'')) (\<lambda>_.
     bindE (findUser (\<lambda>u. email u = toLowerCase e)) (\<lambda>found.
     bindE (someOr (NotFoundException ''user'') found) (\<lambda>u.
     bindE (require (emailVerified u) (ForbiddenException ''unverified'')) (\<lambda>_.
     bindE (findRecruiterOf (userId u)) (\<lambda>existing.
     bindE (require (existing = None) (ConflictException ''attached'')) (\<lambda>_.
     hireUser env who c u position)))))))))"

record recruiter_summary =
  rsId :: uuid
  rsUserId :: uuid
  rsEmail :: string
  rsPosition :: "string option"
  rsCreatedAt :: date

definition toSummary :: "db \<Rightarrow> recruiter \<Rightarrow> recruiter_summary option" where
  "toSummary d r = map_option (\<lambda>u. \<lparr>rsId = recId r, rsUserId = recUserId r, rsEmail = email u,
     rsPosition = recPosition r, rsCreatedAt = recCreatedAt r\<rparr>)
     (List.find (\<lambda>u. userId u = recUserId r) (users d))"

definition listRecruiters :: "uuid \<Rightarrow> recruiter_summary list service" where
  "listRecruiters who =
     bindE (resolveCompanyId who) (\<lambda>c.
     bindE (gets (\<lambda>w. map (toSummary (db w))
              (sort_key recCreatedAt (filter (\<lambda>r. recCompanyId r = c) (recruiters (db w)))))) (\<lambda>rows.
     mapE (someOr (InternalServerErrorException ''user'')) rows))"

text \<open>The writes of \<open>removeRecruiter\<close>, once its checks have passed.\<close>

definition dismiss :: "env \<Rightarrow> uuid \<Rightarrow> recruiter \<Rightarrow> unit service" where
  "dismiss env who r =
     bindE (modify (\<lambda>w. w\<lparr>db := (db w)\<lparr>recruiters :=
              delete_where (\<lambda>x. recId x = recId r) (recruiters (db w))\<rparr>\<rparr>)) (\<lambda>_.
     bindE (findUser (\<lambda>u. userId u = recUserId r)) (\<lambda>target.
     bindE (case target of
              None \<Rightarrow> ret ()
            | Some u \<Rightarrow> updateUser (userId u) (\<lambda>x. x\<lparr>roles :=
                filter (\<lambda>ro. ro \<noteq> RECRUITER \<and> ro \<noteq> COMPANY_ADMIN) (roles u)\<rparr>)) (\<lambda>_.
     auditLog env (recruiterEvent who RECRUITER_REMOVED (recId r)))))"

definition removeRecruiter :: "env \<Rightarrow> uuid \<Rightarrow> uuid \<Rightarrow> unit service" where
  "removeRecruiter env who i =
     bindE (resolveCompanyId who) (\<lambda>c.
     bindE (gets (\<lambda>w. List.find (\<lambda>r. recId r = i \<and> recCompanyId r = c) (recruiters (db w)))) (\<lambda>found.
     bindE (someOr (NotFoundException ''recruiter'') found) (\<lambda>r.
     bindE (require (recUserId r \<noteq> who) (ConflictException ''yourself'')) (\<lambda>_.
     dismiss env who r))))"

section \<open>Invitations\<close>

definition INVITE_TTL_DAYS :: int where
  "INVITE_TTL_DAYS = 7"

definition pending :: "env \<Rightarrow> invitation \<Rightarrow> bool" where
  "pending env v \<longleftrightarrow> invStatus v = INV_PENDING \<and> now env < invExpiresAt v"

definition usedSeats :: "env \<Rightarrow> uuid \<Rightarrow> int service" where
  "usedSeats env c =
     bindE (countRecruiters c) (\<lambda>taken.
     bindE (gets (\<lambda>w. count_where (\<lambda>v. invCompanyId v = c \<and> pending env v) (invitations (db w)))) (\<lambda>open_invitations.
     ret (taken + open_invitations)))"

definition attach :: "env \<Rightarrow> uuid \<Rightarrow> uuid \<Rightarrow> string option \<Rightarrow> uuid \<Rightarrow> unit service" where
  "attach env u c position who =
     bindE freshId (\<lambda>i.
     bindE (saveRecruiter (new_recruiter env i u c position)) (\<lambda>r.
     bindE (findUser (\<lambda>x. userId x = u)) (\<lambda>found.
     bindE (case found of
              None \<Rightarrow> ret ()
            | Some x \<Rightarrow> if RECRUITER \<notin> set (roles x)
                then updateUser u (\<lambda>y. y\<lparr>roles := roles x @ [RECRUITER]\<rparr>) else ret ()) (\<lambda>_.
     auditLog env (recruiterEvent who RECRUITER_ADDED (recId r))))))"

datatype invite_result = Attached | Invited

definition sendInvitation :: "env \<Rightarrow> crypto \<Rightarrow> uuid \<Rightarrow> uuid \<Rightarrow> string \<Rightarrow> string option \<Rightarrow> invite_result service" where
  "sendInvitation env cr who c e position =
     bindE (modify (\<lambda>w. w\<lparr>db := (db w)\<lparr>invitations :=
        update_where (\<lambda>v. invCompanyId v = c \<and> invEmail v = e \<and> invStatus v = INV_PENDING)
          (\<lambda>v. v\<lparr>invStatus := INV_REVOKED\<rparr>) (invitations (db w))\<rparr>\<rparr>)) (\<lambda>_.
     bindE freshId (\<lambda>draw.
     bindE (ret (toHex (randomBytes cr 32 draw))) (\<lambda>raw.
     bindE freshId (\<lambda>i.
     bindE (saveInvitation \<lparr>invId = i, invCompanyId = c, invEmail = e, invTokenHash = sha256Hex cr raw,
              invPosition = position, invStatus = INV_PENDING, invitedById = who,
              invExpiresAt = now env + INVITE_TTL_DAYS * 24 * 60 * 60 * 1000, invAcceptedAt = None,
              invCreatedAt = now env\<rparr>) (\<lambda>v.
     bindE (bestEffort (sendMail env \<lparr>mailTo = e, templateId = ''recruiter-invitation'',
              mailToken = Some raw\<rparr>)) (\<lambda>_.
     bindE (auditLog env \<lparr>actorId = Some who, auAction = RECRUITER_INVITED,
              entityType = ''recruiter_invitation'', entityId = invId v\<rparr>) (\<lambda>_.
     ret Invited)))))))"

definition invite :: "env \<Rightarrow> crypto \<Rightarrow> uuid \<Rightarrow> string \<Rightarrow> string option \<Rightarrow> invite_result service" where
  "invite env cr who rawEmail position =
     bindE (resolveCompanyId who) (\<lambda>c.
     bindE (ret (toLowerCase (trimSpaces rawEmail))) (\<lambda>e.
     bindE (getSeatLimit env c) (\<lambda>limit.
     bindE (usedSeats env c) (\<lambda>used.
     bindE (require (\<not> limit \<le> used) (ForbiddenException ''seat-limit'')) (\<lambda>_.
     bindE (findUser (\<lambda>u. email u = e)) (\<lambda>target.
     case target of
       None \<Rightarrow> sendInvitation env cr who c e position
     | Some u \<Rightarrow>
         bindE (findRecruiterOf (userId u)) (\<lambda>existing.
         bindE (require (existing = None) (ConflictException ''attached'')) (\<lambda>_.
         if emailVerified u
         then bindE (attach env (userId u) c position who) (\<lambda>_. ret Attached)
         else sendInvitation env cr who c e position))))))))"

record invitation_summary =
  isId :: uuid
  isEmail :: string
  isPosition :: "string option"
  isCreatedAt :: date
  isExpiresAt :: date

definition listPending :: "env \<Rightarrow> uuid \<Rightarrow> invitation_summary list service" where
  "listPending env who =
     bindE (resolveCompanyId who) (\<lambda>c.
     gets (\<lambda>w. map (\<lambda>v. \<lparr>isId = invId v, isEmail = invEmail v, isPosition = invPosition v,
                isCreatedAt = invCreatedAt v, isExpiresAt = invExpiresAt v\<rparr>)
       (rev (sort_key invCreatedAt (filter (\<lambda>v. invCompanyId v = c \<and> pending env v) (invitations (db w)))))))"

definition revokeInvitation :: "uuid \<Rightarrow> uuid \<Rightarrow> unit service" where
  "revokeInvitation who i =
     bindE (resolveCompanyId who) (\<lambda>c.
     bindE (gets (\<lambda>w. List.find (\<lambda>v. invId v = i \<and> invCompanyId v = c) (invitations (db w)))) (\<lambda>found.
     bindE (someOr (BadRequestException ''invitation'') found) (\<lambda>v.
     bindE (saveInvitation (v\<lparr>invStatus := INV_REVOKED\<rparr>)) (\<lambda>_. ret ()))))"

definition findPendingByToken :: "env \<Rightarrow> crypto \<Rightarrow> string \<Rightarrow> invitation option service" where
  "findPendingByToken env cr raw =
     (if raw = [] then ret None
      else gets (\<lambda>w. List.find (\<lambda>v. invTokenHash v = sha256Hex cr raw \<and> pending env v)
             (invitations (db w))))"

definition getByToken :: "env \<Rightarrow> crypto \<Rightarrow> string \<Rightarrow> string \<Rightarrow> (string \<times> string \<times> string option) option service" where
  "getByToken env cr appName raw =
     bindE (findPendingByToken env cr raw) (\<lambda>found.
     case found of
       None \<Rightarrow> ret None
     | Some v \<Rightarrow>
         bindE (gets (\<lambda>w. List.find (\<lambda>c. coId c = invCompanyId v) (companies (db w)))) (\<lambda>company.
         ret (Some (invEmail v, (case company of None \<Rightarrow> appName | Some c \<Rightarrow> coName c), invPosition v))))"

text \<open>The account of the invitee: an existing one, verified on the way, or a new one.\<close>

definition invited_user :: "env \<Rightarrow> string \<Rightarrow> string \<Rightarrow> uuid \<Rightarrow> user" where
  "invited_user env e hash i =
     \<lparr>userId = i, email = e, passwordHash = hash, roles = [RECRUITER], userStatus = U_ACTIVE,
      emailVerified = True, emailVerificationToken = None, emailVerificationExpires = None,
      passwordResetToken = None, passwordResetExpires = None, mfaEnabled = False,
      mfaSecret = None, mfaBackupCodes = None, consentAt = Some (now env)\<rparr>"

definition invitedAccount :: "env \<Rightarrow> crypto \<Rightarrow> invitation \<Rightarrow> string \<Rightarrow> uuid service" where
  "invitedAccount env cr v password =
     bindE (findUser (\<lambda>u. email u = invEmail v)) (\<lambda>found.
     case found of
       Some u \<Rightarrow>
         bindE (findRecruiterOf (userId u)) (\<lambda>existing.
         bindE (require (existing = None) (ConflictException ''attached'')) (\<lambda>_.
         bindE (if \<not> emailVerified u
                then updateUser (userId u) (\<lambda>x. x\<lparr>emailVerified := True, userStatus := U_ACTIVE\<rparr>)
                else ret ()) (\<lambda>_.
         ret (userId u))))
     | None \<Rightarrow>
         bindE (hashPassword cr password) (\<lambda>hash.
         bindE freshId (\<lambda>i.
         bindE (saveUser (invited_user env (invEmail v) hash i)) (\<lambda>u. ret (userId u)))))"

text \<open>The writes of \<open>accept\<close>, once its checks have passed.\<close>

definition enrol :: "env \<Rightarrow> crypto \<Rightarrow> invitation \<Rightarrow> string \<Rightarrow> unit service" where
  "enrol env cr v password =
     bindE (invitedAccount env cr v password) (\<lambda>u.
     bindE (attach env u (invCompanyId v) (invPosition v) (invitedById v)) (\<lambda>_.
     bindE (saveInvitation (v\<lparr>invStatus := INV_ACCEPTED, invAcceptedAt := Some (now env)\<rparr>)) (\<lambda>_.
     ret ())))"

definition acceptInvitation :: "env \<Rightarrow> crypto \<Rightarrow> string \<Rightarrow> string \<Rightarrow> unit service" where
  "acceptInvitation env cr raw password =
     bindE (findPendingByToken env cr raw) (\<lambda>found.
     bindE (someOr (BadRequestException ''invitation'') found) (\<lambda>v.
     bindE (getSeatLimit env (invCompanyId v)) (\<lambda>limit.
     bindE (countRecruiters (invCompanyId v)) (\<lambda>seats.
     bindE (require (\<not> limit \<le> seats) (ForbiddenException ''seat-limit'')) (\<lambda>_.
     enrol env cr v password)))))"

section \<open>Accounts opened by the staff\<close>

definition INVITE_TOKEN_TTL_MS :: int where
  "INVITE_TOKEN_TTL_MS = 7 * 24 * 60 * 60 * 1000"

definition resolveCompany :: "uuid option \<Rightarrow> string option \<Rightarrow> company service" where
  "resolveCompany companyId companyName =
     (case companyId of
        Some c \<Rightarrow> bindE (gets (\<lambda>w. List.find (\<lambda>x. coId x = c) (companies (db w))))
                   (someOr (NotFoundException ''company''))
      | None \<Rightarrow>
          let name = map_option trimSpaces companyName in
          if name = None \<or> name = Some [] then throw (BadRequestException ''company'')
          else bindE freshId (\<lambda>i. saveCompany (new_company i (the name) None None)))"

record created_recruiter =
  crRecruiterId :: uuid
  crUserId :: uuid
  crEmail :: string
  crCompanyId :: uuid
  crCompanyName :: string

text \<open>The account and its place in the company, after the company was found or created.\<close>

definition provision ::
  "env \<Rightarrow> crypto \<Rightarrow> uuid \<Rightarrow> string \<Rightarrow> company \<Rightarrow> string option \<Rightarrow> created_recruiter service" where
  "provision env cr staff e c position =
     bindE freshId (\<lambda>d1.
     bindE (hashPassword cr (toHex (randomBytes cr 24 d1))) (\<lambda>placeholder.
     bindE freshId (\<lambda>d2.
     bindE (ret (toHex (randomBytes cr 32 d2))) (\<lambda>raw.
     bindE freshId (\<lambda>ui.
     bindE (saveUser ((invited_user env e placeholder ui)\<lparr>passwordResetToken := Some (sha256Hex cr raw),
              passwordResetExpires := Some (now env + INVITE_TOKEN_TTL_MS)\<rparr>)) (\<lambda>u.
     bindE freshId (\<lambda>ri.
     bindE (saveRecruiter (new_recruiter env ri (userId u) (coId c)
              (case map_option trimSpaces position of Some [] \<Rightarrow> None | p \<Rightarrow> p))) (\<lambda>r.
     bindE (auditLog env (recruiterEvent staff RECRUITER_ADDED (recId r))) (\<lambda>_.
     bindE (bestEffort (sendMail env \<lparr>mailTo = e, templateId = ''recruiter-invite'',
              mailToken = Some raw\<rparr>)) (\<lambda>_.
     ret \<lparr>crRecruiterId = recId r, crUserId = userId u, crEmail = e, crCompanyId = coId c,
       crCompanyName = coName c\<rparr>))))))))))"

definition createRecruiter ::
  "env \<Rightarrow> crypto \<Rightarrow> uuid \<Rightarrow> string \<Rightarrow> uuid option \<Rightarrow> string option \<Rightarrow> string option \<Rightarrow> created_recruiter service" where
  "createRecruiter env cr staff rawEmail companyId companyName position =
     bindE (ret (trimSpaces (toLowerCase rawEmail))) (\<lambda>e.
     bindE (findUser (\<lambda>u. email u = e)) (\<lambda>existing.
     bindE (require (existing = None) (ConflictException ''email'')) (\<lambda>_.
     bindE (resolveCompany companyId companyName) (\<lambda>c.
     provision env cr staff e c position))))"

end
