(* ===== verification/Team_Facts.thy ===== *)
theory Team_Facts
  imports Team Frames
begin

text \<open>
  The invariant of a team and what the operations of \<open>Team\<close> do to it: every recruiter row belongs
  to an account of the table, to one only, and that account has a recruiting role.
\<close>

definition recruits :: "user \<Rightarrow> bool" where
  "recruits u \<longleftrightarrow> RECRUITER \<in> set (roles u) \<or> COMPANY_ADMIN \<in> set (roles u)"

definition team_wf :: "nat \<Rightarrow> user list \<Rightarrow> recruiter list \<Rightarrow> bool" where
  "team_wf n us rs \<longleftrightarrow>
     distinct (map userId us) \<and> (\<forall>u \<in> set us. userId u < n) \<and>
     distinct (map recId rs) \<and> (\<forall>r \<in> set rs. recId r < n) \<and>
     index_ok (\<lambda>r. Some (recUserId r)) rs \<and>
     (\<forall>r \<in> set rs. \<exists>u \<in> set us. userId u = recUserId r \<and> recruits u)"

definition team_ok :: "world \<Rightarrow> bool" where
  "team_ok w \<longleftrightarrow> team_wf (nextId w) (users (db w)) (recruiters (db w))"

definition seats :: "db \<Rightarrow> uuid \<Rightarrow> int" where
  "seats d c = count_where (\<lambda>r. recCompanyId r = c) (recruiters d)"

section \<open>Tables\<close>

definition set_roles :: "uuid \<Rightarrow> role list \<Rightarrow> user list \<Rightarrow> user list" where
  "set_roles i rs us = update_where (\<lambda>u. userId u = i) (\<lambda>u. u\<lparr>roles := rs\<rparr>) us"

lemma userId_set_roles [simp]: "map userId (set_roles i rs us) = map userId us"
  by (simp add: set_roles_def map_update_where)

lemma set_roles_members:
  "u \<in> set (set_roles i rs us) \<longleftrightarrow>
     (\<exists>x \<in> set us. u = (if userId x = i then x\<lparr>roles := rs\<rparr> else x))"
  by (auto simp: set_roles_def set_update_where)

lemma set_roles_here: "u \<in> set us \<Longrightarrow> u\<lparr>roles := rs\<rparr> \<in> set (set_roles (userId u) rs us)"
  by (auto simp: set_roles_members intro: bexI [of _ u])

lemma set_roles_there: "u \<in> set us \<Longrightarrow> userId u \<noteq> i \<Longrightarrow> u \<in> set (set_roles i rs us)"
  by (auto simp: set_roles_members intro: bexI [of _ u])

lemma team_wf_later: "team_wf n us rs \<Longrightarrow> n \<le> m \<Longrightarrow> team_wf m us rs"
  by (fastforce simp: team_wf_def)

lemma team_wf_users:
  assumes "team_wf n us rs" "map userId us' = map userId us"
    and "\<And>u. u \<in> set us \<Longrightarrow> recruits u \<Longrightarrow> \<exists>u' \<in> set us'. userId u' = userId u \<and> recruits u'"
  shows "team_wf n us' rs"
proof -
  have "userId ` set us' = userId ` set us" using assms(2) by (metis list.set_map)
  moreover have "\<exists>u \<in> set us'. userId u = recUserId r \<and> recruits u" if "r \<in> set rs" for r
    using that assms(1,3) unfolding team_wf_def by metis
  ultimately show ?thesis using assms(1,2) by (auto simp: team_wf_def) (metis imageE imageI)
qed

lemma team_wf_set_roles:
  assumes "team_wf n us rs" "RECRUITER \<in> set ros \<or> COMPANY_ADMIN \<in> set ros"
  shows "team_wf n (set_roles i ros us) rs"
proof (rule team_wf_users [OF assms(1)])
  fix u assume "u \<in> set us" "recruits u"
  then show "\<exists>u' \<in> set (set_roles i ros us). userId u' = userId u \<and> recruits u'"
    using assms(2) set_roles_here [of u us ros] set_roles_there [of u us i ros]
    by (cases "userId u = i") (fastforce simp: recruits_def)+
qed simp

lemma team_wf_new_user:
  assumes "team_wf n us rs" "n \<le> userId u" "userId u < m"
  shows "team_wf m (us @ [u]) rs"
  using assms unfolding team_wf_def by fastforce

lemma team_wf_hire:
  assumes wf: "team_wf n us rs" and u: "u \<in> set us" "recruits u" "recUserId r = userId u"
    and new: "userId u \<notin> recUserId ` set rs" "n \<le> recId r" "recId r < m"
  shows "team_wf m us (rs @ [r])"
proof -
  have "index_ok (\<lambda>r. Some (recUserId r)) (rs @ [r])"
    unfolding index_ok_snoc using wf u(3) new(1) by (simp add: team_wf_def)
  moreover have "\<forall>x \<in> set (rs @ [r]). \<exists>u \<in> set us. userId u = recUserId x \<and> recruits u"
    using wf u unfolding team_wf_def by auto
  moreover have "distinct (map recId (rs @ [r]))" using wf new(2) by (fastforce simp: team_wf_def)
  ultimately show ?thesis using wf new(2,3) unfolding team_wf_def by fastforce
qed

text \<open>Removing a recruiter and the roles of the account.\<close>

lemma team_wf_remove:
  assumes wf: "team_wf n us rs" and r: "r \<in> set rs"
  shows "team_wf n (set_roles (recUserId r) ros us) (delete_where (\<lambda>x. recId x = recId r) rs)"
proof -
  let ?rs = "delete_where (\<lambda>x. recId x = recId r) rs"
  have "\<exists>u \<in> set (set_roles (recUserId r) ros us). userId u = recUserId x \<and> recruits u"
    if x: "x \<in> set ?rs" for x
  proof -
    from x have x': "x \<in> set rs" "recId x \<noteq> recId r" by auto
    have "recUserId x \<noteq> recUserId r"
      using wf x' r unfolding team_wf_def by (metis index_ok_unique)
    moreover obtain u where "u \<in> set us" "userId u = recUserId x" "recruits u"
      using wf x'(1) by (auto simp: team_wf_def)
    ultimately show ?thesis using set_roles_there by metis
  qed
  moreover have "userId ` set (set_roles (recUserId r) ros us) = userId ` set us"
    by (metis list.set_map userId_set_roles)
  moreover have "distinct (map recId ?rs)" using wf by (simp add: team_wf_def delete_where_def distinct_map_filter)
  moreover have "index_ok (\<lambda>r. Some (recUserId r)) ?rs" using wf by (simp add: team_wf_def index_ok_delete)
  moreover have "\<forall>u \<in> set (set_roles (recUserId r) ros us). userId u < n"
  proof -
    have "userId ` set us \<subseteq> {..<n}" using wf by (auto simp: team_wf_def)
    then have "userId ` set (set_roles (recUserId r) ros us) \<subseteq> {..<n}"
      by (metis list.set_map userId_set_roles)
    then show ?thesis by auto
  qed
  ultimately show ?thesis using wf by (auto simp: team_wf_def)
qed

lemma team_wf_delete:
  assumes wf: "team_wf n us rs" and "r \<in> set rs"
  shows "team_wf n us (delete_where (\<lambda>x. recId x = recId r) rs)"
  using wf unfolding team_wf_def by (auto simp: delete_where_def distinct_map_filter
      index_ok_delete [unfolded delete_where_def])

section \<open>Hiring\<close>

lemma recruiterOf_None: "recruiterOf d i = None \<longleftrightarrow> i \<notin> recUserId ` set (recruiters d)"
  by (auto simp: recruiterOf_def find_None_iff)

lemma saveRecruiter_cases:
  assumes ok: "team_ok w" and i: "nextId w \<le> i"
    and run: "saveRecruiter (new_recruiter env i u c p) (w\<lparr>nextId := k\<rparr>) = (r, w')"
  obtains (taken) "u \<in> recUserId ` set (recruiters (db w))" "r = Inl (UniqueViolation UQ_recruiters_user)"
      "w' = w\<lparr>nextId := k\<rparr>"
  | (hired) "u \<notin> recUserId ` set (recruiters (db w))" "r = Inr (new_recruiter env i u c p)"
      "w' = w\<lparr>nextId := k, db := (db w)\<lparr>recruiters := recruiters (db w) @ [new_recruiter env i u c p]\<rparr>\<rparr>"
proof -
  let ?n = "new_recruiter env i u c p"
  have "recId ?n \<notin> recId ` set (recruiters (db w))"
    using ok i by (fastforce simp: team_ok_def team_wf_def new_recruiter_def)
  then have up: "upsert recId ?n (recruiters (db w)) = recruiters (db w) @ [?n]" by (rule upsert_new)
  have ix: "index_ok (\<lambda>r. Some (recUserId r)) (recruiters (db w) @ [?n]) \<longleftrightarrow>
      u \<notin> recUserId ` set (recruiters (db w))"
    unfolding index_ok_snoc using ok by (simp add: team_ok_def team_wf_def new_recruiter_def)
  show ?thesis
  proof (cases "u \<in> recUserId ` set (recruiters (db w))")
    case True
    then have "recruiter_violated (recruiters (db w) @ [?n]) = Some UQ_recruiters_user"
      using ix by (simp add: recruiter_violated_def)
    with run up have "r = Inl (UniqueViolation UQ_recruiters_user)" "w' = w\<lparr>nextId := k\<rparr>"
      by (simp_all add: saveRecruiter_def save_into_def checked_save_def)
    with True show ?thesis by (rule taken)
  next
    case False
    then have "recruiter_violated (recruiters (db w) @ [?n]) = None"
      using ix by (simp add: recruiter_violated_def)
    with run up have "r = Inr ?n"
      "w' = w\<lparr>nextId := k, db := (db w)\<lparr>recruiters := recruiters (db w) @ [?n]\<rparr>\<rparr>"
      by (simp_all add: saveRecruiter_def save_into_def checked_save_def)
    with False show ?thesis by (rule hired)
  qed
qed

text \<open>The table of accounts after a role was granted, if it was missing.\<close>

definition granted :: "role \<Rightarrow> user \<Rightarrow> user list \<Rightarrow> user list" where
  "granted ro u us = (if ro \<in> set (roles u) then us else set_roles (userId u) (roles u @ [ro]) us)"

lemma grant_eq:
  "(if ro \<notin> set (roles u) then updateUser (userId u) (\<lambda>x. x\<lparr>roles := roles u @ [ro]\<rparr>) else ret ()) w =
     (Inr (), w\<lparr>db := (db w)\<lparr>users := granted ro u (users (db w))\<rparr>\<rparr>)"
  by (simp add: granted_def set_roles_def)

lemma granted_has:
  assumes "u \<in> set us"
  shows "\<exists>x \<in> set (granted ro u us). userId x = userId u \<and> ro \<in> set (roles x)"
  using assms set_roles_here [OF assms, of "roles u @ [ro]"]
  by (cases "ro \<in> set (roles u)") (auto simp: granted_def intro: bexI [of _ "u\<lparr>roles := roles u @ [ro]\<rparr>"])

lemma granted_ids [simp]: "map userId (granted ro u us) = map userId us"
  by (simp add: granted_def)

lemma team_wf_granted:
  "team_wf n us rs \<Longrightarrow> ro \<in> {RECRUITER, COMPANY_ADMIN} \<Longrightarrow> team_wf n (granted ro u us) rs"
  by (auto simp: granted_def intro: team_wf_set_roles)

lemma team_wf_hired:
  assumes "team_wf n us rs" "u \<in> set us" "ro \<in> {RECRUITER, COMPANY_ADMIN}"
    "userId u \<notin> recUserId ` set rs" "n \<le> i" "i < m"
  shows "team_wf m (granted ro u us) (rs @ [new_recruiter env i (userId u) c p])"
proof -
  obtain x where x: "x \<in> set (granted ro u us)" "userId x = userId u" "ro \<in> set (roles x)"
    using granted_has [OF assms(2)] by blast
  have "recruits x" using x(3) assms(3) by (auto simp: recruits_def)
  with x assms show ?thesis
    by (intro team_wf_hire [OF team_wf_granted [OF assms(1,3)] x(1)]) (simp_all add: new_recruiter_def)
qed

section \<open>The operations\<close>

text \<open>\<open>hire\<close>: what a successful attachment does to the database.\<close>

definition hire :: "role \<Rightarrow> user \<Rightarrow> recruiter \<Rightarrow> db \<Rightarrow> db" where
  "hire ro u r d = d\<lparr>recruiters := recruiters d @ [r], users := granted ro u (users d)\<rparr>"

lemma hireUser_cases:
  assumes ok: "team_ok w" and run: "hireUser env who c u p w = (r, w')"
  obtains (taken) "userId u \<in> recUserId ` set (recruiters (db w))"
      "r = Inl (UniqueViolation UQ_recruiters_user)" "db w' = db w" "nextId w' = Suc (nextId w)"
  | (hired) "userId u \<notin> recUserId ` set (recruiters (db w))"
      "r = (if auditFails env (recruiterEvent who RECRUITER_ADDED (nextId w))
            then Inl (ServiceUnavailable ''audit'') else Inr (new_recruiter env (nextId w) (userId u) c p))"
      "db w' = hire RECRUITER u (new_recruiter env (nextId w) (userId u) c p) (db w)"
      "nextId w' = Suc (nextId w)"
proof -
  let ?w = "w\<lparr>nextId := Suc (nextId w)\<rparr>" and ?n = "new_recruiter env (nextId w) (userId u) c p"
  have draw: "freshId w = (Inr (nextId w), ?w)" by (simp add: freshId_def)
  obtain s w1 where save: "saveRecruiter ?n ?w = (s, w1)" by fastforce
  show ?thesis using ok order_refl save
  proof (cases rule: saveRecruiter_cases)
    case taken
    with run save have "r = Inl (UniqueViolation UQ_recruiters_user)" "w' = ?w"
      by (simp_all add: hireUser_def bindE_Inr [where m = freshId, OF draw] bindE_Inl)
    with taken(1) that(1) show ?thesis by simp
  next
    case hired
    have "recId ?n = nextId w" by (simp add: new_recruiter_def)
    moreover have "saveRecruiter ?n ?w = (Inr ?n, w1)" using save hired(2) by simp
    ultimately have "bindE (auditLog env (recruiterEvent who RECRUITER_ADDED (nextId w))) (\<lambda>_. ret ?n)
        (w1\<lparr>db := (db w1)\<lparr>users := granted RECRUITER u (users (db w1))\<rparr>\<rparr>) = (r, w')"
      using run unfolding hireUser_def by (simp only: bindE_Inr [where m = freshId, OF draw] bindE_Inr bindE_Inr [OF grant_eq])
    then show ?thesis
      using that(2) hired(1,3) by (auto simp: auditLog_def hire_def bindE_def split: if_splits)
  qed
qed

lemma attach_cases:
  assumes ok: "team_ok w" and u: "List.find (\<lambda>x. userId x = i) (users (db w)) = Some u"
    and run: "attach env i c p who w = (r, w')"
  obtains (taken) "i \<in> recUserId ` set (recruiters (db w))" "r = Inl (UniqueViolation UQ_recruiters_user)"
      "db w' = db w" "nextId w' = Suc (nextId w)"
  | (hired) "i \<notin> recUserId ` set (recruiters (db w))"
      "r = Inr () \<or> r = Inl (ServiceUnavailable ''audit'')"
      "r = Inr () \<longleftrightarrow> \<not> auditFails env (recruiterEvent who RECRUITER_ADDED (nextId w))"
      "db w' = hire RECRUITER u (new_recruiter env (nextId w) i c p) (db w)" "nextId w' = Suc (nextId w)"
proof -
  let ?w = "w\<lparr>nextId := Suc (nextId w)\<rparr>"
  have i: "userId u = i" using u by (auto dest: find_SomeD)
  obtain s w1 where save: "saveRecruiter (new_recruiter env (nextId w) i c p) ?w = (s, w1)" by fastforce
  show ?thesis using ok order_refl save
  proof (cases rule: saveRecruiter_cases)
    case taken
    with run save have "r = Inl (UniqueViolation UQ_recruiters_user)" "w' = ?w"
      by (simp_all add: attach_def bindE_def freshId_def)
    with taken(1) that(1) show ?thesis by simp
  next
    case hired
    have "findUser (\<lambda>x. userId x = i) w1 = (Inr (Some u), w1)" using hired(3) u by simp
    moreover have "freshId w = (Inr (nextId w), ?w)" by (simp add: freshId_def)
    moreover have "saveRecruiter (new_recruiter env (nextId w) i c p) ?w =
        (Inr (new_recruiter env (nextId w) i c p), w1)" using save hired(2) by simp
    moreover have "recId (new_recruiter env (nextId w) i c p) = nextId w" by (simp add: new_recruiter_def)
    ultimately have r: "bindE (if RECRUITER \<notin> set (roles u)
        then updateUser (userId u) (\<lambda>x. x\<lparr>roles := roles u @ [RECRUITER]\<rparr>) else ret ())
        (\<lambda>_. auditLog env (recruiterEvent who RECRUITER_ADDED (nextId w))) w1 = (r, w')"
      using run unfolding attach_def i by (simp only: bindE_Inr option.case)
    let ?w2 = "w1\<lparr>db := (db w1)\<lparr>users := granted RECRUITER u (users (db w1))\<rparr>\<rparr>"
    from r have "auditLog env (recruiterEvent who RECRUITER_ADDED (nextId w)) ?w2 = (r, w')"
      by (simp only: bindE_Inr [OF grant_eq])
    moreover have "db ?w2 = hire RECRUITER u (new_recruiter env (nextId w) i c p) (db w)"
      by (simp add: hired(3) hire_def)
    ultimately show ?thesis
      using that(2) hired(1,3) by (auto simp: auditLog_def split: if_splits)
  qed
qed

section \<open>The team machine\<close>

text \<open>
  What may happen to the accounts and the recruiters of the companies. \<open>cap\<close> is the seat limit
  of a company, read from its subscription; \<open>staff\<close> allows the two moves that do not look at it:
  opening a company and the provisioning of an account by the staff.
\<close>

inductive team_move :: "(db \<Rightarrow> uuid \<Rightarrow> int option) \<Rightarrow> bool \<Rightarrow> world \<Rightarrow> world \<Rightarrow> bool"
  for cap :: "db \<Rightarrow> uuid \<Rightarrow> int option" and staff :: bool where
  quiet: "users (db w') = users (db w) \<Longrightarrow> recruiters (db w') = recruiters (db w) \<Longrightarrow>
      subscriptions (db w') = subscriptions (db w) \<or> staff \<Longrightarrow> nextId w \<le> nextId w' \<Longrightarrow>
      team_move cap staff w w'"
| account: "users (db w') = map f (users (db w)) \<Longrightarrow> (\<And>u. userId (f u) = userId u \<and> roles (f u) = roles u) \<Longrightarrow>
      recruiters (db w') = recruiters (db w) \<Longrightarrow> subscriptions (db w') = subscriptions (db w) \<Longrightarrow>
      nextId w \<le> nextId w' \<Longrightarrow> team_move cap staff w w'"
| sign_up: "users (db w') = users (db w) @ [u] \<Longrightarrow> nextId w \<le> userId u \<Longrightarrow> userId u < nextId w' \<Longrightarrow>
      recruiters (db w') = recruiters (db w) \<Longrightarrow> subscriptions (db w') = subscriptions (db w) \<Longrightarrow>
      team_move cap staff w w'"
| hires: "u \<in> set (users (db w)) \<Longrightarrow> userId u \<notin> recUserId ` set (recruiters (db w)) \<Longrightarrow>
      (\<exists>l. cap (db w) c = Some l \<and> seats (db w) c < l) \<or> staff \<Longrightarrow>
      ro = RECRUITER \<or> ro = COMPANY_ADMIN \<and> staff \<Longrightarrow> nextId w \<le> i \<Longrightarrow> i < nextId w' \<Longrightarrow>
      recruiters (db w') = recruiters (db w) @ [new_recruiter env i (userId u) c p] \<Longrightarrow>
      users (db w') = granted ro u (users (db w)) \<Longrightarrow> subscriptions (db w') = subscriptions (db w) \<Longrightarrow>
      team_move cap staff w w'"
| leaves: "r \<in> set (recruiters (db w)) \<Longrightarrow>
      recruiters (db w') = delete_where (\<lambda>x. recId x = recId r) (recruiters (db w)) \<Longrightarrow>
      users (db w') = users (db w) \<or> users (db w') = set_roles (recUserId r) rs (users (db w)) \<Longrightarrow>
      subscriptions (db w') = subscriptions (db w) \<Longrightarrow> nextId w \<le> nextId w' \<Longrightarrow> team_move cap staff w w'"

abbreviation team_moves :: "(db \<Rightarrow> uuid \<Rightarrow> int option) \<Rightarrow> bool \<Rightarrow> world \<Rightarrow> world \<Rightarrow> bool" where
  "team_moves cap staff \<equiv> (team_move cap staff)\<^sup>*\<^sup>*"

lemma team_move_ok: "team_move cap staff w w' \<Longrightarrow> team_ok w \<Longrightarrow> team_ok w'"
proof (induction rule: team_move.induct)
  case (quiet w' w)
  then show ?case by (auto simp: team_ok_def intro: team_wf_later)
next
  case (account w' f w)
  have "team_wf (nextId w) (map f (users (db w))) (recruiters (db w))"
  proof (rule team_wf_users)
    show "team_wf (nextId w) (users (db w)) (recruiters (db w))" using account by (simp add: team_ok_def)
    show "map userId (map f (users (db w))) = map userId (users (db w))" using account by simp
    fix u assume "u \<in> set (users (db w))" "recruits u"
    then show "\<exists>u' \<in> set (map f (users (db w))). userId u' = userId u \<and> recruits u'"
      using account(2) by (auto simp: recruits_def)
  qed
  with account show ?case by (auto simp: team_ok_def intro: team_wf_later)
next
  case (sign_up w' w u)
  then show ?case by (auto simp: team_ok_def intro: team_wf_new_user)
next
  case (hires u w c ro i w' env p)
  then show ?case by (auto simp: team_ok_def intro: team_wf_hired)
next
  case (leaves r w w' rs)
  then have "team_wf (nextId w) (users (db w')) (recruiters (db w'))"
    by (auto simp: team_ok_def intro: team_wf_remove team_wf_delete)
  with leaves show ?case by (auto simp: team_ok_def intro: team_wf_later)
qed

lemma team_moves_ok: "team_moves cap staff w w' \<Longrightarrow> team_ok w \<Longrightarrow> team_ok w'"
  by (induction rule: rtranclp_induct) (auto intro: team_move_ok)

lemma count_delete: "count_where P (delete_where Q t) \<le> count_where P t"
  by (induction t) (auto simp: delete_where_def)

lemma team_move_subs: "team_move cap False w w' \<Longrightarrow> subscriptions (db w') = subscriptions (db w)"
  by (induction rule: team_move.induct) auto

text \<open>Without the staff, no company passes its seat limit.\<close>

lemma team_move_seats:
  assumes "team_move cap False w w'" "cap (db w) c = Some l"
  shows "seats (db w') c \<le> max (seats (db w) c) l"
  using assms
proof (induction rule: team_move.induct)
  case (hires u w c' ro i w' env p)
  then show ?case by (cases "c' = c") (auto simp: seats_def new_recruiter_def)
next
  case (leaves r w w' rs)
  have "seats (db w') c \<le> seats (db w) c"
    unfolding seats_def leaves(2) by (rule count_delete)
  then show ?case by simp
qed (auto simp: seats_def)

lemma team_moves_seats:
  assumes "team_moves cap False w w'" "cap (db w) c = Some l"
    and "\<And>d d'. subscriptions d' = subscriptions d \<Longrightarrow> cap d' c = cap d c"
  shows "seats (db w') c \<le> max (seats (db w) c) l \<and> subscriptions (db w') = subscriptions (db w)"
  using assms(1)
proof (induction rule: rtranclp_induct)
  case (step w1 w2)
  then have sub: "subscriptions (db w2) = subscriptions (db w)" using team_move_subs by simp
  have "cap (db w1) c = Some l" using step assms(2,3) by metis
  from team_move_seats [OF step(2) this] step sub show ?case by auto
qed auto


section \<open>The operations refine the machine\<close>

text \<open>Steps that only read: an exception leaves the world alone.\<close>

definition reads :: "'a service \<Rightarrow> bool" where
  "reads m \<longleftrightarrow> (\<forall>w. snd (m w) = w)"

lemma reads_basic:
  "reads (ret x)" "reads (gets f)" "reads (require b e)" "reads (someOr e opt)" "reads (findUser P)"
  "reads (findRecruiterOf i)" "reads (countRecruiters c)" "reads (resolveCompanyId i)"
  by (simp_all add: reads_def require_def someOr_def findRecruiterOf_def countRecruiters_def
      resolveCompanyId_apply split: option.split)

lemma reads_bindE: "reads m \<Longrightarrow> (\<And>x. reads (f x)) \<Longrightarrow> reads (bindE m f)"
  unfolding reads_def bindE_def by (auto split: prod.split sum.split) (metis snd_conv)+

lemma reads_getSeatLimit: "reads (getSeatLimit env c)"
  unfolding reads_def by (metis getSeatLimit_world prod.collapse)

lemma reads_seats: "reads (usedSeats env c)" "reads (findPendingByToken env cr raw)"
  unfolding usedSeats_def findPendingByToken_def
  by (simp_all add: reads_bindE reads_basic split: if_split)

lemmas reads_rules = reads_basic reads_getSeatLimit reads_seats

lemma reads_peel:
  assumes "bindE m f w = (r, w')" "reads m"
  shows "w' = w \<or> (\<exists>x. m w = (Inr x, w) \<and> f x w = (r, w'))"
  using assms unfolding reads_def by (cases rule: bindE_cases) (metis snd_conv prod.inject)+

lemmas peel = reads_basic [THEN reads_peel [rotated]] reads_getSeatLimit [THEN reads_peel [rotated]]
  reads_seats [THEN reads_peel [rotated]]

definition seat_cap :: "env \<Rightarrow> db \<Rightarrow> uuid \<Rightarrow> int option" where
  "seat_cap env d c =
     (let p = (case latest_subscription d c of None \<Rightarrow> STARTER | Some s \<Rightarrow> subPlan s)
      in if p = ENTERPRISE then Some (2 ^ 53 - 1) else planUsers env p)"

lemma getSeatLimit_Inr: "getSeatLimit env c w = (Inr l, w') \<Longrightarrow> seat_cap env (db w) c = Some l"
  by (auto simp: getSeatLimit_def resolveUserLimitForPlan_def seat_cap_def Let_def split: if_splits)

lemma countRecruiters_Inr: "countRecruiters c w = (Inr n, w') \<longleftrightarrow> n = seats (db w) c \<and> w' = w"
  by (auto simp: countRecruiters_def seats_def)

lemma findRecruiterOf_Inr: "findRecruiterOf i w = (Inr x, w') \<longleftrightarrow> x = recruiterOf (db w) i \<and> w' = w"
  by (auto simp: findRecruiterOf_def)

lemma moves_quiet: "db w' = db w \<Longrightarrow> nextId w \<le> nextId w' \<Longrightarrow> team_moves cap staff w w'"
  by (rule r_into_rtranclp, rule team_move.quiet) simp_all

lemma moves_hire:
  assumes "u \<in> set (users (db w))" "userId u \<notin> recUserId ` set (recruiters (db w))"
    "(\<exists>l. cap (db w) c = Some l \<and> seats (db w) c < l) \<or> staff"
    "db w' = hire RECRUITER u (new_recruiter env (nextId w) (userId u) c p) (db w)"
    "nextId w' = Suc (nextId w)"
  shows "team_moves cap staff w w'"
  using assms by (intro r_into_rtranclp team_move.hires [of u w cap c staff RECRUITER "nextId w" w' env p])
    (simp_all add: hire_def)

lemmas peeled = getSeatLimit_Inr countRecruiters_Inr [THEN iffD1] findRecruiterOf_Inr [THEN iffD1]

lemma addRecruiter_peel:
  assumes "addRecruiter env who e p w = (r, w')"
  shows "w' = w \<or> (\<exists>c l u. seat_cap env (db w) c = Some l \<and> seats (db w) c < l \<and>
     u \<in> set (users (db w)) \<and> recruiterOf (db w) (userId u) = None \<and>
     hireUser env who c u p w = (r, w'))"
  using assms unfolding addRecruiter_def
  by (auto dest!: peel getSeatLimit_Inr find_SomeD simp: countRecruiters_Inr findRecruiterOf_Inr not_le) (metis option.distinct(1))

lemma addRecruiter_moves:
  assumes ok: "team_ok w" and run: "addRecruiter env who e p w = (r, w')"
  shows "team_moves (seat_cap env) staff w w'"
proof (cases "w' = w")
  case False
  with addRecruiter_peel [OF run] obtain c l u where
    g: "seat_cap env (db w) c = Some l" "seats (db w) c < l" "u \<in> set (users (db w))"
    and h: "hireUser env who c u p w = (r, w')" by blast
  show ?thesis using ok h
  proof (cases rule: hireUser_cases)
    case taken
    then show ?thesis by (simp add: moves_quiet)
  next
    case hired
    with g moves_hire [OF g(3) hired(1) _ hired(3,4)] show ?thesis by blast
  qed
qed simp

text \<open>Writing an invitation touches the table of invitations only.\<close>

definition only_invitations :: "db \<Rightarrow> db \<Rightarrow> bool" where
  "only_invitations d d' \<longleftrightarrow> (\<exists>t. d' = d\<lparr>invitations := t\<rparr>)"

interpretation inviting: db_frame only_invitations
proof
  fix d d' d'' :: db
  show "only_invitations d d"
    unfolding only_invitations_def by (rule exI [of _ "invitations d"]) simp
  assume "only_invitations d d'" "only_invitations d' d''"
  then show "only_invitations d d''" unfolding only_invitations_def by force
qed

lemma moves_invitations:
  "moves only_invitations (modify (\<lambda>w. w\<lparr>db := (db w)\<lparr>invitations := f (invitations (db w))\<rparr>\<rparr>))"
  "moves only_invitations (saveInvitation v)"
  by (rule movesI; auto simp: only_invitations_def saveInvitation_def save_into_def checked_save_def
      unconstrained_def)+

lemma moves_sendInvitation: "moves only_invitations (sendInvitation env cr who c e p)"
  unfolding sendInvitation_def by (intro moves_invitations inviting.moves_rules)

lemma ids_grow_sendInvitation: "ids_grow (sendInvitation env cr who c e p)"
  unfolding sendInvitation_def saveInvitation_def by (intro keeping) simp_all

lemma moves_invited:
  "only_invitations (db w) (db w') \<Longrightarrow> nextId w \<le> nextId w' \<Longrightarrow> team_moves cap staff w w'"
  by (rule r_into_rtranclp, rule team_move.quiet) (auto simp: only_invitations_def)

lemma sendInvitation_moves:
  "sendInvitation env cr who c e p w = (r, w') \<Longrightarrow> team_moves cap staff w w'"
  by (rule moves_invited) (auto dest: movesD [OF moves_sendInvitation] ids_growD [OF ids_grow_sendInvitation])

lemma invite_peel:
  assumes "invite env cr who e p w = (r, w')"
  shows "w' = w \<or> (\<exists>c. sendInvitation env cr who c (toLowerCase (trimSpaces e)) p w = (r, w')) \<or>
    (\<exists>c l u n. seat_cap env (db w) c = Some l \<and> usedSeats env c w = (Inr n, w) \<and> n < l \<and>
     List.find (\<lambda>u. email u = toLowerCase (trimSpaces e)) (users (db w)) = Some u \<and>
     bindE (attach env (userId u) c p who) (\<lambda>_. ret Attached) w = (r, w'))"
  using assms unfolding invite_def
  by (auto dest!: peel getSeatLimit_Inr simp: findRecruiterOf_Inr not_le split: option.splits if_splits)

lemma usedSeats_bound: "usedSeats env c w = (Inr n, w') \<Longrightarrow> seats (db w) c \<le> n"
  by (auto simp: usedSeats_def returns countRecruiters_Inr)

lemma find_by_id:
  assumes "team_ok w" "u \<in> set (users (db w))"
  shows "List.find (\<lambda>x. userId x = userId u) (users (db w)) = Some u"
  using assms by (intro find_key) (simp_all add: team_ok_def team_wf_def)


lemma attach_moves:
  assumes "team_ok w" "u \<in> set (users (db w))" "seat_cap env (db w) c = Some l" "seats (db w) c < l"
    "attach env (userId u) c p who w = (r, w')"
  shows "team_moves (seat_cap env) staff w w'"
  using assms(1) find_by_id [OF assms(1,2)] assms(5)
proof (cases rule: attach_cases)
  case taken
  then show ?thesis by (simp add: moves_quiet)
next
  case hired
  with assms(3,4) moves_hire [OF assms(2) hired(1) _ hired(4,5)] show ?thesis by blast
qed

lemma bindE_ret_world: "bindE m (\<lambda>_. ret x) w = (r, w') \<Longrightarrow> \<exists>s. m w = (s, w')"
  by (auto simp: bindE_def split: prod.splits sum.splits)

lemma invite_moves:
  assumes ok: "team_ok w" and run: "invite env cr who e p w = (r, w')"
  shows "team_moves (seat_cap env) staff w w'"
  using invite_peel [OF run]
proof (elim disjE exE conjE)
  fix c l u n
  assume g: "seat_cap env (db w) c = Some l" "usedSeats env c w = (Inr n, w)" "n < l"
    "List.find (\<lambda>u. email u = toLowerCase (trimSpaces e)) (users (db w)) = Some u"
    and run: "bindE (attach env (userId u) c p who) (\<lambda>_. ret Attached) w = (r, w')"
  from bindE_ret_world [OF run] obtain s where "attach env (userId u) c p who w = (s, w')" by blast
  moreover have "seats (db w) c < l" using usedSeats_bound [OF g(2)] g(3) by simp
  moreover have "u \<in> set (users (db w))" using g(4) by (auto dest: find_SomeD)
  ultimately show ?thesis using attach_moves [OF ok _ g(1)] by blast
qed (auto intro: sendInvitation_moves)


definition dismissed_roles :: "role list \<Rightarrow> role list" where
  "dismissed_roles = filter (\<lambda>ro. ro \<noteq> RECRUITER \<and> ro \<noteq> COMPANY_ADMIN)"

lemma dismiss_effect:
  assumes "dismiss env who r w = (res, w')"
  shows "recruiters (db w') = delete_where (\<lambda>x. recId x = recId r) (recruiters (db w))"
    "subscriptions (db w') = subscriptions (db w)" "nextId w' = nextId w"
    "users (db w') = (case List.find (\<lambda>u. userId u = recUserId r) (users (db w)) of
       None \<Rightarrow> users (db w)
     | Some u \<Rightarrow> set_roles (recUserId r) (dismissed_roles (roles u)) (users (db w)))"
    "res = (if auditFails env (recruiterEvent who RECRUITER_REMOVED (recId r))
       then Inl (ServiceUnavailable ''audit'') else Inr ())"
  using assms unfolding dismiss_def
  by (auto simp: auditLog_def set_roles_def dismissed_roles_def dest: find_SomeD
      split: option.splits if_splits)

lemma removeRecruiter_peel:
  assumes "removeRecruiter env who i w = (res, w')"
  shows "w' = w \<or> (\<exists>r. r \<in> set (recruiters (db w)) \<and> recId r = i \<and> recUserId r \<noteq> who \<and>
     resolveCompanyId who w = (Inr (recCompanyId r), w) \<and> dismiss env who r w = (res, w'))"
  using assms unfolding removeRecruiter_def by (auto dest!: peel find_SomeD)

lemma removeRecruiter_moves:
  assumes run: "removeRecruiter env who i w = (res, w')"
  shows "team_moves cap staff w w'"
proof (cases "w' = w")
  case False
  with removeRecruiter_peel [OF run] obtain r where
    r: "r \<in> set (recruiters (db w))" "dismiss env who r w = (res, w')" by blast
  note effect = dismiss_effect [OF r(2)]
  obtain ros where "users (db w') = users (db w) \<or> users (db w') = set_roles (recUserId r) ros (users (db w))"
    using effect(4) by (auto split: option.splits)
  with effect(1-3) r(1) show ?thesis
    by (intro r_into_rtranclp team_move.leaves [of r w w' ros]) simp_all
qed simp

lemma revokeInvitation_moves:
  assumes "revokeInvitation who i w = (r, w')"
  shows "team_moves cap staff w w'"
proof (rule moves_invited)
  have "moves only_invitations (revokeInvitation who i)"
    unfolding revokeInvitation_def resolveCompanyId_def
    by (intro moves_invitations inviting.moves_rules)
  with assms show "only_invitations (db w) (db w')" by (auto dest: movesD)
  have "ids_grow (revokeInvitation who i)"
    unfolding revokeInvitation_def resolveCompanyId_def saveInvitation_def by (intro keeping)
  with assms show "nextId w \<le> nextId w'" by (auto dest: ids_growD)
qed

section \<open>Accepting an invitation\<close>

definition vouched :: "uuid \<Rightarrow> user list \<Rightarrow> user list" where
  "vouched i us = update_where (\<lambda>u. userId u = i) (\<lambda>u. u\<lparr>emailVerified := True, userStatus := U_ACTIVE\<rparr>) us"

lemma invitedAccount_cases:
  assumes ok: "team_ok w" and run: "invitedAccount env cr v password w = (r, w1)"
  obtains (failed) e where "r = Inl e" "db w1 = db w" "nextId w \<le> nextId w1"
  | (existing) u where "List.find (\<lambda>u. email u = invEmail v) (users (db w)) = Some u"
      "r = Inr (userId u)" "nextId w1 = nextId w" "userId u \<notin> recUserId ` set (recruiters (db w))"
      "db w1 = (db w)\<lparr>users := if emailVerified u then users (db w) else vouched (userId u) (users (db w))\<rparr>"
  | (created) "List.find (\<lambda>u. email u = invEmail v) (users (db w)) = None" "r = Inr (Suc (nextId w))"
      "db w1 = (db w)\<lparr>users := users (db w) @ [invited_user env (invEmail v)
         (argonHash cr (nextId w) password) (Suc (nextId w))]\<rparr>"
      "nextId w1 = Suc (Suc (nextId w))"
proof (cases "List.find (\<lambda>u. email u = invEmail v) (users (db w))")
  case None
  let ?u = "invited_user env (invEmail v) (argonHash cr (nextId w) password) (Suc (nextId w))"
  have id: "userId ?u = Suc (nextId w)" by (simp add: invited_user_def)
  then have "userId ?u \<notin> userId ` set (users (db w))" using ok by (fastforce simp: team_ok_def team_wf_def)
  then have "upsert userId ?u (users (db w)) = users (db w) @ [?u]" by (rule upsert_new)
  then show ?thesis
    using run None id that(1,3)
    by (auto simp: invitedAccount_def hashPassword_def freshId_def bindE_def saveUser_def save_into_def
        checked_save_def split: option.splits)
next
  case (Some u)
  then show ?thesis
    using run that(1,2)
    by (auto simp: invitedAccount_def findRecruiterOf_def bindE_def require_def recruiterOf_None vouched_def
        split: if_splits)
qed


lemma invitedAccount_moves:
  assumes ok: "team_ok w" and run: "invitedAccount env cr v password w = (r, w1)"
  shows "team_moves cap staff w w1"
    "recruiters (db w1) = recruiters (db w)" "subscriptions (db w1) = subscriptions (db w)"
    "r = Inr i \<Longrightarrow> \<exists>u \<in> set (users (db w1)). userId u = i"
proof -
  have "team_moves cap staff w w1 \<and> recruiters (db w1) = recruiters (db w) \<and>
      subscriptions (db w1) = subscriptions (db w) \<and>
      (r = Inr i \<longrightarrow> (\<exists>u \<in> set (users (db w1)). userId u = i))"
    using ok run
  proof (cases rule: invitedAccount_cases)
    case failed
    then show ?thesis by (simp add: moves_quiet)
  next
    case (existing u)
    let ?f = "\<lambda>x. if \<not> emailVerified u \<and> userId x = userId u
        then x\<lparr>emailVerified := True, userStatus := U_ACTIVE\<rparr> else x"
    have us: "users (db w1) = map ?f (users (db w))"
      using existing(5) by (simp add: vouched_def update_where_def)
    have same: "recruiters (db w1) = recruiters (db w)" "subscriptions (db w1) = subscriptions (db w)"
      by (simp_all add: existing(5))
    have "team_move cap staff w w1"
      by (rule team_move.account [of w1 ?f w]) (simp_all add: us same existing(3))
    moreover have "u \<in> set (users (db w))" using existing(1) by (auto dest: find_SomeD)
    then have "?f u \<in> set (users (db w1))" unfolding us set_map by (rule imageI)
    moreover have "userId (?f u) = userId u" by simp
    ultimately have "team_moves cap staff w w1" "\<exists>x \<in> set (users (db w1)). userId x = userId u"
      by blast+
    then show ?thesis using existing(2) same by auto
  next
    case created
    have "team_move cap staff w w1"
      by (rule team_move.sign_up [of w1 w, OF arg_cong [of _ _ users, OF created(3), simplified]])
        (simp_all add: created(3,4) invited_user_def)
    then show ?thesis by (auto simp: created(2,3) invited_user_def)
  qed
  then show "team_moves cap staff w w1"
    "recruiters (db w1) = recruiters (db w)" "subscriptions (db w1) = subscriptions (db w)"
    "r = Inr i \<Longrightarrow> \<exists>u \<in> set (users (db w1)). userId u = i" by auto
qed

lemma seat_cap_cong: "subscriptions d' = subscriptions d \<Longrightarrow> seat_cap env d' c = seat_cap env d c"
  by (simp add: seat_cap_def latest_subscription_def)

lemma seats_cong: "recruiters d' = recruiters d \<Longrightarrow> seats d' c = seats d c"
  by (simp add: seats_def)

lemma saveInvitation_moves: "saveInvitation v w = (r, w') \<Longrightarrow> team_moves cap staff w w'"
  by (rule moves_invited) (auto simp: only_invitations_def saveInvitation_def save_into_def
      checked_save_def unconstrained_def)

lemma enrol_moves:
  assumes ok: "team_ok w" and room: "seat_cap env (db w) (invCompanyId v) = Some l"
    "seats (db w) (invCompanyId v) < l" and run: "enrol env cr v password w = (r, w')"
  shows "team_moves (seat_cap env) staff w w'"
proof -
  obtain s w1 where acc: "invitedAccount env cr v password w = (s, w1)" by fastforce
  note account = invitedAccount_moves [OF ok acc]
  show ?thesis
  proof (cases s)
    case (Inl e)
    with run acc account(1) show ?thesis by (simp add: enrol_def)
  next
    case (Inr i)
    then obtain u where u: "u \<in> set (users (db w1))" "userId u = i" using account(4) by blast
    have ok1: "team_ok w1" using team_moves_ok [OF account(1) ok] .
    obtain t w2 where att: "attach env (userId u) (invCompanyId v) (invPosition v) (invitedById v) w1 = (t, w2)"
      by fastforce
    have "team_moves (seat_cap env) staff w1 w2"
      using attach_moves [OF ok1 u(1) _ _ att] room account(2,3) seat_cap_cong seats_cong by metis
    with account(1) have to2: "team_moves (seat_cap env) staff w w2" by (rule rtranclp_trans)
    show ?thesis
    proof (cases t)
      case (Inl e)
      with run acc Inr att u(2) to2 show ?thesis by (simp add: enrol_def)
    next
      case (Inr x)
      obtain z w3 where sv: "saveInvitation (v\<lparr>invStatus := INV_ACCEPTED, invAcceptedAt := Some (now env)\<rparr>) w2 = (z, w3)"
        by fastforce
      with run acc \<open>s = Inr i\<close> att u(2) Inr have "w' = w3"
        by (cases z) (simp_all add: enrol_def)
      with to2 saveInvitation_moves [OF sv] show ?thesis by (metis rtranclp_trans)
    qed
  qed
qed

lemma acceptInvitation_peel:
  assumes "acceptInvitation env cr raw password w = (r, w')"
  shows "w' = w \<or> (\<exists>v l. findPendingByToken env cr raw w = (Inr (Some v), w) \<and>
     seat_cap env (db w) (invCompanyId v) = Some l \<and> seats (db w) (invCompanyId v) < l \<and>
     enrol env cr v password w = (r, w'))"
  using assms unfolding acceptInvitation_def
  by (auto dest!: peel getSeatLimit_Inr simp: countRecruiters_Inr not_le)

lemma acceptInvitation_moves:
  assumes ok: "team_ok w" and run: "acceptInvitation env cr raw password w = (r, w')"
  shows "team_moves (seat_cap env) staff w w'"
  using acceptInvitation_peel [OF run] enrol_moves [OF ok] by auto


section \<open>Companies and accounts opened outside the seat limit\<close>

definition same_team :: "db \<Rightarrow> db \<Rightarrow> bool" where
  "same_team d d' \<longleftrightarrow> users d' = users d \<and> recruiters d' = recruiters d"

interpretation aside: db_frame same_team
  by unfold_locales (simp_all add: same_team_def)

lemma moves_aside:
  "same_team (db w) (db w') \<Longrightarrow> nextId w \<le> nextId w' \<Longrightarrow> team_moves cap True w w'"
  by (rule r_into_rtranclp, rule team_move.quiet) (auto simp: same_team_def)

lemma aside_saves: "moves same_team (saveCompany c)" "moves same_team (saveSubscription s)"
  unfolding saveCompany_def saveSubscription_def
  by (rule movesI; auto simp: same_team_def save_into_def split: sum.splits)+

lemma outside_settings [keeping]: "outside_db (getSetting env k f)" "outside_db (getNumber env k f)"
  unfolding getNumber_def getSetting_def by (intro keeping)+

lemma outside_columns [keeping]: "outside_db (trialEnd env n)" "outside_db (integerColumn n)"
  by (cases n; simp add: trialEnd_def integerColumn_def outside_ret outside_throw)+

lemma startTrial_moves:
  assumes "startTrial env who c w = (r, w')"
  shows "team_moves cap True w w'"
proof (rule moves_aside)
  have "moves same_team (startTrial env who c)"
    unfolding startTrial_def
    by (intro aside_saves aside.moves_rules aside.moves_outside [OF outside_settings(2)]
        aside.moves_outside [OF outside_columns(1)] aside.moves_outside [OF outside_columns(2)])
  with assms show "same_team (db w) (db w')" by (auto dest: movesD)
  have "ids_grow (startTrial env who c)"
    unfolding startTrial_def
    by (intro keeping ids_grow_outside [OF outside_settings(2)] ids_grow_outside [OF outside_columns(1)]
        ids_grow_outside [OF outside_columns(2)])
  with assms show "nextId w \<le> nextId w'" by (auto dest: ids_growD)
qed

lemma hired_moves:
  assumes "u \<in> set (users (db w))" "userId u \<notin> recUserId ` set (recruiters (db w))"
    "ro = RECRUITER \<or> ro = COMPANY_ADMIN" "nextId w \<le> i" "i < nextId w'"
    "recruiters (db w') = recruiters (db w) @ [new_recruiter env i (userId u) c p]"
    "users (db w') = granted ro u (users (db w))" "subscriptions (db w') = subscriptions (db w)"
  shows "team_moves cap True w w'"
  using assms by (intro r_into_rtranclp team_move.hires [of u w cap c True ro i w' env p]) auto

lemma foundCompany_moves:
  assumes ok: "team_ok w" and u: "u \<in> set (users (db w))"
    and run: "foundCompany env u name ic reg w = (r, w')"
  shows "team_moves cap True w w'"
proof -
  let ?c = "new_company (nextId w) name (Some ic) reg"
  have draw: "freshId v = (Inr (nextId v), v\<lparr>nextId := Suc (nextId v)\<rparr>)" for v by (simp add: freshId_def)
  obtain s w1 where sc: "saveCompany ?c (w\<lparr>nextId := Suc (nextId w)\<rparr>) = (s, w1)" by fastforce
  have "same_team (db w) (db w1)" using movesD [OF aside_saves(1) sc] by simp
  moreover have n1: "nextId w1 = Suc (nextId w)"
    using sc by (auto simp: saveCompany_def save_into_def split: sum.splits)
  ultimately have to1: "team_moves cap True w w1" and t1: "same_team (db w) (db w1)"
    by (auto intro: moves_aside)
  show ?thesis
  proof (cases s)
    case (Inl e)
    with run sc to1 show ?thesis by (simp add: foundCompany_def bindE_Inr [where m = freshId, OF draw])
  next
    case (Inr c)
    let ?n = "new_recruiter env (nextId w1) (userId u) (coId c) None"
    have ok1: "team_ok w1" using team_moves_ok [OF to1 ok] .
    obtain t w2 where sr: "saveRecruiter ?n (w1\<lparr>nextId := Suc (nextId w1)\<rparr>) = (t, w2)" by fastforce
    show ?thesis using ok1 order_refl sr
    proof (cases rule: saveRecruiter_cases)
      case taken
      with run sc Inr sr have "w' = w1\<lparr>nextId := Suc (nextId w1)\<rparr>"
        by (simp add: foundCompany_def bindE_Inr [where m = freshId, OF draw])
      then have "team_moves cap True w1 w'" by (intro moves_aside) (simp_all add: same_team_def)
      with to1 show ?thesis by (rule rtranclp_trans)
    next
      case hired
      let ?w3 = "w2\<lparr>db := (db w2)\<lparr>users := granted COMPANY_ADMIN u (users (db w2))\<rparr>\<rparr>"
      have rest: "startTrial env (userId u) c ?w3 = (r, w')"
        using run sc Inr sr hired(2) unfolding foundCompany_def
        by (simp only: bindE_Inr [where m = freshId, OF draw] bindE_Inr bindE_Inr [OF grant_eq])
      have "u \<in> set (users (db w1))" using u t1 by (simp add: same_team_def)
      then have "team_moves cap True w1 ?w3"
        by (rule hired_moves [where i = "nextId w1" and ro = COMPANY_ADMIN and env = env and p = None
              and c = "coId c"]) (simp_all add: hired)
      with to1 startTrial_moves [OF rest] show ?thesis by (meson rtranclp_trans)
    qed
  qed
qed

lemma createCompany_moves:
  assumes ok: "team_ok w" and run: "createCompany env who name ic reg w = (r, w')"
  shows "team_moves cap True w w'"
proof -
  have "w' = w \<or> (\<exists>u. u \<in> set (users (db w)) \<and> foundCompany env u name ic reg w = (r, w'))"
    using run unfolding createCompany_def by (auto dest!: peel find_SomeD)
  then show ?thesis using foundCompany_moves [OF ok] by auto
qed


lemma saveUser_cases:
  assumes ok: "team_ok w" and i: "nextId w \<le> userId u" and run: "saveUser u (w\<lparr>nextId := k\<rparr>) = (r, w')"
  obtains (taken) e where "r = Inl e" "w' = w\<lparr>nextId := k\<rparr>"
  | (created) "r = Inr u" "w' = w\<lparr>nextId := k, db := (db w)\<lparr>users := users (db w) @ [u]\<rparr>\<rparr>"
proof -
  have "userId u \<notin> userId ` set (users (db w))" using ok i by (fastforce simp: team_ok_def team_wf_def)
  then have "upsert userId u (users (db w)) = users (db w) @ [u]" by (rule upsert_new)
  then show ?thesis
    using run that by (auto simp: saveUser_def save_into_def checked_save_def split: option.splits)
qed

definition reports :: "env \<Rightarrow> uuid \<Rightarrow> string \<Rightarrow> string \<Rightarrow> company \<Rightarrow> user \<Rightarrow> recruiter \<Rightarrow> created_recruiter service" where
  "reports env staff e raw c u r =
     bindE (auditLog env (recruiterEvent staff RECRUITER_ADDED (recId r))) (\<lambda>_.
     bindE (bestEffort (sendMail env \<lparr>mailTo = e, templateId = ''recruiter-invite'',
              mailToken = Some raw\<rparr>)) (\<lambda>_.
     ret \<lparr>crRecruiterId = recId r, crUserId = userId u, crEmail = e, crCompanyId = coId c,
       crCompanyName = coName c\<rparr>))"

lemma outside_reports: "outside_db (reports env staff e raw c u r)"
  unfolding reports_def by (intro keeping)

lemma provision_moves:
  assumes ok: "team_ok w" and run: "provision env cr staff e c position w = (res, w')"
  shows "team_moves cap True w w'"
proof -
  define n where "n = nextId w"
  define raw where "raw = toHex (randomBytes cr 32 (Suc (Suc n)))"
  define u where "u = (invited_user env e (argonHash cr (Suc n) (toHex (randomBytes cr 24 n))) (Suc (Suc (Suc n))))
    \<lparr>passwordResetToken := Some (sha256Hex cr raw), passwordResetExpires := Some (now env + INVITE_TOKEN_TTL_MS)\<rparr>"
  define r where "r = new_recruiter env (n + 4) (userId u) (coId c)
    (case map_option trimSpaces position of Some [] \<Rightarrow> None | p \<Rightarrow> p)"
  have id: "userId u = n + 3" by (simp add: u_def invited_user_def)
  obtain s w1 where su: "saveUser u (w\<lparr>nextId := n + 4\<rparr>) = (s, w1)" by fastforce
  have head: "provision env cr staff e c position w =
      bindE (saveUser u) (\<lambda>u. bindE freshId (\<lambda>ri.
      bindE (saveRecruiter (new_recruiter env ri (userId u) (coId c)
              (case map_option trimSpaces position of Some [] \<Rightarrow> None | p \<Rightarrow> p)))
      (reports env staff e raw c u))) (w\<lparr>nextId := n + 4\<rparr>)"
  proof -
    have draw: "freshId v = (Inr (nextId v), v\<lparr>nextId := Suc (nextId v)\<rparr>)" for v by (simp add: freshId_def)
    have four: "nextId w + 4 = Suc (Suc (Suc (Suc (nextId w))))" by simp
    show ?thesis
      unfolding provision_def hashPassword_def bindE_assoc bindE_ret reports_def [abs_def] u_def raw_def n_def
      by (simp only: bindE_Inr [where m = freshId, OF draw] bindE_Inr [where m = "ret _", OF ret_apply]) (simp add: four)
  qed
  have le: "nextId w \<le> userId u" by (simp add: id n_def)
  show ?thesis using ok le su
  proof (cases rule: saveUser_cases)
    case taken
    with run su head have "w' = w\<lparr>nextId := n + 4\<rparr>" by simp
    then show ?thesis by (intro moves_quiet) (simp_all add: n_def)
  next
    case created
    have "team_move cap True w w1"
      by (rule team_move.sign_up [of w1 w u]) (simp_all add: created(2) id n_def)
    then have to1: "team_moves cap True w w1" by blast
    have ok1: "team_ok w1" using team_moves_ok [OF to1 ok] .
    have n1: "nextId w1 = n + 4" by (simp add: created(2))
    obtain t w2 where sr: "saveRecruiter r (w1\<lparr>nextId := Suc (n + 4)\<rparr>) = (t, w2)" by fastforce
    have tail: "bindE (saveRecruiter r) (reports env staff e raw c u) (w1\<lparr>nextId := Suc (n + 4)\<rparr>) = (res, w')"
      using run head su created(1) n1 by (simp add: bindE_def freshId_def r_def)
    have le1: "nextId w1 \<le> n + 4" by (simp add: n1)
    show ?thesis using ok1 le1 sr [unfolded r_def]
    proof (cases rule: saveRecruiter_cases)
      case taken
      with tail sr have "w' = w1\<lparr>nextId := Suc (n + 4)\<rparr>" by simp
      then have "team_moves cap True w1 w'" by (intro moves_quiet) (simp_all add: n1)
      with to1 show ?thesis by (rule rtranclp_trans)
    next
      case hired
      have us: "u \<in> set (users (db w1))" by (simp add: created(2))
      have "granted RECRUITER u (users (db w1)) = users (db w1)"
        by (simp add: granted_def u_def invited_user_def)
      then have "team_moves cap True w1 w2"
        by (intro hired_moves [OF us hired(1), where ro = RECRUITER and i = "n + 4"]) (simp_all add: hired(3) n1)
      moreover have "reports env staff e raw c u r w2 = (res, w')"
        using tail sr hired(2) by (simp add: r_def)
      then have "db w' = db w2 \<and> nextId w2 \<le> nextId w'" by (rule outside_dbD [OF outside_reports])
      then have "team_moves cap True w2 w'" by (intro moves_quiet) auto
      ultimately show ?thesis using to1 by (meson rtranclp_trans)
    qed
  qed
qed

lemma resolveCompany_moves:
  assumes "resolveCompany i name w = (r, w')"
  shows "team_moves cap True w w'"
proof (rule moves_aside)
  have "moves same_team (resolveCompany i name)"
    unfolding resolveCompany_def Let_def by (intro aside_saves aside.moves_rules)
  with assms show "same_team (db w) (db w')" by (auto dest: movesD)
  have "ids_grow (resolveCompany i name)"
    unfolding resolveCompany_def Let_def saveCompany_def by (intro keeping)
  with assms show "nextId w \<le> nextId w'" by (auto dest: ids_growD)
qed

lemma createRecruiter_moves:
  assumes ok: "team_ok w" and run: "createRecruiter env cr staff e i name p w = (r, w')"
  shows "team_moves cap True w w'"
proof -
  let ?rest = "\<lambda>c. provision env cr staff (trimSpaces (toLowerCase e)) c p"
  have "w' = w \<or> bindE (resolveCompany i name) ?rest w = (r, w')"
    using run unfolding createRecruiter_def by (auto dest!: peel)
  then show ?thesis
  proof
    assume "bindE (resolveCompany i name) ?rest w = (r, w')"
    then show ?thesis
    proof (cases rule: bindE_cases)
      case (throws e s')
      then show ?thesis using resolveCompany_moves by auto
    next
      case (returns c s')
      from resolveCompany_moves [OF returns(1)] have to1: "team_moves cap True w s'" .
      then have "team_ok s'" using team_moves_ok ok by blast
      with returns(2) provision_moves have "team_moves cap True s' w'" by metis
      with to1 show ?thesis by (rule rtranclp_trans)
    qed
  qed simp
qed

end
