(* ===== verification/Team_Props.thy ===== *)
theory Team_Props
  imports Team_Facts Auth_Props
begin

text \<open>
  The properties of a company's team: who is attached, how many seats are taken, what an invitation
  does and when it stops working.
\<close>

section \<open>Requests\<close>

datatype team_op =
  AddRecruiter uuid string "string option"
| Invite uuid string "string option"
| RevokeInvitation uuid uuid
| AcceptInvitation string string
| RemoveRecruiter uuid uuid
| OpenCompany uuid string string "string option"
| ProvisionRecruiter uuid string "uuid option" "string option" "string option"

fun team_request :: "env \<Rightarrow> crypto \<Rightarrow> team_op \<Rightarrow> world \<Rightarrow> world" where
  "team_request env cr (AddRecruiter who e p) w = snd (addRecruiter env who e p w)"
| "team_request env cr (Invite who e p) w = snd (invite env cr who e p w)"
| "team_request env cr (RevokeInvitation who i) w = snd (revokeInvitation who i w)"
| "team_request env cr (AcceptInvitation raw password) w = snd (acceptInvitation env cr raw password w)"
| "team_request env cr (RemoveRecruiter who i) w = snd (removeRecruiter env who i w)"
| "team_request env cr (OpenCompany who name ic reg) w = snd (createCompany env who name ic reg w)"
| "team_request env cr (ProvisionRecruiter staff e i name p) w = snd (createRecruiter env cr staff e i name p w)"

text \<open>A request arrives at its own time.\<close>

definition team_step :: "env \<Rightarrow> crypto \<Rightarrow> date \<times> team_op \<Rightarrow> world \<Rightarrow> world" where
  "team_step env cr r w = team_request (env\<lparr>now := fst r\<rparr>) cr (snd r) w"

fun counts_seats :: "team_op \<Rightarrow> bool" where
  "counts_seats (OpenCompany _ _ _ _) = False"
| "counts_seats (ProvisionRecruiter _ _ _ _ _) = False"
| "counts_seats _ = True"

lemma seat_cap_now [simp]: "seat_cap (env\<lparr>now := t\<rparr>) = seat_cap env"
  by (rule ext)+ (simp add: seat_cap_def Let_def)

lemma team_step_moves:
  assumes "team_ok w" "staff \<or> counts_seats (snd r)"
  shows "team_moves (seat_cap env) staff w (team_step env cr r w)"
proof -
  let ?e = "env\<lparr>now := fst r\<rparr>"
  note moves = addRecruiter_moves [OF assms(1), of ?e, simplified] invite_moves [OF assms(1), of ?e, simplified]
    acceptInvitation_moves [OF assms(1), of ?e, simplified] removeRecruiter_moves revokeInvitation_moves
    createCompany_moves [OF assms(1)] createRecruiter_moves [OF assms(1)]
  show ?thesis
    using assms(2) unfolding team_step_def by (cases "snd r") (auto intro: moves prod.collapse [symmetric])
qed

lemma team_steps_moves:
  assumes "team_ok w" "staff \<or> list_all (counts_seats \<circ> snd) rs"
  shows "team_moves (seat_cap env) staff w (fold (team_step env cr) rs w)"
  using assms
proof (induction rs arbitrary: w)
  case (Cons r rs)
  have m: "team_moves (seat_cap env) staff w (team_step env cr r w)"
    by (rule team_step_moves) (use Cons.prems in auto)
  moreover have "team_moves (seat_cap env) staff (team_step env cr r w)
      (fold (team_step env cr) rs (team_step env cr r w))"
    using Cons.IH [OF team_moves_ok [OF m Cons.prems(1)]] Cons.prems(2) by auto
  ultimately show ?case by simp
qed simp

text \<open>C19: over any requests, whoever sends them and whichever outside calls fail, an account is
  attached to at most one company, every recruiter row belongs to an account that exists, and that
  account has a recruiting role.\<close>

theorem team_members_consistent:
  assumes "team_ok w" "fold (team_step env cr) rs w = w'"
  shows "(\<forall>r \<in> set (recruiters (db w')). \<exists>u \<in> set (users (db w')). userId u = recUserId r \<and> recruits u) \<and>
    (\<forall>r \<in> set (recruiters (db w')). \<forall>r' \<in> set (recruiters (db w')). recUserId r = recUserId r' \<longrightarrow> r = r') \<and>
    team_ok w'"
proof -
  have ok: "team_ok w'"
    using team_moves_ok [OF team_steps_moves [where staff = True and env = env and cr = cr]] assms by blast
  then have "\<forall>r \<in> set (recruiters (db w')). \<forall>r' \<in> set (recruiters (db w')). recUserId r = recUserId r' \<longrightarrow> r = r'"
    unfolding team_ok_def team_wf_def by (metis index_ok_unique)
  with ok show ?thesis by (auto simp: team_ok_def team_wf_def)
qed

lemma team_ok_world0: "team_ok world0"
  by (simp add: team_ok_def team_wf_def recruits_def index_ok_def sample_defs)

lemma team_members_consistent_witness:
  "team_ok (fold (team_step env0 crypto0)
     [(5, Invite 1 ''x@y'' None), (6, RemoveRecruiter 1 20)] world0)"
  using team_members_consistent [OF team_ok_world0 refl] by blast




section \<open>Invitations\<close>

lemma saveInvitation_apply [simp]: "saveInvitation v w =
    (Inr v, w\<lparr>db := (db w)\<lparr>invitations := upsert invId v (invitations (db w))\<rparr>\<rparr>)"
  by (simp add: saveInvitation_def save_into_def checked_save_def unconstrained_def)

text \<open>Everything a successful acceptance leaves behind.\<close>

lemma enrol_Inr:
  assumes ok: "team_ok w" and run: "enrol env cr v password w = (Inr (), w')"
  obtains w1 u i where "invitedAccount env cr v password w = (Inr (userId u), w1)"
    "u \<in> set (users (db w1))" "recruiters (db w1) = recruiters (db w)"
    "recruiters (db w') = recruiters (db w) @ [new_recruiter env i (userId u) (invCompanyId v) (invPosition v)]"
    "users (db w') = granted RECRUITER u (users (db w1))"
    "invitations (db w') = upsert invId (v\<lparr>invStatus := INV_ACCEPTED, invAcceptedAt := Some (now env)\<rparr>) (invitations (db w1))"
    "team_ok w1"
proof -
  from run obtain i w1 w2 where acc: "invitedAccount env cr v password w = (Inr i, w1)"
    and att: "attach env i (invCompanyId v) (invPosition v) (invitedById v) w1 = (Inr (), w2)"
    and w': "w' = w2\<lparr>db := (db w2)\<lparr>invitations := upsert invId
      (v\<lparr>invStatus := INV_ACCEPTED, invAcceptedAt := Some (now env)\<rparr>) (invitations (db w2))\<rparr>\<rparr>"
    by (auto simp: enrol_def returns)
  note account = invitedAccount_moves [OF ok acc]
  then obtain u where u: "u \<in> set (users (db w1))" "userId u = i" by blast
  have ok1: "team_ok w1" using team_moves_ok [OF account(1) ok] .
  have att': "attach env (userId u) (invCompanyId v) (invPosition v) (invitedById v) w1 = (Inr (), w2)"
    using att u(2) by simp
  show ?thesis using ok1 find_by_id [OF ok1 u(1)] att'
  proof (cases rule: attach_cases)
    case hired
    with acc u account(2) ok1 that [of u w1 "nextId w1"] show ?thesis
      by (simp add: w' hire_def)
  qed simp
qed

lemma invitedAccount_invitations:
  assumes "team_ok w" "invitedAccount env cr v password w = (r, w1)"
  shows "invitations (db w1) = invitations (db w)"
  using assms by (cases rule: invitedAccount_cases) simp_all

lemma findPending_Inr:
  "findPendingByToken env cr raw w = (Inr (Some v), w') \<longleftrightarrow> raw \<noteq> [] \<and> w' = w \<and>
     List.find (\<lambda>v. invTokenHash v = sha256Hex cr raw \<and> pending env v) (invitations (db w)) = Some v"
  by (auto simp: findPendingByToken_def)

lemma acceptInvitation_Inr:
  assumes "acceptInvitation env cr raw password w = (Inr (), w')"
  obtains v where "v \<in> set (invitations (db w))" "invTokenHash v = sha256Hex cr raw" "pending env v"
    "enrol env cr v password w = (Inr (), w')"
    "List.find (\<lambda>v. invTokenHash v = sha256Hex cr raw \<and> pending env v) (invitations (db w)) = Some v"
proof -
  from assms obtain v where "findPendingByToken env cr raw w = (Inr (Some v), w)"
    "enrol env cr v password w = (Inr (), w')"
    unfolding acceptInvitation_def
    by (auto simp: returns findPendingByToken_def countRecruiters_Inr dest!: getSeatLimit_world split: if_splits)
  then show ?thesis using that by (auto simp: findPending_Inr dest: find_SomeD)
qed

text \<open>The address of the account an acceptance is for.\<close>

lemma invited_email:
  assumes "team_ok w" "invitedAccount env cr v password w = (Inr i, w1)" "team_ok w1"
    "x \<in> set (users (db w1))" "userId x = i"
  shows "email x = invEmail v"
  using assms(1,2)
proof (cases rule: invitedAccount_cases)
  case (existing u)
  have u: "u \<in> set (users (db w))" "email u = invEmail v" using existing(1) by (auto dest: find_SomeD)
  obtain y where y: "y \<in> set (users (db w))" "userId y = userId x" "email y = email x"
    using assms(4) existing(5) by (auto simp: vouched_def set_update_where split: if_splits)
  then have "y = u" using u(1) assms(1,5) existing(2) unfolding team_ok_def team_wf_def
    by (metis distinct_map inj_on_def sum.inject(2))
  with u y show ?thesis by simp
next
  case created
  have "userId x < nextId w" if "x \<in> set (users (db w))" using assms(1) that by (simp add: team_ok_def team_wf_def)
  with assms(4,5) created show ?thesis by (auto simp: invited_user_def)
qed simp

lemma granted_email:
  assumes "\<And>x. x \<in> set us \<Longrightarrow> userId x = i \<Longrightarrow> email x = e" "x \<in> set us'" "userId x = i"
    "us' = granted ro u us"
  shows "email x = e"
  using assms by (auto simp: granted_def set_roles_members split: if_splits)

text \<open>The tokens of a company's invitations are drawn apart.\<close>

definition invitations_ok :: "db \<Rightarrow> bool" where
  "invitations_ok d \<longleftrightarrow> distinct (map invId (invitations d)) \<and> distinct (map invTokenHash (invitations d))"

lemma spent_token:
  assumes "invitations_ok (db w)" "v \<in> set (invitations (db w))" "invTokenHash v = sha256Hex cr raw"
    "invitations (db w') = upsert invId v' (invitations (db w))" "invId v' = invId v"
    "invStatus v' \<noteq> INV_PENDING"
  shows "acceptInvitation env cr raw password w' = (Inl (BadRequestException ''invitation''), w')"
proof -
  have "\<not> (invTokenHash x = sha256Hex cr raw \<and> pending env x)" if "x \<in> set (invitations (db w'))" for x
  proof -
    from that assms(4) have "x = v' \<or> x \<in> set (invitations (db w)) \<and> invId x \<noteq> invId v"
      using assms(5) by (auto simp: set_upsert)
    moreover have "invTokenHash x \<noteq> invTokenHash v" if "x \<in> set (invitations (db w))" "invId x \<noteq> invId v"
      using that assms(1,2) by (auto simp: invitations_ok_def distinct_map inj_on_def)
    ultimately show ?thesis using assms(3,6) by (auto simp: pending_def)
  qed
  then have "List.find (\<lambda>v. invTokenHash v = sha256Hex cr raw \<and> pending env v) (invitations (db w')) = None"
    by (simp add: find_None_iff)
  then show ?thesis
    by (simp add: acceptInvitation_def findPendingByToken_def bindE_def someOr_def)
qed

text \<open>An invitation is good for one use: an acceptance goes through only with the token of an
  open, unexpired invitation; it attaches the account of the invited address to the company that
  invited it, with the recruiter role, and from then on, as after a revocation, the token is
  refused and changes nothing.\<close>

theorem invitation_single_use:
  assumes "team_ok w" "invitations_ok (db w)"
  shows "(acceptInvitation env cr raw password w = (Inr (), w') \<longrightarrow>
      (\<exists>v u r. v \<in> set (invitations (db w)) \<and> invTokenHash v = sha256Hex cr raw \<and> pending env v \<and>
         u \<in> set (users (db w')) \<and> email u = invEmail v \<and> RECRUITER \<in> set (roles u) \<and>
         recruiters (db w') = recruiters (db w) @ [r] \<and> recUserId r = userId u \<and>
         recCompanyId r = invCompanyId v) \<and>
      acceptInvitation env' cr raw password' w' = (Inl (BadRequestException ''invitation''), w')) \<and>
    (revokeInvitation who i w = (Inr (), w2) \<longrightarrow>
      (\<exists>v \<in> set (invitations (db w)). invId v = i \<and> (invTokenHash v = sha256Hex cr raw \<longrightarrow>
         acceptInvitation env' cr raw password' w2 = (Inl (BadRequestException ''invitation''), w2))))"
proof (intro conjI impI)
  assume "acceptInvitation env cr raw password w = (Inr (), w')"
  then obtain v where v: "v \<in> set (invitations (db w))" "invTokenHash v = sha256Hex cr raw" "pending env v"
    and run: "enrol env cr v password w = (Inr (), w')" by (rule acceptInvitation_Inr)
  obtain w1 u j where e: "invitedAccount env cr v password w = (Inr (userId u), w1)"
    "u \<in> set (users (db w1))"
    "recruiters (db w') = recruiters (db w) @ [new_recruiter env j (userId u) (invCompanyId v) (invPosition v)]"
    "users (db w') = granted RECRUITER u (users (db w1))"
    "invitations (db w') = upsert invId (v\<lparr>invStatus := INV_ACCEPTED, invAcceptedAt := Some (now env)\<rparr>) (invitations (db w1))"
    "team_ok w1"
    using assms(1) run by (rule enrol_Inr) blast
  obtain x where x: "x \<in> set (users (db w'))" "userId x = userId u" "RECRUITER \<in> set (roles x)"
    using granted_has [OF e(2), of RECRUITER] e(4) by auto
  have "email x = invEmail v" using invited_email [OF assms(1) e(1) e(6)] x(1,2) e(4) by (rule granted_email)
  then show "\<exists>v u r. v \<in> set (invitations (db w)) \<and> invTokenHash v = sha256Hex cr raw \<and> pending env v \<and>
      u \<in> set (users (db w')) \<and> email u = invEmail v \<and> RECRUITER \<in> set (roles u) \<and>
      recruiters (db w') = recruiters (db w) @ [r] \<and> recUserId r = userId u \<and> recCompanyId r = invCompanyId v"
    using v x e(3) by (intro exI [of _ v] exI [of _ x]) (simp add: new_recruiter_def)
  show "acceptInvitation env' cr raw password' w' = (Inl (BadRequestException ''invitation''), w')"
    using spent_token [OF assms(2) v(1,2)] e(5) invitedAccount_invitations [OF assms(1) e(1)] by simp
next
  assume "revokeInvitation who i w = (Inr (), w2)"
  then obtain v where v: "v \<in> set (invitations (db w))" "invId v = i"
    and w2: "invitations (db w2) = upsert invId (v\<lparr>invStatus := INV_REVOKED\<rparr>) (invitations (db w))"
    unfolding revokeInvitation_def by (auto simp: returns dest!: find_SomeD)
  then show "\<exists>v \<in> set (invitations (db w)). invId v = i \<and> (invTokenHash v = sha256Hex cr raw \<longrightarrow>
      acceptInvitation env' cr raw password' w2 = (Inl (BadRequestException ''invitation''), w2))"
    using spent_token [OF assms(2) v(1) _ w2] by auto
qed


definition invitation0 :: invitation where
  "invitation0 = \<lparr>invId = 90, invCompanyId = 10, invEmail = ''new@x'', invTokenHash = ''tok'',
     invPosition = None, invStatus = INV_PENDING, invitedById = 1, invExpiresAt = 2000000000,
     invAcceptedAt = None, invCreatedAt = 0\<rparr>"

definition world_invited :: "user list \<Rightarrow> world" where
  "world_invited us = world0\<lparr>db := db0\<lparr>users := users db0 @ us, invitations := [invitation0]\<rparr>\<rparr>"

lemma team_ok_invited: "team_ok (world_invited [])"
  by (simp add: world_invited_def team_ok_def team_wf_def recruits_def index_ok_def sample_defs)

lemma invitation_single_use_witness:
  "\<exists>w' w2. acceptInvitation env0 crypto0 ''tok'' ''pw'' (world_invited []) = (Inr (), w') \<and>
     acceptInvitation env0 crypto0 ''tok'' ''pw'' w' = (Inl (BadRequestException ''invitation''), w') \<and>
     revokeInvitation 1 90 (world_invited []) = (Inr (), w2) \<and>
     acceptInvitation env0 crypto0 ''tok'' ''pw'' w2 = (Inl (BadRequestException ''invitation''), w2)"
proof -
  have "case fst (acceptInvitation env0 crypto0 ''tok'' ''pw'' (world_invited [])) of Inl e \<Rightarrow> False | Inr r \<Rightarrow> True"
    by code_simp
  then obtain w' where a: "acceptInvitation env0 crypto0 ''tok'' ''pw'' (world_invited []) = (Inr (), w')"
    by (cases "acceptInvitation env0 crypto0 ''tok'' ''pw'' (world_invited [])") (auto split: sum.splits)
  have "case fst (revokeInvitation 1 90 (world_invited [])) of Inl e \<Rightarrow> False | Inr r \<Rightarrow> True" by code_simp
  then obtain w2 where r: "revokeInvitation 1 90 (world_invited []) = (Inr (), w2)"
    by (cases "revokeInvitation 1 90 (world_invited [])") (auto split: sum.splits)
  have "invitations_ok (db (world_invited []))" by (simp add: invitations_ok_def world_invited_def)
  note closed = invitation_single_use [OF team_ok_invited this, of env0 crypto0 "''tok''" "''pw''" w' env0 "''pw''" 1 90 w2]
  have "\<forall>v \<in> set (invitations (db (world_invited []))). invTokenHash v = sha256Hex crypto0 ''tok''"
    by (simp add: world_invited_def invitation0_def crypto0_def)
  with a r closed show ?thesis by blast
qed

section \<open>An invitation to an address registered by somebody else\<close>

lemma find_map_same: "(\<And>x. P (f x) = P x) \<Longrightarrow> List.find P (map f xs) = map_option f (List.find P xs)"
  by (induction xs) auto

definition grant1 :: "role \<Rightarrow> user \<Rightarrow> user \<Rightarrow> user" where
  "grant1 ro u x = (if ro \<notin> set (roles u) \<and> userId x = userId u then x\<lparr>roles := roles u @ [ro]\<rparr> else x)"

lemma granted_map: "granted ro u us = map (grant1 ro u) us"
  by (cases "ro \<in> set (roles u)") (simp_all add: granted_def grant1_def set_roles_def update_where_def map_idI)

text \<open>Accepting an invitation for an address that has an unverified account verifies and
  activates that account, gives it the recruiter role, and ignores the password that was chosen:
  the one the account was registered with, by whoever did it, logs in.\<close>

theorem invitation_keeps_password:
  assumes ok: "team_ok w" and run: "acceptInvitation env cr raw chosen w = (Inr (), w')"
    and v: "List.find (\<lambda>v. invTokenHash v = sha256Hex cr raw \<and> pending env v) (invitations (db w)) = Some v"
    and u: "List.find (\<lambda>u. email u = invEmail v) (users (db w)) = Some u" "\<not> emailVerified u" "\<not> mfaEnabled u"
    and old: "argonVerify cr (passwordHash u) old = Some True" "toLowerCase e = invEmail v"
  shows "\<exists>u'. List.find (\<lambda>x. email x = invEmail v) (users (db w')) = Some u' \<and> userId u' = userId u \<and>
    passwordHash u' = passwordHash u \<and> emailVerified u' \<and> userStatus u' = U_ACTIVE \<and>
    RECRUITER \<in> set (roles u') \<and> login env' cr e old w' = open_session env' cr u' w'"
proof -
  have "enrol env cr v chosen w = (Inr (), w')"
    using run by (rule acceptInvitation_Inr) (use v in simp)
  with ok obtain w1 x j where acc: "invitedAccount env cr v chosen w = (Inr (userId x), w1)"
    and x: "x \<in> set (users (db w1))" and "recruiters (db w1) = recruiters (db w)"
    "recruiters (db w') = recruiters (db w) @ [new_recruiter env j (userId x) (invCompanyId v) (invPosition v)]"
    and us: "users (db w') = granted RECRUITER x (users (db w1))"
    and "invitations (db w') = upsert invId (v\<lparr>invStatus := INV_ACCEPTED, invAcceptedAt := Some (now env)\<rparr>) (invitations (db w1))"
    and ok1: "team_ok w1"
    by (rule enrol_Inr)
  have "users (db w1) = vouched (userId u) (users (db w)) \<and> userId x = userId u"
    using ok acc
  proof (cases rule: invitedAccount_cases)
    case (existing y)
    have "y = u" using existing(1) u(1) by simp
    with existing(2) u(2) show ?thesis by (simp add: existing(5))
  qed (use u(1) in simp_all)
  then have w1: "users (db w1) = vouched (userId u) (users (db w))" and id: "userId x = userId u" by auto
  let ?f = "\<lambda>y. if userId y = userId u then y\<lparr>emailVerified := True, userStatus := U_ACTIVE\<rparr> else y"
  let ?u = "grant1 RECRUITER x (?f u)"
  have "users (db w') = map (\<lambda>y. grant1 RECRUITER x (?f y)) (users (db w))"
    unfolding us granted_map w1 vouched_def update_where_def by simp
  moreover have "email (grant1 RECRUITER x (?f y)) = email y" for y by (simp add: grant1_def)
  ultimately have find: "List.find (\<lambda>x. email x = invEmail v) (users (db w')) = Some ?u"
    using u(1) by (simp add: find_map_same)
  have "?f u \<in> set (users (db w1))"
    unfolding w1 vouched_def update_where_def set_map using u(1) by (intro imageI) (auto dest: find_SomeD)
  then have "x = ?f u" using x id ok1 unfolding team_ok_def team_wf_def distinct_map inj_on_def by simp
  then have ro: "RECRUITER \<in> set (roles ?u)" by (simp add: grant1_def)
  have u': "passwordHash ?u = passwordHash u" "emailVerified ?u" "userStatus ?u = U_ACTIVE"
    "mfaEnabled ?u = mfaEnabled u" "userId ?u = userId u"
    by (simp_all add: grant1_def)
  have "login env' cr e old w' = open_session env' cr ?u w'"
    using login_eq [of e w' ?u cr old env'] find old u(3) u' by simp
  with find ro u' show ?thesis by blast
qed

lemma invitation_keeps_password_witness:
  "\<exists>w' u'. acceptInvitation env0 crypto0 ''tok'' ''mine''
       (world_invited [(user0 3 ''new@x'' [CANDIDATE])\<lparr>emailVerified := False, userStatus := U_PENDING_VERIFICATION\<rparr>])
       = (Inr (), w') \<and>
     login env0 crypto0 ''new@x'' ''h'' w' = open_session env0 crypto0 u' w' \<and> RECRUITER \<in> set (roles u')"
proof -
  let ?u = "(user0 3 ''new@x'' [CANDIDATE])\<lparr>emailVerified := False, userStatus := U_PENDING_VERIFICATION\<rparr>"
  let ?w = "world_invited [?u]"
  have "case fst (acceptInvitation env0 crypto0 ''tok'' ''mine'' ?w) of Inl e \<Rightarrow> False | Inr r \<Rightarrow> True"
    by code_simp
  then obtain w' where a: "acceptInvitation env0 crypto0 ''tok'' ''mine'' ?w = (Inr (), w')"
    by (cases "acceptInvitation env0 crypto0 ''tok'' ''mine'' ?w") (auto split: sum.splits)
  have ok: "team_ok ?w"
    by (simp add: world_invited_def team_ok_def team_wf_def recruits_def index_ok_def sample_defs)
  have "List.find (\<lambda>v. invTokenHash v = sha256Hex crypto0 ''tok'' \<and> pending env0 v) (invitations (db ?w)) = Some invitation0"
    by (simp add: world_invited_def invitation0_def crypto0_def pending_def env0_def)
  moreover have "List.find (\<lambda>u. email u = invEmail invitation0) (users (db ?w)) = Some ?u"
    by (simp add: world_invited_def invitation0_def sample_defs)
  moreover have "toLowerCase ''new@x'' = invEmail invitation0" by (simp add: invitation0_def toLowerCase_def lower_char_def)
  moreover have "argonVerify crypto0 (passwordHash ?u) ''h'' = Some True" "\<not> emailVerified ?u" "\<not> mfaEnabled ?u"
    by (simp_all add: crypto0_def user0_def)
  ultimately show ?thesis using invitation_keeps_password [OF ok a] a by blast
qed


section \<open>Opening a company\<close>

definition founded :: "env \<Rightarrow> user \<Rightarrow> company \<Rightarrow> uuid \<Rightarrow> db \<Rightarrow> db" where
  "founded env u c i d = d\<lparr>companies := companies d @ [c],
     recruiters := recruiters d @ [new_recruiter env i (userId u) (coId c) None],
     users := granted COMPANY_ADMIN u (users d)\<rparr>"

lemma foundCompany_cases:
  assumes ok: "team_ok w" and free: "userId u \<notin> recUserId ` set (recruiters (db w))"
    and ids: "\<forall>c \<in> set (companies (db w)). coId c < nextId w"
    and run: "foundCompany env u name ic reg w = (r, w')"
  obtains (rejected) e where "r = Inl e" "db w' = db w"
  | (accepted) c w1 where "c = new_company (nextId w) name (Some ic) reg"
      "db w1 = founded env u c (Suc (nextId w)) (db w)" "nextId w1 = Suc (Suc (nextId w))"
      "startTrial env (userId u) c w1 = (r, w')"
proof -
  let ?c = "new_company (nextId w) name (Some ic) reg"
  let ?n = "new_recruiter env (Suc (nextId w)) (userId u) (coId ?c) None"
  let ?w = "w\<lparr>nextId := Suc (nextId w)\<rparr>"
  have draw: "freshId v = (Inr (nextId v), v\<lparr>nextId := Suc (nextId v)\<rparr>)" for v by (simp add: freshId_def)
  have "coId ?c \<notin> coId ` set (companies (db w))" using ids by (fastforce simp: new_company_def)
  then have up: "upsert coId ?c (companies (db w)) = companies (db w) @ [?c]" by (rule upsert_new)
  show ?thesis
  proof (cases "company_violated (companies (db w) @ [?c])")
    case (Some k)
    with up have "saveCompany ?c ?w = (Inl (UniqueViolation k), ?w)"
      by (simp add: saveCompany_def save_into_def checked_save_def)
    with run have "r = Inl (UniqueViolation k)" "w' = ?w"
      by (simp_all add: foundCompany_def bindE_Inr [where m = freshId, OF draw])
    then show ?thesis using that(1) by simp
  next
    case None
    let ?w1 = "?w\<lparr>db := (db w)\<lparr>companies := companies (db w) @ [?c]\<rparr>\<rparr>"
    have sc: "saveCompany ?c ?w = (Inr ?c, ?w1)"
      using None up by (simp add: saveCompany_def save_into_def checked_save_def)
    have ok1: "team_ok ?w1" using ok by (simp add: team_ok_def team_wf_later)
    obtain t w2 where sr: "saveRecruiter ?n (?w1\<lparr>nextId := Suc (Suc (nextId w))\<rparr>) = (t, w2)" by fastforce
    have le: "nextId ?w1 \<le> Suc (nextId w)" by simp
    show ?thesis using ok1 le sr
    proof (cases rule: saveRecruiter_cases)
      case taken
      with free show ?thesis by simp
    next
      case hired
      let ?w3 = "w2\<lparr>db := (db w2)\<lparr>users := granted COMPANY_ADMIN u (users (db w2))\<rparr>\<rparr>"
      have sr': "saveRecruiter ?n (?w1\<lparr>nextId := Suc (nextId ?w1)\<rparr>) = (Inr ?n, w2)" using sr hired(2) by simp
      have n1: "nextId ?w1 = Suc (nextId w)" by simp
      have "startTrial env (userId u) ?c ?w3 = (r, w')"
        using run unfolding foundCompany_def
        by (simp only: bindE_Inr [where m = freshId, OF draw] bindE_Inr [where m = "saveCompany ?c", OF sc] n1
            bindE_Inr [where m = "saveRecruiter ?n", OF sr' [unfolded n1]] bindE_Inr [OF grant_eq])
      moreover have "db ?w3 = founded env u ?c (Suc (nextId w)) (db w)"
        by (simp add: hired(3) founded_def)
      moreover have "nextId ?w3 = Suc (Suc (nextId w))" by (simp add: hired(3))
      ultimately show ?thesis using that(2) by blast
    qed
  qed
qed

lemma startTrial_Inl:
  assumes "startTrial env who c w = (Inl e, w')"
  shows "recruiters (db w') = recruiters (db w) \<and> users (db w') = users (db w)"
proof -
  have "moves same_team (startTrial env who c)"
    unfolding startTrial_def
    by (intro aside_saves aside.moves_rules aside.moves_outside [OF outside_settings(2)]
        aside.moves_outside [OF outside_columns(1)] aside.moves_outside [OF outside_columns(2)])
  from movesD [OF this assms] show ?thesis by (simp add: same_team_def)
qed

lemma startTrial_Inr:
  assumes "startTrial env who c w = (Inr (c', s), w')" "\<forall>s \<in> set (subscriptions (db w)). subId s < nextId w"
  shows "c' = c \<and> subCompanyId s = coId c \<and> subStatus s = TRIAL \<and> subPlan s = STARTER \<and> contactsUsed s = 0 \<and>
    db w' = (db w)\<lparr>subscriptions := subscriptions (db w) @ [s]\<rparr>"
proof -
  have *: "trialEnd env n v = (Inr d, v') \<Longrightarrow> v' = v" "integerColumn n v = (Inr q, v') \<Longrightarrow> v' = v"
    "getNumber env k f v = (Inr x, v') \<Longrightarrow> v' = v" for n v v' d q k f x
    by (auto simp: trialEnd_def integerColumn_def getNumber_def getSetting_def returns split: js_number.splits if_splits)
  from assms(1) show ?thesis
    unfolding startTrial_def
    by (auto simp: returns saveSubscription_def save_into_Inr dest!: * split: if_splits)
      (subst upsert_new, use assms(2) in force, simp)+
qed

text \<open>Opening a company gives the caller a company of its own with the given registration
  number, the administrator role, and one trial subscription with no credit used, which is what
  the caller's company page then shows. When it fails, either nothing was written or the caller
  stays attached to a company that may have no subscription, and asking again is refused.\<close>

theorem company_creation:
  assumes ok: "team_ok w" and ids: "\<forall>c \<in> set (companies (db w)). coId c < nextId w"
    "\<forall>s \<in> set (subscriptions (db w)). subId s < nextId w \<and> subCompanyId s < nextId w"
    and run: "createCompany env who name ic reg w = (r, w')"
  shows "case r of
      Inr (c, s) \<Rightarrow> companies (db w') = companies (db w) @ [c] \<and> ice c = Some ic \<and>
        subscriptions (db w') = subscriptions (db w) @ [s] \<and> subStatus s = TRIAL \<and> subPlan s = STARTER \<and>
        contactsUsed s = 0 \<and> getMyCompany who w' = (Inr (c, Some s), w') \<and>
        (\<exists>u \<in> set (users (db w')). userId u = who \<and> COMPANY_ADMIN \<in> set (roles u))
    | Inl e \<Rightarrow> db w' = db w \<or>
        (\<forall>env' name' ic' reg'. (\<exists>u. List.find (\<lambda>u. userId u = who) (users (db w')) = Some u \<and> emailVerified u) \<and>
          createCompany env' who name' ic' reg' w' = (Inl (ConflictException ''attached''), w'))"
proof -
  have "(\<exists>e. r = Inl e \<and> w' = w) \<or>
      (\<exists>u. List.find (\<lambda>u. userId u = who) (users (db w)) = Some u \<and> emailVerified u \<and>
         recruiterOf (db w) who = None \<and> foundCompany env u name ic reg w = (r, w'))"
    using run unfolding createCompany_def
    by (auto simp: bindE_def require_def someOr_def findRecruiterOf_def split: if_splits option.splits)
  then show ?thesis
  proof (elim disjE exE conjE)
    fix u assume u: "List.find (\<lambda>u. userId u = who) (users (db w)) = Some u" "emailVerified u"
      and free: "recruiterOf (db w) who = None" and run: "foundCompany env u name ic reg w = (r, w')"
    have who: "userId u = who" and mem: "u \<in> set (users (db w))" using u(1) by (auto dest: find_SomeD)
    have free': "userId u \<notin> recUserId ` set (recruiters (db w))" using free who by (simp add: recruiterOf_None)
    show ?thesis using ok free' ids(1) run
    proof (cases rule: foundCompany_cases)
      case rejected
      then show ?thesis by simp
    next
      case (accepted c w1)
      let ?n = "new_recruiter env (Suc (nextId w)) who (coId c) None"
      have co: "coId c = nextId w" "ice c = Some ic" by (simp_all add: accepted(1) new_company_def)
      have rec1: "recruiterOf d who = Some ?n" if "recruiters d = recruiters (db w1)" for d
        using free that by (simp add: recruiterOf_def accepted(2) founded_def who find_append new_recruiter_def)
      have users1: "users (db w1) = map (grant1 COMPANY_ADMIN u) (users (db w))"
        by (simp add: accepted(2) founded_def granted_map)
      show ?thesis
      proof (cases r)
        case (Inl e)
        with startTrial_Inl accepted(4) have same: "recruiters (db w') = recruiters (db w1)"
          "users (db w') = users (db w1)" by blast+
        have find: "List.find (\<lambda>u. userId u = who) (users (db w')) = Some (grant1 COMPANY_ADMIN u u)"
          using u(1) unfolding same users1 by (subst find_map_same) (simp_all add: grant1_def)
        moreover have ev: "emailVerified (grant1 COMPANY_ADMIN u u)" using u(2) by (simp add: grant1_def)
        ultimately show ?thesis using rec1 [OF same(1)] Inl
          by (simp add: createCompany_def findRecruiterOf_def bindE_def require_def someOr_def)
      next
        case (Inr p)
        obtain c' s where p: "p = (c', s)" by fastforce
        have subs1: "subscriptions (db w1) = subscriptions (db w)" by (simp add: accepted(2) founded_def)
        have "\<forall>s \<in> set (subscriptions (db w1)). subId s < nextId w1"
          using ids(2) unfolding subs1 accepted(3) by auto
        with startTrial_Inr accepted(4) Inr p have s: "c' = c" "subCompanyId s = coId c" "subStatus s = TRIAL"
          "subPlan s = STARTER" "contactsUsed s = 0"
          "db w' = (db w1)\<lparr>subscriptions := subscriptions (db w1) @ [s]\<rparr>" by blast+
        have comp: "companies (db w') = companies (db w) @ [c]" by (simp add: s(6) accepted(2) founded_def)
        have rec: "recruiterOf (db w') who = Some ?n" by (rule rec1) (simp add: s(6))
        have "List.find (\<lambda>x. coId x = coId c) (companies (db w)) = None"
          using ids(1) co by (auto simp: find_None_iff)
        then have fc: "List.find (\<lambda>x. coId x = coId c) (companies (db w')) = Some c"
          by (simp add: comp find_append)
        have "filter (\<lambda>x. subCompanyId x = coId c) (subscriptions (db w)) = []"
          using ids(2) co by (auto simp: filter_empty_conv)
        then have "latest_subscription (db w') (coId c) = Some s"
          by (simp add: latest_subscription_def find_latest_def s(2,6) subs1)
        then have "getMyCompany who w' = (Inr (c, Some s), w')"
          using rec fc by (simp add: getMyCompany_def findRecruiterOf_def bindE_def someOr_def new_recruiter_def)
        moreover have "\<exists>x \<in> set (users (db w')). userId x = who \<and> COMPANY_ADMIN \<in> set (roles x)"
          using granted_has [OF mem, of COMPANY_ADMIN] by (simp add: s(6) users1 granted_map who)
        ultimately show ?thesis using Inr p s co comp by (simp add: subs1)
      qed
    qed
  qed simp
qed


definition env_audit_down :: env where
  "env_audit_down = env0\<lparr>auditFails := (\<lambda>_. True)\<rparr>"

lemma company_creation_witness:
  "\<exists>c s w' e w2. createCompany env0 2 ''Rif'' ''002'' None world0 = (Inr (c, s), w') \<and>
     getMyCompany 2 w' = (Inr (c, Some s), w') \<and>
     createCompany env_audit_down 2 ''Rif'' ''002'' None world0 = (Inl e, w2) \<and>
     createCompany env0 2 ''Rif'' ''002'' None w2 = (Inl (ConflictException ''attached''), w2)"
proof -
  have ids: "\<forall>c \<in> set (companies (db world0)). coId c < nextId world0"
    "\<forall>s \<in> set (subscriptions (db world0)). subId s < nextId world0 \<and> subCompanyId s < nextId world0"
    by (simp_all add: sample_defs)
  have "case fst (createCompany env0 2 ''Rif'' ''002'' None world0) of Inl e \<Rightarrow> False | Inr r \<Rightarrow> True"
    by code_simp
  then obtain c s w' where a: "createCompany env0 2 ''Rif'' ''002'' None world0 = (Inr (c, s), w')"
    by (cases "createCompany env0 2 ''Rif'' ''002'' None world0") (auto split: sum.splits)
  have "case createCompany env_audit_down 2 ''Rif'' ''002'' None world0 of (x, w2) \<Rightarrow>
      (case x of Inl e \<Rightarrow> length (recruiters (db w2)) = 2 | Inr r \<Rightarrow> False)"
    by code_simp
  then obtain e w2 where b: "createCompany env_audit_down 2 ''Rif'' ''002'' None world0 = (Inl e, w2)"
    and two: "length (recruiters (db w2)) = 2"
    by (cases "createCompany env_audit_down 2 ''Rif'' ''002'' None world0") (auto split: sum.splits)
  have "length (recruiters (db world0)) = 1" by (simp add: sample_defs)
  with two have "db w2 \<noteq> db world0" by auto
  with company_creation [OF team_ok_world0 ids b]
  have "createCompany env0 2 ''Rif'' ''002'' None w2 = (Inl (ConflictException ''attached''), w2)" by simp
  with a b company_creation [OF team_ok_world0 ids a] show ?thesis by auto
qed

end
