(* ===== verification/Assessments.thy ===== *)
theory Assessments
  imports Settings Team Crypto
begin

text \<open>
  Attempts at a test: \<open>assessments/assessment.service.ts\<close>, \<open>assessments/cooldown.ts\<close>, the port
  \<open>ports/scoring.port.ts\<close> to the scoring provider and its stub
  \<open>adapters/scoring/stub-scoring.adapter.ts\<close>. The provider is a record of operations; the locale
  \<open>scoring_port\<close> states what a client relies on, that no operation touches the database, and the
  stub satisfies it.
\<close>

section \<open>The scoring port\<close>

record assessment_result =
  arExternalId :: string
  arScore :: rat
  arMaxScore :: rat
  arPercentile :: "rat option"
  arVerdict :: string
  arDomainFeedback :: "domain_feedback list"
  arTechnical :: "rat option"
  arPsychotechnical :: "rat option"
  arFingerprint :: "string option"

record scoring_provider =
  createExternal :: "uuid \<Rightarrow> uuid \<Rightarrow> uuid \<Rightarrow> (string \<times> string) service"
  getResult :: "string \<Rightarrow> assessment_result option service"
  verifyScoring :: "string \<Rightarrow> string \<Rightarrow> (bool \<times> string option) service"

locale scoring_port =
  fixes create :: "uuid \<Rightarrow> uuid \<Rightarrow> uuid \<Rightarrow> (string \<times> string) service"
    and result :: "string \<Rightarrow> assessment_result option service"
    and verify :: "string \<Rightarrow> string \<Rightarrow> (bool \<times> string option) service"
  assumes create_outside: "outside_db (create c s t)"
    and result_outside: "outside_db (result e)"
    and verify_outside: "outside_db (verify p g)"
begin

lemmas outside = create_outside result_outside verify_outside

lemma create_db: "create c s t w = (r, w') \<Longrightarrow> db w' = db w \<and> nextId w \<le> nextId w'"
  by (rule outside_dbD [OF create_outside])

lemma result_db: "result e w = (r, w') \<Longrightarrow> db w' = db w \<and> nextId w \<le> nextId w'"
  by (rule outside_dbD [OF result_outside])

lemma verify_db: "verify p g w = (r, w') \<Longrightarrow> db w' = db w \<and> nextId w \<le> nextId w'"
  by (rule outside_dbD [OF verify_outside])

end

abbreviation port_ok :: "scoring_provider \<Rightarrow> bool" where
  "port_ok sp \<equiv> scoring_port (createExternal sp) (getResult sp) (verifyScoring sp)"

section \<open>The stub provider\<close>

text \<open>\<open>digest\<close> is SHA-256 as bytes, \<open>hmacHex\<close> the keyed digest in hexadecimal and
  \<open>jsonExternalId\<close> the text property \<open>externalId\<close> of a JSON document, \<open>None\<close> when there is none or
  the text is not JSON.\<close>

record stub_deps =
  digest :: "string \<Rightarrow> nat list"
  hmacHex :: "string \<Rightarrow> string \<Rightarrow> string"
  jsonExternalId :: "string \<Rightarrow> string option"

text \<open>The names with their accents, in Latin-1 codes.\<close>

definition STUB_DOMAINS :: "string list" where
  "STUB_DOMAINS = [''Algorithmes'', ''Structures de donn'' @ [CHR 0xE9] @ ''es'',
     ''Bases de donn'' @ [CHR 0xE9] @ ''es'', ''Syst'' @ [CHR 0xE8] @ ''me & r'' @ [CHR 0xE9] @ ''seaux'']"

definition levelForIndex :: "rat \<Rightarrow> nat \<Rightarrow> nat \<Rightarrow> feedback_level" where
  "levelForIndex s i n =
     (let strongCount = roundRat (s / 100 * of_nat n);
          weakCount = roundRat ((100 - s) / 100 * of_nat n)
      in if int i < strongCount then STRONG
         else if int n - weakCount \<le> int i then WEAK else MEDIUM)"

definition buildStubDomainFeedback :: "rat \<Rightarrow> domain_feedback list" where
  "buildStubDomainFeedback s =
     map (\<lambda>(i, d). \<lparr>fbDomain = d, fbLevel = levelForIndex s i (length STUB_DOMAINS)\<rparr>)
       (enumerate 0 STUB_DOMAINS)"

definition stubCreate :: "uuid \<Rightarrow> uuid \<Rightarrow> uuid \<Rightarrow> (string \<times> string) service" where
  "stubCreate candidateId specialtyId testId =
     bindE freshId (\<lambda>i. ret (dec i, ''https://stub-scoring.local/assessment/'' @ dec i))"

definition stubResult :: "stub_deps \<Rightarrow> string \<Rightarrow> assessment_result option service" where
  "stubResult sd externalId =
     (let hash = digest sd externalId;
          technical = of_nat (hash ! 0 mod 101);
          psycho = of_nat (hash ! 1 mod 101);
          s = of_int (roundRat (technical * 6 / 10 + psycho * 4 / 10))
      in ret (Some \<lparr>arExternalId = externalId, arScore = s, arMaxScore = 100, arPercentile = Some 55,
           arVerdict = ''clean'', arDomainFeedback = buildStubDomainFeedback s,
           arTechnical = Some technical, arPsychotechnical = Some psycho,
           arFingerprint = Some (''stub-'' @ externalId)\<rparr>))"

definition stubVerify :: "env \<Rightarrow> stub_deps \<Rightarrow> string \<Rightarrow> string \<Rightarrow> (bool \<times> string option) service" where
  "stubVerify env sd payload signature =
     (let secret = (case cfgString env ''scoring.webhookSecret'' of None \<Rightarrow> [] | Some s \<Rightarrow> s) in
      if secret = [] \<or> signature = [] then ret (False, None)
      else if hmacHex sd secret payload \<noteq> signature then ret (False, None)
      else ret (True, jsonExternalId sd payload))"

definition stubProvider :: "env \<Rightarrow> stub_deps \<Rightarrow> scoring_provider" where
  "stubProvider env sd = \<lparr>createExternal = stubCreate, getResult = stubResult sd,
     verifyScoring = stubVerify env sd\<rparr>"

interpretation stub: scoring_port stubCreate "stubResult sd" "stubVerify env sd" for sd env
  by unfold_locales
    (auto simp: stubCreate_def stubResult_def stubVerify_def Let_def intro!: keeping)

lemma stub_port: "port_ok (stubProvider env sd)"
  using stub.scoring_port_axioms by (simp add: stubProvider_def)

section \<open>Settings with a default\<close>

text \<open>\<open>getNumber(key).then((v) => v ?? fallback)\<close>\<close>

definition numberOr :: "env \<Rightarrow> string \<Rightarrow> rat \<Rightarrow> js_number service" where
  "numberOr env key d =
     bindE (getNumber env key None) (\<lambda>v. ret (case v of None \<Rightarrow> Finite d | Some n \<Rightarrow> n))"

lemma numberOr_returns: "\<exists>n. numberOr env key d w = (Inr n, w)"
  by (simp add: numberOr_def getNumber_def getSetting_def bindE_def)

lemma numberOr_Inr [returns]: "numberOr env key d w = (Inr n, w') \<Longrightarrow> w' = w"
  by (auto simp: numberOr_def getNumber_def getSetting_def bindE_def)

lemma outside_numberOr [keeping]: "outside_db (numberOr env key d)"
  unfolding numberOr_def getNumber_def getSetting_def by (intro keeping)

section \<open>The cooldown\<close>

definition DEFAULT_COOLDOWN_DAYS :: rat where "DEFAULT_COOLDOWN_DAYS = 90"
definition COOLDOWN_SETTINGS_KEY :: string where "COOLDOWN_SETTINGS_KEY = ''assessment_cooldown_days''"

text \<open>\<open>None\<close> is an invalid date: every comparison with it is false.\<close>

definition date_limit :: int where
  "date_limit = 8640000000000000"

definition valid_date :: "int \<Rightarrow> date option" where
  "valid_date t = (if \<bar>t\<bar> \<le> date_limit then Some t else None)"

definition computeCooldownEnd :: "env \<Rightarrow> date \<Rightarrow> js_number \<Rightarrow> date option" where
  "computeCooldownEnd env d n = (case n of
     Finite q \<Rightarrow> valid_date (addDays env d (towardsZero q))
   | _ \<Rightarrow> None)"

definition isAfter :: "date option \<Rightarrow> date \<Rightarrow> bool" where
  "isAfter d t = (case d of None \<Rightarrow> False | Some e \<Rightarrow> t < e)"

section \<open>The service\<close>

definition MULTI_ACCOUNT_WINDOW_KEY :: string where
  "MULTI_ACCOUNT_WINDOW_KEY = ''anti_cheat_multi_account_window_hours''"
definition DEFAULT_MULTI_ACCOUNT_WINDOW_HOURS :: rat where
  "DEFAULT_MULTI_ACCOUNT_WINDOW_HOURS = 24"
definition PROCTORING_LEAVE_FLAG_THRESHOLD_KEY :: string where
  "PROCTORING_LEAVE_FLAG_THRESHOLD_KEY = ''anti_cheat_proctoring_leave_threshold''"
definition DEFAULT_PROCTORING_LEAVE_FLAG_THRESHOLD :: rat where
  "DEFAULT_PROCTORING_LEAVE_FLAG_THRESHOLD = 5"
definition PROCTORING_LEAVE_HARD_THRESHOLD_KEY :: string where
  "PROCTORING_LEAVE_HARD_THRESHOLD_KEY = ''anti_cheat_proctoring_leave_hard_threshold''"
definition DEFAULT_PROCTORING_LEAVE_HARD_THRESHOLD :: rat where
  "DEFAULT_PROCTORING_LEAVE_HARD_THRESHOLD = 10"

text \<open>An open attempt of a candidate at a test.\<close>

definition active_attempt :: "uuid \<Rightarrow> uuid \<Rightarrow> assessment \<Rightarrow> bool" where
  "active_attempt c t a \<longleftrightarrow> asCandidateId a = c \<and> asTestId a = t \<and>
     (asStatus a = AS_PENDING \<or> asStatus a = AS_IN_PROGRESS)"

definition completed_attempt :: "uuid \<Rightarrow> uuid \<Rightarrow> assessment \<Rightarrow> bool" where
  "completed_attempt c t a \<longleftrightarrow>
     asCandidateId a = c \<and> asTestId a = t \<and> asStatus a = AS_COMPLETED"

text \<open>\<open>ORDER BY completed_at DESC\<close> puts a row without a date first.\<close>

definition last_completed :: "uuid \<Rightarrow> uuid \<Rightarrow> assessment list \<Rightarrow> assessment option" where
  "last_completed c t as =
     (case List.find (\<lambda>a. completed_attempt c t a \<and> completedAt a = None) as of
        Some a \<Rightarrow> Some a
      | None \<Rightarrow> find_latest (\<lambda>a. the (completedAt a)) (completed_attempt c t) as)"

definition checkEligibility :: "env \<Rightarrow> uuid \<Rightarrow> uuid \<Rightarrow> unit service" where
  "checkEligibility env c t =
     bindE (gets (\<lambda>w. List.find (active_attempt c t) (assessments (db w)))) (\<lambda>running.
     bindE (require (running = None) (ConflictException ''in-progress'')) (\<lambda>_.
     bindE (numberOr env COOLDOWN_SETTINGS_KEY DEFAULT_COOLDOWN_DAYS) (\<lambda>days.
     bindE (gets (\<lambda>w. last_completed c t (assessments (db w)))) (\<lambda>done.
     case Option.bind done completedAt of
       None \<Rightarrow> ret ()
     | Some d \<Rightarrow> require (\<not> isAfter (computeCooldownEnd env d days) (now env))
                   (ConflictException ''cooldown'')))))"

definition detectMultiAccount :: "env \<Rightarrow> uuid \<Rightarrow> string option \<Rightarrow> bool service" where
  "detectMultiAccount env c fingerprint =
     (case fingerprint of
        None \<Rightarrow> ret False
      | Some fp \<Rightarrow>
          bindE (numberOr env MULTI_ACCOUNT_WINDOW_KEY DEFAULT_MULTI_ACCOUNT_WINDOW_HOURS) (\<lambda>hours.
          bindE (someOr (InternalServerErrorException ''invalid-date'')
                   (case hours of Finite q \<Rightarrow> valid_date (towardsZero (of_int (now env) - q * 3600000))
                    | _ \<Rightarrow> None)) (\<lambda>since.
          gets (\<lambda>w. 0 < count_where (\<lambda>a. deviceFingerprint a = Some fp \<and> asCandidateId a \<noteq> c \<and>
                  since \<le> asCreatedAt a) (assessments (db w))))))"

definition assessmentEvent :: "uuid \<Rightarrow> audit_action \<Rightarrow> uuid \<Rightarrow> audit_entry" where
  "assessmentEvent who action i =
     \<lparr>actorId = Some who, auAction = action, entityType = ''assessment'', entityId = i\<rparr>"

definition new_attempt ::
  "env \<Rightarrow> uuid \<Rightarrow> string \<Rightarrow> uuid \<Rightarrow> exam_test \<Rightarrow> string \<Rightarrow> string option \<Rightarrow> string option \<Rightarrow> bool \<Rightarrow>
   assessment" where
  "new_attempt env i token c t externalId ip fp flagged =
     \<lparr>asId = i, asCandidateId = c, asTestId = tsId t, externalAssessmentId = Some externalId,
      asStatus = AS_IN_PROGRESS, resumeToken = Some token,
      asExpiresAt = Some (now env + tsDurationMinutes t * 60000), startedAt = Some (now env),
      completedAt = None, cooldownNotifiedAt = None, asIpAddress = ip, deviceFingerprint = fp,
      multiAccountFlagged = flagged, tabSwitchCount = 0, windowBlurCount = 0,
      proctoringFlagged = False, assignedTestVersion = Some (tsVersion t), asCreatedAt = now env\<rparr>"

text \<open>The second half of \<open>startAssessment\<close>, once the candidate is eligible.\<close>

definition openAttempt ::
  "scoring_provider \<Rightarrow> crypto \<Rightarrow> env \<Rightarrow> uuid \<Rightarrow> exam_test \<Rightarrow> string option \<Rightarrow> string option \<Rightarrow> bool \<Rightarrow>
   (assessment \<times> string) service" where
  "openAttempt sp cr env c t ip fp flagged =
     bindE (createExternal sp c (tsSpecialtyId t) (tsId t)) (\<lambda>(externalId, url).
     bindE freshId (\<lambda>draw.
     bindE freshId (\<lambda>i.
     bindE (saveAssessment (new_attempt env i (uuidv4 cr draw) c t externalId ip fp flagged)) (\<lambda>saved.
     bindE (auditLog env (assessmentEvent c ASSESSMENT_STARTED (asId saved))) (\<lambda>_.
     bindE (if flagged then auditLog env (assessmentEvent c ASSESSMENT_MULTI_ACCOUNT_FLAGGED (asId saved))
            else ret ()) (\<lambda>_.
     bindE (track env A_TEST_STARTED (Some c)) (\<lambda>_.
     ret (saved, url))))))))"

definition startAssessment ::
  "scoring_provider \<Rightarrow> crypto \<Rightarrow> env \<Rightarrow> uuid \<Rightarrow> uuid \<Rightarrow> string option \<Rightarrow> string option \<Rightarrow>
   (assessment \<times> string) service" where
  "startAssessment sp cr env c testId ip fingerprint =
     bindE (gets (\<lambda>w. List.find (\<lambda>t. tsId t = testId) (tests (db w)))) (\<lambda>found.
     bindE (someOr (NotFoundException ''test'') found) (\<lambda>t.
     bindE (require (tsActive t) (BadRequestException ''inactive-test'')) (\<lambda>_.
     bindE (checkEligibility env c testId) (\<lambda>_.
     bindE (ret (trimOrNone fingerprint)) (\<lambda>fp.
     bindE (detectMultiAccount env c fp) (\<lambda>flagged.
     openAttempt sp cr env c t (trimOrNone ip) fp flagged))))))"

text \<open>\<open>findOne\<close>, then the owner check, then the status check.\<close>

definition ownAttempt :: "uuid \<Rightarrow> uuid \<Rightarrow> assessment_status \<Rightarrow> string \<Rightarrow> assessment service" where
  "ownAttempt c i st message =
     bindE (gets (\<lambda>w. List.find (\<lambda>a. asId a = i) (assessments (db w)))) (\<lambda>found.
     bindE (someOr (NotFoundException ''assessment'') found) (\<lambda>a.
     bindE (require (asCandidateId a = c) (ForbiddenException ''denied'')) (\<lambda>_.
     bindE (require (asStatus a = st) (BadRequestException message)) (\<lambda>_.
     ret a))))"

definition scoring_url :: "string option \<Rightarrow> string" where
  "scoring_url e = ''https://scoring.local/assessment/'' @ (case e of None \<Rightarrow> ''null'' | Some x \<Rightarrow> x)"

definition resumeAssessment ::
  "crypto \<Rightarrow> env \<Rightarrow> uuid \<Rightarrow> uuid \<Rightarrow> string \<Rightarrow> (assessment \<times> string) service" where
  "resumeAssessment cr env c i token =
     bindE (ownAttempt c i AS_INCIDENT ''not-incident'') (\<lambda>a.
     bindE (require (resumeToken a = Some token) (ForbiddenException ''resume-token'')) (\<lambda>_.
     bindE freshId (\<lambda>draw.
     bindE (saveAssessment (a\<lparr>asStatus := AS_IN_PROGRESS, resumeToken := Some (uuidv4 cr draw)\<rparr>)) (\<lambda>saved.
     bindE (auditLog env (assessmentEvent c ASSESSMENT_RESUMED (asId saved))) (\<lambda>_.
     ret (saved, scoring_url (externalAssessmentId a)))))))"

definition reportIncident :: "env \<Rightarrow> uuid \<Rightarrow> uuid \<Rightarrow> assessment service" where
  "reportIncident env c i =
     bindE (ownAttempt c i AS_IN_PROGRESS ''not-in-progress'') (\<lambda>a.
     bindE (saveAssessment (a\<lparr>asStatus := AS_INCIDENT\<rparr>)) (\<lambda>saved.
     bindE (auditLog env (assessmentEvent c ASSESSMENT_INCIDENT (asId saved))) (\<lambda>_.
     ret saved)))"

text \<open>The row after a report of \<open>tabs\<close> and \<open>blurs\<close> events, for two thresholds.\<close>

definition leaves :: "assessment \<Rightarrow> js_number" where
  "leaves a = Finite (of_int (tabSwitchCount a + windowBlurCount a))"

definition observed :: "int \<Rightarrow> int \<Rightarrow> assessment \<Rightarrow> assessment" where
  "observed tabs blurs a = a\<lparr>tabSwitchCount := max (tabSwitchCount a) tabs,
     windowBlurCount := max (windowBlurCount a) blurs\<rparr>"

definition proctored :: "js_number \<Rightarrow> js_number \<Rightarrow> assessment \<Rightarrow> assessment" where
  "proctored threshold hard a =
     a\<lparr>proctoringFlagged := proctoringFlagged a \<or> jsLe threshold (leaves a),
       asStatus := (if jsLe hard (leaves a) then AS_INCIDENT else asStatus a)\<rparr>"

definition recordProctoringEvents :: "env \<Rightarrow> uuid \<Rightarrow> uuid \<Rightarrow> int \<Rightarrow> int \<Rightarrow> assessment service" where
  "recordProctoringEvents env c i tabs blurs =
     bindE (ownAttempt c i AS_IN_PROGRESS ''not-in-progress'') (\<lambda>a.
     bindE (numberOr env PROCTORING_LEAVE_FLAG_THRESHOLD_KEY DEFAULT_PROCTORING_LEAVE_FLAG_THRESHOLD)
       (\<lambda>threshold.
     bindE (numberOr env PROCTORING_LEAVE_HARD_THRESHOLD_KEY DEFAULT_PROCTORING_LEAVE_HARD_THRESHOLD)
       (\<lambda>hard.
     bindE (saveAssessment (proctored threshold hard (observed tabs blurs a))) (\<lambda>saved.
     bindE (if \<not> proctoringFlagged a \<and> proctoringFlagged saved
            then auditLog env (assessmentEvent c ASSESSMENT_PROCTORING_FLAGGED (asId saved))
            else ret ()) (\<lambda>_.
     bindE (if jsLe hard (leaves saved)
            then auditLog env (assessmentEvent c ASSESSMENT_INCIDENT (asId saved))
            else ret ()) (\<lambda>_.
     ret saved))))))"

end
