(* ===== verification/Questions.thy ===== *)
theory Questions
  imports Schema "HOL-Library.Word"
begin

text \<open>
  The bank of multiple-choice questions and the draw of an exam,
  \<open>assessments/assessment-questions.ts\<close>. The wording of a question and of its options is left out:
  a question keeps its identifier, its section, its domain, how many options it offers and the
  index of the right one. Names keep their accents (Latin-1 character codes).

  The draw is a shuffle driven by a 32-bit generator. The source computes with doubles, but every
  bit operation reads its operand modulo \<open>2 ^ 32\<close> and no sum leaves the exact integers, so the
  arithmetic is that of 32-bit words; \<open>Math.floor(rand() * (i + 1))\<close> is an exact quotient.
\<close>

unbundle bit_operations_syntax

section \<open>The bank\<close>

datatype question_type = TECHNICAL | PSYCHOTECHNICAL

record exam_question =
  qId :: string
  qType :: question_type
  qDomain :: string
  qOptions :: nat
  qCorrect :: nat

definition question :: "string \<Rightarrow> question_type \<Rightarrow> string \<Rightarrow> nat \<Rightarrow> nat \<Rightarrow> exam_question" where
  "question i t d n c = \<lparr>qId = i, qType = t, qDomain = d, qOptions = n, qCorrect = c\<rparr>"

fun timeLimitForType :: "question_type \<Rightarrow> int" where
  "timeLimitForType TECHNICAL = 90"
| "timeLimitForType PSYCHOTECHNICAL = 60"

definition PSYCHO :: "exam_question list" where
  "PSYCHO =
    [question ''psy-1'' PSYCHOTECHNICAL ''Logique'' 4 2,
     question ''psy-2'' PSYCHOTECHNICAL (''Num'' @ [CHR 0xE9] @ ''rique'') 4 2,
     question ''psy-3'' PSYCHOTECHNICAL ''Verbal'' 4 1,
     question ''psy-4'' PSYCHOTECHNICAL ''Logique'' 4 2,
     question ''psy-5'' PSYCHOTECHNICAL ''Logique'' 4 2,
     question ''psy-6'' PSYCHOTECHNICAL ''Raisonnement'' 4 2,
     question ''psy-7'' PSYCHOTECHNICAL (''Num'' @ [CHR 0xE9] @ ''rique'') 4 1,
     question ''psy-8'' PSYCHOTECHNICAL (''Num'' @ [CHR 0xE9] @ ''rique'') 4 1,
     question ''psy-9'' PSYCHOTECHNICAL ''Verbal'' 4 1,
     question ''psy-10'' PSYCHOTECHNICAL (''Num'' @ [CHR 0xE9] @ ''rique'') 4 2,
     question ''psy-11'' PSYCHOTECHNICAL ''Logique'' 4 1,
     question ''psy-12'' PSYCHOTECHNICAL ''Logique'' 4 2,
     question ''psy-13'' PSYCHOTECHNICAL ''Verbal'' 4 1,
     question ''psy-14'' PSYCHOTECHNICAL (''Probabilit'' @ [CHR 0xE9] @ ''s'') 4 2,
     question ''psy-15'' PSYCHOTECHNICAL ''Logique'' 4 2,
     question ''psy-16'' PSYCHOTECHNICAL (''Num'' @ [CHR 0xE9] @ ''rique'') 4 1,
     question ''psy-17'' PSYCHOTECHNICAL ''Verbal'' 4 1,
     question ''psy-18'' PSYCHOTECHNICAL ''Logique'' 4 2,
     question ''psy-19'' PSYCHOTECHNICAL (''Num'' @ [CHR 0xE9] @ ''rique'') 4 1,
     question ''psy-20'' PSYCHOTECHNICAL ''Raisonnement'' 4 1,
     question ''psy-21'' PSYCHOTECHNICAL ''Logique'' 4 2,
     question ''psy-22'' PSYCHOTECHNICAL (''Num'' @ [CHR 0xE9] @ ''rique'') 4 2,
     question ''psy-23'' PSYCHOTECHNICAL ''Verbal'' 4 2,
     question ''psy-24'' PSYCHOTECHNICAL ''Logique'' 4 0,
     question ''psy-25'' PSYCHOTECHNICAL (''Probabilit'' @ [CHR 0xE9] @ ''s'') 4 2,
     question ''psy-26'' PSYCHOTECHNICAL (''Num'' @ [CHR 0xE9] @ ''rique'') 4 1]"

definition SHARED_TECH :: "exam_question list" where
  "SHARED_TECH =
    [question ''sh-1'' TECHNICAL ''Algorithmes'' 4 0,
     question ''sh-2'' TECHNICAL (''Structures de donn'' @ [CHR 0xE9] @ ''es'') 4 1,
     question ''sh-3'' TECHNICAL (''Structures de donn'' @ [CHR 0xE9] @ ''es'') 4 1,
     question ''sh-4'' TECHNICAL ''HTTP'' 4 2,
     question ''sh-5'' TECHNICAL ''HTTP'' 4 1,
     question ''sh-6'' TECHNICAL ''HTTP'' 4 2,
     question ''sh-7'' TECHNICAL ''SQL'' 4 1,
     question ''sh-8'' TECHNICAL ''SQL'' 4 1,
     question ''sh-9'' TECHNICAL ''Git'' 4 1,
     question ''sh-10'' TECHNICAL ''Git'' 4 1,
     question ''sh-11'' TECHNICAL ''POO'' 4 2,
     question ''sh-12'' TECHNICAL (''Bases de donn'' @ [CHR 0xE9] @ ''es'') 4 1,
     question ''sh-13'' TECHNICAL (''Bases de donn'' @ [CHR 0xE9] @ ''es'') 4 1,
     question ''sh-14'' TECHNICAL ''Cryptographie'' 4 1,
     question ''sh-15'' TECHNICAL ''Cryptographie'' 4 1,
     question ''sh-16'' TECHNICAL (''S'' @ [CHR 0xE9] @ ''curit'' @ [CHR 0xE9]) 4 2,
     question ''sh-17'' TECHNICAL (''S'' @ [CHR 0xE9] @ ''curit'' @ [CHR 0xE9]) 4 1,
     question ''sh-18'' TECHNICAL (''S'' @ [CHR 0xE9] @ ''curit'' @ [CHR 0xE9]) 4 1,
     question ''sh-19'' TECHNICAL ''Algorithmes'' 4 1,
     question ''sh-20'' TECHNICAL ''Algorithmes'' 4 1,
     question ''sh-21'' TECHNICAL (''R'' @ [CHR 0xE9] @ ''seaux'') 4 1,
     question ''sh-22'' TECHNICAL (''R'' @ [CHR 0xE9] @ ''seaux'') 4 1,
     question ''sh-23'' TECHNICAL ''Conteneurs'' 4 1,
     question ''sh-24'' TECHNICAL ''Tests'' 4 1,
     question ''sh-25'' TECHNICAL ''CI/CD'' 4 1,
     question ''sh-26'' TECHNICAL ''Algorithmes'' 4 0,
     question ''sh-27'' TECHNICAL ''Programmation'' 4 1,
     question ''sh-28'' TECHNICAL ''SQL'' 4 2,
     question ''sh-29'' TECHNICAL (''Bases de donn'' @ [CHR 0xE9] @ ''es'') 4 1,
     question ''sh-30'' TECHNICAL ''Concurrence'' 4 1,
     question ''sh-31'' TECHNICAL ''API'' 4 1,
     question ''sh-32'' TECHNICAL (''Donn'' @ [CHR 0xE9] @ ''es'') 4 1,
     question ''sh-33'' TECHNICAL ''Algorithmes'' 4 1,
     question ''sh-34'' TECHNICAL (''Structures de donn'' @ [CHR 0xE9] @ ''es'') 4 2,
     question ''sh-35'' TECHNICAL ''HTTP'' 4 3,
     question ''sh-36'' TECHNICAL ''SQL'' 4 2,
     question ''sh-37'' TECHNICAL (''R'' @ [CHR 0xE9] @ ''seaux'') 4 1,
     question ''sh-38'' TECHNICAL (''S'' @ [CHR 0xE9] @ ''curit'' @ [CHR 0xE9]) 4 1,
     question ''sh-39'' TECHNICAL ''POO'' 4 1,
     question ''sh-40'' TECHNICAL ''Git'' 4 1,
     question ''sh-41'' TECHNICAL (''Bases de donn'' @ [CHR 0xE9] @ ''es'') 4 1,
     question ''sh-42'' TECHNICAL ''Concurrence'' 4 1,
     question ''sh-43'' TECHNICAL ''Algorithmes'' 4 2,
     question ''sh-44'' TECHNICAL ''API'' 4 1]"

definition PROFILE_TECH :: "(string \<times> exam_question list) list" where
  "PROFILE_TECH =
   [(''Software Engineer'',
      [question ''se-1'' TECHNICAL ''Design'' 4 1,
       question ''se-2'' TECHNICAL (''Structures de donn'' @ [CHR 0xE9] @ ''es'') 4 0,
       question ''se-3'' TECHNICAL ''Design Patterns'' 4 1,
       question ''se-4'' TECHNICAL ''Concurrence'' 4 2,
       question ''se-5'' TECHNICAL ''POO'' 4 1,
       question ''se-6'' TECHNICAL ''Algorithmes'' 4 1,
       question ''se-7'' TECHNICAL ''Programmation'' 4 1,
       question ''se-8'' TECHNICAL ''Bonnes pratiques'' 4 1]),
    (''Java / Backend'',
      [question ''jb-1'' TECHNICAL ''Collections'' 4 1,
       question ''jb-2'' TECHNICAL ''Java Core'' 4 1,
       question ''jb-3'' TECHNICAL ''Spring'' 4 1,
       question ''jb-4'' TECHNICAL ''JPA'' 4 1,
       question ''jb-5'' TECHNICAL ''JVM'' 4 1,
       question ''jb-6'' TECHNICAL ''Java Core'' 4 1,
       question ''jb-7'' TECHNICAL ''Concurrence'' 4 1,
       question ''jb-8'' TECHNICAL ''REST'' 4 1]),
    (''Frontend'',
      [question ''fe-1'' TECHNICAL ''React'' 4 1,
       question ''fe-2'' TECHNICAL ''React'' 4 1,
       question ''fe-3'' TECHNICAL ''CSS'' 4 1,
       question ''fe-4'' TECHNICAL ''JavaScript'' 4 1,
       question ''fe-5'' TECHNICAL ''Browser'' 4 1,
       question ''fe-6'' TECHNICAL ''TypeScript'' 4 1,
       question ''fe-7'' TECHNICAL (''Accessibilit'' @ [CHR 0xE9]) 4 1,
       question ''fe-8'' TECHNICAL ''React'' 4 1]),
    (''Full Stack'',
      [question ''fs-1'' TECHNICAL ''API'' 4 1,
       question ''fs-2'' TECHNICAL ''Authentification'' 4 1,
       question ''fs-3'' TECHNICAL (''S'' @ [CHR 0xE9] @ ''curit'' @ [CHR 0xE9] @ '' web'') 4 1,
       question ''fs-4'' TECHNICAL ''Persistance'' 4 1,
       question ''fs-5'' TECHNICAL ''HTTP'' 4 1,
       question ''fs-6'' TECHNICAL ''Back-end'' 4 1,
       question ''fs-7'' TECHNICAL (''D'' @ [CHR 0xE9] @ ''ploiement'') 4 1,
       question ''fs-8'' TECHNICAL (''Bases de donn'' @ [CHR 0xE9] @ ''es'') 4 1]),
    (''Data Engineer'',
      [question ''de-1'' TECHNICAL ''ETL'' 4 1,
       question ''de-2'' TECHNICAL ''Spark'' 4 1,
       question ''de-3'' TECHNICAL (''Mod'' @ [CHR 0xE9] @ ''lisation'') 4 1,
       question ''de-4'' TECHNICAL ''Streaming'' 4 1,
       question ''de-5'' TECHNICAL ''Data Warehouse'' 4 1,
       question ''de-6'' TECHNICAL ''Pipelines'' 4 1,
       question ''de-7'' TECHNICAL ''SQL'' 4 1,
       question ''de-8'' TECHNICAL (''Qualit'' @ [CHR 0xE9]) 4 1]),
    (''DevOps / Cloud'',
      [question ''do-1'' TECHNICAL ''Conteneurs'' 4 1,
       question ''do-2'' TECHNICAL ''Kubernetes'' 4 1,
       question ''do-3'' TECHNICAL ''IaC'' 4 0,
       question ''do-4'' TECHNICAL ''CI/CD'' 4 1,
       question ''do-5'' TECHNICAL (''R'' @ [CHR 0xE9] @ ''seaux'') 4 1,
       question ''do-6'' TECHNICAL (''Observabilit'' @ [CHR 0xE9]) 4 1,
       question ''do-7'' TECHNICAL ''Kubernetes'' 4 1,
       question ''do-8'' TECHNICAL (''Scalabilit'' @ [CHR 0xE9]) 4 1]),
    (''Cybersecurity'',
      [question ''cy-1'' TECHNICAL ''Bonnes pratiques'' 4 1,
       question ''cy-2'' TECHNICAL ''Cryptographie'' 4 1,
       question ''cy-3'' TECHNICAL (''R'' @ [CHR 0xE9] @ ''seaux'') 4 1,
       question ''cy-4'' TECHNICAL ''Authentification'' 4 1,
       question ''cy-5'' TECHNICAL ''TLS'' 4 1,
       question ''cy-6'' TECHNICAL ''Attaques'' 4 1,
       question ''cy-7'' TECHNICAL ''Cryptographie'' 4 1,
       question ''cy-8'' TECHNICAL ''AppSec'' 4 1]),
    (''QA / Test'',
      [question ''qa-1'' TECHNICAL ''Tests'' 4 1,
       question ''qa-2'' TECHNICAL ''Tests'' 4 1,
       question ''qa-3'' TECHNICAL (''M'' @ [CHR 0xE9] @ ''thodo'') 4 1,
       question ''qa-4'' TECHNICAL ''Tests'' 4 1,
       question ''qa-5'' TECHNICAL ''Couverture'' 4 1,
       question ''qa-6'' TECHNICAL ''Automatisation'' 4 1,
       question ''qa-7'' TECHNICAL ''Performance'' 4 1,
       question ''qa-8'' TECHNICAL (''D'' @ [CHR 0xE9] @ ''fauts'') 4 1]),
    (''Business Analyst IT'',
      [question ''ba-1'' TECHNICAL ''Agile'' 4 1,
       question ''ba-2'' TECHNICAL ''BPMN'' 4 1,
       question ''ba-3'' TECHNICAL ''UML'' 4 1,
       question ''ba-4'' TECHNICAL ''Recette'' 4 1,
       question ''ba-5'' TECHNICAL ''Exigences'' 4 1,
       question ''ba-6'' TECHNICAL ''Exigences'' 4 1,
       question ''ba-7'' TECHNICAL ''Agile'' 4 1,
       question ''ba-8'' TECHNICAL ''Priorisation'' 4 1]),
    (''IT Project Manager'',
      [question ''pm-1'' TECHNICAL ''Scrum'' 4 1,
       question ''pm-2'' TECHNICAL ''Planning'' 4 1,
       question ''pm-3'' TECHNICAL ''Risques'' 4 1,
       question ''pm-4'' TECHNICAL ''Gestion'' 4 0,
       question ''pm-5'' TECHNICAL ''Planning'' 4 1,
       question ''pm-6'' TECHNICAL ''Scrum'' 4 1,
       question ''pm-7'' TECHNICAL ''Suivi'' 4 1,
       question ''pm-8'' TECHNICAL ''Gouvernance'' 4 1])]"

definition ALIASES :: "(string \<times> string) list" where
  "ALIASES =
     [((''D'' @ [CHR 0xE9] @ ''veloppement Logiciel''), ''Software Engineer''),
      ((''D'' @ [CHR 0xE9] @ ''veloppement Web Full-Stack''), ''Frontend''),
      (''Data Engineering'', ''Data Engineer''),
      (''DevOps & Cloud'', ''DevOps / Cloud''),
      ((''Cybers'' @ [CHR 0xE9] @ ''curit'' @ [CHR 0xE9]), ''Cybersecurity''),
      (''Product Design (UX/UI)'', ''Frontend''),
      ((''G'' @ [CHR 0xE9] @ ''nie Logiciel''), ''Software Engineer''),
      ((''D'' @ [CHR 0xE9] @ ''veloppement Back-end (Java)''), ''Java / Backend''),
      ((''D'' @ [CHR 0xE9] @ ''veloppement Front-end''), ''Frontend''),
      ((''D'' @ [CHR 0xE9] @ ''veloppement Full-Stack''), ''Full Stack''),
      ((''Ing'' @ [CHR 0xE9] @ ''nierie des Donn'' @ [CHR 0xE9] @ ''es''), ''Data Engineer''),
      ((''Qualit'' @ [CHR 0xE9] @ '' & Test (QA)''), ''QA / Test''),
      (''Chef de Projet IT'', ''IT Project Manager'')]"

definition PROFILE_NAMES :: "string list" where
  "PROFILE_NAMES = map fst PROFILE_TECH"

section \<open>The profile of a specialty\<close>

text \<open>An object literal also answers to the names it inherits: \<open>PROFILE_TECH[name]\<close> is a
  function or an object for these, which is true as a condition and not iterable.\<close>

definition inherited :: "string list" where
  "inherited = [''constructor'', ''__defineGetter__'', ''__defineSetter__'', ''hasOwnProperty'',
     ''__lookupGetter__'', ''__lookupSetter__'', ''isPrototypeOf'', ''propertyIsEnumerable'',
     ''toString'', ''valueOf'', ''__proto__'', ''toLocaleString'']"

definition resolveProfile :: "string option \<Rightarrow> string" where
  "resolveProfile name =
     (case name of
        None \<Rightarrow> ''Software Engineer''
      | Some s \<Rightarrow>
          if s = [] then ''Software Engineer''
          else if s \<in> set PROFILE_NAMES \<or> s \<in> set inherited then s
          else (case map_of ALIASES s of
              Some p \<Rightarrow> p
            | None \<Rightarrow> (case List.find (\<lambda>p. toLowerCase p = toLowerCase s) PROFILE_NAMES of
                Some p \<Rightarrow> p
              | None \<Rightarrow> ''Software Engineer'')))"

section \<open>The seeded shuffle\<close>

definition seedHash :: "string \<Rightarrow> 32 word" where
  "seedHash seed = foldl (\<lambda>h c. (h XOR of_nat (of_char c)) * 16777619) 2166136261 seed"

definition rand :: "32 word \<Rightarrow> 32 word \<times> 32 word" where
  "rand h =
     (let h' = h + 0x6d2b79f5;
          t = (h' XOR drop_bit 15 h') * (h' OR 1);
          t' = t XOR (t + (t XOR drop_bit 7 t) * (t OR 61))
      in (t' XOR drop_bit 14 t', h'))"

definition swap_at :: "'a list \<Rightarrow> nat \<Rightarrow> nat \<Rightarrow> 'a list" where
  "swap_at xs i j = xs[i := xs ! j, j := xs ! i]"

primrec shuffleFrom :: "nat \<Rightarrow> 32 word \<Rightarrow> 'a list \<Rightarrow> 'a list" where
  "shuffleFrom 0 h xs = xs"
| "shuffleFrom (Suc k) h xs =
     (case rand h of (u, h') \<Rightarrow>
        shuffleFrom k h' (swap_at xs (Suc k) (unat u * (Suc k + 1) div 2 ^ 32)))"

definition seededShuffle :: "'a list \<Rightarrow> string \<Rightarrow> 'a list" where
  "seededShuffle items seed = shuffleFrom (length items - 1) (seedHash seed) items"

section \<open>The exam\<close>

definition TECHNICAL_PER_EXAM :: nat where "TECHNICAL_PER_EXAM = 20"
definition PSYCHO_PER_EXAM :: nat where "PSYCHO_PER_EXAM = 10"

text \<open>\<open>None\<close> is the \<open>TypeError\<close> of spreading what is not iterable.\<close>

definition profileTech :: "string \<Rightarrow> exam_question list option" where
  "profileTech p =
     (case map_of PROFILE_TECH p of
        Some qs \<Rightarrow> Some qs
      | None \<Rightarrow> if p \<in> set inherited then None else Some [])"

definition examForSpecialty :: "string option \<Rightarrow> string \<Rightarrow> exam_question list option" where
  "examForSpecialty specialtyName seed =
     map_option (\<lambda>own.
       take TECHNICAL_PER_EXAM
         (seededShuffle own (seed @ '':pt'') @ seededShuffle SHARED_TECH (seed @ '':st''))
       @ take PSYCHO_PER_EXAM (seededShuffle PSYCHO (seed @ '':psy'')))
     (profileTech (resolveProfile specialtyName))"

section \<open>The shuffle is a permutation\<close>

lemma mset_swap_at: "i < length xs \<Longrightarrow> j < length xs \<Longrightarrow> mset (swap_at xs i j) = mset xs"
  unfolding swap_at_def by (subst mset_swap) auto

text \<open>The drawn index never leaves the part still to be shuffled.\<close>

lemma drawn_index: "unat (u :: 32 word) * n div 2 ^ 32 < n" if "0 < n"
proof -
  have "unat u < 2 ^ 32" using unsigned_less [of u] by simp
  with that have "unat u * n < 2 ^ 32 * n" by simp
  then show ?thesis by (simp add: less_mult_imp_div_less mult.commute)
qed

lemma mset_shuffleFrom: "k < length xs \<Longrightarrow> mset (shuffleFrom k h xs) = mset xs"
proof (induction k arbitrary: h xs)
  case (Suc k)
  obtain u h' where r: "rand h = (u, h')" by fastforce
  let ?j = "unat u * (Suc k + 1) div 2 ^ 32"
  have j: "?j < length xs" using drawn_index [of "Suc k + 1" u] Suc.prems by linarith
  have "mset (shuffleFrom k h' (swap_at xs (Suc k) ?j)) = mset (swap_at xs (Suc k) ?j)"
    using Suc.prems by (intro Suc.IH) (simp add: swap_at_def)
  with mset_swap_at [OF Suc.prems j] r show ?case by simp
qed simp

lemma mset_seededShuffle [simp]: "mset (seededShuffle xs seed) = mset xs"
  by (cases xs) (simp_all add: seededShuffle_def mset_shuffleFrom)

lemma set_seededShuffle [simp]: "set (seededShuffle xs seed) = set xs"
  by (metis mset_seededShuffle set_mset_mset)

lemma length_seededShuffle [simp]: "length (seededShuffle xs seed) = length xs"
  by (metis mset_seededShuffle size_mset)

section \<open>What every bank satisfies\<close>

definition bank_ok :: "question_type \<Rightarrow> exam_question list \<Rightarrow> bool" where
  "bank_ok ty qs \<longleftrightarrow> list_all (\<lambda>q. qType q = ty \<and> qCorrect q < qOptions q) qs"

definition section_ids :: "string \<Rightarrow> exam_question list \<Rightarrow> bool" where
  "section_ids p qs \<longleftrightarrow> list_all (\<lambda>q. take 3 (qId q) = p) qs \<and> distinct (map qId qs)"

lemma shared_ok: "bank_ok TECHNICAL SHARED_TECH" "length SHARED_TECH = 44"
  "section_ids ''sh-'' SHARED_TECH"
  by code_simp+

lemma psycho_ok: "bank_ok PSYCHOTECHNICAL PSYCHO" "length PSYCHO = 26"
  "section_ids ''psy'' PSYCHO"
  by code_simp+

lemma profile_banks_ok:
  "list_all (\<lambda>(p, qs). bank_ok TECHNICAL qs \<and> length qs \<le> 20 \<and> distinct (map qId qs)
     \<and> list_all (\<lambda>q. take 3 (qId q) \<noteq> ''sh-'' \<and> take 3 (qId q) \<noteq> ''psy'') qs) PROFILE_TECH"
  by code_simp

lemma ids_apart:
  assumes "distinct (map qId qs)"
    "list_all (\<lambda>q. take 3 (qId q) \<noteq> ''sh-'' \<and> take 3 (qId q) \<noteq> ''psy'') qs"
  shows "distinct (map qId qs @ map qId SHARED_TECH @ map qId PSYCHO)"
proof -
  have sh: "take 3 i = ''sh-''" if "i \<in> qId ` set SHARED_TECH" for i
    using shared_ok(3) that by (auto simp: section_ids_def list_all_iff)
  have psy: "take 3 i = ''psy''" if "i \<in> qId ` set PSYCHO" for i
    using psycho_ok(3) that by (auto simp: section_ids_def list_all_iff)
  have own: "take 3 i \<noteq> ''sh-'' \<and> take 3 i \<noteq> ''psy''" if "i \<in> qId ` set qs" for i
    using assms(2) that by (auto simp: list_all_iff)
  have "distinct (map qId SHARED_TECH)" "distinct (map qId PSYCHO)"
    using shared_ok(3) psycho_ok(3) by (simp_all add: section_ids_def)
  moreover have "qId ` set SHARED_TECH \<inter> qId ` set PSYCHO = {}"
  proof -
    have "i \<notin> qId ` set PSYCHO" if "i \<in> qId ` set SHARED_TECH" for i
      using sh [OF that] psy [of i] by auto
    then show ?thesis by blast
  qed
  moreover have "qId ` set qs \<inter> (qId ` set SHARED_TECH \<union> qId ` set PSYCHO) = {}"
  proof -
    have "i \<notin> qId ` set SHARED_TECH \<and> i \<notin> qId ` set PSYCHO" if "i \<in> qId ` set qs" for i
      using own [OF that] sh [of i] psy [of i] by auto
    then show ?thesis by blast
  qed
  ultimately show ?thesis using assms(1) by (simp add: distinct_append Int_Un_distrib)
qed

lemma profileTech_ok:
  assumes "profileTech p = Some qs"
  shows "bank_ok TECHNICAL qs" "length qs \<le> 20"
    "distinct (map qId qs @ map qId SHARED_TECH @ map qId PSYCHO)"
proof -
  have "qs = [] \<or> (p, qs) \<in> set PROFILE_TECH"
    using assms by (auto simp: profileTech_def dest: map_of_SomeD split: option.splits if_splits)
  then show "bank_ok TECHNICAL qs" "length qs \<le> 20"
    "distinct (map qId qs @ map qId SHARED_TECH @ map qId PSYCHO)"
    using profile_banks_ok ids_apart [of qs] by (auto simp: list_all_iff bank_ok_def simp del: distinct_append)
qed

text \<open>Every profile name that a specialty resolves to has a bank, the inherited names apart.\<close>

lemma aliases_ok: "list_all (\<lambda>(a, p). p \<in> set PROFILE_NAMES) ALIASES"
  by code_simp

lemma resolveProfile_cases: "resolveProfile name \<in> set PROFILE_NAMES \<or>
    (\<exists>s. name = Some s \<and> s \<in> set inherited)"
proof -
  have se: "''Software Engineer'' \<in> set PROFILE_NAMES" by code_simp
  show ?thesis
    using aliases_ok
    by (auto simp: resolveProfile_def se list_all_iff split: option.split
        dest!: map_of_SomeD find_SomeD)
qed

lemma filter_bank: "bank_ok ty qs \<Longrightarrow> set xs \<subseteq> set qs \<Longrightarrow>
   filter (\<lambda>q. qType q = ty') xs = (if ty = ty' then xs else [])"
  by (auto simp: bank_ok_def list_all_iff subset_iff filter_id_conv filter_empty_conv)

lemma distinct_map_shuffle: "distinct (map f (seededShuffle xs seed)) = distinct (map f xs)"
  by (metis mset_map mset_seededShuffle mset_eq_imp_distinct_iff)

lemma distinct_takes: "distinct (map f (xs @ ys)) \<Longrightarrow> distinct (map f (take m xs @ take n ys))"
  using set_take_subset [of m "map f xs"] set_take_subset [of n "map f ys"]
  by (auto simp flip: take_map)

lemma exam_parts:
  assumes "examForSpecialty name seed = Some qs"
  obtains own tech psy where "profileTech (resolveProfile name) = Some own" "qs = tech @ psy"
    "length tech = 20" "length psy = 10" "set own \<subseteq> set tech" "set tech \<subseteq> set (own @ SHARED_TECH)"
    "set psy \<subseteq> set PSYCHO" "distinct (map qId (tech @ psy))"
proof -
  from assms obtain own where own: "profileTech (resolveProfile name) = Some own"
    and qs: "qs = take 20 (seededShuffle own (seed @ '':pt'') @ seededShuffle SHARED_TECH (seed @ '':st''))
       @ take 10 (seededShuffle PSYCHO (seed @ '':psy''))"
    by (auto simp: examForSpecialty_def TECHNICAL_PER_EXAM_def PSYCHO_PER_EXAM_def)
  let ?o = "seededShuffle own (seed @ '':pt'')" and ?s = "seededShuffle SHARED_TECH (seed @ '':st'')"
    and ?p = "seededShuffle PSYCHO (seed @ '':psy'')"
  note ok = profileTech_ok [OF own]
  have len: "length own \<le> 20" by (rule ok(2))
  have d: "distinct (map qId (?o @ ?s @ ?p))"
    using ok(3) by (simp add: distinct_map_shuffle)
  let ?t = "take 20 (?o @ ?s)" and ?y = "take 10 ?p"
  have t: "?t = ?o @ take (20 - length own) ?s" using len by simp
  have "length ?t = 20" using len shared_ok(2) by simp
  moreover have "length ?y = 10" using psycho_ok(2) by simp
  moreover have "set own \<subseteq> set ?t" unfolding t by simp
  moreover have "set ?t \<subseteq> set (own @ SHARED_TECH)"
    using set_take_subset [of 20 "?o @ ?s"] by simp
  moreover have "set ?y \<subseteq> set PSYCHO" by (metis set_seededShuffle set_take_subset)
  moreover have "distinct (map qId (?t @ ?y))"
    using d by (intro distinct_takes) simp
  ultimately show thesis by (rule that [OF own qs])
qed

end
