(* ===== verification/Scoring.thy ===== *)
theory Scoring
  imports Assessments Questions
begin

text \<open>
  From a result to a score: \<open>assessments/webhook.service.ts\<close>, \<open>assessments/indexation.service.ts\<close>,
  \<open>assessments/percentile-recalc.service.ts\<close>, and the in-app exam \<open>assessments/exam.service.ts\<close>.
  The columns \<open>details\<close> and \<open>metadata\<close> are left out. What a \<open>decimal(5,2)\<close> column rounds is written
  out; a number it does not take is a database error.
\<close>

section \<open>Indexation\<close>

definition INDEXATION_SCORE_MIN_KEY :: string where "INDEXATION_SCORE_MIN_KEY = ''indexation_score_min''"
definition INDEXATION_PERCENTILE_MIN_KEY :: string where
  "INDEXATION_PERCENTILE_MIN_KEY = ''indexation_percentile_min''"
definition FEATURING_PERCENTILE_MIN_KEY :: string where
  "FEATURING_PERCENTILE_MIN_KEY = ''featuring_percentile_min''"
definition DEFAULT_INDEXATION_SCORE_MIN :: rat where "DEFAULT_INDEXATION_SCORE_MIN = 70"
definition DEFAULT_INDEXATION_PERCENTILE_MIN :: rat where "DEFAULT_INDEXATION_PERCENTILE_MIN = 85"
definition DEFAULT_FEATURING_PERCENTILE_MIN :: rat where "DEFAULT_FEATURING_PERCENTILE_MIN = 75"
definition DEFAULT_COMPLETENESS_THRESHOLD :: rat where "DEFAULT_COMPLETENESS_THRESHOLD = 70"

text \<open>The scores of the completed attempts of a candidate that still count.\<close>

definition counts_now :: "env \<Rightarrow> score \<Rightarrow> bool" where
  "counts_now env s \<longleftrightarrow> plagiarismVerdict s \<noteq> CONFIRMED \<and> now env < scExpiresAt s"

definition validScores :: "env \<Rightarrow> uuid \<Rightarrow> db \<Rightarrow> score list" where
  "validScores env c d =
     (let done = map asId (filter (\<lambda>a. asCandidateId a = c \<and> asStatus a = AS_COMPLETED) (assessments d))
      in filter (counts_now env) (filter (\<lambda>s. scAssessmentId s \<in> set done) (scores d)))"

definition percentileAtLeast :: "js_number \<Rightarrow> score \<Rightarrow> bool" where
  "percentileAtLeast m s = (case scPercentile s of None \<Rightarrow> False | Some p \<Rightarrow> jsLe m (Finite p))"

definition scoreThresholdMet :: "js_number \<Rightarrow> js_number \<Rightarrow> score list \<Rightarrow> bool" where
  "scoreThresholdMet scoreMin percentileMin =
     list_ex (\<lambda>s. jsLe scoreMin (scValue s) \<or> percentileAtLeast percentileMin s)"

text \<open>\<open>profileRepo.save\<close>: the update column moves only when another column did.\<close>

definition storeProfile :: "env \<Rightarrow> candidate_profile \<Rightarrow> candidate_profile service" where
  "storeProfile env p =
     bindE (gets (\<lambda>w. List.find (\<lambda>x. cpId x = cpId p) (candidateProfiles (db w)))) (\<lambda>old.
     saveProfile (if old = Some p then p else p\<lparr>cpUpdatedAt := now env\<rparr>))"

definition applyThresholds :: "env \<Rightarrow> uuid \<Rightarrow> unit service" where
  "applyThresholds env candidateId =
     bindE (gets (\<lambda>w. List.find (\<lambda>p. cpUserId p = candidateId) (candidateProfiles (db w)))) (\<lambda>found.
     case found of
       None \<Rightarrow> ret ()
     | Some profile \<Rightarrow>
         bindE (gets (\<lambda>w. validScores env candidateId (db w))) (\<lambda>valid.
         bindE (numberOr env INDEXATION_SCORE_MIN_KEY DEFAULT_INDEXATION_SCORE_MIN) (\<lambda>scoreMin.
         bindE (numberOr env INDEXATION_PERCENTILE_MIN_KEY DEFAULT_INDEXATION_PERCENTILE_MIN)
           (\<lambda>percentileMin.
         bindE (numberOr env FEATURING_PERCENTILE_MIN_KEY DEFAULT_FEATURING_PERCENTILE_MIN)
           (\<lambda>featureMin.
         bindE (numberOr env ''completeness_threshold_publishable'' DEFAULT_COMPLETENESS_THRESHOLD)
           (\<lambda>threshold.
         bindE (ret (jsLe threshold (completeness profile) \<and>
                  scoreThresholdMet scoreMin percentileMin valid)) (\<lambda>indexed.
         bindE (storeProfile env (profile\<lparr>indexedInCvtheque := indexed,
                  featured := indexed \<and> list_ex (percentileAtLeast featureMin) valid\<rparr>)) (\<lambda>_.
         ret ()))))))))"

section \<open>The composite score\<close>

definition TECHNIQUE_WEIGHT_KEY :: string where "TECHNIQUE_WEIGHT_KEY = ''score_technique_weight''"
definition PSYCHOTECHNIQUE_WEIGHT_KEY :: string where
  "PSYCHOTECHNIQUE_WEIGHT_KEY = ''score_psychotechnique_weight''"
definition DEFAULT_TECHNIQUE_WEIGHT :: rat where "DEFAULT_TECHNIQUE_WEIGHT = 60"
definition DEFAULT_PSYCHOTECHNIQUE_WEIGHT :: rat where "DEFAULT_PSYCHOTECHNIQUE_WEIGHT = 40"
definition DEFAULT_SCORE_VALIDITY_DAYS :: rat where "DEFAULT_SCORE_VALIDITY_DAYS = 365"
definition DEFAULT_BAREME_VERSION :: string where "DEFAULT_BAREME_VERSION = ''1.0''"

definition weightedScore :: "js_number \<Rightarrow> js_number \<Rightarrow> rat \<Rightarrow> rat \<Rightarrow> js_number" where
  "weightedScore tw pw t p =
     (let total = jsAdd tw pw in
      if jsLe total (Finite 0) then Finite 0
      else jsRound2 (jsDiv (jsAdd (jsMul (Finite t) tw) (jsMul (Finite p) pw)) total))"

definition computeCompositeScore :: "env \<Rightarrow> assessment_result \<Rightarrow> js_number service" where
  "computeCompositeScore env r =
     (case (arTechnical r, arPsychotechnical r) of
        (Some t, Some p) \<Rightarrow>
          bindE (numberOr env TECHNIQUE_WEIGHT_KEY DEFAULT_TECHNIQUE_WEIGHT) (\<lambda>tw.
          bindE (numberOr env PSYCHOTECHNIQUE_WEIGHT_KEY DEFAULT_PSYCHOTECHNIQUE_WEIGHT) (\<lambda>pw.
          ret (weightedScore tw pw t p)))
      | _ \<Rightarrow> ret (if 0 < arMaxScore r then Finite (round2 (arScore r / arMaxScore r * 100))
                  else Finite 0))"

section \<open>Finalization\<close>

definition plagiarismMap :: "string \<Rightarrow> plagiarism_verdict" where
  "plagiarismMap v =
     (if v = ''suspected'' then SUSPECTED else if v = ''confirmed'' then CONFIRMED else CLEAN)"

text \<open>How many scores of other candidates carry the fingerprint.\<close>

definition collisions :: "string \<Rightarrow> uuid \<Rightarrow> db \<Rightarrow> int" where
  "collisions fp c d =
     count_where (\<lambda>s. answerFingerprint s = Some fp \<and>
       list_ex (\<lambda>a. asId a = scAssessmentId s \<and> asCandidateId a \<noteq> c) (assessments d)) (scores d)"

definition escalate :: "string option \<Rightarrow> uuid \<Rightarrow> db \<Rightarrow> plagiarism_verdict \<Rightarrow> plagiarism_verdict" where
  "escalate fp c d v = (case fp of
     None \<Rightarrow> v
   | Some f \<Rightarrow> if f \<noteq> [] \<and> 0 < collisions f c d \<and> v = CLEAN then SUSPECTED else v)"

definition optionalColumn :: "rat option \<Rightarrow> rat option service" where
  "optionalColumn x = (case x of
     None \<Rightarrow> ret None
   | Some q \<Rightarrow> if \<bar>sql_round2 q\<bar> < 1000 then ret (Some (sql_round2 q))
               else throw (InternalServerErrorException ''numeric''))"

definition scoreColumn :: "js_number \<Rightarrow> js_number service" where
  "scoreColumn n = someOr (InternalServerErrorException ''numeric'') (numeric52 n)"

definition expiryDate :: "env \<Rightarrow> js_number \<Rightarrow> date service" where
  "expiryDate env n = someOr (InternalServerErrorException ''invalid-date'') (case n of
     Finite q \<Rightarrow> valid_date (towardsZero (of_int (now env) + q * 86400000)) | _ \<Rightarrow> None)"

text \<open>The insertion of the score of an attempt, as \<open>finalizeAssessment\<close> builds it.\<close>

definition insertScore ::
  "env \<Rightarrow> assessment \<Rightarrow> assessment_result \<Rightarrow> js_number \<Rightarrow> string \<Rightarrow> string \<Rightarrow> date \<Rightarrow>
   plagiarism_verdict \<Rightarrow> score service" where
  "insertScore env a r v bareme tversion expires verdict =
     bindE (scoreColumn v) (\<lambda>sv.
     bindE (optionalColumn (arPercentile r)) (\<lambda>pc.
     bindE (optionalColumn (arTechnical r)) (\<lambda>te.
     bindE (optionalColumn (arPsychotechnical r)) (\<lambda>ps.
     bindE freshId (\<lambda>i.
     saveScore \<lparr>scId = i, scAssessmentId = asId a, scValue = sv, scPercentile = pc,
       scTechnical = te, scPsychotechnical = ps, baremeVersion = bareme, scTestVersion = tversion,
       plagiarismVerdict = verdict, answerFingerprint = arFingerprint r,
       scDomainFeedback = Some (arDomainFeedback r), scExpiresAt = expires,
       scCreatedAt = now env\<rparr>)))))"

text \<open>The writes: the score, the attempt, the two audit rows, the funnel event, the indexation.\<close>

definition persistScore ::
  "env \<Rightarrow> assessment \<Rightarrow> assessment_result \<Rightarrow> js_number \<Rightarrow> string \<Rightarrow> string \<Rightarrow> date \<Rightarrow>
   plagiarism_verdict \<Rightarrow> (bool \<times> uuid) service" where
  "persistScore env a r v bareme tversion expires verdict =
     bindE (insertScore env a r v bareme tversion expires verdict) (\<lambda>s.
     bindE (saveAssessment (a\<lparr>asStatus := AS_COMPLETED, completedAt := Some (now env)\<rparr>)) (\<lambda>_.
     bindE (auditLog env (assessmentEvent (asCandidateId a) ASSESSMENT_COMPLETED (asId a))) (\<lambda>_.
     bindE (auditLog env \<lparr>actorId = Some (asCandidateId a), auAction = SCORE_CALCULATED,
              entityType = ''score'', entityId = scId s\<rparr>) (\<lambda>_.
     bindE (track env A_SCORE_OBTAINED (Some (asCandidateId a))) (\<lambda>_.
     bindE (applyThresholds env (asCandidateId a)) (\<lambda>_.
     ret (False, scId s)))))))"

text \<open>The result is \<open>alreadyProcessed\<close> and the identifier of the score.\<close>

definition finalizeAssessment ::
  "scoring_provider \<Rightarrow> env \<Rightarrow> assessment \<Rightarrow> assessment_result option \<Rightarrow> (bool \<times> uuid) service" where
  "finalizeAssessment sp env a provided =
     bindE (ret (case externalAssessmentId a of None \<Rightarrow> [] | Some e \<Rightarrow> e)) (\<lambda>externalId.
     bindE (require (externalId \<noteq> [] \<or> provided \<noteq> None) (BadRequestException ''no-reference'')) (\<lambda>_.
     bindE (gets (\<lambda>w. List.find (\<lambda>s. scAssessmentId s = asId a) (scores (db w)))) (\<lambda>existing.
     case existing of
       Some s \<Rightarrow> ret (True, scId s)
     | None \<Rightarrow>
         bindE (case provided of Some r \<Rightarrow> ret (Some r) | None \<Rightarrow> getResult sp externalId) (\<lambda>got.
         bindE (someOr (BadRequestException ''no-result'') got) (\<lambda>r.
         bindE (computeCompositeScore env r) (\<lambda>v.
         bindE (gets (\<lambda>w. List.find (\<lambda>t. tsId t = asTestId a) (tests (db w)))) (\<lambda>t.
         bindE (getSetting env ''score_bareme_version'' None) (\<lambda>bareme.
         bindE (numberOr env ''score_validity_days'' DEFAULT_SCORE_VALIDITY_DAYS) (\<lambda>days.
         bindE (expiryDate env days) (\<lambda>expires.
         bindE (gets (\<lambda>w. escalate (arFingerprint r) (asCandidateId a) (db w)
                  (plagiarismMap (arVerdict r)))) (\<lambda>verdict.
         persistScore env a r v (orElse bareme DEFAULT_BAREME_VERSION)
           (case t of None \<Rightarrow> ''unknown'' | Some x \<Rightarrow> tsVersion x) expires verdict)))))))))))"

definition processScoringWebhook ::
  "scoring_provider \<Rightarrow> env \<Rightarrow> string \<Rightarrow> string \<Rightarrow> (bool \<times> uuid) service" where
  "processScoringWebhook sp env payload signature =
     bindE (verifyScoring sp payload signature) (\<lambda>(valid, externalId).
     bindE (require valid (ForbiddenException ''signature'')) (\<lambda>_.
     bindE (someOr (BadRequestException ''no-external-id'')
              (if externalId = Some [] then None else externalId)) (\<lambda>e.
     bindE (gets (\<lambda>w. List.find (\<lambda>a. externalAssessmentId a = Some e) (assessments (db w)))) (\<lambda>found.
     bindE (someOr (NotFoundException ''assessment'') found) (\<lambda>a.
     finalizeAssessment sp env a None)))))"

definition simulateCompletion ::
  "scoring_provider \<Rightarrow> env \<Rightarrow> uuid \<Rightarrow> uuid \<Rightarrow> (bool \<times> uuid) service" where
  "simulateCompletion sp env c i =
     bindE (ownAttempt c i AS_IN_PROGRESS ''not-in-progress'') (\<lambda>a. finalizeAssessment sp env a None)"

section \<open>Percentiles\<close>

definition active_score :: "env \<Rightarrow> score \<Rightarrow> bool" where
  "active_score env s \<longleftrightarrow> now env < scExpiresAt s \<and> plagiarismVerdict s \<noteq> CONFIRMED"

definition testOf :: "db \<Rightarrow> score \<Rightarrow> uuid option" where
  "testOf d s = map_option asTestId (List.find (\<lambda>a. asId a = scAssessmentId s) (assessments d))"

text \<open>\<open>groupByTest\<close>: buckets in the order of their first score; a score without an attempt is
  skipped.\<close>

fun add_to_bucket :: "'k \<Rightarrow> 'a \<Rightarrow> ('k \<times> 'a list) list \<Rightarrow> ('k \<times> 'a list) list" where
  "add_to_bucket k x [] = [(k, [x])]"
| "add_to_bucket k x ((k', xs) # bs) =
     (if k' = k then (k', xs @ [x]) # bs else (k', xs) # add_to_bucket k x bs)"

definition groupByTest :: "db \<Rightarrow> score list \<Rightarrow> (uuid \<times> score list) list" where
  "groupByTest d ss = foldl (\<lambda>bs s. case testOf d s of None \<Rightarrow> bs | Some t \<Rightarrow> add_to_bucket t s bs) [] ss"

text \<open>The term \<open>Number.EPSILON\<close> of the source's \<open>round2\<close> stands against binary rounding and is
  absent from exact arithmetic.\<close>

definition cohortPercentile :: "score list \<Rightarrow> score \<Rightarrow> rat" where
  "cohortPercentile cohort s =
     round2 (of_int (count_where (\<lambda>v. jsLt v (scValue s)) (map scValue cohort)) /
             of_nat (length cohort) * 100)"

definition set_percentile :: "uuid \<Rightarrow> rat \<Rightarrow> unit service" where
  "set_percentile i p = modify (\<lambda>w. w\<lparr>db := (db w)\<lparr>scores :=
     update_where (\<lambda>s. scId s = i) (\<lambda>s. s\<lparr>scPercentile := Some p\<rparr>) (scores (db w))\<rparr>\<rparr>)"

primrec recalculateRows :: "score list \<Rightarrow> score list \<Rightarrow> int service" where
  "recalculateRows cohort [] = ret 0"
| "recalculateRows cohort (s # ss) =
     (if map_option round2 (scPercentile s) = Some (cohortPercentile cohort s)
      then recalculateRows cohort ss
      else bindE (set_percentile (scId s) (cohortPercentile cohort s)) (\<lambda>_.
           bindE (recalculateRows cohort ss) (\<lambda>n. ret (n + 1))))"

definition recalculateCohort :: "score list \<Rightarrow> int service" where
  "recalculateCohort cohort = recalculateRows cohort cohort"

primrec recalculateAll :: "(uuid \<times> score list) list \<Rightarrow> int service" where
  "recalculateAll [] = ret 0"
| "recalculateAll (b # bs) =
     bindE (recalculateCohort (snd b)) (\<lambda>n. bindE (recalculateAll bs) (\<lambda>m. ret (n + m)))"

record percentile_recalc_result =
  cohortCount :: int
  scoreCount :: int
  updatedCount :: int

definition recalculate :: "env \<Rightarrow> percentile_recalc_result service" where
  "recalculate env =
     bindE (gets (\<lambda>w. filter (active_score env) (scores (db w)))) (\<lambda>active.
     bindE (gets (\<lambda>w. groupByTest (db w) active)) (\<lambda>cohorts.
     bindE (recalculateAll cohorts) (\<lambda>updated.
     ret \<lparr>cohortCount = int (length cohorts), scoreCount = int (length active),
       updatedCount = updated\<rparr>)))"

end
