(* ===== verification/Exam.thy ===== *)
theory Exam
  imports Scoring
begin

text \<open>
  The in-app exam, \<open>assessments/exam.service.ts\<close>: the questions of an attempt without their
  answers, and the submission, graded on the server. An attempt's identifier is printed in base
  ten to seed its draw. An answer is a number the client sends, any other value being a wrong one.
\<close>

definition EXAM_GRACE_SECONDS :: int where "EXAM_GRACE_SECONDS = 120"

record exam_question_public =
  quId :: string
  quType :: question_type
  quDomain :: string
  quOptions :: nat
  quTimeLimitSeconds :: int

record exam_payload =
  epAssessmentId :: uuid
  epSpecialtyName :: "string option"
  technicalCount :: nat
  psychotechnicalCount :: nat
  totalTimeSeconds :: int
  epQuestions :: "exam_question_public list"

definition specialtyNameOf :: "db \<Rightarrow> uuid \<Rightarrow> string option" where
  "specialtyNameOf d testId =
     Option.bind (List.find (\<lambda>t. tsId t = testId) (tests d))
       (\<lambda>t. map_option spName (List.find (\<lambda>s. spId s = tsSpecialtyId t) (specialties d)))"

definition loadContext ::
  "uuid \<Rightarrow> uuid \<Rightarrow> (assessment \<times> exam_question list \<times> string option) service" where
  "loadContext c i =
     bindE (ownAttempt c i AS_IN_PROGRESS ''not-in-progress'') (\<lambda>a.
     bindE (gets (\<lambda>w. specialtyNameOf (db w) (asTestId a))) (\<lambda>name.
     bindE (someOr (InternalServerErrorException ''not-iterable'') (examForSpecialty name (dec (asId a))))
       (\<lambda>qs. ret (a, qs, name))))"

definition publicQuestion :: "exam_question \<Rightarrow> exam_question_public" where
  "publicQuestion q = \<lparr>quId = qId q, quType = qType q, quDomain = qDomain q, quOptions = qOptions q,
     quTimeLimitSeconds = timeLimitForType (qType q)\<rparr>"

definition getExam :: "uuid \<Rightarrow> uuid \<Rightarrow> exam_payload service" where
  "getExam c i =
     bindE (loadContext c i) (\<lambda>(a, qs, name).
     ret \<lparr>epAssessmentId = i, epSpecialtyName = name,
       technicalCount = length (filter (\<lambda>q. qType q = TECHNICAL) qs),
       psychotechnicalCount = length (filter (\<lambda>q. qType q = PSYCHOTECHNICAL) qs),
       totalTimeSeconds = sum_list (map quTimeLimitSeconds (map publicQuestion qs)),
       epQuestions = map publicQuestion qs\<rparr>)"

section \<open>Grading\<close>

type_synonym answers = "(string \<times> rat) list"

definition answered_right :: "answers \<Rightarrow> exam_question \<Rightarrow> bool" where
  "answered_right ans q \<longleftrightarrow> map_of ans (qId q) = Some (of_nat (qCorrect q))"

definition pct :: "answers \<Rightarrow> exam_question list \<Rightarrow> int" where
  "pct ans qs =
     (if qs = [] then 0
      else roundRat (of_nat (length (filter (answered_right ans) qs)) / of_nat (length qs) * 100))"

definition compositeOf :: "int \<Rightarrow> int \<Rightarrow> int" where
  "compositeOf t p = roundRat (of_int t * 6 / 10 + of_int p * 4 / 10)"

definition levelOf :: "rat \<Rightarrow> feedback_level" where
  "levelOf ratio = (if 7 / 10 \<le> ratio then STRONG else if 4 / 10 \<le> ratio then MEDIUM else WEAK)"

definition domainFeedbackOf :: "answers \<Rightarrow> exam_question list \<Rightarrow> domain_feedback list" where
  "domainFeedbackOf ans qs =
     map (\<lambda>(d, xs). \<lparr>fbDomain = d,
            fbLevel = levelOf (of_nat (length (filter (answered_right ans) xs)) / of_nat (length xs))\<rparr>)
       (foldl (\<lambda>bs q. add_to_bucket (qDomain q) q bs) [] qs)"

record graded =
  grComposite :: int
  grTechnical :: int
  grPsychotechnical :: int
  grCorrect :: nat
  grTotal :: nat
  grDomainFeedback :: "domain_feedback list"

definition grade :: "exam_question list \<Rightarrow> answers \<Rightarrow> graded" where
  "grade qs ans =
     (let t = pct ans (filter (\<lambda>q. qType q = TECHNICAL) qs);
          p = pct ans (filter (\<lambda>q. qType q = PSYCHOTECHNICAL) qs)
      in \<lparr>grComposite = compositeOf t p, grTechnical = t, grPsychotechnical = p,
          grCorrect = length (filter (answered_right ans) qs), grTotal = length qs,
          grDomainFeedback = domainFeedbackOf ans qs\<rparr>)"

definition budgetSeconds :: "exam_question list \<Rightarrow> int" where
  "budgetSeconds qs = sum_list (map (\<lambda>q. timeLimitForType (qType q)) qs)"

definition tooLate :: "env \<Rightarrow> assessment \<Rightarrow> exam_question list \<Rightarrow> bool" where
  "tooLate env a qs = (case startedAt a of
     None \<Rightarrow> False
   | Some t \<Rightarrow> t + (budgetSeconds qs + EXAM_GRACE_SECONDS) * 1000 < now env)"

definition local_result :: "assessment \<Rightarrow> graded \<Rightarrow> assessment_result" where
  "local_result a g =
     (let e = (case externalAssessmentId a of None \<Rightarrow> dec (asId a) | Some x \<Rightarrow> x) in
      \<lparr>arExternalId = e, arScore = of_int (grComposite g), arMaxScore = 100,
       arPercentile = Some (of_int (grComposite g)), arVerdict = ''clean'',
       arDomainFeedback = grDomainFeedback g, arTechnical = Some (of_int (grTechnical g)),
       arPsychotechnical = Some (of_int (grPsychotechnical g)), arFingerprint = Some (''local-'' @ e)\<rparr>)"

text \<open>The result is the composite and the two parts.\<close>

definition submitExam ::
  "scoring_provider \<Rightarrow> env \<Rightarrow> uuid \<Rightarrow> uuid \<Rightarrow> answers \<Rightarrow> (int \<times> int \<times> int) service" where
  "submitExam sp env c i ans =
     bindE (loadContext c i) (\<lambda>(a, qs, name).
     if tooLate env a qs
     then bindE (saveAssessment (a\<lparr>asStatus := AS_INCIDENT\<rparr>)) (\<lambda>_.
          throw (ForbiddenException ''TIME_EXCEEDED''))
     else
       bindE (ret (grade qs ans)) (\<lambda>g.
       bindE (finalizeAssessment sp env a (Some (local_result a g))) (\<lambda>_.
       ret (grComposite g, grTechnical g, grPsychotechnical g))))"

end
