(* ===== verification/Exam_Facts.thy ===== *)
theory Exam_Facts
  imports Exam Frames
begin

text \<open>
  What every request on attempts and scores does to their two tables: it is one step of the abstract
  machine \<open>exam_step\<close>. The invariant \<open>exam_wf\<close> (an attempt is completed exactly when it has a score)
  is kept by every step, so by every sequence of requests.
\<close>

section \<open>The machine\<close>

definition exam_ok :: "nat \<Rightarrow> assessment list \<Rightarrow> score list \<Rightarrow> bool" where
  "exam_ok n as ss \<longleftrightarrow>
     distinct (map asId as) \<and> (\<forall>a \<in> set as. asId a < n) \<and>
     distinct (map scId ss) \<and> (\<forall>s \<in> set ss. scId s < n) \<and>
     distinct (map scAssessmentId ss) \<and>
     (\<forall>s \<in> set ss. \<exists>a \<in> set as. asId a = scAssessmentId s \<and> asStatus a = AS_COMPLETED) \<and>
     (\<forall>a \<in> set as. asStatus a = AS_COMPLETED \<longrightarrow>
        completedAt a \<noteq> None \<and> (\<exists>s \<in> set ss. scAssessmentId s = asId a))"

definition exam_wf :: "world \<Rightarrow> bool" where
  "exam_wf w \<longleftrightarrow> exam_ok (nextId w) (assessments (db w)) (scores (db w))"

lemma exam_ok_later: "exam_ok n as ss \<Longrightarrow> n \<le> m \<Longrightarrow> exam_ok m as ss"
  unfolding exam_ok_def by (meson order_less_le_trans)

definition unranked :: "score \<Rightarrow> score" where
  "unranked s = s\<lparr>scPercentile := None\<rparr>"

text \<open>What a request may do to an attempt that is not completed.\<close>

definition reopened :: "assessment \<Rightarrow> assessment \<Rightarrow> bool" where
  "reopened a a' \<longleftrightarrow> asStatus a \<noteq> AS_COMPLETED \<and> asStatus a' \<in> {AS_IN_PROGRESS, AS_INCIDENT} \<and>
     asId a' = asId a \<and> asCandidateId a' = asCandidateId a \<and> asTestId a' = asTestId a \<and>
     completedAt a' = completedAt a \<and> tabSwitchCount a \<le> tabSwitchCount a' \<and>
     windowBlurCount a \<le> windowBlurCount a' \<and> (proctoringFlagged a \<longrightarrow> proctoringFlagged a')"

inductive exam_step :: "world \<Rightarrow> world \<Rightarrow> bool" where
  still: "assessments (db w') = assessments (db w) \<Longrightarrow> scores (db w') = scores (db w) \<Longrightarrow>
     nextId w \<le> nextId w' \<Longrightarrow> exam_step w w'"
| opened: "nextId w \<le> asId a \<Longrightarrow> asId a < nextId w' \<Longrightarrow> asStatus a = AS_IN_PROGRESS \<Longrightarrow>
     assessments (db w') = upsert asId a (assessments (db w)) \<Longrightarrow> scores (db w') = scores (db w) \<Longrightarrow>
     exam_step w w'"
| changed: "a \<in> set (assessments (db w)) \<Longrightarrow> reopened a a' \<Longrightarrow>
     assessments (db w') = upsert asId a' (assessments (db w)) \<Longrightarrow> scores (db w') = scores (db w) \<Longrightarrow>
     nextId w \<le> nextId w' \<Longrightarrow> exam_step w w'"
| scored: "a \<in> set (assessments (db w)) \<Longrightarrow> asId a \<notin> scAssessmentId ` set (scores (db w)) \<Longrightarrow>
     scAssessmentId s = asId a \<Longrightarrow> nextId w \<le> scId s \<Longrightarrow> scId s < nextId w' \<Longrightarrow>
     assessments (db w') =
       upsert asId (a\<lparr>asStatus := AS_COMPLETED, completedAt := Some t\<rparr>) (assessments (db w)) \<Longrightarrow>
     scores (db w') = upsert scId s (scores (db w)) \<Longrightarrow> exam_step w w'"
| ranked: "assessments (db w') = assessments (db w) \<Longrightarrow>
     map unranked (scores (db w')) = map unranked (scores (db w)) \<Longrightarrow>
     nextId w \<le> nextId w' \<Longrightarrow> exam_step w w'"

inductive_cases exam_stepE: "exam_step w w'"

lemma unranked_key: "unranked s = unranked t \<Longrightarrow> scId s = scId t \<and> scAssessmentId s = scAssessmentId t
    \<and> scValue s = scValue t \<and> plagiarismVerdict s = plagiarismVerdict t \<and> scExpiresAt s = scExpiresAt t"
  by (cases s; cases t) (simp add: unranked_def)

lemma unranked_maps:
  assumes "map unranked xs = map unranked ys"
  shows "map scId xs = map scId ys" "map scAssessmentId xs = map scAssessmentId ys"
proof -
  have "list_all2 (\<lambda>x y. unranked x = unranked y) xs ys"
    using assms by (simp add: list_all2_conv_all_nth list_eq_iff_nth_eq)
  then have "list_all2 (\<lambda>x y. scId x = scId y \<and> scAssessmentId x = scAssessmentId y) xs ys"
    by (rule list_all2_mono) (use unranked_key in blast)
  then show "map scId xs = map scId ys" "map scAssessmentId xs = map scAssessmentId ys"
    by (auto simp: list_all2_conv_all_nth list_eq_iff_nth_eq)
qed

lemma upsert_existing_set:
  assumes "distinct (map asId as)" "a \<in> set as" "asId a' = asId a"
  shows "set (upsert asId a' as) = insert a' (set as - {a})"
  using assms by (auto simp: set_upsert distinct_map inj_on_def)

lemma exam_ok_opened:
  assumes "exam_ok n as ss" "n \<le> asId a" "asId a < m" "asStatus a = AS_IN_PROGRESS"
  shows "exam_ok m (as @ [a]) ss"
proof -
  have "exam_ok m as ss" using exam_ok_later [OF assms(1)] assms(2,3) by simp
  moreover have "asId a \<notin> asId ` set as" using assms(1,2) by (auto simp: exam_ok_def)
  ultimately show ?thesis using assms(3,4) unfolding exam_ok_def by auto
qed

lemma exam_ok_changed:
  assumes ok: "exam_ok n as ss" and a: "a \<in> set as" and r: "reopened a a'"
  shows "exam_ok n (upsert asId a' as) ss"
proof -
  have d: "distinct (map asId as)" using ok by (simp add: exam_ok_def)
  have s: "set (upsert asId a' as) = insert a' (set as - {a})"
    using upsert_existing_set [OF d a] r by (simp add: reopened_def)
  have "\<exists>y \<in> set (upsert asId a' as). asId y = scAssessmentId x \<and> asStatus y = AS_COMPLETED"
    if "x \<in> set ss" for x
  proof -
    from ok that obtain y where "y \<in> set as" "asId y = scAssessmentId x" "asStatus y = AS_COMPLETED"
      unfolding exam_ok_def by blast
    moreover from this r have "y \<noteq> a" by (auto simp: reopened_def)
    ultimately show ?thesis using s by auto
  qed
  with ok a r s d show ?thesis unfolding exam_ok_def reopened_def by (auto simp: distinct_upsert)
qed

lemma exam_ok_scored:
  assumes ok: "exam_ok n as ss" and a: "a \<in> set as" "asId a \<notin> scAssessmentId ` set ss"
    and s: "scAssessmentId s = asId a" "n \<le> scId s" "scId s < m"
  shows "exam_ok m (upsert asId (a\<lparr>asStatus := AS_COMPLETED, completedAt := Some t\<rparr>) as) (ss @ [s])"
    (is "exam_ok m ?as ?ss")
proof -
  let ?a = "a\<lparr>asStatus := AS_COMPLETED, completedAt := Some t\<rparr>"
  have okm: "exam_ok m as ss" using exam_ok_later [OF ok] s(2,3) by simp
  then have d: "distinct (map asId as)" by (simp add: exam_ok_def)
  have st: "set ?as = insert ?a (set as - {a})" using upsert_existing_set [OF d a(1), of ?a] by simp
  have "\<exists>y \<in> set ?as. asId y = scAssessmentId x \<and> asStatus y = AS_COMPLETED" if "x \<in> set ss" for x
  proof -
    from okm that obtain y where "y \<in> set as" "asId y = scAssessmentId x" "asStatus y = AS_COMPLETED"
      unfolding exam_ok_def by blast
    moreover from this that a(2) have "y \<noteq> a" by auto
    ultimately show ?thesis using st by auto
  qed
  moreover have "scId s \<notin> scId ` set ss" using ok s(2) by (auto simp: exam_ok_def)
  ultimately show ?thesis using okm a s st d unfolding exam_ok_def by (auto simp: distinct_upsert)
qed

lemma exam_ok_ranked:
  assumes ok: "exam_ok n as ss" and m: "map scId ss' = map scId ss"
    "map scAssessmentId ss' = map scAssessmentId ss"
  shows "exam_ok n as ss'"
proof -
  have im: "scId ` set ss' = scId ` set ss" "scAssessmentId ` set ss' = scAssessmentId ` set ss"
    using m by (metis list.set_map)+
  have "\<forall>x \<in> set ss'. scId x < n"
    using ok im(1) unfolding exam_ok_def by (metis imageE imageI)
  moreover have "\<exists>y \<in> set as. asId y = scAssessmentId x \<and> asStatus y = AS_COMPLETED"
    if "x \<in> set ss'" for x
  proof -
    have "scAssessmentId x \<in> scAssessmentId ` set ss" using that im(2) by blast
    then show ?thesis using ok unfolding exam_ok_def by auto
  qed
  moreover have "\<exists>y \<in> set ss'. scAssessmentId y = asId x"
    if "x \<in> set as" "asStatus x = AS_COMPLETED" for x
  proof -
    have "asId x \<in> scAssessmentId ` set ss" using ok that unfolding exam_ok_def by force
    then have "asId x \<in> scAssessmentId ` set ss'" using im(2) by simp
    then show ?thesis by auto
  qed
  ultimately show ?thesis using ok m unfolding exam_ok_def by simp
qed

text \<open>A fresh row is appended.\<close>

lemma exam_ok_fresh:
  assumes "exam_ok n as ss"
  shows "n \<le> asId a \<Longrightarrow> upsert asId a as = as @ [a]" "n \<le> scId s \<Longrightarrow> upsert scId s ss = ss @ [s]"
  using assms by (auto simp: exam_ok_def intro!: upsert_new)

lemma exam_wf_step:
  assumes wf: "exam_wf w" and step: "exam_step w w'"
  shows "exam_wf w'"
  using step
proof (cases rule: exam_step.cases)
  case still
  with wf show ?thesis unfolding exam_wf_def by (simp add: exam_ok_later)
next
  case (opened a)
  with wf exam_ok_fresh(1) [OF wf [unfolded exam_wf_def], of a] show ?thesis
    unfolding exam_wf_def by (simp add: exam_ok_opened)
next
  case (changed a a')
  then show ?thesis
    using exam_ok_later [OF exam_ok_changed [OF wf [unfolded exam_wf_def] changed(1,2)]]
    unfolding exam_wf_def by simp
next
  case (scored a s t)
  then show ?thesis
    using exam_ok_scored [OF wf [unfolded exam_wf_def] scored(1-5)]
      exam_ok_fresh(2) [OF wf [unfolded exam_wf_def], of s]
    unfolding exam_wf_def by simp
next
  case ranked
  note m = unranked_maps [OF ranked(2)]
  from exam_ok_later [OF exam_ok_ranked [OF wf [unfolded exam_wf_def] m] ranked(3)]
  show ?thesis unfolding exam_wf_def by (simp add: ranked(1))
qed

text \<open>A completed attempt and its score are final, the percentile apart.\<close>

lemma completed_step:
  assumes wf: "exam_wf w" and step: "exam_step w w'"
    and a: "a \<in> set (assessments (db w))" "asStatus a = AS_COMPLETED"
  shows "a \<in> set (assessments (db w'))"
proof -
  have d: "distinct (map asId (assessments (db w)))" using wf by (simp add: exam_wf_def exam_ok_def)
  from step show ?thesis
  proof (cases rule: exam_step.cases)
    case (opened b)
    with a exam_ok_fresh(1) [OF wf [unfolded exam_wf_def], of b] show ?thesis by simp
  next
    case (changed b b')
    then have "set (assessments (db w')) = insert b' (set (assessments (db w)) - {b})" "a \<noteq> b"
      using upsert_existing_set [OF d changed(1)] a(2) by (auto simp: reopened_def)
    with a(1) show ?thesis by simp
  next
    case (scored b s t)
    have "asId a \<in> scAssessmentId ` set (scores (db w))"
      using wf a unfolding exam_wf_def exam_ok_def by force
    with scored(2) have "a \<noteq> b" by auto
    with a(1) upsert_existing_set [OF d scored(1), of "b\<lparr>asStatus := AS_COMPLETED, completedAt := Some t\<rparr>"]
      scored(6) show ?thesis by simp
  qed (use a in auto)
qed

lemma score_step:
  assumes wf: "exam_wf w" and step: "exam_step w w'" and s: "s \<in> set (scores (db w))"
  shows "unranked s \<in> unranked ` set (scores (db w'))"
  using step
proof (cases rule: exam_step.cases)
  case ranked
  with s show ?thesis by (metis imageI list.set_map)
next
  case (scored a t d)
  with s exam_ok_fresh(2) [OF wf [unfolded exam_wf_def], of t] show ?thesis by simp
qed (use s in auto)

text \<open>An attempt never disappears; its counters and its flag only grow.\<close>

definition carried :: "assessment \<Rightarrow> assessment \<Rightarrow> bool" where
  "carried a a' \<longleftrightarrow> asId a' = asId a \<and> asCandidateId a' = asCandidateId a \<and> asTestId a' = asTestId a \<and>
     tabSwitchCount a \<le> tabSwitchCount a' \<and> windowBlurCount a \<le> windowBlurCount a' \<and>
     (proctoringFlagged a \<longrightarrow> proctoringFlagged a') \<and> (asStatus a = AS_COMPLETED \<longrightarrow> a' = a)"

lemma carried_trans: "carried a b \<Longrightarrow> carried b c \<Longrightarrow> carried a c"
  by (auto simp: carried_def)

lemma carried_same: "carried a a"
  by (simp add: carried_def)

lemma attempt_step:
  assumes wf: "exam_wf w" and step: "exam_step w w'" and a: "a \<in> set (assessments (db w))"
  obtains a' where "a' \<in> set (assessments (db w'))" "carried a a'"
proof (cases "asStatus a = AS_COMPLETED")
  case True
  with completed_step [OF wf step a] that carried_same show ?thesis by blast
next
  case False
  have d: "distinct (map asId (assessments (db w)))" using wf by (simp add: exam_wf_def exam_ok_def)
  have up: thesis if "a \<noteq> b \<or> carried b b'" "b \<in> set (assessments (db w))" "asId b' = asId b"
    "assessments (db w') = upsert asId b' (assessments (db w))" for b b'
    using that upsert_existing_set [OF d that(2,3)] a
      \<open>\<And>a'. a' \<in> set (assessments (db w')) \<Longrightarrow> carried a a' \<Longrightarrow> thesis\<close> [of a] carried_same
      \<open>\<And>a'. a' \<in> set (assessments (db w')) \<Longrightarrow> carried a a' \<Longrightarrow> thesis\<close> [of b'] by (cases "a = b") auto
  from step show ?thesis
  proof (cases rule: exam_step.cases)
    case still then show ?thesis using that [of a] a carried_same by simp
  next
    case (opened b)
    with that [of a] a carried_same exam_ok_fresh(1) [OF wf [unfolded exam_wf_def], of b]
    show ?thesis by simp
  next
    case (changed b b')
    then show ?thesis by (intro up [of b b']) (auto simp: reopened_def carried_def)
  next
    case (scored b s t)
    then show ?thesis
      using False by (intro up [of b "b\<lparr>asStatus := AS_COMPLETED, completedAt := Some t\<rparr>"])
        (auto simp: carried_def)
  next
    case ranked then show ?thesis using that [of a] a carried_same by simp
  qed
qed

lemma exam_step_ids: "exam_step w w' \<Longrightarrow> nextId w \<le> nextId w'"
  by (erule exam_step.cases) auto

section \<open>Reads\<close>

lemma ownAttempt_Inr [returns]:
  "ownAttempt c i st m w = (Inr a, w') \<longleftrightarrow>
     w' = w \<and> List.find (\<lambda>a. asId a = i) (assessments (db w)) = Some a \<and>
     asCandidateId a = c \<and> asStatus a = st"
  by (auto simp: ownAttempt_def returns)

lemma ownAttempt_Inl: "ownAttempt c i st m w = (Inl e, w') \<Longrightarrow> w' = w"
  by (auto simp: ownAttempt_def bindE_throws someOr_def require_def split: option.splits if_splits)

lemma loadContext_Inr:
  assumes "loadContext c i w = (Inr (a, qs, name), w')"
  shows "w' = w" "List.find (\<lambda>a. asId a = i) (assessments (db w)) = Some a" "asCandidateId a = c"
    "asStatus a = AS_IN_PROGRESS" "examForSpecialty name (dec (asId a)) = Some qs"
    "name = specialtyNameOf (db w) (asTestId a)"
  using assms by (auto simp: loadContext_def returns)

lemma loadContext_Inl: "loadContext c i w = (Inl e, w') \<Longrightarrow> w' = w"
  by (auto simp: loadContext_def bindE_throws returns someOr_def dest: ownAttempt_Inl
      split: option.splits)

text \<open>Everything an outside effect leaves as it was.\<close>

lemma still_outside: "outside_db m \<Longrightarrow> m w = (r, w') \<Longrightarrow> exam_step w w'"
  using outside_dbD [of m w r w'] by (auto intro: still)

lemma saveAssessment_eq: "saveAssessment a w =
    (Inr a, w\<lparr>db := (db w)\<lparr>assessments := upsert asId a (assessments (db w))\<rparr>\<rparr>)"
  by (simp add: saveAssessment_def save_into_def checked_save_def unconstrained_def)

lemma saveProfile_frame:
  "saveProfile p w = (r, w') \<Longrightarrow> assessments (db w') = assessments (db w) \<and>
     scores (db w') = scores (db w) \<and> nextId w' = nextId w"
  by (auto simp: saveProfile_def save_into_def checked_save_def split: option.splits)

definition exam_frame :: "db \<Rightarrow> db \<Rightarrow> bool" where
  "exam_frame d d' \<longleftrightarrow> assessments d' = assessments d \<and> scores d' = scores d"

interpretation exams: db_frame exam_frame
  by unfold_locales (auto simp: exam_frame_def)

lemma storeProfile_exams: "moves exam_frame (storeProfile env p)"
  unfolding storeProfile_def
  by (intro exams.moves_rules movesI) (auto simp: exam_frame_def dest: saveProfile_frame)

lemma applyThresholds_exams: "moves exam_frame (applyThresholds env c)"
  unfolding applyThresholds_def
  by (intro exams.moves_rules storeProfile_exams exams.moves_outside [OF outside_numberOr])

lemma ids_grow_applyThresholds: "ids_grow (applyThresholds env c)"
proof -
  have "ids_grow (saveProfile p)" for p
    by (rule ids_growI) (metis saveProfile_frame order_refl prod.collapse)
  then show ?thesis
    unfolding applyThresholds_def storeProfile_def
    by (intro keeping ids_grow_outside [OF outside_numberOr]) (auto intro: keeping)
qed

section \<open>Composing steps\<close>

text \<open>\<open>framed m\<close>: \<open>m\<close> leaves attempts and scores alone. \<open>stepping P m\<close>: from a state whose two tables
  satisfy \<open>P\<close>, \<open>m\<close> is one step.\<close>

definition framed :: "'a service \<Rightarrow> bool" where
  "framed m \<longleftrightarrow> moves exam_frame m \<and> ids_grow m"

definition stepping :: "(assessment list \<Rightarrow> score list \<Rightarrow> bool) \<Rightarrow> 'a service \<Rightarrow> bool" where
  "stepping P m \<longleftrightarrow> (\<forall>w r w'. P (assessments (db w)) (scores (db w)) \<longrightarrow> m w = (r, w') \<longrightarrow> exam_step w w')"

lemma framedD: "framed m \<Longrightarrow> m w = (r, w') \<Longrightarrow> assessments (db w') = assessments (db w) \<and>
    scores (db w') = scores (db w) \<and> nextId w \<le> nextId w'"
  unfolding framed_def by (metis exam_frame_def ids_growD movesD)

lemma steppingD: "stepping P m \<Longrightarrow> m w = (r, w') \<Longrightarrow> P (assessments (db w)) (scores (db w)) \<Longrightarrow>
    exam_step w w'"
  unfolding stepping_def by blast

lemma framed_outside: "outside_db m \<Longrightarrow> framed m"
  unfolding framed_def using exams.moves_outside ids_grow_outside by blast

lemma framed_bindE: "framed m \<Longrightarrow> (\<And>x. framed (f x)) \<Longrightarrow> framed (bindE m f)"
  unfolding framed_def by (auto intro: exams.moves_bindE keeping)

lemma framed_option: "framed m \<Longrightarrow> (\<And>x. framed (f x)) \<Longrightarrow>
    framed (case opt of None \<Rightarrow> m | Some x \<Rightarrow> f x)"
  by (cases opt) auto

lemma framed_if: "framed m \<Longrightarrow> framed m' \<Longrightarrow> framed (if c then m else m')"
  by simp

lemma framed_applyThresholds: "framed (applyThresholds env c)"
  unfolding framed_def using applyThresholds_exams ids_grow_applyThresholds by blast

lemma outside_getSetting [keeping]: "outside_db (getSetting env k f)"
  unfolding getSetting_def by (intro keeping)

lemma outside_ownAttempt [keeping]: "outside_db (ownAttempt c i st m)"
  unfolding ownAttempt_def by (intro keeping)

lemma outside_loadContext [keeping]: "outside_db (loadContext c i)"
  unfolding loadContext_def by (intro keeping)

lemma outside_computeCompositeScore [keeping]: "outside_db (computeCompositeScore env r)"
  unfolding computeCompositeScore_def prod.case by (intro keeping)

lemma outside_expiryDate [keeping]: "outside_db (expiryDate env n)"
  unfolding expiryDate_def by (intro keeping)

lemma outside_checkEligibility [keeping]: "outside_db (checkEligibility env c t)"
  unfolding checkEligibility_def by (intro keeping)

lemma outside_detectMultiAccount [keeping]: "outside_db (detectMultiAccount env c fp)"
  unfolding detectMultiAccount_def by (intro keeping)

lemma outside_score_columns [keeping]: "outside_db (scoreColumn n)" "outside_db (optionalColumn x)"
  unfolding scoreColumn_def optionalColumn_def by (intro keeping)+

lemmas framed_reads = framed_outside [OF outside_ownAttempt] framed_outside [OF outside_numberOr]
  framed_outside [OF outside_loadContext] framed_outside [OF outside_getSetting]
  framed_outside [OF outside_computeCompositeScore] framed_outside [OF outside_expiryDate]
  framed_outside [OF outside_checkEligibility] framed_outside [OF outside_detectMultiAccount]
  framed_outside [OF outside_score_columns(1)] framed_outside [OF outside_score_columns(2)]

lemmas framed_basic = framed_outside [OF outside_ret] framed_outside [OF outside_throw]
  framed_outside [OF outside_gets] framed_outside [OF outside_require]
  framed_outside [OF outside_someOr] framed_outside [OF outside_auditLog]
  framed_outside [OF outside_track] framed_outside [OF outside_freshId]

lemmas framed_rules = framed_basic framed_reads framed_applyThresholds framed_bindE framed_option framed_if

lemma exam_step_before:
  assumes "assessments (db w1) = assessments (db w)" "scores (db w1) = scores (db w)"
    "nextId w \<le> nextId w1" "exam_step w1 w'"
  shows "exam_step w w'"
  using assms(4)
proof (cases rule: exam_step.cases)
  case still with assms show ?thesis by (intro exam_step.still) auto
next
  case (opened a) with assms show ?thesis by (intro exam_step.opened) auto
next
  case (changed a a') with assms show ?thesis by (intro exam_step.changed) auto
next
  case (scored a s t) with assms show ?thesis by (intro exam_step.scored [of a]) auto
next
  case ranked with assms show ?thesis by (intro exam_step.ranked) auto
qed

lemma exam_step_after:
  assumes "assessments (db w') = assessments (db w1)" "scores (db w') = scores (db w1)"
    "nextId w1 \<le> nextId w'" "exam_step w w1"
  shows "exam_step w w'"
  using assms(4)
proof (cases rule: exam_step.cases)
  case still with assms show ?thesis by (intro exam_step.still) auto
next
  case (opened a) with assms show ?thesis by (intro exam_step.opened) auto
next
  case (changed a a') with assms show ?thesis by (intro exam_step.changed) auto
next
  case (scored a s t) with assms show ?thesis by (intro exam_step.scored [of a]) auto
next
  case ranked with assms show ?thesis by (intro exam_step.ranked) auto
qed

lemma stepping_framed: "framed m \<Longrightarrow> stepping P m"
  unfolding stepping_def using framedD exam_step.still by blast

lemma stepping_bindE:
  assumes "framed m"
    and "\<And>w x w'. P (assessments (db w)) (scores (db w)) \<Longrightarrow> m w = (Inr x, w') \<Longrightarrow>
      Q x (assessments (db w)) (scores (db w))"
    and "\<And>x. stepping (Q x) (f x)"
  shows "stepping P (bindE m f)"
  unfolding stepping_def
proof (intro allI impI)
  fix w r w'
  assume P: "P (assessments (db w)) (scores (db w))" and run: "bindE m f w = (r, w')"
  show "exam_step w w'"
  using run proof (cases rule: bindE_cases)
    case (throws e w1)
    then show ?thesis using framedD [OF assms(1) throws(1)] by (auto intro: exam_step.still)
  next
    case (returns x w1)
    note fr = framedD [OF assms(1) returns(1)]
    have "exam_step w1 w'"
      using steppingD [OF assms(3) returns(2) [symmetric]] assms(2) [OF P returns(1)] fr by simp
    with fr show ?thesis by (blast intro: exam_step_before)
  qed
qed

lemma stepping_pass: "framed m \<Longrightarrow> (\<And>x. stepping P (f x)) \<Longrightarrow> stepping P (bindE m f)"
  by (rule stepping_bindE [where Q = "\<lambda>_. P"]) auto

lemma stepping_then:
  assumes "stepping P m" "\<And>x. framed (f x)"
  shows "stepping P (bindE m f)"
  unfolding stepping_def
proof (intro allI impI)
  fix w r w'
  assume P: "P (assessments (db w)) (scores (db w))" and run: "bindE m f w = (r, w')"
  show "exam_step w w'"
  using run proof (cases rule: bindE_cases)
    case (throws e w1)
    then show ?thesis using steppingD [OF assms(1) throws(1) P] by simp
  next
    case (returns x w1)
    then show ?thesis
      using steppingD [OF assms(1) returns(1) P] framedD [OF assms(2) returns(2) [symmetric]]
      by (blast intro: exam_step_after)
  qed
qed

lemma stepping_if: "stepping P m \<Longrightarrow> stepping P m' \<Longrightarrow> stepping P (if c then m else m')"
  by simp

lemma stepping_option: "stepping P m \<Longrightarrow> (\<And>x. stepping P (f x)) \<Longrightarrow>
    stepping P (case opt of None \<Rightarrow> m | Some x \<Rightarrow> f x)"
  by (cases opt) auto

lemma stepping_conj: "(C \<Longrightarrow> stepping P m) \<Longrightarrow> stepping (\<lambda>as ss. P as ss \<and> C) m"
  by (auto simp: stepping_def)

lemma ownAttempt_known:
  "ownAttempt c i st m w = (Inr a, w') \<Longrightarrow> a \<in> set (assessments (db w)) \<and> asStatus a = st"
  by (auto simp: ownAttempt_Inr dest: find_SomeD)

lemma loadContext_known:
  "loadContext c i w = (Inr (a, qs, name), w') \<Longrightarrow> a \<in> set (assessments (db w)) \<and> asStatus a = AS_IN_PROGRESS"
  using loadContext_Inr [of c i w a qs name w'] by (auto dest: find_SomeD)

section \<open>Every request is a step\<close>

lemma step_reopen:
  "stepping (\<lambda>as ss. a \<in> set as \<and> reopened a a') (saveAssessment a')"
  unfolding stepping_def by (auto simp: saveAssessment_eq intro!: exam_step.changed)

lemma step_saved:
  assumes "reopened a a'" "\<And>x. framed (f x)"
  shows "stepping (\<lambda>as ss. a \<in> set as) (bindE (saveAssessment a') f)"
  by (rule stepping_then [OF _ assms(2)])
    (use step_reopen [of a a'] assms(1) in \<open>simp add: stepping_def\<close>)

lemma stepping_own:
  assumes "\<And>a. asStatus a = st \<Longrightarrow> stepping (\<lambda>as ss. a \<in> set as) (f a)"
  shows "stepping P (bindE (ownAttempt c i st m) f)"
  by (rule stepping_bindE [where Q = "\<lambda>a as ss. a \<in> set as \<and> asStatus a = st"])
    (use assms in \<open>auto simp: framed_reads stepping_def dest: ownAttempt_known\<close>)

lemma step_resume: "stepping P (resumeAssessment cr env c i token)"
  unfolding resumeAssessment_def
  by (intro stepping_own stepping_pass framed_rules step_saved) (simp add: reopened_def)

lemma step_incident: "stepping P (reportIncident env c i)"
  unfolding reportIncident_def
  by (intro stepping_own stepping_pass framed_rules step_saved) (simp add: reopened_def)

lemma reopened_proctored: "asStatus a = AS_IN_PROGRESS \<Longrightarrow> reopened a (proctored x y (observed t b a))"
  by (auto simp: reopened_def proctored_def observed_def)

lemma step_proctoring: "stepping P (recordProctoringEvents env c i tabs blurs)"
  unfolding recordProctoringEvents_def
  by (intro stepping_own stepping_pass framed_rules step_saved reopened_proctored)

lemma step_open:
  assumes "\<And>i. asId (row i) = i \<and> asStatus (row i) = AS_IN_PROGRESS" "\<And>x. framed (f x)"
  shows "stepping P (bindE freshId (\<lambda>i. bindE (saveAssessment (row i)) f))"
proof -
  have "stepping P (bindE freshId (\<lambda>i. saveAssessment (row i)))"
    unfolding stepping_def
    by (auto simp: freshId_def bindE_def saveAssessment_eq assms(1) intro!: exam_step.opened)
  then have "stepping P (bindE (bindE freshId (\<lambda>i. saveAssessment (row i))) f)"
    by (rule stepping_then) (rule assms(2))
  then show ?thesis by (simp add: bindE_assoc)
qed

lemma step_openAttempt:
  assumes "port_ok sp"
  shows "stepping P (openAttempt sp cr env c t ip fp flagged)"
proof -
  have "framed (createExternal sp x y z)" for x y z
    using assms by (auto simp: scoring_port_def intro: framed_outside)
  then show ?thesis
    unfolding openAttempt_def split_beta
    by (intro stepping_pass [OF _ stepping_pass [OF _ step_open]] framed_rules)
      (simp_all add: new_attempt_def)
qed

lemma step_start: "port_ok sp \<Longrightarrow> stepping P (startAssessment sp cr env c t ip fp)"
  unfolding startAssessment_def by (intro stepping_pass framed_rules step_openAttempt)

text \<open>The score and the completion of its attempt are one step.\<close>

definition scorable :: "assessment \<Rightarrow> assessment list \<Rightarrow> score list \<Rightarrow> bool" where
  "scorable a as ss \<longleftrightarrow> a \<in> set as \<and> asId a \<notin> scAssessmentId ` set ss"

lemma saveScore_cases:
  assumes "saveScore s w = (r, w')"
  obtains (refused) e where "r = Inl e" "w' = w"
  | (stored) "r = Inr s" "w' = w\<lparr>db := (db w)\<lparr>scores := upsert scId s (scores (db w))\<rparr>\<rparr>"
  using assms by (auto simp: saveScore_def save_into_def checked_save_def split: option.splits)

lemma step_score:
  assumes "\<And>i. scId (row i) = i \<and> scAssessmentId (row i) = asId a"
  shows "stepping (scorable a) (bindE (bindE freshId (\<lambda>i. saveScore (row i)))
    (\<lambda>s. bindE (saveAssessment (a\<lparr>asStatus := AS_COMPLETED, completedAt := Some t\<rparr>)) (\<lambda>_. ret s)))"
  unfolding stepping_def
proof (intro allI impI)
  fix w r w'
  assume sc: "scorable a (assessments (db w)) (scores (db w))"
    and run: "bindE (bindE freshId (\<lambda>i. saveScore (row i)))
      (\<lambda>s. bindE (saveAssessment (a\<lparr>asStatus := AS_COMPLETED, completedAt := Some t\<rparr>)) (\<lambda>_. ret s)) w = (r, w')"
  let ?s = "row (nextId w)"
  obtain r1 w1 where s: "saveScore ?s (w\<lparr>nextId := Suc (nextId w)\<rparr>) = (r1, w1)" by fastforce
  then show "exam_step w w'"
  proof (cases rule: saveScore_cases)
    case (refused e)
    with run s show ?thesis by (auto simp: bindE_def freshId_def intro!: exam_step.still)
  next
    case stored
    with run s have w': "w' = w1\<lparr>db := (db w1)\<lparr>assessments :=
        upsert asId (a\<lparr>asStatus := AS_COMPLETED, completedAt := Some t\<rparr>) (assessments (db w1))\<rparr>\<rparr>"
      by (simp add: bindE_def freshId_def saveAssessment_eq)
    show ?thesis
      by (rule exam_step.scored [of a _ ?s _ t]) (use sc stored w' assms in \<open>simp_all add: scorable_def\<close>)
  qed
qed

lemma step_insertScore:
  "stepping (scorable a) (bindE (insertScore env a r v bareme tv expires verdict)
     (\<lambda>s. bindE (saveAssessment (a\<lparr>asStatus := AS_COMPLETED, completedAt := Some t\<rparr>)) (\<lambda>_. ret s)))"
  unfolding insertScore_def bindE_assoc
  by (intro stepping_pass framed_rules
      step_score [where a = a, unfolded bindE_assoc, of "\<lambda>i. \<lparr>scId = i, scAssessmentId = asId a,
        scValue = _ i, scPercentile = _ i, scTechnical = _ i, scPsychotechnical = _ i, baremeVersion = _ i,
        scTestVersion = _ i, plagiarismVerdict = _ i, answerFingerprint = _ i, scDomainFeedback = _ i,
        scExpiresAt = _ i, scCreatedAt = _ i\<rparr>"]) simp

lemma step_persist: "stepping (scorable a) (persistScore env a r v bareme tv expires verdict)"
proof -
  have "persistScore env a r v bareme tv expires verdict =
    bindE (bindE (insertScore env a r v bareme tv expires verdict)
      (\<lambda>s. bindE (saveAssessment (a\<lparr>asStatus := AS_COMPLETED, completedAt := Some (now env)\<rparr>)) (\<lambda>_. ret s)))
    (\<lambda>s. bindE (auditLog env (assessmentEvent (asCandidateId a) ASSESSMENT_COMPLETED (asId a))) (\<lambda>_.
     bindE (auditLog env \<lparr>actorId = Some (asCandidateId a), auAction = SCORE_CALCULATED,
              entityType = ''score'', entityId = scId s\<rparr>) (\<lambda>_.
     bindE (track env A_SCORE_OBTAINED (Some (asCandidateId a))) (\<lambda>_.
     bindE (applyThresholds env (asCandidateId a)) (\<lambda>_.
     ret (False, scId s))))))"
    by (simp add: persistScore_def bindE_assoc)
  then show ?thesis by (simp only:) (intro stepping_then step_insertScore framed_rules)
qed

lemma step_finalize:
  assumes "port_ok sp"
  shows "stepping (\<lambda>as ss. a \<in> set as) (finalizeAssessment sp env a provided)"
proof -
  have "framed (getResult sp x)" for x
    using assms by (auto simp: scoring_port_def intro: framed_outside)
  note fr = this framed_rules
  have look: "stepping (\<lambda>as ss. a \<in> set as)
      (bindE (gets (\<lambda>w. List.find (\<lambda>s. scAssessmentId s = asId a) (scores (db w))))
        (\<lambda>ex. case ex of Some s \<Rightarrow> ret (True, scId s) | None \<Rightarrow> m))"
    if "stepping (scorable a) m" for m :: "(bool \<times> uuid) service"
  proof (rule stepping_bindE [where Q = "\<lambda>ex as ss. if ex = None then scorable a as ss else True"])
    fix w x w'
    assume "a \<in> set (assessments (db w))"
      "gets (\<lambda>w. List.find (\<lambda>s. scAssessmentId s = asId a) (scores (db w))) w = (Inr x, w')"
    then show "if x = None then scorable a (assessments (db w)) (scores (db w)) else True"
      by (auto simp: scorable_def find_None_iff)
  next
    fix x show "stepping (\<lambda>as ss. if x = None then scorable a as ss else True)
        (case x of Some s \<Rightarrow> ret (True, scId s) | None \<Rightarrow> m)"
      using that by (cases x) (simp_all add: stepping_framed fr)
  qed (rule fr)
  show ?thesis
    unfolding finalizeAssessment_def
    by (intro stepping_pass look step_persist fr)
qed

lemma step_webhook:
  assumes "port_ok sp"
  shows "stepping P (processScoringWebhook sp env payload signature)"
proof -
  have "framed (verifyScoring sp x y)" for x y
    using assms by (auto simp: scoring_port_def intro: framed_outside)
  note fr = this framed_rules
  have look: "stepping P (bindE (gets (\<lambda>w. List.find Q (assessments (db w)))) (\<lambda>found.
      bindE (someOr e found) (\<lambda>a. finalizeAssessment sp env a None)))" for Q e
    by (rule stepping_bindE [where Q = "\<lambda>f as ss. \<forall>a. f = Some a \<longrightarrow> a \<in> set as"],
        rule fr, fastforce dest: find_SomeD,
        rule stepping_bindE [where Q = "\<lambda>a as ss. a \<in> set as"])
      (use step_finalize [OF assms] in \<open>auto intro: fr simp: someOr_Inr\<close>)
  show ?thesis
    unfolding processScoringWebhook_def split_beta by (intro stepping_pass fr look)
qed

lemma step_simulate: "port_ok sp \<Longrightarrow> stepping P (simulateCompletion sp env c i)"
  unfolding simulateCompletion_def by (intro stepping_own step_finalize)

lemma step_submit:
  assumes "port_ok sp"
  shows "stepping P (submitExam sp env c i ans)"
proof -
  have "stepping (\<lambda>as ss. fst x \<in> set as \<and> asStatus (fst x) = AS_IN_PROGRESS)
     (if tooLate env (fst x) qs
      then bindE (saveAssessment (fst x\<lparr>asStatus := AS_INCIDENT\<rparr>)) (\<lambda>_. throw e)
      else bindE (ret (grade qs ans)) (\<lambda>g.
        bindE (finalizeAssessment sp env (fst x) (Some (local_result (fst x) g))) (\<lambda>_.
        ret (grComposite g, grTechnical g, grPsychotechnical g))))" for x :: "assessment \<times> 'a" and qs e
    by (rule stepping_conj)
      (intro stepping_if step_saved stepping_pass stepping_then step_finalize assms framed_rules;
       simp add: reopened_def)
  then show ?thesis
    unfolding submitExam_def split_beta
    by (rule stepping_bindE [rotated 2]) (auto intro: framed_rules dest: loadContext_known)
qed

section \<open>The sweep that ranks\<close>

lemma map_unranked_percentile:
  "map unranked (update_where P (\<lambda>s. s\<lparr>scPercentile := x\<rparr>) ss) = map unranked ss"
  by (simp add: update_where_def unranked_def)

definition ranking :: "'a service \<Rightarrow> bool" where
  "ranking m \<longleftrightarrow> (\<forall>w r w'. m w = (r, w') \<longrightarrow> assessments (db w') = assessments (db w) \<and>
     map unranked (scores (db w')) = map unranked (scores (db w)) \<and> nextId w' = nextId w)"

lemma ranking_bindE: "ranking m \<Longrightarrow> (\<And>x. ranking (f x)) \<Longrightarrow> ranking (bindE m f)"
  unfolding ranking_def bindE_def by (auto split: prod.splits sum.splits)

lemma ranking_basic: "ranking (ret x)" "ranking (gets g)" "ranking (set_percentile i p)"
  by (simp_all add: ranking_def set_percentile_def map_unranked_percentile)

lemma ranking_rows: "ranking (recalculateRows cohort ss)"
  by (induction ss) (simp_all add: ranking_basic ranking_bindE del: ret_apply)

lemma ranking_all: "ranking (recalculateAll bs)"
  by (induction bs)
    (simp_all add: recalculateCohort_def ranking_basic ranking_bindE ranking_rows del: ret_apply)

lemma step_recalculate: "stepping P (recalculate env)"
proof -
  have "ranking (recalculate env)"
    unfolding recalculate_def by (intro ranking_bindE ranking_basic ranking_all)
  then show ?thesis
    unfolding stepping_def ranking_def by (metis exam_step.ranked order_refl)
qed

section \<open>Sequences of requests\<close>

datatype exam_request =
  Start uuid uuid "string option" "string option"
| Resume uuid uuid string
| Incident uuid uuid
| Proctoring uuid uuid int int
| Submit uuid uuid answers
| ScoringWebhook string string
| Simulate uuid uuid
| Recalculate

definition unit_of :: "'a service \<Rightarrow> unit service" where
  "unit_of m = bindE m (\<lambda>_. ret ())"

fun handleExam :: "scoring_provider \<Rightarrow> crypto \<Rightarrow> env \<Rightarrow> exam_request \<Rightarrow> unit service" where
  "handleExam sp cr env (Start c t ip fp) = unit_of (startAssessment sp cr env c t ip fp)"
| "handleExam sp cr env (Resume c i token) = unit_of (resumeAssessment cr env c i token)"
| "handleExam sp cr env (Incident c i) = unit_of (reportIncident env c i)"
| "handleExam sp cr env (Proctoring c i t b) = unit_of (recordProctoringEvents env c i t b)"
| "handleExam sp cr env (Submit c i ans) = unit_of (submitExam sp env c i ans)"
| "handleExam sp cr env (ScoringWebhook p s) = unit_of (processScoringWebhook sp env p s)"
| "handleExam sp cr env (Simulate c i) = unit_of (simulateCompletion sp env c i)"
| "handleExam sp cr env Recalculate = unit_of (recalculate env)"

fun runExams :: "scoring_provider \<Rightarrow> crypto \<Rightarrow> (env \<times> exam_request) list \<Rightarrow> world \<Rightarrow> world" where
  "runExams sp cr [] w = w"
| "runExams sp cr ((env, r) # rs) w = runExams sp cr rs (snd (handleExam sp cr env r w))"

lemma step_unit_of: "stepping P m \<Longrightarrow> stepping P (unit_of m)"
  unfolding unit_of_def by (intro stepping_then framed_rules)

lemma handleExam_step: "port_ok sp \<Longrightarrow> exam_step w (snd (handleExam sp cr env r w))"
proof -
  assume p: "port_ok sp"
  have "stepping (\<lambda>_ _. True) (handleExam sp cr env r)"
    by (cases r) (simp_all add: step_unit_of step_start step_resume step_incident step_proctoring
        step_submit step_webhook step_simulate step_recalculate p)
  then show ?thesis by (metis prod.collapse steppingD)
qed

lemma runExams_wf: "port_ok sp \<Longrightarrow> exam_wf w \<Longrightarrow> exam_wf (runExams sp cr rs w)"
proof (induction rs arbitrary: w)
  case (Cons r rs)
  then show ?case using exam_wf_step [OF Cons.prems(2) handleExam_step [OF Cons.prems(1)]]
    by (cases r) simp
qed simp

text \<open>What the sequence keeps of each row.\<close>

lemma runExams_scores:
  "port_ok sp \<Longrightarrow> exam_wf w \<Longrightarrow>
     unranked ` set (scores (db w)) \<subseteq> unranked ` set (scores (db (runExams sp cr rs w)))"
proof (induction rs arbitrary: w)
  case (Cons r rs)
  obtain env q where r: "r = (env, q)" by fastforce
  note st = handleExam_step [OF Cons.prems(1), of w cr env q]
  have "unranked ` set (scores (db w)) \<subseteq> unranked ` set (scores (db (snd (handleExam sp cr env q w))))"
    using score_step [OF Cons.prems(2) st] by blast
  also note Cons.IH [OF Cons.prems(1) exam_wf_step [OF Cons.prems(2) st]]
  finally show ?case by (simp add: r)
qed simp

lemma runExams_attempts:
  "port_ok sp \<Longrightarrow> exam_wf w \<Longrightarrow> \<forall>a \<in> set (assessments (db w)).
     \<exists>a' \<in> set (assessments (db (runExams sp cr rs w))). carried a a'"
proof (induction rs arbitrary: w)
  case Nil
  then show ?case using carried_same by auto
next
  case (Cons r rs)
  obtain env q where r: "r = (env, q)" by fastforce
  note st = handleExam_step [OF Cons.prems(1), of w cr env q]
  have z: "runExams sp cr (r # rs) w = runExams sp cr rs (snd (handleExam sp cr env q w))" by (simp add: r)
  show ?case
  proof
    fix a assume "a \<in> set (assessments (db w))"
    from attempt_step [OF Cons.prems(2) st this] obtain a' where
      a': "a' \<in> set (assessments (db (snd (handleExam sp cr env q w))))" "carried a a'" .
    then show "\<exists>a' \<in> set (assessments (db (runExams sp cr (r # rs) w))). carried a a'"
      using Cons.IH [OF Cons.prems(1) exam_wf_step [OF Cons.prems(2) st]] carried_trans
      unfolding z by blast
  qed
qed

end
