(* ===== verification/Percentile_Facts.thy ===== *)
theory Percentile_Facts
  imports Exam_Facts
begin

text \<open>
  The percentile sweep of \<open>Scoring\<close>: the rank it computes (bounds, monotone in the score, zero for
  the lowest), the table it leaves, and that a second sweep finds nothing to write.
\<close>

section \<open>The rank\<close>

definition below :: "score list \<Rightarrow> js_number \<Rightarrow> nat" where
  "below cohort v = length (filter (\<lambda>x. jsLt (scValue x) v) cohort)"

lemma cohortPercentile_below:
  "cohortPercentile cohort s = round2 (of_nat (below cohort (scValue s)) / of_nat (length cohort) * 100)"
  by (simp add: cohortPercentile_def below_def count_where_def filter_map o_def)

lemma below_mono: "jsLe v v' \<Longrightarrow> below cohort v \<le> below cohort v'"
proof -
  assume le: "jsLe v v'"
  have "jsLt x v'" if "jsLt x v" for x
    using that le jsLe_trans unfolding jsLt_def by blast
  then have "filter (\<lambda>x. jsLt (scValue x) v) cohort =
      filter (\<lambda>x. jsLt (scValue x) v) (filter (\<lambda>x. jsLt (scValue x) v') cohort)"
    unfolding filter_filter by (metis (no_types, lifting))
  then show ?thesis unfolding below_def by (metis length_filter_le)
qed

lemma below_le: "below cohort v \<le> length cohort"
  by (simp add: below_def)

lemma cohortPercentile_bounds: "0 \<le> cohortPercentile cohort s \<and> cohortPercentile cohort s \<le> 100"
proof -
  have "of_nat (below cohort (scValue s)) / of_nat (length cohort) * 100 \<le> (100 :: rat)"
    using below_le [of cohort "scValue s"] by (cases "cohort = []") (simp_all add: divide_le_eq)
  then show ?thesis
    using round2_between [of 0 _ 100] unfolding cohortPercentile_below by simp
qed

lemma cohortPercentile_mono:
  "jsLe (scValue s) (scValue t) \<Longrightarrow> cohortPercentile cohort s \<le> cohortPercentile cohort t"
  unfolding cohortPercentile_below
  by (intro round2_mono mult_right_mono divide_right_mono) (simp_all add: below_mono)

lemma cohortPercentile_lowest:
  "list_all (\<lambda>x. \<not> jsLt (scValue x) (scValue s)) cohort \<Longrightarrow> cohortPercentile cohort s = 0"
  by (simp add: cohortPercentile_below below_def list_all_iff filter_False)

text \<open>The rank reads the values only.\<close>

lemma cohortPercentile_cong:
  "map scValue cohort' = map scValue cohort \<Longrightarrow> scValue s' = scValue s \<Longrightarrow>
     cohortPercentile cohort' s' = cohortPercentile cohort s"
  unfolding cohortPercentile_def by (metis length_map)

section \<open>The table the sweep leaves\<close>

definition settled :: "score list \<Rightarrow> score \<Rightarrow> bool" where
  "settled cohort s \<longleftrightarrow> map_option round2 (scPercentile s) = Some (cohortPercentile cohort s)"

definition settle :: "score list \<Rightarrow> score \<Rightarrow> score" where
  "settle cohort s = (if settled cohort s then s else s\<lparr>scPercentile := Some (cohortPercentile cohort s)\<rparr>)"

lemma round2_cohortPercentile [simp]: "round2 (cohortPercentile cohort s) = cohortPercentile cohort s"
  by (simp add: cohortPercentile_def)

lemma settle_fields [simp]:
  "scId (settle c s) = scId s" "scAssessmentId (settle c s) = scAssessmentId s"
  "scValue (settle c s) = scValue s" "plagiarismVerdict (settle c s) = plagiarismVerdict s"
  "scExpiresAt (settle c s) = scExpiresAt s" "unranked (settle c s) = unranked s"
  by (simp_all add: settle_def unranked_def)

lemma settled_settle: "map scValue c' = map scValue c \<Longrightarrow> settled c' (settle c s)"
  using cohortPercentile_cong [of c' c "settle c s" s]
  by (auto simp: settle_def settled_def split: if_splits)

definition settle_in :: "score list \<Rightarrow> nat set \<Rightarrow> score list \<Rightarrow> score list" where
  "settle_in cohort I = map (\<lambda>s. if scId s \<in> I then settle cohort s else s)"

definition with_scores :: "score list \<Rightarrow> world \<Rightarrow> world" where
  "with_scores t w = w\<lparr>db := (db w)\<lparr>scores := t\<rparr>\<rparr>"

lemma with_scores_simps [simp]:
  "scores (db (with_scores t w)) = t" "assessments (db (with_scores t w)) = assessments (db w)"
  "with_scores u (with_scores t w) = with_scores u w" "with_scores (scores (db w)) w = w"
  by (simp_all add: with_scores_def)

lemma set_percentile_eq: "set_percentile i p w =
    (Inr (), with_scores (update_where (\<lambda>s. scId s = i) (\<lambda>s. s\<lparr>scPercentile := Some p\<rparr>) (scores (db w))) w)"
  by (simp add: set_percentile_def with_scores_def)

lemma update_settles:
  assumes "distinct (map scId t)" "s \<in> set t"
  shows "settle_in cohort {scId s} t =
    (if settled cohort s then t
     else update_where (\<lambda>x. scId x = scId s) (\<lambda>x. x\<lparr>scPercentile := Some (cohortPercentile cohort s)\<rparr>) t)"
proof -
  have "x = s" if "x \<in> set t" "scId x = scId s" for x
    using assms that by (auto simp: distinct_map inj_on_def)
  then have "(if scId x \<in> {scId s} then settle cohort x else x) =
      (if settled cohort s then x else if scId x = scId s
       then x\<lparr>scPercentile := Some (cohortPercentile cohort s)\<rparr> else x)" if "x \<in> set t" for x
    using that by (cases "scId x = scId s") (auto simp: settle_def)
  then show ?thesis by (simp add: settle_in_def update_where_def cong: map_cong)
qed

lemma settle_in_Un: "I \<inter> J = {} \<Longrightarrow> settle_in c J (settle_in c' I t) =
    map (\<lambda>s. if scId s \<in> I then settle c' s else if scId s \<in> J then settle c s else s) t"
  by (auto simp: settle_in_def)

lemma settle_in_keep: "x \<in> set t \<Longrightarrow> scId x \<notin> I \<Longrightarrow> x \<in> set (settle_in c I t)"
  unfolding settle_in_def set_map by (rule image_eqI [of _ _ x]) simp_all

lemma recalculateRows_Cons: "recalculateRows cohort (s # ss) =
    (if settled cohort s then recalculateRows cohort ss
     else bindE (set_percentile (scId s) (cohortPercentile cohort s)) (\<lambda>_.
          bindE (recalculateRows cohort ss) (\<lambda>n. ret (n + 1))))"
  by (simp add: settled_def del: ret_apply)

lemma recalculateRows_eq:
  assumes "distinct (map scId (scores (db w)))" "set ss \<subseteq> set (scores (db w))" "distinct (map scId ss)"
  shows "\<exists>n. recalculateRows cohort ss w =
    (Inr n, with_scores (settle_in cohort (scId ` set ss) (scores (db w))) w) \<and>
    (list_all (settled cohort) ss \<longrightarrow> n = 0)"
  using assms
proof (induction ss arbitrary: w)
  case Nil
  then show ?case by (simp add: settle_in_def)
next
  case (Cons s ss)
  define t where "t = settle_in cohort {scId s} (scores (db w))"
  have s: "s \<in> set (scores (db w))" using Cons.prems(2) by simp
  have ids: "map scId t = map scId (scores (db w))" by (simp add: t_def settle_in_def)
  have "x \<in> set t" if "x \<in> set ss" for x
    unfolding t_def by (rule settle_in_keep) (use that Cons.prems(2,3) in \<open>auto simp: image_iff\<close>)
  then obtain n where n: "recalculateRows cohort ss (with_scores t w) =
      (Inr n, with_scores (settle_in cohort (scId ` set ss) t) (with_scores t w))"
    "list_all (settled cohort) ss \<Longrightarrow> n = 0"
    using Cons.IH [of "with_scores t w"] Cons.prems ids by auto
  have all: "settle_in cohort (scId ` set ss) t = settle_in cohort (scId ` set (s # ss)) (scores (db w))"
    unfolding t_def using Cons.prems(3) by (subst settle_in_Un) (auto simp: settle_in_def)
  show ?case
  proof (cases "settled cohort s")
    case True
    then have "t = scores (db w)" unfolding t_def using update_settles [OF Cons.prems(1) s] by simp
    with True n all show ?thesis by (auto simp: recalculateRows_Cons simp del: recalculateRows.simps)
  next
    case False
    then have "set_percentile (scId s) (cohortPercentile cohort s) w = (Inr (), with_scores t w)"
      unfolding t_def set_percentile_eq using update_settles [OF Cons.prems(1) s] by simp
    with False n all show ?thesis
      by (auto simp: recalculateRows_Cons bindE_def simp del: recalculateRows.simps)
  qed
qed

text \<open>Over all cohorts: every row is settled in its own.\<close>

definition bucketOf :: "(uuid \<times> score list) list \<Rightarrow> score \<Rightarrow> score list option" where
  "bucketOf bs s = map_option snd (List.find (\<lambda>b. scId s \<in> scId ` set (snd b)) bs)"

definition settle_all :: "(uuid \<times> score list) list \<Rightarrow> score \<Rightarrow> score" where
  "settle_all bs s = (case bucketOf bs s of None \<Rightarrow> s | Some c \<Rightarrow> settle c s)"

lemma settle_all_fields [simp]:
  "scId (settle_all bs s) = scId s" "scAssessmentId (settle_all bs s) = scAssessmentId s"
  "scValue (settle_all bs s) = scValue s" "plagiarismVerdict (settle_all bs s) = plagiarismVerdict s"
  "scExpiresAt (settle_all bs s) = scExpiresAt s"
  by (simp_all add: settle_all_def split: option.split)

definition buckets_in :: "score list \<Rightarrow> (uuid \<times> score list) list \<Rightarrow> bool" where
  "buckets_in t bs \<longleftrightarrow> distinct (map scId (concat (map snd bs))) \<and> set (concat (map snd bs)) \<subseteq> set t"

lemma image_apart: "A \<inter> f ` B = {} \<longleftrightarrow> (\<forall>y \<in> B. f y \<notin> A)"
  by auto

lemma distinct_ids_append: "distinct (map f (xs @ ys)) \<longleftrightarrow>
    distinct (map f xs) \<and> distinct (map f ys) \<and> (\<forall>y \<in> set ys. f y \<notin> f ` set xs)"
  by (simp only: map_append distinct_append set_map image_apart)

lemma buckets_in_Cons: "buckets_in t (b # bs) \<longleftrightarrow>
    distinct (map scId (snd b)) \<and> set (snd b) \<subseteq> set t \<and> buckets_in t bs \<and>
    (\<forall>x \<in> set (concat (map snd bs)). scId x \<notin> scId ` set (snd b))"
  unfolding buckets_in_def list.map concat.simps distinct_ids_append set_append Un_subset_iff
  by (simp only: conj_ac)

lemma recalculateAll_eq:
  assumes "distinct (map scId (scores (db w)))" "buckets_in (scores (db w)) bs"
  shows "\<exists>n. recalculateAll bs w = (Inr n, with_scores (map (settle_all bs) (scores (db w))) w) \<and>
    (list_all (\<lambda>b. list_all (settled (snd b)) (snd b)) bs \<longrightarrow> n = 0)"
  using assms
proof (induction bs arbitrary: w)
  case Nil
  then show ?case by (simp add: settle_all_def bucketOf_def)
next
  case (Cons b bs)
  let ?I = "scId ` set (snd b)"
  define t where "t = settle_in (snd b) ?I (scores (db w))"
  obtain n where n: "recalculateRows (snd b) (snd b) w = (Inr n, with_scores t w)"
    "list_all (settled (snd b)) (snd b) \<Longrightarrow> n = 0"
    using recalculateRows_eq [of w "snd b" "snd b"] Cons.prems
    unfolding t_def buckets_in_Cons by blast
  have ids: "map scId t = map scId (scores (db w))" by (simp add: t_def settle_in_def)
  have apart: "scId x \<notin> ?I" if "x \<in> set (concat (map snd bs))" for x
    using that Cons.prems(2) unfolding buckets_in_Cons by blast
  have b: "buckets_in (scores (db w)) bs" using Cons.prems(2) unfolding buckets_in_Cons by blast
  have "set (concat (map snd bs)) \<subseteq> set t"
    unfolding t_def using b by (auto simp only: buckets_in_def intro!: settle_in_keep apart)
  with b have "buckets_in t bs" by (simp only: buckets_in_def)
  then obtain m where m: "recalculateAll bs (with_scores t w) =
      (Inr m, with_scores (map (settle_all bs) t) (with_scores t w))"
    "list_all (\<lambda>b. list_all (settled (snd b)) (snd b)) bs \<Longrightarrow> m = 0"
    using Cons.IH [of "with_scores t w"] Cons.prems(1) ids by auto
  have none: "bucketOf bs x = None" if "scId x \<in> ?I" for x
  proof -
    have "scId x \<notin> scId ` set (snd c)" if "c \<in> set bs" for c
    proof
      assume "scId x \<in> scId ` set (snd c)"
      then obtain y where "y \<in> set (snd c)" "scId y = scId x" by auto
      with apart [of y] that \<open>scId x \<in> ?I\<close> show False by auto
    qed
    then have "\<not> (\<exists>c \<in> set bs. scId x \<in> scId ` set (snd c))" by blast
    then show ?thesis unfolding bucketOf_def by (fastforce simp: find_None_iff)
  qed
  have same: "bucketOf bs (settle c x) = bucketOf bs x" for c x by (simp add: bucketOf_def)
  have "settle_all bs (if scId x \<in> ?I then settle (snd b) x else x) = settle_all (b # bs) x" for x
  proof (cases "scId x \<in> ?I")
    case True
    then have "bucketOf (b # bs) x = Some (snd b)" by (simp add: bucketOf_def)
    with True none [OF True] same show ?thesis by (simp add: settle_all_def)
  next
    case False
    then have "bucketOf (b # bs) x = bucketOf bs x" by (simp add: bucketOf_def)
    with False show ?thesis by (simp add: settle_all_def)
  qed
  then have "map (settle_all bs) t = map (settle_all (b # bs)) (scores (db w))"
    by (simp add: t_def settle_in_def)
  with n m show ?case by (auto simp: recalculateCohort_def bindE_def)
qed

section \<open>Cohorts\<close>

lemma set_add_to_bucket:
  "set (concat (map snd (add_to_bucket k x bs))) = insert x (set (concat (map snd bs)))"
  by (induction k x bs rule: add_to_bucket.induct) auto

lemma mset_add_to_bucket:
  "mset (concat (map snd (add_to_bucket k x bs))) = add_mset x (mset (concat (map snd bs)))"
  by (induction k x bs rule: add_to_bucket.induct) auto

lemma groupByTest_snoc: "groupByTest d (ss @ [s]) =
    (case testOf d s of None \<Rightarrow> groupByTest d ss | Some t \<Rightarrow> add_to_bucket t s (groupByTest d ss))"
  by (simp add: groupByTest_def split: option.split)

lemma mset_groupByTest:
  "mset (concat (map snd (groupByTest d ss))) = mset (filter (\<lambda>s. testOf d s \<noteq> None) ss)"
  by (induction ss rule: rev_induct)
    (auto simp: groupByTest_snoc mset_add_to_bucket groupByTest_def split: option.split simp del: mset_concat)

lemma add_to_bucket_map:
  "add_to_bucket k (f x) (map (\<lambda>(t, xs). (t, map f xs)) bs) =
     map (\<lambda>(t, xs). (t, map f xs)) (add_to_bucket k x bs)"
  by (induction k x bs rule: add_to_bucket.induct) auto

lemma groupByTest_map:
  assumes "\<And>s. testOf d' (f s) = testOf d s"
  shows "groupByTest d' (map f ss) = map (\<lambda>(t, xs). (t, map f xs)) (groupByTest d ss)"
  by (induction ss rule: rev_induct)
    (auto simp: groupByTest_snoc assms add_to_bucket_map groupByTest_def split: option.split)

text \<open>A bucket holds the scores of its test, and of it only.\<close>

lemma add_to_bucket_keys:
  assumes "\<And>t xs. (t, xs) \<in> set bs \<Longrightarrow> list_all (\<lambda>s. P s t) xs" "P x k"
  shows "(t, xs) \<in> set (add_to_bucket k x bs) \<Longrightarrow> list_all (\<lambda>s. P s t) xs"
  using assms by (induction k x bs rule: add_to_bucket.induct) (auto split: if_splits)

lemma groupByTest_keys:
  "(t, xs) \<in> set (groupByTest d ss) \<Longrightarrow> list_all (\<lambda>s. testOf d s = Some t) xs"
proof (induction ss arbitrary: t xs rule: rev_induct)
  case (snoc s ss)
  then show ?case
    using add_to_bucket_keys [of "groupByTest d ss" "\<lambda>s t. testOf d s = Some t" s _ t xs]
    by (auto simp: groupByTest_snoc split: option.splits)
qed (simp add: groupByTest_def)

lemma buckets_groupByTest:
  assumes "distinct (map scId (scores d))"
  shows "buckets_in (scores d) (groupByTest d (filter P (scores d)))"
proof -
  let ?l = "concat (map snd (groupByTest d (filter P (scores d))))"
  have m: "mset ?l = mset (filter (\<lambda>s. testOf d s \<noteq> None) (filter P (scores d)))"
    by (rule mset_groupByTest)
  then have "mset (map scId ?l) = mset (map scId (filter (\<lambda>s. testOf d s \<noteq> None) (filter P (scores d))))"
    by (metis mset_map)
  moreover have "distinct (map scId (filter (\<lambda>s. testOf d s \<noteq> None) (filter P (scores d))))"
    using assms by (simp add: distinct_map_filter)
  ultimately have "distinct (map scId ?l)" by (metis mset_eq_imp_distinct_iff)
  moreover have "set ?l \<subseteq> set (scores d)"
    using m by (metis (no_types, lifting) filter_is_subset order_trans set_mset_mset)
  ultimately show ?thesis by (simp add: buckets_in_def)
qed

text \<open>The whole sweep, then a second one.\<close>

definition cohorts :: "env \<Rightarrow> db \<Rightarrow> (uuid \<times> score list) list" where
  "cohorts env d = groupByTest d (filter (active_score env) (scores d))"

lemma recalculate_eq:
  assumes "distinct (map scId (scores (db w)))"
  obtains n where "recalculate env w =
    (Inr \<lparr>cohortCount = int (length (cohorts env (db w))),
          scoreCount = int (length (filter (active_score env) (scores (db w)))), updatedCount = n\<rparr>,
     with_scores (map (settle_all (cohorts env (db w))) (scores (db w))) w)"
    "list_all (\<lambda>b. list_all (settled (snd b)) (snd b)) (cohorts env (db w)) \<Longrightarrow> n = 0"
proof -
  from recalculateAll_eq [OF assms buckets_groupByTest [OF assms, of "active_score env"]]
  obtain n where "recalculateAll (cohorts env (db w)) w =
      (Inr n, with_scores (map (settle_all (cohorts env (db w))) (scores (db w))) w)"
    "list_all (\<lambda>b. list_all (settled (snd b)) (snd b)) (cohorts env (db w)) \<Longrightarrow> n = 0"
    unfolding cohorts_def by blast
  then show thesis by (intro that [of n]) (simp_all add: recalculate_def cohorts_def bindE_def)
qed

lemma cohorts_after:
  "cohorts env (db (with_scores (map (settle_all bs) (scores (db w))) w)) =
     map (\<lambda>(t, xs). (t, map (settle_all bs) xs)) (cohorts env (db w))"
proof -
  let ?w = "with_scores (map (settle_all bs) (scores (db w))) w"
  have "filter (active_score env) (map (settle_all bs) (scores (db w))) =
      map (settle_all bs) (filter (active_score env) (scores (db w)))"
    by (simp add: filter_map o_def active_score_def [abs_def])
  moreover have "testOf (db ?w) (settle_all bs s) = testOf (db w) s" for s by (simp add: testOf_def)
  ultimately show ?thesis unfolding cohorts_def by (simp add: groupByTest_map)
qed

lemma bucketOf_member:
  assumes "buckets_in t bs" "b \<in> set bs" "s \<in> set (snd b)"
  shows "bucketOf bs s = Some (snd b)"
  using assms
proof (induction bs)
  case (Cons c bs)
  show ?case
  proof (cases "b = c")
    case True
    with Cons.prems show ?thesis by (simp add: bucketOf_def)
  next
    case False
    with Cons.prems have "b \<in> set bs" by simp
    moreover from this Cons.prems have "scId s \<notin> scId ` set (snd c)"
      unfolding buckets_in_Cons by auto
    moreover have "buckets_in t bs" using Cons.prems(1) unfolding buckets_in_Cons by blast
    ultimately show ?thesis using Cons.IH Cons.prems(3) by (simp add: bucketOf_def)
  qed
qed simp

lemma all_settled:
  assumes "distinct (map scId (scores (db w)))"
  shows "list_all (\<lambda>b. list_all (settled (snd b)) (snd b))
    (map (\<lambda>(t, xs). (t, map (settle_all (cohorts env (db w))) xs)) (cohorts env (db w)))"
proof -
  let ?bs = "cohorts env (db w)"
  have "buckets_in (scores (db w)) ?bs" unfolding cohorts_def by (rule buckets_groupByTest [OF assms])
  then have "settled (map (settle_all ?bs) xs) (settle_all ?bs s)" if "(t, xs) \<in> set ?bs" "s \<in> set xs" for t xs s
    using bucketOf_member [of "scores (db w)" ?bs "(t, xs)" s] that
    by (simp add: settle_all_def) (rule settled_settle, simp)
  then show ?thesis by (fastforce simp: list_all_iff)
qed

text \<open>Settling what is settled changes nothing.\<close>

lemma settle_all_same:
  assumes ids: "distinct (map scId t)" and bs: "buckets_in t bs" and x: "x \<in> set t"
    and ok: "list_all (\<lambda>b. list_all (settled (snd b)) (snd b)) bs"
  shows "settle_all bs x = x"
proof (cases "bucketOf bs x")
  case (Some c)
  then obtain b where b: "b \<in> set bs" "scId x \<in> scId ` set (snd b)" "c = snd b"
    unfolding bucketOf_def by (auto dest: find_SomeD)
  then obtain y where y: "y \<in> set c" "scId y = scId x" by auto
  moreover have "y \<in> set t"
  proof -
    have "y \<in> set (concat (map snd bs))" using b y(1) by auto
    with bs show ?thesis unfolding buckets_in_def by blast
  qed
  ultimately have "y = x" using ids x by (simp add: distinct_map inj_on_def)
  with ok b y(1) have "settled c x" by (auto simp: list_all_iff)
  with Some show ?thesis by (simp add: settle_all_def settle_def)
qed (simp add: settle_all_def)

lemma recalculate_settled:
  assumes "distinct (map scId (scores (db w)))"
    and "list_all (\<lambda>b. list_all (settled (snd b)) (snd b)) (cohorts env (db w))"
  shows "\<exists>res. recalculate env w = (Inr res, w) \<and> updatedCount res = 0"
proof -
  have b: "buckets_in (scores (db w)) (cohorts env (db w))"
    unfolding cohorts_def by (rule buckets_groupByTest [OF assms(1)])
  have "map (settle_all (cohorts env (db w))) (scores (db w)) = scores (db w)"
    by (rule map_idI) (rule settle_all_same [OF assms(1) b _ assms(2)])
  then show ?thesis using recalculate_eq [OF assms(1), of env] assms(2)
    by (metis percentile_recalc_result.select_convs(3) with_scores_simps(4))
qed

end
