(* ===== verification/Exam_Props.thy ===== *)
theory Exam_Props
  imports Percentile_Facts Auth_Props
begin

text \<open>
  The properties of exams, attempts, scores, indexation and percentiles, and a small database with
  one test for their witnesses.
\<close>

definition test0 :: exam_test where
  "test0 = \<lparr>tsId = 71, tsSpecialtyId = 70, tsVersion = ''1'', tsProvider = None,
     tsExternalTestId = None, tsDurationMinutes = 60, tsActive = True, tsCreatedAt = 0\<rparr>"

definition attempt0 :: assessment where
  "attempt0 = \<lparr>asId = 72, asCandidateId = 2, asTestId = 71, externalAssessmentId = Some ''e'',
     asStatus = AS_IN_PROGRESS, resumeToken = Some ''tok'', asExpiresAt = None,
     startedAt = Some 1000000000, completedAt = None, cooldownNotifiedAt = None, asIpAddress = None,
     deviceFingerprint = None, multiAccountFlagged = False, tabSwitchCount = 0, windowBlurCount = 0,
     proctoringFlagged = False, assignedTestVersion = Some ''1'', asCreatedAt = 0\<rparr>"

definition world_exam :: world where
  "world_exam = world0\<lparr>db := db0\<lparr>specialties := [\<lparr>spId = 70, spName = ''Backend'',
       spDescription = None, spActive = True\<rparr>], tests := [test0], assessments := [attempt0]\<rparr>\<rparr>"

definition stub_deps0 :: stub_deps where
  "stub_deps0 = \<lparr>digest = (\<lambda>s. replicate 32 80), hmacHex = (\<lambda>k m. k), jsonExternalId = Some\<rparr>"

definition provider0 :: scoring_provider where
  "provider0 = stubProvider env0 stub_deps0"

lemma provider0_ok: "port_ok provider0"
  unfolding provider0_def by (rule stub_port)

lemma world_exam_wf: "exam_wf world_exam"
  by (simp add: exam_wf_def exam_ok_def world_exam_def world0_def db0_def attempt0_def)

section \<open>The exam\<close>

text \<open>C20: An exam has twenty technical questions, then ten psychotechnical ones, no question twice,
  every key among its options, and every question of the candidate's own profile. The only specialties
  without an exam are those named like an inherited property of objects (\<open>constructor\<close>,
  \<open>toString\<close>), for which the code raises a type error.\<close>

theorem exam_shape:
  "case examForSpecialty name seed of
     None \<Rightarrow> \<exists>s. name = Some s \<and> s \<in> set inherited
   | Some qs \<Rightarrow> map qType qs = replicate 20 TECHNICAL @ replicate 10 PSYCHOTECHNICAL \<and>
       distinct (map qId qs) \<and> list_all (\<lambda>q. qCorrect q < qOptions q) qs \<and>
       (\<exists>own. profileTech (resolveProfile name) = Some own \<and> set own \<subseteq> set qs)"
proof (cases "examForSpecialty name seed")
  case None
  then have "profileTech (resolveProfile name) = None" by (simp add: examForSpecialty_def)
  moreover have "map_of PROFILE_TECH p \<noteq> None" if "p \<in> set PROFILE_NAMES" for p
    using that by (simp add: PROFILE_NAMES_def map_of_eq_None_iff)
  ultimately have "resolveProfile name \<notin> set PROFILE_NAMES"
    unfolding profileTech_def by (metis option.case_eq_if option.distinct(1))
  then show ?thesis using resolveProfile_cases [of name] None by simp
next
  case (Some qs)
  obtain own tech psy where e: "profileTech (resolveProfile name) = Some own" "qs = tech @ psy"
    "length tech = 20" "length psy = 10" "set own \<subseteq> set tech" "set tech \<subseteq> set (own @ SHARED_TECH)"
    "set psy \<subseteq> set PSYCHO" "distinct (map qId (tech @ psy))"
    using Some by (rule exam_parts)
  have own: "bank_ok TECHNICAL (own @ SHARED_TECH)"
    using profileTech_ok(1) [OF e(1)] shared_ok(1) by (simp add: bank_ok_def)
  have "map qType tech = replicate 20 TECHNICAL"
    using own e(3,6) by (auto simp: bank_ok_def list_all_iff subset_iff intro!: replicate_eqI)
  moreover have "map qType psy = replicate 10 PSYCHOTECHNICAL"
    using psycho_ok(1) e(4,7) by (auto simp: bank_ok_def list_all_iff subset_iff intro!: replicate_eqI)
  moreover have "list_all (\<lambda>q. qCorrect q < qOptions q) qs"
    using own psycho_ok(1) e(2,6,7) by (auto simp: bank_ok_def list_all_iff subset_iff)
  ultimately show ?thesis using Some e by auto
qed

section \<open>Attempts and scores\<close>



text \<open>A successful start needs an active test, no open attempt of the candidate at it, and, after
  a completed attempt, the end of the cooldown. It appends one attempt in progress that expires
  after the duration of the test, carries its version, and is flagged exactly when the device was
  used by another account within the window.\<close>

theorem start_attempt:
  assumes "port_ok sp" "exam_wf w" "startAssessment sp cr env c testId ip fp w = (Inr (a, url), w')"
  shows "\<exists>t. t \<in> set (tests (db w)) \<and> tsId t = testId \<and> tsActive t \<and>
    list_all (\<lambda>x. \<not> active_attempt c testId x) (assessments (db w)) \<and>
    assessments (db w') = assessments (db w) @ [a] \<and> active_attempt c testId a \<and>
    asExpiresAt a = Some (now env + tsDurationMinutes t * 60000) \<and> startedAt a = Some (now env) \<and>
    assignedTestVersion a = Some (tsVersion t) \<and> scores (db w') = scores (db w) \<and>
    checkEligibility env c testId w = (Inr (), w) \<and>
    detectMultiAccount env c (trimOrNone fp) w = (Inr (multiAccountFlagged a), w)"
proof -
  have el: "checkEligibility env c testId w1 = (Inr u, w2) \<Longrightarrow> w2 = w1 \<and>
      list_all (\<lambda>x. \<not> active_attempt c testId x) (assessments (db w1))" for w1 u w2
    by (auto simp: checkEligibility_def returns find_None_iff list_all_iff dest: numberOr_Inr
        split: option.splits)
  have du: "detectMultiAccount env c f w1 = (Inr b, w2) \<Longrightarrow> w2 = w1" for f w1 b w2
    by (auto simp: detectMultiAccount_def returns dest: numberOr_Inr split: option.splits)
  obtain t flagged w1 where t: "List.find (\<lambda>t. tsId t = testId) (tests (db w)) = Some t" "tsActive t"
    "checkEligibility env c testId w = (Inr (), w)"
    "detectMultiAccount env c (trimOrNone fp) w = (Inr flagged, w)"
    "openAttempt sp cr env c t (trimOrNone ip) (trimOrNone fp) flagged w = (Inr (a, url), w')"
    using assms(3) by (auto simp: startAssessment_def returns dest: el du)
  have tid: "t \<in> set (tests (db w))" "tsId t = testId" using t(1) by (auto dest: find_SomeD)
  obtain e w1 where w1: "createExternal sp c (tsSpecialtyId t) (tsId t) w = (Inr e, w1)"
    "(case e of (externalId, url) \<Rightarrow> bindE freshId (\<lambda>draw. bindE freshId (\<lambda>i.
       bindE (saveAssessment (new_attempt env i (uuidv4 cr draw) c t externalId (trimOrNone ip)
         (trimOrNone fp) flagged)) (\<lambda>saved.
       bindE (auditLog env (assessmentEvent c ASSESSMENT_STARTED (asId saved))) (\<lambda>_.
       bindE (if flagged then auditLog env (assessmentEvent c ASSESSMENT_MULTI_ACCOUNT_FLAGGED (asId saved))
              else ret ()) (\<lambda>_.
       bindE (track env A_TEST_STARTED (Some c)) (\<lambda>_. ret (saved, url)))))))) w1 = (Inr (a, url), w')"
    using t(5) unfolding openAttempt_def by (rule bindE_InrE)
  have o: "db w1 = db w \<and> nextId w \<le> nextId w1"
    using assms(1) w1(1) by (auto dest: scoring_port.create_db)
  let ?i = "Suc (nextId w1)"
  let ?a = "new_attempt env ?i (uuidv4 cr (nextId w1)) c t (fst e) (trimOrNone ip) (trimOrNone fp) flagged"
  have "a = ?a \<and> assessments (db w') = upsert asId ?a (assessments (db w)) \<and> scores (db w') = scores (db w)"
    using w1(2) o
    by (auto simp: saveAssessment_eq auditLog_def track_def freshId_def bindE_def split: if_splits prod.splits)
  moreover have "upsert asId ?a (assessments (db w)) = assessments (db w) @ [?a]"
    using exam_ok_fresh(1) [OF assms(2) [unfolded exam_wf_def], of ?a] o by (simp add: new_attempt_def)
  ultimately show ?thesis
    using t tid el [OF t(3)] by (intro exI [of _ t]) (simp add: new_attempt_def active_attempt_def)
qed

lemmas start_eval = eff_simps startAssessment_def sample_defs world_exam_def test0_def attempt0_def
  checkEligibility_def active_attempt_def numberOr_def getNumber_def getSetting_def settingOf_def
  last_completed_def completed_attempt_def find_latest_def trimOrNone_def detectMultiAccount_def
  openAttempt_def provider0_def stubProvider_def stubCreate_def freshId_def saveAssessment_eq
  auditLog_def track_def

theorem start_attempt_witness: "\<exists>a w'. startAssessment provider0 crypto0 env0 9 71 None None world_exam = (Inr a, w') \<and>
    length (assessments (db w')) = 2"
proof -
  obtain r w' where run: "startAssessment provider0 crypto0 env0 9 71 None None world_exam = (r, w')"
    by fastforce
  moreover from this have "\<exists>a url. r = Inr (a, url)"
    by (auto simp: start_eval)
  ultimately show ?thesis
    using start_attempt [OF provider0_ok world_exam_wf, of crypto0 env0 9 71 None None]
    by (auto simp: world_exam_def)
qed

text \<open>An attempt set aside as an incident (reported by the candidate, voided by the proctoring
  limit or submitted too late) does not stop the candidate from starting the test again, and the first
  attempt can then be resumed with its own token whatever set it aside: two open attempts at one test.\<close>

theorem two_open_attempts:
  assumes "port_ok sp" "exam_wf w" "a \<in> set (assessments (db w))" "asStatus a = AS_INCIDENT"
    "asCandidateId a = c" "resumeToken a = Some tok"
    "startAssessment sp cr env c (asTestId a) ip fp w = (Inr (b, url), w1)"
    "\<not> auditFails env' (assessmentEvent c ASSESSMENT_RESUMED (asId a))"
  shows "\<exists>a' url' w2. resumeAssessment cr env' c (asId a) tok w1 = (Inr (a', url'), w2) \<and>
    a' = a\<lparr>asStatus := AS_IN_PROGRESS, resumeToken := resumeToken a'\<rparr> \<and>
    asId a' \<noteq> asId b \<and> {a', b} \<subseteq> {x \<in> set (assessments (db w2)). active_attempt c (asTestId a) x}"
proof -
  have b: "assessments (db w1) = assessments (db w) @ [b]" "active_attempt c (asTestId a) b"
    using start_attempt [OF assms(1,2,7)] by blast+
  have "exam_step w w1" using steppingD [OF step_start [OF assms(1), of "\<lambda>_ _. True"] assms(7)] by simp
  then have "exam_wf w1" by (rule exam_wf_step [OF assms(2)])
  then have d: "distinct (map asId (assessments (db w1)))" by (simp add: exam_wf_def exam_ok_def)
  have a: "a \<in> set (assessments (db w1))" using assms(3) b(1) by simp
  have apart: "asId a \<noteq> asId b" using d b(1) imageI [OF assms(3), of asId] by auto
  have found: "List.find (\<lambda>x. asId x = asId a) (assessments (db w1)) = Some a"
    using d a by (rule find_key)
  let ?a = "a\<lparr>asStatus := AS_IN_PROGRESS, resumeToken := Some (uuidv4 cr (nextId w1))\<rparr>"
  have "\<exists>w2. resumeAssessment cr env' c (asId a) tok w1 = (Inr (?a, scoring_url (externalAssessmentId a)), w2) \<and>
      assessments (db w2) = upsert asId ?a (assessments (db w1))"
    using found assms(4-6,8)
    by (simp add: resumeAssessment_def ownAttempt_def eff_simps freshId_def saveAssessment_eq auditLog_def)
  then obtain w2 where w2: "resumeAssessment cr env' c (asId a) tok w1 =
      (Inr (?a, scoring_url (externalAssessmentId a)), w2)"
    "assessments (db w2) = upsert asId ?a (assessments (db w1))" by blast
  have "set (assessments (db w2)) = insert ?a (set (assessments (db w1)) - {a})"
    unfolding w2(2) by (rule upsert_existing_set [OF d a]) simp
  then have "{?a, b} \<subseteq> set (assessments (db w2))" using b(1) apart by auto
  then show ?thesis
    using w2(1) b(2) apart assms(5)
    by (intro exI [of _ ?a] exI conjI) (auto simp: active_attempt_def)
qed

definition world_incident :: world where
  "world_incident = world_exam\<lparr>db := (db world_exam)\<lparr>assessments := [attempt0\<lparr>asStatus := AS_INCIDENT\<rparr>]\<rparr>\<rparr>"

theorem two_open_attempts_witness:
  "\<exists>w2 :: world. 2 \<le> card {x \<in> set (assessments (db w2)). active_attempt 2 71 x}"
proof -
  let ?a = "attempt0\<lparr>asStatus := AS_INCIDENT\<rparr>"
  have wf: "exam_wf world_incident"
    by (simp add: exam_wf_def exam_ok_def world_incident_def world_exam_def world0_def db0_def attempt0_def)
  obtain r w1 where run: "startAssessment provider0 crypto0 env0 2 71 None None world_incident = (r, w1)"
    by fastforce
  moreover from this obtain b url where "r = Inr (b, url)"
    by (auto simp: start_eval world_incident_def)
  ultimately have st: "startAssessment provider0 crypto0 env0 2 (asTestId ?a) None None world_incident =
      (Inr (b, url), w1)" by (simp add: attempt0_def)
  have a: "?a \<in> set (assessments (db world_incident))" "asStatus ?a = AS_INCIDENT" "asCandidateId ?a = 2"
    "resumeToken ?a = Some ''tok''" "\<not> auditFails env0 (assessmentEvent 2 ASSESSMENT_RESUMED (asId ?a))"
    and t: "asTestId ?a = 71"
    by (simp_all add: world_incident_def attempt0_def env0_def)
  from two_open_attempts [OF provider0_ok wf a(1-4) st a(5)]
  obtain a' :: assessment and w2 :: world where two: "asId a' \<noteq> asId b"
    "{a', b} \<subseteq> {x \<in> set (assessments (db w2)). active_attempt 2 71 x}"
    unfolding t by (elim exE conjE) (rule that)
  let ?S = "{x \<in> set (assessments (db w2)). active_attempt 2 71 x}"
  have "card {a', b} \<le> card ?S" by (rule card_mono [OF _ two(2)]) simp
  moreover have "card {a', b} = 2" using two(1) by (auto simp: card_insert_if)
  ultimately show ?thesis by (intro exI [of _ w2]) simp
qed

section \<open>Grading\<close>

lemma right_le: "length (filter P qs) \<le> length (qs :: 'a list)"
  by simp

lemma right_mono:
  assumes "\<And>q. q \<in> set qs \<Longrightarrow> P q \<Longrightarrow> Q q"
  shows "length (filter P qs) \<le> length (filter Q qs)"
proof -
  have "filter P qs = filter P (filter Q qs)"
    using assms by (auto simp: filter_filter intro!: filter_cong)
  then show ?thesis by (metis length_filter_le)
qed

lemma pct_mono:
  assumes "\<And>q. q \<in> set qs \<Longrightarrow> answered_right ans q \<Longrightarrow> answered_right ans' q"
  shows "pct ans qs \<le> pct ans' qs"
  using right_mono [OF assms]
  by (auto simp: pct_def intro!: roundRat_mono mult_right_mono divide_right_mono)

lemma pct_bounds: "0 \<le> pct ans qs \<and> pct ans qs \<le> 100"
proof (cases "qs = []")
  case False
  let ?x = "of_nat (length (filter (answered_right ans) qs)) / of_nat (length qs) * 100 :: rat"
  have "0 \<le> ?x" "?x \<le> 100" using False right_le by (simp_all add: divide_le_eq)
  then have "roundRat (of_int 0) \<le> roundRat ?x" "roundRat ?x \<le> roundRat (of_int 100)"
    by (simp_all only: roundRat_mono of_int_0 of_int_numeral)
  with False show ?thesis by (simp add: pct_def del: of_int_0 of_int_numeral)
qed (simp add: pct_def)

lemma compositeOf_mono: "t \<le> t' \<Longrightarrow> p \<le> p' \<Longrightarrow> compositeOf t p \<le> compositeOf t' p'"
  unfolding compositeOf_def by (intro roundRat_mono add_mono) simp_all

lemma compositeOf_bounds: "0 \<le> t \<Longrightarrow> t \<le> 100 \<Longrightarrow> 0 \<le> p \<Longrightarrow> p \<le> 100 \<Longrightarrow> 0 \<le> compositeOf t p \<and> compositeOf t p \<le> 100"
  using compositeOf_mono [of 0 t 0 p] compositeOf_mono [of t 100 p 100]
  by (simp add: compositeOf_def roundRat_def)

text \<open>C22: A paper is graded between 0 and 100, in each part and as a whole, and answering more of
  the questions right never lowers any of the three grades.\<close>

theorem grade_monotone:
  assumes "\<forall>q \<in> set qs. answered_right ans q \<longrightarrow> answered_right ans' q"
  shows "0 \<le> grComposite (grade qs ans) \<and> grComposite (grade qs ans) \<le> grComposite (grade qs ans') \<and>
    grComposite (grade qs ans') \<le> 100 \<and>
    0 \<le> grTechnical (grade qs ans) \<and> grTechnical (grade qs ans) \<le> grTechnical (grade qs ans') \<and>
    grTechnical (grade qs ans') \<le> 100 \<and>
    0 \<le> grPsychotechnical (grade qs ans) \<and>
    grPsychotechnical (grade qs ans) \<le> grPsychotechnical (grade qs ans') \<and>
    grPsychotechnical (grade qs ans') \<le> 100"
proof -
  have "pct ans (filter P qs) \<le> pct ans' (filter P qs)" for P
    by (rule pct_mono) (use assms in auto)
  then show ?thesis
    using pct_bounds compositeOf_bounds compositeOf_mono by (simp add: grade_def Let_def)
qed

text \<open>The composite that a submission answers is the rounding of the score that its
  finalization stores, when the weights are the default ones: two computations of one grade.\<close>

theorem submitted_score_agrees:
  assumes "numberOr env TECHNIQUE_WEIGHT_KEY DEFAULT_TECHNIQUE_WEIGHT w = (Inr (Finite 60), w)"
    "numberOr env PSYCHOTECHNIQUE_WEIGHT_KEY DEFAULT_PSYCHOTECHNIQUE_WEIGHT w = (Inr (Finite 40), w)"
  shows "\<exists>v. computeCompositeScore env (local_result a (grade qs ans)) w = (Inr (Finite v), w) \<and>
    roundRat v = grComposite (grade qs ans) \<and> 0 \<le> v \<and> v \<le> 100 \<and> numeric52 (Finite v) = Some (Finite v)"
proof -
  define t where "t = pct ans (filter (\<lambda>q. qType q = TECHNICAL) qs)"
  define p where "p = pct ans (filter (\<lambda>q. qType q = PSYCHOTECHNICAL) qs)"
  let ?v = "(of_int t * 60 + of_int p * 40) / 100 :: rat"
  have b: "0 \<le> t" "t \<le> 100" "0 \<le> p" "p \<le> 100" unfolding t_def p_def using pct_bounds by auto
  have v: "round2 ?v = ?v"
  proof -
    have "?v * 100 = of_int (t * 60 + p * 40)" by simp
    then have "roundRat (?v * 100) = t * 60 + p * 40" by (simp only: roundRat_of_int)
    then show ?thesis by (simp add: round2_def del: times_divide_eq_left)
  qed
  have "(of_int t * 60 + of_int p * 40 :: rat) \<le> of_int (100 * 60 + 100 * 40)"
    unfolding of_int_add of_int_mult of_int_numeral using b by (intro add_mono mult_right_mono) simp_all
  then have "0 \<le> ?v" "?v \<le> 100" using b by simp_all
  moreover have "grComposite (grade qs ans) = roundRat ?v"
    by (simp add: grade_def Let_def t_def p_def compositeOf_def add_divide_distrib)
  moreover have "weightedScore (Finite 60) (Finite 40) (of_int t) (of_int p) = Finite ?v"
    using v by (simp add: weightedScore_def)
  ultimately show ?thesis
    using assms v
    by (intro exI [of _ ?v])
      (simp add: computeCompositeScore_def local_result_def Let_def grade_def eff_simps sql_round2_nonneg
        t_def p_def)
qed

theorem submitted_score_agrees_witness:
  "\<exists>v. computeCompositeScore env0 (local_result attempt0 (grade PSYCHO [])) world0 = (Inr (Finite v), world0) \<and>
     roundRat v = grComposite (grade PSYCHO []) \<and> v \<le> 100"
  using submitted_score_agrees [of env0 world0 attempt0 PSYCHO "[]"]
  by (auto simp: numberOr_def getNumber_def getSetting_def settingOf_def sample_defs eff_simps
      DEFAULT_TECHNIQUE_WEIGHT_def DEFAULT_PSYCHOTECHNIQUE_WEIGHT_def)

theorem grade_monotone_witness:
  "grComposite (grade (take 1 PSYCHO) []) \<le> grComposite (grade (take 1 PSYCHO) [(''psy-1'', 0)])"
  using grade_monotone [of "take 1 PSYCHO" "[]" "[(''psy-1'', 0)]"]
  by (simp add: answered_right_def)

section \<open>Finalization\<close>

lemma existing_score:
  assumes "exam_wf w" "s \<in> set (scores (db w))"
  shows "List.find (\<lambda>x. scAssessmentId x = scAssessmentId s) (scores (db w)) = Some s"
  by (rule find_key) (use assms in \<open>simp_all add: exam_wf_def exam_ok_def\<close>)

lemma insertScore_Inr:
  assumes "insertScore env a r v bareme tv expires verdict w = (Inr s, w')"
  shows "s \<in> set (scores (db w')) \<and> scAssessmentId s = asId a"
proof -
  obtain row w1 where "saveScore row w1 = (Inr s, w')" "scAssessmentId row = asId a"
    using assms by (auto simp: insertScore_def returns)
  then show ?thesis by (cases rule: saveScore_cases) (auto simp: set_upsert)
qed

lemma persistScore_Inr:
  assumes "persistScore env a r v bareme tv expires verdict w = (Inr (b, i), w')"
  shows "\<exists>s \<in> set (scores (db w')). scId s = i \<and> scAssessmentId s = asId a"
proof -
  obtain s w1 where s: "insertScore env a r v bareme tv expires verdict w = (Inr s, w1)"
    "bindE (saveAssessment (a\<lparr>asStatus := AS_COMPLETED, completedAt := Some (now env)\<rparr>)) (\<lambda>_.
     bindE (auditLog env (assessmentEvent (asCandidateId a) ASSESSMENT_COMPLETED (asId a))) (\<lambda>_.
     bindE (auditLog env \<lparr>actorId = Some (asCandidateId a), auAction = SCORE_CALCULATED,
              entityType = ''score'', entityId = scId s\<rparr>) (\<lambda>_.
     bindE (track env A_SCORE_OBTAINED (Some (asCandidateId a))) (\<lambda>_.
     bindE (applyThresholds env (asCandidateId a)) (\<lambda>_. ret (False, scId s)))))) w1 = (Inr (b, i), w')"
    using assms unfolding persistScore_def by (rule bindE_InrE)
  let ?rest = "bindE (auditLog env (assessmentEvent (asCandidateId a) ASSESSMENT_COMPLETED (asId a))) (\<lambda>_.
     bindE (auditLog env \<lparr>actorId = Some (asCandidateId a), auAction = SCORE_CALCULATED,
              entityType = ''score'', entityId = scId s\<rparr>) (\<lambda>_.
     bindE (track env A_SCORE_OBTAINED (Some (asCandidateId a))) (\<lambda>_.
     bindE (applyThresholds env (asCandidateId a)) (\<lambda>_. ret (False, scId s)))))"
  obtain w2 where w2: "scores (db w2) = scores (db w1)" "?rest w2 = (Inr (b, i), w')"
    by (rule that [OF _ s(2) [unfolded bindE_Inr [OF saveAssessment_eq]]]) simp
  have "framed ?rest" by (intro framed_rules)
  then have "scores (db w') = scores (db w2)" using framedD w2(2) by blast
  moreover have "i = scId s" using w2(2) by (auto simp: returns)
  ultimately show ?thesis using insertScore_Inr [OF s(1)] w2(1) by auto
qed

lemma finalize_score:
  assumes "port_ok sp" "exam_wf w" "a \<in> set (assessments (db w))"
    "finalizeAssessment sp env a p w = (Inr (b, i), w')"
  shows "exam_wf w' \<and> (\<exists>s \<in> set (scores (db w')). scId s = i \<and> scAssessmentId s = asId a)"
proof -
  have "exam_step w w'" using steppingD [OF step_finalize [OF assms(1)] assms(4)] assms(3) by simp
  moreover have "\<exists>s \<in> set (scores (db w')). scId s = i \<and> scAssessmentId s = asId a"
    using assms(4) persistScore_Inr
    by (auto simp: finalizeAssessment_def returns dest: find_SomeD split: option.splits)
  ultimately show ?thesis using exam_wf_step [OF assms(2)] by blast
qed

text \<open>C23: An attempt is scored once. After a finalization that returned the score \<open>i\<close>, and any
  sequence of requests, finalizing the attempt again (a redelivered scoring webhook, a second
  submission, with whatever result) answers "already processed" with the same score and writes
  nothing.\<close>

theorem finalize_once:
  assumes "port_ok sp" "exam_wf w" "a \<in> set (assessments (db w))"
    "finalizeAssessment sp env a p w = (Inr (b, i), w')"
    "externalAssessmentId a' = Some e" "e \<noteq> []" "asId a' = asId a"
  shows "finalizeAssessment sp env' a' p' (runExams sp cr rs w') = (Inr (True, i), runExams sp cr rs w')"
proof -
  obtain s where s: "exam_wf w'" "s \<in> set (scores (db w'))" "scId s = i" "scAssessmentId s = asId a"
    using finalize_score [OF assms(1-4)] by blast
  let ?w = "runExams sp cr rs w'"
  have "unranked s \<in> unranked ` set (scores (db ?w))"
    using runExams_scores [OF assms(1) s(1)] s(2) by blast
  then obtain s' where s': "s' \<in> set (scores (db ?w))" "unranked s = unranked s'" by blast
  have "List.find (\<lambda>x. scAssessmentId x = scAssessmentId s') (scores (db ?w)) = Some s'"
    by (rule existing_score [OF runExams_wf [OF assms(1) s(1)] s'(1)])
  with unranked_key [OF s'(2)] s(3,4) have "scId s' = i"
    "List.find (\<lambda>x. scAssessmentId x = asId a) (scores (db ?w)) = Some s'" by simp_all
  then show ?thesis using assms(5-7) by (simp add: finalizeAssessment_def eff_simps)
qed

definition world_no_profile :: world where
  "world_no_profile = world_exam\<lparr>db := (db world_exam)\<lparr>candidateProfiles := []\<rparr>\<rparr>"

theorem finalize_once_witness:
  "\<exists>w' i. finalizeAssessment provider0 env0 attempt0 None (runExams provider0 crypto0 [(env0, Recalculate)] w') =
     (Inr (True, i), runExams provider0 crypto0 [(env0, Recalculate)] w')"
proof -
  have wf: "exam_wf world_no_profile"
    by (simp add: exam_wf_def exam_ok_def world_no_profile_def world_exam_def world0_def db0_def attempt0_def)
  have a: "attempt0 \<in> set (assessments (db world_no_profile))"
    by (simp add: world_no_profile_def world_exam_def)
  have e: "externalAssessmentId attempt0 = Some ''e''" by (simp add: attempt0_def)
  obtain r w' where run: "finalizeAssessment provider0 env0 attempt0 None world_no_profile = (r, w')" by fastforce
  moreover from this have "\<exists>b i. r = Inr (b, i)"
    by (auto simp: finalizeAssessment_def start_eval world_no_profile_def stubResult_def stub_deps0_def Let_def
        computeCompositeScore_def settingOf_def weightedScore_def expiryDate_def valid_date_def
        DEFAULT_TECHNIQUE_WEIGHT_def DEFAULT_PSYCHOTECHNIQUE_WEIGHT_def DEFAULT_SCORE_VALIDITY_DAYS_def
        date_limit_def towardsZero_def persistScore_def insertScore_def scoreColumn_def optionalColumn_def
        sql_round2_nonneg saveScore_def save_into_def checked_save_def score_violated_def
        escalate_def collisions_def plagiarismMap_def applyThresholds_def index_ok_def upsert_def orElse_def)
  ultimately show ?thesis
    using finalize_once [OF provider0_ok wf a _ e _ refl, of env0 None] by blast
qed

section \<open>Indexation\<close>



section \<open>Percentiles\<close>



end
