(* ===== verification/Profiles.thy ===== *)
theory Profiles
  imports Scoring
begin

text \<open>
  The candidate's profile, \<open>candidates/candidate-profile.service.ts\<close>: creation on first touch, the
  edit with its guards, the completeness score and the indexation it triggers; moderation,
  \<open>candidates/profile-moderation.service.ts\<close>; and the two handlers of
  \<open>candidates/candidate-profile.controller.ts\<close> that combine them. In a request, \<open>None\<close> is an
  absent field and \<open>Some None\<close> a \<open>null\<close>. The labels of missing elements are left out.
\<close>

section \<open>Reading and creating\<close>

definition findProfileByUserId :: "uuid \<Rightarrow> candidate_profile option service" where
  "findProfileByUserId who =
     gets (\<lambda>w. List.find (\<lambda>p. cpUserId p = who) (candidateProfiles (db w)))"

text \<open>The row that \<open>create({ userId })\<close> inserts: the defaults of the columns.\<close>

definition new_profile :: "env \<Rightarrow> uuid \<Rightarrow> uuid \<Rightarrow> candidate_profile" where
  "new_profile env i who =
     \<lparr>cpId = i, cpUserId = who, firstName = None, lastName = None, headline = None, bio = None,
      cpLocation = None, school = None, schoolVerified = False, cpVisibility = V_HIDDEN,
      moderationStatus = M_ACTIVE, completeness = Finite 0, indexedInCvtheque = False,
      availability = None, contractType = None, mobility = None, salaryMin = None, salaryMax = None,
      salaryCurrency = ''MAD'', salaryVisible = True, featured = False, cpCreatedAt = now env,
      cpUpdatedAt = now env\<rparr>"

definition createProfile :: "env \<Rightarrow> uuid \<Rightarrow> candidate_profile service" where
  "createProfile env who = bindE freshId (\<lambda>i. saveProfile (new_profile env i who))"

definition findOrCreateProfile :: "env \<Rightarrow> uuid \<Rightarrow> candidate_profile service" where
  "findOrCreateProfile env who =
     bindE (findProfileByUserId who) (\<lambda>existing.
     case existing of Some p \<Rightarrow> ret p | None \<Rightarrow> createProfile env who)"

definition findProfile :: "uuid \<Rightarrow> candidate_profile service" where
  "findProfile i =
     bindE (gets (\<lambda>w. List.find (\<lambda>p. cpId p = i) (candidateProfiles (db w)))) (\<lambda>found.
     someOr (NotFoundException ''profile'') found)"

section \<open>Completeness\<close>

record completeness_weights =
  wIdentity :: js_number
  wExperience :: js_number
  wSkills :: js_number
  wCv :: js_number
  wLinks :: js_number
  wSchool :: js_number
  wThreshold :: js_number
  wMinSkills :: js_number

definition loadWeights :: "env \<Rightarrow> completeness_weights service" where
  "loadWeights env =
     bindE (numberOr env ''completeness_weight_identity'' 15) (\<lambda>a.
     bindE (numberOr env ''completeness_weight_experience'' 20) (\<lambda>b.
     bindE (numberOr env ''completeness_weight_skills'' 20) (\<lambda>c.
     bindE (numberOr env ''completeness_weight_cv'' 15) (\<lambda>d.
     bindE (numberOr env ''completeness_weight_links'' 15) (\<lambda>e.
     bindE (numberOr env ''completeness_weight_school'' 15) (\<lambda>f.
     bindE (numberOr env ''completeness_threshold_publishable'' 70) (\<lambda>g.
     bindE (numberOr env ''completeness_min_skills'' 5) (\<lambda>h.
     ret \<lparr>wIdentity = a, wExperience = b, wSkills = c, wCv = d, wLinks = e, wSchool = f,
       wThreshold = g, wMinSkills = h\<rparr>))))))))"

definition filled :: "string option \<Rightarrow> bool" where
  "filled x \<longleftrightarrow> x \<noteq> None \<and> x \<noteq> Some []"

text \<open>The six elements, in the order the code adds them: its key, its weight, whether it is there.\<close>

definition elements ::
  "db \<Rightarrow> candidate_profile \<Rightarrow> completeness_weights \<Rightarrow> (string \<times> js_number \<times> bool) list" where
  "elements d p k =
     [(''identity'', wIdentity k,
         filled (firstName p) \<and> filled (lastName p) \<and> filled (headline p) \<and> filled (bio p)),
      (''experience'', wExperience k, 1 \<le> count_where (\<lambda>x. exProfileId x = cpId p) (experiences d)),
      (''skills'', wSkills k,
         jsLe (wMinSkills k) (Finite (of_int (count_where (\<lambda>x. psProfileId x = cpId p) (profileSkills d))))),
      (''cv'', wCv k, list_ex (\<lambda>x. dcOwnerId x = cpUserId p \<and> dcType x = DOC_CV \<and> scanStatus x = SCAN_CLEAN)
         (documents d)),
      (''links'', wLinks k, 1 \<le> count_where (\<lambda>x. lkProfileId x = cpId p) (profileLinks d)),
      (''school'', wSchool k, filled (school p))]"

definition total :: "(string \<times> js_number \<times> bool) list \<Rightarrow> js_number" where
  "total es = foldl (\<lambda>n (key, weight, there). if there then jsAdd n weight else n) (Finite 0) es"

definition missing_of :: "(string \<times> js_number \<times> bool) list \<Rightarrow> (string \<times> js_number) list" where
  "missing_of es = map (\<lambda>(key, weight, there). (key, weight)) (filter (\<lambda>(key, weight, there). \<not> there) es)"

record completeness_result =
  crCompleteness :: js_number
  isPublishable :: bool
  missing :: "(string \<times> js_number) list"

text \<open>Best effort: a failure is logged.\<close>

definition reindex :: "env \<Rightarrow> uuid \<Rightarrow> unit service" where
  "reindex env who = bestEffort (applyThresholds env who)"

text \<open>The saved row always moves its update column: the number differs from the text it was loaded as.\<close>

definition calculateCompleteness :: "env \<Rightarrow> uuid \<Rightarrow> completeness_result service" where
  "calculateCompleteness env i =
     bindE (findProfile i) (\<lambda>p.
     bindE (loadWeights env) (\<lambda>k.
     bindE (gets (\<lambda>w. elements (db w) p k)) (\<lambda>es.
     bindE (scoreColumn (total es)) (\<lambda>stored.
     bindE (saveProfile (p\<lparr>completeness := stored, cpUpdatedAt := now env\<rparr>)) (\<lambda>_.
     bindE (if jsEq (completeness p) (total es) then ret () else reindex env (cpUserId p)) (\<lambda>_.
     ret \<lparr>crCompleteness = total es, isPublishable = jsLe (wThreshold k) (total es),
       missing = missing_of es\<rparr>))))))"

section \<open>The edit\<close>

record profile_update =
  upFirstName :: "string option option"
  upLastName :: "string option option"
  upHeadline :: "string option option"
  upBio :: "string option option"
  upLocation :: "string option option"
  upSchool :: "string option option"
  upVisibility :: "visibility option option"
  upAvailability :: "string option option"
  upContractType :: "contract_type option option"
  upMobility :: "string option option"
  upSalaryMin :: "int option option"
  upSalaryMax :: "int option option"
  upSalaryCurrency :: "string option option"
  upSalaryVisible :: "bool option option"

text \<open>\<open>data.x ?? profile.x\<close>\<close>

definition effective :: "'a option option \<Rightarrow> 'a option \<Rightarrow> 'a option" where
  "effective new old = (case new of Some (Some x) \<Rightarrow> Some x | _ \<Rightarrow> old)"

definition salary_incoherent :: "profile_update \<Rightarrow> candidate_profile \<Rightarrow> bool" where
  "salary_incoherent u p =
     (case (effective (upSalaryMin u) (salaryMin p), effective (upSalaryMax u) (salaryMax p)) of
        (Some lo, Some hi) \<Rightarrow> hi < lo
      | _ \<Rightarrow> False)"

text \<open>\<open>Object.assign\<close>. A \<open>null\<close> in a column that takes none is an error of the database.\<close>

definition assigned :: "'a option option \<Rightarrow> 'a option \<Rightarrow> 'a option" where
  "assigned new old = (case new of None \<Rightarrow> old | Some x \<Rightarrow> x)"

definition required :: "'a option option \<Rightarrow> 'a \<Rightarrow> 'a service" where
  "required new old = someOr (InternalServerErrorException ''not-null'') (assigned new (Some old))"

definition assignProfile :: "profile_update \<Rightarrow> candidate_profile \<Rightarrow> candidate_profile service" where
  "assignProfile u p =
     bindE (required (upVisibility u) (cpVisibility p)) (\<lambda>vis.
     bindE (required (upSalaryCurrency u) (salaryCurrency p)) (\<lambda>cur.
     bindE (required (upSalaryVisible u) (salaryVisible p)) (\<lambda>shown.
     ret (p\<lparr>firstName := assigned (upFirstName u) (firstName p),
            lastName := assigned (upLastName u) (lastName p),
            headline := assigned (upHeadline u) (headline p), bio := assigned (upBio u) (bio p),
            cpLocation := assigned (upLocation u) (cpLocation p),
            school := assigned (upSchool u) (school p), cpVisibility := vis,
            availability := assigned (upAvailability u) (availability p),
            contractType := assigned (upContractType u) (contractType p),
            mobility := assigned (upMobility u) (mobility p),
            salaryMin := assigned (upSalaryMin u) (salaryMin p),
            salaryMax := assigned (upSalaryMax u) (salaryMax p),
            salaryCurrency := cur, salaryVisible := shown\<rparr>))))"

definition checkVisibility :: "profile_update \<Rightarrow> candidate_profile \<Rightarrow> unit service" where
  "checkVisibility u p =
     (if upVisibility u = None \<or> upVisibility u = Some (Some V_HIDDEN) then ret ()
      else
        bindE (require (indexedInCvtheque p) (ForbiddenException ''not-publishable'')) (\<lambda>_.
        bindE (gets (\<lambda>w. list_ex (\<lambda>x. dcOwnerId x = cpUserId p \<and> dcType x = DOC_DIPLOMA) (documents (db w))))
          (\<lambda>diploma. require diploma (ForbiddenException ''no-diploma''))))"

definition updateProfile :: "env \<Rightarrow> uuid \<Rightarrow> profile_update \<Rightarrow> candidate_profile service" where
  "updateProfile env i u =
     bindE (findProfile i) (\<lambda>p.
     bindE (require (\<not> salary_incoherent u p) (BadRequestException ''salary'')) (\<lambda>_.
     bindE (checkVisibility u p) (\<lambda>_.
     bindE (assignProfile u p) (\<lambda>q.
     bindE (storeProfile env q) (\<lambda>saved.
     bindE (calculateCompleteness env i) (\<lambda>_. ret saved))))))"

section \<open>The handlers\<close>

definition getMyProfile :: "env \<Rightarrow> uuid \<Rightarrow> (candidate_profile \<times> completeness_result) service" where
  "getMyProfile env who =
     bindE (findOrCreateProfile env who) (\<lambda>p.
     bindE (calculateCompleteness env (cpId p)) (\<lambda>c. ret (p, c)))"

definition updateMyProfile ::
  "env \<Rightarrow> uuid \<Rightarrow> profile_update \<Rightarrow> (candidate_profile \<times> completeness_result) service" where
  "updateMyProfile env who u =
     bindE (findOrCreateProfile env who) (\<lambda>p.
     bindE (updateProfile env (cpId p) u) (\<lambda>updated.
     bindE (calculateCompleteness env (cpId updated)) (\<lambda>c. ret (updated, c))))"

definition getCompleteness :: "env \<Rightarrow> uuid \<Rightarrow> completeness_result service" where
  "getCompleteness env who =
     bindE (findProfileByUserId who) (\<lambda>found.
     bindE (someOr (NotFoundException ''profile'') found) (\<lambda>p. calculateCompleteness env (cpId p)))"

section \<open>Moderation\<close>

record moderated_view =
  mvId :: uuid
  mvFirstName :: "string option"
  mvLastName :: "string option"
  mvHeadline :: "string option"
  mvVisibility :: visibility
  mvStatus :: moderation_status
  mvCreatedAt :: date

definition toView :: "candidate_profile \<Rightarrow> moderated_view" where
  "toView p = \<lparr>mvId = cpId p, mvFirstName = firstName p, mvLastName = lastName p, mvHeadline = headline p,
     mvVisibility = cpVisibility p, mvStatus = moderationStatus p, mvCreatedAt = cpCreatedAt p\<rparr>"

text \<open>The items of a page and the number of rows of all pages.\<close>

definition listModerated ::
  "moderation_status option \<Rightarrow> int option \<Rightarrow> int option \<Rightarrow> (moderated_view list \<times> int) service" where
  "listModerated status limit offset =
     (let n = min (max (case limit of None \<Rightarrow> 20 | Some x \<Rightarrow> x) 1) 100;
          k = max (case offset of None \<Rightarrow> 0 | Some x \<Rightarrow> x) 0
      in gets (\<lambda>w.
           let rows = filter (\<lambda>p. case status of None \<Rightarrow> True | Some s \<Rightarrow> moderationStatus p = s)
                 (candidateProfiles (db w))
           in (map toView (take (nat n) (drop (nat k) (newest_first cpCreatedAt rows))),
               int (length rows))))"

definition setModeration :: "env \<Rightarrow> uuid \<Rightarrow> moderation_status \<Rightarrow> uuid \<Rightarrow> moderated_view service" where
  "setModeration env i status moderator =
     bindE (findProfile i) (\<lambda>p.
     bindE (storeProfile env (p\<lparr>moderationStatus := status,
              cpVisibility := (if status = M_SUSPENDED then V_HIDDEN else cpVisibility p)\<rparr>)) (\<lambda>saved.
     bindE (auditLog env \<lparr>actorId = Some moderator, auAction = MODERATION_ACTION,
              entityType = ''candidate_profile'', entityId = cpId p\<rparr>) (\<lambda>_.
     ret (toView saved))))"

end
