(* ===== verification/Profile_Items.thy ===== *)
theory Profile_Items
  imports Profiles "HOL-Library.List_Lexorder" "HOL-Library.Char_ord"
begin

text \<open>
  The parts of a profile: \<open>candidates/candidate-skill.service.ts\<close>,
  \<open>candidates/candidate-experience.service.ts\<close>, \<open>candidates/candidate-project.service.ts\<close>,
  \<open>candidates/candidate-certification.service.ts\<close>, \<open>candidates/candidate-link.service.ts\<close>, the link
  checker \<open>candidates/link-verification.service.ts\<close> and \<open>candidates/skill-catalog.service.ts\<close>. The
  queue of the checker is best effort and leaves no trace in the database. Dates of the candidate's
  file are ISO texts, ordered as texts.
\<close>

text \<open>A row of the caller's own profile, found by both columns in one query.\<close>

definition findOwned :: "(db \<Rightarrow> 'r list) \<Rightarrow> ('r \<Rightarrow> uuid) \<Rightarrow> ('r \<Rightarrow> uuid) \<Rightarrow> uuid \<Rightarrow> uuid \<Rightarrow> 'r service" where
  "findOwned tbl pk own i profileId =
     bindE (gets (\<lambda>w. List.find (\<lambda>r. pk r = i \<and> own r = profileId) (tbl (db w)))) (\<lambda>found.
     someOr (NotFoundException ''entry'') found)"

text \<open>\<open>delete({ id, profileId })\<close>, and the error when no row was affected.\<close>

definition deleteOwned ::
  "(db \<Rightarrow> 'r list) \<Rightarrow> (('r list \<Rightarrow> 'r list) \<Rightarrow> db \<Rightarrow> db) \<Rightarrow> ('r \<Rightarrow> uuid) \<Rightarrow> ('r \<Rightarrow> uuid) \<Rightarrow> uuid \<Rightarrow> uuid \<Rightarrow>
   unit service" where
  "deleteOwned tbl upd pk own i profileId =
     bindE (gets (\<lambda>w. count_where (\<lambda>r. pk r = i \<and> own r = profileId) (tbl (db w)))) (\<lambda>affected.
     bindE (modify (\<lambda>w. w\<lparr>db := upd (delete_where (\<lambda>r. pk r = i \<and> own r = profileId)) (db w)\<rparr>)) (\<lambda>_.
     require (affected \<noteq> 0) (NotFoundException ''entry'')))"

section \<open>Skills\<close>

record skill_summary =
  smId :: uuid
  smSkillId :: uuid
  smName :: string
  smCategory :: "string option"
  smLevel :: "string option"

definition summaryOf :: "skill \<Rightarrow> profile_skill \<Rightarrow> skill_summary" where
  "summaryOf s e = \<lparr>smId = psId e, smSkillId = skId s, smName = skName s, smCategory = skCategory s,
     smLevel = psLevel e\<rparr>"

definition summarise :: "db \<Rightarrow> profile_skill \<Rightarrow> skill_summary option" where
  "summarise d e = map_option (\<lambda>s. summaryOf s e) (List.find (\<lambda>s. skId s = psSkillId e) (skills d))"

definition listMySkills :: "env \<Rightarrow> uuid \<Rightarrow> skill_summary list service" where
  "listMySkills env who =
     bindE (findOrCreateProfile env who) (\<lambda>p.
     gets (\<lambda>w. List.map_filter (summarise (db w))
       (sort_key psCreatedAt (filter (\<lambda>e. psProfileId e = cpId p) (profileSkills (db w))))))"

definition insertProfileSkill :: "profile_skill \<Rightarrow> profile_skill service" where
  "insertProfileSkill e =
     tryCatch (saveProfileSkill e) (\<lambda>err. case err of
       UniqueViolation c \<Rightarrow> throw (ConflictException ''skill'') | _ \<Rightarrow> throw err)"

definition addSkill :: "env \<Rightarrow> uuid \<Rightarrow> uuid \<Rightarrow> string option \<Rightarrow> skill_summary service" where
  "addSkill env who skillId level =
     bindE (findOrCreateProfile env who) (\<lambda>p.
     bindE (gets (\<lambda>w. List.find (\<lambda>s. skId s = skillId \<and> skActive s) (skills (db w)))) (\<lambda>found.
     bindE (someOr (NotFoundException ''skill'') found) (\<lambda>s.
     bindE freshId (\<lambda>i.
     bindE (insertProfileSkill \<lparr>psId = i, psProfileId = cpId p, psSkillId = skillId, psLevel = level,
              psCreatedAt = now env\<rparr>) (\<lambda>saved.
     bindE (calculateCompleteness env (cpId p)) (\<lambda>_.
     ret (summaryOf s saved)))))))"

definition removeSkill :: "env \<Rightarrow> uuid \<Rightarrow> uuid \<Rightarrow> unit service" where
  "removeSkill env who i =
     bindE (findOrCreateProfile env who) (\<lambda>p.
     bindE (deleteOwned profileSkills profileSkills_update psId psProfileId i (cpId p)) (\<lambda>_.
     bindE (calculateCompleteness env (cpId p)) (\<lambda>_. ret ())))"

definition listSkills :: "(string \<Rightarrow> nat) \<Rightarrow> (uuid \<times> string \<times> string option) list service" where
  "listSkills collation = gets (\<lambda>w. map (\<lambda>s. (skId s, skName s, skCategory s))
     (sort_key (\<lambda>s. collation (skName s)) (filter skActive (skills (db w)))))"

section \<open>Experiences\<close>

record experience_input =
  eiType :: "experience_type option option"
  eiTitle :: "string option option"
  eiOrganization :: "string option option"
  eiStartDate :: "string option option"
  eiEndDate :: "string option option"
  eiDescription :: "string option option"

definition listMyExperiences :: "env \<Rightarrow> uuid \<Rightarrow> experience list service" where
  "listMyExperiences env who =
     bindE (findOrCreateProfile env who) (\<lambda>p.
     gets (\<lambda>w. newest_first exStartDate (filter (\<lambda>e. exProfileId e = cpId p) (experiences (db w)))))"

definition createExperience ::
  "env \<Rightarrow> uuid \<Rightarrow> experience_type \<Rightarrow> string \<Rightarrow> string \<Rightarrow> string \<Rightarrow> string option \<Rightarrow> string option \<Rightarrow>
   experience service" where
  "createExperience env who ty title org start ends description =
     bindE (findOrCreateProfile env who) (\<lambda>p.
     bindE freshId (\<lambda>i.
     bindE (saveExperience \<lparr>exId = i, exProfileId = cpId p, exType = ty, exTitle = title,
              exOrganization = org, exStartDate = start, exEndDate = ends, exDescription = description\<rparr>)
       (\<lambda>saved.
     bindE (calculateCompleteness env (cpId p)) (\<lambda>_. ret saved))))"

definition updateExperience :: "env \<Rightarrow> uuid \<Rightarrow> uuid \<Rightarrow> experience_input \<Rightarrow> experience service" where
  "updateExperience env who i u =
     bindE (findOrCreateProfile env who) (\<lambda>p.
     bindE (findOwned experiences exId exProfileId i (cpId p)) (\<lambda>e.
     bindE (required (eiType u) (exType e)) (\<lambda>ty.
     bindE (required (eiTitle u) (exTitle e)) (\<lambda>title.
     bindE (required (eiOrganization u) (exOrganization e)) (\<lambda>org.
     bindE (required (eiStartDate u) (exStartDate e)) (\<lambda>start.
     bindE (saveExperience (e\<lparr>exType := ty, exTitle := title, exOrganization := org, exStartDate := start,
              exEndDate := assigned (eiEndDate u) (exEndDate e),
              exDescription := assigned (eiDescription u) (exDescription e)\<rparr>)) (\<lambda>saved.
     bindE (calculateCompleteness env (cpId p)) (\<lambda>_. ret saved))))))))"

definition removeExperience :: "env \<Rightarrow> uuid \<Rightarrow> uuid \<Rightarrow> unit service" where
  "removeExperience env who i =
     bindE (findOrCreateProfile env who) (\<lambda>p.
     bindE (deleteOwned experiences experiences_update exId exProfileId i (cpId p)) (\<lambda>_.
     bindE (calculateCompleteness env (cpId p)) (\<lambda>_. ret ())))"

section \<open>Projects\<close>

record project_input =
  piTitle :: "string option option"
  piDescription :: "string option option"
  piUrl :: "string option option"
  piRole :: "string option option"
  piStartDate :: "string option option"
  piEndDate :: "string option option"

text \<open>By start date, then by creation, both descending; no start date comes first.\<close>

definition listMyProjects :: "env \<Rightarrow> uuid \<Rightarrow> project list service" where
  "listMyProjects env who =
     bindE (findOrCreateProfile env who) (\<lambda>p.
     gets (\<lambda>w.
       let own = newest_first pjCreatedAt (filter (\<lambda>x. pjProfileId x = cpId p) (projects (db w)))
       in filter (\<lambda>x. pjStartDate x = None) own
          @ newest_first (\<lambda>x. the (pjStartDate x)) (filter (\<lambda>x. pjStartDate x \<noteq> None) own)))"

definition createProject ::
  "env \<Rightarrow> uuid \<Rightarrow> string \<Rightarrow> string \<Rightarrow> string option \<Rightarrow> string option \<Rightarrow> string option \<Rightarrow> string option \<Rightarrow>
   project service" where
  "createProject env who title description url role start ends =
     bindE (findOrCreateProfile env who) (\<lambda>p.
     bindE freshId (\<lambda>i.
     saveProject \<lparr>pjId = i, pjProfileId = cpId p, pjTitle = title, pjDescription = description, pjUrl = url,
       pjRole = role, pjStartDate = start, pjEndDate = ends, pjCreatedAt = now env\<rparr>))"

definition updateProject :: "env \<Rightarrow> uuid \<Rightarrow> uuid \<Rightarrow> project_input \<Rightarrow> project service" where
  "updateProject env who i u =
     bindE (findOrCreateProfile env who) (\<lambda>p.
     bindE (findOwned projects pjId pjProfileId i (cpId p)) (\<lambda>x.
     bindE (required (piTitle u) (pjTitle x)) (\<lambda>title.
     bindE (required (piDescription u) (pjDescription x)) (\<lambda>description.
     saveProject (x\<lparr>pjTitle := title, pjDescription := description, pjUrl := assigned (piUrl u) (pjUrl x),
       pjRole := assigned (piRole u) (pjRole x), pjStartDate := assigned (piStartDate u) (pjStartDate x),
       pjEndDate := assigned (piEndDate u) (pjEndDate x)\<rparr>)))))"

definition removeProject :: "env \<Rightarrow> uuid \<Rightarrow> uuid \<Rightarrow> unit service" where
  "removeProject env who i =
     bindE (findOrCreateProfile env who) (\<lambda>p.
     deleteOwned projects projects_update pjId pjProfileId i (cpId p))"

section \<open>Certifications\<close>

record certification_input =
  ciName :: "string option option"
  ciIssuer :: "string option option"
  ciIssueDate :: "string option option"
  ciExpiryDate :: "string option option"
  ciCredentialUrl :: "string option option"

definition listMyCertifications :: "env \<Rightarrow> uuid \<Rightarrow> certification list service" where
  "listMyCertifications env who =
     bindE (findOrCreateProfile env who) (\<lambda>p.
     gets (\<lambda>w. newest_first ctIssueDate (filter (\<lambda>x. ctProfileId x = cpId p) (certifications (db w)))))"

definition createCertification ::
  "env \<Rightarrow> uuid \<Rightarrow> string \<Rightarrow> string \<Rightarrow> string \<Rightarrow> string option \<Rightarrow> string option \<Rightarrow> certification service" where
  "createCertification env who name issuer issued expires url =
     bindE (findOrCreateProfile env who) (\<lambda>p.
     bindE freshId (\<lambda>i.
     saveCertification \<lparr>ctId = i, ctProfileId = cpId p, ctName = name, ctIssuer = issuer,
       ctIssueDate = issued, ctExpiryDate = expires, ctCredentialUrl = url\<rparr>))"

definition updateCertification :: "env \<Rightarrow> uuid \<Rightarrow> uuid \<Rightarrow> certification_input \<Rightarrow> certification service" where
  "updateCertification env who i u =
     bindE (findOrCreateProfile env who) (\<lambda>p.
     bindE (findOwned certifications ctId ctProfileId i (cpId p)) (\<lambda>x.
     bindE (required (ciName u) (ctName x)) (\<lambda>name.
     bindE (required (ciIssuer u) (ctIssuer x)) (\<lambda>issuer.
     bindE (required (ciIssueDate u) (ctIssueDate x)) (\<lambda>issued.
     saveCertification (x\<lparr>ctName := name, ctIssuer := issuer, ctIssueDate := issued,
       ctExpiryDate := assigned (ciExpiryDate u) (ctExpiryDate x),
       ctCredentialUrl := assigned (ciCredentialUrl u) (ctCredentialUrl x)\<rparr>))))))"

definition removeCertification :: "env \<Rightarrow> uuid \<Rightarrow> uuid \<Rightarrow> unit service" where
  "removeCertification env who i =
     bindE (findOrCreateProfile env who) (\<lambda>p.
     deleteOwned certifications certifications_update ctId ctProfileId i (cpId p))"

section \<open>Links\<close>

definition listMyLinks :: "env \<Rightarrow> uuid \<Rightarrow> profile_link list service" where
  "listMyLinks env who =
     bindE (findOrCreateProfile env who) (\<lambda>p.
     gets (\<lambda>w. sort_key lkCreatedAt (filter (\<lambda>x. lkProfileId x = cpId p) (profileLinks (db w)))))"

definition createLink ::
  "env \<Rightarrow> uuid \<Rightarrow> link_type \<Rightarrow> string \<Rightarrow> string option \<Rightarrow> profile_link service" where
  "createLink env who ty url label =
     bindE (findOrCreateProfile env who) (\<lambda>p.
     bindE freshId (\<lambda>i.
     bindE (saveLink \<lparr>lkId = i, lkProfileId = cpId p, lkType = ty, lkUrl = url, lkLabel = label,
              accessibilityStatus = LINK_PENDING, checkedAt = None, lkCreatedAt = now env\<rparr>) (\<lambda>saved.
     bindE (calculateCompleteness env (cpId p)) (\<lambda>_. ret saved))))"

definition removeLink :: "env \<Rightarrow> uuid \<Rightarrow> uuid \<Rightarrow> unit service" where
  "removeLink env who i =
     bindE (findOrCreateProfile env who) (\<lambda>p.
     bindE (deleteOwned profileLinks profileLinks_update lkId lkProfileId i (cpId p)) (\<lambda>_.
     bindE (calculateCompleteness env (cpId p)) (\<lambda>_. ret ())))"

definition reverify :: "env \<Rightarrow> uuid \<Rightarrow> uuid \<Rightarrow> profile_link service" where
  "reverify env who i =
     bindE (findOrCreateProfile env who) (\<lambda>p.
     bindE (findOwned profileLinks lkId lkProfileId i (cpId p)) (\<lambda>l.
     saveLink (l\<lparr>accessibilityStatus := LINK_PENDING, checkedAt := None\<rparr>)))"

text \<open>The worker: \<open>probe\<close> says whether the URL answers.\<close>

definition verifyLink :: "env \<Rightarrow> uuid \<Rightarrow> link_status option service" where
  "verifyLink env i =
     bindE (gets (\<lambda>w. List.find (\<lambda>l. lkId l = i) (profileLinks (db w)))) (\<lambda>found.
     case found of
       None \<Rightarrow> ret None
     | Some l \<Rightarrow>
         bindE (ret (if probe env (lkUrl l) then REACHABLE else UNREACHABLE)) (\<lambda>status.
         bindE (modify (\<lambda>w. w\<lparr>db := (db w)\<lparr>profileLinks :=
           update_where (\<lambda>l. lkId l = i) (\<lambda>l. l\<lparr>accessibilityStatus := status, checkedAt := Some (now env)\<rparr>)
             (profileLinks (db w))\<rparr>\<rparr>)) (\<lambda>_.
         ret (Some status))))"

end
