(* ===== verification/Documents.thy ===== *)
theory Documents
  imports Profiles Messaging Crypto
begin

text \<open>
  The CV of a candidate, \<open>candidates/candidate-document.service.ts\<close>. A file is the record of an
  upload of \<open>Messaging\<close>. Removing a document removes the school verification that rests on it, by the
  foreign key.
\<close>

definition removeDocuments :: "(document \<Rightarrow> bool) \<Rightarrow> unit service" where
  "removeDocuments P = modify (\<lambda>w.
     let gone = dcId ` {x \<in> set (documents (db w)). P x}
     in w\<lparr>db := (db w)\<lparr>documents := delete_where P (documents (db w)),
          schoolVerifications := delete_where (\<lambda>v. svDocumentId v \<in> gone) (schoolVerifications (db w))\<rparr>\<rparr>)"

definition DEFAULT_MAX_SIZE :: rat where "DEFAULT_MAX_SIZE = 5 * 1024 * 1024"

definition DEFAULT_ALLOWED_TYPES :: string where
  "DEFAULT_ALLOWED_TYPES = ''application/pdf,application/vnd.openxmlformats-officedocument.wordprocessingml.document''"

text \<open>\<open>split(',')\<close>\<close>

fun splitOn :: "char \<Rightarrow> string \<Rightarrow> string list" where
  "splitOn c [] = [[]]"
| "splitOn c (x # xs) =
     (if x = c then [] # splitOn c xs
      else (case splitOn c xs of [] \<Rightarrow> [[x]] | s # ss \<Rightarrow> (x # s) # ss))"

definition recompute :: "env \<Rightarrow> uuid \<Rightarrow> unit service" where
  "recompute env who =
     bindE (findProfileByUserId who) (\<lambda>found.
     case found of
       None \<Rightarrow> ret ()
     | Some p \<Rightarrow> bindE (calculateCompleteness env (cpId p)) (\<lambda>_. ret ()))"

definition the_cv :: "uuid \<Rightarrow> document \<Rightarrow> bool" where
  "the_cv who x \<longleftrightarrow> dcOwnerId x = who \<and> dcType x = DOC_CV"

definition getCV :: "uuid \<Rightarrow> document option service" where
  "getCV who = gets (\<lambda>w. List.find (the_cv who) (documents (db w)))"

definition dropCV :: "env \<Rightarrow> document \<Rightarrow> unit service" where
  "dropCV env x =
     bindE (deleteObject env (storageKey x)) (\<lambda>_. removeDocuments (\<lambda>y. dcId y = dcId x))"

text \<open>The checks of an upload, for the settings that bound its size and type.\<close>

definition checkUpload ::
  "env \<Rightarrow> string \<Rightarrow> rat \<Rightarrow> string \<Rightarrow> string \<Rightarrow> attachment_upload \<Rightarrow> unit service" where
  "checkUpload env sizeKey defaultSize typesKey defaultTypes file =
     bindE (require (\<not> (upSize file = 0 \<or> upBuffer file = [])) (BadRequestException ''empty-file'')) (\<lambda>_.
     bindE (numberOr env sizeKey defaultSize) (\<lambda>maxSize.
     bindE (require (\<not> jsLt maxSize (Finite (of_int (upSize file)))) (BadRequestException ''too-large'')) (\<lambda>_.
     bindE (getSetting env typesKey None) (\<lambda>types.
     bindE (require (upMime file \<in> set (map trim (splitOn (CHR 0x2C) (orElse types defaultTypes))))
              (BadRequestException ''file-type'')) (\<lambda>_.
     bindE (someOr (ServiceUnavailable ''scanner'') (scanFile env (upBuffer file) (upName file))) (\<lambda>clean.
     require clean (BadRequestException ''threat'')))))))"

definition uploadCV :: "crypto \<Rightarrow> env \<Rightarrow> uuid \<Rightarrow> attachment_upload \<Rightarrow> document service" where
  "uploadCV cr env who file =
     bindE (checkUpload env ''cv_max_size_bytes'' DEFAULT_MAX_SIZE ''cv_allowed_mime_types'' DEFAULT_ALLOWED_TYPES file) (\<lambda>_.
     bindE freshId (\<lambda>draw.
     bindE (ret (''cv/'' @ dec who @ ''/'' @ uuidv4 cr draw @ ''-'' @ upName file)) (\<lambda>key.
     bindE (upload env key) (\<lambda>_.
     bindE (getCV who) (\<lambda>existing.
     bindE (case existing of None \<Rightarrow> ret () | Some x \<Rightarrow> dropCV env x) (\<lambda>_.
     bindE freshId (\<lambda>i.
     bindE (saveDocument \<lparr>dcId = i, dcOwnerId = who, dcType = DOC_CV, storageKey = key,
              originalName = upName file, mimeType = upMime file, dcSize = upSize file,
              scanStatus = SCAN_CLEAN, dcCreatedAt = now env\<rparr>) (\<lambda>saved.
     bindE (recompute env who) (\<lambda>_. ret saved)))))))))"

definition deleteCV :: "env \<Rightarrow> uuid \<Rightarrow> unit service" where
  "deleteCV env who =
     bindE (getCV who) (\<lambda>found.
     bindE (someOr (NotFoundException ''cv'') found) (\<lambda>x.
     bindE (dropCV env x) (\<lambda>_. recompute env who)))"

end
