(* ===== verification/Candidate_Data.thy ===== *)
theory Candidate_Data
  imports Profile_Items Documents
begin

text \<open>
  Portability and erasure, \<open>candidates/candidate-data.service.ts\<close>, and the requests of data
  subjects, \<open>candidates/data-request.service.ts\<close>. \<open>removeProfile\<close> is the deletion of a profile row
  with the rows that the foreign keys delete with it. The export is the record that the PDF renderer
  draws; creation dates of the account are not in the data model.
\<close>

section \<open>Export\<close>

record exported_profile =
  xfFirstName :: "string option"
  xfLastName :: "string option"
  xfHeadline :: "string option"
  xfBio :: "string option"
  xfSchool :: "string option"
  xfCompleteness :: js_number
  xfCreatedAt :: date
  xfUpdatedAt :: date

definition exported :: "candidate_profile \<Rightarrow> exported_profile" where
  "exported p = \<lparr>xfFirstName = firstName p, xfLastName = lastName p, xfHeadline = headline p,
     xfBio = bio p, xfSchool = school p, xfCompleteness = completeness p, xfCreatedAt = cpCreatedAt p,
     xfUpdatedAt = cpUpdatedAt p\<rparr>"

record data_export =
  exportDate :: date
  xpEmail :: string
  xpRoles :: "role list"
  xpStatus :: user_status
  xpEmailVerified :: bool
  xpProfile :: "exported_profile option"
  xpExperiences :: "(experience_type \<times> string \<times> string \<times> string \<times> string option \<times> string option) list"
  xpSkills :: "(string \<times> string option \<times> string option) list"
  xpLinks :: "(link_type \<times> string \<times> string option) list"
  xpCertifications :: "(string \<times> string \<times> string \<times> string option \<times> string option) list"
  xpDocuments :: "(document_type \<times> string \<times> string \<times> int \<times> date) list"

definition of_profile :: "candidate_profile option \<Rightarrow> ('r \<Rightarrow> uuid) \<Rightarrow> 'r list \<Rightarrow> 'r list" where
  "of_profile p own rows = (case p of None \<Rightarrow> [] | Some x \<Rightarrow> filter (\<lambda>r. own r = cpId x) rows)"

definition collectExportData :: "env \<Rightarrow> uuid \<Rightarrow> data_export service" where
  "collectExportData env who =
     bindE (gets (\<lambda>w. List.find (\<lambda>u. userId u = who) (users (db w)))) (\<lambda>found.
     bindE (someOr (NotFoundException ''user'') found) (\<lambda>u.
     bindE (findProfileByUserId who) (\<lambda>p.
     gets (\<lambda>w. let d = db w in
       \<lparr>exportDate = now env, xpEmail = email u, xpRoles = roles u, xpStatus = userStatus u,
        xpEmailVerified = emailVerified u, xpProfile = map_option exported p,
        xpExperiences = map (\<lambda>e. (exType e, exTitle e, exOrganization e, exStartDate e, exEndDate e, exDescription e))
          (of_profile p exProfileId (experiences d)),
        xpSkills = map (\<lambda>s. (smName s, smCategory s, smLevel s))
          (List.map_filter (summarise d) (of_profile p psProfileId (profileSkills d))),
        xpLinks = map (\<lambda>l. (lkType l, lkUrl l, lkLabel l)) (of_profile p lkProfileId (profileLinks d)),
        xpCertifications = map (\<lambda>c. (ctName c, ctIssuer c, ctIssueDate c, ctExpiryDate c, ctCredentialUrl c))
          (of_profile p ctProfileId (certifications d)),
        xpDocuments = map (\<lambda>x. (dcType x, originalName x, mimeType x, dcSize x, dcCreatedAt x))
          (filter (\<lambda>x. dcOwnerId x = who) (documents d))\<rparr>))))"

definition logExport :: "env \<Rightarrow> uuid \<Rightarrow> unit service" where
  "logExport env who = auditLog env \<lparr>actorId = Some who, auAction = USER_DATA_EXPORTED,
     entityType = ''User'', entityId = who\<rparr>"

definition exportData :: "env \<Rightarrow> uuid \<Rightarrow> data_export service" where
  "exportData env who =
     bindE (collectExportData env who) (\<lambda>x. bindE (logExport env who) (\<lambda>_. ret x))"

section \<open>Erasure\<close>

definition without_conversations :: "uuid set \<Rightarrow> db \<Rightarrow> db" where
  "without_conversations cs d = d\<lparr>
     conversations := delete_where (\<lambda>c. convId c \<in> cs) (conversations d),
     messages := delete_where (\<lambda>m. msgConversationId m \<in> cs) (messages d),
     messageReports := delete_where (\<lambda>r. repConversationId r \<in> cs) (messageReports d),
     interviews := delete_where (\<lambda>i. ivConversationId i \<in> cs) (interviews d)\<rparr>"

definition without_file :: "uuid \<Rightarrow> db \<Rightarrow> db" where
  "without_file p d = d\<lparr>
     candidateProfiles := delete_where (\<lambda>x. cpId x = p) (candidateProfiles d),
     experiences := delete_where (\<lambda>x. exProfileId x = p) (experiences d),
     projects := delete_where (\<lambda>x. pjProfileId x = p) (projects d),
     certifications := delete_where (\<lambda>x. ctProfileId x = p) (certifications d),
     profileSkills := delete_where (\<lambda>x. psProfileId x = p) (profileSkills d),
     profileLinks := delete_where (\<lambda>x. lkProfileId x = p) (profileLinks d),
     schoolVerifications := delete_where (\<lambda>x. svProfileId x = p) (schoolVerifications d),
     shortlist := delete_where (\<lambda>x. slCandidateProfileId x = p) (shortlist d),
     profileViews := delete_where (\<lambda>x. pvProfileId x = p) (profileViews d),
     viewCooldowns := delete_where (\<lambda>x. vcProfileId x = p) (viewCooldowns d),
     jobApplications := delete_where (\<lambda>x. jaProfileId x = p) (jobApplications d)\<rparr>"

definition removeProfile :: "uuid \<Rightarrow> unit service" where
  "removeProfile p = modify (\<lambda>w. w\<lparr>db := without_file p
     (without_conversations (convId ` {c \<in> set (conversations (db w)). convCandidateId c = p}) (db w))\<rparr>)"

definition anonymised :: "string \<Rightarrow> user \<Rightarrow> user" where
  "anonymised token u = u\<lparr>email := ''deleted_'' @ token @ ''@anonymized.local'', passwordHash := [],
     userStatus := U_DELETED, emailVerified := False, emailVerificationToken := None,
     emailVerificationExpires := None\<rparr>"

definition deleteData :: "crypto \<Rightarrow> env \<Rightarrow> uuid \<Rightarrow> unit service" where
  "deleteData cr env who =
     bindE (gets (\<lambda>w. List.find (\<lambda>u. userId u = who) (users (db w)))) (\<lambda>found.
     bindE (someOr (NotFoundException ''user'') found) (\<lambda>u.
     bindE (gets (\<lambda>w. filter (\<lambda>x. dcOwnerId x = who) (documents (db w)))) (\<lambda>docs.
     bindE (forEach docs (\<lambda>x. bestEffort (deleteObject env (storageKey x)))) (\<lambda>_.
     bindE (if docs = [] then ret () else removeDocuments (\<lambda>x. dcId x \<in> dcId ` set docs)) (\<lambda>_.
     bindE (findProfileByUserId who) (\<lambda>p.
     bindE (case p of None \<Rightarrow> ret () | Some x \<Rightarrow> removeProfile (cpId x)) (\<lambda>_.
     bindE freshId (\<lambda>draw.
     bindE (saveUser (anonymised (uuidv4 cr draw) u)) (\<lambda>_.
     auditLog env \<lparr>actorId = Some who, auAction = USER_DELETED, entityType = ''User'',
       entityId = who\<rparr>)))))))))"

section \<open>Requests of data subjects\<close>

definition SLA_DAYS :: int where "SLA_DAYS = 30"

definition OPEN_STATUSES :: "data_request_status list" where
  "OPEN_STATUSES = [DR_PENDING, DR_IN_PROGRESS]"

definition requestEvent :: "uuid \<Rightarrow> audit_action \<Rightarrow> uuid \<Rightarrow> audit_entry" where
  "requestEvent who action i =
     \<lparr>actorId = Some who, auAction = action, entityType = ''DataRequest'', entityId = i\<rparr>"

definition createDataRequest ::
  "env \<Rightarrow> uuid \<Rightarrow> data_request_type \<Rightarrow> string option \<Rightarrow> data_request service" where
  "createDataRequest env who ty message =
     bindE (gets (\<lambda>w. List.find (\<lambda>r. drUserId r = who \<and> drType r = ty \<and> drStatus r \<in> set OPEN_STATUSES)
              (dataRequests (db w)))) (\<lambda>open.
     bindE (require (open = None) (ConflictException ''open-request'')) (\<lambda>_.
     bindE freshId (\<lambda>i.
     bindE (saveDataRequest \<lparr>drId = i, drUserId = who, drType = ty, drStatus = DR_PENDING,
              drMessage = trimOrNone message, resolutionNote = None, handledByUserId = None,
              dueAt = now env + SLA_DAYS * 86400000, resolvedAt = None, drCreatedAt = now env\<rparr>) (\<lambda>saved.
     bindE (auditLog env (requestEvent who DATA_REQUEST_CREATED (drId saved))) (\<lambda>_. ret saved)))))"

definition listDataRequests :: "uuid \<Rightarrow> data_request list service" where
  "listDataRequests who = gets (\<lambda>w.
     newest_first drCreatedAt (filter (\<lambda>r. drUserId r = who) (dataRequests (db w))))"

record data_request_page =
  dpItems :: "data_request list"
  dpTotal :: nat
  dpPage :: int
  dpLimit :: int
  dpPageCount :: int

definition searchDataRequests ::
  "data_request_status option \<Rightarrow> data_request_type option \<Rightarrow> int option \<Rightarrow> int option \<Rightarrow>
   data_request_page service" where
  "searchDataRequests status ty page limit =
     (let p = max 1 (orElse page 1); n = min 100 (max 1 (orElse limit 20)) in
      gets (\<lambda>w.
        let rows = filter (\<lambda>r. (case status of None \<Rightarrow> True | Some s \<Rightarrow> drStatus r = s) \<and>
                      (case ty of None \<Rightarrow> True | Some t \<Rightarrow> drType r = t)) (dataRequests (db w));
            k = int (length rows)
        in \<lparr>dpItems = take (nat n) (drop (nat ((p - 1) * n)) (sort_key dueAt rows)), dpTotal = length rows,
            dpPage = p, dpLimit = n,
            dpPageCount = (let c = (k + n - 1) div n in if c = 0 then 1 else c)\<rparr>))"

definition updateDataRequest ::
  "crypto \<Rightarrow> env \<Rightarrow> uuid \<Rightarrow> uuid \<Rightarrow> data_request_status \<Rightarrow> string option \<Rightarrow> data_request service" where
  "updateDataRequest cr env i admin status remark =
     bindE (gets (\<lambda>w. List.find (\<lambda>r. drId r = i) (dataRequests (db w)))) (\<lambda>found.
     bindE (someOr (NotFoundException ''data-request'') found) (\<lambda>r.
     bindE (require (drStatus r \<in> set OPEN_STATUSES) (BadRequestException ''closed'')) (\<lambda>_.
     bindE (if status = DR_COMPLETED \<and> drType r = ERASURE then deleteData cr env (drUserId r) else ret ()) (\<lambda>_.
     bindE (saveDataRequest (r\<lparr>drStatus := status, handledByUserId := Some admin,
              resolutionNote := trimOrNone remark,
              resolvedAt := (if status = DR_COMPLETED \<or> status = DR_REJECTED then Some (now env) else None)\<rparr>))
       (\<lambda>saved.
     bindE (auditLog env (requestEvent admin DATA_REQUEST_RESOLVED (drId saved))) (\<lambda>_. ret saved))))))"

end
