(* ===== verification/World_Frames.thy ===== *)
theory World_Frames
  imports Frames
begin

text \<open>
  What an operation may do to the whole state, identifiers included, as a relation between the
  state before and after: \<open>shifts R m\<close>. The locale \<open>world_frame\<close> carries a transitive relation that
  admits every step outside the database through the control flow of a service, as \<open>db_frame\<close> does
  for relations on databases.
\<close>

definition shifts :: "(world \<Rightarrow> world \<Rightarrow> bool) \<Rightarrow> 'a service \<Rightarrow> bool" where
  "shifts R m \<longleftrightarrow> (\<forall>w. R w (snd (m w)))"

lemma shiftsI: "(\<And>w r w'. m w = (r, w') \<Longrightarrow> R w w') \<Longrightarrow> shifts R m"
  unfolding shifts_def by (metis prod.collapse)

lemma shiftsD: "shifts R m \<Longrightarrow> m w = (r, w') \<Longrightarrow> R w w'"
  unfolding shifts_def by (metis snd_conv)

locale world_frame =
  fixes R :: "world \<Rightarrow> world \<Rightarrow> bool"
  assumes outside: "db w' = db w \<Longrightarrow> nextId w \<le> nextId w' \<Longrightarrow> R w w'"
    and chain: "R w w' \<Longrightarrow> R w' w'' \<Longrightarrow> R w w''"
begin

lemma shifts_outside: "outside_db m \<Longrightarrow> shifts R m"
  by (rule shiftsI) (metis outside_dbD outside)

lemma shifts_bindE:
  assumes "shifts R m" "\<And>x. shifts R (f x)"
  shows "shifts R (bindE m f)"
proof (rule shiftsI)
  fix w r w'
  assume "bindE m f w = (r, w')"
  then show "R w w'"
  proof (cases rule: bindE_cases)
    case (throws e s')
    with shiftsD [OF assms(1) throws(1)] show ?thesis by simp
  next
    case (returns x s')
    from shiftsD [OF assms(2) returns(2) [symmetric]] shiftsD [OF assms(1) returns(1)]
    show ?thesis by (rule chain [rotated])
  qed
qed

lemma shifts_tryCatch:
  assumes "shifts R m" "\<And>e. shifts R (h e)"
  shows "shifts R (tryCatch m h)"
proof (rule shiftsI)
  fix w r w'
  assume run: "tryCatch m h w = (r, w')"
  obtain r1 w1 where m: "m w = (r1, w1)" by fastforce
  with shiftsD [OF assms(1)] have "R w w1" by blast
  then show "R w w'"
    using run m shiftsD [OF assms(2)] chain by (cases r1) (auto simp: tryCatch_def)
qed

lemma shifts_option:
  "shifts R m \<Longrightarrow> (\<And>x. shifts R (f x)) \<Longrightarrow> shifts R (case opt of None \<Rightarrow> m | Some x \<Rightarrow> f x)"
  by (cases opt) auto

lemma shifts_if: "shifts R m \<Longrightarrow> shifts R m' \<Longrightarrow> shifts R (if c then m else m')"
  by simp

lemma shifts_forEach: "(\<And>x. shifts R (f x)) \<Longrightarrow> shifts R (forEach xs f)"
  by (induction xs) (simp_all add: shifts_bindE shifts_outside outside_ret)

lemma shifts_bestEffort: "shifts R m \<Longrightarrow> shifts R (bestEffort m)"
  unfolding bestEffort_def by (rule shifts_tryCatch) (assumption, rule shifts_outside, rule outside_ret)

lemmas shifts_basic = shifts_outside [OF outside_ret] shifts_outside [OF outside_throw]
  shifts_outside [OF outside_gets] shifts_outside [OF outside_require]
  shifts_outside [OF outside_someOr] shifts_outside [OF outside_auditLog]
  shifts_outside [OF outside_sendMail] shifts_outside [OF outside_track]
  shifts_outside [OF outside_upload] shifts_outside [OF outside_deleteObject]
  shifts_outside [OF outside_freshId]

lemmas shifts_rules = shifts_basic shifts_bindE shifts_tryCatch shifts_option shifts_if shifts_forEach
  shifts_bestEffort

end

text \<open>A sequence of requests, each of which may fail.\<close>

primrec runAll :: "('q \<Rightarrow> unit service) \<Rightarrow> 'q list \<Rightarrow> world \<Rightarrow> world" where
  "runAll h [] w = w"
| "runAll h (q # qs) w = runAll h qs (snd (h q w))"

context world_frame begin

lemma runAll_frame: "(\<And>q. shifts R (h q)) \<Longrightarrow> R w (runAll h qs w)"
proof (induction qs arbitrary: w)
  case Nil
  then show ?case by (simp add: outside)
next
  case (Cons q qs)
  have "R w (snd (h q w))" using Cons.prems [of q] by (simp add: shifts_def)
  then show ?case using Cons.IH [OF Cons.prems] chain by auto
qed

end

lemma runAll_append: "runAll h (xs @ ys) w = runAll h ys (runAll h xs w)"
  by (induction xs arbitrary: w) auto

end
