(* ===== verification/Candidate_Facts.thy ===== *)
theory Candidate_Facts
  imports Candidate_Data World_Frames Exam_Facts
begin

text \<open>
  Facts about profiles: what the completeness score adds up, and what a recalculation may change.
\<close>

section \<open>Adding up\<close>

definition amount :: "js_number \<Rightarrow> rat" where
  "amount n = (case n of Finite q \<Rightarrow> q | _ \<Rightarrow> 0)"

definition finite_weights :: "completeness_weights \<Rightarrow> bool" where
  "finite_weights k \<longleftrightarrow> list_all (\<lambda>n. \<exists>q. n = Finite q)
     [wIdentity k, wExperience k, wSkills k, wCv k, wLinks k, wSchool k]"

definition full_weight :: "completeness_weights \<Rightarrow> rat" where
  "full_weight k = amount (wIdentity k) + amount (wExperience k) + amount (wSkills k) + amount (wCv k)
     + amount (wLinks k) + amount (wSchool k)"

lemma foldl_weights:
  "list_all (\<lambda>(key, n, there). \<exists>q. n = Finite q) es \<Longrightarrow>
   foldl (\<lambda>n (key, weight, there). if there then jsAdd n weight else n) (Finite a) es =
     Finite (a + sum_list (map (\<lambda>(key, n, there). if there then amount n else 0) es))"
  by (induction es arbitrary: a) (auto simp: amount_def add.assoc)

lemma missing_weights:
  "sum_list (map (\<lambda>(key, n). amount n) (missing_of es)) =
     sum_list (map (\<lambda>(key, n, there). if there then 0 else amount n) es)"
  by (induction es) (auto simp: missing_of_def)

lemma total_weights:
  assumes "finite_weights k"
  shows "\<exists>q. total (elements d p k) = Finite q \<and>
    q + sum_list (map (\<lambda>(key, n). amount n) (missing_of (elements d p k))) = full_weight k \<and>
    (list_all (\<lambda>n. 0 \<le> amount n) [wIdentity k, wExperience k, wSkills k, wCv k, wLinks k, wSchool k]
       \<longrightarrow> 0 \<le> q \<and> q \<le> full_weight k)"
proof -
  have fin: "list_all (\<lambda>(key, n, there). \<exists>q. n = Finite q) (elements d p k)"
    using assms by (simp add: elements_def finite_weights_def)
  have t: "total (elements d p k) =
      Finite (sum_list (map (\<lambda>(key, n, there). if there then amount n else 0) (elements d p k)))"
    unfolding total_def using foldl_weights [OF fin, of 0] by simp
  have m: "sum_list (map (\<lambda>(key, n). amount n) (missing_of (elements d p k))) =
      sum_list (map (\<lambda>(key, n, there). if there then 0 else amount n) (elements d p k))"
    by (rule missing_weights)
  show ?thesis
    unfolding t m by (rule exI, rule conjI, rule refl, simp add: elements_def full_weight_def)
qed

section \<open>Weights\<close>

lemma loadWeights_same: "loadWeights env w = (Inr k, w') \<Longrightarrow> w' = w"
  by (auto simp: loadWeights_def returns dest!: numberOr_Inr)

lemma outside_loadWeights [keeping]: "outside_db (loadWeights env)"
  unfolding loadWeights_def by (intro keeping)

lemma numberOr_default:
  assumes "list_all (\<lambda>s. setKey s \<noteq> key) (settings (db w))"
  shows "numberOr env key q w = (Inr (Finite q), w)"
proof -
  have "settingOf (db w) key = None"
    using assms by (simp add: settingOf_def find_None_iff list_all_iff)
  then show ?thesis by (simp add: numberOr_def getNumber_def getSetting_def bindE_def)
qed

lemma loadWeights_default:
  assumes "settings (db w) = []"
  shows "loadWeights env w = (Inr \<lparr>wIdentity = Finite 15, wExperience = Finite 20, wSkills = Finite 20,
    wCv = Finite 15, wLinks = Finite 15, wSchool = Finite 15, wThreshold = Finite 70,
    wMinSkills = Finite 5\<rparr>, w)"
  using assms by (simp add: loadWeights_def numberOr_default)

lemma loadWeights_settings:
  "settings (db w1) = settings (db w) \<Longrightarrow> loadWeights env w = (Inr k, w) \<Longrightarrow> loadWeights env w1 = (Inr k, w1)"
  by (simp add: loadWeights_def numberOr_def getNumber_def getSetting_def settingOf_def bindE_def)

lemma returns_bindE:
  assumes "\<exists>x. m w = (Inr x, w)" "\<And>x. \<exists>y. f x w = (Inr y, w)"
  shows "\<exists>y. bindE m f w = (Inr y, w)"
  using assms by (auto simp: bindE_def)

lemma loadWeights_returns: "\<exists>k. loadWeights env w = (Inr k, w)"
  unfolding loadWeights_def by (intro returns_bindE numberOr_returns) simp

section \<open>Recalculation\<close>

text \<open>What a recalculation leaves alone in a row.\<close>

definition content :: "candidate_profile \<Rightarrow> candidate_profile" where
  "content p = p\<lparr>completeness := NaN, indexedInCvtheque := False, featured := False, cpUpdatedAt := 0\<rparr>"

definition profiles_ok :: "world \<Rightarrow> bool" where
  "profiles_ok w \<longleftrightarrow> distinct (map cpId (candidateProfiles (db w))) \<and>
     distinct (map cpUserId (candidateProfiles (db w))) \<and>
     (\<forall>p \<in> set (candidateProfiles (db w)). cpId p < nextId w)"

definition recalculated :: "world \<Rightarrow> world \<Rightarrow> bool" where
  "recalculated w w' \<longleftrightarrow> nextId w \<le> nextId w' \<and> (profiles_ok w \<longrightarrow> profiles_ok w' \<and>
     (\<exists>ps. db w' = (db w)\<lparr>candidateProfiles := ps\<rparr> \<and> map content ps = map content (candidateProfiles (db w))))"

lemma content_keys: "cpId (content p) = cpId p" "cpUserId (content p) = cpUserId p"
  "moderationStatus (content p) = moderationStatus p" "schoolVerified (content p) = schoolVerified p"
  "cpVisibility (content p) = cpVisibility p" "school (content p) = school p"
  "salaryMin (content p) = salaryMin p" "salaryMax (content p) = salaryMax p"
  "firstName (content p) = firstName p" "lastName (content p) = lastName p"
  "headline (content p) = headline p" "bio (content p) = bio p"
  by (simp_all add: content_def)

lemma content_map:
  assumes "map content ps = map content qs" "\<And>p. f (content p) = f p"
  shows "map f ps = map f qs"
proof -
  have "map f ps = map f (map content ps)" by (simp add: assms(2))
  also have "\<dots> = map f qs" using assms by simp
  finally show ?thesis .
qed

lemma profiles_ok_content:
  assumes "profiles_ok w" "nextId w \<le> nextId w'"
    "map content (candidateProfiles (db w')) = map content (candidateProfiles (db w))"
  shows "profiles_ok w'"
proof -
  have ids: "map cpId (candidateProfiles (db w')) = map cpId (candidateProfiles (db w))"
    and us: "map cpUserId (candidateProfiles (db w')) = map cpUserId (candidateProfiles (db w))"
    by (rule content_map [OF assms(3)], simp add: content_keys)+
  have "cpId p < nextId w'" if "p \<in> set (candidateProfiles (db w'))" for p
  proof -
    have "cpId p \<in> set (map cpId (candidateProfiles (db w)))" using that by (simp flip: ids)
    with assms(1,2) show ?thesis by (auto simp: profiles_ok_def)
  qed
  then show ?thesis using assms(1) unfolding profiles_ok_def ids us by blast
qed

interpretation recalc: world_frame recalculated
proof unfold_locales
  fix w w' :: world
  assume "db w' = db w" "nextId w \<le> nextId w'"
  then show "recalculated w w'"
    unfolding recalculated_def profiles_ok_def
    by (auto intro: order_less_le_trans intro!: exI [of _ "candidateProfiles (db w)"])
next
  fix w w' w'' :: world
  assume "recalculated w w'" "recalculated w' w''"
  then show "recalculated w w''"
    unfolding recalculated_def by (auto 0 3)
qed

lemma save_content:
  assumes "profiles_ok w" "p \<in> set (candidateProfiles (db w))" "content q = content p"
    "saveProfile q w = (r, w')"
  shows "recalculated w w'"
proof (cases r)
  case (Inl e)
  with assms(4) have "w' = w" by (simp add: saveProfile_def save_into_Inl)
  then show ?thesis by (simp add: recalc.outside)
next
  case (Inr x)
  with assms(4) have w': "w' = setDb ((db w)\<lparr>candidateProfiles := upsert cpId q (candidateProfiles (db w))\<rparr>) w"
    by (auto simp: saveProfile_def save_into_Inr setDb_def)
  have id: "cpId q = cpId p" using assms(3) content_keys(1) by metis
  have "x = p" if "x \<in> set (candidateProfiles (db w))" "cpId x = cpId p" for x
    using that assms(1,2) by (auto simp: profiles_ok_def distinct_map inj_on_def)
  then have "map content (upsert cpId q (candidateProfiles (db w))) = map content (candidateProfiles (db w))"
    using assms(2,3) id by (auto simp: upsert_def update_where_def)
  moreover have "nextId w' = nextId w" by (simp add: w' setDb_def)
  ultimately show ?thesis
    using profiles_ok_content [OF assms(1), of w'] by (auto simp: recalculated_def w' setDb_def)
qed

lemma recalculated_cong:
  "(profiles_ok w \<Longrightarrow> recalculated w w') \<Longrightarrow> nextId w \<le> nextId w' \<Longrightarrow> recalculated w w'"
  by (auto simp: recalculated_def)

lemma storeProfile_recalculated:
  assumes "profiles_ok w" "p \<in> set (candidateProfiles (db w))" "content q = content p"
    "storeProfile env q w = (r, w')"
  shows "recalculated w w'"
proof -
  have c: "content (if old = Some q then q else q\<lparr>cpUpdatedAt := now env\<rparr>) = content p" for old
    using assms(3) by (simp add: content_def)
  from assms(4) show ?thesis
    unfolding storeProfile_def bindE_def by simp (rule save_content [OF assms(1,2) c])
qed

lemma applyThresholds_run:
  "\<exists>i f. applyThresholds env c w =
     (case List.find (\<lambda>p. cpUserId p = c) (candidateProfiles (db w)) of
        None \<Rightarrow> (Inr (), w)
      | Some p \<Rightarrow> bindE (storeProfile env (p\<lparr>indexedInCvtheque := i, featured := f\<rparr>)) (\<lambda>_. ret ()) w)"
proof -
  obtain a b e g where n: "numberOr env INDEXATION_SCORE_MIN_KEY DEFAULT_INDEXATION_SCORE_MIN w = (Inr a, w)"
    "numberOr env INDEXATION_PERCENTILE_MIN_KEY DEFAULT_INDEXATION_PERCENTILE_MIN w = (Inr b, w)"
    "numberOr env FEATURING_PERCENTILE_MIN_KEY DEFAULT_FEATURING_PERCENTILE_MIN w = (Inr e, w)"
    "numberOr env ''completeness_threshold_publishable'' DEFAULT_COMPLETENESS_THRESHOLD w = (Inr g, w)"
    using numberOr_returns by metis
  show ?thesis
  proof (cases "List.find (\<lambda>p. cpUserId p = c) (candidateProfiles (db w))")
    case None
    then show ?thesis by (simp add: applyThresholds_def)
  next
    case (Some p)
    show ?thesis
      unfolding applyThresholds_def
      by (simp del: ret_apply add: Some bindE_Inr [where m = "numberOr _ _ _", OF n(1)]
          bindE_Inr [where m = "numberOr _ _ _", OF n(2)] bindE_Inr [where m = "numberOr _ _ _", OF n(3)]
          bindE_Inr [where m = "numberOr _ _ _", OF n(4)] bindE_def [of "gets _"]) blast
  qed
qed

lemma applyThresholds_recalculated: "shifts recalculated (applyThresholds env c)"
proof (rule shiftsI)
  fix w r w'
  assume run: "applyThresholds env c w = (r, w')"
  have "nextId w \<le> nextId w'" by (rule ids_growD [OF ids_grow_applyThresholds run])
  then show "recalculated w w'"
  proof (rule recalculated_cong [rotated])
    assume ok: "profiles_ok w"
    obtain i f where e: "applyThresholds env c w =
       (case List.find (\<lambda>p. cpUserId p = c) (candidateProfiles (db w)) of
          None \<Rightarrow> (Inr (), w)
        | Some p \<Rightarrow> bindE (storeProfile env (p\<lparr>indexedInCvtheque := i, featured := f\<rparr>)) (\<lambda>_. ret ()) w)"
      using applyThresholds_run by blast
    show "recalculated w w'"
    proof (cases "List.find (\<lambda>p. cpUserId p = c) (candidateProfiles (db w))")
      case None
      with run e have "w' = w" by simp
      then show ?thesis by (simp add: recalc.outside)
    next
      case (Some p)
      have p: "p \<in> set (candidateProfiles (db w))" using find_SomeD [OF Some] by blast
      have c: "content (p\<lparr>indexedInCvtheque := i, featured := f\<rparr>) = content p" by (simp add: content_def)
      from run e Some obtain r1 where "storeProfile env (p\<lparr>indexedInCvtheque := i, featured := f\<rparr>) w = (r1, w')"
        by (auto simp: bindE_def split: prod.splits sum.splits)
      then show ?thesis by (rule storeProfile_recalculated [OF ok p c])
    qed
  qed
qed

lemma reindex_recalculated: "shifts recalculated (reindex env c)"
  unfolding reindex_def by (rule recalc.shifts_bestEffort [OF applyThresholds_recalculated])

definition completeness_of :: "env \<Rightarrow> db \<Rightarrow> candidate_profile \<Rightarrow> completeness_weights \<Rightarrow> completeness_result" where
  "completeness_of env d p k = \<lparr>crCompleteness = total (elements d p k),
     isPublishable = jsLe (wThreshold k) (total (elements d p k)), missing = missing_of (elements d p k)\<rparr>"

lemma calculateCompleteness_run:
  assumes "loadWeights env w = (Inr k, w)"
  shows "calculateCompleteness env i w =
    (case List.find (\<lambda>p. cpId p = i) (candidateProfiles (db w)) of
       None \<Rightarrow> (Inl (NotFoundException ''profile''), w)
     | Some p \<Rightarrow>
         (case numeric52 (total (elements (db w) p k)) of
            None \<Rightarrow> (Inl (InternalServerErrorException ''numeric''), w)
          | Some stored \<Rightarrow>
              bindE (saveProfile (p\<lparr>completeness := stored, cpUpdatedAt := now env\<rparr>)) (\<lambda>_.
              bindE (if jsEq (completeness p) (total (elements (db w) p k)) then ret ()
                     else reindex env (cpUserId p)) (\<lambda>_.
              ret (completeness_of env (db w) p k))) w))"
  unfolding calculateCompleteness_def findProfile_def completeness_of_def scoreColumn_def
  using assms by (simp add: bindE_def [of "gets _"] bindE_def [of "someOr _ _"] bindE_assoc someOr_apply
      bindE_def [of "loadWeights env"] split: option.split)

lemma calculateCompleteness_recalculated: "shifts recalculated (calculateCompleteness env i)"
proof (rule shiftsI)
  fix w r w'
  assume run: "calculateCompleteness env i w = (r, w')"
  obtain k where k: "loadWeights env w = (Inr k, w)" using loadWeights_returns by blast
  note run = run [unfolded calculateCompleteness_run [OF k]]
  show "recalculated w w'"
  proof (cases "List.find (\<lambda>p. cpId p = i) (candidateProfiles (db w))")
    case None
    with run show ?thesis by (simp add: recalc.outside)
  next
    case (Some p)
    show ?thesis
    proof (cases "numeric52 (total (elements (db w) p k))")
      case None
      with run Some show ?thesis by (simp add: recalc.outside)
    next
      case st: (Some stored)
      let ?q = "p\<lparr>completeness := stored, cpUpdatedAt := now env\<rparr>"
      have p: "p \<in> set (candidateProfiles (db w))" using find_SomeD [OF Some] by blast
      have first: "recalculated w w1" if "saveProfile ?q w = (r1, w1)" for r1 w1
      proof (rule recalculated_cong)
        show "nextId w \<le> nextId w1" using saveProfile_frame [OF that] by simp
        show "recalculated w w1" if "profiles_ok w"
          by (rule save_content [OF that p _ \<open>saveProfile ?q w = (r1, w1)\<close>]) (simp add: content_def)
      qed
      let ?rest = "\<lambda>_::candidate_profile. bindE (if jsEq (completeness p) (total (elements (db w) p k)) then ret ()
          else reindex env (cpUserId p)) (\<lambda>_. ret (completeness_of env (db w) p k))"
      have "bindE (saveProfile ?q) ?rest w = (r, w')"
        using run Some st by simp
      then show ?thesis
      proof (cases rule: bindE_cases)
        case (throws e s')
        with first show ?thesis by simp
      next
        case (returns x s')
        have "shifts recalculated (?rest x)"
          by (intro recalc.shifts_rules reindex_recalculated)
        from shiftsD [OF this returns(2) [symmetric]] first [OF returns(1)] show ?thesis
          using recalc.chain by blast
      qed
    qed
  qed
qed

lemma recompute_recalculated: "shifts recalculated (recompute env who)"
  unfolding recompute_def findProfileByUserId_def
  by (intro recalc.shifts_rules calculateCompleteness_recalculated)

section \<open>A second calculation\<close>

lemma index_keys_total [simp]: "index_keys (\<lambda>r. Some (f r)) t = map f t"
  by (induction t) auto

lemma profile_unviolated:
  assumes "profiles_ok w" "p \<in> set (candidateProfiles (db w))" "cpId q = cpId p" "cpUserId q = cpUserId p"
  shows "profile_violated (upsert cpId q (candidateProfiles (db w))) = None"
proof -
  have "index_ok (\<lambda>r. Some (cpUserId r)) (candidateProfiles (db w))"
    using assms(1) by (simp add: profiles_ok_def index_ok_def)
  moreover have "index_keys (\<lambda>r. Some (cpUserId r)) (upsert cpId q (candidateProfiles (db w))) =
      index_keys (\<lambda>r. Some (cpUserId r)) (candidateProfiles (db w))"
    by (rule index_keys_upsert_same [OF _ assms(2,3)]) (use assms in \<open>simp_all add: profiles_ok_def\<close>)
  ultimately show ?thesis unfolding profile_violated_def index_ok_def by presburger
qed

lemma saveProfile_returns:
  assumes "profiles_ok w" "p \<in> set (candidateProfiles (db w))" "cpId q = cpId p" "cpUserId q = cpUserId p"
  shows "\<exists>w'. saveProfile q w = (Inr q, w')"
  using profile_unviolated [OF assms] by (simp add: saveProfile_def save_into_Inr)

lemma reindex_returns: "\<exists>w'. reindex env c w = (Inr (), w')"
proof (cases "reindex env c w")
  case (Pair r w')
  then show ?thesis using bestEffort_never_throws [of "applyThresholds env c" w]
    by (cases r) (auto simp: reindex_def)
qed

lemma calculateCompleteness_returns:
  assumes "profiles_ok w" "loadWeights env w = (Inr k, w)"
    "List.find (\<lambda>p. cpId p = i) (candidateProfiles (db w)) = Some p"
    "numeric52 (total (elements (db w) p k)) = Some stored"
  shows "\<exists>w'. calculateCompleteness env i w = (Inr (completeness_of env (db w) p k), w')"
proof -
  have p: "p \<in> set (candidateProfiles (db w))" using find_SomeD [OF assms(3)] by blast
  obtain w1 where "saveProfile (p\<lparr>completeness := stored, cpUpdatedAt := now env\<rparr>) w =
      (Inr (p\<lparr>completeness := stored, cpUpdatedAt := now env\<rparr>), w1)"
    using saveProfile_returns [OF assms(1) p] by (metis candidate_profile.select_convs(1,2)
        candidate_profile.surjective candidate_profile.update_convs(12,23))
  moreover obtain w2 where "reindex env (cpUserId p) w1 = (Inr (), w2)" using reindex_returns by blast
  ultimately show ?thesis
    unfolding calculateCompleteness_run [OF assms(2)] using assms(3,4) by simp
qed

lemma calculateCompleteness_InrD:
  assumes "loadWeights env w = (Inr k, w)" "calculateCompleteness env i w = (Inr r, w')"
  obtains p stored where "List.find (\<lambda>p. cpId p = i) (candidateProfiles (db w)) = Some p"
    "numeric52 (total (elements (db w) p k)) = Some stored" "r = completeness_of env (db w) p k"
proof -
  have run: "(case List.find (\<lambda>p. cpId p = i) (candidateProfiles (db w)) of
       None \<Rightarrow> (Inl (NotFoundException ''profile''), w)
     | Some p \<Rightarrow>
         (case numeric52 (total (elements (db w) p k)) of
            None \<Rightarrow> (Inl (InternalServerErrorException ''numeric''), w)
          | Some stored \<Rightarrow>
              bindE (saveProfile (p\<lparr>completeness := stored, cpUpdatedAt := now env\<rparr>)) (\<lambda>_.
              bindE (if jsEq (completeness p) (total (elements (db w) p k)) then ret ()
                     else reindex env (cpUserId p)) (\<lambda>_.
              ret (completeness_of env (db w) p k))) w)) = (Inr r, w')"
    using assms(2) unfolding calculateCompleteness_run [OF assms(1)] .
  then show thesis
    by (auto simp: returns split: option.splits if_splits intro: that)
qed

lemma find_content:
  assumes "map content ps = map content qs" "List.find (\<lambda>p. cpId p = i) qs = Some q"
  shows "\<exists>p. List.find (\<lambda>p. cpId p = i) ps = Some p \<and> content p = content q"
  using assms
proof (induction ps arbitrary: qs)
  case (Cons p ps)
  then obtain q0 qs0 where qs: "qs = q0 # qs0" "content p = content q0" "map content ps = map content qs0"
    by (cases qs) auto
  then have "cpId p = cpId q0" using content_keys(1) by metis
  with qs Cons.prems Cons.IH show ?case by (auto split: if_splits)
qed simp

lemma elements_content:
  assumes "d' = d\<lparr>candidateProfiles := ps\<rparr>" "content p' = content p"
  shows "elements d' p' k = elements d p k"
proof -
  have "f p' = f p" if "\<And>x. f (content x) = f x" for f :: "candidate_profile \<Rightarrow> 'a"
    using that assms(2) by metis
  from this [of cpId] this [of cpUserId] this [of school] this [of firstName] this [of lastName]
    this [of headline] this [of bio]
  have "cpId p' = cpId p" "cpUserId p' = cpUserId p" "school p' = school p" "firstName p' = firstName p"
    "lastName p' = lastName p" "headline p' = headline p" "bio p' = bio p"
    by (simp_all add: content_keys)
  then show ?thesis by (simp add: elements_def assms(1))
qed

lemma completeness_again:
  assumes "profiles_ok w" "calculateCompleteness env i w = (Inr r, w')"
  shows "\<exists>w''. calculateCompleteness env i w' = (Inr r, w'')"
proof -
  obtain k where k: "loadWeights env w = (Inr k, w)" using loadWeights_returns by blast
  obtain p stored where p: "List.find (\<lambda>p. cpId p = i) (candidateProfiles (db w)) = Some p"
    "numeric52 (total (elements (db w) p k)) = Some stored" "r = completeness_of env (db w) p k"
    using calculateCompleteness_InrD [OF k assms(2)] .
  obtain ps where ps: "profiles_ok w'" "db w' = (db w)\<lparr>candidateProfiles := ps\<rparr>"
    "map content ps = map content (candidateProfiles (db w))"
    using shiftsD [OF calculateCompleteness_recalculated assms(2)] assms(1) by (auto simp: recalculated_def)
  obtain p' where p': "List.find (\<lambda>p. cpId p = i) ps = Some p'" "content p' = content p"
    using find_content [OF ps(3) p(1)] by blast
  have el: "elements (db w') p' k = elements (db w) p k" by (rule elements_content [OF ps(2) p'(2)])
  have "\<exists>w''. calculateCompleteness env i w' = (Inr (completeness_of env (db w') p' k), w'')"
    by (rule calculateCompleteness_returns [OF ps(1)])
      (use loadWeights_settings [OF _ k] ps(2) p' p(2) el in auto)
  with el p(3) show ?thesis by (simp add: completeness_of_def)
qed

end
