(* ===== verification/Edit_Facts.thy ===== *)
theory Edit_Facts
  imports Candidate_Facts
begin

text \<open>
  What the candidate's own requests may do to profiles: the relation \<open>edited\<close>, kept by every
  request and so by every sequence of them.
\<close>

section \<open>What an edit may change\<close>

definition coherent :: "candidate_profile \<Rightarrow> bool" where
  "coherent p \<longleftrightarrow> (case (salaryMin p, salaryMax p) of (Some lo, Some hi) \<Rightarrow> lo \<le> hi | _ \<Rightarrow> True)"

definition has_diploma :: "db \<Rightarrow> uuid \<Rightarrow> bool" where
  "has_diploma d who \<longleftrightarrow> list_ex (\<lambda>x. dcOwnerId x = who \<and> dcType x = DOC_DIPLOMA) (documents d)"

definition guarded :: "db \<Rightarrow> candidate_profile \<Rightarrow> candidate_profile \<Rightarrow> bool" where
  "guarded d p q \<longleftrightarrow> cpId q = cpId p \<and> cpUserId q = cpUserId p \<and>
     moderationStatus q = moderationStatus p \<and> schoolVerified q = schoolVerified p \<and>
     (cpVisibility p = V_HIDDEN \<and> cpVisibility q \<noteq> V_HIDDEN \<longrightarrow> has_diploma d (cpUserId p)) \<and>
     (coherent p \<longrightarrow> coherent q)"

definition blank :: "db \<Rightarrow> candidate_profile \<Rightarrow> bool" where
  "blank d q \<longleftrightarrow> moderationStatus q = M_ACTIVE \<and> \<not> schoolVerified q \<and> coherent q \<and>
     (cpVisibility q \<noteq> V_HIDDEN \<longrightarrow> has_diploma d (cpUserId q))"

definition edited :: "world \<Rightarrow> world \<Rightarrow> bool" where
  "edited w w' \<longleftrightarrow> nextId w \<le> nextId w' \<and> documents (db w') = documents (db w) \<and>
     (profiles_ok w \<longrightarrow> profiles_ok w' \<and>
       (\<forall>p \<in> set (candidateProfiles (db w)). \<exists>q \<in> set (candidateProfiles (db w')). guarded (db w) p q) \<and>
       (\<forall>q \<in> set (candidateProfiles (db w')).
          (\<exists>p \<in> set (candidateProfiles (db w)). guarded (db w) p q) \<or> blank (db w) q))"

lemma guarded_refl: "guarded d p p"
  by (auto simp: guarded_def)

lemma guarded_trans: "guarded d p q \<Longrightarrow> guarded d q r \<Longrightarrow> guarded d p r"
  by (auto simp: guarded_def)

lemma blank_guarded: "blank d p \<Longrightarrow> guarded d p q \<Longrightarrow> blank d q"
  by (auto simp: guarded_def blank_def)

lemma has_diploma_documents: "documents d' = documents d \<Longrightarrow> has_diploma d' u = has_diploma d u"
  by (simp add: has_diploma_def)

lemma guarded_documents: "documents d' = documents d \<Longrightarrow> guarded d' p q = guarded d p q"
  by (simp add: guarded_def has_diploma_documents [of d'])

lemma blank_documents: "documents d' = documents d \<Longrightarrow> blank d' q = blank d q"
  by (simp add: blank_def has_diploma_documents [of d'])

lemma editedD:
  assumes "edited w w'" "profiles_ok w"
  shows "profiles_ok w'"
    "p \<in> set (candidateProfiles (db w)) \<Longrightarrow> \<exists>q \<in> set (candidateProfiles (db w')). guarded (db w) p q"
    "q \<in> set (candidateProfiles (db w')) \<Longrightarrow>
       (\<exists>p \<in> set (candidateProfiles (db w)). guarded (db w) p q) \<or> blank (db w) q"
  using assms unfolding edited_def by blast+

interpretation edit: world_frame edited
proof unfold_locales
  fix w w' :: world
  assume "db w' = db w" "nextId w \<le> nextId w'"
  then show "edited w w'"
    unfolding edited_def profiles_ok_def using guarded_refl by (auto intro: order_less_le_trans)
next
  fix w w' w'' :: world
  assume a: "edited w w'" and b: "edited w' w''"
  have d: "documents (db w') = documents (db w)" using a by (simp add: edited_def)
  have first: "nextId w \<le> nextId w''" "documents (db w'') = documents (db w)"
    using a b by (simp_all add: edited_def)
  show "edited w w''"
  proof (cases "profiles_ok w")
    case False
    with first show ?thesis unfolding edited_def by blast
  next
    case ok: True
    have ok': "profiles_ok w'" by (rule editedD(1) [OF a ok])
    have fwd: "\<exists>r \<in> set (candidateProfiles (db w'')). guarded (db w) p r"
      if p: "p \<in> set (candidateProfiles (db w))" for p
    proof -
      obtain q where q: "q \<in> set (candidateProfiles (db w'))" "guarded (db w) p q"
        using editedD(2) [OF a ok p] by blast
      obtain r where "r \<in> set (candidateProfiles (db w''))" "guarded (db w') q r"
        using editedD(2) [OF b ok' q(1)] by blast
      with q(2) guarded_trans show ?thesis unfolding guarded_documents [OF d] by blast
    qed
    have bwd: "(\<exists>p \<in> set (candidateProfiles (db w)). guarded (db w) p r) \<or> blank (db w) r"
      if r: "r \<in> set (candidateProfiles (db w''))" for r
    proof -
      consider (old) q where "q \<in> set (candidateProfiles (db w'))" "guarded (db w) q r" | (new) "blank (db w) r"
        using editedD(3) [OF b ok' r] unfolding guarded_documents [OF d] blank_documents [OF d] by blast
      then show ?thesis
      proof cases
        case old
        have "(\<exists>p \<in> set (candidateProfiles (db w)). guarded (db w) p q) \<or> blank (db w) q"
          by (rule editedD(3) [OF a ok old(1)])
        then show ?thesis using old(2) guarded_trans blank_guarded by blast
      qed simp
    qed
    show ?thesis unfolding edited_def using first fwd bwd editedD(1) [OF b ok'] by blast
  qed
qed

lemma content_guarded: "content q = content p \<Longrightarrow> guarded d p q"
proof -
  assume c: "content q = content p"
  have "f q = f p" if "\<And>x. f (content x) = f x" for f :: "candidate_profile \<Rightarrow> 'a"
    using that c by metis
  from this [of cpId] this [of cpUserId] this [of moderationStatus] this [of schoolVerified]
    this [of cpVisibility] this [of salaryMin] this [of salaryMax]
  show ?thesis by (simp add: content_keys guarded_def coherent_def)
qed

lemma recalculated_edited: "recalculated w w' \<Longrightarrow> documents (db w') = documents (db w) \<Longrightarrow> edited w w'"
proof -
  assume a: "recalculated w w'" and d: "documents (db w') = documents (db w)"
  show ?thesis
  proof (cases "profiles_ok w")
    case False
    with a d show ?thesis by (simp add: edited_def recalculated_def)
  next
    case True
    then obtain ps where ps: "db w' = (db w)\<lparr>candidateProfiles := ps\<rparr>" "profiles_ok w'"
      "map content ps = map content (candidateProfiles (db w))" "nextId w \<le> nextId w'"
      using a by (auto simp: recalculated_def)
    have len: "length ps = length (candidateProfiles (db w))" using map_eq_imp_length_eq [OF ps(3)] .
    have nth: "content (ps ! i) = content (candidateProfiles (db w) ! i)" if "i < length ps" for i
      using ps(3) that len by (metis nth_map)
    have fwd: "\<exists>q \<in> set ps. guarded (db w) p q" if "p \<in> set (candidateProfiles (db w))" for p
      using that len nth content_guarded by (metis in_set_conv_nth)
    have bwd: "\<exists>p \<in> set (candidateProfiles (db w)). guarded (db w) p q" if "q \<in> set ps" for q
      using that len nth content_guarded by (metis in_set_conv_nth)
    show ?thesis using ps fwd bwd by (simp add: edited_def)
  qed
qed

section \<open>The requests\<close>

lemma documents_saveProfile: "saveProfile q w = (r, w') \<Longrightarrow> documents (db w') = documents (db w)"
  by (auto simp: saveProfile_def save_into_def checked_save_def split: option.splits)

interpretation files: db_frame "\<lambda>d d'. documents d' = documents d"
  by unfold_locales simp_all

lemma documents_applyThresholds: "moves (\<lambda>d d'. documents d' = documents d) (applyThresholds env c)"
  unfolding applyThresholds_def storeProfile_def
  by (intro files.moves_rules files.moves_outside [OF outside_numberOr] movesI)
    (simp add: documents_saveProfile)

lemma documents_calculateCompleteness:
  "moves (\<lambda>d d'. documents d' = documents d) (calculateCompleteness env i)"
  unfolding calculateCompleteness_def findProfile_def reindex_def scoreColumn_def
  by (intro files.moves_rules files.moves_outside [OF outside_loadWeights] documents_applyThresholds movesI)
    (simp add: documents_saveProfile)

lemma calculateCompleteness_edited: "shifts edited (calculateCompleteness env i)"
  by (rule shiftsI, rule recalculated_edited [OF shiftsD [OF calculateCompleteness_recalculated]], assumption)
    (rule movesD [OF documents_calculateCompleteness])

lemma upsert_guarded:
  assumes "profiles_ok w" "p \<in> set (candidateProfiles (db w))" "guarded (db w) p q"
    "saveProfile q w = (r, w')"
  shows "edited w w'"
proof (cases r)
  case (Inl e)
  with assms(4) have "w' = w" by (simp add: saveProfile_def save_into_Inl)
  then show ?thesis by (simp add: edit.outside)
next
  case (Inr x)
  let ?ps = "candidateProfiles (db w)"
  from Inr assms(4) have w': "db w' = (db w)\<lparr>candidateProfiles := upsert cpId q ?ps\<rparr>" "nextId w' = nextId w"
    by (auto simp: saveProfile_def save_into_Inr)
  have key: "cpId q = cpId p" "cpUserId q = cpUserId p" using assms(3) by (simp_all add: guarded_def)
  have only: "x = p" if "x \<in> set ?ps" "cpId x = cpId p" for x
    using that assms(1,2) by (auto simp: profiles_ok_def distinct_map inj_on_def)
  have set: "set (upsert cpId q ?ps) = insert q (set ?ps - {p})"
    using only by (auto simp: set_upsert key)
  have ids: "map cpId (upsert cpId q ?ps) = map cpId ?ps"
    using assms(2) key by (auto simp: map_pk_upsert)
  have us: "map cpUserId (upsert cpId q ?ps) = map cpUserId ?ps"
    using assms(2) key only by (auto simp: upsert_def update_where_def)
  have "profiles_ok w'"
    using assms(1,2) key set ids us by (simp add: profiles_ok_def w')
  moreover have "\<exists>y \<in> set (upsert cpId q ?ps). guarded (db w) x y" if "x \<in> set ?ps" for x
    using that assms(3) guarded_refl unfolding set by blast
  moreover have "\<exists>x \<in> set ?ps. guarded (db w) x y" if "y \<in> set (upsert cpId q ?ps)" for y
    using that assms(2,3) guarded_refl unfolding set by blast
  ultimately show ?thesis by (simp add: edited_def w')
qed

lemma createProfile_edited:
  assumes "createProfile env who w = (r, w')"
    "List.find (\<lambda>p. cpUserId p = who) (candidateProfiles (db w)) = None"
  shows "edited w w'"
proof -
  let ?ps = "candidateProfiles (db w)" let ?q = "new_profile env (nextId w) who"
  have run: "saveProfile ?q (w\<lparr>nextId := Suc (nextId w)\<rparr>) = (r, w')"
    using assms(1) by (simp add: createProfile_def bindE_def freshId_def)
  have docs: "documents (db w') = documents (db w)" using documents_saveProfile [OF run] by simp
  have nx: "nextId w' = Suc (nextId w)" using saveProfile_frame [OF run] by simp
  show ?thesis
  proof (cases "profiles_ok w \<and> (\<exists>x. r = Inr x)")
    case False
    then show ?thesis
    proof (cases r)
      case (Inl e)
      with run have "w' = w\<lparr>nextId := Suc (nextId w)\<rparr>" by (simp add: saveProfile_def save_into_Inl)
      then show ?thesis by (intro edit.outside) simp_all
    next
      case (Inr x)
      with False have "\<not> profiles_ok w" by simp
      then show ?thesis using docs nx by (simp add: edited_def)
    qed
  next
    case True
    then have ok: "profiles_ok w" by blast
    have new: "cpId ?q \<notin> cpId ` set ?ps" using ok by (auto simp: profiles_ok_def new_profile_def)
    then have ps: "candidateProfiles (db w') = ?ps @ [?q]"
      using run True by (auto simp: saveProfile_def save_into_Inr upsert_new)
    have "who \<notin> cpUserId ` set ?ps" using assms(2) by (auto simp: find_None_iff)
    then have "profiles_ok w'"
      using ok new by (auto simp: profiles_ok_def ps nx new_profile_def)
    moreover have "blank (db w) ?q" by (simp add: blank_def new_profile_def coherent_def)
    ultimately show ?thesis using docs nx guarded_refl by (auto simp: edited_def ps)
  qed
qed

lemma findOrCreateProfile_edited: "shifts edited (findOrCreateProfile env who)"
proof (rule shiftsI)
  fix w r w'
  assume run: "findOrCreateProfile env who w = (r, w')"
  show "edited w w'"
  proof (cases "List.find (\<lambda>p. cpUserId p = who) (candidateProfiles (db w))")
    case None
    with run have "createProfile env who w = (r, w')"
      by (simp add: findOrCreateProfile_def findProfileByUserId_def bindE_def)
    then show ?thesis by (rule createProfile_edited [OF _ None])
  next
    case (Some p)
    with run show ?thesis
      by (simp add: findOrCreateProfile_def findProfileByUserId_def bindE_def edit.outside)
  qed
qed

lemma assignProfile_Inr:
  assumes "assignProfile u p w = (Inr q, w')"
  shows "w' = w" "cpId q = cpId p" "cpUserId q = cpUserId p" "moderationStatus q = moderationStatus p"
    "schoolVerified q = schoolVerified p" "salaryMin q = assigned (upSalaryMin u) (salaryMin p)"
    "salaryMax q = assigned (upSalaryMax u) (salaryMax p)"
    "assigned (upVisibility u) (Some (cpVisibility p)) = Some (cpVisibility q)"
    "school q = assigned (upSchool u) (school p)"
  using assms by (auto simp: assignProfile_def returns required_def)

lemma coherent_edit:
  assumes "\<not> salary_incoherent u p" "salaryMin q = assigned (upSalaryMin u) (salaryMin p)"
    "salaryMax q = assigned (upSalaryMax u) (salaryMax p)"
  shows "coherent q"
  using assms by (auto simp: coherent_def salary_incoherent_def effective_def assigned_def split: option.splits)

lemma checkVisibility_Inr:
  "checkVisibility u p w = (Inr x, w') \<Longrightarrow> w' = w \<and>
     (upVisibility u = None \<or> upVisibility u = Some (Some V_HIDDEN) \<or>
      indexedInCvtheque p \<and> has_diploma (db w) (cpUserId p))"
  by (auto simp: checkVisibility_def has_diploma_def returns split: if_splits)

lemma coherent_touched [simp]: "coherent (q\<lparr>cpUpdatedAt := t\<rparr>) = coherent q"
  by (simp add: coherent_def)

lemma storeProfile_guarded:
  assumes "p \<in> set (candidateProfiles (db w))" "guarded (db w) p q" "storeProfile env q w = (r, w')"
  shows "edited w w'"
proof -
  let ?q = "if List.find (\<lambda>x. cpId x = cpId q) (candidateProfiles (db w)) = Some q then q
    else q\<lparr>cpUpdatedAt := now env\<rparr>"
  have save: "saveProfile ?q w = (r, w')"
    using assms(3) by (simp add: storeProfile_def bindE_def)
  have q: "guarded (db w) p ?q" using assms(2) by (simp add: guarded_def)
  have "edited w w'" if "profiles_ok w" by (rule upsert_guarded [OF that assms(1) q save])
  then show ?thesis using documents_saveProfile [OF save] saveProfile_frame [OF save]
    unfolding edited_def by auto
qed

text \<open>A successful edit, up to the row it writes.\<close>

lemma updateProfile_stores:
  assumes "List.find (\<lambda>p. cpId p = i) (candidateProfiles (db w)) = Some p"
    "\<not> salary_incoherent u p" "checkVisibility u p w = (Inr x, w)" "assignProfile u p w = (Inr q, w)"
  shows "updateProfile env i u w =
    bindE (storeProfile env q) (\<lambda>saved. bindE (calculateCompleteness env i) (\<lambda>_. ret saved)) w"
  using assms by (simp add: updateProfile_def findProfile_def bindE_def [of "gets _"] bindE_def [of "someOr _ _"]
      bindE_assoc someOr_apply require_def bindE_def [of "checkVisibility _ _"] bindE_def [of "assignProfile _ _"])

lemma guarded_edit:
  assumes "\<not> salary_incoherent u p" "checkVisibility u p w = (Inr x, w)" "assignProfile u p w = (Inr q, w)"
  shows "guarded (db w) p q"
proof -
  note q = assignProfile_Inr [OF assms(3)]
  have "coherent q" by (rule coherent_edit [OF assms(1) q(6,7)])
  moreover have "has_diploma (db w) (cpUserId p)" if "cpVisibility p = V_HIDDEN" "cpVisibility q \<noteq> V_HIDDEN"
    using checkVisibility_Inr [OF assms(2)] q(8) that by (auto simp: assigned_def)
  ultimately show ?thesis using q by (simp add: guarded_def)
qed

lemma outside_assignProfile [keeping]: "outside_db (assignProfile u p)"
  unfolding assignProfile_def required_def by (intro keeping)

lemma outside_checkVisibility [keeping]: "outside_db (checkVisibility u p)"
  unfolding checkVisibility_def by (intro keeping)

lemma updateProfile_edited: "shifts edited (updateProfile env i u)"
proof (rule shiftsI)
  fix w r w'
  assume run: "updateProfile env i u w = (r, w')"
  show "edited w w'"
  proof (cases "List.find (\<lambda>p. cpId p = i) (candidateProfiles (db w))")
    case None
    with run show ?thesis
      by (simp add: updateProfile_def findProfile_def bindE_def someOr_apply edit.outside)
  next
    case (Some p)
    have p: "p \<in> set (candidateProfiles (db w))" using find_SomeD [OF Some] by blast
    let ?rest = "bindE (checkVisibility u p) (\<lambda>_. bindE (assignProfile u p) (\<lambda>q.
       bindE (storeProfile env q) (\<lambda>saved. bindE (calculateCompleteness env i) (\<lambda>_. ret saved))))"
    show ?thesis
    proof (cases "salary_incoherent u p")
      case True
      with run Some show ?thesis
        by (simp add: updateProfile_def findProfile_def bindE_def someOr_apply require_def edit.outside)
    next
      case False
      have "?rest w = (r, w')"
        using run Some False by (simp add: updateProfile_def findProfile_def bindE_def [of "gets _"]
            bindE_def [of "someOr _ _"] bindE_assoc someOr_apply require_def)
      then show ?thesis
      proof (cases rule: bindE_cases)
        case (throws e s')
        with outside_dbD [OF outside_checkVisibility throws(1)] show ?thesis by (simp add: edit.outside)
      next
        case (returns x s')
        have s': "s' = w" using checkVisibility_Inr [OF returns(1)] by blast
        from returns(2) [symmetric] show ?thesis
        proof (cases rule: bindE_cases)
          case (throws e s'')
          with outside_dbD [OF outside_assignProfile throws(1)] s' show ?thesis by (simp add: edit.outside)
        next
          case (returns q s'')
          have s'': "s'' = w" using assignProfile_Inr(1) [OF returns(1)] s' by simp
          have g: "guarded (db w) p q"
            by (rule guarded_edit [OF False]) (use \<open>checkVisibility u p w = (Inr x, s')\<close> returns(1) s' s'' in simp_all)
          from returns(2) [symmetric] show ?thesis
          proof (cases rule: bindE_cases)
            case (throws e t)
            with storeProfile_guarded [OF p g] s'' show ?thesis by simp
          next
            case (returns saved t)
            have "shifts edited (bindE (calculateCompleteness env i) (\<lambda>_. ret saved))"
              by (intro edit.shifts_rules calculateCompleteness_edited)
            from shiftsD [OF this returns(2) [symmetric]] storeProfile_guarded [OF p g] returns(1) s''
            show ?thesis using edit.chain by blast
          qed
        qed
      qed
    qed
  qed
qed

section \<open>Sequences of requests\<close>

lemma edited_aside:
  assumes "documents (db w') = documents (db w)" "candidateProfiles (db w') = candidateProfiles (db w)"
    "nextId w \<le> nextId w'"
  shows "edited w w'"
  using assms guarded_refl by (fastforce simp: edited_def profiles_ok_def)

lemma items_edited:
  "shifts edited (saveExperience e)" "shifts edited (saveLink l)" "shifts edited (saveProfileSkill s)"
  by (rule shiftsI, rule edited_aside; force simp: save_into_def checked_save_def saveExperience_def
      saveLink_def saveProfileSkill_def split: option.splits)+

lemma deletions_edited:
  "shifts edited (deleteOwned experiences experiences_update pe oe i j)"
  "shifts edited (deleteOwned profileLinks profileLinks_update pl ol i j)"
  "shifts edited (deleteOwned profileSkills profileSkills_update ps os i j)"
  by (rule shiftsI, rule edited_aside; force simp: deleteOwned_def bindE_def require_def split: if_splits)+

datatype profile_request =
  ReadMine | ReadCompleteness | EditMine profile_update
| AddSkill uuid "string option" | DropSkill uuid
| AddLink link_type string "string option" | DropLink uuid
| AddExperience experience_type string string string "string option" "string option"
| EditExperience uuid experience_input | DropExperience uuid

text \<open>A request of a candidate, in the deployment as it is at that moment.\<close>

fun profileRequest :: "env \<times> uuid \<times> profile_request \<Rightarrow> unit service" where
  "profileRequest (env, who, ReadMine) = bindE (getMyProfile env who) (\<lambda>_. ret ())"
| "profileRequest (env, who, ReadCompleteness) = bindE (getCompleteness env who) (\<lambda>_. ret ())"
| "profileRequest (env, who, EditMine u) = bindE (updateMyProfile env who u) (\<lambda>_. ret ())"
| "profileRequest (env, who, AddSkill s l) = bindE (addSkill env who s l) (\<lambda>_. ret ())"
| "profileRequest (env, who, DropSkill i) = removeSkill env who i"
| "profileRequest (env, who, AddLink t u l) = bindE (createLink env who t u l) (\<lambda>_. ret ())"
| "profileRequest (env, who, DropLink i) = removeLink env who i"
| "profileRequest (env, who, AddExperience t a b c d e) =
     bindE (createExperience env who t a b c d e) (\<lambda>_. ret ())"
| "profileRequest (env, who, EditExperience i u) = bindE (updateExperience env who i u) (\<lambda>_. ret ())"
| "profileRequest (env, who, DropExperience i) = removeExperience env who i"

lemma profileRequest_edited: "shifts edited (profileRequest q)"
proof -
  have skill: "shifts edited (insertProfileSkill s)" for s
    unfolding insertProfileSkill_def
    by (intro edit.shifts_tryCatch items_edited) (auto split: err.split intro: edit.shifts_basic)
  note rules = edit.shifts_rules findOrCreateProfile_edited calculateCompleteness_edited updateProfile_edited
    items_edited deletions_edited skill
  show ?thesis
    by (cases q rule: profileRequest.cases)
      (simp_all only: profileRequest.simps getMyProfile_def getCompleteness_def updateMyProfile_def addSkill_def
        removeSkill_def createLink_def removeLink_def createExperience_def updateExperience_def
        removeExperience_def findProfileByUserId_def findOwned_def required_def, (intro rules)+)
qed

end
