(* ===== verification/Erasure_Facts.thy ===== *)
theory Erasure_Facts
  imports Edit_Facts
begin

text \<open>
  What an erasure leaves in the database, and the life of the requests of data subjects.
\<close>

section \<open>Erasure\<close>

definition owned :: "uuid \<Rightarrow> db \<Rightarrow> document list" where
  "owned who d = filter (\<lambda>x. dcOwnerId x = who) (documents d)"

definition unfiled :: "uuid \<Rightarrow> db \<Rightarrow> db" where
  "unfiled who d = d\<lparr>documents := delete_where (\<lambda>x. dcId x \<in> dcId ` set (owned who d)) (documents d),
     schoolVerifications := delete_where (\<lambda>v. svDocumentId v \<in>
       dcId ` {x \<in> set (documents d). dcId x \<in> dcId ` set (owned who d)}) (schoolVerifications d)\<rparr>"

definition unprofiled :: "uuid \<Rightarrow> db \<Rightarrow> db" where
  "unprofiled who d = (case List.find (\<lambda>p. cpUserId p = who) (candidateProfiles d) of
     None \<Rightarrow> d
   | Some p \<Rightarrow> without_file (cpId p)
       (without_conversations (convId ` {c \<in> set (conversations d). convCandidateId c = cpId p}) d))"

lemma unfiled_none: "owned who d = [] \<Longrightarrow> unfiled who d = d"
  by (simp add: unfiled_def delete_where_def)

lemma forEach_bestEffort_db:
  "forEach xs (\<lambda>x. bestEffort (deleteObject env (f x))) w = (r, w') \<Longrightarrow> r = Inr () \<and> db w' = db w"
proof -
  assume run: "forEach xs (\<lambda>x. bestEffort (deleteObject env (f x))) w = (r, w')"
  have "outside_db (forEach xs (\<lambda>x. bestEffort (deleteObject env (f x))))"
    by (intro keeping)
  then have "db w' = db w" using outside_dbD run by blast
  moreover have "r = Inr ()"
    using run
  proof (induction xs arbitrary: w)
    case (Cons x xs)
    obtain w1 where "bestEffort (deleteObject env (f x)) w = (Inr (), w1)"
      by (cases "bestEffort (deleteObject env (f x)) w", cases "fst (bestEffort (deleteObject env (f x)) w)")
        (auto simp: bestEffort_never_throws)
    with Cons show ?case by simp
  qed simp
  ultimately show ?thesis by blast
qed

lemma deleteData_Inr:
  assumes "deleteData cr env who w = (Inr x, w')"
  obtains u t where "List.find (\<lambda>u. userId u = who) (users (db w)) = Some u"
    "db w' = (unprofiled who (unfiled who (db w)))\<lparr>users := upsert userId (anonymised t u) (users (db w))\<rparr>"
proof -
  obtain u w1 w2 where u: "List.find (\<lambda>u. userId u = who) (users (db w)) = Some u"
    and run: "forEach (owned who (db w)) (\<lambda>x. bestEffort (deleteObject env (storageKey x))) w = (Inr (), w1)"
    and rest: "bindE (if owned who (db w) = [] then ret () else removeDocuments (\<lambda>x. dcId x \<in> dcId ` set (owned who (db w)))) (\<lambda>_.
     bindE (findProfileByUserId who) (\<lambda>p.
     bindE (case p of None \<Rightarrow> ret () | Some x \<Rightarrow> removeProfile (cpId x)) (\<lambda>_.
     bindE freshId (\<lambda>draw.
     bindE (saveUser (anonymised (uuidv4 cr draw) u)) (\<lambda>_.
     auditLog env \<lparr>actorId = Some who, auAction = USER_DELETED, entityType = ''User'',
       entityId = who\<rparr>))))) w1 = (Inr x, w')"
    using assms unfolding deleteData_def owned_def
    by (auto elim!: bindE_InrE dest: forEach_bestEffort_db)
  have d1: "db w1 = db w" using forEach_bestEffort_db [OF run] by blast
  obtain w2 where x2: "(if owned who (db w) = [] then ret () else removeDocuments (\<lambda>x. dcId x \<in> dcId ` set (owned who (db w)))) w1
      = (Inr (), w2)" and d2: "db w2 = unfiled who (db w)"
    by (cases "owned who (db w) = []") (simp_all add: unfiled_none d1, simp add: removeDocuments_def d1 unfiled_def)
  obtain w3 where x3: "(case List.find (\<lambda>p. cpUserId p = who) (candidateProfiles (db w2)) of None \<Rightarrow> ret ()
       | Some x \<Rightarrow> removeProfile (cpId x)) w2 = (Inr (), w3)" and d3: "db w3 = unprofiled who (unfiled who (db w))"
    by (cases "List.find (\<lambda>p. cpUserId p = who) (candidateProfiles (db w2))")
      (simp_all add: unprofiled_def removeProfile_def flip: d2)
  have "bindE freshId (\<lambda>draw.
     bindE (saveUser (anonymised (uuidv4 cr draw) u)) (\<lambda>_.
     auditLog env \<lparr>actorId = Some who, auAction = USER_DELETED, entityType = ''User'',
       entityId = who\<rparr>)) w3 = (Inr x, w')"
    using rest unfolding bindE_def [where m = "if owned who (db w) = [] then _ else _"] x2 findProfileByUserId_def
    by (simp add: bindE_def [of "gets _"] bindE_def [where m = "case _ of None \<Rightarrow> _ | Some x \<Rightarrow> _ x"] x3)
  then have d': "db w' = (db w3)\<lparr>users := upsert userId (anonymised (uuidv4 cr (nextId w3)) u) (users (db w3))\<rparr>"
    by (auto simp: saveUser_def save_into_Inr auditLog_Inr elim!: bindE_InrE)
  have "users (db w3) = users (db w)"
    by (simp add: d3 unprofiled_def unfiled_def without_file_def without_conversations_def split: option.split)
  with that [OF u] d' d3 show thesis by simp
qed

section \<open>What an erasure may touch\<close>

definition erasing :: "db \<Rightarrow> db \<Rightarrow> bool" where
  "erasing d d' \<longleftrightarrow> dataRequests d' = dataRequests d \<and> set (documents d') \<subseteq> set (documents d) \<and>
     set (candidateProfiles d') \<subseteq> set (candidateProfiles d) \<and>
     (distinct (map cpUserId (candidateProfiles d)) \<longrightarrow> distinct (map cpUserId (candidateProfiles d'))) \<and>
     (\<forall>u \<in> set (users d'). u \<in> set (users d) \<or> userStatus u = U_DELETED)"

interpretation erase: db_frame erasing
  by unfold_locales (auto simp: erasing_def)

lemma deleteData_erasing: "moves erasing (deleteData cr env who)"
proof -
  have docs: "moves erasing (removeDocuments P)" for P
    by (rule movesI) (auto simp: removeDocuments_def erasing_def)
  have prof: "moves erasing (removeProfile p)" for p
    by (rule movesI) (auto simp: removeProfile_def erasing_def without_file_def without_conversations_def
        delete_where_def distinct_map_filter)
  have user: "moves erasing (saveUser (anonymised t u))" for t u
    by (rule movesI) (auto simp: saveUser_def save_into_def checked_save_def erasing_def set_upsert
        anonymised_def split: option.splits)
  show ?thesis
    unfolding deleteData_def findProfileByUserId_def
    by (intro erase.moves_rules docs prof user erase.moves_outside [OF outside_deleteObject])
qed

lemma erased:
  assumes "deleteData cr env who w = (Inr x, w')" "distinct (map cpUserId (candidateProfiles (db w)))"
  shows "\<forall>y \<in> set (documents (db w')). dcOwnerId y \<noteq> who"
    "\<forall>p \<in> set (candidateProfiles (db w')). cpUserId p \<noteq> who"
    "\<forall>u \<in> set (users (db w')). userId u = who \<longrightarrow> userStatus u = U_DELETED"
proof -
  obtain u t where u: "List.find (\<lambda>u. userId u = who) (users (db w)) = Some u"
    and d: "db w' = (unprofiled who (unfiled who (db w)))\<lparr>users := upsert userId (anonymised t u) (users (db w))\<rparr>"
    using deleteData_Inr [OF assms(1)] .
  have "userId u = who" using find_SomeD [OF u] by blast
  then show "\<forall>u \<in> set (users (db w')). userId u = who \<longrightarrow> userStatus u = U_DELETED"
    by (auto simp: d set_upsert anonymised_def)
  show "\<forall>y \<in> set (documents (db w')). dcOwnerId y \<noteq> who"
    by (auto simp: d unprofiled_def unfiled_def owned_def without_file_def without_conversations_def
        split: option.splits)
  have ps: "candidateProfiles (unfiled who (db w)) = candidateProfiles (db w)" by (simp add: unfiled_def)
  show "\<forall>p \<in> set (candidateProfiles (db w')). cpUserId p \<noteq> who"
  proof (cases "List.find (\<lambda>p. cpUserId p = who) (candidateProfiles (db w))")
    case None
    have "candidateProfiles (db w') = candidateProfiles (db w)" by (simp add: d unprofiled_def ps None)
    with None show ?thesis by (simp add: find_None_iff)
  next
    case (Some p)
    then have "x = p" if "x \<in> set (candidateProfiles (db w))" "cpUserId x = who" for x
      using that assms(2) find_SomeD [OF Some] by (auto simp: distinct_map inj_on_def)
    then show ?thesis
      by (auto simp: d unprofiled_def ps Some without_file_def without_conversations_def)
  qed
qed

section \<open>Requests of data subjects\<close>

definition is_open :: "data_request \<Rightarrow> bool" where
  "is_open r \<longleftrightarrow> drStatus r \<in> set OPEN_STATUSES"

definition open_key :: "data_request \<Rightarrow> (uuid \<times> data_request_type) option" where
  "open_key r = (if is_open r then Some (drUserId r, drType r) else None)"

definition carried_out :: "db \<Rightarrow> data_request \<Rightarrow> bool" where
  "carried_out d r \<longleftrightarrow> (drType r = ERASURE \<and> drStatus r = DR_COMPLETED \<longrightarrow>
     (\<forall>y \<in> set (documents d). dcOwnerId y \<noteq> drUserId r) \<and>
     (\<forall>p \<in> set (candidateProfiles d). cpUserId p \<noteq> drUserId r) \<and>
     (\<forall>u \<in> set (users d). userId u = drUserId r \<longrightarrow> userStatus u = U_DELETED))"

definition requests_ok :: "world \<Rightarrow> bool" where
  "requests_ok w \<longleftrightarrow> distinct (map drId (dataRequests (db w))) \<and>
     (\<forall>r \<in> set (dataRequests (db w)). drId r < nextId w) \<and> index_ok open_key (dataRequests (db w)) \<and>
     distinct (map cpUserId (candidateProfiles (db w))) \<and>
     (\<forall>r \<in> set (dataRequests (db w)). carried_out (db w) r)"

definition follows :: "data_request \<Rightarrow> data_request \<Rightarrow> bool" where
  "follows r r' \<longleftrightarrow> drId r' = drId r \<and> drUserId r' = drUserId r \<and> drType r' = drType r \<and>
     drMessage r' = drMessage r \<and> dueAt r' = dueAt r \<and> drCreatedAt r' = drCreatedAt r \<and>
     (\<not> is_open r \<longrightarrow> r' = r)"

definition answering :: "world \<Rightarrow> world \<Rightarrow> bool" where
  "answering w w' \<longleftrightarrow> nextId w \<le> nextId w' \<and> (requests_ok w \<longrightarrow> requests_ok w' \<and>
     (\<forall>r \<in> set (dataRequests (db w)). \<exists>r' \<in> set (dataRequests (db w')). follows r r'))"

lemma follows_refl: "follows r r" and follows_trans: "follows r s \<Longrightarrow> follows s t \<Longrightarrow> follows r t"
  by (auto simp: follows_def)

interpretation answer: world_frame answering
proof unfold_locales
  fix w w' :: world
  assume "db w' = db w" "nextId w \<le> nextId w'"
  then show "answering w w'"
    unfolding answering_def requests_ok_def using follows_refl by (auto intro: order_less_le_trans)
next
  fix w w' w'' :: world
  assume a: "answering w w'" "answering w' w''"
  have n: "nextId w \<le> nextId w''" using a by (simp add: answering_def)
  have "requests_ok w''" "\<exists>t \<in> set (dataRequests (db w'')). follows r t"
    if ok: "requests_ok w" and r: "r \<in> set (dataRequests (db w))" for r
    using a ok r follows_trans unfolding answering_def by metis+
  moreover have "requests_ok w''" if "requests_ok w" using a that unfolding answering_def by blast
  ultimately show "answering w w''" using n unfolding answering_def by blast
qed

lemma requests_ok_erasing:
  assumes "requests_ok w" "erasing (db w) (db w')" "nextId w \<le> nextId w'"
  shows "requests_ok w'"
proof -
  have c: "carried_out (db w') r" if "carried_out (db w) r" for r
    using that assms(2) unfolding carried_out_def erasing_def by blast
  show ?thesis
    using assms c unfolding requests_ok_def erasing_def by (auto intro: order_less_le_trans)
qed

lemma index_ok_map:
  assumes "index_ok ix t" "\<And>y. y \<in> set t \<Longrightarrow> ix (f y) = ix y \<or> ix (f y) = None"
  shows "index_ok ix (map f t)"
  using assms
proof (induction t)
  case (Cons a t)
  have "index_ok ix (map f t)"
    using Cons by (auto simp: index_ok_def split: option.splits)
  moreover have "set (index_keys ix (map f t)) \<subseteq> set (index_keys ix t)"
    using Cons.prems(2) by (force simp: set_index_keys)
  ultimately show ?case
    using Cons.prems(1) Cons.prems(2) [of a] by (auto simp: index_ok_def split: option.splits)
qed simp

datatype data_op = Ask data_request_type "string option" | Decide uuid data_request_status "string option"

text \<open>A candidate asks, or a member of the staff decides.\<close>

fun dataOp :: "crypto \<times> env \<times> uuid \<times> data_op \<Rightarrow> unit service" where
  "dataOp (cr, env, who, Ask ty m) = bindE (createDataRequest env who ty m) (\<lambda>_. ret ())"
| "dataOp (cr, env, who, Decide i st m) = bindE (updateDataRequest cr env i who st m) (\<lambda>_. ret ())"

lemma saveDataRequest_Inr:
  "saveDataRequest r w = (Inr x, w') \<longleftrightarrow> x = r \<and>
     w' = w\<lparr>db := (db w)\<lparr>dataRequests := upsert drId r (dataRequests (db w))\<rparr>\<rparr>"
  by (auto simp: saveDataRequest_def save_into_Inr unconstrained_def)

lemma saveDataRequest_returns:
  "saveDataRequest r w = (Inr r, w\<lparr>db := (db w)\<lparr>dataRequests := upsert drId r (dataRequests (db w))\<rparr>\<rparr>)"
  using saveDataRequest_Inr by blast

lemma carried_out_requests: "carried_out (d\<lparr>dataRequests := x\<rparr>) r = carried_out d r"
  by (simp add: carried_out_def)

lemma open_request_added:
  assumes "requests_ok w" "drId r = nextId w" "drStatus r = DR_PENDING"
    "List.find (\<lambda>x. drUserId x = drUserId r \<and> drType x = drType r \<and> drStatus x \<in> set OPEN_STATUSES)
       (dataRequests (db w)) = None"
  shows "answering w (w\<lparr>nextId := Suc (nextId w),
    db := (db w)\<lparr>dataRequests := upsert drId r (dataRequests (db w))\<rparr>\<rparr>)"
proof -
  let ?t = "dataRequests (db w)"
  have new: "drId r \<notin> drId ` set ?t" using assms(1,2) by (auto simp: requests_ok_def)
  then have up: "upsert drId r ?t = ?t @ [r]" by (rule upsert_new)
  have "open_key r = Some (drUserId r, drType r)"
    using assms(3) by (simp add: open_key_def is_open_def OPEN_STATUSES_def)
  moreover have "open_key x \<noteq> Some (drUserId r, drType r)" if "x \<in> set ?t" for x
    using assms(4) that by (auto simp: find_None_iff open_key_def is_open_def)
  ultimately have "index_ok open_key (?t @ [r])"
    using assms(1) by (auto simp: requests_ok_def index_ok_def set_index_keys)
  moreover have "carried_out (db w) r" using assms(3) by (simp add: carried_out_def)
  moreover have "\<exists>y \<in> set (?t @ [r]). follows x y" if "x \<in> set ?t" for x
    using that follows_refl by (intro bexI [of _ x]) simp_all
  ultimately show ?thesis
    using assms(1,2) new
    by (auto simp: answering_def requests_ok_def up carried_out_requests less_Suc_eq)
qed

lemma request_decided:
  assumes "requests_ok w" "r \<in> set (dataRequests (db w))" "is_open r" "follows r r'" "carried_out (db w) r'"
  shows "answering w (w\<lparr>db := (db w)\<lparr>dataRequests := upsert drId r' (dataRequests (db w))\<rparr>\<rparr>)"
proof -
  let ?t = "dataRequests (db w)"
  have id: "drId r' = drId r" using assms(4) by (simp add: follows_def)
  have only: "x = r" if "x \<in> set ?t" "drId x = drId r" for x
    using that assms(1,2) by (auto simp: requests_ok_def distinct_map inj_on_def)
  have up: "upsert drId r' ?t = map (\<lambda>y. if drId y = drId r' then r' else y) ?t"
    using assms(2) by (auto simp: upsert_def update_where_def id)
  have set: "set (upsert drId r' ?t) = insert r' (set ?t - {r})" using only by (auto simp: set_upsert id)
  have "index_ok open_key (upsert drId r' ?t)"
    unfolding up
  proof (rule index_ok_map)
    show "index_ok open_key ?t" using assms(1) by (simp add: requests_ok_def)
    show "open_key (if drId y = drId r' then r' else y) = open_key y \<or>
        open_key (if drId y = drId r' then r' else y) = None" if "y \<in> set ?t" for y
      using only [OF that] assms(3,4) id by (auto simp: open_key_def follows_def)
  qed
  moreover have "distinct (map drId (upsert drId r' ?t))"
    using assms(1) by (simp add: requests_ok_def distinct_upsert)
  moreover have "\<forall>x \<in> set (upsert drId r' ?t). drId x < nextId w \<and> carried_out (db w) x"
    using assms(1,2,5) id unfolding set by (auto simp: requests_ok_def)
  moreover have "\<exists>y \<in> set (upsert drId r' ?t). follows x y" if "x \<in> set ?t" for x
    unfolding set using assms(4) that follows_refl by blast
  ultimately show ?thesis
    using assms(1) by (auto simp: answering_def requests_ok_def carried_out_requests)
qed

lemma audit_then_ret:
  assumes "bindE (auditLog env e) (\<lambda>_. ret x) w = (r, w')"
  shows "db w' = db w" "nextId w \<le> nextId w'"
  using outside_dbD [where m = "bindE (auditLog env e) (\<lambda>_. ret x)",
      OF outside_bindE [OF outside_auditLog outside_ret] assms] by simp_all

lemma createDataRequest_answering: "shifts answering (createDataRequest env who ty m)"
proof (rule shiftsI)
  fix w r w'
  assume run: "createDataRequest env who ty m w = (r, w')"
  show "answering w w'"
  proof (cases "List.find (\<lambda>r. drUserId r = who \<and> drType r = ty \<and> drStatus r \<in> set OPEN_STATUSES)
      (dataRequests (db w))")
    case (Some x)
    with run show ?thesis by (simp add: createDataRequest_def bindE_def require_def answer.outside)
  next
    case None
    define q where "q = \<lparr>drId = nextId w, drUserId = who, drType = ty, drStatus = DR_PENDING,
      drMessage = trimOrNone m, resolutionNote = None, handledByUserId = None,
      dueAt = now env + SLA_DAYS * 86400000, resolvedAt = None, drCreatedAt = now env\<rparr>"
    let ?w1 = "w\<lparr>nextId := Suc (nextId w), db := (db w)\<lparr>dataRequests := upsert drId q (dataRequests (db w))\<rparr>\<rparr>"
    have "bindE (auditLog env (requestEvent who DATA_REQUEST_CREATED (drId q))) (\<lambda>_. ret q) ?w1 = (r, w')"
      using run None by (simp add: createDataRequest_def bindE_def require_def freshId_def
          saveDataRequest_returns q_def)
    note end_ = audit_then_ret [OF this]
    have "answering w ?w1" if "requests_ok w"
      by (rule open_request_added [OF that]) (use None in \<open>simp_all add: q_def\<close>)
    then have "answering w ?w1" by (auto simp: answering_def)
    then show ?thesis using answer.chain [OF _ answer.outside [OF end_]] by blast
  qed
qed

lemma updateDataRequest_answering: "shifts answering (updateDataRequest cr env i admin status remark)"
proof (rule shiftsI)
  fix w res w'
  assume run: "updateDataRequest cr env i admin status remark w = (res, w')"
  show "answering w w'"
  proof (cases "\<exists>r. List.find (\<lambda>r. drId r = i) (dataRequests (db w)) = Some r \<and> is_open r")
    case False
    with run show ?thesis
      by (auto simp: updateDataRequest_def bindE_def someOr_apply require_def is_open_def answer.outside
          split: option.splits)
  next
    case True
    then obtain r where r: "List.find (\<lambda>r. drId r = i) (dataRequests (db w)) = Some r" "is_open r" by blast
    define r' where "r' = r\<lparr>drStatus := status, handledByUserId := Some admin,
      resolutionNote := trimOrNone remark,
      resolvedAt := (if status = DR_COMPLETED \<or> status = DR_REJECTED then Some (now env) else None)\<rparr>"
    let ?erase = "if status = DR_COMPLETED \<and> drType r = ERASURE then deleteData cr env (drUserId r) else ret ()"
    have "bindE ?erase (\<lambda>_. bindE (saveDataRequest r') (\<lambda>saved.
        bindE (auditLog env (requestEvent admin DATA_REQUEST_RESOLVED (drId saved))) (\<lambda>_. ret saved))) w = (res, w')"
      using run r by (simp add: updateDataRequest_def bindE_def [of "gets _"] bindE_def [of "someOr _ _"]
          bindE_def [of "require _ _"] someOr_apply require_def is_open_def r'_def)
    moreover have er: "erasing (db w) (db w1) \<and> nextId w \<le> nextId w1" if "?erase w = (y, w1)" for y w1
    proof -
      have "ids_grow (deleteData cr env (drUserId r))"
        unfolding deleteData_def findProfileByUserId_def removeDocuments_def removeProfile_def saveUser_def
        by (intro keeping ids_grow_outside [OF outside_deleteObject]) (auto simp: Let_def)
      then have del: "erasing (db w) (db w1) \<and> nextId w \<le> nextId w1"
        if "deleteData cr env (drUserId r) w = (y, w1)"
        using movesD [OF deleteData_erasing that]
          ids_growD [where m = "deleteData cr env (drUserId r)", OF _ that] by blast
      show ?thesis using that del erase.same by (cases "status = DR_COMPLETED \<and> drType r = ERASURE") auto
    qed
    have step: "answering w w1" if "?erase w = (y, w1)" for y w1
      using er [OF that] requests_ok_erasing [of w w1] follows_refl
      by (auto simp: answering_def erasing_def)
    show ?thesis
      using calculation
    proof (cases rule: bindE_cases)
      case (throws e s')
      with step show ?thesis by simp
    next
      case (returns x w1)
      let ?w2 = "w1\<lparr>db := (db w1)\<lparr>dataRequests := upsert drId r' (dataRequests (db w1))\<rparr>\<rparr>"
      have "bindE (auditLog env (requestEvent admin DATA_REQUEST_RESOLVED (drId r'))) (\<lambda>_. ret r') ?w2 = (res, w')"
        using returns(2) by (simp add: bindE_def [of "saveDataRequest _"] saveDataRequest_returns)
      note end_ = audit_then_ret [OF this]
      have "answering w1 ?w2" if ok: "requests_ok w" "requests_ok w1"
      proof (rule request_decided [OF ok(2) _ r(2)])
        show "r \<in> set (dataRequests (db w1))"
          using er [OF returns(1)] find_SomeD [OF r(1)] by (simp add: erasing_def)
        show "follows r r'" using r(2) by (simp add: follows_def r'_def)
        show "carried_out (db w1) r'"
        proof (cases "status = DR_COMPLETED \<and> drType r = ERASURE")
          case False
          then show ?thesis by (auto simp: carried_out_def r'_def)
        next
          case True
          then have "deleteData cr env (drUserId r) w = (Inr x, w1)" using returns(1) by simp
          from erased [OF this] ok(1) show ?thesis by (simp add: requests_ok_def carried_out_def r'_def)
        qed
      qed
      moreover have "requests_ok w1" if "requests_ok w"
        using step [OF returns(1)] that by (simp add: answering_def)
      ultimately have "answering w ?w2"
        using step [OF returns(1)] answer.chain [of w w1 ?w2] by (auto simp: answering_def)
      then show ?thesis by (rule answer.chain [OF _ answer.outside [OF end_]])
    qed
  qed
qed

lemma dataOp_answering: "shifts answering (dataOp q)"
  by (cases q rule: dataOp.cases)
    (simp_all, (intro answer.shifts_rules createDataRequest_answering updateDataRequest_answering)+)

end
