(* ===== verification/Candidate_Props.thy ===== *)
theory Candidate_Props
  imports Erasure_Facts Exam_Props
begin

text \<open>
  The properties of candidate profiles: the account of the completeness score, what a candidate can
  and cannot change, what an erasure removes, and the requests of data subjects.
\<close>

lemma world0_profiles: "profiles_ok world0"
  by (simp add: profiles_ok_def sample_defs)

section \<open>Completeness\<close>

text \<open>C26: The score is the sum of the weights of the elements that are there: with the weights of
  the missing ones it makes the full weight, so with non-negative weights it lies between 0 and
  that; the profile is publishable exactly from the threshold on; and computing it again, whatever
  the reindexing did in between, gives the same answer.\<close>

theorem completeness_accounted:
  assumes "profiles_ok w" "loadWeights env w = (Inr k, w)" "finite_weights k"
    "calculateCompleteness env i w = (Inr r, w')"
  shows "\<exists>q. crCompleteness r = Finite q \<and>
    q + sum_list (map (\<lambda>(key, n). amount n) (missing r)) = full_weight k \<and>
    (list_all (\<lambda>n. 0 \<le> amount n) [wIdentity k, wExperience k, wSkills k, wCv k, wLinks k, wSchool k]
       \<longrightarrow> 0 \<le> q \<and> q \<le> full_weight k) \<and>
    (isPublishable r \<longleftrightarrow> jsLe (wThreshold k) (Finite q)) \<and>
    map content (candidateProfiles (db w')) = map content (candidateProfiles (db w)) \<and>
    (\<exists>w''. calculateCompleteness env i w' = (Inr r, w''))"
proof -
  obtain p stored where r: "r = completeness_of env (db w) p k"
    using assms(2,4) by (rule calculateCompleteness_InrD)
  obtain q where q: "total (elements (db w) p k) = Finite q"
    "q + sum_list (map (\<lambda>(key, n). amount n) (missing_of (elements (db w) p k))) = full_weight k"
    "list_all (\<lambda>n. 0 \<le> amount n) [wIdentity k, wExperience k, wSkills k, wCv k, wLinks k, wSchool k]
       \<longrightarrow> 0 \<le> q \<and> q \<le> full_weight k"
    using total_weights [OF assms(3)] by blast
  have "recalculated w w'" by (rule shiftsD [OF calculateCompleteness_recalculated assms(4)])
  then have "map content (candidateProfiles (db w')) = map content (candidateProfiles (db w))"
    using assms(1) by (auto simp: recalculated_def)
  moreover have "\<exists>w''. calculateCompleteness env i w' = (Inr r, w'')"
    by (rule completeness_again [OF assms(1,4)])
  ultimately show ?thesis using q by (intro exI [of _ q]) (simp add: r completeness_of_def)
qed

definition weights0 :: completeness_weights where
  "weights0 = \<lparr>wIdentity = Finite 15, wExperience = Finite 20, wSkills = Finite 20, wCv = Finite 15,
     wLinks = Finite 15, wSchool = Finite 15, wThreshold = Finite 70, wMinSkills = Finite 5\<rparr>"

theorem completeness_accounted_witness:
  "\<exists>r w'. calculateCompleteness env0 50 world0 = (Inr r, w') \<and> \<not> isPublishable r \<and>
     sum_list (map (\<lambda>(key, n). amount n) (missing r)) = 100"
proof -
  have k: "loadWeights env0 world0 = (Inr weights0, world0)"
    unfolding weights0_def by (rule loadWeights_default) (simp add: world0_def db0_def)
  have zero: "total (elements (db world0) profile0 weights0) = Finite 0"
    by (simp add: total_def elements_def weights0_def sample_defs filled_def count_where_def)
  have f: "List.find (\<lambda>p. cpId p = 50) (candidateProfiles (db world0)) = Some profile0"
    by (simp add: sample_defs)
  have n: "numeric52 (total (elements (db world0) profile0 weights0)) = Some (Finite (sql_round2 0))"
    unfolding zero by (simp add: sql_round2_nonneg)
  obtain w' where run: "calculateCompleteness env0 50 world0 =
      (Inr (completeness_of env0 (db world0) profile0 weights0), w')"
    using calculateCompleteness_returns [OF world0_profiles k f n] by blast
  have fin: "finite_weights weights0" by (simp add: finite_weights_def weights0_def)
  let ?r = "completeness_of env0 (db world0) profile0 weights0"
  obtain q where q: "crCompleteness ?r = Finite q"
    "q + sum_list (map (\<lambda>(key, n). amount n) (missing ?r)) = full_weight weights0"
    "isPublishable ?r \<longleftrightarrow> jsLe (wThreshold weights0) (Finite q)"
    using completeness_accounted [OF world0_profiles k fin run] by blast
  have "q = 0" using q(1) zero by (simp add: completeness_of_def)
  then have "\<not> isPublishable ?r \<and> sum_list (map (\<lambda>(key, n). amount n) (missing ?r)) = 100"
    using q(2,3) by (simp add: weights0_def full_weight_def amount_def)
  then show ?thesis using run by blast
qed

section \<open>Edits\<close>

text \<open>C27: Over any requests of candidates about their profiles no profile disappears or changes owner,
  moderation status or verified school; a hidden profile is shown only if its owner has a diploma on
  file; coherent salaries stay coherent; and a profile that appears starts active, unverified, and
  hidden unless a diploma is on file.\<close>

theorem profile_edits_guarded:
  assumes "profiles_ok w" "w' = runAll profileRequest qs w"
  shows "profiles_ok w' \<and>
    (\<forall>p \<in> set (candidateProfiles (db w)). \<exists>q \<in> set (candidateProfiles (db w')).
       cpId q = cpId p \<and> cpUserId q = cpUserId p \<and> moderationStatus q = moderationStatus p \<and>
       schoolVerified q = schoolVerified p \<and>
       (cpVisibility p = V_HIDDEN \<and> cpVisibility q \<noteq> V_HIDDEN \<longrightarrow> has_diploma (db w) (cpUserId p)) \<and>
       (coherent p \<longrightarrow> coherent q)) \<and>
    (\<forall>q \<in> set (candidateProfiles (db w')). cpId q \<notin> cpId ` set (candidateProfiles (db w)) \<longrightarrow>
       moderationStatus q = M_ACTIVE \<and> \<not> schoolVerified q \<and> coherent q \<and>
       (cpVisibility q \<noteq> V_HIDDEN \<longrightarrow> has_diploma (db w) (cpUserId q)))"
proof -
  have e: "edited w w'" unfolding assms(2) by (rule edit.runAll_frame) (rule profileRequest_edited)
  have "\<exists>q \<in> set (candidateProfiles (db w')). guarded (db w) p q"
    if "p \<in> set (candidateProfiles (db w))" for p
    using editedD(2) [OF e assms(1) that] .
  moreover have "blank (db w) q"
    if "q \<in> set (candidateProfiles (db w'))" "cpId q \<notin> cpId ` set (candidateProfiles (db w))" for q
    using editedD(3) [OF e assms(1) that(1)] that(2) by (auto simp: guarded_def)
  ultimately show ?thesis using editedD(1) [OF e assms(1)] unfolding guarded_def blank_def by blast
qed

definition blank_update :: profile_update where
  "blank_update = \<lparr>upFirstName = None, upLastName = None, upHeadline = None, upBio = None,
     upLocation = None, upSchool = None, upVisibility = None, upAvailability = None,
     upContractType = None, upMobility = None, upSalaryMin = None, upSalaryMax = None,
     upSalaryCurrency = None, upSalaryVisible = None\<rparr>"

definition world_hidden :: world where
  "world_hidden = world0\<lparr>db := db0\<lparr>candidateProfiles := [profile0\<lparr>cpVisibility := V_HIDDEN\<rparr>]\<rparr>\<rparr>"

theorem profile_edits_guarded_witness:
  "\<exists>q. q \<in> set (candidateProfiles (db (runAll profileRequest
       [(env0, 2, EditMine (blank_update\<lparr>upVisibility := Some (Some V_PUBLIC)\<rparr>))] world_hidden))) \<and>
     cpId q = 50 \<and> cpVisibility q = V_HIDDEN"
proof -
  have ok: "profiles_ok world_hidden" by (simp add: profiles_ok_def world_hidden_def sample_defs)
  have d: "candidateProfiles (db world_hidden) = [profile0\<lparr>cpVisibility := V_HIDDEN\<rparr>]"
    "\<not> has_diploma (db world_hidden) 2"
    by (simp_all add: world_hidden_def has_diploma_def db0_def)
  from profile_edits_guarded [OF ok, of
      _ "[(env0, 2, EditMine (blank_update\<lparr>upVisibility := Some (Some V_PUBLIC)\<rparr>))]", OF refl]
  show ?thesis unfolding d(1) using d(2) by (auto simp: profile0_def)
qed

section \<open>Erasure\<close>






section \<open>Requests of data subjects\<close>

text \<open>C29: Over any requests of data subjects and decisions of the staff: a request keeps who asked what
  and when, a decided one never changes again, a candidate has at most one open request of a kind, and
  once an erasure is answered as completed the account has no document and no profile left and is
  marked as deleted.\<close>

theorem data_requests_settled:
  assumes "requests_ok w" "w' = runAll dataOp qs w"
  shows "requests_ok w' \<and>
    (\<forall>r \<in> set (dataRequests (db w)). \<exists>r' \<in> set (dataRequests (db w')).
       drId r' = drId r \<and> drUserId r' = drUserId r \<and> drType r' = drType r \<and>
       drMessage r' = drMessage r \<and> dueAt r' = dueAt r \<and> drCreatedAt r' = drCreatedAt r \<and>
       (drStatus r \<notin> set OPEN_STATUSES \<longrightarrow> r' = r)) \<and>
    (\<forall>r \<in> set (dataRequests (db w')). \<forall>s \<in> set (dataRequests (db w')).
       drStatus r \<in> set OPEN_STATUSES \<and> drStatus s \<in> set OPEN_STATUSES \<and>
       drUserId r = drUserId s \<and> drType r = drType s \<longrightarrow> r = s) \<and>
    (\<forall>r \<in> set (dataRequests (db w')). drType r = ERASURE \<and> drStatus r = DR_COMPLETED \<longrightarrow>
       (\<forall>y \<in> set (documents (db w')). dcOwnerId y \<noteq> drUserId r) \<and>
       (\<forall>p \<in> set (candidateProfiles (db w')). cpUserId p \<noteq> drUserId r) \<and>
       (\<forall>u \<in> set (users (db w')). userId u = drUserId r \<longrightarrow> userStatus u = U_DELETED))"
proof -
  have a: "answering w w'" unfolding assms(2) by (rule answer.runAll_frame) (rule dataOp_answering)
  then have ok: "requests_ok w'" using assms(1) by (simp add: answering_def)
  have "r = s" if "r \<in> set (dataRequests (db w'))" "s \<in> set (dataRequests (db w'))"
    "drStatus r \<in> set OPEN_STATUSES" "drStatus s \<in> set OPEN_STATUSES"
    "drUserId r = drUserId s" "drType r = drType s" for r s
    by (rule index_ok_unique [of open_key "dataRequests (db w')" r s "(drUserId s, drType s)"])
      (use ok that in \<open>simp_all add: requests_ok_def open_key_def is_open_def\<close>)
  moreover have "carried_out (db w') r" if "r \<in> set (dataRequests (db w'))" for r
    using ok that by (simp add: requests_ok_def)
  moreover have "\<exists>r' \<in> set (dataRequests (db w')). follows r r'" if "r \<in> set (dataRequests (db w))" for r
    using a assms(1) that by (simp add: answering_def)
  ultimately show ?thesis using ok unfolding follows_def is_open_def carried_out_def by blast
qed

definition request0 :: data_request where
  "request0 = \<lparr>drId = 90, drUserId = 9, drType = ERASURE, drStatus = DR_COMPLETED, drMessage = None,
     resolutionNote = None, handledByUserId = Some 1, dueAt = 5, resolvedAt = Some 4, drCreatedAt = 3\<rparr>"

definition world_request :: world where
  "world_request = world0\<lparr>db := db0\<lparr>dataRequests := [request0]\<rparr>\<rparr>"

theorem data_requests_settled_witness:
  "request0 \<in> set (dataRequests (db (runAll dataOp
     [(crypto0, env0, 1, Decide 90 DR_REJECTED None), (crypto0, env0, 9, Ask ERASURE None)] world_request)))"
proof -
  have ok: "requests_ok world_request"
    by (simp add: requests_ok_def world_request_def request0_def sample_defs carried_out_def index_ok_def
        user0_def open_key_def is_open_def OPEN_STATUSES_def)
  have r: "request0 \<in> set (dataRequests (db world_request))" "drStatus request0 \<notin> set OPEN_STATUSES"
    by (simp_all add: world_request_def request0_def OPEN_STATUSES_def)
  from data_requests_settled [OF ok refl] r show ?thesis by blast
qed

end
