(* ===== verification/Remediation.thy ===== *)
theory Remediation
  imports Scoring Notifications
begin

text \<open>
  What a candidate sees of past attempts, and the reminders: \<open>assessments/assessment-history.service.ts\<close>,
  \<open>assessments/catalog.service.ts\<close>, \<open>assessments/remediation-resources.ts\<close>,
  \<open>assessments/remediation.service.ts\<close>, \<open>assessments/remediation-progress.service.ts\<close>,
  \<open>assessments/remediation-notification.service.ts\<close>, \<open>assessments/proctoring-admin.service.ts\<close> and
  \<open>notifications/growth-notification.service.ts\<close>. A fractional number of days is cut to a whole
  one; the body of a notice is the name of its mail template.
\<close>

section \<open>History\<close>

record history_score =
  hsValue :: js_number
  hsPercentile :: "rat option"
  hsTechnical :: "rat option"
  hsPsychotechnical :: "rat option"
  hsExpiresAt :: date

record history_item =
  hiId :: uuid
  hiTestId :: uuid
  hiSpecialtyName :: "string option"
  hiStatus :: assessment_status
  hiStartedAt :: "date option"
  hiCompletedAt :: "date option"
  hiScore :: "history_score option"

record history =
  hyItems :: "history_item list"
  cooldownDays :: js_number
  eligibleNow :: bool
  nextEligibleAt :: "date option"

text \<open>\<open>new Map(...)\<close> keeps the last score of an attempt.\<close>

definition scoreByAssessment :: "db \<Rightarrow> uuid \<Rightarrow> score option" where
  "scoreByAssessment d i = List.find (\<lambda>s. scAssessmentId s = i) (rev (scores d))"

definition history_score_of :: "score \<Rightarrow> history_score" where
  "history_score_of s = \<lparr>hsValue = scValue s, hsPercentile = scPercentile s, hsTechnical = scTechnical s,
     hsPsychotechnical = scPsychotechnical s, hsExpiresAt = scExpiresAt s\<rparr>"

definition history_item_of :: "db \<Rightarrow> assessment \<Rightarrow> history_item" where
  "history_item_of d a = \<lparr>hiId = asId a, hiTestId = asTestId a,
     hiSpecialtyName =
       Option.bind (List.find (\<lambda>t. tsId t = asTestId a) (tests d)) (\<lambda>t.
         map_option spName (List.find (\<lambda>s. spId s = tsSpecialtyId t) (specialties d))),
     hiStatus = asStatus a, hiStartedAt = startedAt a, hiCompletedAt = completedAt a,
     hiScore = map_option history_score_of (scoreByAssessment d (asId a))\<rparr>"

definition getHistory :: "env \<Rightarrow> uuid \<Rightarrow> history service" where
  "getHistory env c =
     bindE (gets (\<lambda>w. newest_first asCreatedAt (filter (\<lambda>a. asCandidateId a = c) (assessments (db w))))) (\<lambda>as.
     bindE (gets (\<lambda>w. map (history_item_of (db w)) as)) (\<lambda>items.
     bindE (numberOr env COOLDOWN_SETTINGS_KEY DEFAULT_COOLDOWN_DAYS) (\<lambda>days.
     bindE (ret (find_latest (\<lambda>a. the (completedAt a))
              (\<lambda>a. asStatus a = AS_COMPLETED \<and> completedAt a \<noteq> None) as)) (\<lambda>done.
     bindE (ret (Option.bind (Option.bind done completedAt) (\<lambda>d. computeCooldownEnd env d days))) (\<lambda>cooldownEnd.
     ret (if isAfter cooldownEnd (now env)
          then \<lparr>hyItems = items, cooldownDays = days, eligibleNow = False, nextEligibleAt = cooldownEnd\<rparr>
          else \<lparr>hyItems = items, cooldownDays = days, eligibleNow = True, nextEligibleAt = None\<rparr>))))))"

section \<open>Catalogue\<close>

text \<open>The weights and the names of the items of the psychotechnical part.\<close>

definition PSYCHOTECHNICAL_ITEM_TYPES :: "string list" where
  "PSYCHOTECHNICAL_ITEM_TYPES =
     [''Suite logique de cartes'', ''Nombre manquant'', ''Degr'' @ [CHR 0xE9] @ '' d'' @ [CHR 0x27] @ ''un angle'']"

definition getComposition :: "env \<Rightarrow> (js_number \<times> js_number \<times> string list) service" where
  "getComposition env =
     bindE (numberOr env TECHNIQUE_WEIGHT_KEY DEFAULT_TECHNIQUE_WEIGHT) (\<lambda>t.
     bindE (numberOr env PSYCHOTECHNIQUE_WEIGHT_KEY DEFAULT_PSYCHOTECHNIQUE_WEIGHT) (\<lambda>p.
     ret (t, p, PSYCHOTECHNICAL_ITEM_TYPES)))"

text \<open>\<open>/^E2E\b/i\<close>\<close>

definition word_char :: "char \<Rightarrow> bool" where
  "word_char c \<longleftrightarrow>
     (let n = of_char c :: nat in
      48 \<le> n \<and> n \<le> 57 \<or> 65 \<le> n \<and> n \<le> 90 \<or> 97 \<le> n \<and> n \<le> 122 \<or> n = 95)"

definition fixture_name :: "string \<Rightarrow> bool" where
  "fixture_name s \<longleftrightarrow> toLowerCase (take 3 s) = ''e2e'' \<and>
     (case drop 3 s of [] \<Rightarrow> True | c # _ \<Rightarrow> \<not> word_char c)"

text \<open>\<open>ORDER BY name\<close> is the collation of the database, an argument.\<close>

definition listSpecialties :: "(string \<Rightarrow> nat) \<Rightarrow> (uuid \<times> string \<times> string option) list service" where
  "listSpecialties collation = gets (\<lambda>w.
     map (\<lambda>s. (spId s, spName s, spDescription s))
       (filter (\<lambda>s. \<not> fixture_name (spName s))
         (sort_key (\<lambda>s. collation (spName s)) (filter spActive (specialties (db w))))))"

definition listTests :: "uuid option \<Rightarrow> (uuid \<times> uuid \<times> int) list service" where
  "listTests specialtyId = gets (\<lambda>w.
     map (\<lambda>t. (tsId t, tsSpecialtyId t, tsDurationMinutes t))
       (sort_key tsCreatedAt
         (filter (\<lambda>t. tsActive t \<and> (case specialtyId of None \<Rightarrow> True | Some s \<Rightarrow> tsSpecialtyId t = s))
           (tests (db w)))))"

section \<open>Resources\<close>

type_synonym resource = "string \<times> string"

text \<open>A parsed JSON value; an object is the list of its own entries.\<close>

datatype json = JNull | JBool bool | JNum rat | JString string | JArray "json list"
  | JObject "(string \<times> json) list"

definition e_acute :: string where "e_acute = [CHR 0xE9]"

definition DOMAIN_RESOURCES :: "(string \<times> resource list) list" where
  "DOMAIN_RESOURCES =
     [(''Algorithmes'', [(''Introduction aux algorithmes (MIT OpenCourseWare)'',
         ''https://ocw.mit.edu/courses/6-006-introduction-to-algorithms-spring-2020/'')]),
      (''Structures de donn'' @ e_acute @ ''es'',
         [(''Structures de donn'' @ e_acute @ ''es - cours et exercices'',
           ''https://www.freecodecamp.org/news/data-structures-101/'')]),
      (''Bases de donn'' @ e_acute @ ''es'',
         [(''SQL et mod'' @ e_acute @ ''lisation relationnelle'', ''https://sqlbolt.com/'')]),
      (''Syst'' @ [CHR 0xE8] @ ''me & r'' @ e_acute @ ''seaux'',
         [(''Computer Networking - a Top-Down Approach'', ''https://gaia.cs.umass.edu/kurose_ross/'')])]"

definition resourcesForDomain :: "string \<Rightarrow> resource list" where
  "resourcesForDomain d = (case map_of DOMAIN_RESOURCES d of None \<Rightarrow> [] | Some rs \<Rightarrow> rs)"

text \<open>\<open>/^https?:\/\/.+/i\<close>: the dot takes no line end.\<close>

definition after_scheme :: "string \<Rightarrow> string option" where
  "after_scheme u =
     (if toLowerCase (take 7 u) = ''http://'' then Some (drop 7 u)
      else if toLowerCase (take 8 u) = ''https://'' then Some (drop 8 u) else None)"

definition http_url :: "string \<Rightarrow> bool" where
  "http_url u = (case after_scheme u of
     Some (c # _) \<Rightarrow> c \<noteq> CHR 0x0A \<and> c \<noteq> CHR 0x0D
   | _ \<Rightarrow> False)"

fun resourceItem :: "json \<Rightarrow> resource option" where
  "resourceItem (JObject fs) = (case (map_of fs ''title'', map_of fs ''url'') of
     (Some (JString t), Some (JString u)) \<Rightarrow> if http_url u then Some (t, u) else None
   | _ \<Rightarrow> None)"
| "resourceItem _ = None"

fun resourceItems :: "json \<Rightarrow> resource list" where
  "resourceItems (JArray vs) = List.map_filter resourceItem vs"
| "resourceItems _ = []"

definition parseResourceOverride ::
  "(string \<Rightarrow> json option) \<Rightarrow> string option \<Rightarrow> (string \<times> resource list) list option" where
  "parseResourceOverride parse raw =
     (case raw of
        None \<Rightarrow> None
      | Some s \<Rightarrow>
          (case (if s = [] then None else parse s) of
             Some (JObject fs) \<Rightarrow>
               (let out = filter (\<lambda>(d, rs). rs \<noteq> []) (map (\<lambda>(d, v). (d, resourceItems v)) fs)
                in if out = [] then None else Some out)
           | _ \<Rightarrow> None))"

definition resourcesForDomainWith :: "string \<Rightarrow> (string \<times> resource list) list option \<Rightarrow> resource list" where
  "resourcesForDomainWith d override =
     (case Option.bind override (\<lambda>m. map_of m d) of Some rs \<Rightarrow> rs | None \<Rightarrow> resourcesForDomain d)"

section \<open>Progress\<close>

definition completedUrls :: "uuid \<Rightarrow> string set service" where
  "completedUrls c = gets (\<lambda>w.
     set (map rpResourceUrl (filter (\<lambda>r. rpCandidateId r = c) (remediationProgress (db w)))))"

text \<open>\<open>INSERT ... ON CONFLICT DO NOTHING\<close>, or a deletion.\<close>

definition setCompleted :: "env \<Rightarrow> uuid \<Rightarrow> string \<Rightarrow> bool \<Rightarrow> unit service" where
  "setCompleted env c url completed =
     (if completed
      then bindE freshId (\<lambda>i. modify (\<lambda>w.
             if list_ex (\<lambda>r. rpCandidateId r = c \<and> rpResourceUrl r = url) (remediationProgress (db w))
             then w
             else w\<lparr>db := (db w)\<lparr>remediationProgress := remediationProgress (db w) @
               [\<lparr>rpId = i, rpCandidateId = c, rpResourceUrl = url, rpCompletedAt = now env\<rparr>]\<rparr>\<rparr>))
      else modify (\<lambda>w. w\<lparr>db := (db w)\<lparr>remediationProgress :=
             delete_where (\<lambda>r. rpCandidateId r = c \<and> rpResourceUrl r = url)
               (remediationProgress (db w))\<rparr>\<rparr>))"

section \<open>Feedback\<close>

record remediation_feedback =
  rfScore :: js_number
  rfTechnical :: "rat option"
  rfPsychotechnical :: "rat option"
  indexationThresholdMet :: bool
  rfDomainFeedback :: "domain_feedback list"
  rfResources :: "(resource \<times> bool) list"
  completedCount :: nat
  rfTotalCount :: nat
  baremeScoreMin :: js_number
  baremePercentileMin :: js_number
  baremeHighlightMin :: js_number
  highlightMet :: bool
  reEligibleAt :: "date option"

definition REMEDIATION_RESOURCES_OVERRIDE_KEY :: string where
  "REMEDIATION_RESOURCES_OVERRIDE_KEY = ''remediation_resources_override''"

definition resourcesWithProgress ::
  "domain_feedback list \<Rightarrow> (string \<times> resource list) list option \<Rightarrow> string set \<Rightarrow> (resource \<times> bool) list" where
  "resourcesWithProgress fb override done =
     map (\<lambda>r. (r, snd r \<in> done))
       (concat (map (\<lambda>e. resourcesForDomainWith (fbDomain e) override) (filter (\<lambda>e. fbLevel e = WEAK) fb)))"

definition getFeedback :: "(string \<Rightarrow> json option) \<Rightarrow> env \<Rightarrow> uuid \<Rightarrow> uuid \<Rightarrow> remediation_feedback service" where
  "getFeedback parse env c i =
     bindE (gets (\<lambda>w. List.find (\<lambda>a. asId a = i \<and> asCandidateId a = c \<and> asStatus a = AS_COMPLETED)
              (assessments (db w)))) (\<lambda>found.
     bindE (someOr (NotFoundException ''assessment'') found) (\<lambda>a.
     bindE (gets (\<lambda>w. List.find (\<lambda>s. scAssessmentId s = asId a) (scores (db w)))) (\<lambda>scored.
     bindE (someOr (NotFoundException ''score'') scored) (\<lambda>s.
     bindE (numberOr env INDEXATION_SCORE_MIN_KEY DEFAULT_INDEXATION_SCORE_MIN) (\<lambda>scoreMin.
     bindE (numberOr env INDEXATION_PERCENTILE_MIN_KEY DEFAULT_INDEXATION_PERCENTILE_MIN) (\<lambda>percentileMin.
     bindE (numberOr env FEATURING_PERCENTILE_MIN_KEY DEFAULT_FEATURING_PERCENTILE_MIN) (\<lambda>highlightMin.
     bindE (numberOr env COOLDOWN_SETTINGS_KEY DEFAULT_COOLDOWN_DAYS) (\<lambda>days.
     bindE (getSetting env REMEDIATION_RESOURCES_OVERRIDE_KEY None) (\<lambda>raw.
     bindE (completedUrls c) (\<lambda>urls.
     bindE (ret (case scDomainFeedback s of None \<Rightarrow> [] | Some fb \<Rightarrow> fb)) (\<lambda>fb.
     bindE (ret (resourcesWithProgress fb (parseResourceOverride parse raw) urls)) (\<lambda>rs.
     bindE (case completedAt a of
              None \<Rightarrow> ret None
            | Some d \<Rightarrow> bindE (someOr (InternalServerErrorException ''invalid-date'')
                        (computeCooldownEnd env d days)) (\<lambda>e. ret (Some e))) (\<lambda>eligible.
     ret \<lparr>rfScore = scValue s, rfTechnical = scTechnical s, rfPsychotechnical = scPsychotechnical s,
       indexationThresholdMet = jsLe scoreMin (scValue s) \<or> percentileAtLeast percentileMin s,
       rfDomainFeedback = fb, rfResources = rs, completedCount = length (filter snd rs),
       rfTotalCount = length rs, baremeScoreMin = scoreMin, baremePercentileMin = percentileMin,
       baremeHighlightMin = highlightMin, highlightMet = percentileAtLeast highlightMin s,
       reEligibleAt = eligible\<rparr>)))))))))))))"

section \<open>Reminders\<close>

text \<open>The in-app row, which may itself send a mail, then a mail that may fail.\<close>

definition growthNotify :: "env \<Rightarrow> uuid \<Rightarrow> string \<Rightarrow> notification_type \<Rightarrow> string \<Rightarrow> string \<Rightarrow> string \<Rightarrow> unit service" where
  "growthNotify env recipient e ty title body template =
     bindE (createNotification env recipient ty title body) (\<lambda>_.
     bestEffort (sendMail env \<lparr>mailTo = e, templateId = template, mailToken = None\<rparr>))"

definition notifyCooldownExpired :: "env \<Rightarrow> uuid \<Rightarrow> string \<Rightarrow> unit service" where
  "notifyCooldownExpired env recipient e =
     growthNotify env recipient e COOLDOWN_EXPIRED ''Vous pouvez repasser votre test''
       ''cooldown-expired'' ''cooldown-expired''"

definition notifyProfileViewed :: "env \<Rightarrow> uuid \<Rightarrow> string \<Rightarrow> unit service" where
  "notifyProfileViewed env recipient e =
     growthNotify env recipient e PROFILE_VIEWED (''Un recruteur a consult'' @ e_acute @ '' votre profil'')
       ''profile-viewed'' ''profile-viewed''"

definition claimCooldownNotification :: "env \<Rightarrow> uuid \<Rightarrow> bool service" where
  "claimCooldownNotification env i =
     bindE (gets (\<lambda>w. 0 < count_where (\<lambda>a. asId a = i \<and> cooldownNotifiedAt a = None) (assessments (db w)))) (\<lambda>claimed.
     bindE (modify (\<lambda>w. w\<lparr>db := (db w)\<lparr>assessments :=
       update_where (\<lambda>a. asId a = i \<and> cooldownNotifiedAt a = None)
         (\<lambda>a. a\<lparr>cooldownNotifiedAt := Some (now env)\<rparr>) (assessments (db w))\<rparr>\<rparr>)) (\<lambda>_.
     ret claimed))"

definition remindOne :: "env \<Rightarrow> assessment \<Rightarrow> int service" where
  "remindOne env a =
     bindE (claimCooldownNotification env (asId a)) (\<lambda>claimed.
     if \<not> claimed then ret 0
     else
       bindE (gets (\<lambda>w. List.find (\<lambda>u. userId u = asCandidateId a) (users (db w)))) (\<lambda>found.
       case found of
         None \<Rightarrow> ret 0
       | Some u \<Rightarrow> bindE (notifyCooldownExpired env (userId u) (email u)) (\<lambda>_. ret 1)))"

primrec remindAll :: "env \<Rightarrow> assessment list \<Rightarrow> int service" where
  "remindAll env [] = ret 0"
| "remindAll env (a # as) =
     bindE (remindOne env a) (\<lambda>n. bindE (remindAll env as) (\<lambda>m. ret (n + m)))"

definition due :: "date \<Rightarrow> assessment \<Rightarrow> bool" where
  "due cutoff a \<longleftrightarrow> asStatus a = AS_COMPLETED \<and> cooldownNotifiedAt a = None \<and>
     (case completedAt a of None \<Rightarrow> False | Some d \<Rightarrow> d \<le> cutoff)"

definition runCooldownSweep :: "env \<Rightarrow> int service" where
  "runCooldownSweep env =
     bindE (numberOr env COOLDOWN_SETTINGS_KEY DEFAULT_COOLDOWN_DAYS) (\<lambda>days.
     bindE (someOr (InternalServerErrorException ''invalid-date'')
              (case days of Finite q \<Rightarrow> valid_date (addDays env (now env) (- towardsZero q)) | _ \<Rightarrow> None)) (\<lambda>cutoff.
     bindE (gets (\<lambda>w. filter (due cutoff) (assessments (db w)))) (remindAll env)))"

section \<open>Integrity overview\<close>

record integrity_row =
  irAssessmentId :: uuid
  irCandidateEmail :: "string option"
  irSpecialtyName :: "string option"
  irStatus :: assessment_status
  irScore :: "js_number option"
  irTabSwitchCount :: int
  irWindowBlurCount :: int
  irProctoringFlagged :: bool
  irMultiAccountFlagged :: bool
  irVerdict :: "plagiarism_verdict option"
  irIpAddress :: "string option"
  irStartedAt :: "date option"
  irCompletedAt :: "date option"

record integrity_counts =
  icProctoring :: int
  icMultiAccount :: int
  icPlagiarism :: int
  icTotal :: int

text \<open>The left joins: an attempt has at most one score.\<close>

definition joinedScore :: "db \<Rightarrow> assessment \<Rightarrow> score option" where
  "joinedScore d a = List.find (\<lambda>s. scAssessmentId s = asId a) (scores d)"

definition plagiarised :: "db \<Rightarrow> assessment \<Rightarrow> bool" where
  "plagiarised d a = (case joinedScore d a of
     None \<Rightarrow> False | Some s \<Rightarrow> plagiarismVerdict s \<in> {SUSPECTED, CONFIRMED})"

definition integrity_flagged :: "db \<Rightarrow> assessment \<Rightarrow> bool" where
  "integrity_flagged d a \<longleftrightarrow> proctoringFlagged a \<or> multiAccountFlagged a \<or> plagiarised d a"

definition integrity_row_of :: "db \<Rightarrow> assessment \<Rightarrow> integrity_row" where
  "integrity_row_of d a =
     \<lparr>irAssessmentId = asId a,
      irCandidateEmail = map_option email (List.find (\<lambda>u. userId u = asCandidateId a) (users d)),
      irSpecialtyName = hiSpecialtyName (history_item_of d a), irStatus = asStatus a,
      irScore = map_option scValue (joinedScore d a),
      irTabSwitchCount = tabSwitchCount a, irWindowBlurCount = windowBlurCount a,
      irProctoringFlagged = proctoringFlagged a, irMultiAccountFlagged = multiAccountFlagged a,
      irVerdict = map_option plagiarismVerdict (joinedScore d a), irIpAddress = asIpAddress a,
      irStartedAt = startedAt a, irCompletedAt = completedAt a\<rparr>"

text \<open>\<open>ORDER BY updated_at DESC LIMIT 200\<close>, the update time of an attempt being an argument: the
  column is not in the data model.\<close>

definition integrityList ::
  "(assessment \<Rightarrow> date) \<Rightarrow> bool \<Rightarrow> (integrity_row list \<times> integrity_counts) service" where
  "integrityList updatedAt onlyFlagged = gets (\<lambda>w.
     (map (integrity_row_of (db w))
        (take 200 (newest_first updatedAt
          (filter (\<lambda>a. \<not> onlyFlagged \<or> integrity_flagged (db w) a) (assessments (db w))))),
      \<lparr>icProctoring = count_where proctoringFlagged (assessments (db w)),
       icMultiAccount = count_where multiAccountFlagged (assessments (db w)),
       icPlagiarism = count_where (plagiarised (db w)) (assessments (db w)),
       icTotal = count_where (integrity_flagged (db w)) (assessments (db w))\<rparr>))"

end
