(* ===== verification/Search.thy ===== *)
theory Search
  imports Profile_Items Messaging Remediation
begin

text \<open>
  The search of candidates, \<open>search/search.service.ts\<close>, its saved searches and their alerts
  (\<open>search/saved-search.service.ts\<close>, \<open>search/saved-search-alert.service.ts\<close>), the views of a profile
  (\<open>search/profile-view.service.ts\<close>), the handlers of \<open>search/search.controller.ts\<close> and the shortlist
  (\<open>companies/shortlist.service.ts\<close>).

  The query builder joins the texts of its conditions with \<open>AND\<close> and adds no parentheses, so a
  condition with an \<open>OR\<close> of its own binds as SQL reads it: \<open>sql_where\<close> is a list of alternatives.
  Full-text matching is an argument. A cursor is the pair that its text decodes to; a text that
  decodes to nothing is no cursor.
\<close>

section \<open>Conditions\<close>

text \<open>A condition without \<open>OR\<close> is one alternative; \<open>andWhere\<close> ties the last alternative so far to the
  first of the new condition.\<close>

type_synonym 'r sql_where = "('r \<Rightarrow> bool) list"

definition where1 :: "('r \<Rightarrow> bool) \<Rightarrow> 'r sql_where" where
  "where1 P = [P]"

fun andWhere :: "'r sql_where \<Rightarrow> 'r sql_where \<Rightarrow> 'r sql_where" where
  "andWhere [] q = q"
| "andWhere [P] [] = [P]"
| "andWhere [P] (Q # q) = (\<lambda>r. P r \<and> Q r) # q"
| "andWhere (P # P' # p) q = P # andWhere (P' # p) q"

definition selects :: "'r sql_where \<Rightarrow> 'r \<Rightarrow> bool" where
  "selects w r \<longleftrightarrow> list_ex (\<lambda>P. P r) w"

text \<open>\<open>LIKE\<close>, with \<open>%\<close>, \<open>_\<close> and the backslash, and \<open>ILIKE\<close> on ASCII text.\<close>

function (sequential) like :: "string \<Rightarrow> string \<Rightarrow> bool" where
  "like [] s = (s = [])"
| "like (p # ps) s =
     (if p = CHR 0x25 then like ps s \<or> (case s of [] \<Rightarrow> False | _ # cs \<Rightarrow> like (p # ps) cs)
      else (case s of
              [] \<Rightarrow> False
            | c # cs \<Rightarrow>
                if p = CHR 0x5F then like ps cs
                else if p = CHR 0x5C then (case ps of [] \<Rightarrow> False | q # qs \<Rightarrow> q = c \<and> like qs cs)
                else p = c \<and> like ps cs))"
  by pat_completeness auto
termination by (relation "measure (\<lambda>(p, s). length p + length s)") auto

definition ilike :: "string option \<Rightarrow> string \<Rightarrow> bool" where
  "ilike x pattern = (case x of None \<Rightarrow> False | Some s \<Rightarrow> like (toLowerCase pattern) (toLowerCase s))"

definition containing :: "string \<Rightarrow> string" where
  "containing s = ''%'' @ s @ ''%''"

section \<open>Scores of a candidate\<close>

text \<open>The order of \<open>numeric\<close>: \<open>NaN\<close> is equal to itself and above every number.\<close>

fun pgLe :: "js_number \<Rightarrow> js_number \<Rightarrow> bool" where
  "pgLe a NaN = True"
| "pgLe NaN b = False"
| "pgLe a b = jsLe a b"

definition pgMax :: "js_number \<Rightarrow> js_number \<Rightarrow> js_number" where
  "pgMax a b = (if pgLe a b then b else a)"

definition completedBy :: "uuid \<Rightarrow> db \<Rightarrow> assessment list" where
  "completedBy c d = filter (\<lambda>a. asCandidateId a = c \<and> asStatus a = AS_COMPLETED) (assessments d)"

text \<open>The scores of the subquery are those of \<open>validScores\<close>.\<close>

definition bestValue :: "env \<Rightarrow> db \<Rightarrow> uuid \<Rightarrow> js_number option" where
  "bestValue env d c = (case map scValue (validScores env c d) of
     [] \<Rightarrow> None | v # vs \<Rightarrow> Some (foldl pgMax v vs))"

definition bestPercentile :: "env \<Rightarrow> db \<Rightarrow> uuid \<Rightarrow> rat option" where
  "bestPercentile env d c = (case List.map_filter scPercentile (validScores env c d) of
     [] \<Rightarrow> None | v # vs \<Rightarrow> Some (foldl max v vs))"

definition bestScore :: "env \<Rightarrow> db \<Rightarrow> candidate_profile \<Rightarrow> js_number" where
  "bestScore env d p = (case bestValue env d (cpUserId p) of None \<Rightarrow> Finite 0 | Some v \<Rightarrow> v)"

definition assessmentCount :: "db \<Rightarrow> candidate_profile \<Rightarrow> int" where
  "assessmentCount d p = int (length (completedBy (cpUserId p) d))"

section \<open>Filters\<close>

datatype search_sort = SCORE_DESC | SCORE_ASC | RECENT | BY_ACTIVITY

record search_filters =
  sfQ :: "string option"
  sfSkills :: "string list option"
  sfScoreMin :: "rat option"
  sfLocation :: "string option"
  sfAvailability :: "string option"
  sfSalaryMax :: "int option"
  sfCursor :: "(js_number \<times> uuid) option"
  sfSchools :: "string list option"
  sfSort :: search_sort
  sfLimit :: nat

text \<open>The sort key of a row, and whether the order is descending. Dates are numbers of milliseconds.\<close>

fun sortKey :: "search_sort \<Rightarrow> env \<Rightarrow> db \<Rightarrow> candidate_profile \<Rightarrow> js_number" where
  "sortKey RECENT env d p = Finite (of_int (cpCreatedAt p))"
| "sortKey BY_ACTIVITY env d p = Finite (of_int (cpUpdatedAt p))"
| "sortKey _ env d p = bestScore env d p"

fun descending :: "search_sort \<Rightarrow> bool" where
  "descending SCORE_ASC = False"
| "descending _ = True"

definition pgLt :: "js_number \<Rightarrow> js_number \<Rightarrow> bool" where
  "pgLt a b \<longleftrightarrow> pgLe a b \<and> \<not> pgLe b a"

definition before :: "search_sort \<Rightarrow> js_number \<Rightarrow> js_number \<Rightarrow> bool" where
  "before s a b = (if descending s then pgLt a b else pgLt b a)"

definition id_before :: "search_sort \<Rightarrow> uuid \<Rightarrow> uuid \<Rightarrow> bool" where
  "id_before s i j = (if descending s then i < j else j < i)"

definition visible :: "candidate_profile \<Rightarrow> bool" where
  "visible p \<longleftrightarrow> indexedInCvtheque p \<and> moderationStatus p = M_ACTIVE \<and>
     cpVisibility p \<in> {V_PUBLIC, V_RECRUITERS_ONLY}"

text \<open>\<open>coalesce(headline, '') || ' ' || coalesce(bio, '')\<close>\<close>

definition orEmpty :: "string option \<Rightarrow> string" where
  "orEmpty x = (case x of None \<Rightarrow> [] | Some s \<Rightarrow> s)"

definition has_skill :: "db \<Rightarrow> candidate_profile \<Rightarrow> string list \<Rightarrow> bool" where
  "has_skill d p names = list_ex (\<lambda>e. psProfileId e = cpId p \<and>
     list_ex (\<lambda>s. skId s = psSkillId e \<and> skName s \<in> set names) (skills d)) (profileSkills d)"

definition truthy :: "string option \<Rightarrow> (string \<Rightarrow> candidate_profile \<Rightarrow> bool) \<Rightarrow> candidate_profile sql_where" where
  "truthy x P = (case x of None \<Rightarrow> [] | Some s \<Rightarrow> if s = [] then [] else where1 (P s))"

definition nonEmpty :: "'a list option \<Rightarrow> ('a list \<Rightarrow> candidate_profile \<Rightarrow> bool) \<Rightarrow> candidate_profile sql_where" where
  "nonEmpty x P = (case x of None \<Rightarrow> [] | Some s \<Rightarrow> if s = [] then [] else where1 (P s))"

definition given :: "'a option \<Rightarrow> ('a \<Rightarrow> candidate_profile \<Rightarrow> bool) \<Rightarrow> candidate_profile sql_where" where
  "given x P = (case x of None \<Rightarrow> [] | Some s \<Rightarrow> where1 (P s))"

text \<open>The cursor condition has an \<open>OR\<close> and no parentheses around it.\<close>

definition after_cursor :: "search_filters \<Rightarrow> env \<Rightarrow> db \<Rightarrow> candidate_profile sql_where" where
  "after_cursor f env d =
     (case sfCursor f of
        None \<Rightarrow> []
      | Some (k, i) \<Rightarrow>
          [\<lambda>p. before (sfSort f) (sortKey (sfSort f) env d p) k,
           \<lambda>p. sortKey (sfSort f) env d p = k \<and> id_before (sfSort f) (cpId p) i])"

definition conditions ::
  "(string \<Rightarrow> string \<Rightarrow> bool) \<Rightarrow> search_filters \<Rightarrow> env \<Rightarrow> db \<Rightarrow> candidate_profile sql_where list" where
  "conditions textMatch f env d =
     [where1 visible,
      truthy (sfQ f) (\<lambda>q p. textMatch (orEmpty (headline p) @ '' '' @ orEmpty (bio p)) q),
      nonEmpty (sfSkills f) (\<lambda>names p. has_skill d p names),
      given (sfScoreMin f) (\<lambda>m p. pgLe (Finite m) (bestScore env d p)),
      truthy (sfLocation f) (\<lambda>s p. ilike (cpLocation p) (containing s)),
      truthy (sfAvailability f) (\<lambda>s p. ilike (availability p) (containing s)),
      given (sfSalaryMax f) (\<lambda>m p. salaryVisible p \<and>
        (case salaryMin p of None \<Rightarrow> False | Some x \<Rightarrow> x \<le> m)),
      nonEmpty (sfSchools f) (\<lambda>ss p. list_ex (\<lambda>s. ilike (school p) (containing s)) ss),
      after_cursor f env d]"

definition buildQuery ::
  "(string \<Rightarrow> string \<Rightarrow> bool) \<Rightarrow> search_filters \<Rightarrow> env \<Rightarrow> db \<Rightarrow> candidate_profile sql_where" where
  "buildQuery textMatch f env d =
     foldl (\<lambda>w c. if c = [] then w else andWhere w c) [] (conditions textMatch f env d)"

section \<open>A page\<close>

record candidate_result =
  rsId :: uuid
  rsFirstName :: "string option"
  rsLastName :: "string option"
  rsHeadline :: "string option"
  rsLocation :: "string option"
  rsSkills :: "string list"
  rsScore :: js_number
  rsPercentile :: "rat option"
  rsFeatured :: bool
  rsSchool :: "string option"
  rsSchoolVerified :: bool
  rsAssessmentCount :: int
  rsAnonymized :: bool

definition upperChar :: "char \<Rightarrow> char" where
  "upperChar c = (let n = of_char c :: nat in if 97 \<le> n \<and> n \<le> 122 then char_of (n - 32) else c)"

definition anonymizeLastName :: "string option \<Rightarrow> string option" where
  "anonymizeLastName x = (case trimOrNone x of
     Some (c # _) \<Rightarrow> Some [upperChar c, CHR 0x2E]
   | _ \<Rightarrow> None)"

definition loadSkills :: "db \<Rightarrow> uuid \<Rightarrow> string list" where
  "loadSkills d i = List.map_filter (\<lambda>e. map_option skName (List.find (\<lambda>s. skId s = psSkillId e) (skills d)))
     (filter (\<lambda>e. psProfileId e = i) (profileSkills d))"

definition preview :: "env \<Rightarrow> db \<Rightarrow> candidate_profile \<Rightarrow> candidate_result" where
  "preview env d p =
     \<lparr>rsId = cpId p, rsFirstName = firstName p, rsLastName = anonymizeLastName (lastName p),
      rsHeadline = headline p, rsLocation = cpLocation p, rsSkills = loadSkills d (cpId p),
      rsScore = bestScore env d p, rsPercentile = bestPercentile env d (cpUserId p),
      rsFeatured = featured p, rsSchool = school p, rsSchoolVerified = schoolVerified p,
      rsAssessmentCount = assessmentCount d p, rsAnonymized = True\<rparr>"

text \<open>Sorting by a relation, as \<open>ORDER BY\<close> with two keys.\<close>

fun insertBy :: "('r \<Rightarrow> 'r \<Rightarrow> bool) \<Rightarrow> 'r \<Rightarrow> 'r list \<Rightarrow> 'r list" where
  "insertBy le x [] = [x]"
| "insertBy le x (y # ys) = (if le x y then x # y # ys else y # insertBy le x ys)"

definition sortBy :: "('r \<Rightarrow> 'r \<Rightarrow> bool) \<Rightarrow> 'r list \<Rightarrow> 'r list" where
  "sortBy le xs = foldr (insertBy le) xs []"

definition ordered :: "search_sort \<Rightarrow> env \<Rightarrow> db \<Rightarrow> candidate_profile \<Rightarrow> candidate_profile \<Rightarrow> bool" where
  "ordered s env d p q \<longleftrightarrow>
     before s (sortKey s env d q) (sortKey s env d p) \<or>
     sortKey s env d q = sortKey s env d p \<and> (cpId p = cpId q \<or> id_before s (cpId q) (cpId p))"

record search_page =
  pgItems :: "candidate_result list"
  pgNextCursor :: "(js_number \<times> uuid) option"

definition matching ::
  "(string \<Rightarrow> string \<Rightarrow> bool) \<Rightarrow> search_filters \<Rightarrow> env \<Rightarrow> db \<Rightarrow> candidate_profile list" where
  "matching textMatch f env d = filter (selects (buildQuery textMatch f env d)) (candidateProfiles d)"

definition searchCandidates ::
  "(string \<Rightarrow> string \<Rightarrow> bool) \<Rightarrow> search_filters \<Rightarrow> env \<Rightarrow> search_page service" where
  "searchCandidates textMatch f env = gets (\<lambda>w.
     let d = db w;
         rows = take (sfLimit f + 1) (sortBy (ordered (sfSort f) env d) (matching textMatch f env d));
         hasMore = sfLimit f < length rows;
         page = (if hasMore then take (sfLimit f) rows else rows)
     in \<lparr>pgItems = map (preview env d) page,
         pgNextCursor = (if hasMore \<and> page \<noteq> []
           then Some (sortKey (sfSort f) env d (last page), cpId (last page)) else None)\<rparr>)"

section \<open>The detail\<close>

record candidate_detail =
  cdResult :: candidate_result
  cdAvailability :: "string option"
  cdMobility :: "string option"
  cdSalaryMin :: "int option"
  cdSalaryMax :: "int option"
  cdSalaryCurrency :: "string option"
  cdBio :: "string option"
  cdExperiences :: "experience list"
  cdProjects :: "project list"
  cdCertifications :: "certification list"
  cdLinks :: "(link_type \<times> string \<times> string option) list"
  cdCv :: "(string \<times> string \<times> int \<times> string) option"

definition hasContact :: "db \<Rightarrow> uuid \<Rightarrow> uuid \<Rightarrow> bool" where
  "hasContact d companyId profileId \<longleftrightarrow>
     0 < count_where (\<lambda>c. convCompanyId c = companyId \<and> convCandidateId c = profileId) (conversations d)"

definition loadCvDownload :: "env \<Rightarrow> uuid \<Rightarrow> (string \<times> string \<times> int \<times> string) option service" where
  "loadCvDownload env candidate =
     bindE (gets (\<lambda>w. List.find (\<lambda>x. dcOwnerId x = candidate \<and> dcType x = DOC_CV) (documents (db w)))) (\<lambda>found.
     case found of
       None \<Rightarrow> ret None
     | Some x \<Rightarrow>
         if scanStatus x \<noteq> SCAN_CLEAN then ret None
         else bindE (someOr (ServiceUnavailable ''storage'') (signedUrl env (storageKey x))) (\<lambda>url.
              ret (Some (originalName x, mimeType x, dcSize x, url))))"

definition detail_of ::
  "env \<Rightarrow> db \<Rightarrow> candidate_profile \<Rightarrow> bool \<Rightarrow> (string \<times> string \<times> int \<times> string) option \<Rightarrow> candidate_detail" where
  "detail_of env d p revealed cv =
     (let own = newest_first pjCreatedAt (filter (\<lambda>x. pjProfileId x = cpId p) (projects d)) in
      \<lparr>cdResult = (preview env d p)\<lparr>rsLastName := if revealed then lastName p else anonymizeLastName (lastName p),
         rsAnonymized := \<not> revealed\<rparr>,
       cdAvailability = availability p, cdMobility = mobility p,
       cdSalaryMin = (if salaryVisible p then salaryMin p else None),
       cdSalaryMax = (if salaryVisible p then salaryMax p else None),
       cdSalaryCurrency = (if salaryVisible p then Some (salaryCurrency p) else None),
       cdBio = bio p,
       cdExperiences = newest_first exStartDate (filter (\<lambda>x. exProfileId x = cpId p) (experiences d)),
       cdProjects = filter (\<lambda>x. pjStartDate x = None) own
         @ newest_first (\<lambda>x. the (pjStartDate x)) (filter (\<lambda>x. pjStartDate x \<noteq> None) own),
       cdCertifications = newest_first ctIssueDate (filter (\<lambda>x. ctProfileId x = cpId p) (certifications d)),
       cdLinks = (if revealed
         then map (\<lambda>l. (lkType l, lkUrl l, lkLabel l)) (filter (\<lambda>l. lkProfileId l = cpId p) (profileLinks d))
         else []),
       cdCv = cv\<rparr>)"

definition getCandidateDetail ::
  "env \<Rightarrow> uuid \<Rightarrow> bool \<Rightarrow> uuid option \<Rightarrow> candidate_detail service" where
  "getCandidateDetail env i isAdmin companyId =
     bindE (gets (\<lambda>w. List.find (\<lambda>p. cpId p = i \<and> visible p) (candidateProfiles (db w)))) (\<lambda>found.
     bindE (someOr (NotFoundException ''profile'') found) (\<lambda>p.
     bindE (gets (\<lambda>w. isAdmin \<or> (case companyId of None \<Rightarrow> False | Some c \<Rightarrow> hasContact (db w) c (cpId p)))) (\<lambda>revealed.
     bindE (if revealed then loadCvDownload env (cpUserId p) else ret None) (\<lambda>cv.
     gets (\<lambda>w. detail_of env (db w) p revealed cv)))))"

definition countNewMatches ::
  "(string \<Rightarrow> string \<Rightarrow> bool) \<Rightarrow> search_filters \<Rightarrow> date option \<Rightarrow> env \<Rightarrow> db \<Rightarrow> int" where
  "countNewMatches textMatch f since env d =
     count_where (selects (case since of
        None \<Rightarrow> buildQuery textMatch f env d
      | Some t \<Rightarrow> andWhere (buildQuery textMatch f env d) (where1 (\<lambda>p. t < cpUpdatedAt p))))
       (candidateProfiles d)"

end
