(* ===== verification/Saved_Search.thy ===== *)
theory Saved_Search
  imports Search Quota
begin

text \<open>
  Saved searches and their daily alert (\<open>search/saved-search.service.ts\<close>,
  \<open>search/saved-search-alert.service.ts\<close>), the views of a profile (\<open>search/profile-view.service.ts\<close>),
  the two handlers of \<open>search/search.controller.ts\<close>, and the shortlist
  (\<open>companies/shortlist.service.ts\<close>). The length of the notification window is an argument.
\<close>

section \<open>Saved searches\<close>

definition createSavedSearch ::
  "env \<Rightarrow> uuid \<Rightarrow> string \<Rightarrow> search_criteria \<Rightarrow> bool option \<Rightarrow> saved_search service" where
  "createSavedSearch env owner name criteria alert =
     bindE (ret (orElse alert False)) (\<lambda>on.
     bindE freshId (\<lambda>i.
     saveSavedSearch \<lparr>ssId = i, ssOwnerId = owner, ssName = name, ssCriteria = criteria, alertEnabled = on,
       lastNotifiedAt = (if on then Some (now env) else None), ssCreatedAt = now env\<rparr>))"

definition listOwnSearches :: "uuid \<Rightarrow> saved_search list service" where
  "listOwnSearches owner = gets (\<lambda>w.
     newest_first ssCreatedAt (filter (\<lambda>s. ssOwnerId s = owner) (savedSearches (db w))))"

definition updateSavedSearch ::
  "env \<Rightarrow> uuid \<Rightarrow> uuid \<Rightarrow> string option \<Rightarrow> search_criteria option \<Rightarrow> bool option \<Rightarrow> saved_search service" where
  "updateSavedSearch env owner i name criteria alert =
     bindE (gets (\<lambda>w. List.find (\<lambda>s. ssId s = i \<and> ssOwnerId s = owner) (savedSearches (db w)))) (\<lambda>found.
     bindE (someOr (NotFoundException ''saved-search'') found) (\<lambda>s.
     saveSavedSearch (s\<lparr>ssName := orElse name (ssName s), ssCriteria := orElse criteria (ssCriteria s),
       lastNotifiedAt := (if alert = Some True \<and> \<not> alertEnabled s then Some (now env) else lastNotifiedAt s),
       alertEnabled := orElse alert (alertEnabled s)\<rparr>)))"

definition removeSavedSearch :: "uuid \<Rightarrow> uuid \<Rightarrow> unit service" where
  "removeSavedSearch owner i = deleteOwned savedSearches savedSearches_update ssId ssOwnerId i owner"

section \<open>The alert\<close>

definition filters_of :: "search_criteria \<Rightarrow> search_filters" where
  "filters_of c = \<lparr>sfQ = scrQ c, sfSkills = scrSkills c, sfScoreMin = scrScoreMin c,
     sfLocation = scrLocation c, sfAvailability = scrAvailability c, sfSalaryMax = scrSalaryMax c,
     sfCursor = None, sfSchools = None, sfSort = SCORE_DESC, sfLimit = 20\<rparr>"

definition claimAdvance :: "uuid \<Rightarrow> date option \<Rightarrow> date \<Rightarrow> bool service" where
  "claimAdvance i since stamp =
     bindE (gets (\<lambda>w. 0 < count_where (\<lambda>s. ssId s = i \<and> lastNotifiedAt s = since) (savedSearches (db w)))) (\<lambda>won.
     bindE (modify (\<lambda>w. w\<lparr>db := (db w)\<lparr>savedSearches :=
       update_where (\<lambda>s. ssId s = i \<and> lastNotifiedAt s = since) (\<lambda>s. s\<lparr>lastNotifiedAt := Some stamp\<rparr>)
         (savedSearches (db w))\<rparr>\<rparr>)) (\<lambda>_. ret won))"

definition alertOne :: "(string \<Rightarrow> string \<Rightarrow> bool) \<Rightarrow> env \<Rightarrow> saved_search \<Rightarrow> int service" where
  "alertOne textMatch env s =
     bindE (gets (\<lambda>w. countNewMatches textMatch (filters_of (ssCriteria s)) (lastNotifiedAt s) env (db w))) (\<lambda>n.
     if n \<le> 0 then ret 0
     else
       bindE (claimAdvance (ssId s) (lastNotifiedAt s) (now env)) (\<lambda>won.
       if \<not> won then ret 0
       else
         bindE (createNotification env (ssOwnerId s) SAVED_SEARCH_ALERT
                  ''Nouveaux candidats pour votre recherche'' (ssName s)) (\<lambda>_. ret 1)))"

text \<open>One bad search does not stop the sweep.\<close>

primrec alertAll :: "(string \<Rightarrow> string \<Rightarrow> bool) \<Rightarrow> env \<Rightarrow> saved_search list \<Rightarrow> int service" where
  "alertAll textMatch env [] = ret 0"
| "alertAll textMatch env (s # ss) =
     bindE (tryCatch (alertOne textMatch env s) (\<lambda>_. ret 0)) (\<lambda>n.
     bindE (alertAll textMatch env ss) (\<lambda>m. ret (n + m)))"

definition runAlertSweep :: "(string \<Rightarrow> string \<Rightarrow> bool) \<Rightarrow> env \<Rightarrow> int service" where
  "runAlertSweep textMatch env =
     bindE (gets (\<lambda>w. filter alertEnabled (savedSearches (db w)))) (alertAll textMatch env)"

section \<open>Views\<close>

text \<open>\<open>INSERT ... ON CONFLICT ... DO UPDATE ... WHERE ... RETURNING\<close>.\<close>

definition claimNotification :: "env \<Rightarrow> int \<Rightarrow> uuid \<Rightarrow> uuid \<Rightarrow> bool service" where
  "claimNotification env hours recruiter profile =
     bindE freshId (\<lambda>i.
     bindE (gets (\<lambda>w. List.find (\<lambda>c. vcRecruiterId c = recruiter \<and> vcProfileId c = profile)
              (viewCooldowns (db w)))) (\<lambda>found.
     case found of
       None \<Rightarrow>
         bindE (modify (\<lambda>w. w\<lparr>db := (db w)\<lparr>viewCooldowns := viewCooldowns (db w) @
           [\<lparr>vcId = i, vcRecruiterId = recruiter, vcProfileId = profile, vcLastNotifiedAt = now env\<rparr>]\<rparr>\<rparr>))
           (\<lambda>_. ret True)
     | Some c \<Rightarrow>
         if vcLastNotifiedAt c < now env - hours * 3600000
         then bindE (modify (\<lambda>w. w\<lparr>db := (db w)\<lparr>viewCooldowns :=
                update_where (\<lambda>x. vcRecruiterId x = recruiter \<and> vcProfileId x = profile)
                  (\<lambda>x. x\<lparr>vcLastNotifiedAt := now env\<rparr>) (viewCooldowns (db w))\<rparr>\<rparr>)) (\<lambda>_. ret True)
         else ret False))"

definition recordView :: "env \<Rightarrow> int \<Rightarrow> uuid \<Rightarrow> uuid \<Rightarrow> uuid \<Rightarrow> unit service" where
  "recordView env hours recruiter companyId profile =
     bindE freshId (\<lambda>i.
     bindE (saveProfileView \<lparr>pvId = i, pvRecruiterId = recruiter, pvProfileId = profile,
              pvCompanyId = companyId, viewedAt = now env\<rparr>) (\<lambda>_.
     bindE (claimNotification env hours recruiter profile) (\<lambda>claimed.
     if \<not> claimed then ret ()
     else
       bindE (gets (\<lambda>w. Option.bind (List.find (\<lambda>p. cpId p = profile) (candidateProfiles (db w)))
                (\<lambda>p. List.find (\<lambda>u. userId u = cpUserId p) (users (db w))))) (\<lambda>candidate.
       case candidate of
         None \<Rightarrow> ret ()
       | Some u \<Rightarrow> notifyProfileViewed env (userId u) (email u)))))"

section \<open>The handlers\<close>

definition searchHandler ::
  "(string \<Rightarrow> string \<Rightarrow> bool) \<Rightarrow> env \<Rightarrow> uuid \<Rightarrow> role list \<Rightarrow> search_filters \<Rightarrow> search_page service" where
  "searchHandler textMatch env caller rs f =
     bindE (if ADMIN \<in> set rs then ret () else bindE (assertActiveSubscription env caller) (\<lambda>_. ret ())) (\<lambda>_.
     searchCandidates textMatch f env)"

definition detailHandler ::
  "env \<Rightarrow> int \<Rightarrow> uuid \<Rightarrow> role list \<Rightarrow> uuid \<Rightarrow> candidate_detail service" where
  "detailHandler env hours caller rs i =
     bindE (if ADMIN \<in> set rs then ret None
            else bindE (assertActiveSubscription env caller) (\<lambda>c. ret (Some c))) (\<lambda>companyId.
     bindE (getCandidateDetail env i (ADMIN \<in> set rs) companyId) (\<lambda>detail.
     bindE (case companyId of None \<Rightarrow> ret () | Some c \<Rightarrow> recordView env hours caller c i) (\<lambda>_.
     ret detail)))"

section \<open>Shortlist\<close>

definition shortlistEvent :: "uuid \<Rightarrow> audit_action \<Rightarrow> uuid \<Rightarrow> audit_entry" where
  "shortlistEvent who action i =
     \<lparr>actorId = Some who, auAction = action, entityType = ''shortlist_entry'', entityId = i\<rparr>"

definition addEntry :: "env \<Rightarrow> uuid \<Rightarrow> uuid \<Rightarrow> string option \<Rightarrow> shortlist_entry service" where
  "addEntry env caller profileId remark =
     bindE (assertActiveSubscription env caller) (\<lambda>companyId.
     bindE (gets (\<lambda>w. List.find (\<lambda>p. cpId p = profileId) (candidateProfiles (db w)))) (\<lambda>found.
     bindE (require (case found of None \<Rightarrow> False
                     | Some p \<Rightarrow> indexedInCvtheque p \<and> cpVisibility p \<noteq> V_HIDDEN)
              (NotFoundException ''profile'')) (\<lambda>_.
     bindE (gets (\<lambda>w. List.find (\<lambda>e. slCompanyId e = companyId \<and> slCandidateProfileId e = profileId)
              (shortlist (db w)))) (\<lambda>existing.
     bindE (require (existing = None) (ConflictException ''shortlisted'')) (\<lambda>_.
     bindE freshId (\<lambda>i.
     bindE (saveShortlistEntry \<lparr>slId = i, slCompanyId = companyId, slCandidateProfileId = profileId,
              slAddedBy = caller, slNote = remark, slCreatedAt = now env\<rparr>) (\<lambda>e.
     bindE (auditLog env (shortlistEvent caller SHORTLIST_ENTRY_ADDED (slId e))) (\<lambda>_. ret e))))))))"

record shortlist_view =
  lvId :: uuid
  lvCompanyId :: uuid
  lvProfileId :: uuid
  lvNote :: "string option"
  lvCreatedAt :: date
  lvCandidate :: "(uuid \<times> string option \<times> string option \<times> string option) option"

definition listEntries :: "uuid \<Rightarrow> shortlist_view list service" where
  "listEntries caller =
     bindE (resolveCompanyId caller) (\<lambda>companyId.
     gets (\<lambda>w. map (\<lambda>e. \<lparr>lvId = slId e, lvCompanyId = slCompanyId e, lvProfileId = slCandidateProfileId e,
         lvNote = slNote e, lvCreatedAt = slCreatedAt e,
         lvCandidate = map_option (\<lambda>p. (cpId p, firstName p, anonymizeLastName (lastName p), headline p))
           (List.find (\<lambda>p. cpId p = slCandidateProfileId e) (candidateProfiles (db w)))\<rparr>)
       (newest_first slCreatedAt (filter (\<lambda>e. slCompanyId e = companyId) (shortlist (db w))))))"

definition removeEntry :: "env \<Rightarrow> uuid \<Rightarrow> uuid \<Rightarrow> unit service" where
  "removeEntry env caller i =
     bindE (resolveCompanyId caller) (\<lambda>companyId.
     bindE (gets (\<lambda>w. List.find (\<lambda>e. slId e = i \<and> slCompanyId e = companyId) (shortlist (db w)))) (\<lambda>found.
     bindE (someOr (NotFoundException ''shortlist-entry'') found) (\<lambda>_.
     bindE (modify (\<lambda>w. w\<lparr>db := (db w)\<lparr>shortlist := delete_where (\<lambda>e. slId e = i) (shortlist (db w))\<rparr>\<rparr>)) (\<lambda>_.
     auditLog env (shortlistEvent caller SHORTLIST_ENTRY_REMOVED i)))))"

end
