(* ===== verification/Search_Props.thy ===== *)
theory Search_Props
  imports Saved_Search Sample
begin

text \<open>
  The properties of the candidate search: what a page shows, what a cursor adds to it, what the
  detail reveals and to whom, and that the alert sweep comes to rest.
\<close>

section \<open>Conditions and order\<close>

lemma selects_Nil [simp]: "\<not> selects [] r"
  by (simp add: selects_def)

lemma selects_single [simp]: "selects [P] r = P r"
  by (simp add: selects_def)

lemma andWhere_singles [simp]: "andWhere [P] [Q] = [\<lambda>r. P r \<and> Q r]"
  by simp

text \<open>Conditions without an \<open>OR\<close> of their own mean what they say.\<close>

lemma selects_foldl:
  assumes "list_all (\<lambda>c. c = [] \<or> (\<exists>Q. c = [Q])) cs"
  shows "foldl (\<lambda>w c. if c = [] then w else andWhere w c) [P] cs =
    [\<lambda>r. P r \<and> list_all (\<lambda>c. c = [] \<or> selects c r) cs]"
  using assms by (induction cs arbitrary: P) (auto simp: conj_assoc)

lemma set_insertBy [simp]: "set (insertBy le x xs) = insert x (set xs)"
  by (induction xs) auto

lemma set_sortBy [simp]: "set (sortBy le xs) = set xs"
  unfolding sortBy_def by (induction xs) auto

lemma length_sortBy [simp]: "length (sortBy le xs) = length xs"
proof -
  have "length (insertBy le x ys) = Suc (length ys)" for x ys by (induction ys) auto
  then show ?thesis unfolding sortBy_def by (induction xs) auto
qed

lemma sortBy_first:
  assumes "x \<in> set xs" "\<And>y. y \<in> set xs \<Longrightarrow> y \<noteq> x \<Longrightarrow> le x y \<and> \<not> le y x"
  shows "\<exists>ys. sortBy le xs = x # ys"
  using assms
proof (induction xs)
  case (Cons z zs)
  have head: "sortBy le (z # zs) = insertBy le z (sortBy le zs)" by (simp add: sortBy_def)
  show ?case
  proof (cases "x \<in> set zs")
    case True
    then obtain ys where "sortBy le zs = x # ys" using Cons by auto
    then show ?thesis unfolding head using Cons.prems(2) [of z] by (cases "z = x") auto
  next
    case False
    then have "z = x" using Cons.prems(1) by simp
    moreover have "le x y" if "y \<in> set zs" for y using Cons.prems(2) [of y] that False by auto
    then have "sortBy le zs = [] \<or> (\<exists>y ys. sortBy le zs = y # ys \<and> le x y)"
      by (metis list.exhaust list.set_intros(1) set_sortBy)
    ultimately show ?thesis unfolding head by auto
  qed
qed simp

lemma pgLe_cases [case_names NaN NegInf PosInf Finite]:
  obtains "x = NaN" | "x = Infinite True" | "x = Infinite False" | q where "x = Finite q"
  by (metis (full_types) js_number.exhaust)

lemma pgLe_refl: "pgLe a a" and pgLe_trans: "pgLe a b \<Longrightarrow> pgLe b c \<Longrightarrow> pgLe a c"
  and pgLe_antisym: "pgLe a b \<Longrightarrow> pgLe b a \<Longrightarrow> a = b" and pgLe_total: "pgLe a b \<or> pgLe b a"
  subgoal by (cases a rule: pgLe_cases) auto
  subgoal by (cases a rule: pgLe_cases; cases b rule: pgLe_cases; cases c rule: pgLe_cases) auto
  subgoal by (cases a rule: pgLe_cases; cases b rule: pgLe_cases) auto
  subgoal by (cases a rule: pgLe_cases; cases b rule: pgLe_cases) auto
  done

section \<open>A page\<close>

text \<open>What a candidate has to meet, filter by filter.\<close>

definition meets :: "(string \<Rightarrow> string \<Rightarrow> bool) \<Rightarrow> search_filters \<Rightarrow> env \<Rightarrow> db \<Rightarrow> candidate_profile \<Rightarrow> bool" where
  "meets textMatch f env d p \<longleftrightarrow>
     indexedInCvtheque p \<and> moderationStatus p = M_ACTIVE \<and> cpVisibility p \<noteq> V_HIDDEN \<and>
     (\<forall>q. sfQ f = Some q \<and> q \<noteq> [] \<longrightarrow> textMatch (orEmpty (headline p) @ '' '' @ orEmpty (bio p)) q) \<and>
     (\<forall>ns. sfSkills f = Some ns \<and> ns \<noteq> [] \<longrightarrow> has_skill d p ns) \<and>
     (\<forall>m. sfScoreMin f = Some m \<longrightarrow> pgLe (Finite m) (bestScore env d p)) \<and>
     (\<forall>s. sfLocation f = Some s \<and> s \<noteq> [] \<longrightarrow> ilike (cpLocation p) (containing s)) \<and>
     (\<forall>s. sfAvailability f = Some s \<and> s \<noteq> [] \<longrightarrow> ilike (availability p) (containing s)) \<and>
     (\<forall>m. sfSalaryMax f = Some m \<longrightarrow> salaryVisible p \<and> (\<exists>x. salaryMin p = Some x \<and> x \<le> m)) \<and>
     (\<forall>ss. sfSchools f = Some ss \<and> ss \<noteq> [] \<longrightarrow> (\<exists>s \<in> set ss. ilike (school p) (containing s)))"

lemma visible_iff: "visible p \<longleftrightarrow> indexedInCvtheque p \<and> moderationStatus p = M_ACTIVE \<and> cpVisibility p \<noteq> V_HIDDEN"
  by (cases "cpVisibility p") (auto simp: visible_def)

lemma selects_given:
  "truthy x P = [] \<or> selects (truthy x P) p \<longleftrightarrow> (\<forall>q. x = Some q \<and> q \<noteq> [] \<longrightarrow> P q p)"
  "nonEmpty y R = [] \<or> selects (nonEmpty y R) p \<longleftrightarrow> (\<forall>q. y = Some q \<and> q \<noteq> [] \<longrightarrow> R q p)"
  "given z S = [] \<or> selects (given z S) p \<longleftrightarrow> (\<forall>q. z = Some q \<longrightarrow> S q p)"
  by (auto simp: truthy_def nonEmpty_def given_def where1_def split: option.split)

lemma single_given:
  "truthy x P = [] \<or> (\<exists>Q. truthy x P = [Q])" "nonEmpty y R = [] \<or> (\<exists>Q. nonEmpty y R = [Q])"
  "given z S = [] \<or> (\<exists>Q. given z S = [Q])"
  by (auto simp: truthy_def nonEmpty_def given_def where1_def split: option.split)

lemma buildQuery_eq:
  "buildQuery textMatch f env d =
    (case sfCursor f of
       None \<Rightarrow> [meets textMatch f env d]
     | Some (k, i) \<Rightarrow>
         [\<lambda>p. meets textMatch f env d p \<and> before (sfSort f) (sortKey (sfSort f) env d p) k,
          \<lambda>p. sortKey (sfSort f) env d p = k \<and> id_before (sfSort f) (cpId p) i])"
proof -
  let ?step = "\<lambda>w c. if c = [] then w else andWhere w c"
  define cs where "cs = tl (butlast (conditions textMatch f env d))"
  have c: "conditions textMatch f env d = where1 visible # cs @ [after_cursor f env d]"
    by (simp add: cs_def conditions_def)
  have "list_all (\<lambda>c. c = [] \<or> (\<exists>Q. c = [Q])) cs"
    unfolding cs_def conditions_def by (simp add: single_given)
  from selects_foldl [OF this, of visible] have f: "foldl ?step [visible] cs =
      [\<lambda>p. visible p \<and> list_all (\<lambda>c. c = [] \<or> selects c p) cs]" .
  have m: "(\<lambda>p. visible p \<and> list_all (\<lambda>c. c = [] \<or> selects c p) cs) = meets textMatch f env d"
    unfolding cs_def conditions_def
    by (rule ext) (auto simp: selects_given meets_def visible_iff list_ex_iff split: option.splits)
  have "buildQuery textMatch f env d = ?step (foldl ?step [visible] cs) (after_cursor f env d)"
    by (simp add: buildQuery_def c where1_def)
  then show ?thesis unfolding f m by (simp add: after_cursor_def split: option.split)
qed

lemma ordered_total: "before s (sortKey s env d p) (sortKey s env d q) \<Longrightarrow> \<not> ordered s env d p q"
  by (auto simp: ordered_def before_def pgLt_def id_before_def dest: pgLe_antisym split: if_splits)

lemma insertBy_sorted:
  assumes "\<And>a b. le a b \<or> le b a" "\<And>a b c. le a b \<Longrightarrow> le b c \<Longrightarrow> le a c" "sorted_wrt le xs"
  shows "sorted_wrt le (insertBy le x xs)"
proof -
  have "\<not> le x y \<Longrightarrow> le y x" for y using assms(1) by blast
  then show ?thesis using assms(3) by (induction xs) (auto intro: assms(2))
qed

lemma sortBy_sorted:
  assumes "\<And>a b. le a b \<or> le b a" "\<And>a b c. le a b \<Longrightarrow> le b c \<Longrightarrow> le a c"
  shows "sorted_wrt le (sortBy le xs)"
proof (induction xs)
  case (Cons x xs)
  then show ?case using insertBy_sorted [of le, OF assms] by (simp add: sortBy_def)
qed (simp add: sortBy_def)

lemma ordered_trans: "ordered s env d p q \<Longrightarrow> ordered s env d q r \<Longrightarrow> ordered s env d p r"
  by (cases "descending s")
    (auto simp: ordered_def before_def pgLt_def id_before_def dest: pgLe_antisym intro: pgLe_trans)

lemma ordered_linear: "ordered s env d p q \<or> ordered s env d q p"
  using pgLe_total [of "sortKey s env d p" "sortKey s env d q"]
  by (cases "descending s")
    (auto simp: ordered_def before_def pgLt_def id_before_def dest: pgLe_antisym)

text \<open>C30: The first page of a search shows the candidates who are in the talent pool, not moderated away
  and not hidden, and who meet every filter; in the order of the sort; at most as many as the limit;
  with the family name reduced to its initial. Without a next cursor it shows all of them.\<close>

theorem search_first_page:
  assumes "sfCursor f = None" "searchCandidates textMatch f env w = (Inr page, w')"
  shows "w' = w \<and> length (pgItems page) \<le> sfLimit f \<and>
    (\<exists>ps. pgItems page = map (preview env (db w)) ps \<and> sorted_wrt (ordered (sfSort f) env (db w)) ps \<and>
      set ps \<subseteq> {p \<in> set (candidateProfiles (db w)). meets textMatch f env (db w) p} \<and>
      (pgNextCursor page = None \<and> 0 < sfLimit f \<longrightarrow>
        set ps = {p \<in> set (candidateProfiles (db w)). meets textMatch f env (db w) p})) \<and>
    (\<forall>r \<in> set (pgItems page). rsAnonymized r \<and> (\<forall>n. rsLastName r = Some n \<longrightarrow> length n = 2))"
proof -
  let ?d = "db w"
  let ?all = "sortBy (ordered (sfSort f) env ?d) (matching textMatch f env ?d)"
  let ?rows = "take (sfLimit f + 1) ?all"
  let ?page = "if sfLimit f < length ?rows then take (sfLimit f) ?rows else ?rows"
  have all: "set ?all = {p \<in> set (candidateProfiles ?d). meets textMatch f env ?d p}"
    using assms(1) by (simp add: matching_def buildQuery_eq)
  have "(Inr page, w') = searchCandidates textMatch f env w" using assms(2) by simp
  then have run: "w' = w" "pgItems page = map (preview env ?d) ?page"
    "pgNextCursor page = None \<longleftrightarrow> \<not> (sfLimit f < length ?rows \<and> ?page \<noteq> [])"
    unfolding searchCandidates_def Let_def gets_apply by (simp_all split del: if_split) (simp_all split: if_split)
  have part: "set ?page \<subseteq> set ?all" by (auto dest: in_set_takeD)
  have sorted: "sorted_wrt (ordered (sfSort f) env ?d) ?page"
    using sortBy_sorted [of "ordered (sfSort f) env ?d", OF ordered_linear ordered_trans]
    by (simp add: sorted_wrt_take)
  have whole: "set ?page = set ?all" if "pgNextCursor page = None" "0 < sfLimit f"
    using that run(3) by (auto split: if_splits dest!: arg_cong [of "sortBy _ _" "[]" length])
  have names: "rsAnonymized r \<and> (\<forall>n. rsLastName r = Some n \<longrightarrow> length n = 2)"
    if "r \<in> set (pgItems page)" for r
    using that run(2) by (auto simp: preview_def anonymizeLastName_def split: option.splits list.splits)
  have "length (pgItems page) \<le> sfLimit f" unfolding run(2) by (simp split: if_split)
  then show ?thesis
    using run(1,2) part sorted whole names unfolding all [symmetric]
    by (intro conjI exI [of _ ?page]) blast+
qed

definition filters0 :: search_filters where
  "filters0 = \<lparr>sfQ = None, sfSkills = None, sfScoreMin = None, sfLocation = None, sfAvailability = None,
     sfSalaryMax = None, sfCursor = None, sfSchools = None, sfSort = SCORE_DESC, sfLimit = 20\<rparr>"

theorem search_first_page_witness:
  "\<exists>page. searchCandidates (\<lambda>_ _. True) filters0 env0 world0 = (Inr page, world0) \<and>
     map rsId (pgItems page) = [50] \<and> (\<forall>r \<in> set (pgItems page). rsAnonymized r)"
proof -
  obtain page where run: "searchCandidates (\<lambda>_ _. True) filters0 env0 world0 = (Inr page, world0)"
    by (simp add: searchCandidates_def)
  moreover from this have "map rsId (pgItems page) = [50]"
    by (auto simp: searchCandidates_def Let_def matching_def buildQuery_eq filters0_def sortBy_def meets_def
        sample_defs preview_def)
  ultimately show ?thesis
    using search_first_page [of filters0 "\<lambda>_ _. True" env0 world0 page world0] by (auto simp: filters0_def)
qed

text \<open>C31: The condition of a cursor is an alternative of its own: a recruiter who sends a cursor made
  from the sort key of a profile is shown that profile first, whatever the filters, and even if it is
  hidden, suspended by moderation, or not in the talent pool at all.\<close>

theorem search_cursor_leaks:
  assumes "distinct (map cpId (candidateProfiles (db w)))" "p \<in> set (candidateProfiles (db w))"
    "sfSort f = SCORE_DESC" "0 < sfLimit f" "sfCursor f = Some (bestScore env (db w) p, Suc (cpId p))"
  shows "\<exists>page rest. searchCandidates textMatch f env w = (Inr page, w) \<and>
    pgItems page = preview env (db w) p # rest"
proof -
  let ?d = "db w" and ?le = "ordered SCORE_DESC env (db w)"
  have p: "p \<in> set (matching textMatch f env ?d)"
    using assms by (simp add: matching_def buildQuery_eq id_before_def selects_def)
  have "?le p q \<and> \<not> ?le q p" if "q \<in> set (matching textMatch f env ?d)" "q \<noteq> p" for q
  proof -
    have "cpId q \<noteq> cpId p" using that assms(1,2) by (auto simp: matching_def distinct_map inj_on_def)
    moreover have "before SCORE_DESC (bestScore env ?d q) (bestScore env ?d p) \<or>
        bestScore env ?d q = bestScore env ?d p \<and> cpId q < Suc (cpId p)"
      using that(1) assms(3,5) by (auto simp: matching_def buildQuery_eq id_before_def selects_def)
    ultimately show ?thesis by (auto simp: ordered_def before_def pgLt_def id_before_def)
  qed
  from sortBy_first [of p _ ?le, OF p this] obtain ys where
    "sortBy ?le (matching textMatch f env ?d) = p # ys" by blast
  then show ?thesis using assms(3,4) by (cases "sfLimit f") (simp_all add: searchCandidates_def Let_def)
qed

theorem search_cursor_leaks_witness:
  "\<exists>page rest. searchCandidates (\<lambda>_ _. False)
       (filters0\<lparr>sfQ := Some ''x'', sfCursor := Some (Finite 0, 51)\<rparr>) env0
       (world0\<lparr>db := db0\<lparr>candidateProfiles := [profile0\<lparr>cpVisibility := V_HIDDEN\<rparr>]\<rparr>\<rparr>) =
     (Inr page, world0\<lparr>db := db0\<lparr>candidateProfiles := [profile0\<lparr>cpVisibility := V_HIDDEN\<rparr>]\<rparr>\<rparr>) \<and>
     map rsId (pgItems page) = 50 # rest"
proof -
  let ?p = "profile0\<lparr>cpVisibility := V_HIDDEN\<rparr>"
  let ?w = "world0\<lparr>db := db0\<lparr>candidateProfiles := [?p]\<rparr>\<rparr>"
  have "bestScore env0 (db ?w) ?p = Finite 0"
    by (simp add: bestScore_def bestValue_def validScores_def sample_defs)
  then have "sfCursor (filters0\<lparr>sfQ := Some ''x'', sfCursor := Some (Finite 0, 51)\<rparr>) =
      Some (bestScore env0 (db ?w) ?p, Suc (cpId ?p))" by (simp add: profile0_def)
  from search_cursor_leaks [OF _ _ _ _ this, of "\<lambda>_ _. False"] show ?thesis
    by (fastforce simp: filters0_def preview_def profile0_def)
qed

section \<open>The detail\<close>

text \<open>C32: The detail exists for visible profiles only. It carries the family name, the links and the CV
  only for the staff and for a company that has a thread with the candidate; the salary only if the
  candidate shows it; reading it changes nothing.\<close>

theorem detail_reveals:
  assumes "getCandidateDetail env i isAdmin company w = (r, w')"
  shows "w' = w \<and>
    ((\<nexists>p. p \<in> set (candidateProfiles (db w)) \<and> cpId p = i \<and> visible p) \<longrightarrow> r = Inl (NotFoundException ''profile'')) \<and>
    (\<forall>x. r = Inr x \<longrightarrow> (\<exists>p \<in> set (candidateProfiles (db w)). cpId p = i \<and> visible p \<and>
       (rsAnonymized (cdResult x) \<longleftrightarrow> \<not> isAdmin \<and>
          (\<forall>c. company = Some c \<longrightarrow> \<not> (\<exists>t \<in> set (conversations (db w)). convCompanyId t = c \<and> convCandidateId t = i))) \<and>
       (rsAnonymized (cdResult x) \<longrightarrow> rsLastName (cdResult x) = anonymizeLastName (lastName p) \<and>
          cdLinks x = [] \<and> cdCv x = None) \<and>
       (\<not> salaryVisible p \<longrightarrow> cdSalaryMin x = None \<and> cdSalaryMax x = None)))"
proof (cases "List.find (\<lambda>p. cpId p = i \<and> visible p) (candidateProfiles (db w))")
  case None
  then have "r = Inl (NotFoundException ''profile'') \<and> w' = w"
    using assms by (simp add: getCandidateDetail_def bindE_def someOr_apply)
  then show ?thesis using None by (auto simp: find_None_iff)
next
  case (Some p)
  then have p: "p \<in> set (candidateProfiles (db w))" "cpId p = i" "visible p" by (auto dest: find_SomeD)
  have contact: "hasContact (db w) c i \<longleftrightarrow>
      (\<exists>t \<in> set (conversations (db w)). convCompanyId t = c \<and> convCandidateId t = i)" for c
    by (auto simp: hasContact_def count_where_def filter_empty_conv)
  have cv: "loadCvDownload env who w1 = (y, w2) \<Longrightarrow> w2 = w1" for who w1 y w2
    by (auto simp: loadCvDownload_def bindE_def someOr_apply split: option.splits if_splits)
  define revealed where "revealed \<longleftrightarrow> isAdmin \<or> (case company of None \<Rightarrow> False | Some c \<Rightarrow> hasContact (db w) c i)"
  have rev: "\<not> revealed \<longleftrightarrow> \<not> isAdmin \<and> (\<forall>c. company = Some c \<longrightarrow>
      \<not> (\<exists>t \<in> set (conversations (db w)). convCompanyId t = c \<and> convCandidateId t = i))"
    unfolding revealed_def contact by (cases company) auto
  have "w' = w \<and> (\<forall>x. r = Inr x \<longrightarrow> rsAnonymized (cdResult x) = (\<not> revealed) \<and>
      (\<not> revealed \<longrightarrow> rsLastName (cdResult x) = anonymizeLastName (lastName p) \<and> cdLinks x = [] \<and> cdCv x = None) \<and>
      (\<not> salaryVisible p \<longrightarrow> cdSalaryMin x = None \<and> cdSalaryMax x = None))"
  proof -
    have shape: "bindE (if revealed then loadCvDownload env (cpUserId p) else ret None)
        (\<lambda>cv. gets (\<lambda>w. detail_of env (db w) p revealed cv)) w = (r, w')"
      using assms Some unfolding revealed_def p(2) [symmetric]
      by (simp add: getCandidateDetail_def bindE_def [of "gets _"] bindE_def [of "someOr _ _"] someOr_apply)
    then show ?thesis
    proof (cases rule: bindE_cases)
      case (throws e w1)
      then show ?thesis by (cases revealed) (auto dest: cv)
    next
      case (returns c w1)
      then have "w1 = w" "\<not> revealed \<longrightarrow> c = None" by (cases revealed; auto dest: cv)+
      with returns(2) show ?thesis by (auto simp: detail_of_def Let_def)
    qed
  qed
  then show ?thesis using p rev by blast
qed

theorem detail_reveals_witness:
  "\<exists>x. getCandidateDetail env0 50 False (Some 10) world0 = (Inr x, world0) \<and> rsAnonymized (cdResult x) \<and>
     cdCv x = None"
proof -
  obtain r w' where run: "getCandidateDetail env0 50 False (Some 10) world0 = (r, w')" by fastforce
  moreover from this obtain x where "r = Inr x"
    by (auto simp: getCandidateDetail_def bindE_def someOr_apply sample_defs visible_def hasContact_def count_where_def)
  ultimately show ?thesis
    using detail_reveals [OF run] by (auto simp: sample_defs)
qed

section \<open>The alert sweep\<close>

definition matches_new :: "(string \<Rightarrow> string \<Rightarrow> bool) \<Rightarrow> env \<Rightarrow> db \<Rightarrow> saved_search \<Rightarrow> bool" where
  "matches_new textMatch env d s \<longleftrightarrow>
     0 < countNewMatches textMatch (filters_of (ssCriteria s)) (lastNotifiedAt s) env d"

definition advanced :: "(string \<Rightarrow> string \<Rightarrow> bool) \<Rightarrow> env \<Rightarrow> db \<Rightarrow> saved_search \<Rightarrow> saved_search" where
  "advanced textMatch env d s =
     (if matches_new textMatch env d s then s\<lparr>lastNotifiedAt := Some (now env)\<rparr> else s)"

lemma advanced_same [simp]: "ssId (advanced t env d s) = ssId s"
  "alertEnabled (advanced t env d s) = alertEnabled s"
  by (simp_all add: advanced_def)

lemma matches_new_aside [simp]:
  "matches_new t env (d\<lparr>savedSearches := x, notifications := y\<rparr>) = matches_new t env d"
proof -
  have "meets t f env (d\<lparr>savedSearches := x, notifications := y\<rparr>) = meets t f env d" for f
    by (rule ext) (simp add: meets_def has_skill_def bestScore_def bestValue_def validScores_def)
  then show ?thesis
    by (intro ext) (simp add: matches_new_def countNewMatches_def buildQuery_eq filters_of_def cong: option.case_cong)
qed

lemma advanced_aside [simp]:
  "advanced t env (d\<lparr>savedSearches := x, notifications := y\<rparr>) = advanced t env d"
  by (intro ext) (simp add: advanced_def)

lemma alertOne_run:
  assumes "s \<in> set (savedSearches (db w))" "distinct (map ssId (savedSearches (db w)))"
  shows "\<exists>w' ns. alertOne t env s w = (Inr (if matches_new t env (db w) s then 1 else 0), w') \<and>
    db w' = (db w)\<lparr>savedSearches := map (\<lambda>x. if ssId x = ssId s then advanced t env (db w) x else x)
      (savedSearches (db w)), notifications := ns\<rparr> \<and> (\<not> matches_new t env (db w) s \<longrightarrow> w' = w)"
proof -
  have only: "x = s" if "x \<in> set (savedSearches (db w))" "ssId x = ssId s" for x
    using that assms by (auto simp: distinct_map inj_on_def)
  show ?thesis
  proof (cases "matches_new t env (db w) s")
    case False
    then have "map (\<lambda>x. if ssId x = ssId s then advanced t env (db w) x else x) (savedSearches (db w)) =
        savedSearches (db w)"
      by (auto simp: advanced_def dest: only intro!: map_idI)
    then show ?thesis using False
      by (intro exI [of _ w] exI [of _ "notifications (db w)"]) (simp add: alertOne_def bindE_def matches_new_def)
  next
    case True
    let ?P = "\<lambda>x. ssId x = ssId s \<and> lastNotifiedAt x = lastNotifiedAt s"
    let ?ss = "update_where ?P (\<lambda>x. x\<lparr>lastNotifiedAt := Some (now env)\<rparr>) (savedSearches (db w))"
    let ?w = "w\<lparr>db := (db w)\<lparr>savedSearches := ?ss\<rparr>\<rparr>"
    have ss: "?ss = map (\<lambda>x. if ssId x = ssId s then advanced t env (db w) x else x) (savedSearches (db w))"
      unfolding update_where_def by (rule map_cong) (use True only in \<open>auto simp: advanced_def\<close>)
    have won: "0 < count_where ?P (savedSearches (db w))"
      using assms(1) by (auto simp: count_where_def filter_empty_conv)
    obtain y w' ns where "createNotification env (ssOwnerId s) SAVED_SEARCH_ALERT
        ''Nouveaux candidats pour votre recherche'' (ssName s) ?w = (Inr y, w')"
      "db w' = (db ?w)\<lparr>notifications := ns\<rparr>"
      using createNotification_eq by blast
    then show ?thesis
      using True won unfolding ss
      by (intro exI [of _ w'] exI [of _ ns]) (simp add: alertOne_def claimAdvance_def bindE_def matches_new_def ss)
  qed
qed

lemma alertAll_run:
  assumes "distinct (map ssId ss)" "set ss \<subseteq> set (savedSearches (db w))"
    "distinct (map ssId (savedSearches (db w)))"
  shows "\<exists>w' ns. alertAll t env ss w = (Inr (int (length (filter (matches_new t env (db w)) ss))), w') \<and>
    db w' = (db w)\<lparr>savedSearches := map (\<lambda>x. if ssId x \<in> ssId ` set ss then advanced t env (db w) x else x)
      (savedSearches (db w)), notifications := ns\<rparr> \<and>
    ((\<forall>s \<in> set ss. \<not> matches_new t env (db w) s) \<longrightarrow> w' = w)"
  using assms
proof (induction ss arbitrary: w)
  case Nil
  then show ?case by (intro exI [of _ w] exI [of _ "notifications (db w)"]) simp
next
  case (Cons s ss)
  let ?f = "\<lambda>x. if ssId x = ssId s then advanced t env (db w) x else x"
  obtain w1 ns where w1: "alertOne t env s w = (Inr (if matches_new t env (db w) s then 1 else 0), w1)"
    "db w1 = (db w)\<lparr>savedSearches := map ?f (savedSearches (db w)), notifications := ns\<rparr>"
    "\<not> matches_new t env (db w) s \<longrightarrow> w1 = w"
    using alertOne_run [of s w t env] Cons.prems by auto
  have "set ss \<subseteq> set (savedSearches (db w1))"
    using Cons.prems(1,2) by (auto simp: w1(2) image_iff intro!: bexI)
  moreover have "distinct (map ssId (savedSearches (db w1)))"
  proof -
    have "map ssId (savedSearches (db w1)) = map ssId (savedSearches (db w))" by (simp add: w1(2))
    then show ?thesis using Cons.prems(3) by simp
  qed
  ultimately obtain w2 ns' where w2:
    "alertAll t env ss w1 = (Inr (int (length (filter (matches_new t env (db w1)) ss))), w2)"
    "db w2 = (db w1)\<lparr>savedSearches := map (\<lambda>x. if ssId x \<in> ssId ` set ss then advanced t env (db w1) x else x)
      (savedSearches (db w1)), notifications := ns'\<rparr>"
    "(\<forall>s \<in> set ss. \<not> matches_new t env (db w1) s) \<longrightarrow> w2 = w1"
    using Cons.IH [of w1] Cons.prems(1) by auto
  have "alertAll t env (s # ss) w =
      (Inr (int (length (filter (matches_new t env (db w)) (s # ss)))), w2)"
    using w1(1) w2(1) by (simp add: bindE_def tryCatch_def w1(2))
  moreover have "db w2 = (db w)\<lparr>savedSearches := map (\<lambda>x. if ssId x \<in> ssId ` set (s # ss)
      then advanced t env (db w) x else x) (savedSearches (db w)), notifications := ns'\<rparr>"
    using Cons.prems(1) unfolding w2(2) by (auto simp: w1(2))
  moreover have "w2 = w" if "\<forall>x \<in> set (s # ss). \<not> matches_new t env (db w) x"
    using that w1(3) w2(3) by simp
  ultimately show ?case by blast
qed

text \<open>C33: The sweep of the saved searches always returns, with the number of searches that have new
  matches; and it comes to rest: a second sweep at the same instant alerts nobody and changes nothing,
  whatever mails of the first one failed.\<close>

theorem alert_sweep_settles:
  assumes "distinct (map ssId (savedSearches (db w)))"
    "\<forall>p \<in> set (candidateProfiles (db w)). cpUpdatedAt p \<le> now env"
  shows "\<exists>w'. runAlertSweep textMatch env w = (Inr (int (length (filter
      (\<lambda>s. alertEnabled s \<and> 0 < countNewMatches textMatch (filters_of (ssCriteria s)) (lastNotifiedAt s) env (db w))
      (savedSearches (db w))))), w') \<and>
    candidateProfiles (db w') = candidateProfiles (db w) \<and>
    map ssId (savedSearches (db w')) = map ssId (savedSearches (db w)) \<and>
    runAlertSweep textMatch env w' = (Inr 0, w')"
proof -
  let ?on = "\<lambda>d. filter alertEnabled (savedSearches d)"
  have on: "distinct (map ssId (?on (db w)))" using assms(1) by (rule distinct_map_filter)
  obtain w' ns where w': "alertAll textMatch env (?on (db w)) w =
      (Inr (int (length (filter (matches_new textMatch env (db w)) (?on (db w))))), w')"
    "db w' = (db w)\<lparr>savedSearches := map (\<lambda>x. if ssId x \<in> ssId ` set (?on (db w))
      then advanced textMatch env (db w) x else x) (savedSearches (db w)), notifications := ns\<rparr>"
    using alertAll_run [OF on _ assms(1), of textMatch env] by auto
  have ids: "map ssId (savedSearches (db w')) = map ssId (savedSearches (db w))" by (simp add: w'(2))
  have quiet: "\<not> matches_new textMatch env (db w') s" if "s \<in> set (?on (db w'))" for s
  proof -
    from that obtain x where x: "x \<in> set (savedSearches (db w))" "alertEnabled x"
      "s = advanced textMatch env (db w) x"
      by (auto simp: w'(2) split: if_splits)
    have rest: "\<not> matches_new textMatch env (db w) (x\<lparr>lastNotifiedAt := Some (now env)\<rparr>)"
      using assms(2) by (auto simp: matches_new_def countNewMatches_def buildQuery_eq filters_of_def where1_def
          count_where_def filter_empty_conv)
    show ?thesis using rest unfolding w'(2) x(3) by (simp add: advanced_def)
  qed
  have on': "distinct (map ssId (?on (db w')))" using assms(1) ids by (metis distinct_map_filter)
  have d': "distinct (map ssId (savedSearches (db w')))" unfolding ids by (rule assms(1))
  obtain w'' where again: "alertAll textMatch env (?on (db w')) w' =
      (Inr (int (length (filter (matches_new textMatch env (db w')) (?on (db w'))))), w'')"
    "(\<forall>s \<in> set (?on (db w')). \<not> matches_new textMatch env (db w') s) \<longrightarrow> w'' = w'"
    using alertAll_run [OF on' filter_is_subset d', of textMatch env] by blast
  have "filter (matches_new textMatch env (db w')) (?on (db w')) = []"
    using quiet by (simp only: filter_empty_conv) blast
  then have "runAlertSweep textMatch env w' = (Inr 0, w')"
    using again quiet by (simp only: runAlertSweep_def bindE_def gets_apply) simp
  then show ?thesis using w' ids
    by (intro exI [of _ w']) (simp add: runAlertSweep_def bindE_def matches_new_def [abs_def] conj_commute)
qed

definition saved0 :: saved_search where
  "saved0 = \<lparr>ssId = 90, ssOwnerId = 1, ssName = ''backend'', ssCriteria = \<lparr>scrQ = None, scrSkills = None,
     scrScoreMin = None, scrLocation = None, scrAvailability = None, scrSalaryMax = None\<rparr>,
     alertEnabled = True, lastNotifiedAt = None, ssCreatedAt = 0\<rparr>"

theorem alert_sweep_settles_witness:
  "\<exists>w'. runAlertSweep (\<lambda>_ _. True) env0 (world0\<lparr>db := db0\<lparr>savedSearches := [saved0]\<rparr>\<rparr>) = (Inr 1, w') \<and>
     runAlertSweep (\<lambda>_ _. True) env0 w' = (Inr 0, w')"
proof -
  let ?w = "world0\<lparr>db := db0\<lparr>savedSearches := [saved0]\<rparr>\<rparr>"
  have "0 < countNewMatches (\<lambda>_ _. True) (filters_of (ssCriteria saved0)) (lastNotifiedAt saved0) env0 (db ?w)"
    by (simp add: countNewMatches_def buildQuery_eq filters_of_def saved0_def meets_def sample_defs)
  then show ?thesis
    using alert_sweep_settles [of ?w env0 "\<lambda>_ _. True"] by (auto simp: saved0_def sample_defs)
qed

end
