(* ===== verification/School.thy ===== *)
theory School
  imports Documents Remediation
begin

text \<open>
  School verification: \<open>school-verification/grande-ecoles.constant.ts\<close> and
  \<open>school-verification/school-verification.service.ts\<close>. Texts are Latin-1, with the Windows-1252
  code for the em dash of the school names. Text recognition is a function of the deployment. The
  wording of review notes is left out.
\<close>

section \<open>Names on a diploma\<close>

text \<open>Lower case without accents; every other character but a letter or a digit is a space.\<close>

definition base_letter :: "char \<Rightarrow> char" where
  "base_letter c = (let n = of_char c :: nat in
     if n \<in> {0xC0..0xC5} \<union> {0xE0..0xE5} then CHR ''a''
     else if n \<in> {0xC7, 0xE7} then CHR ''c''
     else if n \<in> {0xC8..0xCB} \<union> {0xE8..0xEB} then CHR ''e''
     else if n \<in> {0xCC..0xCF} \<union> {0xEC..0xEF} then CHR ''i''
     else if n \<in> {0xD1, 0xF1} then CHR ''n''
     else if n \<in> {0xD2..0xD6} \<union> {0xF2..0xF6} then CHR ''o''
     else if n \<in> {0xD9..0xDC} \<union> {0xF9..0xFC} then CHR ''u''
     else if n \<in> {0xDD, 0xFD, 0xFF} then CHR ''y''
     else lower_char c)"

definition plain_char :: "char \<Rightarrow> bool" where
  "plain_char c \<longleftrightarrow> (let n = of_char c :: nat in 48 \<le> n \<and> n \<le> 57 \<or> 97 \<le> n \<and> n \<le> 122)"

fun collapse :: "string \<Rightarrow> string" where
  "collapse (x # y # xs) =
     (if x = CHR '' '' \<and> y = CHR '' '' then collapse (y # xs) else x # collapse (y # xs))"
| "collapse xs = xs"

definition normalize :: "string \<Rightarrow> string" where
  "normalize s = trim (collapse (map (\<lambda>c. if plain_char (base_letter c) then base_letter c else CHR '' '') s))"

definition em_dash :: string where "em_dash = [CHR 0x97]"
definition E_acute :: string where "E_acute = [CHR 0xC9]"
definition quote :: string where "quote = [CHR 0x27]"

record grande_ecole =
  geName :: string
  geAliases :: "string list"

definition GRANDES_ECOLES :: "grande_ecole list" where
  "GRANDES_ECOLES =
     [\<lparr>geName = ''ENSIAS '' @ em_dash @ '' '' @ E_acute @ ''cole Nationale Sup'' @ e_acute @ ''rieure d'' @ quote
          @ ''Informatique et d'' @ quote @ ''Analyse des Syst'' @ [CHR 0xE8] @ ''mes'',
       geAliases = [''ensias'', ''ecole nationale superieure d informatique et d analyse des systemes'']\<rparr>,
      \<lparr>geName = ''EMI '' @ em_dash @ '' '' @ E_acute @ ''cole Mohammadia d'' @ quote @ ''Ing'' @ e_acute @ ''nieurs'',
       geAliases = [''emi'', ''ecole mohammadia d ingenieurs'', ''mohammadia ingenieurs'']\<rparr>,
      \<lparr>geName = ''INPT '' @ em_dash @ '' Institut National des Postes et T'' @ e_acute @ ''l'' @ e_acute @ ''communications'',
       geAliases = [''inpt'', ''institut national des postes et telecommunications'']\<rparr>,
      \<lparr>geName = ''ENIM '' @ em_dash @ '' '' @ E_acute @ ''cole Nationale de l'' @ quote @ ''Industrie Min'' @ e_acute @ ''rale'',
       geAliases = [''enim'', ''ecole nationale de l industrie minerale'', ''industrie minerale'']\<rparr>,
      \<lparr>geName = ''EHTP '' @ em_dash @ '' '' @ E_acute @ ''cole Hassania des Travaux Publics'',
       geAliases = [''ehtp'', ''ecole hassania des travaux publics'', ''hassania'']\<rparr>,
      \<lparr>geName = ''INSEA '' @ em_dash @ '' Institut National de Statistique et d'' @ quote @ E_acute @ ''conomie Appliqu'' @ e_acute @ ''e'',
       geAliases = [''insea'', ''institut national de statistique et d economie appliquee'']\<rparr>,
      \<lparr>geName = ''UM6P '' @ em_dash @ '' Universit'' @ e_acute @ '' Mohammed VI Polytechnique'',
       geAliases = [''um6p'', ''universite mohammed vi polytechnique'', ''mohammed vi polytechnique'']\<rparr>,
      \<lparr>geName = ''UIR '' @ em_dash @ '' Universit'' @ e_acute @ '' Internationale de Rabat'',
       geAliases = [''uir'', ''universite internationale de rabat'']\<rparr>,
      \<lparr>geName = ''ENSEM '' @ em_dash @ '' '' @ E_acute @ ''cole Nationale Sup'' @ e_acute @ ''rieure d'' @ quote @ E_acute
          @ ''lectricit'' @ e_acute @ '' et de M'' @ e_acute @ ''canique'',
       geAliases = [''ensem'', ''ecole nationale superieure d electricite et de mecanique'']\<rparr>,
      \<lparr>geName = ''ESITH '' @ em_dash @ '' '' @ E_acute @ ''cole Sup'' @ e_acute @ ''rieure des Industries du Textile et de l'' @ quote
          @ ''Habillement'',
       geAliases = [''esith'', ''ecole superieure des industries du textile et de l habillement'']\<rparr>,
      \<lparr>geName = ''EMSI '' @ em_dash @ '' '' @ E_acute @ ''cole Marocaine des Sciences de l'' @ quote @ ''Ing'' @ e_acute @ ''nieur'',
       geAliases = [''emsi'', ''ecole marocaine des sciences de l ingenieur'']\<rparr>]"

text \<open>\<open>/\bneedle\b/\<close>, for a needle that begins and ends with a word character.\<close>

definition word_at :: "string \<Rightarrow> string \<Rightarrow> nat \<Rightarrow> bool" where
  "word_at needle s i \<longleftrightarrow> take (length needle) (drop i s) = needle \<and>
     (i = 0 \<or> \<not> word_char (s ! (i - 1))) \<and>
     (length s \<le> i + length needle \<or> \<not> word_char (s ! (i + length needle)))"

definition has_word :: "string \<Rightarrow> string \<Rightarrow> bool" where
  "has_word needle s = list_ex (word_at needle s) [0..<length s]"

definition matchGrandeEcole :: "string \<Rightarrow> (string \<times> string) option" where
  "matchGrandeEcole extracted =
     (let s = normalize extracted in
      if s = [] then None
      else List.find (\<lambda>(name, a). normalize a \<noteq> [] \<and> has_word (normalize a) s)
        (concat (map (\<lambda>g. map (Pair (geName g)) (geAliases g)) GRANDES_ECOLES)))"

section \<open>The service\<close>

definition DIPLOMA_MAX_SIZE :: rat where "DIPLOMA_MAX_SIZE = 8 * 1024 * 1024"
definition DIPLOMA_ALLOWED_TYPES :: string where
  "DIPLOMA_ALLOWED_TYPES = ''application/pdf,image/jpeg,image/png''"
definition DEFAULT_AUTO_APPROVE_MIN_CONFIDENCE :: rat where
  "DEFAULT_AUTO_APPROVE_MIN_CONFIDENCE = 92"

text \<open>The previous submission goes: its row, then its file and its document.\<close>

definition dropSubmission :: "env \<Rightarrow> uuid \<Rightarrow> unit service" where
  "dropSubmission env profileId =
     bindE (gets (\<lambda>w. List.find (\<lambda>v. svProfileId v = profileId) (schoolVerifications (db w)))) (\<lambda>existing.
     case existing of
       None \<Rightarrow> ret ()
     | Some v \<Rightarrow>
         bindE (gets (\<lambda>w. List.find (\<lambda>x. dcId x = svDocumentId v) (documents (db w)))) (\<lambda>old.
         bindE (modify (\<lambda>w. w\<lparr>db := (db w)\<lparr>schoolVerifications :=
                  delete_where (\<lambda>x. svId x = svId v) (schoolVerifications (db w))\<rparr>\<rparr>)) (\<lambda>_.
         case old of None \<Rightarrow> ret () | Some x \<Rightarrow> dropCV env x)))"

text \<open>The badge: \<open>UPDATE candidate_profiles SET school_verified = true\<close>, with the school when known.\<close>

definition markVerified :: "env \<Rightarrow> uuid \<Rightarrow> string option \<Rightarrow> unit service" where
  "markVerified env profileId matched = modify (\<lambda>w. w\<lparr>db := (db w)\<lparr>candidateProfiles :=
     update_where (\<lambda>p. cpId p = profileId)
       (\<lambda>p. p\<lparr>schoolVerified := True, school := (if filled matched then matched else school p),
              cpUpdatedAt := now env\<rparr>)
       (candidateProfiles (db w))\<rparr>\<rparr>)"

definition submitDiploma :: "crypto \<Rightarrow> env \<Rightarrow> uuid \<Rightarrow> attachment_upload \<Rightarrow> school_verification service" where
  "submitDiploma cr env who file =
     bindE (checkUpload env ''diploma_max_size_bytes'' DIPLOMA_MAX_SIZE ''diploma_allowed_mime_types''
              DIPLOMA_ALLOWED_TYPES file) (\<lambda>_.
     bindE (findOrCreateProfile env who) (\<lambda>p.
     bindE freshId (\<lambda>draw.
     bindE (ret (''diploma/'' @ dec who @ ''/'' @ uuidv4 cr draw @ ''-'' @ upName file)) (\<lambda>key.
     bindE (upload env key) (\<lambda>_.
     bindE (dropSubmission env (cpId p)) (\<lambda>_.
     bindE freshId (\<lambda>di.
     bindE (saveDocument \<lparr>dcId = di, dcOwnerId = who, dcType = DOC_DIPLOMA, storageKey = key,
              originalName = upName file, mimeType = upMime file, dcSize = upSize file,
              scanStatus = SCAN_CLEAN, dcCreatedAt = now env\<rparr>) (\<lambda>x.
     bindE (someOr (ServiceUnavailable ''ocr'') (ocr env (upBuffer file) (upMime file))) (\<lambda>(text, confidence).
     bindE (ret (map_option fst (matchGrandeEcole text))) (\<lambda>match.
     bindE (numberOr env ''school_verification_auto_approve_min_confidence''
              DEFAULT_AUTO_APPROVE_MIN_CONFIDENCE) (\<lambda>autoMin.
     bindE (ret (match \<noteq> None \<and> jsLe autoMin (Finite confidence))) (\<lambda>auto.
     bindE (scoreColumn (Finite confidence)) (\<lambda>stored.
     bindE freshId (\<lambda>i.
     bindE (saveVerification \<lparr>svId = i, svProfileId = cpId p, svDocumentId = dcId x,
              svStatus = (if auto then VERIFIED else SV_PENDING), ocrExtractedText = Some text,
              matchedSchool = match, svConfidence = Some stored, reviewedBy = None,
              reviewedAt = (if auto then Some (now env) else None),
              reviewNote = Some (if auto then ''auto-approved'' else if match = None then ''not-referenced''
                else ''low-confidence''), svCreatedAt = now env\<rparr>) (\<lambda>v.
     bindE (if auto then markVerified env (cpId p) match else ret ()) (\<lambda>_. ret v))))))))))))))))"

definition getMyVerification :: "uuid \<Rightarrow> school_verification option service" where
  "getMyVerification who =
     bindE (findProfileByUserId who) (\<lambda>found.
     case found of
       None \<Rightarrow> ret None
     | Some p \<Rightarrow> gets (\<lambda>w. List.find (\<lambda>v. svProfileId v = cpId p) (schoolVerifications (db w))))"

definition listPendingVerifications :: "school_verification list service" where
  "listPendingVerifications = gets (\<lambda>w.
     sort_key svCreatedAt (filter (\<lambda>v. svStatus v = SV_PENDING) (schoolVerifications (db w))))"

definition getDetailForAdmin :: "env \<Rightarrow> uuid \<Rightarrow> (school_verification \<times> string) service" where
  "getDetailForAdmin env i =
     bindE (gets (\<lambda>w. Option.bind (List.find (\<lambda>v. svId v = i) (schoolVerifications (db w))) (\<lambda>v.
              map_option (Pair v) (List.find (\<lambda>x. dcId x = svDocumentId v) (documents (db w)))))) (\<lambda>found.
     bindE (someOr (NotFoundException ''verification'') found) (\<lambda>(v, x).
     bindE (someOr (ServiceUnavailable ''storage'') (signedUrl env (storageKey x))) (\<lambda>url. ret (v, url))))"

definition claimPendingDecision ::
  "env \<Rightarrow> uuid \<Rightarrow> uuid \<Rightarrow> string option \<Rightarrow> school_status \<Rightarrow> school_verification service" where
  "claimPendingDecision env i admin remark status =
     bindE (gets (\<lambda>w. 0 < count_where (\<lambda>v. svId v = i \<and> svStatus v = SV_PENDING) (schoolVerifications (db w)))) (\<lambda>won.
     bindE (modify (\<lambda>w. w\<lparr>db := (db w)\<lparr>schoolVerifications :=
       update_where (\<lambda>v. svId v = i \<and> svStatus v = SV_PENDING)
         (\<lambda>v. v\<lparr>svStatus := status, reviewedBy := Some admin, reviewedAt := Some (now env), reviewNote := remark\<rparr>)
         (schoolVerifications (db w))\<rparr>\<rparr>)) (\<lambda>_.
     bindE (gets (\<lambda>w. List.find (\<lambda>v. svId v = i) (schoolVerifications (db w)))) (\<lambda>found.
     bindE (someOr (NotFoundException ''verification'') found) (\<lambda>v.
     bindE (require won (ConflictException ''reviewed'')) (\<lambda>_. ret v)))))"

definition approveVerification :: "env \<Rightarrow> uuid \<Rightarrow> uuid \<Rightarrow> string option \<Rightarrow> school_verification service" where
  "approveVerification env i admin remark =
     bindE (claimPendingDecision env i admin remark VERIFIED) (\<lambda>v.
     bindE (markVerified env (svProfileId v) (matchedSchool v)) (\<lambda>_. ret v))"

definition rejectVerification :: "env \<Rightarrow> uuid \<Rightarrow> uuid \<Rightarrow> string option \<Rightarrow> school_verification service" where
  "rejectVerification env i admin remark = claimPendingDecision env i admin remark SV_REJECTED"

end
