(* ===== verification/Jobs.thy ===== *)
theory Jobs
  imports Search
begin

text \<open>
  Job offers and applications: \<open>jobs/jobs.service.ts\<close>, \<open>jobs/applications.service.ts\<close>. A
  \<open>simple-array\<close> column is matched as the text it is stored as, joined with commas. A deadline comes
  already parsed; in an update \<open>None\<close> is an absent field.
\<close>

section \<open>Offers of a company\<close>

record job_input =
  jiTitle :: "string option option"
  jiDescription :: "string option option"
  jiLocation :: "string option option"
  jiContractType :: "job_contract_type option option"
  jiExperienceLevel :: "experience_level option option"
  jiSkills :: "string list option option"
  jiDeadline :: "date option option"

definition createOffer ::
  "env \<Rightarrow> uuid \<Rightarrow> uuid \<Rightarrow> string \<Rightarrow> job_input \<Rightarrow> job_offer service" where
  "createOffer env companyId createdBy title u =
     bindE freshId (\<lambda>i.
     saveOffer \<lparr>joId = i, joCompanyId = companyId, joCreatedBy = createdBy, joTitle = title,
       joDescription = assigned (jiDescription u) None, joLocation = assigned (jiLocation u) None,
       joContractType = assigned (jiContractType u) None,
       joExperienceLevel = assigned (jiExperienceLevel u) None, joSkills = assigned (jiSkills u) None,
       joStatus = DRAFT, publishedAt = None, joDeadline = assigned (jiDeadline u) None,
       joCreatedAt = now env\<rparr>)"

definition loadForCompany :: "uuid \<Rightarrow> uuid \<Rightarrow> job_offer service" where
  "loadForCompany i companyId =
     bindE (gets (\<lambda>w. List.find (\<lambda>x. joId x = i \<and> joCompanyId x = companyId) (jobOffers (db w)))) (\<lambda>found.
     someOr (NotFoundException ''offer'') found)"

definition updateOffer :: "uuid \<Rightarrow> uuid \<Rightarrow> job_input \<Rightarrow> job_offer service" where
  "updateOffer companyId i u =
     bindE (loadForCompany i companyId) (\<lambda>x.
     bindE (required (jiTitle u) (joTitle x)) (\<lambda>title.
     saveOffer (x\<lparr>joTitle := title, joDescription := assigned (jiDescription u) (joDescription x),
       joLocation := assigned (jiLocation u) (joLocation x),
       joContractType := assigned (jiContractType u) (joContractType x),
       joExperienceLevel := assigned (jiExperienceLevel u) (joExperienceLevel x),
       joSkills := assigned (jiSkills u) (joSkills x),
       joDeadline := assigned (jiDeadline u) (joDeadline x)\<rparr>)))"

definition publishOffer :: "env \<Rightarrow> uuid \<Rightarrow> uuid \<Rightarrow> job_offer service" where
  "publishOffer env companyId i =
     bindE (loadForCompany i companyId) (\<lambda>x.
     saveOffer (x\<lparr>joStatus := PUBLISHED, publishedAt := Some (orElse (publishedAt x) (now env))\<rparr>))"

definition closeOffer :: "uuid \<Rightarrow> uuid \<Rightarrow> job_offer service" where
  "closeOffer companyId i =
     bindE (loadForCompany i companyId) (\<lambda>x. saveOffer (x\<lparr>joStatus := CLOSED\<rparr>))"

definition withCounts :: "db \<Rightarrow> job_offer list \<Rightarrow> (job_offer \<times> int) list" where
  "withCounts d xs = map (\<lambda>x. (x, count_where (\<lambda>a. jaOfferId a = joId x) (jobApplications d))) xs"

definition listForCompany :: "uuid \<Rightarrow> (job_offer \<times> int) list service" where
  "listForCompany companyId = gets (\<lambda>w.
     withCounts (db w) (newest_first joCreatedAt (filter (\<lambda>x. joCompanyId x = companyId) (jobOffers (db w)))))"

definition getForCompany :: "uuid \<Rightarrow> uuid \<Rightarrow> (job_offer \<times> int) service" where
  "getForCompany companyId i =
     bindE (loadForCompany i companyId) (\<lambda>x. gets (\<lambda>w. hd (withCounts (db w) [x])))"

section \<open>Published offers\<close>

record job_search =
  jsQ :: "string option"
  jsLocation :: "string option"
  jsContractType :: "job_contract_type option"
  jsSkills :: "string list option"
  jsPage :: nat
  jsLimit :: nat

fun join_with :: "string \<Rightarrow> string list \<Rightarrow> string" where
  "join_with sep [] = []"
| "join_with sep [x] = x"
| "join_with sep (x # y # xs) = x @ sep @ join_with sep (y # xs)"

definition offer_matches :: "job_search \<Rightarrow> job_offer \<Rightarrow> bool" where
  "offer_matches f x \<longleftrightarrow> joStatus x = PUBLISHED \<and>
     (case jsQ f of None \<Rightarrow> True | Some q \<Rightarrow> q = [] \<or>
        ilike (Some (joTitle x)) (containing q) \<or> ilike (joDescription x) (containing q)) \<and>
     (case jsLocation f of None \<Rightarrow> True | Some q \<Rightarrow> q = [] \<or> ilike (joLocation x) (containing q)) \<and>
     (case jsContractType f of None \<Rightarrow> True | Some c \<Rightarrow> joContractType x = Some c) \<and>
     (case jsSkills f of None \<Rightarrow> True | Some ss \<Rightarrow> ss = [] \<or>
        list_ex (\<lambda>s. ilike (map_option (join_with '','') (joSkills x)) (containing s)) ss)"

text \<open>By publication, then by creation, both descending; no publication date comes first.\<close>

definition offers_in_order :: "job_offer list \<Rightarrow> job_offer list" where
  "offers_in_order xs =
     (let ys = newest_first joCreatedAt xs
      in filter (\<lambda>x. publishedAt x = None) ys
         @ newest_first (\<lambda>x. the (publishedAt x)) (filter (\<lambda>x. publishedAt x \<noteq> None) ys))"

definition searchPublished :: "job_search \<Rightarrow> ((job_offer \<times> int) list \<times> nat) service" where
  "searchPublished f = gets (\<lambda>w.
     let rows = filter (offer_matches f) (jobOffers (db w))
     in (withCounts (db w) (take (jsLimit f) (drop ((jsPage f - 1) * jsLimit f) (offers_in_order rows))),
         length rows))"

definition getPublished :: "uuid \<Rightarrow> (job_offer \<times> int) service" where
  "getPublished i =
     bindE (gets (\<lambda>w. List.find (\<lambda>x. joId x = i \<and> joStatus x = PUBLISHED) (jobOffers (db w)))) (\<lambda>found.
     bindE (someOr (NotFoundException ''offer'') found) (\<lambda>x.
     gets (\<lambda>w. hd (withCounts (db w) [x]))))"

section \<open>Applications\<close>

definition APPLY_MIN_COMPLETENESS :: rat where "APPLY_MIN_COMPLETENESS = 70"

datatype eligibility_reason = PROFILE_INCOMPLETE | NO_COMPLETED_ASSESSMENT

record apply_eligibility =
  eligible :: bool
  aeCompleteness :: js_number
  completedAssessments :: int
  reasons :: "eligibility_reason list"

definition computeEligibility :: "uuid \<Rightarrow> (candidate_profile option \<times> apply_eligibility) service" where
  "computeEligibility c =
     bindE (findProfileByUserId c) (\<lambda>profile.
     gets (\<lambda>w.
       let full = (case profile of None \<Rightarrow> Finite 0 | Some p \<Rightarrow> completeness p);
           done = count_where (\<lambda>a. asCandidateId a = c \<and> asStatus a = AS_COMPLETED) (assessments (db w));
           rs = (if jsLt full (Finite APPLY_MIN_COMPLETENESS) then [PROFILE_INCOMPLETE] else [])
             @ (if done < 1 then [NO_COMPLETED_ASSESSMENT] else [])
       in (profile, \<lparr>eligible = (rs = []), aeCompleteness = full, completedAssessments = done,
             reasons = rs\<rparr>)))"

definition getEligibility :: "uuid \<Rightarrow> apply_eligibility service" where
  "getEligibility c = bindE (computeEligibility c) (\<lambda>e. ret (snd e))"

definition applyTo :: "env \<Rightarrow> uuid \<Rightarrow> uuid \<Rightarrow> string option \<Rightarrow> job_application service" where
  "applyTo env c offerId letter =
     bindE (gets (\<lambda>w. List.find (\<lambda>x. joId x = offerId) (jobOffers (db w)))) (\<lambda>found.
     bindE (require (case found of None \<Rightarrow> False | Some x \<Rightarrow> joStatus x = PUBLISHED)
              (NotFoundException ''offer'')) (\<lambda>_.
     bindE (computeEligibility c) (\<lambda>(profile, e).
     bindE (require (eligible e) (ForbiddenException ''APPLICATION_NOT_ELIGIBLE'')) (\<lambda>_.
     bindE (someOr (BadRequestException ''profile'') profile) (\<lambda>p.
     bindE (gets (\<lambda>w. List.find (\<lambda>a. jaOfferId a = offerId \<and> jaCandidateId a = c) (jobApplications (db w))))
       (\<lambda>existing.
     bindE (require (existing = None) (ConflictException ''applied'')) (\<lambda>_.
     bindE freshId (\<lambda>i.
     saveApplication \<lparr>jaId = i, jaOfferId = offerId, jaCandidateId = c, jaProfileId = cpId p,
       jaStatus = APPLIED, coverLetter = letter, jaCreatedAt = now env\<rparr>))))))))"

record my_application =
  maId :: uuid
  maStatus :: application_status
  maCreatedAt :: date
  maOfferId :: uuid
  maOfferTitle :: string
  maCompanyName :: "string option"
  maOfferStatus :: job_status

definition my_application_of :: "db \<Rightarrow> job_application \<Rightarrow> my_application option" where
  "my_application_of d a =
     map_option (\<lambda>x. \<lparr>maId = jaId a, maStatus = jaStatus a, maCreatedAt = jaCreatedAt a,
         maOfferId = joId x, maOfferTitle = joTitle x,
         maCompanyName = map_option coName (List.find (\<lambda>c. coId c = joCompanyId x) (companies d)),
         maOfferStatus = joStatus x\<rparr>)
       (List.find (\<lambda>x. joId x = jaOfferId a) (jobOffers d))"

definition listMyApplications :: "uuid \<Rightarrow> my_application list service" where
  "listMyApplications c = gets (\<lambda>w. List.map_filter (my_application_of (db w))
     (newest_first jaCreatedAt (filter (\<lambda>a. jaCandidateId a = c) (jobApplications (db w)))))"

record recruiter_application =
  raId :: uuid
  raStatus :: application_status
  raCoverLetter :: "string option"
  raCreatedAt :: date
  raProfileId :: uuid
  raFirstName :: "string option"
  raLastName :: "string option"
  raHeadline :: "string option"

definition recruiter_application_of :: "db \<Rightarrow> job_application \<Rightarrow> recruiter_application" where
  "recruiter_application_of d a =
     (let p = List.find (\<lambda>x. cpId x = jaProfileId a) (candidateProfiles d) in
      \<lparr>raId = jaId a, raStatus = jaStatus a, raCoverLetter = coverLetter a, raCreatedAt = jaCreatedAt a,
       raProfileId = jaProfileId a, raFirstName = Option.bind p firstName,
       raLastName = Option.bind p lastName, raHeadline = Option.bind p headline\<rparr>)"

definition listForOffer :: "uuid \<Rightarrow> uuid \<Rightarrow> recruiter_application list service" where
  "listForOffer offerId companyId =
     bindE (loadForCompany offerId companyId) (\<lambda>_.
     gets (\<lambda>w. map (recruiter_application_of (db w))
       (newest_first jaCreatedAt (filter (\<lambda>a. jaOfferId a = offerId) (jobApplications (db w))))))"

definition updateApplicationStatus :: "uuid \<Rightarrow> uuid \<Rightarrow> application_status \<Rightarrow> job_application service" where
  "updateApplicationStatus i companyId status =
     bindE (gets (\<lambda>w. List.find (\<lambda>a. jaId a = i) (jobApplications (db w)))) (\<lambda>found.
     bindE (gets (\<lambda>w. case found of None \<Rightarrow> False
              | Some a \<Rightarrow> list_ex (\<lambda>x. joId x = jaOfferId a \<and> joCompanyId x = companyId) (jobOffers (db w)))) (\<lambda>own.
     bindE (require own (NotFoundException ''application'')) (\<lambda>_.
     saveApplication ((the found)\<lparr>jaStatus := status\<rparr>))))"

end
