(* ===== verification/Insights.thy ===== *)
theory Insights
  imports Jobs
begin

text \<open>
  What is computed from the tables for reading: the integrity indicators of \<open>anti-cheat/anti-cheat.ts\<close>
  and \<open>anti-cheat/anti-cheat.service.ts\<close>, the public badge of \<open>growth/score-badge.service.ts\<close>, the
  reports of \<open>analytics/admin-analytics.service.ts\<close>, \<open>analytics/recruiter-analytics.service.ts\<close> and
  \<open>analytics/analytics.service.ts\<close>; and the purge of \<open>notifications/data-retention.service.ts\<close>. Days
  are day numbers in place of their ISO texts.
\<close>

section \<open>Integrity of a candidate\<close>

datatype suspicion_level = LOW | MEDIUM_LEVEL | HIGH

record integrity_signals =
  igTabSwitch :: int
  igWindowBlur :: int
  igProctoring :: bool
  igMultiAccount :: bool

definition computeSuspicionLevel :: "integrity_signals \<Rightarrow> suspicion_level" where
  "computeSuspicionLevel s =
     (if igProctoring s \<or> igMultiAccount s then HIGH
      else if 3 \<le> igTabSwitch s \<or> 3 \<le> igWindowBlur s then MEDIUM_LEVEL
      else LOW)"

definition countSuspiciousEvents :: "integrity_signals \<Rightarrow> int" where
  "countSuspiciousEvents s = igTabSwitch s + igWindowBlur s +
     (if igProctoring s then 1 else 0) + (if igMultiAccount s then 1 else 0)"

definition getAntiCheat :: "uuid \<Rightarrow> bool service" where
  "getAntiCheat companyId = gets (\<lambda>w.
     case List.find (\<lambda>c. coId c = companyId) (companies (db w)) of None \<Rightarrow> True | Some c \<Rightarrow> antiCheatEnabled c)"

definition setAntiCheat :: "uuid \<Rightarrow> bool \<Rightarrow> bool service" where
  "setAntiCheat companyId on =
     bindE (modify (\<lambda>w. w\<lparr>db := (db w)\<lparr>companies :=
       update_where (\<lambda>c. coId c = companyId) (\<lambda>c. c\<lparr>antiCheatEnabled := on\<rparr>) (companies (db w))\<rparr>\<rparr>)) (\<lambda>_.
     ret on)"

record candidate_integrity =
  ciEnabled :: bool
  ciCount :: nat
  ciSignals :: integrity_signals
  ciEvents :: int
  ciLevel :: suspicion_level

definition signalsOf :: "assessment list \<Rightarrow> integrity_signals" where
  "signalsOf as = \<lparr>igTabSwitch = sum_list (map tabSwitchCount as),
     igWindowBlur = sum_list (map windowBlurCount as), igProctoring = list_ex proctoringFlagged as,
     igMultiAccount = list_ex multiAccountFlagged as\<rparr>"

definition getCandidateIntegrity :: "uuid \<Rightarrow> uuid \<Rightarrow> candidate_integrity service" where
  "getCandidateIntegrity companyId profileId =
     bindE (getAntiCheat companyId) (\<lambda>on.
     bindE (gets (\<lambda>w. List.find (\<lambda>p. cpId p = profileId) (candidateProfiles (db w)))) (\<lambda>found.
     bindE (someOr (NotFoundException ''candidate'') found) (\<lambda>p.
     gets (\<lambda>w. let as = filter (\<lambda>a. asCandidateId a = cpUserId p) (assessments (db w)); s = signalsOf as in
       \<lparr>ciEnabled = on, ciCount = length as, ciSignals = s, ciEvents = countSuspiciousEvents s,
        ciLevel = computeSuspicionLevel s\<rparr>))))"

section \<open>The public badge\<close>

datatype badge_level = BEGINNER | INTERMEDIATE | ADVANCED | EXPERT

definition levelFor :: "js_number \<Rightarrow> badge_level" where
  "levelFor v =
     (if jsLe (Finite 85) v then EXPERT else if jsLe (Finite 70) v then ADVANCED
      else if jsLe (Finite 50) v then INTERMEDIATE else BEGINNER)"

record public_badge =
  pbScore :: js_number
  pbPercentile :: "rat option"
  pbSpecialty :: "string option"
  pbLevel :: badge_level
  pbIssuedAt :: date
  pbDisplayName :: "string option"

text \<open>\<open>None\<close> stands for the dash shown when the specialty is unknown.\<close>

definition toPublic :: "db \<Rightarrow> score \<Rightarrow> string option \<Rightarrow> public_badge" where
  "toPublic d s display =
     \<lparr>pbScore = scValue s, pbPercentile = scPercentile s,
      pbSpecialty = Option.bind (List.find (\<lambda>a. asId a = scAssessmentId s) (assessments d))
        (\<lambda>a. hiSpecialtyName (history_item_of d a)),
      pbLevel = levelFor (scValue s), pbIssuedAt = scCreatedAt s, pbDisplayName = display\<rparr>"

text \<open>\<open>ORDER BY value DESC\<close>, the first row; no condition on verdict or expiry.\<close>

definition findBestScore :: "db \<Rightarrow> uuid \<Rightarrow> score option" where
  "findBestScore d c =
     (let own = filter (\<lambda>s. list_ex (\<lambda>a. asId a = scAssessmentId s \<and> asCandidateId a = c) (assessments d)) (scores d)
      in case sortBy (\<lambda>s t. pgLe (scValue t) (scValue s)) own of [] \<Rightarrow> None | s # _ \<Rightarrow> Some s)"

record badge_status =
  hasBadge :: bool
  bsEnabled :: bool
  bsToken :: "string option"
  bsBadge :: "public_badge option"
  hasScore :: bool

definition badgeScore :: "db \<Rightarrow> score_badge \<Rightarrow> public_badge option" where
  "badgeScore d b = map_option (\<lambda>s. toPublic d s (bgDisplayName b))
     (List.find (\<lambda>s. scId s = bgScoreId b) (scores d))"

definition getBadgeStatus :: "uuid \<Rightarrow> badge_status service" where
  "getBadgeStatus who = gets (\<lambda>w.
     let scored = findBestScore (db w) who \<noteq> None in
     case List.find (\<lambda>b. bgUserId b = who) (scoreBadges (db w)) of
       None \<Rightarrow> \<lparr>hasBadge = False, bsEnabled = False, bsToken = None, bsBadge = None, hasScore = scored\<rparr>
     | Some b \<Rightarrow> \<lparr>hasBadge = True, bsEnabled = bgEnabled b, bsToken = Some (bgToken b),
         bsBadge = badgeScore (db w) b, hasScore = scored\<rparr>)"

definition enableBadge :: "crypto \<Rightarrow> uuid \<Rightarrow> string option \<Rightarrow> badge_status service" where
  "enableBadge cr who display =
     bindE (gets (\<lambda>w. findBestScore (db w) who)) (\<lambda>best.
     bindE (someOr (BadRequestException ''no-score'') best) (\<lambda>s.
     bindE (gets (\<lambda>w. List.find (\<lambda>b. bgUserId b = who) (scoreBadges (db w)))) (\<lambda>found.
     bindE (case found of
              None \<Rightarrow> bindE freshId (\<lambda>draw. bindE freshId (\<lambda>i.
                ret \<lparr>bgId = i, bgUserId = who, bgScoreId = scId s, bgToken = uuidv4 cr draw,
                     bgEnabled = True, bgDisplayName = trimOrNone display\<rparr>))
            | Some b \<Rightarrow> ret (b\<lparr>bgScoreId := scId s, bgEnabled := True,
                bgDisplayName := (if display = None then bgDisplayName b else trimOrNone display)\<rparr>)) (\<lambda>b.
     bindE (saveBadge b) (\<lambda>_. getBadgeStatus who)))))"

definition disableBadge :: "uuid \<Rightarrow> badge_status service" where
  "disableBadge who =
     bindE (gets (\<lambda>w. List.find (\<lambda>b. bgUserId b = who) (scoreBadges (db w)))) (\<lambda>found.
     bindE (case found of
              None \<Rightarrow> ret ()
            | Some b \<Rightarrow> if bgEnabled b then bindE (saveBadge (b\<lparr>bgEnabled := False\<rparr>)) (\<lambda>_. ret ()) else ret ()) (\<lambda>_.
     getBadgeStatus who))"

definition getPublicBadge :: "string \<Rightarrow> public_badge service" where
  "getPublicBadge token =
     bindE (gets (\<lambda>w. List.find (\<lambda>b. bgToken b = token \<and> bgEnabled b) (scoreBadges (db w)))) (\<lambda>found.
     bindE (someOr (NotFoundException ''badge'') found) (\<lambda>b.
     bindE (gets (\<lambda>w. badgeScore (db w) b)) (\<lambda>shown. someOr (NotFoundException ''badge'') shown)))"

section \<open>Reports\<close>

record admin_overview =
  aoUsers :: nat
  aoCandidates :: int
  aoRecruiters :: int
  aoCompanies :: nat
  aoActiveSubscriptions :: int
  aoByPlan :: "plan \<Rightarrow> int"
  aoJobs :: nat
  aoPublished :: int
  aoApplications :: nat
  aoAssessments :: nat
  aoCompleted :: int

definition running :: "subscription \<Rightarrow> bool" where
  "running s \<longleftrightarrow> subStatus s = TRIAL \<or> subStatus s = ACTIVE"

definition adminOverview :: "admin_overview service" where
  "adminOverview = gets (\<lambda>w. let d = db w in
     \<lparr>aoUsers = length (users d), aoCandidates = count_where (\<lambda>u. CANDIDATE \<in> set (roles u)) (users d),
      aoRecruiters = count_where (\<lambda>u. RECRUITER \<in> set (roles u) \<or> COMPANY_ADMIN \<in> set (roles u)) (users d),
      aoCompanies = length (companies d), aoActiveSubscriptions = count_where running (subscriptions d),
      aoByPlan = (\<lambda>p. count_where (\<lambda>s. running s \<and> subPlan s = p) (subscriptions d)),
      aoJobs = length (jobOffers d), aoPublished = count_where (\<lambda>x. joStatus x = PUBLISHED) (jobOffers d),
      aoApplications = length (jobApplications d), aoAssessments = length (assessments d),
      aoCompleted = count_where (\<lambda>a. asStatus a = AS_COMPLETED) (assessments d)\<rparr>)"

definition FUNNEL_ORDER :: "analytics_type list" where
  "FUNNEL_ORDER = [A_SIGNUP, A_EMAIL_VERIFIED, A_TEST_STARTED, A_SCORE_OBTAINED, A_RECRUITER_CONTACT,
     A_SUBSCRIPTION_CREATED]"

text \<open>Without a range of days: events carry no date here.\<close>

definition funnel :: "(analytics_type \<times> int) list service" where
  "funnel = gets (\<lambda>w. map (\<lambda>t. (t, count_where (\<lambda>e. fst e = t) (analytics w))) FUNNEL_ORDER)"

record recruiter_overview =
  roRangeDays :: int
  roJobs :: "int \<times> int \<times> int \<times> int"
  roApplications :: int
  roByStatus :: "application_status \<Rightarrow> int"
  roShortlist :: int
  roConversations :: int
  roContacts :: "int \<times> int option"
  roTrend :: "(int \<times> int) list"
  roTopOffers :: "(uuid \<times> string \<times> int) list"

text \<open>The applications to the offers of a company.\<close>

definition applications_of :: "db \<Rightarrow> uuid \<Rightarrow> job_application list" where
  "applications_of d companyId =
     filter (\<lambda>a. list_ex (\<lambda>x. joId x = jaOfferId a \<and> joCompanyId x = companyId) (jobOffers d)) (jobApplications d)"

definition day_of :: "date \<Rightarrow> int" where
  "day_of t = t div ms_per_day"

text \<open>The days of the database and of \<open>toISOString\<close> are those of UTC.\<close>

definition applicationsTrend :: "db \<Rightarrow> uuid \<Rightarrow> date \<Rightarrow> int \<Rightarrow> int" where
  "applicationsTrend d companyId from day =
     count_where (\<lambda>a. from \<le> jaCreatedAt a \<and> day_of (jaCreatedAt a) = day) (applications_of d companyId)"

text \<open>\<open>setHours(0, 0, 0, 0)\<close>\<close>

definition midnight :: "env \<Rightarrow> date \<Rightarrow> date" where
  "midnight env t = fromLocal env (day_of (toLocal env t) * ms_per_day)"

definition fillDays :: "env \<Rightarrow> (int \<Rightarrow> int) \<Rightarrow> date \<Rightarrow> int \<Rightarrow> (int \<times> int) list" where
  "fillDays env counts from rangeDays =
     map (\<lambda>i. let day = day_of (midnight env from + int i * ms_per_day) in (day, counts day))
       [0..<nat rangeDays]"

text \<open>The five offers with the most applications; those without any are not joined.\<close>

definition topOffers :: "db \<Rightarrow> uuid \<Rightarrow> (uuid \<times> string \<times> int) list" where
  "topOffers d companyId =
     take 5 (newest_first (\<lambda>(i, t, n). n)
       (filter (\<lambda>(i, t, n). 0 < n)
         (map (\<lambda>x. (joId x, joTitle x, count_where (\<lambda>a. jaOfferId a = joId x) (jobApplications d)))
           (filter (\<lambda>x. joCompanyId x = companyId) (jobOffers d)))))"

definition recruiterOverview :: "env \<Rightarrow> uuid \<Rightarrow> js_number option \<Rightarrow> recruiter_overview service" where
  "recruiterOverview env companyId days =
     (let range = (case days of Some (Finite q) \<Rightarrow> if 0 < q then towardsZero q else 30 | _ \<Rightarrow> 30);
          from = now env - range * ms_per_day
      in gets (\<lambda>w. let d = db w; own = filter (\<lambda>x. joCompanyId x = companyId) (jobOffers d);
             n = (\<lambda>s. count_where (\<lambda>x. joStatus x = s) own);
             sub = List.find (\<lambda>s. subCompanyId s = companyId \<and> running s) (subscriptions d) in
           \<lparr>roRangeDays = range, roJobs = (int (length own), n PUBLISHED, n DRAFT, n CLOSED),
            roApplications = int (length (applications_of d companyId)),
            roByStatus = (\<lambda>s. count_where (\<lambda>a. jaStatus a = s) (applications_of d companyId)),
            roShortlist = count_where (\<lambda>e. slCompanyId e = companyId) (shortlist d),
            roConversations = count_where (\<lambda>c. convCompanyId c = companyId) (conversations d),
            roContacts = (case sub of None \<Rightarrow> (0, None) | Some s \<Rightarrow> (contactsUsed s, Some (contactQuota s))),
            roTrend = fillDays env (applicationsTrend d companyId from) from range,
            roTopOffers = topOffers d companyId\<rparr>))"

section \<open>Retention\<close>

text \<open>The deployment's windows in days, and the purges that fail.\<close>

record retention_config =
  windowDays :: "string \<Rightarrow> int option"
  purgeFails :: "string \<Rightarrow> bool"

definition cutoffFor :: "env \<Rightarrow> retention_config \<Rightarrow> string \<Rightarrow> int \<Rightarrow> date" where
  "cutoffFor env rc key fallback = now env - orElse (windowDays rc key) fallback * 86400000"

definition purge ::
  "retention_config \<Rightarrow> string \<Rightarrow> (db \<Rightarrow> 'r list) \<Rightarrow> (('r list \<Rightarrow> 'r list) \<Rightarrow> db \<Rightarrow> db) \<Rightarrow> ('r \<Rightarrow> bool) \<Rightarrow> int service" where
  "purge rc label tbl upd dead =
     (if purgeFails rc label then ret 0
      else bindE (gets (\<lambda>w. count_where dead (tbl (db w)))) (\<lambda>n.
           bindE (modify (\<lambda>w. w\<lparr>db := upd (delete_where dead) (db w)\<rparr>)) (\<lambda>_. ret n)))"

record retention_result =
  deletedNotifications :: int
  deletedRefreshTokens :: int
  deletedViewCooldowns :: int
  deletedWebhookEvents :: int
  rtCutoff :: date

definition dead_notification :: "date \<Rightarrow> notification \<Rightarrow> bool" where
  "dead_notification cutoff n \<longleftrightarrow> ntReadAt n \<noteq> None \<and> ntCreatedAt n < cutoff"

definition dead_token :: "env \<Rightarrow> date \<Rightarrow> refresh_token \<Rightarrow> bool" where
  "dead_token env cutoff t \<longleftrightarrow> rtCreatedAt t < cutoff \<and> (rtRevoked t \<or> rtExpiresAt t < now env)"

definition retentionSweep :: "env \<Rightarrow> retention_config \<Rightarrow> retention_result service" where
  "retentionSweep env rc =
     (let cutoff = cutoffFor env rc ''notificationRetentionDays'' 90 in
      bindE (purge rc ''notifications'' notifications notifications_update (dead_notification cutoff)) (\<lambda>a.
      bindE (purge rc ''tokens'' refreshTokens refreshTokens_update
               (dead_token env (cutoffFor env rc ''refreshTokenRetentionDays'' 30))) (\<lambda>b.
      bindE (purge rc ''cooldowns'' viewCooldowns viewCooldowns_update
               (\<lambda>c. vcLastNotifiedAt c < cutoffFor env rc ''profileViewCooldownRetentionDays'' 30)) (\<lambda>c.
      bindE (purge rc ''webhooks'' webhookEvents webhookEvents_update
               (\<lambda>e. processedAt e < cutoffFor env rc ''webhookEventRetentionDays'' 90)) (\<lambda>d.
      ret \<lparr>deletedNotifications = a, deletedRefreshTokens = b, deletedViewCooldowns = c,
        deletedWebhookEvents = d, rtCutoff = cutoff\<rparr>)))))"

end
