(* ===== verification/Talent_Props.thy ===== *)
theory Talent_Props
  imports School Insights World_Frames Exam_Props
begin

text \<open>
  The properties of job applications, of the review of diplomas and of the retention sweep.
\<close>

section \<open>Applications\<close>

lemma computeEligibility_eq:
  "computeEligibility c w = (Inr (List.find (\<lambda>p. cpUserId p = c) (candidateProfiles (db w)),
     snd (case computeEligibility c w of (Inr e, _) \<Rightarrow> e | _ \<Rightarrow> undefined)), w)"
  by (simp add: computeEligibility_def findProfileByUserId_def bindE_def Let_def)

lemma eligible_iff:
  assumes "computeEligibility c w = (Inr (profile, e), w')"
  shows "w' = w \<and> (eligible e \<longleftrightarrow> (\<exists>p. profile = Some p \<and> \<not> jsLt (completeness p) (Finite 70)) \<and>
    (\<exists>b \<in> set (assessments (db w)). asCandidateId b = c \<and> asStatus b = AS_COMPLETED)) \<and>
    profile = List.find (\<lambda>p. cpUserId p = c) (candidateProfiles (db w))"
proof -
  have "count_where P t < 1 \<longleftrightarrow> \<not> (\<exists>x \<in> set t. P x)" for P and t :: "assessment list"
    by (auto simp: count_where_def filter_empty_conv)
  then show ?thesis
    using assms by (auto simp: computeEligibility_def findProfileByUserId_def bindE_def Let_def
        APPLY_MIN_COMPLETENESS_def split: option.splits if_splits)
qed

definition published :: "uuid \<Rightarrow> db \<Rightarrow> bool" where
  "published i d \<longleftrightarrow> (case List.find (\<lambda>x. joId x = i) (jobOffers d) of None \<Rightarrow> False | Some x \<Rightarrow> joStatus x = PUBLISHED)"

definition has_applied :: "uuid \<Rightarrow> uuid \<Rightarrow> db \<Rightarrow> bool" where
  "has_applied c i d \<longleftrightarrow> (\<exists>a \<in> set (jobApplications d). jaOfferId a = i \<and> jaCandidateId a = c)"

lemma applyTo_refused:
  assumes "computeEligibility c w = (Inr (profile, e), w)"
  shows "\<not> published i (db w) \<Longrightarrow> applyTo env c i letter w = (Inl (NotFoundException ''offer''), w)"
    "published i (db w) \<Longrightarrow> \<not> eligible e \<Longrightarrow>
       applyTo env c i letter w = (Inl (ForbiddenException ''APPLICATION_NOT_ELIGIBLE''), w)"
    "published i (db w) \<Longrightarrow> eligible e \<Longrightarrow> has_applied c i (db w) \<Longrightarrow>
       applyTo env c i letter w = (Inl (ConflictException ''applied''), w)"
proof -
  show "\<not> published i (db w) \<Longrightarrow> applyTo env c i letter w = (Inl (NotFoundException ''offer''), w)"
    by (simp add: applyTo_def published_def bindE_def require_def)
  show "published i (db w) \<Longrightarrow> \<not> eligible e \<Longrightarrow>
      applyTo env c i letter w = (Inl (ForbiddenException ''APPLICATION_NOT_ELIGIBLE''), w)"
    using assms by (simp add: applyTo_def published_def bindE_def require_def)
  assume *: "published i (db w)" "eligible e" "has_applied c i (db w)"
  obtain p where "profile = Some p" using *(2) eligible_iff [OF assms] by blast
  moreover obtain y where "List.find (\<lambda>a. jaOfferId a = i \<and> jaCandidateId a = c) (jobApplications (db w)) = Some y"
    using *(3) by (fastforce simp: has_applied_def find_None_iff)
  ultimately show "applyTo env c i letter w = (Inl (ConflictException ''applied''), w)"
    using *(1,2) assms by (simp add: applyTo_def published_def bindE_def require_def someOr_apply)
qed

lemma applyTo_accepted:
  assumes "computeEligibility c w = (Inr (Some p, e), w)" "published i (db w)" "eligible e"
    "\<not> has_applied c i (db w)" "\<forall>a \<in> set (jobApplications (db w)). jaId a < nextId w"
    "index_ok (\<lambda>r. Some (jaOfferId r, jaCandidateId r)) (jobApplications (db w))"
    "a = \<lparr>jaId = nextId w, jaOfferId = i, jaCandidateId = c, jaProfileId = cpId p, jaStatus = APPLIED,
    coverLetter = letter, jaCreatedAt = now env\<rparr>"
  shows "applyTo env c i letter w = (Inr a, w\<lparr>nextId := Suc (nextId w),
    db := (db w)\<lparr>jobApplications := jobApplications (db w) @ [a]\<rparr>\<rparr>)"
proof -
  let ?t = "jobApplications (db w)"
  have "jaId a \<notin> jaId ` set ?t" using assms(5) by (auto simp: assms(7))
  then have up: "upsert jaId a ?t = ?t @ [a]" by (rule upsert_new)
  have "index_ok (\<lambda>r. Some (jaOfferId r, jaCandidateId r)) (?t @ [a])"
    using assms(4,6) by (auto simp: index_ok_snoc has_applied_def assms(7))
  then have saved: "saveApplication a (w\<lparr>nextId := Suc (nextId w)\<rparr>) = (Inr a, w\<lparr>nextId := Suc (nextId w),
      db := (db w)\<lparr>jobApplications := ?t @ [a]\<rparr>\<rparr>)"
    by (simp add: saveApplication_def save_into_def checked_save_def application_violated_def up)
  have none: "List.find (\<lambda>a. jaOfferId a = i \<and> jaCandidateId a = c) ?t = None"
    using assms(4) by (auto simp: has_applied_def find_None_iff)
  have "applyTo env c i letter w = saveApplication a (w\<lparr>nextId := Suc (nextId w)\<rparr>)"
    using assms(1-3) none
    by (simp add: applyTo_def published_def bindE_def require_def someOr_apply freshId_def assms(7))
  then show ?thesis unfolding saved .
qed

text \<open>C34: An application is refused without a published offer, with a profile below 70 percent or
  without a completed attempt, or when there is one already, and then the database is as before;
  otherwise it is appended, and a second application to the same offer is refused. The branch for a
  missing profile is never reached.\<close>

theorem application_outcome:
  assumes "\<forall>a \<in> set (jobApplications (db w)). jaId a < nextId w"
    "index_ok (\<lambda>r. Some (jaOfferId r, jaCandidateId r)) (jobApplications (db w))"
    "applyTo env c i letter w = (r, w')"
  shows "(\<forall>e. r = Inl e \<longrightarrow> db w' = db w \<and> e \<in> {NotFoundException ''offer'',
      ForbiddenException ''APPLICATION_NOT_ELIGIBLE'', ConflictException ''applied''}) \<and>
    (\<forall>a. r = Inr a \<longrightarrow>
      db w' = (db w)\<lparr>jobApplications := jobApplications (db w) @ [a]\<rparr> \<and> jaStatus a = APPLIED \<and>
      (\<exists>x \<in> set (jobOffers (db w)). joId x = i \<and> joStatus x = PUBLISHED) \<and>
      (\<exists>p \<in> set (candidateProfiles (db w)). cpUserId p = c \<and> cpId p = jaProfileId a \<and>
         \<not> jsLt (completeness p) (Finite 70)) \<and>
      (\<exists>b \<in> set (assessments (db w)). asCandidateId b = c \<and> asStatus b = AS_COMPLETED) \<and>
      (\<forall>env' letter'. applyTo env' c i letter' w' = (Inl (ConflictException ''applied''), w'))) \<and>
    (getEligibility c w = (Inr el, w) \<and> eligible el \<and>
       published i (db w) \<and> \<not> has_applied c i (db w) \<longrightarrow> (\<exists>a. r = Inr a))"
proof -
  obtain profile e where el: "computeEligibility c w = (Inr (profile, e), w)"
    by (metis computeEligibility_eq)
  note iff = eligible_iff [OF el]
  have found: "published i d \<Longrightarrow> \<exists>x \<in> set (jobOffers d). joId x = i \<and> joStatus x = PUBLISHED" for d
    by (auto simp: published_def split: option.splits dest: find_SomeD)
  have own: "getEligibility c w = (Inr e, w)" using el by (simp add: getEligibility_def bindE_def)
  consider "\<not> published i (db w)" | "published i (db w)" "\<not> eligible e"
    | "published i (db w)" "eligible e" "has_applied c i (db w)"
    | "published i (db w)" "eligible e" "\<not> has_applied c i (db w)" by blast
  then show ?thesis
  proof cases
    case 4
    then obtain p where p: "profile = Some p" "\<not> jsLt (completeness p) (Finite 70)" using iff by blast
    then have mem: "p \<in> set (candidateProfiles (db w))" "cpUserId p = c"
      using iff by (auto dest: find_SomeD)
    obtain a where a: "jaOfferId a = i" "jaCandidateId a = c" "jaProfileId a = cpId p" "jaStatus a = APPLIED"
      "applyTo env c i letter w = (Inr a, w\<lparr>nextId := Suc (nextId w),
         db := (db w)\<lparr>jobApplications := jobApplications (db w) @ [a]\<rparr>\<rparr>)"
      using applyTo_accepted [OF el [unfolded p(1)] 4 assms(1,2) refl] by auto
    let ?w = "w\<lparr>nextId := Suc (nextId w), db := (db w)\<lparr>jobApplications := jobApplications (db w) @ [a]\<rparr>\<rparr>"
    have "computeEligibility c ?w = (Inr (profile, e), ?w)"
      using el by (auto simp: computeEligibility_def findProfileByUserId_def bindE_def Let_def)
    from applyTo_refused(3) [OF this] have "applyTo env' c i letter' ?w = (Inl (ConflictException ''applied''), ?w)"
      for env' letter'
      using 4 a(1,2) by (simp add: published_def has_applied_def)
    moreover have "\<exists>b \<in> set (assessments (db w)). asCandidateId b = c \<and> asStatus b = AS_COMPLETED"
      using 4(2) iff by blast
    moreover have "r = Inr a" "w' = ?w" using assms(3) a(5) by simp_all
    ultimately show ?thesis using a(3,4) found [OF 4(1)] p(2) mem by auto
  next
    case 1
    then have "r = Inl (NotFoundException ''offer'')" "w' = w"
      using applyTo_refused(1) [OF el 1, of env letter] assms(3) by simp_all
    with 1 show ?thesis by simp
  next
    case 2
    then have "r = Inl (ForbiddenException ''APPLICATION_NOT_ELIGIBLE'')" "w' = w"
      using applyTo_refused(2) [OF el 2, of env letter] assms(3) by simp_all
    with 2 own show ?thesis by auto
  next
    case 3
    then have "r = Inl (ConflictException ''applied'')" "w' = w"
      using applyTo_refused(3) [OF el 3, of env letter] assms(3) by simp_all
    with 3 show ?thesis by simp
  qed
qed

definition offer0 :: job_offer where
  "offer0 = \<lparr>joId = 85, joCompanyId = 10, joCreatedBy = 1, joTitle = ''Dev'', joDescription = None,
     joLocation = None, joContractType = None, joExperienceLevel = None, joSkills = None,
     joStatus = PUBLISHED, publishedAt = Some 0, joDeadline = None, joCreatedAt = 0\<rparr>"

definition world_job :: world where
  "world_job = world0\<lparr>db := db0\<lparr>jobOffers := [offer0],
     candidateProfiles := [profile0\<lparr>completeness := Finite 80\<rparr>],
     assessments := [attempt0\<lparr>asStatus := AS_COMPLETED\<rparr>]\<rparr>\<rparr>"

theorem application_outcome_witness:
  "\<exists>a w'. applyTo env0 2 85 None world_job = (Inr a, w') \<and> jobApplications (db w') = [a] \<and>
     applyTo env0 2 85 None w' = (Inl (ConflictException ''applied''), w')"
proof -
  obtain e where e: "computeEligibility 2 world_job = (Inr e, world_job)"
    using computeEligibility_eq by blast
  then have "eligible (snd e)"
    using eligible_iff [of 2 world_job "fst e" "snd e" world_job]
    by (simp add: world_job_def sample_defs attempt0_def)
  moreover have "getEligibility 2 world_job = (Inr (snd e), world_job)"
    using e by (simp add: getEligibility_def bindE_def)
  moreover have "published 85 (db world_job)" "\<not> has_applied 2 85 (db world_job)"
    by (simp_all add: published_def has_applied_def world_job_def offer0_def db0_def)
  moreover have fresh: "jobApplications (db world_job) = []" by (simp add: world_job_def db0_def)
  moreover obtain r w' where run: "applyTo env0 2 85 None world_job = (r, w')" by fastforce
  ultimately obtain a where "r = Inr a"
    using application_outcome [of world_job env0 2 85 None r w' "snd e"] by auto
  then show ?thesis
    using application_outcome [of world_job env0 2 85 None r w' "snd e"] run fresh by fastforce
qed

section \<open>School verification\<close>

definition kept_decision :: "school_verification \<Rightarrow> school_verification \<Rightarrow> bool" where
  "kept_decision v v' \<longleftrightarrow> svId v' = svId v \<and> svProfileId v' = svProfileId v \<and>
     matchedSchool v' = matchedSchool v \<and> (svStatus v \<noteq> SV_PENDING \<longrightarrow> v' = v)"

definition badges_backed :: "db \<Rightarrow> db \<Rightarrow> bool" where
  "badges_backed d d' \<longleftrightarrow>
     (\<forall>q \<in> set (candidateProfiles d'). schoolVerified q \<longrightarrow>
        (\<exists>p \<in> set (candidateProfiles d). cpId p = cpId q \<and> schoolVerified p) \<or>
        (\<exists>v \<in> set (schoolVerifications d'). svProfileId v = cpId q \<and> svStatus v = VERIFIED)) \<and>
     (\<forall>p \<in> set (candidateProfiles d). schoolVerified p \<longrightarrow>
        (\<exists>q \<in> set (candidateProfiles d'). cpId q = cpId p \<and> schoolVerified q))"

definition reviewed :: "world \<Rightarrow> world \<Rightarrow> bool" where
  "reviewed w w' \<longleftrightarrow> nextId w \<le> nextId w' \<and> (distinct (map svId (schoolVerifications (db w))) \<longrightarrow>
     distinct (map svId (schoolVerifications (db w'))) \<and>
     (\<forall>v \<in> set (schoolVerifications (db w)). \<exists>v' \<in> set (schoolVerifications (db w')). kept_decision v v') \<and>
     badges_backed (db w) (db w'))"

lemma kept_decision_refl: "kept_decision v v"
  and kept_decision_trans: "kept_decision u v \<Longrightarrow> kept_decision v v' \<Longrightarrow> kept_decision u v'"
  by (auto simp: kept_decision_def)

lemma badges_backed_refl: "candidateProfiles d' = candidateProfiles d \<Longrightarrow> badges_backed d d'"
  by (auto simp: badges_backed_def)

lemma badge_origin:
  assumes "badges_backed d d'" "q \<in> set (candidateProfiles d')" "schoolVerified q"
  obtains p where "p \<in> set (candidateProfiles d)" "cpId p = cpId q" "schoolVerified p"
    | v where "v \<in> set (schoolVerifications d')" "svProfileId v = cpId q" "svStatus v = VERIFIED"
  using assms by (auto simp: badges_backed_def)

lemma badge_stays:
  assumes "badges_backed d d'" "p \<in> set (candidateProfiles d)" "schoolVerified p"
  obtains q where "q \<in> set (candidateProfiles d')" "cpId q = cpId p" "schoolVerified q"
  using assms by (auto simp: badges_backed_def)

lemma badges_backed_trans:
  assumes "badges_backed d d'" "badges_backed d' d''"
    "\<forall>v \<in> set (schoolVerifications d'). \<exists>v' \<in> set (schoolVerifications d''). kept_decision v v'"
  shows "badges_backed d d''"
  unfolding badges_backed_def
proof (intro conjI ballI impI)
  fix p
  assume "p \<in> set (candidateProfiles d)" "schoolVerified p"
  with assms(1) obtain p' where p': "p' \<in> set (candidateProfiles d')" "cpId p' = cpId p" "schoolVerified p'"
    by (rule badge_stays)
  from assms(2) p'(1,3) obtain q where "q \<in> set (candidateProfiles d'')" "cpId q = cpId p'" "schoolVerified q"
    by (rule badge_stays)
  with p'(2) show "\<exists>q \<in> set (candidateProfiles d''). cpId q = cpId p \<and> schoolVerified q"
    by (intro bexI [of _ q]) simp_all
next
  fix q
  assume q: "q \<in> set (candidateProfiles d'')" "schoolVerified q"
  let ?old = "\<exists>p \<in> set (candidateProfiles d). cpId p = cpId q \<and> schoolVerified p"
  let ?new = "\<exists>v \<in> set (schoolVerifications d''). svProfileId v = cpId q \<and> svStatus v = VERIFIED"
  from assms(2) q show "?old \<or> ?new"
  proof (cases rule: badge_origin)
    case (2 v)
    then show ?thesis by blast
  next
    case (1 p)
    from assms(1) 1(1,3) show ?thesis
    proof (cases rule: badge_origin)
      case first: (1 p')
      then show ?thesis using 1(2) by (intro disjI1 bexI [of _ p']) simp_all
    next
      case second: (2 v)
      then obtain v' where v': "v' \<in> set (schoolVerifications d'')" "kept_decision v v'" using assms(3) by blast
      then have "v' = v" using second(3) by (simp add: kept_decision_def)
      then show ?thesis using v'(1) second(2,3) 1(2) by (intro disjI2 bexI [of _ v]) simp_all
    qed
  qed
qed

lemma update_where_mem: "x \<in> set t \<Longrightarrow> (if P x then f x else x) \<in> set (update_where P f t)"
  by (simp add: update_where_def)

lemma reviewed_chain:
  assumes "reviewed w w'" "reviewed w' w''"
  shows "reviewed w w''"
proof -
  have "nextId w \<le> nextId w''" using assms by (auto simp: reviewed_def)
  moreover {
    assume d: "distinct (map svId (schoolVerifications (db w)))"
    then have a: "distinct (map svId (schoolVerifications (db w')))"
      "\<forall>v \<in> set (schoolVerifications (db w)). \<exists>v' \<in> set (schoolVerifications (db w')). kept_decision v v'"
      "badges_backed (db w) (db w')" using assms(1) by (auto simp: reviewed_def)
    then have b: "distinct (map svId (schoolVerifications (db w'')))"
      "\<forall>v \<in> set (schoolVerifications (db w')). \<exists>v' \<in> set (schoolVerifications (db w'')). kept_decision v v'"
      "badges_backed (db w') (db w'')" using assms(2) by (auto simp: reviewed_def)
    have "badges_backed (db w) (db w'')" by (rule badges_backed_trans [OF a(3) b(3,2)])
    moreover have "\<exists>v' \<in> set (schoolVerifications (db w'')). kept_decision v v'"
      if "v \<in> set (schoolVerifications (db w))" for v
      using a(2) b(2) that kept_decision_trans by meson
    ultimately have "distinct (map svId (schoolVerifications (db w''))) \<and>
      (\<forall>v \<in> set (schoolVerifications (db w)). \<exists>v' \<in> set (schoolVerifications (db w'')). kept_decision v v') \<and>
      badges_backed (db w) (db w'')" using b(1) by blast }
  ultimately show ?thesis by (simp add: reviewed_def)
qed

interpretation review: world_frame reviewed
proof
  show "db w' = db w \<Longrightarrow> nextId w \<le> nextId w' \<Longrightarrow> reviewed w w'" for w w' :: world
    by (auto simp: reviewed_def intro: kept_decision_refl badges_backed_refl)
qed (rule reviewed_chain)

definition decision :: "env \<Rightarrow> uuid \<Rightarrow> uuid \<Rightarrow> string option \<Rightarrow> school_status \<Rightarrow> db \<Rightarrow> school_verification list" where
  "decision env i admin remark status d = update_where (\<lambda>v. svId v = i \<and> svStatus v = SV_PENDING)
     (\<lambda>v. v\<lparr>svStatus := status, reviewedBy := Some admin, reviewedAt := Some (now env), reviewNote := remark\<rparr>)
     (schoolVerifications d)"

lemma claim_run:
  assumes "claimPendingDecision env i admin remark status w = (r, w')"
  shows "w' = w\<lparr>db := (db w)\<lparr>schoolVerifications := decision env i admin remark status (db w)\<rparr>\<rparr>"
    "r = Inr v \<Longrightarrow> v \<in> set (decision env i admin remark status (db w)) \<and> svId v = i \<and>
       (\<exists>u \<in> set (schoolVerifications (db w)). svId u = i \<and> svStatus u = SV_PENDING)"
proof -
  let ?t = "decision env i admin remark status (db w)"
  have "(case List.find (\<lambda>v. svId v = i) ?t of
      None \<Rightarrow> (Inl (NotFoundException ''verification''), w\<lparr>db := (db w)\<lparr>schoolVerifications := ?t\<rparr>\<rparr>)
    | Some v \<Rightarrow> (if 0 < count_where (\<lambda>v. svId v = i \<and> svStatus v = SV_PENDING) (schoolVerifications (db w))
        then (Inr v, w\<lparr>db := (db w)\<lparr>schoolVerifications := ?t\<rparr>\<rparr>)
        else (Inl (ConflictException ''reviewed''), w\<lparr>db := (db w)\<lparr>schoolVerifications := ?t\<rparr>\<rparr>))) = (r, w')"
    using assms unfolding claimPendingDecision_def decision_def
    by (auto simp: bindE_def someOr_apply require_def split: option.splits if_splits)
  then show "w' = w\<lparr>db := (db w)\<lparr>schoolVerifications := ?t\<rparr>\<rparr>"
    "r = Inr v \<Longrightarrow> v \<in> set ?t \<and> svId v = i \<and>
       (\<exists>u \<in> set (schoolVerifications (db w)). svId u = i \<and> svStatus u = SV_PENDING)"
    by (auto simp: count_where_def filter_empty_conv split: option.splits if_splits dest: find_SomeD)
qed

lemma decided_status:
  assumes "v \<in> set (decision env i admin remark status d)"
  shows "v \<in> set (schoolVerifications d) \<and> \<not> (svId v = i \<and> svStatus v = SV_PENDING) \<or> svStatus v = status"
proof -
  let ?f = "\<lambda>x. if svId x = i \<and> svStatus x = SV_PENDING then x\<lparr>svStatus := status, reviewedBy := Some admin,
       reviewedAt := Some (now env), reviewNote := remark\<rparr> else x"
  have "v \<in> ?f ` set (schoolVerifications d)" using assms by (simp only: decision_def update_where_def set_map)
  then obtain x where "v = ?f x" "x \<in> set (schoolVerifications d)" by (rule imageE)
  then show ?thesis by (cases "svId x = i \<and> svStatus x = SV_PENDING") simp_all
qed

lemma decision_ids: "map svId (decision env i admin remark status d) = map svId (schoolVerifications d)"
  unfolding decision_def by (rule map_update_where) simp

lemma claim_reviewed:
  assumes "claimPendingDecision env i admin remark status w = (r, w')"
  shows "reviewed w w'"
proof -
  have "\<exists>v' \<in> set (decision env i admin remark status (db w)). kept_decision v v'"
    if "v \<in> set (schoolVerifications (db w))" for v
    unfolding decision_def
    by (rule bexI [OF _ update_where_mem [OF that]]) (simp add: kept_decision_def)
  then show ?thesis
    using decision_ids [of env i admin remark status "db w"]
    by (auto simp: claim_run(1) [OF assms] reviewed_def intro: badges_backed_refl)
qed

lemma markVerified_reviewed:
  assumes "markVerified env (svProfileId v) m w = (r, w')" "v \<in> set (schoolVerifications (db w))"
    "svStatus v = VERIFIED"
  shows "reviewed w w'"
proof -
  let ?f = "\<lambda>p. p\<lparr>schoolVerified := True, school := (if filled m then m else school p), cpUpdatedAt := now env\<rparr>"
  have w': "w' = w\<lparr>db := (db w)\<lparr>candidateProfiles := update_where (\<lambda>p. cpId p = svProfileId v) ?f
      (candidateProfiles (db w))\<rparr>\<rparr>"
    using assms(1) by (simp add: markVerified_def modify_def)
  then have d: "candidateProfiles (db w') = update_where (\<lambda>p. cpId p = svProfileId v) ?f (candidateProfiles (db w))"
    "schoolVerifications (db w') = schoolVerifications (db w)" by simp_all
  have "badges_backed (db w) (db w')"
    unfolding badges_backed_def d
  proof (intro conjI ballI impI)
    fix p
    assume "p \<in> set (candidateProfiles (db w))" "schoolVerified p"
    then show "\<exists>q \<in> set (update_where (\<lambda>p. cpId p = svProfileId v) ?f (candidateProfiles (db w))).
        cpId q = cpId p \<and> schoolVerified q"
      by (intro bexI [OF _ update_where_mem]) auto
  qed (use assms(2,3) in \<open>auto simp: set_update_where\<close>)
  then show ?thesis by (auto simp: reviewed_def w' intro: kept_decision_refl)
qed

lemma approve_reviewed: "shifts reviewed (approveVerification env i admin remark)"
proof (rule shiftsI)
  fix w r w'
  assume "approveVerification env i admin remark w = (r, w')"
  then show "reviewed w w'"
    unfolding approveVerification_def
  proof (cases rule: bindE_cases)
    case (throws e w1)
    then show ?thesis using claim_reviewed by simp
  next
    case (returns v w1)
    note c = claim_run [OF returns(1)] and step = claim_reviewed [OF returns(1)]
    have mark: "markVerified env (svProfileId v) (matchedSchool v) w1 = (Inr (), w')"
      using returns(2) by (simp add: bindE_def markVerified_def modify_def)
    have n: "nextId w' = nextId w1" using mark by (auto simp: markVerified_def modify_def)
    show ?thesis
    proof (cases "distinct (map svId (schoolVerifications (db w)))")
      case False
      then show ?thesis using n step by (simp add: reviewed_def)
    next
      case True
      obtain u where u: "u \<in> set (schoolVerifications (db w))" "svId u = i" "svStatus u = SV_PENDING"
        using c(2) by blast
      have only: "x = u" if "x \<in> set (schoolVerifications (db w))" "svId x = i" for x
        using True u that by (auto simp: distinct_map inj_on_def)
      have "v \<in> set (decision env i admin remark VERIFIED (db w))" "svId v = i" using c(2) [OF refl] by blast+
      then have "svStatus v = VERIFIED" using decided_status only [of v] u(3) by metis
      moreover have "v \<in> set (schoolVerifications (db w1))"
        unfolding c(1) using \<open>v \<in> set (decision _ _ _ _ _ _)\<close> by simp
      ultimately have "reviewed w1 w'" by (intro markVerified_reviewed [OF mark])
      with step show ?thesis by (rule reviewed_chain)
    qed
  qed
qed

datatype review = Approve uuid "string option" | Reject uuid "string option"

fun reviewRequest :: "env \<times> uuid \<times> review \<Rightarrow> unit service" where
  "reviewRequest (env, admin, Approve i m) = bindE (approveVerification env i admin m) (\<lambda>_. ret ())"
| "reviewRequest (env, admin, Reject i m) = bindE (rejectVerification env i admin m) (\<lambda>_. ret ())"

lemma reviewRequest_reviewed: "shifts reviewed (reviewRequest q)"
proof -
  have "shifts reviewed (rejectVerification env i admin m)" for env i admin m
    unfolding rejectVerification_def by (rule shiftsI) (rule claim_reviewed)
  then show ?thesis
    by (cases q rule: reviewRequest.cases)
      (simp_all add: review.shifts_bindE review.shifts_basic approve_reviewed)
qed

text \<open>C35: Over any reviews by the staff, of any submissions in any order: a decided submission never
  changes again, and no submission changes its candidate or its school; a profile carries the badge
  only if it did before or a submission of its owner is verified, and no review, not even a rejection,
  takes a badge away.\<close>

theorem school_reviews:
  assumes "distinct (map svId (schoolVerifications (db w)))" "w' = runAll reviewRequest qs w"
  shows "(\<forall>v \<in> set (schoolVerifications (db w)). \<exists>v' \<in> set (schoolVerifications (db w')).
      svId v' = svId v \<and> svProfileId v' = svProfileId v \<and> matchedSchool v' = matchedSchool v \<and>
      (svStatus v \<noteq> SV_PENDING \<longrightarrow> v' = v)) \<and>
    (\<forall>q \<in> set (candidateProfiles (db w')). schoolVerified q \<longrightarrow>
      (\<exists>p \<in> set (candidateProfiles (db w)). cpId p = cpId q \<and> schoolVerified p) \<or>
      (\<exists>v \<in> set (schoolVerifications (db w')). svProfileId v = cpId q \<and> svStatus v = VERIFIED)) \<and>
    (\<forall>p \<in> set (candidateProfiles (db w)). schoolVerified p \<longrightarrow>
      (\<exists>q \<in> set (candidateProfiles (db w')). cpId q = cpId p \<and> schoolVerified q))"
proof -
  have "reviewed w w'" unfolding assms(2) by (rule review.runAll_frame) (rule reviewRequest_reviewed)
  then show ?thesis using assms(1) by (simp add: reviewed_def kept_decision_def badges_backed_def)
qed

definition submission0 :: school_verification where
  "submission0 = \<lparr>svId = 86, svProfileId = 50, svDocumentId = 80, svStatus = SV_REJECTED, ocrExtractedText = None,
     matchedSchool = Some ''ENSIAS'', svConfidence = None, reviewedBy = Some 1, reviewedAt = Some 5,
     reviewNote = None, svCreatedAt = 0\<rparr>"

definition world_school :: world where
  "world_school = world0\<lparr>db := db0\<lparr>schoolVerifications := [submission0]\<rparr>\<rparr>"

theorem school_reviews_witness:
  "submission0 \<in> set (schoolVerifications (db (runAll reviewRequest [(env0, 3, Approve 86 None)] world_school)))"
  using school_reviews [of world_school _ "[(env0, 3, Approve 86 None)]", OF _ refl]
  by (simp add: world_school_def submission0_def)

section \<open>Retention\<close>

definition remaining :: "bool \<Rightarrow> ('r \<Rightarrow> bool) \<Rightarrow> 'r list \<Rightarrow> 'r list" where
  "remaining skipped dead t = (if skipped then t else delete_where dead t)"

definition removed :: "bool \<Rightarrow> ('r \<Rightarrow> bool) \<Rightarrow> 'r list \<Rightarrow> int" where
  "removed skipped dead t = (if skipped then 0 else count_where dead t)"

lemma remaining_again [simp]: "remaining k dead (remaining k dead t) = remaining k dead t"
  "removed k dead (remaining k dead t) = 0"
  by (simp_all add: remaining_def removed_def delete_where_def count_where_def filter_empty_conv)








end
