(* ===== verification/Outside.thy ===== *)
theory Outside
  imports Documents Remediation
begin

text \<open>
  The two adapters to outside services that carry logic of their own: the prober of candidate links
  (\<open>adapters/link-prober/http-link-prober.adapter.ts\<close>) with its guard against internal addresses, and
  the virus scanner (\<open>adapters/file-scanner/clamav-file-scanner.adapter.ts\<close>) with its wire protocol.
  The URL parser, the test for an IPv6 literal, the resolver and the HTTP client of the platform are
  arguments. Texts are ASCII.
\<close>

section \<open>Addresses\<close>

text \<open>\<open>net.isIPv4\<close>: four numbers up to 255 without leading zeros.\<close>

definition octet :: "string \<Rightarrow> bool" where
  "octet s \<longleftrightarrow> s \<noteq> [] \<and> list_all is_digit s \<and> length s \<le> 3 \<and> (hd s = CHR ''0'' \<longrightarrow> s = ''0'') \<and> undec s \<le> 255"

definition isIPv4 :: "string \<Rightarrow> bool" where
  "isIPv4 s \<longleftrightarrow> length (splitOn (CHR ''.'') s) = 4 \<and> list_all octet (splitOn (CHR ''.'') s)"

definition isPrivateIpv4 :: "string \<Rightarrow> bool" where
  "isPrivateIpv4 address =
     (case map parseInt (splitOn (CHR ''.'') address) of
        [Some a, Some b, Some _, Some _] \<Rightarrow>
          a = 10 \<or> a = 127 \<or> a = 0 \<or> (a = 169 \<and> b = 254) \<or> (a = 172 \<and> 16 \<le> b \<and> b \<le> 31) \<or>
          (a = 192 \<and> b = 168) \<or> (a = 100 \<and> 64 \<le> b \<and> b \<le> 127) \<or> (a = 192 \<and> b = 0) \<or> 224 \<le> a
      | _ \<Rightarrow> True)"

text \<open>What follows the last colon.\<close>

definition afterLastColon :: "string \<Rightarrow> string" where
  "afterLastColon s = rev (takeWhile (\<lambda>c. c \<noteq> CHR '':'') (rev s))"

definition startsWith :: "string \<Rightarrow> string \<Rightarrow> bool" where
  "startsWith p s \<longleftrightarrow> take (length p) s = p"

definition extractMappedIpv4 :: "string \<Rightarrow> string option" where
  "extractMappedIpv4 address =
     (let a = toLowerCase address; tail = afterLastColon a
      in if (startsWith ''::ffff:'' a \<or> startsWith ''::'' a) \<and> isIPv4 tail then Some tail else None)"

definition isPrivateIpv6 :: "string \<Rightarrow> bool" where
  "isPrivateIpv6 address =
     (let a = toLowerCase address
      in a = ''::1'' \<or> a = ''::'' \<or>
         startsWith ''fe8'' a \<or> startsWith ''fe9'' a \<or> startsWith ''fea'' a \<or> startsWith ''feb'' a \<or>
         startsWith ''fc'' a \<or> startsWith ''fd'' a \<or> startsWith ''ff'' a)"

text \<open>Whether \<open>assertPublicAddress\<close> returns.\<close>

definition publicAddress :: "string \<Rightarrow> bool" where
  "publicAddress address =
     (if isIPv4 address then \<not> isPrivateIpv4 address
      else case extractMappedIpv4 address of
             Some mapped \<Rightarrow> \<not> isPrivateIpv4 mapped
           | None \<Rightarrow> \<not> isPrivateIpv6 address)"

section \<open>The probe\<close>

datatype fetch_outcome = Status int | TimedOut | NetworkError
datatype http_method = HEAD | GET

text \<open>The parser gives the protocol and the host name; the resolver may fail.\<close>

record net_deps =
  parseUrl :: "string \<Rightarrow> (string \<times> string) option"
  isIPv6 :: "string \<Rightarrow> bool"
  lookup :: "string \<Rightarrow> string list option"
  fetch :: "http_method \<Rightarrow> string \<Rightarrow> fetch_outcome"

record probe_result =
  reachable :: bool
  statusCode :: "int option"
  reason :: "string option"

definition withoutBrackets :: "string \<Rightarrow> string" where
  "withoutBrackets h =
     (if h \<noteq> [] \<and> hd h = CHR ''['' \<and> last h = CHR '']'' then butlast (tl h) else h)"

definition hostAddresses :: "net_deps \<Rightarrow> string \<Rightarrow> string list option" where
  "hostAddresses n hostname =
     (let host = withoutBrackets hostname
      in if isIPv4 host \<or> isIPv6 n host then Some [host]
         else case lookup n host of
                None \<Rightarrow> None
              | Some rs \<Rightarrow> if rs = [] then None else Some rs)"

definition publicHost :: "net_deps \<Rightarrow> string \<Rightarrow> bool" where
  "publicHost n hostname =
     (case hostAddresses n hostname of None \<Rightarrow> False | Some rs \<Rightarrow> list_all publicAddress rs)"

definition unreachable :: "string \<Rightarrow> probe_result" where
  "unreachable why = \<lparr>reachable = False, statusCode = None, reason = Some why\<rparr>"

definition request :: "net_deps \<Rightarrow> string \<Rightarrow> probe_result" where
  "request n url =
     (let first = fetch n HEAD url;
          final = (if first = Status 405 \<or> first = Status 501 then fetch n GET url else first)
      in case final of
           Status code \<Rightarrow> \<lparr>reachable = (code < 500), statusCode = Some code,
             reason = (if code < 500 then None else Some ''server_error'')\<rparr>
         | TimedOut \<Rightarrow> unreachable ''timeout''
         | NetworkError \<Rightarrow> unreachable ''network_error'')"

definition probeLink :: "net_deps \<Rightarrow> string \<Rightarrow> probe_result" where
  "probeLink n url =
     (case parseUrl n url of
        None \<Rightarrow> unreachable ''invalid_url''
      | Some (protocol, hostname) \<Rightarrow>
          if protocol \<noteq> ''http:'' \<and> protocol \<noteq> ''https:'' then unreachable ''unsupported_scheme''
          else if \<not> publicHost n hostname then unreachable ''blocked_host''
          else request n url)"

section \<open>The scanner: the stream\<close>

type_synonym bytes = "8 word list"

definition CHUNK_SIZE :: nat where "CHUNK_SIZE = 64 * 1024"

function chunks :: "bytes \<Rightarrow> bytes list" where
  "chunks buffer = (if buffer = [] then [] else take CHUNK_SIZE buffer # chunks (drop CHUNK_SIZE buffer))"
  by pat_completeness auto
termination by (relation "measure length") (auto simp: CHUNK_SIZE_def)

declare chunks.simps [simp del]

text \<open>\<open>writeUInt32BE\<close>\<close>

definition uint32BE :: "nat \<Rightarrow> bytes" where
  "uint32BE n = map (\<lambda>k. word_of_nat (n div 256 ^ k)) [3, 2, 1, 0]"

definition COMMAND :: bytes where
  "COMMAND = map (\<lambda>c. word_of_nat (of_char c)) ''zINSTREAM'' @ [0]"

definition instream :: "bytes \<Rightarrow> bytes" where
  "instream buffer =
     COMMAND @ concat (map (\<lambda>c. uint32BE (length c) @ c) (chunks buffer)) @ [0, 0, 0, 0]"

section \<open>The scanner: the reply\<close>

record scan_result =
  cleanFile :: bool
  threat :: "string option"

text \<open>\<open>/:\s*(.+?)\s+FOUND$/\<close>, with the alternatives in the order the matcher tries them: the first
  colon, the longest run of spaces after it, the shortest name.\<close>

definition endsFound :: "string \<Rightarrow> bool" where
  "endsFound s \<longleftrightarrow> 6 \<le> length s \<and> drop (length s - 5) s = ''FOUND'' \<and> list_all is_space (take (length s - 5) s)"

definition foundAfter :: "string \<Rightarrow> string option" where
  "foundAfter r =
     map_option (\<lambda>(k, n). take n (drop k r))
       (List.find (\<lambda>(k, n). list_all (\<lambda>c. c \<noteq> CHR 0x0A \<and> c \<noteq> CHR 0x0D) (take n (drop k r)) \<and>
            endsFound (drop (k + n) r))
         (concat (map (\<lambda>k. map (Pair k) [1..<Suc (length r - k)])
           (rev [0..<Suc (length (takeWhile is_space r))]))))"

fun matchFound :: "string \<Rightarrow> string option" where
  "matchFound [] = None"
| "matchFound (c # cs) =
     (case (if c = CHR '':'' then foundAfter cs else None) of
        Some t \<Rightarrow> Some t
      | None \<Rightarrow> matchFound cs)"

text \<open>\<open>/\bOK$/\<close>\<close>

definition endsOK :: "string \<Rightarrow> bool" where
  "endsOK s \<longleftrightarrow> 2 \<le> length s \<and> drop (length s - 2) s = ''OK'' \<and>
     (length s = 2 \<or> \<not> word_char (s ! (length s - 3)))"

definition parseResponse :: "string \<Rightarrow> string + scan_result" where
  "parseResponse raw =
     (let text = trim (filter (\<lambda>c. c \<noteq> CHR 0x00) raw)
      in if text = [] then Inl ''ClamAV returned an empty response''
         else case matchFound text of
                Some t \<Rightarrow> Inr \<lparr>cleanFile = False, threat = Some t\<rparr>
              | None \<Rightarrow>
                  if endsOK text then Inr \<lparr>cleanFile = True, threat = None\<rparr>
                  else Inl (''ClamAV scan error: '' @ text))"

text \<open>The events of the socket; the first that settles the scan wins, and a scan without one is
  pending (\<open>None\<close>).\<close>

datatype socket_event = Data string | Ended | Closed | SocketTimeout | SocketError string

fun settle :: "string \<Rightarrow> socket_event list \<Rightarrow> (string + scan_result) option" where
  "settle received [] = None"
| "settle received (Data s # es) = settle (received @ s) es"
| "settle received (Ended # es) = Some (parseResponse received)"
| "settle received (Closed # es) = Some (parseResponse received)"
| "settle received (SocketTimeout # es) = Some (Inl ''ClamAV scan timed out after 30000ms'')"
| "settle received (SocketError e # es) = Some (Inl e)"

definition scan :: "socket_event list \<Rightarrow> (string + scan_result) option" where
  "scan es = settle [] es"

end
