(* ===== verification/Outside_Props.thy ===== *)
theory Outside_Props
  imports Outside
begin

text \<open>
  The properties of the two adapters: which addresses a probe may contact, and that the scanner
  receives the file it was given and passes no file without an answer that says so.
\<close>

section \<open>IPv4 addresses as text and as numbers\<close>

definition dotted :: "nat \<Rightarrow> nat \<Rightarrow> nat \<Rightarrow> nat \<Rightarrow> string" where
  "dotted a b c d = dec a @ ''.'' @ dec b @ ''.'' @ dec c @ ''.'' @ dec d"

definition address_of :: "nat \<Rightarrow> nat \<Rightarrow> nat \<Rightarrow> nat \<Rightarrow> nat" where
  "address_of a b c d = a * 2 ^ 24 + b * 2 ^ 16 + c * 2 ^ 8 + d"

text \<open>Membership in a block of addresses, given by its first address and the length of its prefix.\<close>

definition in_block :: "nat \<times> nat \<Rightarrow> nat \<Rightarrow> bool" where
  "in_block blk x \<longleftrightarrow> x div 2 ^ (32 - snd blk) = fst blk div 2 ^ (32 - snd blk)"

definition INTERNAL_BLOCKS :: "(nat \<times> nat) list" where
  "INTERNAL_BLOCKS =
     [(address_of 10 0 0 0, 8), (address_of 127 0 0 0, 8), (address_of 0 0 0 0, 8),
      (address_of 169 254 0 0, 16), (address_of 172 16 0 0, 12), (address_of 192 168 0 0, 16),
      (address_of 100 64 0 0, 10), (address_of 192 0 0 0, 16), (address_of 224 0 0 0, 3)]"

lemma splitOn_plain: "c \<notin> set s \<Longrightarrow> splitOn c s = [s]"
  by (induction s) auto

lemma splitOn_append: "c \<notin> set s \<Longrightarrow> splitOn c (s @ c # t) = s # splitOn c t"
  by (induction s) auto

lemma dec_no_dot: "CHR ''.'' \<notin> set (dec n)"
  using dec_digits [of "CHR ''.''" n] by (auto simp: is_digit_def)

lemma split_dotted: "splitOn (CHR ''.'') (dotted a b c d) = [dec a, dec b, dec c, dec d]"
  by (simp add: dotted_def splitOn_append splitOn_plain dec_no_dot)

lemma parseInt_dec: "parseInt (dec n) = Some (int n)"
proof -
  have all: "list_all is_digit (dec n)" using dec_digits by (auto simp: list_all_iff)
  obtain x xs where d: "dec n = x # xs" by (cases "dec n") auto
  then have x: "is_digit x" using all by simp
  then have "\<not> is_space x" "x \<notin> {CHR ''-'', CHR ''+''}" by (auto simp: is_digit_def is_space_def Let_def)
  moreover have "takeWhile is_digit (dec n) = dec n"
    using all by (simp add: list_all_iff takeWhile_eq_all_conv)
  ultimately show ?thesis
    unfolding parseInt_def using d undec_dec [of n] by (auto simp: Let_def)
qed

lemma digit_zero: "k < 10 \<Longrightarrow> digit k = CHR ''0'' \<longleftrightarrow> k = 0"
proof -
  have "undigit (CHR ''0'') = 0" "digit 0 = CHR ''0''" by code_simp+
  then show "k < 10 \<Longrightarrow> digit k = CHR ''0'' \<longleftrightarrow> k = 0" using undigit_digit [of k] by metis
qed

lemma octet_dec: "n \<le> 255 \<Longrightarrow> octet (dec n)"
proof -
  assume n: "n \<le> 255"
  have "n < 10 \<or> 10 \<le> n \<and> n < 100 \<or> 100 \<le> n" by auto
  then have "length (dec n) \<le> 3 \<and> (hd (dec n) = CHR ''0'' \<longrightarrow> dec n = ''0'')"
  proof (elim disjE)
    assume "n < 10"
    then have "n \<in> {0..9}" by auto
    then show ?thesis by (subst dec.simps, subst (2) dec.simps, subst (3) dec.simps) (auto simp: digit_def)
  next
    assume *: "10 \<le> n \<and> n < 100"
    then have "dec n = [digit (n div 10), digit (n mod 10)]"
      by (subst dec.simps, subst dec.simps) auto
    moreover have "digit (n div 10) \<noteq> CHR ''0''" 
    proof -
      have "n div 10 < 10" "n div 10 \<noteq> 0" using * by linarith+
      then show ?thesis using digit_zero [of "n div 10"] by simp
    qed
    ultimately show ?thesis by simp
  next
    assume *: "100 \<le> n"
    then have "dec n = [digit (n div 10 div 10), digit (n div 10 mod 10), digit (n mod 10)]"
      using n by (subst dec.simps, subst dec.simps, subst dec.simps) auto
    moreover have "digit (n div 10 div 10) \<noteq> CHR ''0''" 
    proof -
      have "n div 10 div 10 < 10" "n div 10 div 10 \<noteq> 0" using * n by linarith+
      then show ?thesis using digit_zero [of "n div 10 div 10"] by simp
    qed
    ultimately show ?thesis by simp
  qed
  then show ?thesis using n dec_digits by (auto simp: octet_def list_all_iff)
qed

lemma isIPv4_dotted: "a \<le> 255 \<Longrightarrow> b \<le> 255 \<Longrightarrow> c \<le> 255 \<Longrightarrow> d \<le> 255 \<Longrightarrow> isIPv4 (dotted a b c d)"
  by (simp add: isIPv4_def split_dotted octet_dec)

lemma block_bytes:
  assumes "a \<le> 255" "b \<le> 255" "c \<le> 255" "d \<le> 255"
  shows "address_of a b c d div 16777216 = a" "address_of a b c d div 65536 = a * 256 + b"
    "address_of a b c d div 1048576 = a * 16 + b div 16" "address_of a b c d div 4194304 = a * 4 + b div 64"
    "address_of a b c d div 536870912 = a div 32"
proof -
  have x: "address_of a b c d = 16777216 * a + 65536 * b + 256 * c + d" by (simp add: address_of_def)
  obtain e f where b16: "b = 16 * e + f" "f < 16" "b div 16 = e"
    using mult_div_mod_eq [of 16 b] mod_less_divisor [of 16 b] by (metis zero_less_numeral)
  obtain g h where b64: "b = 64 * g + h" "h < 64" "b div 64 = g"
    using mult_div_mod_eq [of 64 b] mod_less_divisor [of 64 b] by (metis zero_less_numeral)
  obtain i j where a32: "a = 32 * i + j" "j < 32" "a div 32 = i"
    using mult_div_mod_eq [of 32 a] mod_less_divisor [of 32 a] by (metis zero_less_numeral)
  show "address_of a b c d div 16777216 = a" unfolding x by (rule div_nat_eqI) (use assms in simp)+
  show "address_of a b c d div 65536 = a * 256 + b" unfolding x by (rule div_nat_eqI) (use assms in simp)+
  show "address_of a b c d div 1048576 = a * 16 + b div 16"
    unfolding x b16(3) by (rule div_nat_eqI) (use assms b16(1,2) in simp)+
  show "address_of a b c d div 4194304 = a * 4 + b div 64"
    unfolding x b64(3) by (rule div_nat_eqI) (use assms b64(1,2) in simp)+
  show "address_of a b c d div 536870912 = a div 32"
    unfolding x a32(3) by (rule div_nat_eqI) (use assms a32(1,2) in simp)+
qed

lemma digits_eq:
  assumes "(e :: nat) < m" "f < m"
  shows "a * m + e = x * m + f \<longleftrightarrow> a = x \<and> e = f"
proof
  assume eq: "a * m + e = x * m + f"
  have "(a * m + e) div m = a" "(x * m + f) div m = x" using assms by simp_all
  then have "a = x" using eq by simp
  then show "a = x \<and> e = f" using eq by simp
qed simp

lemma quotient_eq: "0 < m \<Longrightarrow> (n :: nat) div m = q \<longleftrightarrow> q * m \<le> n \<and> n < q * m + m"
  using div_times_less_eq_dividend [of n m] dividend_less_div_times [of m n]
  by (auto simp: mult.commute add.commute intro: div_nat_eqI)

lemma isPrivateIpv4_block:
  assumes "a \<le> 255" "b \<le> 255" "c \<le> 255" "d \<le> 255"
  shows "isPrivateIpv4 (dotted a b c d) \<longleftrightarrow> list_ex (\<lambda>blk. in_block blk (address_of a b c d)) INTERNAL_BLOCKS"
proof -
  have "list_ex (\<lambda>blk. in_block blk (address_of a b c d)) INTERNAL_BLOCKS \<longleftrightarrow>
      a = 10 \<or> a = 127 \<or> a = 0 \<or> a * 256 + b = 169 * 256 + 254 \<or> a * 16 + b div 16 = 172 * 16 + 1 \<or>
      a * 256 + b = 192 * 256 + 168 \<or> a * 4 + b div 64 = 100 * 4 + 1 \<or> a * 256 + b = 192 * 256 \<or> a div 32 = 7"
    using assms by (simp add: INTERNAL_BLOCKS_def in_block_def block_bytes)
  also have "\<dots> \<longleftrightarrow> a = 10 \<or> a = 127 \<or> a = 0 \<or> (a = 169 \<and> b = 254) \<or> (a = 172 \<and> 16 \<le> b \<and> b \<le> 31) \<or>
      (a = 192 \<and> b = 168) \<or> (a = 100 \<and> 64 \<le> b \<and> b \<le> 127) \<or> (a = 192 \<and> b = 0) \<or> 224 \<le> a"
  proof -
    have p16: "a * 256 + b = 169 * 256 + 254 \<longleftrightarrow> a = 169 \<and> b = 254"
      "a * 256 + b = 192 * 256 + 168 \<longleftrightarrow> a = 192 \<and> b = 168"
      "a * 256 + b = 192 * 256 \<longleftrightarrow> a = 192 \<and> b = 0"
      using digits_eq [of b 256 254 a 169] digits_eq [of b 256 168 a 192] digits_eq [of b 256 0 a 192] assms(2)
      by simp_all
    have "b div 16 < 16" "b div 64 < 4" using assms(2) by (simp_all add: less_mult_imp_div_less)
    then have "a * 16 + b div 16 = 172 * 16 + 1 \<longleftrightarrow> a = 172 \<and> b div 16 = 1"
      "a * 4 + b div 64 = 100 * 4 + 1 \<longleftrightarrow> a = 100 \<and> b div 64 = 1"
      using digits_eq [of "b div 16" 16 1 a 172] digits_eq [of "b div 64" 4 1 a 100] by simp_all
    moreover have "b div 16 = 1 \<longleftrightarrow> 16 \<le> b \<and> b \<le> 31" "b div 64 = 1 \<longleftrightarrow> 64 \<le> b \<and> b \<le> 127"
      using quotient_eq [of 16 b 1] quotient_eq [of 64 b 1] by (simp_all add: less_eq_Suc_le)
    ultimately have p12: "a * 16 + b div 16 = 172 * 16 + 1 \<longleftrightarrow> a = 172 \<and> 16 \<le> b \<and> b \<le> 31"
      and p10: "a * 4 + b div 64 = 100 * 4 + 1 \<longleftrightarrow> a = 100 \<and> 64 \<le> b \<and> b \<le> 127" by simp_all
    have p3: "a div 32 = 7 \<longleftrightarrow> 224 \<le> a" using assms(1) quotient_eq [of 32 a 7] by simp
    show ?thesis unfolding p16 p12 p10 p3 ..
  qed
  also have "\<dots> \<longleftrightarrow> isPrivateIpv4 (dotted a b c d)"
    by (simp add: isPrivateIpv4_def split_dotted parseInt_dec)
  finally show ?thesis by simp
qed

text \<open>C37: A dotted address is probed exactly when its number lies in none of the internal blocks. The
  HTTP client can only matter to the outcome, so a request is only sent, when the scheme is a web one
  and every address of the host passed that test. The test is not complete: the form in which the URL
  parser writes the IPv4-mapped loopback address (127.0.0.1) passes it.\<close>

theorem probe_guard:
  "(\<forall>a \<le> 255. \<forall>b \<le> 255. \<forall>c \<le> 255. \<forall>d \<le> 255. publicAddress (dotted a b c d) \<longleftrightarrow>
      \<not> list_ex (\<lambda>blk. in_block blk (address_of a b c d)) INTERNAL_BLOCKS) \<and>
    (\<forall>n f url. probeLink (n\<lparr>fetch := f\<rparr>) url \<noteq> probeLink n url \<longrightarrow>
      (\<exists>protocol hostname rs. parseUrl n url = Some (protocol, hostname) \<and>
         protocol \<in> {''http:'', ''https:''} \<and> hostAddresses n hostname = Some rs \<and>
         (\<forall>x \<in> set rs. publicAddress x))) \<and>
    publicAddress ''::ffff:7f00:1'' \<and> \<not> publicAddress ''127.0.0.1'' \<and> \<not> publicAddress ''::ffff:127.0.0.1''"
proof (intro conjI allI impI)
  fix a b c d :: nat
  assume *: "a \<le> 255" "b \<le> 255" "c \<le> 255" "d \<le> 255"
  show "publicAddress (dotted a b c d) \<longleftrightarrow> \<not> list_ex (\<lambda>blk. in_block blk (address_of a b c d)) INTERNAL_BLOCKS"
    by (simp add: publicAddress_def isIPv4_dotted [OF *] isPrivateIpv4_block [OF *])
next
  fix n f url
  have host: "hostAddresses (n\<lparr>fetch := f\<rparr>) = hostAddresses n"
    by (rule ext) (simp add: hostAddresses_def Let_def)
  assume "probeLink (n\<lparr>fetch := f\<rparr>) url \<noteq> probeLink n url"
  then show "\<exists>protocol hostname rs. parseUrl n url = Some (protocol, hostname) \<and>
      protocol \<in> {''http:'', ''https:''} \<and> hostAddresses n hostname = Some rs \<and> (\<forall>x \<in> set rs. publicAddress x)"
    by (auto simp: probeLink_def publicHost_def host list_all_iff split: option.splits if_splits)
qed code_simp+

theorem probe_guard_witness: "publicAddress (dotted 8 8 4 4) \<and> \<not> publicAddress (dotted 172 20 0 9)"
proof -
  have "publicAddress (dotted a b c d) \<longleftrightarrow> \<not> list_ex (\<lambda>blk. in_block blk (address_of a b c d)) INTERNAL_BLOCKS"
    if "a \<le> 255" "b \<le> 255" "c \<le> 255" "d \<le> 255" for a b c d
    using probe_guard that by blast
  from this [of 8 8 4 4] this [of 172 20 0 9] show ?thesis
    by (simp add: INTERNAL_BLOCKS_def in_block_def address_of_def)
qed

section \<open>The stream of the scanner\<close>

text \<open>The reading side of the protocol: a four-byte length and as many bytes, until the length zero.\<close>

fun wordBE :: "bytes \<Rightarrow> nat" where
  "wordBE s = foldl (\<lambda>n b. 256 * n + unat b) 0 s"

function unframe :: "bytes \<Rightarrow> bytes option" where
  "unframe s =
     (let n = wordBE (take 4 s); rest = drop 4 s
      in if length s < 4 then None
         else if n = 0 then (if rest = [] then Some [] else None)
         else if length rest < n then None
         else map_option ((@) (take n rest)) (unframe (drop n rest)))"
  by pat_completeness auto
termination by (relation "measure length") auto

declare unframe.simps [simp del]

lemma length_uint32BE [simp]: "length (uint32BE n) = 4"
  by (simp add: uint32BE_def)

lemma wordBE_uint32BE:
  assumes "n < 2 ^ 32"
  shows "wordBE (uint32BE n) = n"
proof -
  let ?q = "n div 256" let ?r = "?q div 256" let ?t = "?r div 256"
  have "n div 65536 = ?r" "n div 16777216 = ?t" by (simp_all flip: div_mult2_eq)
  moreover have "?t < 256" using assms by (simp add: less_mult_imp_div_less)
  moreover have "256 * (256 * (256 * ?t + ?r mod 256) + ?q mod 256) + n mod 256 = n"
    by (simp only: mult_div_mod_eq)
  ultimately show ?thesis by (simp add: uint32BE_def unat_of_nat)
qed

lemma unframe_frame:
  assumes "c \<noteq> []" "length c < 2 ^ 32"
  shows "unframe (uint32BE (length c) @ c @ s) = map_option ((@) c) (unframe s)"
  using assms by (subst unframe.simps) (simp add: wordBE_uint32BE Let_def del: wordBE.simps)

text \<open>C38: The scanner is sent its command and then a stream from which the protocol reads back the file,
  byte for byte, whatever its size: no chunk is empty, so the end is not announced before it.\<close>

theorem clamd_stream_roundtrip:
  "\<exists>body. instream buffer = COMMAND @ body \<and> unframe body = Some buffer"
proof -
  have "unframe (concat (map (\<lambda>c. uint32BE (length c) @ c) (chunks buffer)) @ [0, 0, 0, 0]) = Some buffer"
  proof (induction buffer rule: chunks.induct)
    case (1 buffer)
    show ?case
    proof (cases "buffer = []")
      case True
      then show ?thesis by (subst chunks.simps, subst unframe.simps) (simp add: Let_def)
    next
      case False
      then have "take CHUNK_SIZE buffer \<noteq> []" "length (take CHUNK_SIZE buffer) < 2 ^ 32"
        by (simp_all add: CHUNK_SIZE_def)
      note frame = unframe_frame [OF this]
      show ?thesis
        using 1 [OF False] False by (subst chunks.simps) (simp add: frame del: length_take)
    qed
  qed
  then show ?thesis by (simp add: instream_def)
qed

section \<open>The reply of the scanner\<close>

fun received :: "socket_event \<Rightarrow> string" where
  "received (Data s) = s"
| "received _ = []"

lemma settle_clean:
  assumes "settle before es = Some (Inr r)"
  shows "\<exists>pre e post. es = pre @ e # post \<and> (e = Ended \<or> e = Closed) \<and>
    list_all (\<lambda>x. \<exists>s. x = Data s) pre \<and> parseResponse (before @ concat (map received pre)) = Inr r"
  using assms
proof (induction before es rule: settle.induct)
  case (2 before s es)
  then obtain pre e post where "es = pre @ e # post" "e = Ended \<or> e = Closed"
    "list_all (\<lambda>x. \<exists>s. x = Data s) pre" "parseResponse ((before @ s) @ concat (map received pre)) = Inr r"
    by auto
  then show ?case by (intro exI [of _ "Data s # pre"] exI [of _ e] exI [of _ post]) simp
qed (fastforce intro: exI [of _ "[]"])+

text \<open>A file passes only after the connection was ended or closed by the scanner, without an error or
  a timeout before, and only if the whole answer ends in OK: an empty answer, an error and an answer
  that names a virus (ends in FOUND) never pass.\<close>

theorem clamd_fails_closed:
  assumes "scan es = Some (Inr r)" "cleanFile r"
  shows "\<exists>pre e post answer. es = pre @ e # post \<and> (e = Ended \<or> e = Closed) \<and>
    list_all (\<lambda>x. \<exists>s. x = Data s) pre \<and>
    answer = trim (filter (\<lambda>c. c \<noteq> CHR 0x00) (concat (map received pre))) \<and>
    drop (length answer - 2) answer = ''OK'' \<and> (\<nexists>s. answer = s @ ''FOUND'')"
proof -
  obtain pre e post where es: "es = pre @ e # post" "e = Ended \<or> e = Closed"
    "list_all (\<lambda>x. \<exists>s. x = Data s) pre" "parseResponse (concat (map received pre)) = Inr r"
    using settle_clean [of "[]" es r] assms(1) by (auto simp: scan_def)
  let ?a = "trim (filter (\<lambda>c. c \<noteq> CHR 0x00) (concat (map received pre)))"
  have ok: "drop (length ?a - 2) ?a = ''OK''"
    using es(4) assms(2)
    by (auto simp: parseResponse_def Let_def endsOK_def split: if_splits option.splits)
  moreover have "\<nexists>s. ?a = s @ ''FOUND''"
  proof
    assume "\<exists>s. ?a = s @ ''FOUND''"
    then obtain s where "?a = s @ ''FOUND''" ..
    with ok have "drop (length (s @ ''FOUND'') - 2) (s @ ''FOUND'') = ''OK''" by simp
    then show False by simp
  qed
  ultimately show ?thesis using es(1-3) by blast
qed

theorem clamd_fails_closed_witness:
  "scan [Data ''stream: OK'', Ended] = Some (Inr \<lparr>cleanFile = True, threat = None\<rparr>) \<and>
   (\<exists>pre e post. [Data ''stream: OK'', Ended] = pre @ e # post \<and> (e = Ended \<or> e = Closed))"
proof -
  have "scan [Data ''stream: OK'', Ended] = Some (Inr \<lparr>cleanFile = True, threat = None\<rparr>)" by code_simp
  with clamd_fails_closed [OF this] show ?thesis by auto
qed

lemma infected_reply:
  "parseResponse (''stream: Eicar-Test FOUND'' @ [CHR 0x00]) = Inr \<lparr>cleanFile = False, threat = Some ''Eicar-Test''\<rparr>"
  by code_simp

end
