(* ===== verification/Audit_Trail.thy ===== *)
theory Audit_Trail
  imports Search
begin

text \<open>
  The audit trail (\<open>audit/audit.service.ts\<close>), the interceptor that writes it for a marked handler
  (\<open>common/interceptors/audit-log.interceptor.ts\<close>), and the filter that turns an exception into an
  answer (\<open>common/filters/http-exception.filter.ts\<close>). The services of the other theories record their
  entries in the trace \<open>audit\<close> of the world; here is the table with all its columns. The parser of
  dates is an argument.
\<close>

section \<open>The trail\<close>

record audit_row =
  arId :: uuid
  arActorId :: "uuid option"
  arAction :: audit_action
  arEntityType :: "string option"
  arEntityId :: "string option"
  arMetadata :: "string option"
  arIpAddress :: "string option"
  arUserAgent :: "string option"
  arCreatedAt :: date

definition logRow ::
  "date \<Rightarrow> uuid \<Rightarrow> uuid option \<Rightarrow> audit_action \<Rightarrow> string option \<Rightarrow> string option \<Rightarrow> string option \<Rightarrow>
   string option \<Rightarrow> string option \<Rightarrow> audit_row list \<Rightarrow> audit_row list" where
  "logRow t i actor action ety eid meta ip agent rows =
     rows @ [\<lparr>arId = i, arActorId = actor, arAction = action, arEntityType = ety, arEntityId = eid,
       arMetadata = meta, arIpAddress = ip, arUserAgent = agent, arCreatedAt = t\<rparr>]"

text \<open>The interceptor: the entry is written after the handler has returned, and only then; its own
  failure is not awaited.\<close>

definition interceptAudit ::
  "audit_action option \<Rightarrow> (audit_action \<Rightarrow> audit_row list \<Rightarrow> audit_row list option) \<Rightarrow> ('e + 'a) \<Rightarrow>
   audit_row list \<Rightarrow> ('e + 'a) \<times> audit_row list" where
  "interceptAudit action write outcome rows =
     (case (action, outcome) of
        (Some a, Inr x) \<Rightarrow> (Inr x, case write a rows of None \<Rightarrow> rows | Some rows' \<Rightarrow> rows')
      | _ \<Rightarrow> (outcome, rows))"

record audit_query =
  aqAction :: "audit_action option"
  aqActorId :: "uuid option"
  aqEntityType :: "string option"
  aqEntityId :: "string option"
  aqFrom :: "string option"
  aqTo :: "string option"
  aqPage :: "int option"
  aqLimit :: "int option"

record audit_page =
  apItems :: "audit_row list"
  apTotal :: int
  apPage :: int
  apLimit :: int
  apPageCount :: int

text \<open>An absent or empty field is no condition. An invalid date is an error of the query.\<close>

definition unlessEmpty :: "string option \<Rightarrow> string option" where
  "unlessEmpty x = (if x = Some [] then None else x)"

definition buildDateRange ::
  "(string \<Rightarrow> date option) \<Rightarrow> string option \<Rightarrow> string option \<Rightarrow> (date \<Rightarrow> bool) option" where
  "buildDateRange parseDate from until =
     (case (map_option parseDate (unlessEmpty from), map_option parseDate (unlessEmpty until)) of
        (Some None, _) \<Rightarrow> None
      | (_, Some None) \<Rightarrow> None
      | (lo, hi) \<Rightarrow> Some (\<lambda>t. (case lo of Some (Some a) \<Rightarrow> a \<le> t | _ \<Rightarrow> True) \<and>
                            (case hi of Some (Some b) \<Rightarrow> t \<le> b | _ \<Rightarrow> True)))"

definition audit_matches :: "audit_query \<Rightarrow> (date \<Rightarrow> bool) \<Rightarrow> audit_row \<Rightarrow> bool" where
  "audit_matches q in_range r \<longleftrightarrow>
     (case aqAction q of None \<Rightarrow> True | Some a \<Rightarrow> arAction r = a) \<and>
     (case aqActorId q of None \<Rightarrow> True | Some a \<Rightarrow> arActorId r = Some a) \<and>
     (case unlessEmpty (aqEntityType q) of None \<Rightarrow> True | Some t \<Rightarrow> arEntityType r = Some t) \<and>
     (case unlessEmpty (aqEntityId q) of None \<Rightarrow> True | Some i \<Rightarrow> arEntityId r = Some i) \<and>
     in_range (arCreatedAt r)"

definition later :: "audit_row \<Rightarrow> audit_row \<Rightarrow> bool" where
  "later r s \<longleftrightarrow> arCreatedAt s < arCreatedAt r \<or> arCreatedAt s = arCreatedAt r \<and> arId s \<le> arId r"

definition searchAudit ::
  "(string \<Rightarrow> date option) \<Rightarrow> audit_query \<Rightarrow> audit_row list \<Rightarrow> err + audit_page" where
  "searchAudit parseDate q rows =
     (let page = max 1 (orElse (aqPage q) 1); limit = min 100 (max 1 (orElse (aqLimit q) 20)) in
      case buildDateRange parseDate (aqFrom q) (aqTo q) of
        None \<Rightarrow> Inl (InternalServerErrorException ''invalid-date'')
      | Some in_range \<Rightarrow>
          let found = sortBy later (filter (audit_matches q in_range) rows); total = int (length found)
          in Inr \<lparr>apItems = take (nat limit) (drop (nat ((page - 1) * limit)) found), apTotal = total,
               apPage = page, apLimit = limit, apPageCount = (total + limit - 1) div limit\<rparr>)"

section \<open>The answer to an exception\<close>

datatype json_value = Text string | Texts "string list" | Number int | Null | Opaque nat

text \<open>What a handler can throw: an HTTP exception whose response is an object or a text, or
  anything else.\<close>

datatype thrown = HttpObject int string "string \<rightharpoonup> json_value" | HttpText int string | Unexpected string

definition RESERVED_KEYS :: "string list" where
  "RESERVED_KEYS = [''statusCode'', ''error'', ''message'', ''timestamp'', ''path'']"

definition reasonPhrase :: "int \<Rightarrow> string" where
  "reasonPhrase code =
     (case map_of [(400, ''Bad Request''), (401, ''Unauthorized''), (403, ''Forbidden''), (404, ''Not Found''),
        (409, ''Conflict''), (422, ''Unprocessable Entity''), (429, ''Too Many Requests''),
        (500, ''Internal Server Error''), (503, ''Service Unavailable'')] code of
        None \<Rightarrow> ''Error'' | Some s \<Rightarrow> s)"

text \<open>\<open>x ?? y\<close> on a field of an object\<close>

definition present :: "json_value option \<Rightarrow> json_value \<Rightarrow> json_value" where
  "present x y = (case x of None \<Rightarrow> y | Some Null \<Rightarrow> y | Some v \<Rightarrow> v)"

definition errorBody ::
  "int \<Rightarrow> json_value \<Rightarrow> json_value \<Rightarrow> (string \<rightharpoonup> json_value) \<Rightarrow> string \<Rightarrow> string \<Rightarrow> string \<rightharpoonup> json_value" where
  "errorBody code error message extra timestamp path =
     (\<lambda>k. if k \<in> set RESERVED_KEYS then None else extra k)
       (''statusCode'' \<mapsto> Number code, ''error'' \<mapsto> error, ''message'' \<mapsto> message,
        ''timestamp'' \<mapsto> Text timestamp, ''path'' \<mapsto> Text path)"

fun catchException :: "string \<Rightarrow> string \<Rightarrow> thrown \<Rightarrow> int \<times> (string \<rightharpoonup> json_value)" where
  "catchException timestamp path (HttpObject code message resp) =
     (code, errorBody code (present (resp ''error'') (Text (reasonPhrase code)))
        (present (resp ''message'') (Text message)) resp timestamp path)"
| "catchException timestamp path (HttpText code message) =
     (code, errorBody code (Text (reasonPhrase code)) (Text message) (\<lambda>_. None) timestamp path)"
| "catchException timestamp path (Unexpected details) =
     (500, errorBody 500 (Text ''Internal Server Error'') (Text ''Internal server error'') (\<lambda>_. None) timestamp path)"

section \<open>Facts\<close>

text \<open>The answer always carries the status of the exception, whatever its own object says, and
  nothing of an unexpected error; any other field of the object goes through.\<close>

theorem error_answer:
  "(\<exists>code body. catchException t p e = (code, body) \<and> body ''statusCode'' = Some (Number code) \<and>
      body ''timestamp'' = Some (Text t) \<and> body ''path'' = Some (Text p)) \<and>
   catchException t p (Unexpected s) = catchException t p (Unexpected s') \<and>
   (k \<notin> set RESERVED_KEYS \<longrightarrow> snd (catchException t p (HttpObject code m resp)) k = resp k)"
  by (cases e) (auto simp: errorBody_def RESERVED_KEYS_def)

lemma drop_pages: "concat (map (\<lambda>k. take n (drop (k * n) xs)) [0..<m]) = take (m * n) xs"
proof (induction m)
  case (Suc m)
  have "take (m * n) xs @ take n (drop (m * n) xs) = take (m * n + n) xs" by (simp add: take_add)
  with Suc show ?case by (simp add: add.commute)
qed simp

text \<open>The pages of a search, one after the other, are the matching rows, newest first, each once.\<close>

theorem audit_pages_partition:
  assumes "searchAudit parseDate q rows = Inr first"
  shows "\<exists>in_range. buildDateRange parseDate (aqFrom q) (aqTo q) = Some in_range \<and>
    concat (map (\<lambda>k. case searchAudit parseDate (q\<lparr>aqPage := Some (int k + 1)\<rparr>) rows of
        Inr page \<Rightarrow> apItems page | Inl _ \<Rightarrow> []) [0..<nat (apPageCount first)]) =
      sortBy later (filter (audit_matches q in_range) rows)"
proof -
  obtain in_range where r: "buildDateRange parseDate (aqFrom q) (aqTo q) = Some in_range"
    using assms by (auto simp: searchAudit_def Let_def split: option.splits)
  define found where "found = sortBy later (filter (audit_matches q in_range) rows)"
  define n where "n = nat (min 100 (max 1 (orElse (aqLimit q) 20)))"
  have n: "0 < n" "min 100 (max 1 (orElse (aqLimit q) 20)) = int n" by (auto simp: n_def)
  have m: "audit_matches (q\<lparr>aqPage := x\<rparr>) = audit_matches q" for x
    by (intro ext) (simp add: audit_matches_def)
  have o: "orElse (Some (int k + 1)) 1 = int k + 1" for k by (simp add: orElse_def)
  have page: "(case searchAudit parseDate (q\<lparr>aqPage := Some (int k + 1)\<rparr>) rows of
      Inr page \<Rightarrow> apItems page | Inl _ \<Rightarrow> []) = take n (drop (k * n) found)" for k
    using r by (simp add: searchAudit_def Let_def n(2) m found_def o nat_mult_distrib)
  have "apPageCount first = (int (length found) + int n - 1) div int n"
    using assms r by (auto simp: searchAudit_def Let_def n(2) found_def)
  moreover have "int (length found) + int n - 1 = int (length found + n - 1)" using n(1) by simp
  ultimately have "nat (apPageCount first) = (length found + n - 1) div n"
    by (simp only: zdiv_int [symmetric] nat_int)
  then have "length found \<le> nat (apPageCount first) * n"
    using dividend_less_div_times [OF n(1), of "length found + n - 1"] by simp
  then show ?thesis using r by (simp add: page drop_pages) (simp add: found_def)
qed

end
