(* ===== verification/Mail.thy ===== *)
theory Mail
  imports Remediation Crypto
begin

text \<open>
  The content of the e-mails, \<open>adapters/mail/mail-renderer.ts\<close> (the SMTP adapter has a copy of it):
  which text and which link a template gives, the plain-text form, the escaping of the HTML form and
  the reading of the configured sender. Texts are Latin-1 with the Windows-1252 codes for the
  apostrophe and the dash. The layout of the HTML form is left out.
\<close>

definition APP_NAME :: string where "APP_NAME = ''MaySync''"

text \<open>\<open>replace(/\/+$/, '')\<close>\<close>

definition webBaseUrl :: "string option \<Rightarrow> string" where
  "webBaseUrl configured = rev (dropWhile (\<lambda>c. c = CHR ''/'')
     (rev (case configured of None \<Rightarrow> ''http://localhost:3001'' | Some s \<Rightarrow> s)))"

section \<open>Templates\<close>

record mail_template =
  ttPath :: string
  ttHeading :: string
  ttIntro :: string
  ttCta :: string
  ttNote :: string

definition TOKEN_TEMPLATES :: "(string \<times> mail_template) list" where
  "TOKEN_TEMPLATES =
    [(''email-verification'',
      \<lparr>ttPath = ''/verify-email'',
       ttHeading = ''Confirmez votre adresse email'',
       ttIntro = ''Bienvenue sur '' @ APP_NAME @ '' ! Il ne reste qu'' @ [CHR 0x92] @ ''une '' @ [CHR 0xE9] @
         ''tape : confirmez votre adresse email pour activer votre compte et acc'' @ [CHR 0xE9] @
         ''der '' @ [CHR 0xE0] @ '' la plateforme.'',
       ttCta = ''V'' @ [CHR 0xE9] @ ''rifier mon adresse'',
       ttNote = ''Ce lien expire dans 24 heures. Si vous n'' @ [CHR 0x92] @ [CHR 0xEA] @ ''tes pas '' @
         [CHR 0xE0] @ '' l'' @ [CHR 0x92] @
         ''origine de cette inscription, vous pouvez ignorer cet email.''\<rparr>),
     (''password-reset'',
      \<lparr>ttPath = ''/reset-password'',
       ttHeading = ''R'' @ [CHR 0xE9] @ ''initialisation de votre mot de passe'',
       ttIntro = ''Vous avez demand'' @ [CHR 0xE9] @ '' '' @ [CHR 0xE0] @ '' r'' @ [CHR 0xE9] @
         ''initialiser votre mot de passe. Cliquez sur le bouton ci-dessous pour en choisir un nouveau.'',
       ttCta = ''Choisir un nouveau mot de passe'',
       ttNote = ''Ce lien est valable une heure. Si vous n'' @ [CHR 0x92] @ [CHR 0xEA] @ ''tes pas '' @
         [CHR 0xE0] @ '' l'' @ [CHR 0x92] @ ''origine de cette demande, aucune action n'' @
         [CHR 0x92] @ ''est requise : votre mot de passe reste inchang'' @ [CHR 0xE9] @ ''.''\<rparr>),
     (''recruiter-invitation'',
      \<lparr>ttPath = ''/accept-invite'',
       ttHeading = ''Vous '' @ [CHR 0xEA] @ ''tes invit'' @ [CHR 0xE9] @ ''(e) '' @ [CHR 0xE0] @
         '' rejoindre une '' @ [CHR 0xE9] @ ''quipe'',
       ttIntro = ''Une entreprise vous invite '' @ [CHR 0xE0] @ '' la rejoindre comme recruteur sur '' @
         APP_NAME @ ''. Cliquez ci-dessous pour d'' @ [CHR 0xE9] @
         ''finir votre mot de passe et activer votre compte recruteur.'',
       ttCta = ''Activer mon compte'',
       ttNote = ''Ce lien expire dans 7 jours. Si vous n'' @ [CHR 0x92] @
         ''attendiez pas cette invitation, vous pouvez ignorer cet email.''\<rparr>)]"

text \<open>Without a note.\<close>

definition NOTIFICATION_TEMPLATES :: "(string \<times> mail_template) list" where
  "NOTIFICATION_TEMPLATES =
    [(''cooldown-expired'',
      \<lparr>ttPath = ''/assessments'',
       ttHeading = ''Vous pouvez repasser votre '' @ [CHR 0xE9] @ ''valuation'',
       ttIntro = ''Bonne nouvelle : le d'' @ [CHR 0xE9] @ ''lai d'' @ [CHR 0x92] @ ''attente est '' @
         [CHR 0xE9] @ ''coul'' @ [CHR 0xE9] @ ''. Vous pouvez retenter votre '' @ [CHR 0xE9] @
         ''valuation d'' @ [CHR 0xE8] @ ''s maintenant pour am'' @ [CHR 0xE9] @
         ''liorer votre score et votre visibilit'' @ [CHR 0xE9] @ '' aupr'' @ [CHR 0xE8] @
         ''s des recruteurs.'',
       ttCta = ''Repasser mon '' @ [CHR 0xE9] @ ''valuation'', ttNote = []\<rparr>),
     (''profile-viewed'',
      \<lparr>ttPath = ''/dashboard'',
       ttHeading = ''Un recruteur a consult'' @ [CHR 0xE9] @ '' votre profil'',
       ttIntro = ''Votre profil a retenu l'' @ [CHR 0x92] @ ''attention d'' @ [CHR 0x92] @
         ''un recruteur. Gardez-le complet et '' @ [CHR 0xE0] @
         '' jour pour maximiser vos chances d'' @ [CHR 0x92] @ [CHR 0xEA] @ ''tre contact'' @
         [CHR 0xE9] @ ''.'',
       ttCta = ''Voir mon tableau de bord'', ttNote = []\<rparr>)]"

section \<open>Links\<close>

text \<open>\<open>encodeURIComponent\<close> on ASCII text\<close>

definition unreserved :: "char \<Rightarrow> bool" where
  "unreserved c \<longleftrightarrow> (let n = of_char c :: nat in
     48 \<le> n \<and> n \<le> 57 \<or> 65 \<le> n \<and> n \<le> 90 \<or> 97 \<le> n \<and> n \<le> 122 \<or>
     n \<in> {0x2D, 0x5F, 0x2E, 0x21, 0x7E, 0x2A, 0x27, 0x28, 0x29})"

definition upperHex :: "nat \<Rightarrow> char" where
  "upperHex k = (if k < 10 then char_of (48 + k) else char_of (55 + k))"

definition encodeURIComponent :: "string \<Rightarrow> string" where
  "encodeURIComponent s = concat (map (\<lambda>c. if unreserved c then [c]
     else [CHR 0x25, upperHex (of_char c div 16), upperHex (of_char c mod 16)]) s)"

section \<open>Content\<close>

record email_content =
  ecHeading :: string
  paragraphs :: "string list"
  ctaLabel :: "string option"
  ctaUrl :: "string option"
  ecNote :: "string option"
  showLinkFallback :: bool

definition tokenLink :: "string \<Rightarrow> string \<Rightarrow> string \<Rightarrow> string" where
  "tokenLink base path token = base @ path @ ''?token='' @ encodeURIComponent token"

text \<open>A variable counts as a token when it is there and not empty.\<close>

definition resolveContent ::
  "string \<Rightarrow> string \<Rightarrow> string \<Rightarrow> (string \<rightharpoonup> string) \<Rightarrow> string \<Rightarrow> email_content" where
  "resolveContent base template subject variables recipient =
     (let token = (case variables ''token'' of None \<Rightarrow> [] | Some t \<Rightarrow> t) in
      if template = ''recruiter-invite'' \<and> token \<noteq> [] then
        \<lparr>ecHeading = ''Votre compte recruteur '' @ APP_NAME,
         paragraphs =
           [case variables ''companyName'' of
              Some (c # cs) \<Rightarrow> ''Un compte recruteur a '' @ [CHR 0xE9] @ ''t'' @ [CHR 0xE9] @ '' cr'' @ [CHR 0xE9] @
         [CHR 0xE9] @ '' pour vous au sein de '' @ [CHR 0xAB] @ '' '' @ (c # cs) @
         '' '' @ [CHR 0xBB] @ ''. Activez-le en d'' @ [CHR 0xE9] @
         ''finissant votre mot de passe, puis connectez-vous.''
            | _ \<Rightarrow> ''Un compte recruteur a '' @ [CHR 0xE9] @ ''t'' @ [CHR 0xE9] @ '' cr'' @ [CHR 0xE9] @
         [CHR 0xE9] @ '' pour vous. Activez-le en d'' @ [CHR 0xE9] @
         ''finissant votre mot de passe, puis connectez-vous.'',
            ''Votre identifiant de connexion : '' @ (case variables ''email'' of None \<Rightarrow> recipient | Some e \<Rightarrow> e)],
         ctaLabel = Some (''D'' @ [CHR 0xE9] @ ''finir mon mot de passe''), ctaUrl = Some (tokenLink base ''/reset-password'' token),
         ecNote = Some (''Ce lien d'' @ [CHR 0x92] @
         ''activation expire dans 7 jours. Connectez-vous ensuite avec l'' @ [CHR 0x92] @
         ''adresse indiqu'' @ [CHR 0xE9] @ ''e ci-dessus.''),
         showLinkFallback = True\<rparr>
      else case (if token = [] then None else map_of TOKEN_TEMPLATES template) of
        Some t \<Rightarrow>
          \<lparr>ecHeading = ttHeading t, paragraphs = [ttIntro t], ctaLabel = Some (ttCta t),
           ctaUrl = Some (tokenLink base (ttPath t) token), ecNote = Some (ttNote t), showLinkFallback = True\<rparr>
      | None \<Rightarrow>
          (case map_of NOTIFICATION_TEMPLATES template of
             Some t \<Rightarrow>
               \<lparr>ecHeading = ttHeading t, paragraphs = [ttIntro t], ctaLabel = Some (ttCta t),
                ctaUrl = Some (base @ ttPath t), ecNote = None, showLinkFallback = False\<rparr>
           | None \<Rightarrow>
               \<lparr>ecHeading = (if subject = [] then APP_NAME else subject),
                paragraphs = [''Vous avez une nouvelle notification sur votre compte '' @ APP_NAME @ ''.''],
                ctaLabel = Some (''Ouvrir '' @ APP_NAME), ctaUrl = Some (base @ ''/dashboard''),
                ecNote = None, showLinkFallback = False\<rparr>))"

section \<open>Rendering\<close>

text \<open>One pass per character, the ampersand first, as in the source: on one character the passes
  after the first one only meet what that character was.\<close>

definition replaceChar :: "char \<Rightarrow> string \<Rightarrow> string \<Rightarrow> string" where
  "replaceChar c r s = concat (map (\<lambda>x. if x = c then r else [x]) s)"

definition escapeHtml :: "string \<Rightarrow> string" where
  "escapeHtml s = replaceChar (CHR 0x22) ''&quot;'' (replaceChar (CHR ''>'') ''&gt;''
     (replaceChar (CHR ''<'') ''&lt;'' (replaceChar (CHR ''&'') ''&amp;'' s)))"

definition newline :: string where "newline = [CHR 0x0A]"

fun joinWith :: "string \<Rightarrow> string list \<Rightarrow> string" where
  "joinWith sep [] = []"
| "joinWith sep [s] = s"
| "joinWith sep (s # ss) = s @ sep @ joinWith sep ss"

definition renderText :: "email_content \<Rightarrow> string" where
  "renderText c = joinWith newline
     ([ecHeading c, []] @ paragraphs c @
      (case ctaUrl c of None \<Rightarrow> [] | Some url \<Rightarrow>
         [[], (case ctaLabel c of None \<Rightarrow> ''Ouvrir'' | Some l \<Rightarrow> l) @ '' : '' @ url]) @
      (case ecNote c of None \<Rightarrow> [] | Some n \<Rightarrow> [[], n]) @
      [[], [CHR 0x97] @ '' '' @ APP_NAME])"

text \<open>\<open>/^(.+?)\s*<([^>]+)>$/\<close>: the shortest name that leaves spaces and an address in brackets.\<close>

definition bracketed :: "string \<Rightarrow> string option" where
  "bracketed s = (case dropWhile is_space s of
     c # cs \<Rightarrow>
       if c = CHR ''<'' \<and> 2 \<le> length cs \<and> last cs = CHR ''>'' \<and> CHR ''>'' \<notin> set (butlast cs)
       then Some (butlast cs) else None
   | [] \<Rightarrow> None)"

definition parseSender :: "string \<Rightarrow> string \<times> string" where
  "parseSender from =
     (case List.find (\<lambda>n. CHR 0x0A \<notin> set (take n from) \<and> CHR 0x0D \<notin> set (take n from) \<and>
                          bracketed (drop n from) \<noteq> None) [1..<Suc (length from)] of
        Some n \<Rightarrow> (trim (take n from), trim (case bracketed (drop n from) of Some a \<Rightarrow> a | None \<Rightarrow> []))
      | None \<Rightarrow> (APP_NAME, trim from))"

section \<open>Facts\<close>

definition attribute_safe :: "string \<Rightarrow> bool" where
  "attribute_safe s \<longleftrightarrow> list_all (\<lambda>c. c \<notin> {CHR 0x22, CHR ''<'', CHR ''>''}) s"

fun unescapeHtml :: "string \<Rightarrow> string" where
  "unescapeHtml [] = []"
| "unescapeHtml (c # cs) =
     (if c = CHR ''&'' then
        if take 4 cs = ''amp;'' then CHR ''&'' # unescapeHtml (drop 4 cs)
        else if take 3 cs = ''lt;'' then CHR ''<'' # unescapeHtml (drop 3 cs)
        else if take 3 cs = ''gt;'' then CHR ''>'' # unescapeHtml (drop 3 cs)
        else if take 5 cs = ''quot;'' then CHR 0x22 # unescapeHtml (drop 5 cs)
        else c # unescapeHtml cs
      else c # unescapeHtml cs)"

definition escapeChar :: "char \<Rightarrow> string" where
  "escapeChar c = (if c = CHR ''&'' then ''&amp;'' else if c = CHR ''<'' then ''&lt;''
     else if c = CHR ''>'' then ''&gt;'' else if c = CHR 0x22 then ''&quot;'' else [c])"

lemma escapeHtml_chars: "escapeHtml s = concat (map escapeChar s)"
  by (induction s) (auto simp: escapeHtml_def replaceChar_def escapeChar_def)

text \<open>An escaped text has no character that ends an attribute or opens a tag, and reads back as the
  text it was.\<close>

theorem escape_html: "attribute_safe (escapeHtml s) \<and> unescapeHtml (escapeHtml s) = s"
proof -
  have "attribute_safe (escapeChar c)" for c by (simp add: escapeChar_def attribute_safe_def)
  then have "attribute_safe (escapeHtml s)"
    unfolding escapeHtml_chars by (induction s) (simp_all add: attribute_safe_def)
  moreover have "unescapeHtml (escapeChar c @ t) = c # unescapeHtml t" for c t
    by (auto simp: escapeChar_def numeral_eq_Suc)
  then have "unescapeHtml (escapeHtml s) = s" unfolding escapeHtml_chars by (induction s) simp_all
  ultimately show ?thesis ..
qed

lemma encode_safe: "attribute_safe (encodeURIComponent s)"
proof -
  have hex: "upperHex k \<notin> {CHR 0x22, CHR ''<'', CHR ''>''}" if "k < 16" for k
  proof -
    have "k \<in> {0..<16}" using that by simp
    then have "k \<in> set [0..<16]" by simp
    moreover have "list_all (\<lambda>k. upperHex k \<notin> {CHR 0x22, CHR ''<'', CHR ''>''}) [0..<16]" by code_simp
    ultimately show ?thesis unfolding list_all_iff by blast
  qed
  have plain: "unreserved c \<Longrightarrow> c \<notin> {CHR 0x22, CHR ''<'', CHR ''>''}" for c
    by (auto simp: unreserved_def Let_def)
  have "attribute_safe (if unreserved c then [c]
      else [CHR 0x25, upperHex (of_char c div 16), upperHex (of_char c mod 16)])" for c
  proof -
    have "(of_char c :: nat) < 256" by simp
    then have "(of_char c :: nat) div 16 < 16" "(of_char c :: nat) mod 16 < 16" by (simp_all add: less_mult_imp_div_less)
    then show ?thesis using hex plain [of c] by (simp add: attribute_safe_def)
  qed
  then show ?thesis
    unfolding encodeURIComponent_def by (induction s) (simp_all add: attribute_safe_def)
qed

text \<open>The link of a message can be written into an attribute as it is: whatever the token, it has no
  character that ends the attribute, if the configured address of the site has none.\<close>

theorem mail_link_safe:
  assumes "attribute_safe base"
  shows "\<exists>url. ctaUrl (resolveContent base template subject variables recipient) = Some url \<and> attribute_safe url"
proof -
  have paths: "attribute_safe (ttPath t)"
    if "map_of TOKEN_TEMPLATES x = Some t \<or> map_of NOTIFICATION_TEMPLATES x = Some t" for x t
  proof -
    have "list_all (\<lambda>(k, t). attribute_safe (ttPath t)) (TOKEN_TEMPLATES @ NOTIFICATION_TEMPLATES)"
      by (simp add: TOKEN_TEMPLATES_def NOTIFICATION_TEMPLATES_def attribute_safe_def)
    moreover have "(x, t) \<in> set (TOKEN_TEMPLATES @ NOTIFICATION_TEMPLATES)"
      using that map_of_SomeD by fastforce
    ultimately show ?thesis by (auto simp: list_all_iff)
  qed
  have link: "attribute_safe (tokenLink base p t)" if "attribute_safe p" for p t
    using assms that encode_safe [of t] by (simp add: tokenLink_def attribute_safe_def)
  have [simp]: "attribute_safe (s @ t) \<longleftrightarrow> attribute_safe s \<and> attribute_safe t" for s t
    by (simp add: attribute_safe_def)
  show ?thesis
    using assms paths link
    by (auto simp: resolveContent_def Let_def attribute_safe_def split: option.split)
qed

end
