(* ===== verification/Staff.thy ===== *)
theory Staff
  imports Entitlements Subscription_Admin Search
begin

text \<open>
  What staff read and change through the administration: the companies a plan can be assigned to
  (\<open>companies/subscription-admin.service.ts\<close>), and the handler that overrides a feature
  (\<open>entitlements/entitlements-admin.controller.ts\<close>). The order of \<open>localeCompare\<close> is an argument.
\<close>

section \<open>Assignable companies\<close>

record assignable_company =
  acCompanyId :: uuid
  acCompanyName :: string
  recruiterEmails :: "string list"
  currentPlan :: "plan option"
  currentStatus :: "sub_status option"

text \<open>\<open>sort()\<close> compares code units.\<close>

fun text_le :: "string \<Rightarrow> string \<Rightarrow> bool" where
  "text_le [] t = True"
| "text_le (c # s) [] = False"
| "text_le (c # s) (d # t) =
     ((of_char c :: nat) < of_char d \<or> c = d \<and> text_le s t)"

text \<open>The companies with a recruiter, in the order in which they appear, each once.\<close>

definition recruiting :: "db \<Rightarrow> company list" where
  "recruiting d = List.map_filter (\<lambda>c. List.find (\<lambda>x. coId x = c) (companies d))
     (rev (remdups (rev (map recCompanyId (recruiters d)))))"

definition emailsOf :: "db \<Rightarrow> uuid \<Rightarrow> string list" where
  "emailsOf d c = sortBy text_le (remdups (filter (\<lambda>e. e \<noteq> [])
     (List.map_filter (\<lambda>r. map_option email (List.find (\<lambda>u. userId u = recUserId r) (users d)))
       (filter (\<lambda>r. recCompanyId r = c) (recruiters d)))))"

definition liveSubscription :: "db \<Rightarrow> uuid \<Rightarrow> subscription option" where
  "liveSubscription d c = (case newest_first subCreatedAt (filter (\<lambda>s. subCompanyId s = c \<and>
     subStatus s \<in> set LIVE_STATUSES) (subscriptions d)) of [] \<Rightarrow> None | s # _ \<Rightarrow> Some s)"

definition assignable :: "db \<Rightarrow> company \<Rightarrow> assignable_company" where
  "assignable d c = (let live = liveSubscription d (coId c) in
     \<lparr>acCompanyId = coId c, acCompanyName = coName c, recruiterEmails = emailsOf d (coId c),
      currentPlan = map_option subPlan live, currentStatus = map_option subStatus live\<rparr>)"

definition listAssignableCompanies :: "(string \<Rightarrow> nat) \<Rightarrow> assignable_company list service" where
  "listAssignableCompanies collation = gets (\<lambda>w.
     sort_key (\<lambda>r. collation (acCompanyName r)) (map (assignable (db w)) (recruiting (db w))))"

section \<open>Overriding a feature\<close>

definition FEATURE_VALUES :: "(string \<times> feature) list" where
  "FEATURE_VALUES =
     [(''cv_database'', CV_DATABASE), (''candidate_search'', CANDIDATE_SEARCH),
      (''profile_filter'', PROFILE_FILTER), (''school_filter'', SCHOOL_FILTER), (''score_sort'', SCORE_SORT),
      (''evaluations'', EVALUATIONS), (''advanced_evaluations'', ADVANCED_EVALUATIONS), (''jobs'', JOBS),
      (''applications'', APPLICATIONS), (''shortlist'', SHORTLIST), (''anti_cheat'', ANTI_CHEAT),
      (''basic_analytics'', BASIC_ANALYTICS), (''advanced_analytics'', ADVANCED_ANALYTICS),
      (''export_candidates'', EXPORT_CANDIDATES), (''api_access'', API_ACCESS), (''multi_user'', MULTI_USER),
      (''priority_support'', PRIORITY_SUPPORT)]"

definition parseFeature :: "string \<Rightarrow> feature service" where
  "parseFeature value = someOr (BadRequestException ''feature'') (map_of FEATURE_VALUES value)"

definition setOverrideHandler ::
  "env \<Rightarrow> uuid \<Rightarrow> uuid \<Rightarrow> string \<Rightarrow> bool \<Rightarrow> string option \<Rightarrow> feature_override service" where
  "setOverrideHandler env staff c value enabled remark =
     bindE (parseFeature value) (\<lambda>f.
     bindE (setOverride c f enabled staff remark) (\<lambda>saved.
     bindE (auditLog env \<lparr>actorId = Some staff, auAction = FEATURE_OVERRIDE_CHANGED,
              entityType = ''feature_override'', entityId = foId saved\<rparr>) (\<lambda>_. ret saved)))"

section \<open>Facts\<close>

text \<open>Every feature has one name, and a name that is none of them changes nothing.\<close>

lemma feature_names:
  "distinct (map fst FEATURE_VALUES)" "f \<in> snd ` set FEATURE_VALUES"
  "map_of FEATURE_VALUES value = None \<Longrightarrow>
     setOverrideHandler env staff c value enabled remark w = (Inl (BadRequestException ''feature''), w)"
proof -
  show "distinct (map fst FEATURE_VALUES)" by code_simp
  show "f \<in> snd ` set FEATURE_VALUES" by (cases f) (simp_all add: FEATURE_VALUES_def)
  show "map_of FEATURE_VALUES value = None \<Longrightarrow>
      setOverrideHandler env staff c value enabled remark w = (Inl (BadRequestException ''feature''), w)"
    by (simp add: setOverrideHandler_def parseFeature_def bindE_def someOr_apply)
qed

text \<open>The list shows exactly the companies that have a recruiter and still exist, each at most once.\<close>

theorem assignable_companies:
  assumes "listAssignableCompanies collation w = (Inr rows, w')"
  shows "w' = w \<and> set (map acCompanyId rows) =
    {c \<in> recCompanyId ` set (recruiters (db w)). \<exists>x \<in> set (companies (db w)). coId x = c} \<and>
    distinct (map acCompanyId rows)"
proof -
  let ?cs = "rev (remdups (rev (map recCompanyId (recruiters (db w)))))"
  have ids: "map acCompanyId (map (assignable (db w)) (recruiting (db w))) =
      filter (\<lambda>c. \<exists>x \<in> set (companies (db w)). coId x = c) ?cs"
  proof -
    have "map (acCompanyId \<circ> assignable (db w)) (List.map_filter (\<lambda>c. List.find (\<lambda>x. coId x = c) (companies (db w))) cs) =
        filter (\<lambda>c. \<exists>x \<in> set (companies (db w)). coId x = c) cs" for cs
      by (induction cs) (auto simp: List.map_filter_simps assignable_def Let_def find_None_iff
          dest: find_SomeD split: option.splits)
    then show ?thesis by (simp add: recruiting_def)
  qed
  have rows: "rows = sort_key (\<lambda>r. collation (acCompanyName r)) (map (assignable (db w)) (recruiting (db w)))" "w' = w"
    using assms by (auto simp: listAssignableCompanies_def)
  have "set (map acCompanyId rows) = set (map acCompanyId (map (assignable (db w)) (recruiting (db w))))"
    by (simp add: rows(1) image_image)
  moreover have "distinct (map acCompanyId rows)"
  proof -
    have "distinct (map acCompanyId (map (assignable (db w)) (recruiting (db w))))" unfolding ids by simp
    then show ?thesis by (auto simp: rows(1) distinct_map inj_on_def)
  qed
  ultimately show ?thesis using rows(2) unfolding ids by auto
qed

end
