(* ===== verification/Invoice_Access.thy ===== *)
theory Invoice_Access
  imports Quota Notifications Invoicing
begin

text \<open>
  A company's own invoices, \<open>billing/invoice.service.ts\<close>: the list and the link to the archived
  document. The company is the caller's, never an argument.
\<close>

definition listForUser :: "uuid \<Rightarrow> invoice list service" where
  "listForUser i =
     bindE (resolveCompanyId i) (\<lambda>companyId.
     gets (\<lambda>w. newest_first issuedAt (filter (\<lambda>v. invoiceCompanyId v = companyId) (invoices (db w)))))"

definition getSignedPdfUrl :: "env \<Rightarrow> uuid \<Rightarrow> uuid \<Rightarrow> string service" where
  "getSignedPdfUrl env i k =
     bindE (resolveCompanyId i) (\<lambda>companyId.
     bindE (gets (\<lambda>w. List.find (\<lambda>v. invoiceId v = k \<and> invoiceCompanyId v = companyId) (invoices (db w)))) (\<lambda>found.
     bindE (someOr (NotFoundException ''invoice'') found) (\<lambda>v.
     someOr (ServiceUnavailable ''storage'') (signedUrl env (pdfStorageKey v)))))"

text \<open>Reading changes nothing. The list of a recruiter holds the invoices of the recruiter's company
  and no other, and every listed invoice, and only such an invoice, has a link, namely to the
  document archived for it: an invoice of another company is answered like one that does not exist.\<close>

theorem invoice_access:
  assumes "distinct (map invoiceId (invoices (db w)))"
    and "recruiterOf (db w) i = Some r"
  shows "\<exists>rows. listForUser i w = (Inr rows, w) \<and>
    set rows = {v \<in> set (invoices (db w)). invoiceCompanyId v = recCompanyId r} \<and>
    sorted (rev (map issuedAt rows)) \<and>
    (\<forall>v \<in> set rows. getSignedPdfUrl env i (invoiceId v) w =
       (case signedUrl env (pdfStorageKey v) of
          None \<Rightarrow> (Inl (ServiceUnavailable ''storage''), w) | Some url \<Rightarrow> (Inr url, w))) \<and>
    (\<forall>k. k \<notin> invoiceId ` set rows \<longrightarrow> getSignedPdfUrl env i k w = (Inl (NotFoundException ''invoice''), w))"
proof -
  let ?rows = "newest_first issuedAt (filter (\<lambda>v. invoiceCompanyId v = recCompanyId r) (invoices (db w)))"
  have rows: "set ?rows = {v \<in> set (invoices (db w)). invoiceCompanyId v = recCompanyId r}" by simp
  have "List.find (\<lambda>x. invoiceId x = invoiceId v \<and> invoiceCompanyId x = recCompanyId r) (invoices (db w)) = Some v"
    if "v \<in> set ?rows" for v
  proof -
    have v: "v \<in> set (invoices (db w))" "invoiceCompanyId v = recCompanyId r" using that by simp_all
    then obtain x where x: "List.find (\<lambda>x. invoiceId x = invoiceId v \<and> invoiceCompanyId x = recCompanyId r)
        (invoices (db w)) = Some x"
      by (cases "List.find (\<lambda>x. invoiceId x = invoiceId v \<and> invoiceCompanyId x = recCompanyId r) (invoices (db w))")
         (auto simp: find_None_iff)
    then have "x \<in> set (invoices (db w))" "invoiceId x = invoiceId v" by (auto simp: find_Some_iff)
    moreover have "inj_on invoiceId (set (invoices (db w)))" using assms(1) by (simp add: distinct_map)
    ultimately have "x = v" using v(1) by (blast dest: inj_onD)
    then show ?thesis using x by simp
  qed
  note found = this
  have "\<forall>v \<in> set ?rows. getSignedPdfUrl env i (invoiceId v) w =
      (case signedUrl env (pdfStorageKey v) of
         None \<Rightarrow> (Inl (ServiceUnavailable ''storage''), w) | Some url \<Rightarrow> (Inr url, w))"
  proof
    fix v assume "v \<in> set ?rows"
    note v = found [OF this]
    show "getSignedPdfUrl env i (invoiceId v) w =
        (case signedUrl env (pdfStorageKey v) of
           None \<Rightarrow> (Inl (ServiceUnavailable ''storage''), w) | Some url \<Rightarrow> (Inr url, w))"
      by (simp add: getSignedPdfUrl_def resolveCompanyId_apply someOr_apply assms(2) bindE_def v split: option.split)
  qed
  moreover have "\<forall>k. k \<notin> invoiceId ` set ?rows \<longrightarrow>
      getSignedPdfUrl env i k w = (Inl (NotFoundException ''invoice''), w)"
  proof (intro allI impI)
    fix k assume "k \<notin> invoiceId ` set ?rows"
    then have "List.find (\<lambda>x. invoiceId x = k \<and> invoiceCompanyId x = recCompanyId r) (invoices (db w)) = None"
      unfolding rows by (auto simp: find_None_iff)
    then show "getSignedPdfUrl env i k w = (Inl (NotFoundException ''invoice''), w)"
      by (simp add: getSignedPdfUrl_def resolveCompanyId_apply someOr_apply assms(2) bindE_def)
  qed
  moreover have "listForUser i w = (Inr ?rows, w)"
    by (simp add: listForUser_def resolveCompanyId_apply assms(2) bindE_def)
  moreover have "sorted (rev (map issuedAt ?rows))"
    by (rule sorted_newest_first)
  ultimately show ?thesis using rows by blast
qed

end
