(* ===== verification/Client_Session.thy ===== *)
theory Client_Session
  imports Documents
begin

text \<open>
  The session of a browser tab, \<open>frontend/src/auth\<close>: where the two tokens are kept
  (\<open>token-store.ts\<close>), the hooks around every request (\<open>api-middleware.ts\<close>) with the refresh that
  concurrent requests share, and signing in and out (\<open>auth-context.tsx\<close>). The tab is an event-driven
  machine: a step handles one event and lists what it sends. The base64 and JSON parsers of the
  browser are an argument, \<open>jsonExp\<close>: the number \<open>exp\<close> of an encoded object.
\<close>

section \<open>Tokens\<close>

record tab =
  tbAccess :: "string option"
  tbExpiresAt :: date
  tbRefresh :: "string option"
  tbRefreshing :: "string option"
  tbWaiting :: "nat list"
  tbUser :: bool

definition decodeJwtExpiryMs :: "(string \<Rightarrow> int option) \<Rightarrow> string \<Rightarrow> date" where
  "decodeJwtExpiryMs jsonExp token =
     (case splitOn (CHR ''.'') token of
        _ # (c # cs) # _ \<Rightarrow>
          (case jsonExp (map (\<lambda>x. if x = CHR ''-'' then CHR ''+'' else if x = CHR ''_'' then CHR ''/'' else x)
                   (c # cs)) of
             Some e \<Rightarrow> e * 1000
           | None \<Rightarrow> 0)
      | _ \<Rightarrow> 0)"

definition storeTokens :: "(string \<Rightarrow> int option) \<Rightarrow> string \<Rightarrow> string \<Rightarrow> tab \<Rightarrow> tab" where
  "storeTokens jsonExp a r t =
     t\<lparr>tbAccess := Some a, tbExpiresAt := decodeJwtExpiryMs jsonExp a, tbRefresh := Some r\<rparr>"

definition clearAllTokens :: "tab \<Rightarrow> tab" where
  "clearAllTokens t = t\<lparr>tbAccess := None, tbExpiresAt := 0, tbRefresh := None\<rparr>"

section \<open>Requests\<close>

definition REFRESH_BUFFER_MS :: int where "REFRESH_BUFFER_MS = 10000"

definition SKIP_AUTH_SCHEMA_PATHS :: "string list" where
  "SKIP_AUTH_SCHEMA_PATHS = [''/api/v1/auth/login'', ''/api/v1/auth/register'', ''/api/v1/auth/refresh'',
     ''/api/v1/auth/verify-email'']"

text \<open>The answer to a refresh: new tokens, an error of the server, or a failed connection.\<close>

datatype refresh_answer = Granted string string | Refused | Lost

datatype client_event =
    Call nat string date
  | RefreshAnswered refresh_answer
  | Answered string int
  | SignedIn string string
  | UserLoaded bool
  | SignedOut

datatype client_action =
    PostRefresh string
  | SendRequest nat "string option"
  | FailRequest nat

text \<open>An empty text counts as no token.\<close>

definition tokenOf :: "string option \<Rightarrow> string option" where
  "tokenOf x = (if x = Some [] then None else x)"

text \<open>\<open>onRequest\<close> and \<open>ensureFreshAccessToken\<close>: a request leaves at once, or waits for the refresh
  in flight, which it starts when there is none.\<close>

definition onRequest :: "nat \<Rightarrow> string \<Rightarrow> date \<Rightarrow> tab \<Rightarrow> tab \<times> client_action list" where
  "onRequest i path t s =
     (if path \<in> set SKIP_AUTH_SCHEMA_PATHS then (s, [SendRequest i None])
      else if tokenOf (tbAccess s) \<noteq> None \<and> t < tbExpiresAt s - REFRESH_BUFFER_MS
      then (s, [SendRequest i (tbAccess s)])
      else case tokenOf (tbRefresh s) of
             None \<Rightarrow> (s, [SendRequest i None])
           | Some r \<Rightarrow>
               (case tbRefreshing s of
                  None \<Rightarrow> (s\<lparr>tbRefreshing := Some r, tbWaiting := [i]\<rparr>, [PostRefresh r])
                | Some _ \<Rightarrow> (s\<lparr>tbWaiting := tbWaiting s @ [i]\<rparr>, [])))"

text \<open>\<open>performRefresh\<close> once its request is answered; the waiting requests go on with its result, or
  fail with it.\<close>

definition performRefresh :: "(string \<Rightarrow> int option) \<Rightarrow> refresh_answer \<Rightarrow> tab \<Rightarrow> tab \<times> client_action list" where
  "performRefresh jsonExp answer s =
     (let s' = s\<lparr>tbRefreshing := None, tbWaiting := []\<rparr> in
      case tbRefreshing s of
        None \<Rightarrow> (s, [])
      | Some _ \<Rightarrow>
          (case answer of
             Granted a r \<Rightarrow> (storeTokens jsonExp a r s', map (\<lambda>i. SendRequest i (tokenOf (Some a))) (tbWaiting s))
           | Refused \<Rightarrow> ((clearAllTokens s')\<lparr>tbUser := False\<rparr>, map (\<lambda>i. SendRequest i None) (tbWaiting s))
           | Lost \<Rightarrow> (s', map FailRequest (tbWaiting s))))"

definition onResponse :: "string \<Rightarrow> int \<Rightarrow> tab \<Rightarrow> tab" where
  "onResponse path status s =
     (if status = 401 \<and> path \<notin> set SKIP_AUTH_SCHEMA_PATHS then (clearAllTokens s)\<lparr>tbUser := False\<rparr> else s)"

text \<open>\<open>login\<close> stores the tokens and then loads the user; \<open>UserLoaded False\<close> is its failure.\<close>

fun clientStep :: "(string \<Rightarrow> int option) \<Rightarrow> client_event \<Rightarrow> tab \<Rightarrow> tab \<times> client_action list" where
  "clientStep jsonExp (Call i path t) s = onRequest i path t s"
| "clientStep jsonExp (RefreshAnswered answer) s = performRefresh jsonExp answer s"
| "clientStep jsonExp (Answered path status) s = (onResponse path status s, [])"
| "clientStep jsonExp (SignedIn a r) s = (storeTokens jsonExp a r s, [])"
| "clientStep jsonExp (UserLoaded good) s =
     ((if good then s\<lparr>tbUser := True\<rparr> else (clearAllTokens s)\<lparr>tbUser := False\<rparr>), [])"
| "clientStep jsonExp SignedOut s = ((clearAllTokens s)\<lparr>tbUser := False\<rparr>, [])"

fun clientRun :: "(string \<Rightarrow> int option) \<Rightarrow> client_event list \<Rightarrow> tab \<Rightarrow> tab \<times> client_action list" where
  "clientRun jsonExp [] s = (s, [])"
| "clientRun jsonExp (e # es) s =
     (let (s', as) = clientStep jsonExp e s; (s'', bs) = clientRun jsonExp es s' in (s'', as @ bs))"

definition tab0 :: tab where
  "tab0 = \<lparr>tbAccess = None, tbExpiresAt = 0, tbRefresh = None, tbRefreshing = None, tbWaiting = [], tbUser = False\<rparr>"

section \<open>Every request is settled once\<close>

fun called :: "client_event \<Rightarrow> nat list" where
  "called (Call i path t) = [i]"
| "called _ = []"

fun settled :: "client_action \<Rightarrow> nat list" where
  "settled (SendRequest i x) = [i]"
| "settled (FailRequest i) = [i]"
| "settled (PostRefresh r) = []"

lemma settled_maps [simp]:
  "concat (map settled (map (\<lambda>i. SendRequest i x) is)) = is" "concat (map settled (map FailRequest is)) = is"
  by (induction "is") simp_all

definition idle :: "tab \<Rightarrow> bool" where
  "idle s \<longleftrightarrow> (tbRefreshing s = None \<longrightarrow> tbWaiting s = [])"

lemma clientStep_settles:
  assumes "clientStep jsonExp e s = (s', as)" "idle s"
  shows "idle s' \<and> mset (tbWaiting s) + mset (called e) = mset (concat (map settled as)) + mset (tbWaiting s')"
  using assms
  by (cases e)
     (auto simp: idle_def onRequest_def performRefresh_def onResponse_def storeTokens_def clearAllTokens_def Let_def
       comp_def split: if_splits option.splits refresh_answer.splits)

lemma clientRun_settles:
  assumes "clientRun jsonExp es s = (s', as)" "idle s"
  shows "idle s' \<and> mset (tbWaiting s) + mset (concat (map called es)) =
    mset (concat (map settled as)) + mset (tbWaiting s')"
  using assms
proof (induction es arbitrary: s as)
  case (Cons e es)
  obtain s1 as1 s2 as2 where run: "clientStep jsonExp e s = (s1, as1)" "clientRun jsonExp es s1 = (s2, as2)"
    by (metis prod.exhaust)
  then have eq: "s' = s2" "as = as1 @ as2" using Cons.prems(1) by simp_all
  from clientStep_settles [OF run(1) Cons.prems(2)]
  have 1: "idle s1" "mset (tbWaiting s) + mset (called e) = mset (concat (map settled as1)) + mset (tbWaiting s1)"
    by simp_all
  from Cons.IH [OF run(2) [folded eq(1)] 1(1)]
  have 2: "idle s'" "mset (tbWaiting s1) + mset (concat (map called es)) =
      mset (concat (map settled as2)) + mset (tbWaiting s')"
    by simp_all
  have "mset (tbWaiting s) + mset (concat (map called (e # es))) =
      (mset (tbWaiting s) + mset (called e)) + mset (concat (map called es))" by simp
  also have "\<dots> = mset (concat (map settled as1)) + (mset (tbWaiting s1) + mset (concat (map called es)))"
    unfolding 1(2) by simp
  also have "\<dots> = mset (concat (map settled (as1 @ as2))) + mset (tbWaiting s')"
    unfolding 2(2) by simp
  finally show ?case using 2(1) unfolding eq(2) by simp
qed simp

section \<open>A refresh token is presented once\<close>

fun granted :: "client_event \<Rightarrow> string list" where
  "granted (RefreshAnswered (Granted a r)) = [r]"
| "granted (SignedIn a r) = [r]"
| "granted _ = []"

fun presented :: "client_action \<Rightarrow> string list" where
  "presented (PostRefresh r) = [r]"
| "presented _ = []"

lemma concat_nils [simp]: "concat (map (\<lambda>x. []) xs) = []"
  by (induction xs) simp_all

text \<open>What was presented so far, what was granted so far, and the tab.\<close>

definition tokens_ok :: "string list \<Rightarrow> string set \<Rightarrow> tab \<Rightarrow> bool" where
  "tokens_ok ps gs s \<longleftrightarrow> distinct ps \<and> set ps \<subseteq> gs \<and> set_option (tbRefresh s) \<subseteq> gs \<and>
     (\<forall>r. tbRefresh s = Some r \<and> r \<in> set ps \<longrightarrow> tbRefreshing s = Some r)"

lemma clientStep_tokens:
  assumes "clientStep jsonExp e s = (s', as)" "tokens_ok ps gs s" "set (granted e) \<inter> gs = {}"
    "e \<noteq> RefreshAnswered Lost"
  shows "tokens_ok (ps @ concat (map presented as)) (gs \<union> set (granted e)) s'"
  using assms
  by (cases e)
     (auto simp: tokens_ok_def tokenOf_def onRequest_def performRefresh_def onResponse_def storeTokens_def
       clearAllTokens_def Let_def comp_def split: if_splits option.splits refresh_answer.splits)

lemma clientRun_tokens:
  assumes "clientRun jsonExp es s = (s', as)" "tokens_ok ps gs s" "set (concat (map granted es)) \<inter> gs = {}"
    "distinct (concat (map granted es))" "RefreshAnswered Lost \<notin> set es"
  shows "tokens_ok (ps @ concat (map presented as)) (gs \<union> set (concat (map granted es))) s'"
  using assms
proof (induction es arbitrary: s as ps gs)
  case (Cons e es)
  obtain s1 as1 s2 as2 where run: "clientStep jsonExp e s = (s1, as1)" "clientRun jsonExp es s1 = (s2, as2)"
    by (metis prod.exhaust)
  then have eq: "s' = s2" "as = as1 @ as2" using Cons.prems(1) by simp_all
  have "tokens_ok (ps @ concat (map presented as1)) (gs \<union> set (granted e)) s1"
    using clientStep_tokens [OF run(1) Cons.prems(2)] Cons.prems(3,5) by auto
  from Cons.IH [OF run(2) [folded eq(1)] this] Cons.prems(3-5)
  have "tokens_ok ((ps @ concat (map presented as1)) @ concat (map presented as2))
      ((gs \<union> set (granted e)) \<union> set (concat (map granted es))) s'"
    by auto
  then show ?case unfolding eq by (simp add: Un_assoc)
qed simp

text \<open>C39: Over any interleaving of requests, answers, signing in and out: every request leaves or fails
  exactly once or waits for the refresh in flight. As long as the server grants each refresh token
  once and no answer to a refresh is lost, the tab presents every refresh token at most once and only
  tokens it was granted, so it never trips the reuse detection of the server. A lost answer makes the
  tab present its token again. Signing out while a refresh is in flight does not last: its answer
  stores tokens in a tab without a user.\<close>

theorem client_session:
  assumes run: "clientRun jsonExp es tab0 = (s, as)"
  shows "mset (concat (map called es)) = mset (concat (map settled as)) + mset (tbWaiting s) \<and>
    (tbRefreshing s = None \<longrightarrow> tbWaiting s = []) \<and>
    (distinct (concat (map granted es)) \<and> RefreshAnswered Lost \<notin> set es \<longrightarrow>
       distinct (concat (map presented as)) \<and>
       set (concat (map presented as)) \<subseteq> set (concat (map granted es))) \<and>
    (tbRefreshing s = None \<and> tokenOf (tbRefresh s) = Some r \<and> path \<notin> set SKIP_AUTH_SCHEMA_PATHS \<and>
       tbExpiresAt s - REFRESH_BUFFER_MS \<le> t \<longrightarrow>
       snd (clientRun jsonExp [Call i path t, RefreshAnswered Lost, Call j path t] s) =
         [PostRefresh r, FailRequest i, PostRefresh r] \<and>
       (\<exists>s'. clientRun jsonExp [Call i path t, SignedOut, RefreshAnswered (Granted a r')] s =
           (s', [PostRefresh r, SendRequest i (tokenOf (Some a))]) \<and>
         \<not> tbUser s' \<and> tbAccess s' = Some a \<and> tbRefresh s' = Some r'))"
proof (intro conjI impI)
  have idle: "idle tab0" "tbWaiting tab0 = []" by (simp_all add: idle_def tab0_def)
  from clientRun_settles [OF run idle(1)]
  show "mset (concat (map called es)) = mset (concat (map settled as)) + mset (tbWaiting s)"
    and "tbRefreshing s = None \<Longrightarrow> tbWaiting s = []"
    by (simp_all add: idle(2) idle_def)
  have "tokens_ok [] {} tab0" by (simp add: tokens_ok_def tab0_def)
  moreover assume "distinct (concat (map granted es)) \<and> RefreshAnswered Lost \<notin> set es"
  ultimately have "tokens_ok ([] @ concat (map presented as)) ({} \<union> set (concat (map granted es))) s"
    using clientRun_tokens [OF run] by blast
  then show "distinct (concat (map presented as))"
    "set (concat (map presented as)) \<subseteq> set (concat (map granted es))"
    by (simp_all add: tokens_ok_def)
next
  assume *: "tbRefreshing s = None \<and> tokenOf (tbRefresh s) = Some r \<and> path \<notin> set SKIP_AUTH_SCHEMA_PATHS \<and>
    tbExpiresAt s - REFRESH_BUFFER_MS \<le> t"
  show "snd (clientRun jsonExp [Call i path t, RefreshAnswered Lost, Call j path t] s) =
      [PostRefresh r, FailRequest i, PostRefresh r]"
    using * by (simp add: onRequest_def performRefresh_def Let_def)
  show "\<exists>s'. clientRun jsonExp [Call i path t, SignedOut, RefreshAnswered (Granted a r')] s =
      (s', [PostRefresh r, SendRequest i (tokenOf (Some a))]) \<and>
    \<not> tbUser s' \<and> tbAccess s' = Some a \<and> tbRefresh s' = Some r'"
    using * by (simp add: onRequest_def performRefresh_def clearAllTokens_def storeTokens_def Let_def)
qed

definition visit :: "client_event list" where
  "visit = [SignedIn ''a.1.s'' ''r1'', Call 1 ''/api/v1/auth/me'' 0, UserLoaded True,
     Call 2 ''/jobs'' 900000, Call 3 ''/jobs'' 900001, RefreshAnswered (Granted ''a.2.s'' ''r2''), Answered ''/jobs'' 200]"

theorem client_session_witness:
  "snd (clientRun (\<lambda>s. Some (if s = ''1'' then 900 else 1800)) visit tab0) =
     [SendRequest 1 (Some ''a.1.s''), PostRefresh ''r1'', SendRequest 2 (Some ''a.2.s''), SendRequest 3 (Some ''a.2.s'')] \<and>
   distinct (concat (map presented (snd (clientRun (\<lambda>s. Some (if s = ''1'' then 900 else 1800)) visit tab0))))"
proof -
  let ?j = "\<lambda>s. Some (if s = ''1'' then 900 else 1800 :: int)"
  have "snd (clientRun ?j visit tab0) =
     [SendRequest 1 (Some ''a.1.s''), PostRefresh ''r1'', SendRequest 2 (Some ''a.2.s''), SendRequest 3 (Some ''a.2.s'')]"
    by code_simp
  moreover have "distinct (concat (map granted visit)) \<and> RefreshAnswered Lost \<notin> set visit"
    by (simp add: visit_def)
  ultimately show ?thesis
    using client_session [of ?j visit "fst (clientRun ?j visit tab0)" "snd (clientRun ?j visit tab0)"] by simp
qed

end
