(* ===== verification/Client_Exam.thy ===== *)
theory Client_Exam
  imports Exam_Props Candidate_Facts
begin

text \<open>
  The exam page of the browser: the counters of the secured environment
  (\<open>frontend/src/features/assessments/use-secure-exam.ts\<close>), the attempt the page keeps
  (\<open>session-store.ts\<close>), and the reports to the server
  (\<open>frontend/src/app/(dashboard)/(candidate)/assessments/page.tsx\<close>), together with what the server
  makes of a report (\<open>recordProctoringEvents\<close> of \<open>Assessments\<close>). A state is the page after its
  effects have run; the full-screen display and the blocking of copy and paste are left out.
\<close>

section \<open>The page\<close>

record exam_page =
  pgSession :: "(uuid \<times> assessment_status) option"
  tabHidden :: bool
  windowBlurred :: bool
  hkTabSwitches :: int
  hkWindowBlurs :: int

definition page0 :: exam_page where
  "page0 = \<lparr>pgSession = None, tabHidden = False, windowBlurred = False, hkTabSwitches = 0, hkWindowBlurs = 0\<rparr>"

definition activeAssessmentId :: "exam_page \<Rightarrow> uuid option" where
  "activeAssessmentId p = (case pgSession p of Some (i, AS_IN_PROGRESS) \<Rightarrow> Some i | _ \<Rightarrow> None)"

datatype page_event =
    Visibility bool
  | WindowBlur
  | WindowFocus
  | SetSession uuid assessment_status
  | UpdateStatus assessment_status
  | ClearSession

text \<open>The listeners are attached while an attempt is in progress.\<close>

fun domEvent :: "page_event \<Rightarrow> exam_page \<Rightarrow> exam_page" where
  "domEvent (Visibility shown) p =
     p\<lparr>tabHidden := \<not> shown, hkTabSwitches := hkTabSwitches p + (if shown then 0 else 1)\<rparr>"
| "domEvent WindowBlur p = p\<lparr>windowBlurred := True, hkWindowBlurs := hkWindowBlurs p + 1\<rparr>"
| "domEvent WindowFocus p = p\<lparr>windowBlurred := False\<rparr>"
| "domEvent _ p = p"

fun sessionEvent :: "page_event \<Rightarrow> exam_page \<Rightarrow> exam_page" where
  "sessionEvent (SetSession i st) p = p\<lparr>pgSession := Some (i, st)\<rparr>"
| "sessionEvent (UpdateStatus st) p = p\<lparr>pgSession := map_option (\<lambda>(i, _). (i, st)) (pgSession p)\<rparr>"
| "sessionEvent ClearSession p = p\<lparr>pgSession := None\<rparr>"
| "sessionEvent _ p = p"

text \<open>Detaching the listeners resets the two flags and not the counters.\<close>

definition useSecureExam :: "page_event \<Rightarrow> exam_page \<Rightarrow> exam_page" where
  "useSecureExam e p =
     (let q = sessionEvent e (if activeAssessmentId p \<noteq> None then domEvent e p else p)
      in if activeAssessmentId p \<noteq> None \<and> activeAssessmentId q = None
         then q\<lparr>tabHidden := False, windowBlurred := False\<rparr> else q)"

text \<open>The reporting effect runs when the attempt or a counter has changed.\<close>

definition reportEffect :: "exam_page \<Rightarrow> exam_page \<Rightarrow> (uuid \<times> int \<times> int) list" where
  "reportEffect p q =
     (case activeAssessmentId q of
        None \<Rightarrow> []
      | Some i \<Rightarrow>
          if (hkTabSwitches q = 0 \<and> hkWindowBlurs q = 0) \<or>
             (activeAssessmentId p, hkTabSwitches p, hkWindowBlurs p) =
             (activeAssessmentId q, hkTabSwitches q, hkWindowBlurs q)
          then [] else [(i, hkTabSwitches q, hkWindowBlurs q)])"

definition pageStep :: "page_event \<Rightarrow> exam_page \<Rightarrow> exam_page \<times> (uuid \<times> int \<times> int) list" where
  "pageStep e p = (let q = useSecureExam e p in (q, reportEffect p q))"

fun pageRun :: "page_event list \<Rightarrow> exam_page \<Rightarrow> exam_page \<times> (uuid \<times> int \<times> int) list" where
  "pageRun [] p = (p, [])"
| "pageRun (e # es) p =
     (let (q, rs) = pageStep e p; (q', ss) = pageRun es q in (q', rs @ ss))"

section \<open>What the reports say\<close>

definition reports_ok :: "exam_page \<Rightarrow> (uuid \<times> int \<times> int) list \<Rightarrow> bool" where
  "reports_ok p rs \<longleftrightarrow> 0 \<le> hkTabSwitches p \<and> 0 \<le> hkWindowBlurs p \<and>
     (\<forall>(i, t, b) \<in> set rs. t \<le> hkTabSwitches p \<and> b \<le> hkWindowBlurs p) \<and>
     (\<forall>i. activeAssessmentId p = Some i \<and> (hkTabSwitches p, hkWindowBlurs p) \<noteq> (0, 0) \<longrightarrow>
        (\<exists>ss. rs = ss @ [(i, hkTabSwitches p, hkWindowBlurs p)]))"

lemma useSecureExam_counts:
  "hkTabSwitches p \<le> hkTabSwitches (useSecureExam e p)" "hkWindowBlurs p \<le> hkWindowBlurs (useSecureExam e p)"
  by (cases e; simp add: useSecureExam_def Let_def)+

lemma reports_ok_step:
  assumes "reports_ok p rs" "pageStep e p = (q, ss)"
  shows "reports_ok q (rs @ ss)"
proof -
  have q: "q = useSecureExam e p" "ss = reportEffect p q" using assms(2) by (auto simp: pageStep_def Let_def)
  have le: "hkTabSwitches p \<le> hkTabSwitches q" "hkWindowBlurs p \<le> hkWindowBlurs q"
    unfolding q(1) by (rule useSecureExam_counts)+
  have "\<forall>(i, t, b) \<in> set (rs @ ss). t \<le> hkTabSwitches q \<and> b \<le> hkWindowBlurs q"
    using assms(1) le unfolding q(2) reports_ok_def reportEffect_def
    by (fastforce split: option.splits if_splits)
  moreover have "\<exists>ts. rs @ ss = ts @ [(i, hkTabSwitches q, hkWindowBlurs q)]"
    if i: "activeAssessmentId q = Some i" "(hkTabSwitches q, hkWindowBlurs q) \<noteq> (0, 0)" for i
  proof (cases "(activeAssessmentId p, hkTabSwitches p, hkWindowBlurs p) =
      (activeAssessmentId q, hkTabSwitches q, hkWindowBlurs q)")
    case True
    then have "ss = []" using i by (simp add: q(2) reportEffect_def)
    with True i assms(1) show ?thesis by (simp add: reports_ok_def)
  next
    case False
    then have "ss = [(i, hkTabSwitches q, hkWindowBlurs q)]" using i by (auto simp: q(2) reportEffect_def)
    then show ?thesis by simp
  qed
  ultimately show ?thesis using assms(1) le by (auto simp: reports_ok_def)
qed

lemma reports_ok_run:
  assumes "reports_ok p rs" "pageRun es p = (q, ss)"
  shows "reports_ok q (rs @ ss)"
  using assms
proof (induction es arbitrary: p rs ss)
  case (Cons e es)
  obtain p1 s1 q2 s2 where run: "pageStep e p = (p1, s1)" "pageRun es p1 = (q2, s2)" by (metis prod.exhaust)
  then have "q = q2" "ss = s1 @ s2" using Cons.prems(2) by simp_all
  with Cons.IH [OF reports_ok_step [OF Cons.prems(1) run(1)] run(2) [folded \<open>q = q2\<close>]] show ?case by simp
qed simp

section \<open>What the server makes of them\<close>

definition deliverReports :: "(uuid \<times> int \<times> int) list \<Rightarrow> assessment \<Rightarrow> assessment" where
  "deliverReports rs a = foldl (\<lambda>a (i, t, b). observed t b a) a rs"

lemma deliverReports_max:
  assumes "\<forall>(i, t, b) \<in> set rs. t \<le> m \<and> b \<le> n" "tabSwitchCount a \<le> m" "windowBlurCount a \<le> n"
    "(j, m, n) \<in> set rs \<or> tabSwitchCount a = m \<and> windowBlurCount a = n"
  shows "tabSwitchCount (deliverReports rs a) = m \<and> windowBlurCount (deliverReports rs a) = n"
  using assms
proof (induction rs arbitrary: a)
  case (Cons r rs)
  obtain i t b where r: "r = (i, t, b)" by (metis prod.exhaust)
  have "tabSwitchCount (deliverReports rs (observed t b a)) = m \<and>
      windowBlurCount (deliverReports rs (observed t b a)) = n"
    using Cons.prems r by (intro Cons.IH) (auto simp: observed_def)
  then show ?case by (simp add: r deliverReports_def)
qed (auto simp: deliverReports_def)

lemma recorded_status:
  assumes "recordProctoringEvents env c i tabs blurs w = (Inr a', w')"
    "List.find (\<lambda>a. asId a = i) (assessments (db w)) = Some a"
    "list_all (\<lambda>s. setKey s \<noteq> PROCTORING_LEAVE_HARD_THRESHOLD_KEY) (settings (db w))"
  shows "asStatus a' = (if 10 \<le> max (tabSwitchCount a) tabs + max (windowBlurCount a) blurs
    then AS_INCIDENT else AS_IN_PROGRESS)"
proof -
  obtain threshold where t: "numberOr env PROCTORING_LEAVE_FLAG_THRESHOLD_KEY
      DEFAULT_PROCTORING_LEAVE_FLAG_THRESHOLD w = (Inr threshold, w)"
    using numberOr_returns by blast
  obtain x where x: "ownAttempt c i AS_IN_PROGRESS ''not-in-progress'' w = (Inr x, w)"
    using assms(1) by (cases "ownAttempt c i AS_IN_PROGRESS ''not-in-progress'' w")
      (auto simp: recordProctoringEvents_def bindE_def returns split: sum.splits)
  with assms(2) have own: "ownAttempt c i AS_IN_PROGRESS ''not-in-progress'' w = (Inr a, w)" "asStatus a = AS_IN_PROGRESS"
    by (auto simp: returns)
  have steps: "bindE (ownAttempt c i AS_IN_PROGRESS ''not-in-progress'') f w = f a w"
    "bindE (numberOr env PROCTORING_LEAVE_FLAG_THRESHOLD_KEY DEFAULT_PROCTORING_LEAVE_FLAG_THRESHOLD) g w = g threshold w"
    "bindE (numberOr env PROCTORING_LEAVE_HARD_THRESHOLD_KEY DEFAULT_PROCTORING_LEAVE_HARD_THRESHOLD) g w =
      g (Finite DEFAULT_PROCTORING_LEAVE_HARD_THRESHOLD) w"
    "bindE (saveAssessment x) f w = f x (snd (saveAssessment x w))"
    for f :: "assessment \<Rightarrow> assessment service" and g x
    by (simp_all add: bindE_def own(1) t numberOr_default [OF assms(3)] saveAssessment_eq)
  have last: "y = z" if "bindE m (\<lambda>_. bindE m' (\<lambda>_. ret z)) w = (Inr y, w')" for m m' y z and w w' :: world
    using that by (auto simp: returns)
  have "a' = proctored threshold (Finite DEFAULT_PROCTORING_LEAVE_HARD_THRESHOLD) (observed tabs blurs a)"
    using assms(1) unfolding recordProctoringEvents_def steps by (rule last)
  moreover define n where "n = max (tabSwitchCount a) tabs + max (windowBlurCount a) blurs"
  moreover have "leaves (observed tabs blurs a) = Finite (of_int n)"
    by (simp add: leaves_def observed_def n_def)
  moreover have "jsLe (Finite 10) (Finite (of_int n)) \<longleftrightarrow> 10 \<le> n"
    by (simp only: jsLe.simps of_int_numeral_le_iff)
  moreover have "asStatus (observed tabs blurs a) = AS_IN_PROGRESS"
    using own(2) by (simp add: observed_def)
  ultimately show ?thesis
    by (simp add: proctored_def DEFAULT_PROCTORING_LEAVE_HARD_THRESHOLD_def del: jsLe.simps)
qed

text \<open>C40: In any session of the page, the last report for the attempt in progress carries the counters of
  the page, and it is enough that this one arrives: any others may be lost, repeated or reordered. But
  the counters belong to the page and not to the attempt: the first thing reported for an attempt
  started later is what was counted in the earlier ones, and with ten leaves there (the default limit)
  the server voids the new attempt before the candidate has left it once.\<close>

theorem leaves_carried_over:
  assumes run: "pageRun es page0 = (p, rs)"
  shows "(activeAssessmentId p = Some i \<and> (hkTabSwitches p, hkWindowBlurs p) \<noteq> (0, 0) \<longrightarrow>
      rs \<noteq> [] \<and> last rs = (i, hkTabSwitches p, hkWindowBlurs p) \<and>
      (\<forall>ds (a :: assessment). set ds \<subseteq> set rs \<and> last rs \<in> set ds \<and> tabSwitchCount a = 0 \<and> windowBlurCount a = 0 \<longrightarrow>
         tabSwitchCount (deliverReports ds a) = hkTabSwitches p \<and>
         windowBlurCount (deliverReports ds a) = hkWindowBlurs p)) \<and>
    (activeAssessmentId p = None \<and> 10 \<le> hkTabSwitches p + hkWindowBlurs p \<longrightarrow>
      (\<exists>q. pageStep (SetSession j AS_IN_PROGRESS) p = (q, [(j, hkTabSwitches p, hkWindowBlurs p)])) \<and>
      (\<forall>env c w a a' w'. recordProctoringEvents env c j (hkTabSwitches p) (hkWindowBlurs p) w = (Inr a', w') \<and>
         List.find (\<lambda>a. asId a = j) (assessments (db w)) = Some a \<and>
         tabSwitchCount a = 0 \<and> windowBlurCount a = 0 \<and>
         list_all (\<lambda>s. setKey s \<noteq> PROCTORING_LEAVE_HARD_THRESHOLD_KEY) (settings (db w)) \<longrightarrow>
           asStatus a' = AS_INCIDENT))"
proof -
  have "reports_ok page0 []" by (simp add: reports_ok_def page0_def)
  from reports_ok_run [OF this run] have ok: "reports_ok p rs" by simp
  show ?thesis
  proof (intro conjI impI)
    assume "activeAssessmentId p = Some i \<and> (hkTabSwitches p, hkWindowBlurs p) \<noteq> (0, 0)"
    then obtain ss where rs: "rs = ss @ [(i, hkTabSwitches p, hkWindowBlurs p)]"
      using ok unfolding reports_ok_def by blast
    then show "rs \<noteq> []" "last rs = (i, hkTabSwitches p, hkWindowBlurs p)" by simp_all
    show "\<forall>ds (a :: assessment). set ds \<subseteq> set rs \<and> last rs \<in> set ds \<and> tabSwitchCount a = 0 \<and> windowBlurCount a = 0 \<longrightarrow>
        tabSwitchCount (deliverReports ds a) = hkTabSwitches p \<and>
        windowBlurCount (deliverReports ds a) = hkWindowBlurs p"
    proof (intro allI impI)
      fix ds and a :: assessment
      assume *: "set ds \<subseteq> set rs \<and> last rs \<in> set ds \<and> tabSwitchCount a = 0 \<and> windowBlurCount a = 0"
      show "tabSwitchCount (deliverReports ds a) = hkTabSwitches p \<and>
          windowBlurCount (deliverReports ds a) = hkWindowBlurs p"
        by (rule deliverReports_max [where j = i]) (use * ok rs in \<open>auto simp: reports_ok_def\<close>)
    qed
  next
    assume *: "activeAssessmentId p = None \<and> 10 \<le> hkTabSwitches p + hkWindowBlurs p"
    then show "\<exists>q. pageStep (SetSession j AS_IN_PROGRESS) p = (q, [(j, hkTabSwitches p, hkWindowBlurs p)])"
      by (auto simp: pageStep_def useSecureExam_def reportEffect_def activeAssessmentId_def Let_def)
    show "\<forall>env c w a a' w'. recordProctoringEvents env c j (hkTabSwitches p) (hkWindowBlurs p) w = (Inr a', w') \<and>
        List.find (\<lambda>a. asId a = j) (assessments (db w)) = Some a \<and>
        tabSwitchCount a = 0 \<and> windowBlurCount a = 0 \<and>
        list_all (\<lambda>s. setKey s \<noteq> PROCTORING_LEAVE_HARD_THRESHOLD_KEY) (settings (db w)) \<longrightarrow>
          asStatus a' = AS_INCIDENT"
    proof (intro allI impI, elim conjE)
      fix env c w a a' w'
      assume run: "recordProctoringEvents env c j (hkTabSwitches p) (hkWindowBlurs p) w = (Inr a', w')"
        "List.find (\<lambda>a. asId a = j) (assessments (db w)) = Some a"
        "list_all (\<lambda>s. setKey s \<noteq> PROCTORING_LEAVE_HARD_THRESHOLD_KEY) (settings (db w))"
        and "tabSwitchCount a = 0" "windowBlurCount a = 0"
      with recorded_status [OF run] * ok show "asStatus a' = AS_INCIDENT"
        by (simp add: reports_ok_def max_def split: if_splits)
    qed
  qed
qed

text \<open>Five times out of the tab and the window, in an attempt that is then completed.\<close>

definition earlier_attempt :: "page_event list" where
  "earlier_attempt = SetSession 60 AS_IN_PROGRESS #
     concat (replicate 5 [WindowBlur, Visibility False, Visibility True, WindowFocus]) @ [UpdateStatus AS_COMPLETED]"

theorem leaves_carried_over_witness:
  "(\<exists>q. pageStep (SetSession 72 AS_IN_PROGRESS) (fst (pageRun earlier_attempt page0)) = (q, [(72, 5, 5)])) \<and>
   (\<exists>a' w'. recordProctoringEvents env0 2 72 5 5 world_exam = (Inr a', w') \<and> asStatus a' = AS_INCIDENT)"
proof -
  let ?p = "fst (pageRun earlier_attempt page0)"
  have p: "activeAssessmentId ?p = None" "hkTabSwitches ?p = 5" "hkWindowBlurs ?p = 5" by code_simp+
  have w: "List.find (\<lambda>a. asId a = 72) (assessments (db world_exam)) = Some attempt0"
    "list_all (\<lambda>s. setKey s \<noteq> PROCTORING_LEAVE_HARD_THRESHOLD_KEY) (settings (db world_exam))"
    by (simp_all add: sample_defs world_exam_def attempt0_def)
  have "isl (fst (recordProctoringEvents env0 2 72 5 5 world_exam)) = False" by code_simp
  then obtain a' w' where r: "recordProctoringEvents env0 2 72 5 5 world_exam = (Inr a', w')"
    by (cases "recordProctoringEvents env0 2 72 5 5 world_exam"; cases "fst (recordProctoringEvents env0 2 72 5 5 world_exam)") simp_all
  have zero: "tabSwitchCount attempt0 = 0" "windowBlurCount attempt0 = 0" by (simp_all add: attempt0_def)
  have "pageRun earlier_attempt page0 = (?p, snd (pageRun earlier_attempt page0))" by simp
  from leaves_carried_over [OF this, of 60 72, unfolded p] r w zero show ?thesis by fastforce
qed

end
