(* ===== verification/Spec2Isabelle.thy ===== *)
theory Spec2Isabelle
  imports Billing_Props Company_Props Messaging_Props Auth_Props Team_Props Exam_Props Candidate_Props
    Search_Props Talent_Props Outside_Props Audit_Trail Mail Staff Invoice_Access
    Client_Session Client_Exam
begin

text \<open>
  Verification of a job board, of its server (NestJS and TypeORM, \<open>src/src\<close>) and of two parts of its web
  client: companies subscribe and pay through a payment provider, spend contact credits to write to candidates,
  and arrange interviews; candidates and staff sign in with passwords and one-time codes. The
  theorems are about the services of \<open>src/src/modules\<close> as the code writes them.

  \<^bold>\<open>How the code is modelled.\<close> A service method is an effect
  \<open>'a service = world \<Rightarrow> (exn + 'a) \<times> world\<close> (theory \<open>Prelude\<close>, \<open>Repo\<close>): an exception does not undo what
  was written before it; only \<open>transaction\<close> does (\<open>dataSource.transaction\<close>). \<open>world\<close> (theory
  \<open>Schema\<close>) holds the database, one table per entity with its unique constraints, and the traces that
  leave the process: audit rows, mails, stored files, payment requests, analytics events. \<open>env\<close> is
  the deployment: clock, time zone, configuration, and, for every outside call, an arbitrary
  predicate that says when it fails, so a theorem for every \<open>env\<close> covers every failure. Dates are
  \<open>int\<close> milliseconds, identifiers are \<open>nat\<close> drawn from a counter that no rollback resets, JavaScript
  numbers that the code keeps integral are \<open>int\<close> or \<open>nat\<close>, and where the source uses the 32-bit
  bitwise operators the model has \<open>32 word\<close>. Each service call is atomic, except that the retry
  of a lost race on a unique index is a branch like any other; interleavings of several calls are
  sequences of operations, over which the invariants are proved.

  \<^bold>\<open>The library.\<close>
  \<^item> \<open>Prelude\<close>, \<open>Tables\<close>, \<open>Decimal\<close>, \<open>Schema\<close>, \<open>Repo\<close>, \<open>Frames\<close>: effects and their logic, tables with
    unique indexes (locale \<open>keyed_table\<close>), decimal text, the data model of every entity, repositories
    and transactions, and frames (locale \<open>db_frame\<close>): what part of the database an operation may touch.
  \<^item> \<open>JsNumber\<close>: numbers of the runtime where the code lets them be fractions, infinite or NaN;
    \<open>Settings\<close>: the platform settings and their history, with which many operations are configured.
  \<^item> \<open>World_Frames\<close>: relations between the states before and after a request (locale \<open>world_frame\<close>),
    lifted to sequences of requests that may each fail.
  \<^item> \<open>Lifecycle\<close>, \<open>Consumer\<close>: the abstract subscription machine with its reachable states, and the
    contract of an idempotent message consumer (locale \<open>idempotent_consumer\<close>).
  \<^item> \<open>Sample\<close>: a small concrete deployment on which the witnesses evaluate the operations.

  \<^bold>\<open>The components.\<close>
  \<^item> Billing. \<open>Billing_Rules\<close> (\<open>subscription-lifecycle.ts\<close>, \<open>subscription-access.ts\<close>, \<open>plan-quota.ts\<close>,
    \<open>tax.ts\<close>, \<open>date-utils.ts\<close>), \<open>Stripe\<close> (the provider adapter), \<open>Invoicing\<close> (invoice numbering and
    emission), \<open>Webhook\<close> (\<open>payment-webhook.service.ts\<close> and the two services it calls), \<open>Checkout\<close>
    (\<open>subscription-checkout.service.ts\<close>), \<open>Trial\<close> (trial codes), \<open>Quota\<close> (contact credits, access guard,
    seat limit), \<open>Invoice_Access\<close> (\<open>invoice.service.ts\<close>). \<open>Webhook_Facts\<close> shows what each event does;
    \<open>Webhook_Props\<close> and \<open>Billing_Props\<close> hold the properties: a webhook is applied once and all or
    nothing, invoice numbers of a year are gap-free, subscription rows move along the lifecycle table
    only, credits are counted exactly, VAT is reversible.
  \<^item> Companies. \<open>Subscription_Admin\<close> and \<open>Staff\<close> (staff operations), \<open>Entitlements\<close> (plan matrix,
    overrides, feature guard), \<open>Guards\<close> (roles and second factor on routes); properties in
    \<open>Company_Props\<close>: refinement of the subscription machine, what an override decides, what the guards
    imply of each other. \<open>Team\<close> (company, recruiters, invitations, accounts made by the staff) with
    \<open>Team_Facts\<close> and \<open>Team_Props\<close>: the seats of the plan are kept over any requests, an account is in
    at most one team, an invitation works once.
  \<^item> Messaging. \<open>Notifications\<close>, \<open>Messaging\<close> (\<open>conversation.service.ts\<close>), \<open>Interviews\<close>
    (\<open>interview.service.ts\<close>); \<open>Messaging_Facts\<close> and \<open>Messaging_Props\<close>: a thread costs one credit exactly
    when it is created, outsiders see and change nothing, an interview follows its state machine.
  \<^item> Accounts. \<open>Base32\<close> and \<open>Totp\<close> (\<open>common/crypto/totp.ts\<close>), \<open>Crypto\<close> (the cryptographic library as a
    record of functions with the laws the code relies on, \<open>crypto_ok\<close>; \<open>common/crypto/secret-box.ts\<close>),
    \<open>Mfa\<close> (\<open>auth/mfa.service.ts\<close>), \<open>Referral\<close> (\<open>growth/referral.service.ts\<close>), \<open>Auth\<close>
    (\<open>auth/auth.service.ts\<close>); \<open>Auth_Facts\<close> and \<open>Auth_Props\<close>: single use of refresh tokens, backup codes and
    reset tokens, the second-factor mark, registration, enrolment.
  \<^item> Assessments. \<open>Questions\<close> (the bank and the draw of an exam), \<open>Assessments\<close> (attempts, cooldown, the
    port to the scoring provider and its stub), \<open>Scoring\<close> (webhook, composite, plagiarism, indexation,
    percentiles), \<open>Exam\<close> (the exam taken in the application), \<open>Remediation\<close> (history, reminders,
    proctoring reports); \<open>Exam_Facts\<close> shows that every request is a step of the machine \<open>exam_step\<close>,
    \<open>Percentile_Facts\<close> what a rank is, and \<open>Exam_Props\<close> holds the properties: the shape of an exam, one
    score an attempt, the grade, the rank against a count of the cohort, who is indexed.
  \<^item> Candidates. \<open>Profiles\<close> (the profile and its completeness), \<open>Profile_Items\<close> (skills, experiences,
    links, moderation), \<open>Documents\<close> (the CV), \<open>Candidate_Data\<close> (export, erasure and requests of data
    subjects); \<open>Candidate_Facts\<close>, \<open>Edit_Facts\<close>, \<open>Erasure_Facts\<close> and \<open>Candidate_Props\<close>: what the score
    adds up, what a candidate cannot change, what an erasure removes, the life of a request.
  \<^item> Talent. \<open>Search\<close> (the query of \<open>search.service.ts\<close> as an algebra of conditions, with its cursor),
    \<open>Saved_Search\<close> (saved searches, alerts, views, shortlist), \<open>Jobs\<close> (offers and applications),
    \<open>School\<close> (matching of schools and the review of diplomas), \<open>Insights\<close> (integrity signals, badges,
    retention, analytics); \<open>Search_Props\<close> and \<open>Talent_Props\<close>: what a page shows, what a cursor shows
    beyond it, when an alert settles, every outcome of an application, what a review may do, that the
    purge settles.
  \<^item> The edge. \<open>Outside\<close> and \<open>Outside_Props\<close> (the prober of links with its address guard, the virus
    scanner with its protocol), \<open>Mail\<close> (content and escaping of mails), \<open>Audit_Trail\<close> (the audit trail and
    the answers to exceptions).

  \<^item> The web client, where it has a state machine of its own: \<open>Client_Session\<close> (the tokens of a tab and
    the refresh its requests share, \<open>frontend/src/auth\<close>) and \<open>Client_Exam\<close> (the counters of the exam
    page and their reports, composed with the server's \<open>recordProctoringEvents\<close>).

  \<^bold>\<open>Interfaces.\<close> Each locale states what a client relies on and is interpreted on the code's own
  definitions: tables with unique keys (\<open>keyed_table\<close>), rollback (\<open>rollback\<close>), frames of the database and
  of the world (\<open>db_frame\<close>, \<open>world_frame\<close>), the idempotent consumer, the quota port
  (\<open>contact_quota_port\<close>), access to a thread (\<open>thread_access\<close>) and the scoring port
  (\<open>scoring_port\<close>); the properties use the interpreted facts.

  \<^bold>\<open>Bounds and recursion.\<close> All recursion is structural or has a measure (\<open>chunks\<close> and \<open>unframe\<close>: the bytes
  left; \<open>like\<close>: the pattern and the text left; \<open>dec\<close>: the number); no fuel is used. The three attempts of the
  referral code are a bound of the source.

  \<^bold>\<open>Not modelled.\<close> Controllers, DTO validation, dependency injection and routing (framework); mail
  delivery, storage, text recognition, cache, tracing and the payment SDK (parameters or recorded
  effects); the registration of background jobs (the sweeps themselves are modelled); the layout of the
  PDF and of the HTML mails; the dates of analytics events; migrations and seeds; the other pages of
  the web client, whose rules the services enforce.
\<close>

end
